(* ===== verification/Prelude.thy ===== *)
theory Prelude
  imports Main "HOL-Library.AList" "HOL-Library.Char_ord" "HOL-Library.List_Lexorder"
begin

text \<open>
  What every component shares: the result type of fallible Go functions, the two loop idioms
  that occur in nearly every file of the program ("append when absent", "keep the last n"),
  decimal printing, and the parts of Go's \<open>strings\<close> package the code uses
  (\<open>TrimSpace\<close>, \<open>ToLower\<close>, \<open>Contains\<close>, \<open>HasPrefix\<close>, \<open>HasSuffix\<close>, \<open>Join\<close>). A Go string is a
  byte string, so it is an Isabelle \<open>string\<close>; \<open>TrimSpace\<close> knows the UTF-8 encodings of every
  Unicode white-space character, \<open>ToLower\<close> is its ASCII part.
\<close>

named_theorems loop_simps \<open>equations of the list loops the components share\<close>

section \<open>Append when absent\<close>

text \<open>\<open>if !contains(xs, v) \<cdot> xs = append(xs, v)\<close>, and the loop that does it for every element.\<close>

definition add_unique :: "'a list \<Rightarrow> 'a \<Rightarrow> 'a list" where
  "add_unique xs v = (if v \<in> set xs then xs else xs @ [v])"

fun add_all_unique :: "'a list \<Rightarrow> 'a list \<Rightarrow> 'a list" where
  "add_all_unique xs [] = xs"
| "add_all_unique xs (v # vs) = add_all_unique (add_unique xs v) vs"

lemma set_add_unique [simp]: "set (add_unique xs v) = insert v (set xs)"
  by (auto simp: add_unique_def)

lemma distinct_add_unique [simp]: "distinct (add_unique xs v) = distinct xs"
  by (auto simp: add_unique_def)

lemma set_add_all_unique [simp]: "set (add_all_unique xs vs) = set xs \<union> set vs"
  by (induction xs vs rule: add_all_unique.induct) auto

lemma distinct_add_all_unique [simp]: "distinct (add_all_unique xs vs) = distinct xs"
  by (induction xs vs rule: add_all_unique.induct) auto

lemma add_unique_prefix: "\<exists>ys. add_unique xs v = xs @ ys"
  by (auto simp: add_unique_def)

lemma add_all_unique_prefix: "\<exists>ys. add_all_unique xs vs = xs @ ys"
proof (induction xs vs rule: add_all_unique.induct)
  case (2 xs v vs)
  then obtain ys where "add_all_unique (add_unique xs v) vs = add_unique xs v @ ys" by blast
  with add_unique_prefix [of xs v] show ?case by auto
qed simp

lemma add_all_unique_Nil_distinct: "distinct vs \<Longrightarrow> set xs \<inter> set vs = {} \<Longrightarrow> add_all_unique xs vs = xs @ vs"
  by (induction xs vs rule: add_all_unique.induct) (auto simp: add_unique_def)

lemma length_add_unique_le: "length xs \<le> length (add_unique xs v)"
  by (simp add: add_unique_def)

lemma length_add_all_unique_le: "length xs \<le> length (add_all_unique xs vs)"
  using add_all_unique_prefix [of xs vs] by auto

section \<open>Keep the last n\<close>

definition last_n :: "nat \<Rightarrow> 'a list \<Rightarrow> 'a list" where
  "last_n n xs = (if length xs \<le> n then xs else drop (length xs - n) xs)"

lemma last_n_alt: "last_n n xs = drop (length xs - n) xs"
  by (simp add: last_n_def)

lemma length_last_n [simp]: "length (last_n n xs) = min n (length xs)"
  by (simp add: last_n_def)

lemma set_last_n: "set (last_n n xs) \<subseteq> set xs"
  by (simp add: last_n_def set_drop_subset)

lemma last_n_snoc: "0 < n \<Longrightarrow> last_n n (xs @ [x]) = last_n (n - 1) xs @ [x]"
  by (auto simp: last_n_alt Suc_diff_le)

section \<open>Association lists read as Go maps\<close>

text \<open>A Go map read: the stored value, or the type's zero value when the key is absent.\<close>

definition lookup_def :: "'v \<Rightarrow> ('k \<times> 'v) list \<Rightarrow> 'k \<Rightarrow> 'v" where
  "lookup_def z m k = (case map_of m k of None \<Rightarrow> z | Some v \<Rightarrow> v)"

lemma lookup_def_Nil [simp]: "lookup_def z [] k = z"
  by (simp add: lookup_def_def)

lemma lookup_def_update: "lookup_def z (AList.update k v m) k' = (if k' = k then v else lookup_def z m k')"
  by (simp add: lookup_def_def update_conv')

lemma lookup_def_update_same [simp]: "lookup_def z (AList.update k v m) k = v"
  by (simp add: lookup_def_update)

lemma lookup_def_update_other [simp]: "k' \<noteq> k \<Longrightarrow> lookup_def z (AList.update k v m) k' = lookup_def z m k'"
  by (simp add: lookup_def_update)

lemma map_of_update: "map_of (AList.update k v m) k' = (if k' = k then Some v else map_of m k')"
  by (simp add: update_conv')

section \<open>Printing numbers\<close>

fun show_nat :: "nat \<Rightarrow> string" where
  "show_nat n = (if n < 10 then [char_of (48 + n)] else show_nat (n div 10) @ [char_of (48 + n mod 10)])"

declare show_nat.simps [simp del]

definition show_int :: "int \<Rightarrow> string" where
  "show_int i = (if i < 0 then CHR ''-'' # show_nat (nat (- i)) else show_nat (nat i))"

lemma show_nat_nonempty [simp]: "show_nat n \<noteq> []"
  by (subst show_nat.simps) simp

text \<open>\<open>fmt.Sprintf("%02d", n)\<close>: padded with zeros to two characters, the sign included.\<close>

definition pad2 :: "int \<Rightarrow> string" where
  "pad2 n = (if 0 \<le> n \<and> n < 10 then CHR ''0'' # show_int n else show_int n)"

section \<open>Strings\<close>

fun join :: "string \<Rightarrow> string list \<Rightarrow> string" where
  "join sep [] = []"
| "join sep [s] = s"
| "join sep (s # ss) = s @ sep @ join sep ss"

definition has_prefix :: "string \<Rightarrow> string \<Rightarrow> bool" where
  "has_prefix p s \<longleftrightarrow> take (length p) s = p"

definition has_suffix :: "string \<Rightarrow> string \<Rightarrow> bool" where
  "has_suffix p s \<longleftrightarrow> has_prefix (rev p) (rev s)"

fun str_contains :: "string \<Rightarrow> string \<Rightarrow> bool" where
  "str_contains [] sub = (sub = [])"
| "str_contains (c # cs) sub = (has_prefix sub (c # cs) \<or> str_contains cs sub)"

lemma has_prefix_append [simp]: "has_prefix p (p @ s)"
  by (simp add: has_prefix_def)

lemma has_prefix_iff: "has_prefix p s \<longleftrightarrow> (\<exists>r. s = p @ r)"
  by (metis append_take_drop_id has_prefix_append has_prefix_def)

lemma str_contains_iff: "str_contains s sub \<longleftrightarrow> (\<exists>a b. s = a @ sub @ b)"
proof (induction s)
  case (Cons c cs)
  have "(\<exists>a b. c # cs = a @ sub @ b) \<longleftrightarrow> (\<exists>r. c # cs = sub @ r) \<or> (\<exists>a b. cs = a @ sub @ b)"
    by (metis append_Cons append_Nil append_eq_Cons_conv)
  with Cons show ?case by (simp add: has_prefix_iff)
qed simp

definition lower_char :: "char \<Rightarrow> char" where
  "lower_char c = (let n = (of_char c :: nat) in if 65 \<le> n \<and> n \<le> 90 then char_of (n + 32) else c)"

definition to_lower :: "string \<Rightarrow> string" where
  "to_lower s = map lower_char s"

text \<open>The UTF-8 encodings of the white-space characters \<open>unicode.IsSpace\<close> accepts.\<close>

definition white_space :: "string list" where
  "white_space =
     [[CHR 0x09], [CHR 0x0A], [CHR 0x0B], [CHR 0x0C], [CHR 0x0D], [CHR 0x20],
      [CHR 0xC2, CHR 0x85], [CHR 0xC2, CHR 0xA0], [CHR 0xE1, CHR 0x9A, CHR 0x80],
      [CHR 0xE2, CHR 0x80, CHR 0x80], [CHR 0xE2, CHR 0x80, CHR 0x81], [CHR 0xE2, CHR 0x80, CHR 0x82],
      [CHR 0xE2, CHR 0x80, CHR 0x83], [CHR 0xE2, CHR 0x80, CHR 0x84], [CHR 0xE2, CHR 0x80, CHR 0x85],
      [CHR 0xE2, CHR 0x80, CHR 0x86], [CHR 0xE2, CHR 0x80, CHR 0x87], [CHR 0xE2, CHR 0x80, CHR 0x88],
      [CHR 0xE2, CHR 0x80, CHR 0x89], [CHR 0xE2, CHR 0x80, CHR 0x8A], [CHR 0xE2, CHR 0x80, CHR 0xA8],
      [CHR 0xE2, CHR 0x80, CHR 0xA9], [CHR 0xE2, CHR 0x80, CHR 0xAF], [CHR 0xE2, CHR 0x81, CHR 0x9F],
      [CHR 0xE3, CHR 0x80, CHR 0x80]]"

definition space_len :: "string list \<Rightarrow> string \<Rightarrow> nat" where
  "space_len ws s = (case find (\<lambda>w. w \<noteq> [] \<and> has_prefix w s) ws of None \<Rightarrow> 0 | Some w \<Rightarrow> length w)"

function trim_with :: "string list \<Rightarrow> string \<Rightarrow> string" where
  "trim_with ws s = (if space_len ws s = 0 then s else trim_with ws (drop (space_len ws s) s))"
  by pat_completeness auto

lemma space_len_pos: "0 < space_len ws s \<Longrightarrow> s \<noteq> []"
  by (auto simp: space_len_def find_Some_iff has_prefix_def split: option.splits)

termination trim_with
proof (relation "measure (\<lambda>(ws, s). length s)")
  fix ws s
  assume "space_len ws s \<noteq> 0"
  then have "0 < space_len ws s" and "s \<noteq> []" using space_len_pos [of ws s] by auto
  then show "((ws, drop (space_len ws s) s), ws, s) \<in> measure (\<lambda>(ws, s). length s)"
    by (simp add: diff_less)
qed simp

declare trim_with.simps [simp del]

definition trim_space :: "string \<Rightarrow> string" where
  "trim_space s = rev (trim_with (map rev white_space) (rev (trim_with white_space s)))"

definition em_dash :: string where
  "em_dash = [CHR 0xE2, CHR 0x80, CHR 0x94]"

text \<open>Python's list rendering, which the error messages reproduce.\<close>

definition py_list_repr :: "string list \<Rightarrow> string" where
  "py_list_repr names = ''['' @ join '', '' (map (\<lambda>n. [CHR 0x27] @ n @ [CHR 0x27]) names) @ '']''"

end
