(* ===== verification/GoValue.thy ===== *)
theory GoValue
  imports Prelude
begin

text \<open>
  Go's dynamically typed values (\<open>any\<close>) as they flow between the reasoners: what
  \<open>json.Unmarshal\<close> produces (\<open>nil\<close>, \<open>bool\<close>, \<open>float64\<close>, \<open>string\<close>, \<open>[]any\<close>, \<open>map[string]any\<close>)
  and the typed slices and ints the code itself stores. The type switches of
  \<open>internal/dag/helpers.go\<close>, \<open>internal/dagutil/dagutil.go\<close> and \<open>internal/coding/helpers.go\<close>
  are the functions below, one equation per case of the switch.

  A \<open>float64\<close> is given by its shortest decimal \<open>m * 10 ^ e\<close>, which determines it. A
  \<open>map[string]any\<close> is an association list with distinct keys (Go maps are unordered, so no
  definition depends on its order). Nil and empty slices behave alike but for \<open>== nil\<close> tests,
  so the coercions that code compares with \<open>nil\<close> return an option.
\<close>

datatype gval =
    GNil
  | GBool bool
  | GInt int
  | GFloat int int
  | GStr string
  | GStrs "string list"
  | GList "gval list"
  | GMaps "(string \<times> gval) list list"
  | GMap "(string \<times> gval) list"

type_synonym gmap = "(string \<times> gval) list"

section \<open>Map reads and writes\<close>

text \<open>\<open>m[key]\<close> (nil when absent) and \<open>m[key] = v\<close>.\<close>

definition mget :: "gmap \<Rightarrow> string \<Rightarrow> gval" where
  "mget m k = lookup_def GNil m k"

definition mset :: "gmap \<Rightarrow> string \<Rightarrow> gval \<Rightarrow> gmap" where
  "mset m k v = AList.update k v m"

text \<open>\<open>for k, v := range src { dst[k] = v }\<close>; the order of the range is Go's choice.\<close>

fun mset_all :: "gmap \<Rightarrow> gmap \<Rightarrow> gmap" where
  "mset_all dst [] = dst"
| "mset_all dst ((k, v) # src) = mset (mset_all dst src) k v"

lemma mget_Nil [simp]: "mget [] k = GNil"
  by (simp add: mget_def)

lemma mget_mset: "mget (mset m k v) k' = (if k' = k then v else mget m k')"
  by (simp add: mget_def mset_def lookup_def_update)

lemma mget_mset_same [simp]: "mget (mset m k v) k = v"
  by (simp add: mget_mset)

lemma mget_mset_other [simp]: "k' \<noteq> k \<Longrightarrow> mget (mset m k v) k' = mget m k'"
  by (simp add: mget_mset)

lemma map_of_mset: "map_of (mset m k v) k' = (if k' = k then Some v else map_of m k')"
  by (simp add: mset_def map_of_update)

lemma map_of_mset_all: "map_of (mset_all dst src) k = (case map_of src k of None \<Rightarrow> map_of dst k | Some v \<Rightarrow> Some v)"
  by (induction dst src rule: mset_all.induct) (auto simp: map_of_mset)

lemma mget_mset_all: "mget (mset_all dst src) k = (case map_of src k of None \<Rightarrow> mget dst k | Some v \<Rightarrow> v)"
  by (simp add: mget_def lookup_def_def map_of_mset_all split: option.splits)

section \<open>The coercions of \<open>dagutil.go\<close> and \<open>dag/helpers.go\<close>\<close>

definition as_string :: "gval \<Rightarrow> string" where
  "as_string v = (case v of GStr s \<Rightarrow> s | _ \<Rightarrow> [])"

definition as_string_slice :: "gval \<Rightarrow> string list option" where
  "as_string_slice v = (case v of
     GStrs t \<Rightarrow> Some t
   | GList t \<Rightarrow> Some (map as_string t)
   | GStr t \<Rightarrow> (if trim_space t = [] then None else Some [t])
   | _ \<Rightarrow> None)"

definition strs_of :: "gval \<Rightarrow> string list" where
  "strs_of v = (case as_string_slice v of None \<Rightarrow> [] | Some t \<Rightarrow> t)"

definition as_map :: "gval \<Rightarrow> gmap" where
  "as_map v = (case v of GMap m \<Rightarrow> m | _ \<Rightarrow> [])"

fun only_maps :: "gval list \<Rightarrow> gmap list" where
  "only_maps [] = []"
| "only_maps (GMap m # vs) = m # only_maps vs"
| "only_maps (v # vs) = only_maps vs"

definition as_map_slice :: "gval \<Rightarrow> gmap list option" where
  "as_map_slice v = (case v of GMaps t \<Rightarrow> Some t | GList t \<Rightarrow> Some (only_maps t) | _ \<Rightarrow> None)"

definition maps_of :: "gval \<Rightarrow> gmap list" where
  "maps_of v = (case as_map_slice v of None \<Rightarrow> [] | Some t \<Rightarrow> t)"

definition as_bool :: "gval \<Rightarrow> bool" where
  "as_bool v = (case v of GBool b \<Rightarrow> b | _ \<Rightarrow> False)"

text \<open>\<open>int(t)\<close> on a \<open>float64\<close> truncates towards zero.\<close>

definition trunc_dec :: "int \<Rightarrow> int \<Rightarrow> int" where
  "trunc_dec m e = (if 0 \<le> e then m * 10 ^ nat e else sgn m * (\<bar>m\<bar> div 10 ^ nat (- e)))"

definition as_int :: "gval \<Rightarrow> int" where
  "as_int v = (case v of GInt n \<Rightarrow> n | GFloat m e \<Rightarrow> trunc_dec m e | _ \<Rightarrow> 0)"

definition get_str :: "gmap \<Rightarrow> string \<Rightarrow> string \<Rightarrow> string" where
  "get_str m k dflt = (case map_of m k of Some (GStr s) \<Rightarrow> s | _ \<Rightarrow> dflt)"

definition get_bool :: "gmap \<Rightarrow> string \<Rightarrow> bool \<Rightarrow> bool" where
  "get_bool m k dflt = (case map_of m k of Some (GBool b) \<Rightarrow> b | _ \<Rightarrow> dflt)"

lemma strs_of_simps [simp]:
  "strs_of (GStrs t) = t" "strs_of (GList vs) = map as_string vs" "strs_of GNil = []"
  "strs_of (GBool b) = []" "strs_of (GInt n) = []" "strs_of (GMap m) = []"
  by (simp_all add: strs_of_def as_string_slice_def)

lemma as_string_simps [simp]: "as_string (GStr s) = s" "as_string GNil = []"
  by (simp_all add: as_string_def)

section \<open>\<open>fmt.Sprintf("%v", v)\<close>\<close>

text \<open>
  A float prints its shortest digits, in exponent form when the decimal exponent is below -4
  or at least 21; a map prints its entries in key order; lists and maps print their elements
  with the same verb.
\<close>

definition show_exp :: "int \<Rightarrow> string" where
  "show_exp x = (if x < 0 then ''-'' else ''+'') @ pad2 \<bar>x\<bar>"

definition show_float :: "int \<Rightarrow> int \<Rightarrow> string" where
  "show_float m e =
     (let d = show_nat (nat \<bar>m\<bar>); nd = int (length d); x = nd + e - 1;
          sign = (if m < 0 then ''-'' else '''')
      in sign @
         (if m = 0 then ''0''
          else if x < -4 \<or> 21 \<le> x
          then (take 1 d @ (if nd = 1 then '''' else CHR ''.'' # drop 1 d)) @ ''e'' @ show_exp x
          else if 0 \<le> e then d @ replicate (nat e) (CHR ''0'')
          else if 0 \<le> x then take (nat (x + 1)) d @ ''.'' @ drop (nat (x + 1)) d
          else ''0.'' @ replicate (nat (- x - 1)) (CHR ''0'') @ d))"

fun go_show :: "gval \<Rightarrow> string" where
  "go_show GNil = ''<nil>''"
| "go_show (GBool b) = (if b then ''true'' else ''false'')"
| "go_show (GInt n) = show_int n"
| "go_show (GFloat m e) = show_float m e"
| "go_show (GStr s) = s"
| "go_show (GStrs ss) = ''['' @ join '' '' ss @ '']''"
| "go_show (GList vs) = ''['' @ join '' '' (map go_show vs) @ '']''"
| "go_show (GMaps ms) = ''['' @ join '' '' (map (\<lambda>m. ''map['' @
     join '' '' (map (\<lambda>(k, s). k @ '':'' @ s) (sort_key fst (map (\<lambda>(k, v). (k, go_show v)) m))) @ '']'') ms) @ '']''"
| "go_show (GMap m) = ''map['' @
     join '' '' (map (\<lambda>(k, s). k @ '':'' @ s) (sort_key fst (map (\<lambda>(k, v). (k, go_show v)) m))) @ '']''"

section \<open>The coercions of \<open>coding/helpers.go\<close>\<close>

text \<open>Unlike the dag package, the coding package prints a present non-string value.\<close>

definition get_text :: "gmap \<Rightarrow> string \<Rightarrow> string \<Rightarrow> string" where
  "get_text m k dflt = (case map_of m k of
     None \<Rightarrow> dflt
   | Some (GStr s) \<Rightarrow> s
   | Some GNil \<Rightarrow> dflt
   | Some v \<Rightarrow> go_show v)"

definition get_or :: "gmap \<Rightarrow> string \<Rightarrow> gval \<Rightarrow> gval" where
  "get_or m k dflt = lookup_def dflt m k"

fun texts :: "gval list \<Rightarrow> string list" where
  "texts [] = []"
| "texts (GStr s # vs) = s # texts vs"
| "texts (GNil # vs) = texts vs"
| "texts (v # vs) = go_show v # texts vs"

definition to_string_slice :: "gval \<Rightarrow> string list option" where
  "to_string_slice v = (case v of GStrs t \<Rightarrow> Some t | GList t \<Rightarrow> Some (texts t) | _ \<Rightarrow> None)"

definition texts_of :: "gval \<Rightarrow> string list" where
  "texts_of v = (case to_string_slice v of None \<Rightarrow> [] | Some t \<Rightarrow> t)"

definition to_any_slice :: "gval \<Rightarrow> gval list" where
  "to_any_slice v = (case v of
     GList t \<Rightarrow> t | GStrs t \<Rightarrow> map GStr t | GMaps t \<Rightarrow> map GMap t | _ \<Rightarrow> [])"

definition as_any_slice :: "gval \<Rightarrow> gval list" where
  "as_any_slice v = (case v of GList t \<Rightarrow> t | GStrs t \<Rightarrow> map GStr t | _ \<Rightarrow> [])"

definition truthy :: "gval \<Rightarrow> bool" where
  "truthy v = (case v of
     GNil \<Rightarrow> False
   | GBool b \<Rightarrow> b
   | GStr s \<Rightarrow> s \<noteq> []
   | GInt n \<Rightarrow> n \<noteq> 0
   | GFloat m e \<Rightarrow> m \<noteq> 0
   | GList t \<Rightarrow> t \<noteq> []
   | GStrs t \<Rightarrow> t \<noteq> []
   | GMaps t \<Rightarrow> t \<noteq> []
   | GMap t \<Rightarrow> t \<noteq> [])"

definition int_default :: "gval \<Rightarrow> int \<Rightarrow> int" where
  "int_default v dflt = (case v of GInt n \<Rightarrow> n | GFloat m e \<Rightarrow> trunc_dec m e | _ \<Rightarrow> dflt)"

definition any_to_str :: "gval \<Rightarrow> string" where
  "any_to_str v = (case v of GNil \<Rightarrow> [] | GStr s \<Rightarrow> s | _ \<Rightarrow> go_show v)"

text \<open>\<open>truncate\<close> counts bytes.\<close>

definition truncate_str :: "string \<Rightarrow> nat \<Rightarrow> string" where
  "truncate_str s n = (if length s \<le> n then s else take n s)"

lemma truncate_take [simp]: "truncate_str s n = take n s"
  by (simp add: truncate_str_def)

section \<open>A value after a trip through a JSON file\<close>

text \<open>
  Marshalling and unmarshalling turns ints into floats and typed slices into \<open>[]any\<close>.
  \<open>norm_dec\<close> strips trailing zeros: the shortest decimal of an integer.
\<close>

function norm_dec :: "int \<Rightarrow> int \<Rightarrow> int \<times> int" where
  "norm_dec m e = (if m = 0 then (0, 0) else if m mod 10 = 0 then norm_dec (m div 10) (e + 1) else (m, e))"
  by pat_completeness auto
termination
  by (relation "measure (\<lambda>(m, e). nat \<bar>m\<bar>)") (auto simp: abs_if)

declare norm_dec.simps [simp del]

fun json_trip :: "gval \<Rightarrow> gval" where
  "json_trip (GInt n) = (case norm_dec n 0 of (m, e) \<Rightarrow> GFloat m e)"
| "json_trip (GStrs ss) = GList (map GStr ss)"
| "json_trip (GList vs) = GList (map json_trip vs)"
| "json_trip (GMaps ms) = GList (map (\<lambda>m. GMap (map (\<lambda>(k, v). (k, json_trip v)) m)) ms)"
| "json_trip (GMap m) = GMap (map (\<lambda>(k, v). (k, json_trip v)) m)"
| "json_trip v = v"

definition json_map :: "gmap \<Rightarrow> gmap" where
  "json_map m = map (\<lambda>(k, v). (k, json_trip v)) m"

lemma trunc_norm_dec: "0 \<le> e \<Longrightarrow> (case norm_dec m e of (m', e') \<Rightarrow> trunc_dec m' e') = m * 10 ^ nat e"
proof (induction m e rule: norm_dec.induct)
  case (1 m e)
  show ?case
  proof (cases "m = 0 \<or> m mod 10 \<noteq> 0")
    case True
    with 1 show ?thesis by (subst norm_dec.simps) (auto simp: trunc_dec_def)
  next
    case False
    then have "m = 10 * (m div 10)" by presburger
    with 1 False show ?thesis
      by (subst norm_dec.simps) (auto simp: nat_add_distrib)
  qed
qed

lemma as_int_json_trip [simp]: "as_int (json_trip v) = as_int v"
proof (cases v)
  case (GInt n)
  with trunc_norm_dec [of 0 n] show ?thesis
    by (auto simp: as_int_def split: prod.splits)
qed (simp_all add: as_int_def)

lemma map_of_json_map: "map_of (json_map m) k = map_option json_trip (map_of m k)"
  by (induction m) (auto simp: json_map_def)

lemma texts_map_GStr [simp]: "texts (map GStr ss) = ss"
  by (induction ss) auto

lemma only_maps_map_GMap [simp]: "only_maps (map (\<lambda>m. GMap (f m)) ms) = map f ms"
  by (induction ms) auto

lemma to_string_slice_trip_strs [simp]: "to_string_slice (json_trip (GStrs ss)) = Some ss"
  by (simp add: to_string_slice_def)

lemma as_map_slice_trip_maps [simp]: "as_map_slice (json_trip (GMaps ms)) = Some (map json_map ms)"
  by (simp add: as_map_slice_def json_map_def)

end
