(* ===== verification/World.thy ===== *)
theory World
  imports GoValue
begin

text \<open>
  What the engine reads and changes outside its own variables, as one state that every effectful
  operation takes and returns: the JSON files under the artifacts directory (iteration
  checkpoints, artifacts, the DAG checkpoint), the shared memory of
  \<open>internal/dag/executor.go\<close> (\<open>sharedMemory\<close>), the error of the context (\<open>ctx.Err()\<close>), and the
  rest of the world (the repository, the agents), whose type is a parameter.

  The reasoners behind \<open>CallFn\<close> are separate programs: a call is an arbitrary function of
  the target, the keyword arguments and the world, and may change all of the world. That also
  covers what concurrent issues, cancellation and other processes do while a call is under way.
\<close>

section \<open>Errors\<close>

text \<open>
  An error as the engine distinguishes it: \<open>errors.As\<close> to a \<open>FatalHarnessError\<close>, \<open>errors.Is\<close>
  of \<open>context.Canceled\<close> or \<open>context.DeadlineExceeded\<close>, or neither; with the text of \<open>Error()\<close>.
\<close>

datatype go_error = Fatal string | Canceled string | Deadline string | Plain string

fun err_text :: "go_error \<Rightarrow> string" where
  "err_text (Fatal s) = s"
| "err_text (Canceled s) = s"
| "err_text (Deadline s) = s"
| "err_text (Plain s) = s"

text \<open>The guard \<open>errors.As(err, &fhe) || errors.Is(err, context.Canceled)\<close>.\<close>

fun propagates :: "go_error \<Rightarrow> bool" where
  "propagates (Fatal s) = True"
| "propagates (Canceled s) = True"
| "propagates (Deadline s) = False"
| "propagates (Plain s) = False"

section \<open>The world\<close>

record 'x world =
  files :: "string \<Rightarrow> gmap option"
  memory :: "string \<Rightarrow> gval"
  ctx_err :: "go_error option"
  outside :: 'x

type_synonym 'x call = "string \<Rightarrow> gmap \<Rightarrow> 'x world \<Rightarrow> (go_error + gmap) \<times> 'x world"

text \<open>
  The rest of what the code asks of its surroundings: whether a call has returned when its
  deadline fires, whether a file can be written, and the random identifiers.
\<close>

record 'x env =
  in_time :: "'x world \<Rightarrow> string \<Rightarrow> bool"
  writable :: "'x world \<Rightarrow> string \<Rightarrow> bool"
  draw_id :: "'x world \<Rightarrow> string \<times> 'x world"

section \<open>\<open>callWithTimeout\<close>\<close>

text \<open>
  When the deadline's context is done first, the parent's error wins over the timeout; otherwise
  the reply is passed on.
\<close>

definition timeout_text :: "string \<Rightarrow> int \<Rightarrow> string" where
  "timeout_text label timeout = ''Agent call '' @ [CHR 0x27] @ label @ [CHR 0x27] @ '' timed out after '' @ show_int timeout @ ''s''"

definition call_with_timeout :: "'x env \<Rightarrow> int \<Rightarrow> string \<Rightarrow> ('x world \<Rightarrow> (go_error + gmap) \<times> 'x world) \<Rightarrow> 'x world
    \<Rightarrow> (go_error + gmap) \<times> 'x world" where
  "call_with_timeout env timeout label fn w =
     (let (r, w') = fn w
      in if in_time env w' label then (r, w')
         else (case ctx_err w' of Some e \<Rightarrow> Inl e | None \<Rightarrow> Inl (Plain (timeout_text label timeout)), w'))"

lemma call_with_timeout_cases:
  assumes "call_with_timeout env timeout label fn w = (r, w')"
  obtains (reply) "fn w = (r, w')"
    | (cancelled) e r' where "fn w = (r', w')" "ctx_err w' = Some e" "r = Inl e"
    | (timeout) r' where "fn w = (r', w')" "ctx_err w' = None" "r = Inl (Plain (timeout_text label timeout))"
  using assms by (auto simp: call_with_timeout_def split: prod.splits if_splits option.splits)

section \<open>Paths and files\<close>

text \<open>\<open>path.Clean\<close> on the components between slashes; \<open>filepath.Join\<close> drops empty elements.\<close>

fun split_slash :: "string \<Rightarrow> string \<Rightarrow> string list" where
  "split_slash cur [] = [cur]"
| "split_slash cur (c # cs) = (if c = CHR ''/'' then cur # split_slash [] cs else split_slash (cur @ [c]) cs)"

fun clean_parts :: "bool \<Rightarrow> string list \<Rightarrow> string list \<Rightarrow> string list" where
  "clean_parts rooted acc [] = acc"
| "clean_parts rooted acc (p # ps) =
     clean_parts rooted
       (if p = [] \<or> p = ''.'' then acc
        else if p = ''..'' then
          (if acc \<noteq> [] \<and> last acc \<noteq> ''..'' then butlast acc else if rooted then acc else acc @ [p])
        else acc @ [p]) ps"

definition path_clean :: "string \<Rightarrow> string" where
  "path_clean s =
     (let rooted = has_prefix ''/'' s; parts = clean_parts rooted [] (split_slash [] s)
      in if rooted then ''/'' @ join ''/'' parts else if parts = [] then ''.'' else join ''/'' parts)"

definition path_join :: "string list \<Rightarrow> string" where
  "path_join parts = (let ne = filter (\<lambda>p. p \<noteq> []) parts in if ne = [] then [] else path_clean (join ''/'' ne))"

text \<open>
  A file written as indented JSON and read back: reading gives the value after the trip through
  JSON. A write that fails leaves the file as it was.
\<close>

definition write_json :: "'x env \<Rightarrow> string \<Rightarrow> gmap \<Rightarrow> 'x world \<Rightarrow> 'x world" where
  "write_json env path data w =
     (if writable env w path then w\<lparr>files := (files w)(path := Some (json_map data))\<rparr> else w)"

lemma write_json_frame [simp]:
  "memory (write_json env path data w) = memory w" "ctx_err (write_json env path data w) = ctx_err w"
  "outside (write_json env path data w) = outside w"
  by (simp_all add: write_json_def)

lemma files_write_json:
  "files (write_json env path data w) p =
     (if p = path \<and> writable env w path then Some (json_map data) else files w p)"
  by (simp add: write_json_def)

end
