(* ===== verification/Memory.thy ===== *)
theory Memory
  imports World
begin

text \<open>
  The shared memory: \<open>sharedMemory.fn\<close> of \<open>internal/dag/executor.go\<close> and the readers and writers of
  \<open>internal/coding/memory.go\<close>. \<open>learn\<close> stands for a non-nil \<open>MemoryFn\<close>. The store's maps are
  changed in place by the code and then set again; one goroutine at a time that is the update
  below. (The code holds the store's mutex only inside \<open>fn\<close>, so two issues that write the same
  key at the same time can lose an update; the model has one writer at a time.)
\<close>

section \<open>The store\<close>

definition shared_memory_fn :: "string \<Rightarrow> string \<Rightarrow> gval \<Rightarrow> (string \<Rightarrow> gval) \<Rightarrow> gval \<times> (string \<Rightarrow> gval)" where
  "shared_memory_fn action key v m =
     (if action = ''get'' then (m key, m)
      else if action = ''set'' then (GNil, m(key := v))
      else (GNil, m))"

definition memory_get :: "bool \<Rightarrow> string \<Rightarrow> 'x world \<Rightarrow> gval" where
  "memory_get learn key w = (if \<not> learn then GNil else fst (shared_memory_fn ''get'' key GNil (memory w)))"

definition memory_set :: "bool \<Rightarrow> string \<Rightarrow> gval \<Rightarrow> 'x world \<Rightarrow> 'x world" where
  "memory_set learn key v w =
     (if \<not> learn then w else w\<lparr>memory := snd (shared_memory_fn ''set'' key v (memory w))\<rparr>)"

text \<open>The contract the readers and writers rest on.\<close>

locale memory_store =
  fixes get :: "string \<Rightarrow> 's \<Rightarrow> gval" and set_to :: "string \<Rightarrow> gval \<Rightarrow> 's \<Rightarrow> 's"
  assumes get_set: "get k' (set_to k v s) = (if k' = k then v else get k' s)"
begin

lemma get_same [simp]: "get k (set_to k v s) = v"
  by (simp add: get_set)

lemma get_other [simp]: "k' \<noteq> k \<Longrightarrow> get k' (set_to k v s) = get k' s"
  by (simp add: get_set)

lemma set_last_wins: "get k' (set_to k v2 (set_to k v1 s)) = get k' (set_to k v2 s)"
  by (simp add: get_set)

lemma set_commute: "k1 \<noteq> k2 \<Longrightarrow> get k' (set_to k1 v1 (set_to k2 v2 s)) = get k' (set_to k2 v2 (set_to k1 v1 s))"
  by (simp add: get_set)

end

interpretation mem: memory_store "memory_get True" "memory_set True"
  by unfold_locales (simp add: memory_get_def memory_set_def shared_memory_fn_def)

lemma memory_set_off [simp]: "memory_set False k v w = w"
  by (simp add: memory_set_def)

lemma memory_get_off [simp]: "memory_get False k w = GNil"
  by (simp add: memory_get_def)

lemma memory_set_frame [simp]:
  "files (memory_set learn k v w) = files w" "ctx_err (memory_set learn k v w) = ctx_err w"
  "outside (memory_set learn k v w) = outside w"
  by (simp_all add: memory_set_def)

section \<open>Reading the context for a prompt\<close>

fun dep_interfaces :: "bool \<Rightarrow> string list \<Rightarrow> 'x world \<Rightarrow> gval list" where
  "dep_interfaces learn [] w = []"
| "dep_interfaces learn (dep # deps) w =
     (let iface = memory_get learn (''interfaces/'' @ dep) w
      in if \<not> truthy iface then dep_interfaces learn deps w
         else (case iface of
             GMap m \<Rightarrow> GMap (mset (mset_all [] m) ''issue'' (GStr dep))
           | _ \<Rightarrow> iface) # dep_interfaces learn deps w)"

definition read_memory_context :: "bool \<Rightarrow> gmap \<Rightarrow> 'x world \<Rightarrow> gmap" where
  "read_memory_context learn issue w =
     (if \<not> learn then []
      else let conventions = memory_get learn ''codebase_conventions'' w;
               c1 = (if truthy conventions then mset [] ''codebase_conventions'' conventions else []);
               failures = memory_get learn ''failure_patterns'' w;
               c2 = (if truthy failures then mset c1 ''failure_patterns'' failures else c1);
               bugs = memory_get learn ''bug_patterns'' w;
               c3 = (if truthy bugs then mset c2 ''bug_patterns'' bugs else c2);
               deps = dep_interfaces learn (texts_of (mget issue ''depends_on'')) w
           in if deps \<noteq> [] then mset c3 ''dependency_interfaces'' (GList deps) else c3)"

section \<open>Build health\<close>

definition default_build_health :: gmap where
  "default_build_health =
     [(''modules_passing'', GList []), (''modules_failing'', GList []), (''total_tests_reported'', GInt 0),
      (''known_risks'', GList []), (''issues_completed'', GInt 0), (''issues_failed'', GInt 0), (''debt_items'', GList [])]"

definition health_of :: "gval \<Rightarrow> gmap" where
  "health_of v = (case v of GMap m \<Rightarrow> if truthy v then m else default_build_health | _ \<Rightarrow> default_build_health)"

text \<open>The accumulation both writers do, on their own counter and list.\<close>

definition count_module :: "string \<Rightarrow> string \<Rightarrow> string \<Rightarrow> gmap \<Rightarrow> gmap" where
  "count_module counter modules name health =
     (let h = mset health counter (GInt (as_int (mget health counter) + 1));
          ms = texts_of (mget h modules)
      in if name \<in> set ms then h else mset h modules (GStrs (ms @ [name])))"

section \<open>Writing after an approval\<close>

fun convention_notes :: "gmap \<Rightarrow> string list \<Rightarrow> gmap" where
  "convention_notes m [] = m"
| "convention_notes m (l # ls) = convention_notes (mset m (''note_'' @ show_nat (length m)) (GStr l)) ls"

definition write_memory_on_approve :: "bool \<Rightarrow> gmap \<Rightarrow> gmap \<Rightarrow> bool \<Rightarrow> 'x world \<Rightarrow> 'x world" where
  "write_memory_on_approve learn issue coder first_success w =
     (if \<not> learn then w
      else let name = get_text issue ''name'' ''unknown'';
               learnings = texts_of (mget coder ''codebase_learnings'');
               w1 = (if first_success \<and> learnings \<noteq> []
                     then memory_set learn ''codebase_conventions'' (GMap (convention_notes [] learnings)) w else w);
               iface = [(''module'', GStr name), (''exports'', get_or issue ''provides'' (GList [])),
                        (''files_created'', GStrs (texts_of (mget coder ''files_changed''))),
                        (''tests_passing'', mget coder ''tests_passed''),
                        (''summary'', GStr (get_text coder ''summary'' []))];
               w2 = memory_set learn (''interfaces/'' @ name) (GMap iface) w1;
               retro = mget coder ''agent_retro'';
               w3 = (if truthy retro then memory_set learn (''retros/'' @ name) retro w2 else w2);
               health = health_of (memory_get learn ''build_health'' w3)
           in memory_set learn ''build_health'' (GMap (count_module ''issues_completed'' ''modules_passing'' name health)) w3)"

section \<open>Writing after a failed iteration\<close>

text \<open>\<open>d.get("title", d.get("type", "unknown"))\<close>\<close>

definition bug_type :: "gmap \<Rightarrow> string" where
  "bug_type d = (case map_of d ''title'' of
     Some v \<Rightarrow> any_to_str v
   | None \<Rightarrow> (case map_of d ''type'' of Some v \<Rightarrow> any_to_str v | None \<Rightarrow> ''unknown''))"

definition is_bug :: "string \<Rightarrow> gval \<Rightarrow> bool" where
  "is_bug t bp = (case bp of GMap m \<Rightarrow> get_text m ''type'' [] = t | _ \<Rightarrow> False)"

definition bump_bug :: "gval \<Rightarrow> gval" where
  "bump_bug bp = (case bp of
     GMap m \<Rightarrow> GMap (mset m ''frequency'' (GInt (int_default (mget m ''frequency'') 1 + 1))) | _ \<Rightarrow> bp)"

text \<open>The first pattern of that type is counted up; without one, a new pattern is appended.\<close>

fun record_bug :: "string \<Rightarrow> string \<Rightarrow> gval list \<Rightarrow> gval list" where
  "record_bug name t [] = [GMap [(''type'', GStr t), (''frequency'', GInt 1), (''modules'', GList [GStr name])]]"
| "record_bug name t (bp # bps) = (if is_bug t bp then bump_bug bp # bps else bp # record_bug name t bps)"

fun record_bugs :: "string \<Rightarrow> gmap list \<Rightarrow> gval list \<Rightarrow> gval list" where
  "record_bugs name [] bps = bps"
| "record_bugs name (d # ds) bps = record_bugs name ds (record_bug name (bug_type d) bps)"

definition list_of :: "gval \<Rightarrow> gval list" where
  "list_of v = (if truthy v then to_any_slice v else [])"

definition failure_pattern :: "string \<Rightarrow> string \<Rightarrow> gval" where
  "failure_pattern name summary =
     GMap [(''issue'', GStr name), (''pattern'', GStr ''iteration_failure''), (''description'', GStr (truncate_str summary 200))]"

definition write_memory_on_failure :: "bool \<Rightarrow> gmap \<Rightarrow> string \<Rightarrow> gmap \<Rightarrow> 'x world \<Rightarrow> 'x world" where
  "write_memory_on_failure learn issue summary review w =
     (if \<not> learn then w
      else let name = get_text issue ''name'' ''unknown'';
               patterns = list_of (memory_get learn ''failure_patterns'' w) @ [failure_pattern name summary];
               w1 = memory_set learn ''failure_patterns'' (GList (last_n 10 patterns)) w;
               debt = maps_of (mget review ''debt_items'');
               w2 = (if truthy (GMap review) \<and> debt \<noteq> []
                     then memory_set learn ''bug_patterns''
                       (GList (last_n 20 (record_bugs name debt (list_of (memory_get learn ''bug_patterns'' w1))))) w1
                     else w1);
               health = health_of (memory_get learn ''build_health'' w2)
           in memory_set learn ''build_health'' (GMap (count_module ''issues_failed'' ''modules_failing'' name health)) w2)"

section \<open>What the writers keep\<close>

lemma list_of_GList [simp]: "list_of (GList xs) = xs"
  by (simp add: list_of_def truthy_def to_any_slice_def)

lemma list_of_GNil [simp]: "list_of GNil = []"
  by (simp add: list_of_def truthy_def)

lemma texts_of_GStrs [simp]: "texts_of (GStrs ss) = ss" "texts_of (GList vs) = texts vs"
  by (simp_all add: texts_of_def to_string_slice_def)

definition frequency_of :: "string \<Rightarrow> gval list \<Rightarrow> int" where
  "frequency_of t bps = (case find (is_bug t) bps of
     Some (GMap m) \<Rightarrow> int_default (mget m ''frequency'') 1 | _ \<Rightarrow> 0)"

lemma is_bug_bump [simp]: "is_bug t (bump_bug bp) = is_bug t bp"
  by (cases bp) (simp_all add: is_bug_def bump_bug_def get_text_def map_of_mset)

lemma is_bug_GMap: "is_bug t bp \<Longrightarrow> \<exists>m. bp = GMap m"
  by (cases bp) (simp_all add: is_bug_def)

lemma is_bug_unique: "is_bug t bp \<Longrightarrow> is_bug t' bp \<longleftrightarrow> t' = t"
  by (cases bp) (auto simp: is_bug_def)

lemma frequency_record_bug:
  "frequency_of t' (record_bug name t bps) = frequency_of t' bps + (if t' = t then 1 else 0)"
proof (induction name t bps rule: record_bug.induct)
  case (1 name t)
  have "is_bug t' (GMap [(''type'', GStr t), (''frequency'', GInt 1), (''modules'', GList [GStr name])]) \<longleftrightarrow> t' = t"
    by (auto simp: is_bug_def get_text_def)
  then show ?case by (simp add: frequency_of_def mget_def lookup_def_def int_default_def)
next
  case (2 name t bp bps)
  show ?case
  proof (cases "is_bug t bp")
    case True
    then obtain m where m: "bp = GMap m" using is_bug_GMap by blast
    show ?thesis
    proof (cases "t' = t")
      case True
      with \<open>is_bug t bp\<close> m show ?thesis
        using is_bug_bump [of t bp] by (simp add: frequency_of_def bump_bug_def int_default_def)
    next
      case False
      with \<open>is_bug t bp\<close> show ?thesis by (simp add: frequency_of_def is_bug_unique)
    qed
  next
    case False
    with 2 show ?thesis by (auto simp: frequency_of_def)
  qed
qed

text \<open>
  Recording the reviewer's debt items counts, for every bug type, exactly how often that type
  occurs among them: a known pattern goes up by that number, an unknown one starts there.
\<close>

lemma record_bugs_counts:
  "frequency_of t (record_bugs name ds bps) = frequency_of t bps + int (count_list (map bug_type ds) t)"
  by (induction name ds bps rule: record_bugs.induct) (auto simp: frequency_record_bug)

text \<open>The stores one run can reach: empty at the start, then any sequence of writes.\<close>

inductive memory_reach :: "'x world \<Rightarrow> bool" where
  start: "(\<And>k. memory w k = GNil) \<Longrightarrow> memory_reach w"
| approve: "memory_reach w \<Longrightarrow> memory_reach (write_memory_on_approve True issue coder first_success w)"
| failure: "memory_reach w \<Longrightarrow> memory_reach (write_memory_on_failure True issue summary review w)"

definition memory_ok :: "'x world \<Rightarrow> bool" where
  "memory_ok w \<longleftrightarrow>
     length (list_of (memory_get True ''failure_patterns'' w)) \<le> 10 \<and>
     length (list_of (memory_get True ''bug_patterns'' w)) \<le> 20 \<and>
     (let health = health_of (memory_get True ''build_health'' w) in
        distinct (texts_of (mget health ''modules_passing'')) \<and> distinct (texts_of (mget health ''modules_failing'')))"

lemma count_module_other:
  "k \<noteq> counter \<Longrightarrow> k \<noteq> modules \<Longrightarrow> mget (count_module counter modules name health) k = mget health k"
  by (simp add: count_module_def Let_def)

lemma count_module_modules:
  "counter \<noteq> modules \<Longrightarrow>
   texts_of (mget (count_module counter modules name health) modules) = add_unique (texts_of (mget health modules)) name"
  by (simp add: count_module_def Let_def add_unique_def)

lemma health_of_default [simp]: "health_of GNil = default_build_health"
  by (simp add: health_of_def)

lemma mset_not_Nil [simp]: "mset m k v \<noteq> []"
  by (cases m) (auto simp: mset_def)

lemma health_of_count [simp]:
  "health_of (GMap (count_module counter modules name health)) = count_module counter modules name health"
  by (simp add: health_of_def truthy_def count_module_def Let_def)

lemma memory_ok_failure: "memory_ok w \<Longrightarrow> memory_ok (write_memory_on_failure True issue summary review w)"
  by (simp add: memory_ok_def write_memory_on_failure_def Let_def count_module_other count_module_modules)

lemma memory_ok_approve: "memory_ok w \<Longrightarrow> memory_ok (write_memory_on_approve True issue coder first_success w)"
  by (simp add: memory_ok_def write_memory_on_approve_def Let_def count_module_other count_module_modules)

text \<open>
  Whatever the issues of a run write, the shared memory keeps at most the last ten failure
  patterns and the last twenty bug patterns, and names no module twice as passing or failing.
\<close>

theorem memory_bounded: "memory_reach w \<Longrightarrow> memory_ok w"
proof (induction rule: memory_reach.induct)
  case (start w)
  then have "memory_get True k w = GNil" for k by (simp add: memory_get_def shared_memory_fn_def)
  then show ?case by (simp add: memory_ok_def default_build_health_def mget_def lookup_def_def)
qed (simp_all add: memory_ok_failure memory_ok_approve)

theorem memory_bounded_witness:
  "memory_ok (write_memory_on_failure True [(''name'', GStr ''a'')] ''tests fail''
     [(''debt_items'', GList [GMap [(''title'', GStr ''leak'')]])]
     \<lparr>files = Map.empty, memory = \<lambda>_. GNil, ctx_err = None, outside = ()\<rparr>)"
  by (intro memory_bounded memory_reach.failure memory_reach.start) simp

end
