(* ===== verification/Schemas.thy ===== *)
theory Schemas
  imports GoValue
begin

text \<open>
  The data models of \<open>internal/schemas/execution.go\<close> and \<open>enums.go\<close> as records, and their JSON
  codec: \<open>encoding/json\<close> on a struct is driven by the struct's fields, so a struct is described by
  a value of \<open>jtype\<close> and one decoder interprets the description. The enums are Go string types
  with named constants: any other string can occur, so they stay strings. A nil slice and an
  empty one are the same value here (\<open>DAGState.MarshalJSON\<close> writes both as \<open>[]\<close>). After an error in a
  nested value with an \<open>UnmarshalJSON\<close> of its own the decoder goes on with the later fields, where Go
  stops; both report the error.
\<close>

section \<open>Enums\<close>

abbreviation "advisor_retry_modified \<equiv> ''retry_modified''"
abbreviation "advisor_retry_approach \<equiv> ''retry_approach''"
abbreviation "advisor_split \<equiv> ''split''"
abbreviation "advisor_accept_with_debt \<equiv> ''accept_with_debt''"
abbreviation "advisor_escalate \<equiv> ''escalate_to_replan''"

abbreviation "out_completed \<equiv> ''completed''"
abbreviation "out_completed_with_debt \<equiv> ''completed_with_debt''"
abbreviation "out_failed_unrecoverable \<equiv> ''failed_unrecoverable''"
abbreviation "out_failed_needs_split \<equiv> ''failed_needs_split''"
abbreviation "out_failed_escalated \<equiv> ''failed_escalated''"
abbreviation "out_skipped \<equiv> ''skipped''"

abbreviation "replan_continue \<equiv> ''continue''"
abbreviation "replan_modify_dag \<equiv> ''modify_dag''"
abbreviation "replan_abort \<equiv> ''abort''"

section \<open>Records\<close>

record adaptation =
  a_type :: string
  a_original :: "string list"
  a_modified :: "string list"
  a_dropped :: "string list"
  a_diagnosis :: string
  a_rationale :: string
  a_new_approach :: string
  a_missing :: "string list"
  a_downstream :: string
  a_severity :: string

record split_spec =
  s_name :: string
  s_title :: string
  s_description :: string
  s_acceptance :: "string list"
  s_depends :: "string list"
  s_provides :: "string list"
  s_create :: "string list"
  s_modify :: "string list"
  s_parent :: string

record issue_result =
  r_name :: string
  r_outcome :: string
  r_summary :: string
  r_error :: string
  r_context :: string
  r_attempts :: int
  r_files :: "string list"
  r_branch :: string
  r_repo :: string
  r_invocations :: int
  r_adaptations :: "adaptation list"
  r_debt :: "gmap list"
  r_split :: "split_spec list option"
  r_escalation :: string
  r_final :: "string list"
  r_history :: "gmap list"

record level_result =
  l_index :: int
  l_completed :: "issue_result list"
  l_failed :: "issue_result list"
  l_skipped :: "issue_result list"

record replan_decision =
  p_action :: string
  p_rationale :: string
  p_updated :: "gmap list"
  p_removed :: "string list"
  p_skipped :: "string list"
  p_new :: "gmap list"
  p_summary :: string
  p_form :: gval

record dag_state =
  d_repo_path :: string
  d_artifacts_dir :: string
  d_prd_path :: string
  d_architecture_path :: string
  d_issues_dir :: string
  d_plan_summary :: string
  d_prd_summary :: string
  d_architecture_summary :: string
  d_issues :: "gmap list"
  d_levels :: "string list list"
  d_completed :: "issue_result list"
  d_failed :: "issue_result list"
  d_skipped :: "string list"
  d_in_flight :: "string list"
  d_level :: int
  d_replans :: int
  d_history :: "replan_decision list"
  d_max_replans :: int
  d_integration_branch :: string
  d_original_branch :: string
  d_initial_commit :: string
  d_git_mode :: string
  d_pending :: "string list"
  d_merged :: "string list"
  d_unmerged :: "string list"
  d_worktrees_dir :: string
  d_build_id :: string
  d_merge_results :: "gmap list"
  d_test_results :: "gmap list"
  d_debt :: "gmap list"
  d_adaptations :: "gmap list"
  d_manifest :: "gmap option"

text \<open>A composite literal leaves the fields it does not name at Go's zero value.\<close>

definition zero_result :: issue_result where
  "zero_result = \<lparr>r_name = [], r_outcome = [], r_summary = [], r_error = [], r_context = [], r_attempts = 0, r_files = [],
     r_branch = [], r_repo = [], r_invocations = 0, r_adaptations = [], r_debt = [], r_split = None, r_escalation = [],
     r_final = [], r_history = []\<rparr>"

definition zero_adaptation :: adaptation where
  "zero_adaptation = \<lparr>a_type = [], a_original = [], a_modified = [], a_dropped = [], a_diagnosis = [], a_rationale = [],
     a_new_approach = [], a_missing = [], a_downstream = [], a_severity = []\<rparr>"

definition zero_decision :: replan_decision where
  "zero_decision = \<lparr>p_action = [], p_rationale = [], p_updated = [], p_removed = [], p_skipped = [], p_new = [],
     p_summary = [], p_form = GNil\<rparr>"

definition zero_state :: dag_state where
  "zero_state = \<lparr>d_repo_path = [], d_artifacts_dir = [], d_prd_path = [], d_architecture_path = [], d_issues_dir = [],
     d_plan_summary = [], d_prd_summary = [], d_architecture_summary = [], d_issues = [], d_levels = [], d_completed = [],
     d_failed = [], d_skipped = [], d_in_flight = [], d_level = 0, d_replans = 0, d_history = [], d_max_replans = 0,
     d_integration_branch = [], d_original_branch = [], d_initial_commit = [], d_git_mode = [], d_pending = [], d_merged = [],
     d_unmerged = [], d_worktrees_dir = [], d_build_id = [], d_merge_results = [], d_test_results = [], d_debt = [],
     d_adaptations = [], d_manifest = None\<rparr>"

section \<open>Decoding JSON into a struct\<close>

datatype jtype =
    JAny
  | JString
  | JInt
  | JBool
  | JFloat
  | JDict
  | JDictOf jtype
  | JList jtype
  | JSlice jtype
  | JStrList
  | JPtr jtype
  | JObj "(string \<times> jtype \<times> gval) list"

text \<open>
  \<open>JSlice\<close> is a slice whose nil and empty values are told apart. An object lists its fields with their value when the key is absent: Go's zero value, or what
  the struct's \<open>UnmarshalJSON\<close> seeds (\<open>defaults.go\<close>).
\<close>

fun zero_of :: "jtype \<Rightarrow> gval" where
  "zero_of JString = GStr []"
| "zero_of JInt = GInt 0"
| "zero_of JBool = GBool False"
| "zero_of JFloat = GFloat 0 0"
| "zero_of (JList t) = GList []"
| "zero_of JStrList = GList []"
| "zero_of (JObj fs) = GMap (map (\<lambda>(n, t, d). (n, d)) fs)"
| "zero_of _ = GNil"

text \<open>
  Keys arrive sorted; a key matches a field up to the case of its letters, and of several that
  match the last wins.
\<close>

definition json_field :: "gmap \<Rightarrow> string \<Rightarrow> gval option" where
  "json_field m n = (case filter (\<lambda>(k, v). to_lower k = to_lower n) (sort_key fst m) of
     [] \<Rightarrow> None | es \<Rightarrow> Some (snd (last es)))"

definition dec_int :: "int \<Rightarrow> int \<Rightarrow> int option" where
  "dec_int m e =
     (if 0 \<le> e then Some (m * 10 ^ nat e)
      else if m mod 10 ^ nat (- e) = 0 then Some (m div 10 ^ nat (- e)) else None)"

definition int64 :: "int \<Rightarrow> bool" where
  "int64 n \<longleftrightarrow> - (2 ^ 63) \<le> n \<and> n < 2 ^ 63"

definition text_or_null :: "gval \<Rightarrow> bool" where
  "text_or_null v = (case v of GStr s \<Rightarrow> True | GNil \<Rightarrow> True | _ \<Rightarrow> False)"

text \<open>
  The decoded value and whether no type error was met. A type error leaves the field as it was
  and decoding goes on; \<open>null\<close> leaves scalars as they were and empties the rest.
\<close>

fun decode :: "jtype \<Rightarrow> gval \<Rightarrow> gval \<Rightarrow> gval \<times> bool" where
  "decode JAny d v = (v, True)"
| "decode JString d v = (case v of GStr s \<Rightarrow> (GStr s, True) | GNil \<Rightarrow> (d, True) | _ \<Rightarrow> (d, False))"
| "decode JInt d v = (case v of
     GFloat m e \<Rightarrow> (case dec_int m e of
       Some n \<Rightarrow> if int64 n then (GInt n, True) else (d, False) | None \<Rightarrow> (d, False))
   | GNil \<Rightarrow> (d, True) | _ \<Rightarrow> (d, False))"
| "decode JBool d v = (case v of GBool b \<Rightarrow> (GBool b, True) | GNil \<Rightarrow> (d, True) | _ \<Rightarrow> (d, False))"
| "decode JFloat d v = (case v of GFloat m e \<Rightarrow> (GFloat m e, True) | GNil \<Rightarrow> (d, True) | _ \<Rightarrow> (d, False))"
| "decode JDict d v = (case v of GMap m \<Rightarrow> (GMap m, True) | GNil \<Rightarrow> (GNil, True) | _ \<Rightarrow> (d, False))"
| "decode (JDictOf t) d v = (case v of
     GMap m \<Rightarrow> (GMap (map (\<lambda>(k, x). (k, fst (decode t (zero_of t) x))) m), \<forall>(k, x) \<in> set m. snd (decode t (zero_of t) x))
   | GNil \<Rightarrow> (GNil, True) | _ \<Rightarrow> (d, False))"
| "decode (JList t) d v = (case v of
     GList vs \<Rightarrow> (GList (map (\<lambda>x. fst (decode t (zero_of t) x)) vs), \<forall>x \<in> set vs. snd (decode t (zero_of t) x))
   | GNil \<Rightarrow> (GList [], True) | _ \<Rightarrow> (d, False))"
| "decode (JSlice t) d v = (case v of
     GList vs \<Rightarrow> (GList (map (\<lambda>x. fst (decode t (zero_of t) x)) vs), \<forall>x \<in> set vs. snd (decode t (zero_of t) x))
   | GNil \<Rightarrow> (GNil, True) | _ \<Rightarrow> (d, False))"
| "decode JStrList d v = (case v of
     GStr s \<Rightarrow> (if trim_space s = [] then GList [] else GList [GStr s], True)
   | GNil \<Rightarrow> (GList [], True)
   | GList vs \<Rightarrow> if \<forall>x \<in> set vs. text_or_null x then (GList (map (\<lambda>x. GStr (as_string x)) vs), True) else (d, False)
   | _ \<Rightarrow> (d, False))"
| "decode (JPtr t) d v = (if v = GNil then (GNil, True) else decode t (zero_of t) v)"
| "decode (JObj fs) d v = (case v of
     GMap m \<Rightarrow> (GMap (map (\<lambda>(n, t, z). (n, case json_field m n of None \<Rightarrow> z | Some x \<Rightarrow> fst (decode t z x))) fs),
       \<forall>(n, t, z) \<in> set fs. case json_field m n of None \<Rightarrow> True | Some x \<Rightarrow> snd (decode t z x))
   | GNil \<Rightarrow> (zero_of (JObj fs), True)
   | _ \<Rightarrow> (zero_of (JObj fs), False))"

definition fld :: "string \<Rightarrow> jtype \<Rightarrow> string \<times> jtype \<times> gval" where
  "fld n t = (n, t, zero_of t)"

definition j_adaptation :: jtype where
  "j_adaptation = JObj
     [fld ''adaptation_type'' JString, fld ''original_acceptance_criteria'' (JList JString),
      fld ''modified_acceptance_criteria'' (JList JString), fld ''dropped_criteria'' (JList JString),
      fld ''failure_diagnosis'' JString, fld ''rationale'' JString, fld ''new_approach'' JString,
      fld ''missing_functionality'' (JList JString), fld ''downstream_impact'' JString,
      (''severity'', JString, GStr ''medium'')]"

definition j_split_spec :: jtype where
  "j_split_spec = JObj
     [fld ''name'' JString, fld ''title'' JString, fld ''description'' JString,
      fld ''acceptance_criteria'' JStrList, fld ''depends_on'' JStrList, fld ''provides'' JStrList,
      fld ''files_to_create'' JStrList, fld ''files_to_modify'' JStrList, fld ''parent_issue_name'' JString]"

definition j_issue_result :: jtype where
  "j_issue_result = JObj
     [fld ''issue_name'' JString, fld ''outcome'' JString, fld ''result_summary'' JString, fld ''error_message'' JString,
      fld ''error_context'' JString, (''attempts'', JInt, GInt 1), fld ''files_changed'' (JList JString),
      fld ''branch_name'' JString, fld ''repo_name'' JString, fld ''advisor_invocations'' JInt,
      fld ''adaptations'' (JList j_adaptation), fld ''debt_items'' (JList JDict),
      fld ''split_request'' (JPtr (JList j_split_spec)), fld ''escalation_context'' JString,
      fld ''final_acceptance_criteria'' JStrList, fld ''iteration_history'' (JList JDict)]"

definition j_form_field :: jtype where
  "j_form_field = JObj
     [fld ''id'' JString, fld ''type'' JString, fld ''label'' JString, fld ''description'' (JPtr JString),
      fld ''required'' JBool, fld ''placeholder'' (JPtr JString), fld ''default_value'' JAny,
      fld ''options'' (JList (JDictOf JString)), fld ''min'' (JPtr JFloat), fld ''max'' (JPtr JFloat), fld ''step'' (JPtr JFloat)]"

definition j_form :: jtype where
  "j_form = JObj
     [fld ''title'' JString, fld ''description'' (JPtr JString), fld ''fields'' (JList j_form_field),
      (''submit_label'', JString, GStr ''Submit'')]"

definition j_decision :: jtype where
  "j_decision = JObj
     [fld ''action'' JString, fld ''rationale'' JString, fld ''updated_issues'' (JList JDict),
      fld ''removed_issue_names'' (JList JString), fld ''skipped_issue_names'' (JList JString),
      fld ''new_issues'' (JList JDict), fld ''summary'' JString, fld ''ask_user_form'' (JPtr j_form)]"

definition j_dag_state :: jtype where
  "j_dag_state = JObj
     [fld ''repo_path'' JString, fld ''artifacts_dir'' JString, fld ''prd_path'' JString, fld ''architecture_path'' JString,
      fld ''issues_dir'' JString, fld ''original_plan_summary'' JString, fld ''prd_summary'' JString,
      fld ''architecture_summary'' JString, fld ''all_issues'' (JList JDict), fld ''levels'' (JList (JList JString)),
      fld ''completed_issues'' (JList j_issue_result), fld ''failed_issues'' (JList j_issue_result),
      fld ''skipped_issues'' (JList JString), fld ''in_flight_issues'' (JList JString), fld ''current_level'' JInt,
      fld ''replan_count'' JInt, fld ''replan_history'' (JList j_decision), (''max_replans'', JInt, GInt 2),
      fld ''git_integration_branch'' JString, fld ''git_original_branch'' JString, fld ''git_initial_commit'' JString,
      fld ''git_mode'' JString, fld ''pending_merge_branches'' (JList JString), fld ''merged_branches'' (JList JString),
      fld ''unmerged_branches'' (JList JString), fld ''worktrees_dir'' JString, fld ''build_id'' JString,
      fld ''merge_results'' (JList JDict), fld ''integration_test_results'' (JList JDict),
      fld ''accumulated_debt'' (JList JDict), fld ''adaptation_history'' (JList JDict), fld ''workspace_manifest'' JDict]"

section \<open>From decoded objects to records and back\<close>

definition dict_list :: "gval \<Rightarrow> gmap list" where
  "dict_list v = (case v of GList vs \<Rightarrow> map as_map vs | _ \<Rightarrow> [])"

definition obj_list :: "(gmap \<Rightarrow> 'a) \<Rightarrow> gval \<Rightarrow> 'a list" where
  "obj_list f v = map f (dict_list v)"

definition strs :: "string list \<Rightarrow> gval" where
  "strs ss = GList (map GStr ss)"

definition objs :: "('a \<Rightarrow> gmap) \<Rightarrow> 'a list \<Rightarrow> gval" where
  "objs f xs = GList (map (\<lambda>x. GMap (f x)) xs)"

definition adaptation_of :: "gmap \<Rightarrow> adaptation" where
  "adaptation_of m = \<lparr>
     a_type = as_string (mget m ''adaptation_type''),
     a_original = strs_of (mget m ''original_acceptance_criteria''),
     a_modified = strs_of (mget m ''modified_acceptance_criteria''),
     a_dropped = strs_of (mget m ''dropped_criteria''),
     a_diagnosis = as_string (mget m ''failure_diagnosis''),
     a_rationale = as_string (mget m ''rationale''),
     a_new_approach = as_string (mget m ''new_approach''),
     a_missing = strs_of (mget m ''missing_functionality''),
     a_downstream = as_string (mget m ''downstream_impact''),
     a_severity = as_string (mget m ''severity'')\<rparr>"

definition adaptation_json :: "adaptation \<Rightarrow> gmap" where
  "adaptation_json a =
     [(''adaptation_type'', GStr (a_type a)), (''original_acceptance_criteria'', strs (a_original a)),
      (''modified_acceptance_criteria'', strs (a_modified a)), (''dropped_criteria'', strs (a_dropped a)),
      (''failure_diagnosis'', GStr (a_diagnosis a)), (''rationale'', GStr (a_rationale a)),
      (''new_approach'', GStr (a_new_approach a)), (''missing_functionality'', strs (a_missing a)),
      (''downstream_impact'', GStr (a_downstream a)), (''severity'', GStr (a_severity a))]"

definition split_spec_of :: "gmap \<Rightarrow> split_spec" where
  "split_spec_of m = \<lparr>
     s_name = as_string (mget m ''name''), s_title = as_string (mget m ''title''),
     s_description = as_string (mget m ''description''), s_acceptance = strs_of (mget m ''acceptance_criteria''),
     s_depends = strs_of (mget m ''depends_on''), s_provides = strs_of (mget m ''provides''),
     s_create = strs_of (mget m ''files_to_create''), s_modify = strs_of (mget m ''files_to_modify''),
     s_parent = as_string (mget m ''parent_issue_name'')\<rparr>"

definition split_spec_json :: "split_spec \<Rightarrow> gmap" where
  "split_spec_json s =
     [(''name'', GStr (s_name s)), (''title'', GStr (s_title s)), (''description'', GStr (s_description s)),
      (''acceptance_criteria'', strs (s_acceptance s)), (''depends_on'', strs (s_depends s)),
      (''provides'', strs (s_provides s)), (''files_to_create'', strs (s_create s)),
      (''files_to_modify'', strs (s_modify s)), (''parent_issue_name'', GStr (s_parent s))]"

definition issue_result_of :: "gmap \<Rightarrow> issue_result" where
  "issue_result_of m = \<lparr>
     r_name = as_string (mget m ''issue_name''), r_outcome = as_string (mget m ''outcome''),
     r_summary = as_string (mget m ''result_summary''), r_error = as_string (mget m ''error_message''),
     r_context = as_string (mget m ''error_context''), r_attempts = as_int (mget m ''attempts''),
     r_files = strs_of (mget m ''files_changed''), r_branch = as_string (mget m ''branch_name''),
     r_repo = as_string (mget m ''repo_name''), r_invocations = as_int (mget m ''advisor_invocations''),
     r_adaptations = obj_list adaptation_of (mget m ''adaptations''), r_debt = dict_list (mget m ''debt_items''),
     r_split = (case mget m ''split_request'' of GNil \<Rightarrow> None | v \<Rightarrow> Some (obj_list split_spec_of v)),
     r_escalation = as_string (mget m ''escalation_context''), r_final = strs_of (mget m ''final_acceptance_criteria''),
     r_history = dict_list (mget m ''iteration_history'')\<rparr>"

definition issue_result_json :: "issue_result \<Rightarrow> gmap" where
  "issue_result_json r =
     [(''issue_name'', GStr (r_name r)), (''outcome'', GStr (r_outcome r)), (''result_summary'', GStr (r_summary r)),
      (''error_message'', GStr (r_error r)), (''error_context'', GStr (r_context r)), (''attempts'', GInt (r_attempts r)),
      (''files_changed'', strs (r_files r)), (''branch_name'', GStr (r_branch r)), (''repo_name'', GStr (r_repo r)),
      (''advisor_invocations'', GInt (r_invocations r)), (''adaptations'', objs adaptation_json (r_adaptations r)),
      (''debt_items'', objs id (r_debt r)),
      (''split_request'', case r_split r of None \<Rightarrow> GNil | Some ss \<Rightarrow> objs split_spec_json ss),
      (''escalation_context'', GStr (r_escalation r)), (''final_acceptance_criteria'', strs (r_final r)),
      (''iteration_history'', objs id (r_history r))]"

definition decision_of :: "gmap \<Rightarrow> replan_decision" where
  "decision_of m = \<lparr>
     p_action = as_string (mget m ''action''), p_rationale = as_string (mget m ''rationale''),
     p_updated = dict_list (mget m ''updated_issues''), p_removed = strs_of (mget m ''removed_issue_names''),
     p_skipped = strs_of (mget m ''skipped_issue_names''), p_new = dict_list (mget m ''new_issues''),
     p_summary = as_string (mget m ''summary''), p_form = mget m ''ask_user_form''\<rparr>"

definition decision_json :: "replan_decision \<Rightarrow> gmap" where
  "decision_json p =
     [(''action'', GStr (p_action p)), (''rationale'', GStr (p_rationale p)), (''updated_issues'', objs id (p_updated p)),
      (''removed_issue_names'', strs (p_removed p)), (''skipped_issue_names'', strs (p_skipped p)),
      (''new_issues'', objs id (p_new p)), (''summary'', GStr (p_summary p)), (''ask_user_form'', p_form p)]"

definition dag_state_of :: "gmap \<Rightarrow> dag_state" where
  "dag_state_of m = \<lparr>
     d_repo_path = as_string (mget m ''repo_path''), d_artifacts_dir = as_string (mget m ''artifacts_dir''),
     d_prd_path = as_string (mget m ''prd_path''), d_architecture_path = as_string (mget m ''architecture_path''),
     d_issues_dir = as_string (mget m ''issues_dir''), d_plan_summary = as_string (mget m ''original_plan_summary''),
     d_prd_summary = as_string (mget m ''prd_summary''), d_architecture_summary = as_string (mget m ''architecture_summary''),
     d_issues = dict_list (mget m ''all_issues''),
     d_levels = (case mget m ''levels'' of GList vs \<Rightarrow> map strs_of vs | _ \<Rightarrow> []),
     d_completed = obj_list issue_result_of (mget m ''completed_issues''),
     d_failed = obj_list issue_result_of (mget m ''failed_issues''),
     d_skipped = strs_of (mget m ''skipped_issues''), d_in_flight = strs_of (mget m ''in_flight_issues''),
     d_level = as_int (mget m ''current_level''), d_replans = as_int (mget m ''replan_count''),
     d_history = obj_list decision_of (mget m ''replan_history''), d_max_replans = as_int (mget m ''max_replans''),
     d_integration_branch = as_string (mget m ''git_integration_branch''),
     d_original_branch = as_string (mget m ''git_original_branch''),
     d_initial_commit = as_string (mget m ''git_initial_commit''), d_git_mode = as_string (mget m ''git_mode''),
     d_pending = strs_of (mget m ''pending_merge_branches''), d_merged = strs_of (mget m ''merged_branches''),
     d_unmerged = strs_of (mget m ''unmerged_branches''), d_worktrees_dir = as_string (mget m ''worktrees_dir''),
     d_build_id = as_string (mget m ''build_id''), d_merge_results = dict_list (mget m ''merge_results''),
     d_test_results = dict_list (mget m ''integration_test_results''), d_debt = dict_list (mget m ''accumulated_debt''),
     d_adaptations = dict_list (mget m ''adaptation_history''),
     d_manifest = (case mget m ''workspace_manifest'' of GMap w \<Rightarrow> Some w | _ \<Rightarrow> None)\<rparr>"

definition dag_state_json :: "dag_state \<Rightarrow> gmap" where
  "dag_state_json s =
     [(''repo_path'', GStr (d_repo_path s)), (''artifacts_dir'', GStr (d_artifacts_dir s)),
      (''prd_path'', GStr (d_prd_path s)), (''architecture_path'', GStr (d_architecture_path s)),
      (''issues_dir'', GStr (d_issues_dir s)), (''original_plan_summary'', GStr (d_plan_summary s)),
      (''prd_summary'', GStr (d_prd_summary s)), (''architecture_summary'', GStr (d_architecture_summary s)),
      (''all_issues'', objs id (d_issues s)), (''levels'', GList (map strs (d_levels s))),
      (''completed_issues'', objs issue_result_json (d_completed s)), (''failed_issues'', objs issue_result_json (d_failed s)),
      (''skipped_issues'', strs (d_skipped s)), (''in_flight_issues'', strs (d_in_flight s)),
      (''current_level'', GInt (d_level s)), (''replan_count'', GInt (d_replans s)),
      (''replan_history'', objs decision_json (d_history s)), (''max_replans'', GInt (d_max_replans s)),
      (''git_integration_branch'', GStr (d_integration_branch s)), (''git_original_branch'', GStr (d_original_branch s)),
      (''git_initial_commit'', GStr (d_initial_commit s)), (''git_mode'', GStr (d_git_mode s)),
      (''pending_merge_branches'', strs (d_pending s)), (''merged_branches'', strs (d_merged s)),
      (''unmerged_branches'', strs (d_unmerged s)), (''worktrees_dir'', GStr (d_worktrees_dir s)),
      (''build_id'', GStr (d_build_id s)), (''merge_results'', objs id (d_merge_results s)),
      (''integration_test_results'', objs id (d_test_results s)), (''accumulated_debt'', objs id (d_debt s)),
      (''adaptation_history'', objs id (d_adaptations s)),
      (''workspace_manifest'', case d_manifest s of None \<Rightarrow> GNil | Some w \<Rightarrow> GMap w)]"

section \<open>\<open>dumpToMap\<close> and \<open>mapToStruct\<close>\<close>

definition dump_adaptation :: "adaptation \<Rightarrow> gmap" where
  "dump_adaptation a = json_map (adaptation_json a)"

definition dump_result :: "issue_result \<Rightarrow> gmap" where
  "dump_result r = json_map (issue_result_json r)"

definition dump_state :: "dag_state \<Rightarrow> gmap" where
  "dump_state s = json_map (dag_state_json s)"

definition dump_split_spec :: "split_spec \<Rightarrow> gmap" where
  "dump_split_spec s = json_map (split_spec_json s)"

definition map_to_struct :: "jtype \<Rightarrow> gmap \<Rightarrow> gmap \<times> bool" where
  "map_to_struct t m = (case decode t (zero_of t) (GMap (json_map m)) of (v, ok) \<Rightarrow> (as_map v, ok))"

definition map_to_split_spec :: "gmap \<Rightarrow> split_spec \<times> bool" where
  "map_to_split_spec m = (case map_to_struct j_split_spec m of (v, ok) \<Rightarrow> (split_spec_of v, ok))"

definition map_to_decision :: "gmap \<Rightarrow> replan_decision \<times> bool" where
  "map_to_decision m = (case map_to_struct j_decision m of (v, ok) \<Rightarrow> (decision_of v, ok))"

definition map_to_state :: "gmap \<Rightarrow> dag_state \<times> bool" where
  "map_to_state m = (case map_to_struct j_dag_state m of (v, ok) \<Rightarrow> (dag_state_of v, ok))"

end
