(* ===== verification/Codec.thy ===== *)
theory Codec
  imports Schemas
begin

text \<open>
  The JSON codec of the data models is lossless: what \<open>dumpToMap\<close> or a checkpoint file holds
  decodes to the value it was made from, up to what JSON itself does to the dictionaries inside
  (\<open>json_map\<close>: ints become floats, typed slices become \<open>[]any\<close>).
\<close>

named_theorems codec \<open>decoding what was encoded\<close>

section \<open>Scalars and lists\<close>

lemma dec_int_norm: "0 \<le> e \<Longrightarrow> (case norm_dec m e of (m', e') \<Rightarrow> dec_int m' e') = Some (m * 10 ^ nat e)"
proof (induction m e rule: norm_dec.induct)
  case (1 m e)
  show ?case
  proof (cases "m = 0 \<or> m mod 10 \<noteq> 0")
    case True
    with 1 show ?thesis by (subst norm_dec.simps) (auto simp: dec_int_def)
  next
    case False
    then have "m = 10 * (m div 10)" by presburger
    with 1 False show ?thesis by (subst norm_dec.simps) (auto simp: nat_add_distrib)
  qed
qed

lemma decode_int [codec]: "int64 n \<Longrightarrow> decode JInt d (json_trip (GInt n)) = (GInt n, True)"
  using dec_int_norm [of 0 n] by (auto split: prod.splits)

lemma json_trip_strs [codec]: "json_trip (strs ss) = strs ss"
  by (simp add: strs_def)

lemma decode_str [codec]: "decode JString d (GStr s) = (GStr s, True)"
  by simp

lemma decode_strs [codec]: "decode (JList JString) d (strs ss) = (strs ss, True)"
  by (simp add: strs_def)

lemma decode_str_list [codec]: "decode JStrList d (strs ss) = (strs ss, True)"
  by (simp add: strs_def text_or_null_def)

lemma json_trip_idem [simp]: "json_trip (json_trip v) = json_trip v"
proof (induction v rule: json_trip.induct)
  case (4 ms)
  then show ?case by fastforce
qed (fastforce split: prod.splits)+

lemma json_map_idem [simp]: "json_map (json_map m) = json_map m"
  by (simp add: json_map_def split_beta)

lemma json_trip_GMap: "json_trip (GMap m) = GMap (json_map m)"
  by (simp add: json_map_def)

lemma json_trip_objs: "json_trip (objs f xs) = GList (map (\<lambda>x. GMap (json_map (f x))) xs)"
  by (simp add: objs_def json_map_def)

lemma decode_dicts [codec]: "decode (JList JDict) d (json_trip (objs id ms)) = (objs id (map json_map ms), True)"
  unfolding json_trip_objs by (simp add: objs_def)

lemma decode_objs:
  assumes "\<And>x. x \<in> set xs \<Longrightarrow> decode t (zero_of t) (GMap (json_map (f x))) = (GMap (g x), True)"
  shows "decode (JList t) d (json_trip (objs f xs)) = (objs g xs, True)"
  using assms unfolding json_trip_objs by (simp add: objs_def)

section \<open>Objects\<close>

lemma json_field_unique:
  assumes dist: "distinct (map (to_lower \<circ> fst) m)" and "(k, v) \<in> set m"
  shows "json_field m k = Some v"
proof -
  have "filter (\<lambda>(k', v). to_lower k' = to_lower k) m = [(k, v)]"
    using assms
  proof (induction m)
    case (Cons p m)
    show ?case
    proof (cases "p = (k, v)")
      case True
      with Cons.prems(1) have "filter (\<lambda>(k', v). to_lower k' = to_lower k) m = []"
        by (force simp: filter_empty_conv intro: rev_image_eqI)
      with True show ?thesis by simp
    next
      case False
      with Cons.prems have "(k, v) \<in> set m" and "to_lower (fst p) \<noteq> to_lower k" by (auto intro: rev_image_eqI)
      with Cons show ?thesis by (auto simp: split_beta)
    qed
  qed simp
  then show ?thesis by (simp add: json_field_def filter_sort)
qed

lemma map_lower_json_map [simp]: "map (to_lower \<circ> fst) (json_map m) = map (to_lower \<circ> fst) m"
  by (induction m) (auto simp: json_map_def)

lemma decode_obj:
  assumes names: "map fst fs = map fst m" and dist: "distinct (map (to_lower \<circ> fst) m)"
  shows "decode (JObj fs) d (GMap (json_map m)) =
    (GMap (map (\<lambda>((n, t, z), (k, v)). (n, fst (decode t z (json_trip v)))) (zip fs m)),
     list_all (\<lambda>((n, t, z), (k, v)). snd (decode t z (json_trip v))) (zip fs m))"
proof -
  have len: "length fs = length m" using names by (metis length_map)
  have f: "json_field (json_map m) (fst (fs ! i)) = Some (json_trip (snd (m ! i)))" if "i < length m" for i
  proof -
    have "fst (fs ! i) = fst (m ! i)" using names that len by (metis nth_map)
    moreover have "(fst (m ! i), json_trip (snd (m ! i))) \<in> set (json_map m)"
      using that by (force simp: json_map_def split_beta)
    ultimately show ?thesis using dist by (simp add: json_field_unique)
  qed
  have 1: "map (\<lambda>(n, t, z). (n, case json_field (json_map m) n of None \<Rightarrow> z | Some x \<Rightarrow> fst (decode t z x))) fs
      = map (\<lambda>((n, t, z), (k, v)). (n, fst (decode t z (json_trip v)))) (zip fs m)"
    using len f by (auto intro!: nth_equalityI simp: split_beta)
  have 2: "(\<forall>(n, t, z) \<in> set fs. case json_field (json_map m) n of None \<Rightarrow> True | Some x \<Rightarrow> snd (decode t z x))
      \<longleftrightarrow> list_all (\<lambda>((n, t, z), (k, v)). snd (decode t z (json_trip v))) (zip fs m)"
    using len f by (simp add: list_all_length Ball_set_list_all [symmetric] split_beta) (simp add: all_set_conv_all_nth)
  show ?thesis using 1 2 by simp
qed

text \<open>From here on \<open>codec\<close> decodes; the equations of the decoder would undo its facts.\<close>

declare decode.simps [simp del] json_trip.simps(1) [simp del]

section \<open>The structs\<close>

definition names_of :: "jtype \<Rightarrow> string list" where
  "names_of t = (case t of JObj fs \<Rightarrow> map fst fs | _ \<Rightarrow> [])"

text \<open>Every field name is in lower case already.\<close>

lemma lower_letters [simp]:
  "lower_char CHR ''a'' = CHR ''a''" "lower_char CHR ''b'' = CHR ''b''" "lower_char CHR ''c'' = CHR ''c''"
  "lower_char CHR ''d'' = CHR ''d''" "lower_char CHR ''e'' = CHR ''e''" "lower_char CHR ''f'' = CHR ''f''"
  "lower_char CHR ''g'' = CHR ''g''" "lower_char CHR ''h'' = CHR ''h''" "lower_char CHR ''i'' = CHR ''i''"
  "lower_char CHR ''j'' = CHR ''j''" "lower_char CHR ''k'' = CHR ''k''" "lower_char CHR ''l'' = CHR ''l''"
  "lower_char CHR ''m'' = CHR ''m''" "lower_char CHR ''n'' = CHR ''n''" "lower_char CHR ''o'' = CHR ''o''"
  "lower_char CHR ''p'' = CHR ''p''" "lower_char CHR ''q'' = CHR ''q''" "lower_char CHR ''r'' = CHR ''r''"
  "lower_char CHR ''s'' = CHR ''s''" "lower_char CHR ''t'' = CHR ''t''" "lower_char CHR ''u'' = CHR ''u''"
  "lower_char CHR ''v'' = CHR ''v''" "lower_char CHR ''w'' = CHR ''w''" "lower_char CHR ''x'' = CHR ''x''"
  "lower_char CHR ''y'' = CHR ''y''" "lower_char CHR ''z'' = CHR ''z''" "lower_char CHR ''_'' = CHR ''_''"
  by (simp_all add: lower_char_def)

lemma struct_names_distinct:
  "distinct (map to_lower (names_of j_adaptation))" "distinct (map to_lower (names_of j_split_spec))"
  "distinct (map to_lower (names_of j_issue_result))" "distinct (map to_lower (names_of j_decision))"
  "distinct (map to_lower (names_of j_dag_state))"
  by (simp_all add: names_of_def j_adaptation_def j_split_spec_def j_issue_result_def j_decision_def j_dag_state_def fld_def
      to_lower_def)

lemma distinct_lower:
  "names_of t = map fst m \<Longrightarrow> distinct (map to_lower (names_of t)) \<Longrightarrow> distinct (map (to_lower \<circ> fst) m)"
  by simp

lemma names_adaptation: "names_of j_adaptation = map fst (adaptation_json a)"
  by (simp add: names_of_def j_adaptation_def adaptation_json_def fld_def)

lemma names_split_spec: "names_of j_split_spec = map fst (split_spec_json s)"
  by (simp add: names_of_def j_split_spec_def split_spec_json_def fld_def)

lemma names_issue_result: "names_of j_issue_result = map fst (issue_result_json r)"
  by (simp add: names_of_def j_issue_result_def issue_result_json_def fld_def)

lemma names_decision: "names_of j_decision = map fst (decision_json p)"
  by (simp add: names_of_def j_decision_def decision_json_def fld_def)

lemma names_dag_state: "names_of j_dag_state = map fst (dag_state_json s)"
  by (simp add: names_of_def j_dag_state_def dag_state_json_def fld_def)

text \<open>The general step: an object type applied to what its encoder produced.\<close>

lemma decode_struct:
  assumes "t = JObj fs" and "names_of t = map fst m" and "distinct (map to_lower (names_of t))"
  shows "decode t d (GMap (json_map m)) =
    (GMap (map (\<lambda>((n, t, z), (k, v)). (n, fst (decode t z (json_trip v)))) (zip fs m)),
     list_all (\<lambda>((n, t, z), (k, v)). snd (decode t z (json_trip v))) (zip fs m))"
proof -
  from assms(1,2) have names: "map fst fs = map fst m" by (simp add: names_of_def)
  have "distinct (map (to_lower \<circ> fst) m)" using assms(2,3) by (rule distinct_lower)
  with assms(1) names show ?thesis by (simp add: decode_obj)
qed

lemma decode_adaptation: "decode j_adaptation d (GMap (json_map (adaptation_json a))) = (GMap (adaptation_json a), True)"
  by (subst decode_struct [OF j_adaptation_def names_adaptation struct_names_distinct(1)])
    (simp add: adaptation_json_def fld_def codec)

lemma decode_split_spec: "decode j_split_spec d (GMap (json_map (split_spec_json s))) = (GMap (split_spec_json s), True)"
  by (subst decode_struct [OF j_split_spec_def names_split_spec struct_names_distinct(2)])
    (simp add: split_spec_json_def fld_def codec)

text \<open>What a trip changes: the dictionaries kept as \<open>map[string]any\<close>.\<close>

definition trip_result :: "issue_result \<Rightarrow> issue_result" where
  "trip_result r = r\<lparr>r_debt := map json_map (r_debt r), r_history := map json_map (r_history r)\<rparr>"

definition trip_decision :: "replan_decision \<Rightarrow> replan_decision" where
  "trip_decision p = p\<lparr>p_updated := map json_map (p_updated p), p_new := map json_map (p_new p)\<rparr>"

definition trip_state :: "dag_state \<Rightarrow> dag_state" where
  "trip_state s = s\<lparr>d_issues := map json_map (d_issues s), d_completed := map trip_result (d_completed s),
     d_failed := map trip_result (d_failed s), d_history := map trip_decision (d_history s),
     d_merge_results := map json_map (d_merge_results s), d_test_results := map json_map (d_test_results s),
     d_debt := map json_map (d_debt s), d_adaptations := map json_map (d_adaptations s),
     d_manifest := map_option json_map (d_manifest s)\<rparr>"

text \<open>The counters fit Go's \<open>int\<close>, and a form is one that came out of the decoder.\<close>

definition result_ok :: "issue_result \<Rightarrow> bool" where
  "result_ok r \<longleftrightarrow> int64 (r_attempts r) \<and> int64 (r_invocations r)"

definition decision_ok :: "replan_decision \<Rightarrow> bool" where
  "decision_ok p \<longleftrightarrow> decode (JPtr j_form) GNil (json_trip (p_form p)) = (p_form p, True)"

definition state_ok :: "dag_state \<Rightarrow> bool" where
  "state_ok s \<longleftrightarrow> int64 (d_level s) \<and> int64 (d_replans s) \<and> int64 (d_max_replans s) \<and>
     list_all result_ok (d_completed s) \<and> list_all result_ok (d_failed s) \<and> list_all decision_ok (d_history s)"

lemma decode_split_request:
  "decode (JPtr (JList j_split_spec)) d (json_trip (case req of None \<Rightarrow> GNil | Some ss \<Rightarrow> objs split_spec_json ss))
   = ((case req of None \<Rightarrow> GNil | Some ss \<Rightarrow> objs split_spec_json ss), True)"
proof (cases req)
  case (Some ss)
  have "json_trip (objs split_spec_json ss) \<noteq> GNil" by (simp add: json_trip_objs)
  with Some show ?thesis by (simp add: decode.simps decode_objs [OF decode_split_spec, simplified decode.simps])
qed (simp add: decode.simps)

lemma decode_result:
  assumes "result_ok r"
  shows "decode j_issue_result d (GMap (json_map (issue_result_json r))) = (GMap (issue_result_json (trip_result r)), True)"
  using assms
  by (subst decode_struct [OF j_issue_result_def names_issue_result struct_names_distinct(3)])
    (simp add: issue_result_json_def fld_def codec trip_result_def result_ok_def decode_split_request
       decode_objs [OF decode_adaptation])

lemma decode_decision:
  assumes "decision_ok p"
  shows "decode j_decision d (GMap (json_map (decision_json p))) = (GMap (decision_json (trip_decision p)), True)"
  using assms
  by (subst decode_struct [OF j_decision_def names_decision struct_names_distinct(4)])
    (simp add: decision_json_def fld_def codec trip_decision_def decision_ok_def)

lemma json_trip_comp_strs [codec]: "json_trip \<circ> strs = strs"
  by (auto simp: codec)

lemma decode_levels [codec]:
  "decode (JList (JList JString)) d (GList (map strs ls)) = (GList (map strs ls), True)"
  by (simp add: decode.simps(8) [of "JList JString"] codec)

lemma decode_manifest [codec]:
  "decode JDict d (json_trip (case m of None \<Rightarrow> GNil | Some w \<Rightarrow> GMap w))
   = ((case map_option json_map m of None \<Rightarrow> GNil | Some w \<Rightarrow> GMap w), True)"
  by (cases m) (simp_all add: decode.simps json_trip_GMap del: json_trip.simps(5))

lemma objs_map: "objs f (map g xs) = objs (\<lambda>x. f (g x)) xs"
  by (simp add: objs_def)

lemma decode_state:
  assumes "state_ok s"
  shows "decode j_dag_state d (GMap (json_map (dag_state_json s))) = (GMap (dag_state_json (trip_state s)), True)"
proof -
  have results: "decode (JList j_issue_result) d (json_trip (objs issue_result_json rs))
      = (objs issue_result_json (map trip_result rs), True)" if "list_all result_ok rs" for d rs
    unfolding objs_map using that by (intro decode_objs decode_result) (simp add: list_all_iff)
  have history: "decode (JList j_decision) d (json_trip (objs decision_json ps))
      = (objs decision_json (map trip_decision ps), True)" if "list_all decision_ok ps" for d ps
    unfolding objs_map using that by (intro decode_objs decode_decision) (simp add: list_all_iff)
  show ?thesis
    using assms
    by (subst decode_struct [OF j_dag_state_def names_dag_state struct_names_distinct(5)])
      (simp add: dag_state_json_def fld_def codec trip_state_def state_ok_def results history)
qed

section \<open>Reading the records back\<close>

lemma strs_of_strs [simp]: "strs_of (strs ss) = ss"
  by (simp add: strs_def comp_def)

lemma obj_list_objs: "(\<And>x. x \<in> set xs \<Longrightarrow> f (g x) = x) \<Longrightarrow> obj_list f (objs g xs) = xs"
  by (induction xs) (auto simp: obj_list_def dict_list_def objs_def as_map_def)

lemma dict_list_objs [simp]: "dict_list (objs id ms) = ms"
  by (simp add: dict_list_def objs_def as_map_def comp_def)

lemma adaptation_of_json [simp]: "adaptation_of (adaptation_json a) = a"
  by (simp add: adaptation_of_def adaptation_json_def mget_def lookup_def_def)

lemma split_spec_of_json [simp]: "split_spec_of (split_spec_json s) = s"
  by (simp add: split_spec_of_def split_spec_json_def mget_def lookup_def_def)

lemma as_int_GInt [simp]: "as_int (GInt n) = n"
  by (simp add: as_int_def)

lemma split_request_back:
  "(case (case req of None \<Rightarrow> GNil | Some ss \<Rightarrow> objs split_spec_json ss) of GNil \<Rightarrow> None | v \<Rightarrow> Some (obj_list split_spec_of v)) = req"
  by (cases req) (simp_all add: objs_def obj_list_def dict_list_def as_map_def comp_def)

lemma issue_result_of_json [simp]: "issue_result_of (issue_result_json r) = r"
  by (simp add: issue_result_of_def issue_result_json_def mget_def lookup_def_def obj_list_objs split_request_back)

lemma decision_of_json [simp]: "decision_of (decision_json p) = p"
  by (simp add: decision_of_def decision_json_def mget_def lookup_def_def)

lemma levels_back: "map (strs_of \<circ> strs) ls = ls"
  by (induction ls) auto

lemma dag_state_of_json [simp]: "dag_state_of (dag_state_json s) = s"
  by (simp add: dag_state_of_def dag_state_json_def mget_def lookup_def_def obj_list_objs levels_back split: option.splits)

declare json_trip.simps(1) [simp]

end
