(* ===== verification/Config.thy ===== *)
theory Config
  imports Prelude
begin

text \<open>
  Runtime and model resolution: \<open>internal/config/resolve.go\<close>, the legacy-key check of
  \<open>internal/config/legacy.go\<close>, the runtime names of \<open>internal/runtimex\<close>, and the execution
  configuration of \<open>internal/config/executionconfig.go\<close>. The environment is a function from
  variable names to values (empty when unset, as \<open>os.Getenv\<close> gives them). A Go map is an
  association list with distinct keys; \<open>None\<close> is the nil map.
\<close>

section \<open>Runtimes (\<open>runtimex\<close>)\<close>

definition runtime_values :: "string list" where
  "runtime_values = [''aforge'', ''claude_code'', ''open_code'', ''codex'']"

definition normalize_runtime_provider :: "string \<Rightarrow> string + string" where
  "normalize_runtime_provider runtime =
     (let v = to_lower (trim_space runtime)
      in if v \<in> set [''claude_code'', ''claude'', ''claude-code''] then Inr ''claude_code''
         else if v \<in> set [''open_code'', ''opencode''] then Inr ''open_code''
         else if v \<in> set [''aforge'', ''aforge_v2'', ''aforge-v2''] then Inr ''aforge''
         else if v = ''codex'' then Inr ''codex''
         else Inl (''Unsupported runtime provider: '' @ runtime))"

definition runtime_to_harness_provider :: "string \<Rightarrow> string + string" where
  "runtime_to_harness_provider runtime = (case normalize_runtime_provider runtime of
     Inl e \<Rightarrow> Inl e
   | Inr r \<Rightarrow> Inr (if r = ''claude_code'' then ''claude'' else if r = ''open_code'' then ''opencode''
                  else if r = ''aforge'' then ''aforge'' else ''codex''))"

definition runtime_to_provider :: "string \<Rightarrow> string" where
  "runtime_to_provider runtime = (case runtime_to_harness_provider runtime of Inl e \<Rightarrow> [] | Inr p \<Rightarrow> p)"

section \<open>Roles, fields and tiers\<close>

definition role_model_pairs :: "(string \<times> string) list" where
  "role_model_pairs =
     [(''pm'', ''pm_model''), (''architect'', ''architect_model''), (''tech_lead'', ''tech_lead_model''),
      (''sprint_planner'', ''sprint_planner_model''), (''coder'', ''coder_model''), (''qa'', ''qa_model''),
      (''code_reviewer'', ''code_reviewer_model''), (''qa_synthesizer'', ''qa_synthesizer_model''),
      (''replan'', ''replan_model''), (''retry_advisor'', ''retry_advisor_model''), (''issue_writer'', ''issue_writer_model''),
      (''issue_advisor'', ''issue_advisor_model''), (''verifier'', ''verifier_model''), (''git'', ''git_model''),
      (''merger'', ''merger_model''), (''integration_tester'', ''integration_tester_model''), (''ci_fixer'', ''ci_fixer_model'')]"

definition role_to_model_field :: "string \<Rightarrow> string option" where
  "role_to_model_field role = map_of role_model_pairs role"

definition model_field_to_role :: "string \<Rightarrow> string option" where
  "model_field_to_role f = map_of (map (\<lambda>(r, f). (f, r)) role_model_pairs) f"

definition all_model_fields :: "string list" where
  "all_model_fields = map snd role_model_pairs"

definition allowed_model_keys :: "string list" where
  "allowed_model_keys = map fst role_model_pairs @ [''default'']"

definition role_to_tier :: "(string \<times> string) list" where
  "role_to_tier =
     [(''pm'', ''high''), (''architect'', ''high''), (''tech_lead'', ''high''), (''replan'', ''high''),
      (''sprint_planner'', ''med''), (''coder'', ''med''), (''qa'', ''med''), (''code_reviewer'', ''med''),
      (''retry_advisor'', ''med''), (''issue_writer'', ''med''), (''issue_advisor'', ''med''), (''verifier'', ''med''),
      (''merger'', ''med''), (''integration_tester'', ''med''), (''ci_fixer'', ''med''),
      (''qa_synthesizer'', ''low''), (''git'', ''low'')]"

definition tier_model_env_vars :: "(string \<times> string) list" where
  "tier_model_env_vars = [(''low'', ''SWE_MODEL_LOW''), (''med'', ''SWE_MODEL_MED''), (''high'', ''SWE_MODEL_HIGH'')]"

section \<open>Base models\<close>

definition codex_api_key_model :: string where "codex_api_key_model = ''gpt-5.3-codex''"
definition codex_chatgpt_model :: string where "codex_chatgpt_model = ''gpt-5.5''"
definition openrouter_auto_default_model :: string where
  "openrouter_auto_default_model = ''openrouter/deepseek/deepseek-v4-flash-0731''"
definition infron_auto_default_model :: string where
  "infron_auto_default_model = ''infron/deepseek/deepseek-v4-flash-0731''"

definition runtime_base_model :: "string \<Rightarrow> string \<Rightarrow> string" where
  "runtime_base_model runtime f =
     (if runtime = ''claude_code'' then (if f = ''qa_synthesizer_model'' then ''haiku'' else ''sonnet'')
      else if runtime = ''codex'' then codex_api_key_model
      else openrouter_auto_default_model)"

definition runtime_base_models :: "string \<Rightarrow> (string \<times> string) list option" where
  "runtime_base_models runtime =
     (if runtime \<in> set runtime_values
      then Some (map (\<lambda>f. (f, runtime_base_model runtime f)) all_model_fields) else None)"

section \<open>The environment\<close>

type_synonym getenv = "string \<Rightarrow> string"

definition env_stripped :: "getenv \<Rightarrow> string \<Rightarrow> string" where
  "env_stripped genv key = trim_space (genv key)"

definition openrouter_only_env :: "getenv \<Rightarrow> bool" where
  "openrouter_only_env genv =
     (if env_stripped genv ''SWE_DEFAULT_RUNTIME'' \<noteq> [] then False else env_stripped genv ''OPENROUTER_API_KEY'' \<noteq> [])"

definition infron_only_env :: "getenv \<Rightarrow> bool" where
  "infron_only_env genv =
     (if env_stripped genv ''SWE_DEFAULT_RUNTIME'' \<noteq> [] then False
      else if env_stripped genv ''ANTHROPIC_API_KEY'' \<noteq> [] then False
      else if env_stripped genv ''OPENROUTER_API_KEY'' \<noteq> [] then False
      else env_stripped genv ''INFRON_API_KEY'' \<noteq> [])"

definition default_runtime :: "getenv \<Rightarrow> string" where
  "default_runtime genv =
     (let v = env_stripped genv ''SWE_DEFAULT_RUNTIME''
      in if v = [] then
           (if openrouter_only_env genv then ''aforge'' else if infron_only_env genv then ''open_code'' else ''claude_code'')
         else if v \<in> set runtime_values then v else ''claude_code'')"

definition codex_uses_chatgpt_auth :: "getenv \<Rightarrow> bool" where
  "codex_uses_chatgpt_auth genv =
     (let raw = to_lower (trim_space (genv ''SWE_CODEX_AUTH_MODE'')); mode = (if raw = [] then ''auto'' else raw)
      in if mode = ''api_key'' then False else if mode = ''chatgpt'' then True
         else env_stripped genv ''OPENAI_API_KEY'' = [])"

definition codex_default_model :: "getenv \<Rightarrow> string" where
  "codex_default_model genv = (if codex_uses_chatgpt_auth genv then codex_chatgpt_model else codex_api_key_model)"

definition default_model_env_vars :: "string list" where
  "default_model_env_vars = [''SWE_DEFAULT_MODEL'', ''AI_MODEL'', ''HARNESS_MODEL'']"

fun first_model_in :: "getenv \<Rightarrow> string \<Rightarrow> string list \<Rightarrow> string" where
  "first_model_in genv runtime [] = []"
| "first_model_in genv runtime (v # vs) =
     (if v = ''HARNESS_MODEL'' \<and> runtime \<noteq> ''open_code'' then first_model_in genv runtime vs
      else if env_stripped genv v \<noteq> [] then env_stripped genv v
      else first_model_in genv runtime vs)"

definition default_model_from_env :: "getenv \<Rightarrow> string \<Rightarrow> string" where
  "default_model_from_env genv runtime = first_model_in genv runtime default_model_env_vars"

definition tier_models_from_env :: "getenv \<Rightarrow> (string \<times> string) list" where
  "tier_models_from_env genv =
     filter (\<lambda>(t, m). m \<noteq> []) (map (\<lambda>(t, v). (t, env_stripped genv v)) tier_model_env_vars)"

section \<open>\<open>ResolveRuntimeModels\<close>\<close>

definition py_repr :: "string \<Rightarrow> string" where
  "py_repr s = [CHR 0x27] @ s @ [CHR 0x27]"

definition validate_flat_models :: "(string \<times> string) list option \<Rightarrow> string + (string \<times> string) list" where
  "validate_flat_models models = (case models of
     None \<Rightarrow> Inr []
   | Some ms \<Rightarrow>
       let unknown = filter (\<lambda>k. k \<notin> set allowed_model_keys) (map fst ms)
       in if unknown \<noteq> []
          then Inl (''Unknown model keys: '' @ join '', '' (map py_repr (sort unknown)) @
            ''. Valid keys: '' @ join '', '' (sort allowed_model_keys))
          else Inr ms)"

text \<open>\<open>for _, field := range fieldNames { resolved[field] = g(field) }\<close>\<close>

fun assign_fields :: "(string \<Rightarrow> string) \<Rightarrow> string list \<Rightarrow> (string \<times> string) list \<Rightarrow> (string \<times> string) list" where
  "assign_fields g [] m = m"
| "assign_fields g (f # fs) m = assign_fields g fs (AList.update f (g f) m)"

fun assign_tiers :: "(string \<times> string) list \<Rightarrow> string list \<Rightarrow> (string \<times> string) list \<Rightarrow> (string \<times> string) list" where
  "assign_tiers tiers [] m = m"
| "assign_tiers tiers (f # fs) m =
     (let role = (case model_field_to_role f of None \<Rightarrow> [] | Some r \<Rightarrow> r)
      in assign_tiers tiers fs (case map_of tiers (lookup_def [] role_to_tier role) of
           None \<Rightarrow> m | Some model \<Rightarrow> AList.update f model m))"

fun assign_roles :: "(string \<times> string) list \<Rightarrow> (string \<times> string) list \<Rightarrow> (string \<times> string) list" where
  "assign_roles [] m = m"
| "assign_roles ((role, model) # ms) m =
     assign_roles ms
       (if role = ''default'' then m
        else let f = (case role_to_model_field role of None \<Rightarrow> [] | Some f \<Rightarrow> f)
             in if map_of m f \<noteq> None then AList.update f model m else m)"

definition runtime_base :: "getenv \<Rightarrow> string \<Rightarrow> (string \<times> string) list \<Rightarrow> (string \<times> string) list" where
  "runtime_base genv runtime base =
     (if runtime = ''codex'' then map (\<lambda>(f, m). (f, codex_default_model genv)) base
      else if runtime = ''open_code'' \<and> openrouter_only_env genv then map (\<lambda>(f, m). (f, openrouter_auto_default_model)) base
      else if runtime = ''open_code'' \<and> infron_only_env genv then map (\<lambda>(f, m). (f, infron_auto_default_model)) base
      else base)"

definition resolve_runtime_models :: "getenv \<Rightarrow> string \<Rightarrow> (string \<times> string) list option \<Rightarrow> string list option
    \<Rightarrow> string + (string \<times> string) list" where
  "resolve_runtime_models genv runtime models field_names =
     (let fields = (case field_names of None \<Rightarrow> all_model_fields | Some fs \<Rightarrow> fs)
      in case runtime_base_models runtime of
        None \<Rightarrow> Inl (''Unsupported runtime '' @ py_repr runtime @ ''. Valid runtimes: '' @ join '', '' runtime_values)
      | Some base0 \<Rightarrow> (case validate_flat_models models of
          Inl e \<Rightarrow> Inl e
        | Inr flat \<Rightarrow>
            let base = runtime_base genv runtime base0;
                r1 = assign_fields (lookup_def [] base) fields [];
                env_default = default_model_from_env genv runtime;
                r2 = (if env_default \<noteq> [] then assign_fields (\<lambda>f. env_default) fields r1 else r1);
                tiers = tier_models_from_env genv;
                r3 = (if tiers \<noteq> [] then assign_tiers tiers fields r2 else r2);
                r4 = (case map_of flat ''default'' of
                    Some d \<Rightarrow> if d \<noteq> [] then assign_fields (\<lambda>f. d) fields r3 else r3 | None \<Rightarrow> r3)
            in Inr (assign_roles flat r4)))"

definition default_role_model :: "getenv \<Rightarrow> string \<Rightarrow> string \<Rightarrow> string + string" where
  "default_role_model genv role runtime =
     (case role_to_model_field role of
        None \<Rightarrow> Inl (''unknown role '' @ py_repr role)
      | Some f \<Rightarrow>
          (case normalize_runtime_provider (if runtime \<noteq> [] then runtime else default_runtime genv) of
             Inl e \<Rightarrow> Inl e
           | Inr selected \<Rightarrow> (case resolve_runtime_models genv selected None (Some [f]) of
               Inl e \<Rightarrow> Inl e | Inr r \<Rightarrow> Inr (lookup_def [] r f))))"

definition default_planning_model :: "getenv \<Rightarrow> string \<Rightarrow> string" where
  "default_planning_model genv runtime = (case default_role_model genv ''pm'' runtime of Inl e \<Rightarrow> ''sonnet'' | Inr m \<Rightarrow> m)"

section \<open>The execution configuration\<close>

text \<open>
  \<open>ExecutionConfig\<close>; \<open>c_overrides\<close> is its \<open>Models\<close> (nil or a map) and \<open>c_models\<close> the resolved ones.
  The failure threshold is the fraction \<open>n/d\<close> the configuration gives in decimal.
\<close>

record exec_config =
  c_runtime :: string
  c_overrides :: "(string \<times> string) list option"
  c_max_retries :: int
  c_max_replans :: int
  c_enable_replanning :: bool
  c_max_test_retries :: int
  c_enable_testing :: bool
  c_max_iterations :: int
  c_agent_max_turns :: int
  c_deterministic_git :: bool
  c_permission_mode :: string
  c_timeout :: int
  c_max_advisor :: int
  c_enable_advisor :: bool
  c_enable_learning :: bool
  c_max_concurrent :: int
  c_threshold_num :: int
  c_threshold_den :: int
  c_check_ci :: bool
  c_max_ci_cycles :: int
  c_ci_wait :: int
  c_ci_poll :: int
  c_models :: "(string \<times> string) list"

definition model_for :: "exec_config \<Rightarrow> string \<Rightarrow> string" where
  "model_for cfg f = lookup_def [] (c_models cfg) f"

definition ai_provider :: "exec_config \<Rightarrow> string" where
  "ai_provider cfg = runtime_to_provider (c_runtime cfg)"

definition default_execution_config :: "getenv \<Rightarrow> exec_config" where
  "default_execution_config genv =
     \<lparr>c_runtime = default_runtime genv, c_overrides = None, c_max_retries = 1, c_max_replans = 2, c_enable_replanning = True,
      c_max_test_retries = 1, c_enable_testing = True, c_max_iterations = 5, c_agent_max_turns = 150, c_deterministic_git = True,
      c_permission_mode = [], c_timeout = 2700, c_max_advisor = 2, c_enable_advisor = True, c_enable_learning = False,
      c_max_concurrent = 3, c_threshold_num = 8, c_threshold_den = 10, c_check_ci = True, c_max_ci_cycles = 2,
      c_ci_wait = 1500, c_ci_poll = 30, c_models = []\<rparr>"

section \<open>Precedence\<close>

lemma pairs_distinct: "distinct (map fst role_model_pairs)" "distinct (map snd role_model_pairs)"
  "''default'' \<notin> set (map fst role_model_pairs)"
  by (simp_all add: role_model_pairs_def)

lemma role_to_field: "(role, f) \<in> set role_model_pairs \<Longrightarrow> role_to_model_field role = Some f"
  by (simp add: role_to_model_field_def pairs_distinct(1) map_of_eq_Some_iff)

lemma field_to_role: "(role, f) \<in> set role_model_pairs \<Longrightarrow> model_field_to_role f = Some role"
proof -
  have "map fst (map (\<lambda>(r, f). (f, r)) role_model_pairs) = map snd role_model_pairs" by (simp add: split_beta)
  then have "distinct (map fst (map (\<lambda>(r, f). (f, r)) role_model_pairs))" using pairs_distinct(2) by (simp only:)
  moreover assume "(role, f) \<in> set role_model_pairs"
  then have "(f, role) \<in> set (map (\<lambda>(r, f). (f, r)) role_model_pairs)" by force
  ultimately show ?thesis by (simp only: model_field_to_role_def map_of_eq_Some_iff)
qed

lemma field_unique: "role_to_model_field r = Some f \<Longrightarrow> (role, f) \<in> set role_model_pairs \<Longrightarrow> r = role"
  using field_to_role [of r f] field_to_role [of role f] by (simp add: role_to_model_field_def map_of_SomeD)

lemma map_of_assign_fields:
  "map_of (assign_fields g fs m) f = (if f \<in> set fs then Some (g f) else map_of m f)"
  by (induction g fs m rule: assign_fields.induct) (auto simp: map_of_update)

lemma map_of_assign_tiers:
  "(role, f) \<in> set role_model_pairs \<Longrightarrow>
   map_of (assign_tiers tiers fs m) f =
     (case (if f \<in> set fs then map_of tiers (lookup_def [] role_to_tier role) else None) of
        Some x \<Rightarrow> Some x | None \<Rightarrow> map_of m f)"
  by (induction tiers fs m rule: assign_tiers.induct)
    (auto simp: map_of_update field_to_role Let_def split: option.splits)

lemma map_of_assign_roles:
  assumes role: "(role, f) \<in> set role_model_pairs"
  shows "distinct (map fst ms) \<Longrightarrow> map_of m f \<noteq> None \<Longrightarrow> set (map fst ms) \<subseteq> set allowed_model_keys \<Longrightarrow>
   map_of (assign_roles ms m) f = (case map_of ms role of Some x \<Rightarrow> Some x | None \<Rightarrow> map_of m f)"
proof (induction ms m rule: assign_roles.induct)
  case (2 r model ms m)
  have not_default: "role \<noteq> ''default''" using role pairs_distinct(3) by force
  let ?f = "case role_to_model_field r of None \<Rightarrow> [] | Some f \<Rightarrow> f"
  let ?m = "if r = ''default'' then m else if map_of m ?f \<noteq> None then AList.update ?f model m else m"
  have f: "?f = f \<longleftrightarrow> r = role" if nd: "r \<noteq> ''default''"
  proof
    assume "?f = f"
    moreover from "2.prems"(3) nd obtain f' where "(r, f') \<in> set role_model_pairs"
      by (auto simp: allowed_model_keys_def)
    then have "role_to_model_field r = Some f'" by (rule role_to_field)
    ultimately show "r = role" using field_unique [of r f role] role by simp
  qed (simp add: role_to_field [OF role])
  have ih: "map_of (assign_roles ms ?m) f = (case map_of ms role of Some x \<Rightarrow> Some x | None \<Rightarrow> map_of ?m f)"
    using "2.prems" by (intro "2.IH" [unfolded Let_def]) (auto simp: map_of_update)
  have upd: "map_of ?m f = (if r = role then Some model else map_of m f)"
  proof (cases "r = ''default''")
    case True
    with not_default show ?thesis by simp
  next
    case False
    with f have "?f = f \<longleftrightarrow> r = role" by blast
    with False "2.prems"(2) show ?thesis by (cases "r = role") (simp_all add: map_of_update)
  qed
  have absent: "map_of ms role = None" if "r = role" using "2.prems"(1) that by (simp add: map_of_eq_None_iff)
  have step: "assign_roles ((r, model) # ms) m = assign_roles ms ?m" by (simp only: assign_roles.simps Let_def)
  show ?case
    unfolding step ih upd using absent by (cases "r = role") simp_all
qed simp

definition tier_model :: "getenv \<Rightarrow> string \<Rightarrow> string" where
  "tier_model genv role = env_stripped genv (lookup_def [] tier_model_env_vars (lookup_def [] role_to_tier role))"

lemma tier_known: "(role, f) \<in> set role_model_pairs \<Longrightarrow> lookup_def [] role_to_tier role \<in> {''low'', ''med'', ''high''}"
  by (auto simp: role_model_pairs_def role_to_tier_def lookup_def_def)

lemma map_of_tiers:
  assumes "(role, f) \<in> set role_model_pairs"
  shows "map_of (tier_models_from_env genv) (lookup_def [] role_to_tier role)
    = (if tier_model genv role = [] then None else Some (tier_model genv role))"
  using tier_known [OF assms]
  by (auto simp: tier_model_def tier_models_from_env_def tier_model_env_vars_def lookup_def_def)

definition flat_models :: "(string \<times> string) list option \<Rightarrow> (string \<times> string) list" where
  "flat_models models = (case models of None \<Rightarrow> [] | Some ms \<Rightarrow> ms)"

lemma validate_flat: "validate_flat_models models = Inr ms \<longleftrightarrow>
    ms = flat_models models \<and> set (map fst ms) \<subseteq> set allowed_model_keys"
  by (cases models) (auto simp: validate_flat_models_def flat_models_def Let_def filter_empty_conv split: if_splits)

text \<open>
  C27: For a role among the resolved fields the model is the one configured for the role; without
  one the configured default if it is not empty; else the tier's environment variable, else the
  default model of the environment, else the runtime's base model. A model configured as the
  empty string for a role wins too, unlike an empty default.
\<close>

theorem resolve_precedence:
  assumes res: "resolve_runtime_models genv runtime models field_names = Inr resolved"
    and keys: "distinct (map fst (flat_models models))"
    and role: "(role, f) \<in> set role_model_pairs"
    and f: "f \<in> set (case field_names of None \<Rightarrow> all_model_fields | Some fs \<Rightarrow> fs)"
  shows "map_of resolved f = Some (
    case map_of (flat_models models) role of Some model \<Rightarrow> model
    | None \<Rightarrow>
        let dflt = lookup_def [] (flat_models models) ''default''
        in if dflt \<noteq> [] then dflt
           else if tier_model genv role \<noteq> [] then tier_model genv role
           else if default_model_from_env genv runtime \<noteq> [] then default_model_from_env genv runtime
           else if runtime = ''codex'' then codex_default_model genv
           else if runtime = ''open_code'' \<and> openrouter_only_env genv then openrouter_auto_default_model
           else if runtime = ''open_code'' \<and> infron_only_env genv then infron_auto_default_model
           else runtime_base_model runtime f)"
proof -
  let ?flat = "flat_models models" and ?fs = "case field_names of None \<Rightarrow> all_model_fields | Some fs \<Rightarrow> fs"
  have "f \<in> set all_model_fields" using role by (force simp: all_model_fields_def)
  from res obtain base0 where b0: "runtime_base_models runtime = Some base0"
    and v: "validate_flat_models models = Inr ?flat" and sub: "set (map fst ?flat) \<subseteq> set allowed_model_keys"
    by (auto simp: resolve_runtime_models_def validate_flat Let_def split: option.splits sum.splits)
  define base where "base = runtime_base genv runtime base0"
  have base: "lookup_def [] base f =
      (if runtime = ''codex'' then codex_default_model genv
       else if runtime = ''open_code'' \<and> openrouter_only_env genv then openrouter_auto_default_model
       else if runtime = ''open_code'' \<and> infron_only_env genv then infron_auto_default_model
       else runtime_base_model runtime f)"
    using b0 \<open>f \<in> set all_model_fields\<close>
    by (auto simp: base_def runtime_base_def runtime_base_models_def lookup_def_def map_of_map_keys comp_def
        map_of_map_restrict split: if_splits)
  define r1 where "r1 = assign_fields (lookup_def [] base) ?fs []"
  define r2 where "r2 = (if default_model_from_env genv runtime \<noteq> []
    then assign_fields (\<lambda>f. default_model_from_env genv runtime) ?fs r1 else r1)"
  define r3 where "r3 = (if tier_models_from_env genv \<noteq> [] then assign_tiers (tier_models_from_env genv) ?fs r2 else r2)"
  define r4 where "r4 = (case map_of ?flat ''default'' of
      Some d \<Rightarrow> if d \<noteq> [] then assign_fields (\<lambda>f. d) ?fs r3 else r3 | None \<Rightarrow> r3)"
  have "resolve_runtime_models genv runtime models field_names = Inr (assign_roles ?flat r4)"
    unfolding resolve_runtime_models_def Let_def b0 v option.case sum.case r4_def r3_def r2_def r1_def base_def
    by (rule refl)
  with res have "resolved = assign_roles ?flat r4" by simp
  moreover have m2: "map_of r2 f = Some (if default_model_from_env genv runtime \<noteq> [] then default_model_from_env genv runtime
      else lookup_def [] base f)"
    using f by (simp add: r2_def r1_def map_of_assign_fields)
  moreover have m3: "map_of r3 f = (if tier_model genv role \<noteq> [] then Some (tier_model genv role) else map_of r2 f)"
    using f map_of_tiers [OF role, of genv] by (auto simp: r3_def map_of_assign_tiers [OF role])
  moreover have m4: "map_of r4 f = (let d = lookup_def [] ?flat ''default'' in if d \<noteq> [] then Some d else map_of r3 f)"
    using f by (simp add: r4_def map_of_assign_fields lookup_def_def split: option.splits)
  moreover have "map_of r4 f \<noteq> None" using m2 m3 m4 by (simp add: Let_def)
  ultimately show ?thesis
    using map_of_assign_roles [OF role keys _ sub, of r4] base by (auto simp: Let_def split: option.splits)
qed

definition med_env :: getenv where
  "med_env k = (if k = ''SWE_MODEL_MED'' then '' mid '' else if k = ''AI_MODEL'' then ''any'' else [])"

theorem resolve_precedence_witness:
  "\<exists>resolved. resolve_runtime_models med_env ''claude_code'' (Some [(''coder'', ''opus'')]) (Some [''coder_model'', ''qa_model'', ''git_model'']) = Inr resolved \<and>
     map_of resolved ''qa_model'' = Some ''mid''"
proof -
  let ?r = "[(''coder_model'', ''opus''), (''qa_model'', ''mid''), (''git_model'', ''any'')]"
  have r: "resolve_runtime_models med_env ''claude_code'' (Some [(''coder'', ''opus'')]) (Some [''coder_model'', ''qa_model'', ''git_model'']) = Inr ?r"
    by code_simp
  have role: "(''qa'', ''qa_model'') \<in> set role_model_pairs" by (simp add: role_model_pairs_def)
  have tier: "tier_model med_env ''qa'' = ''mid''" by code_simp
  have "map_of ?r ''qa_model'' = Some ''mid''"
    using resolve_precedence [OF r _ role] tier by (simp add: flat_models_def lookup_def_def)
  with r show ?thesis by blast
qed

text \<open>
  Resolution fails exactly for an unknown runtime or an unknown model key.
\<close>

lemma resolve_succeeds_iff:
  "(\<exists>resolved. resolve_runtime_models genv runtime models field_names = Inr resolved) \<longleftrightarrow>
   runtime \<in> set runtime_values \<and> fst ` set (flat_models models) \<subseteq> set allowed_model_keys"
proof -
  have "(\<exists>ms. validate_flat_models models = Inr ms) \<longleftrightarrow> fst ` set (flat_models models) \<subseteq> set allowed_model_keys"
    using validate_flat [of models "flat_models models"] validate_flat by auto
  then show ?thesis
    by (auto simp: resolve_runtime_models_def runtime_base_models_def Let_def split: sum.splits)
qed

end
