(* ===== verification/CodingLoop.thy ===== *)
theory CodingLoop
  imports Memory Codec Config
begin

text \<open>
  The inner loop, \<open>RunCodingLoop\<close> of \<open>internal/coding/loop.go\<close>, with the iteration checkpoints of
  \<open>internal/coding/artifacts.go\<close>. The loop's body is split at its early returns: the coder call,
  the review path (default or flagged), and the conclusion; \<open>step\<close> says whether an iteration
  returned or goes on. Notes are observability only and not modelled. The QA and reviewer calls
  of the flagged path run concurrently and meet only in their replies; as a call is an arbitrary
  function of the world, letting the QA call go first loses no outcome.
\<close>

section \<open>Iteration checkpoints and artifacts\<close>

definition iteration_state_path :: "string \<Rightarrow> string \<Rightarrow> string \<Rightarrow> string" where
  "iteration_state_path artifacts_dir name build_id =
     (if artifacts_dir = [] then []
      else if build_id \<noteq> [] then path_join [artifacts_dir, ''execution'', ''iterations'', build_id, name @ ''.json'']
      else path_join [artifacts_dir, ''execution'', ''iterations'', name @ ''.json''])"

definition save_iteration_state :: "'x env \<Rightarrow> string \<Rightarrow> string \<Rightarrow> gmap \<Rightarrow> string \<Rightarrow> 'x world \<Rightarrow> 'x world" where
  "save_iteration_state env artifacts_dir name state build_id w =
     (let path = iteration_state_path artifacts_dir name build_id
      in if path = [] then w else write_json env path state w)"

definition load_iteration_state :: "string \<Rightarrow> string \<Rightarrow> string \<Rightarrow> 'x world \<Rightarrow> gmap option" where
  "load_iteration_state artifacts_dir name build_id w =
     (let path = iteration_state_path artifacts_dir name build_id
      in if path = [] then None else files w path)"

definition save_artifact :: "'x env \<Rightarrow> string \<Rightarrow> string \<Rightarrow> string \<Rightarrow> gmap \<Rightarrow> 'x world \<Rightarrow> 'x world" where
  "save_artifact env artifacts_dir iteration_id name data w =
     (if artifacts_dir = [] then w
      else write_json env (path_join [path_join [artifacts_dir, ''coding-loop'', iteration_id], name @ ''.json'']) data w)"

section \<open>The parameters of one run\<close>

record 'x loop_params =
  x_env :: "'x env"
  x_call :: "'x call"
  x_node :: string
  x_cfg :: exec_config
  x_learn :: bool
  x_issue :: gmap
  x_state :: dag_state

definition loop_name :: "'x loop_params \<Rightarrow> string" where
  "loop_name x = get_text (x_issue x) ''name'' ''unknown''"

definition loop_worktree :: "'x loop_params \<Rightarrow> string" where
  "loop_worktree x = (case map_of (x_issue x) ''worktree_path'' of Some v \<Rightarrow> any_to_str v | None \<Rightarrow> d_repo_path (x_state x))"

definition loop_branch :: "'x loop_params \<Rightarrow> string" where
  "loop_branch x = get_text (x_issue x) ''branch_name'' []"

definition needs_deeper_qa :: "'x loop_params \<Rightarrow> bool" where
  "needs_deeper_qa x = get_bool (as_map (mget (x_issue x) ''guidance'')) ''needs_deeper_qa'' False"

definition project_context :: "dag_state \<Rightarrow> gmap" where
  "project_context s =
     [(''prd_path'', GStr (d_prd_path s)), (''architecture_path'', GStr (d_architecture_path s)),
      (''artifacts_dir'', GStr (d_artifacts_dir s)), (''issues_dir'', GStr (d_issues_dir s)),
      (''repo_path'', GStr (d_repo_path s))]"

definition manifest_arg :: "dag_state \<Rightarrow> gval" where
  "manifest_arg s = (case d_manifest s of None \<Rightarrow> GNil | Some m \<Rightarrow> GMap m)"

text \<open>The keyword arguments every role of the loop gets last.\<close>

definition common_args :: "'x loop_params \<Rightarrow> string \<Rightarrow> gmap" where
  "common_args x model =
     [(''model'', GStr (model_for (x_cfg x) model)), (''permission_mode'', GStr (c_permission_mode (x_cfg x))),
      (''ai_provider'', GStr (ai_provider (x_cfg x))), (''workspace_manifest'', manifest_arg (x_state x)),
      (''target_repo'', GStr (get_text (x_issue x) ''target_repo'' []))]"

definition role_call :: "'x loop_params \<Rightarrow> string \<Rightarrow> string \<Rightarrow> gmap \<Rightarrow> 'x world \<Rightarrow> (go_error + gmap) \<times> 'x world" where
  "role_call x role label kwargs w =
     call_with_timeout (x_env x) (c_timeout (x_cfg x)) label (x_call x (x_node x @ role) kwargs) w"

definition iter_label :: "string \<Rightarrow> string \<Rightarrow> int \<Rightarrow> string" where
  "iter_label kind name i = kind @ '':'' @ name @ '':iter'' @ show_int i"

section \<open>The default path: the reviewer alone decides\<close>

record verdict =
  k_action :: string
  k_summary :: string
  k_review :: gmap
  k_qa :: gmap
  k_synthesis :: gmap

definition review_args :: "'x loop_params \<Rightarrow> gmap \<Rightarrow> string \<Rightarrow> bool \<Rightarrow> gmap \<Rightarrow> gmap" where
  "review_args x coder iid qa_ran mem =
     [(''worktree_path'', GStr (loop_worktree x)), (''coder_result'', GMap coder), (''issue'', GMap (x_issue x)),
      (''iteration_id'', GStr iid), (''project_context'', GMap (project_context (x_state x))), (''qa_ran'', GBool qa_ran),
      (''memory_context'', GMap mem)] @ common_args x ''code_reviewer_model''"

definition review_unavailable :: "go_error \<Rightarrow> gmap" where
  "review_unavailable e =
     [(''approved'', GBool True), (''blocking'', GBool False), (''summary'', GStr (''Review unavailable: '' @ err_text e))]"

definition reviewer_action :: "gmap \<Rightarrow> string" where
  "reviewer_action review =
     (let approved = get_bool review ''approved'' False; blocking = get_bool review ''blocking'' False
      in if approved \<and> \<not> blocking then ''approve'' else if blocking then ''block'' else ''fix'')"

definition run_default_path :: "'x loop_params \<Rightarrow> gmap \<Rightarrow> string \<Rightarrow> gmap \<Rightarrow> 'x world \<Rightarrow> (go_error + verdict) \<times> 'x world" where
  "run_default_path x coder iid mem w =
     (let (r, w') = role_call x ''.run_code_reviewer'' (''review:'' @ loop_name x @ '':default'') (review_args x coder iid False mem) w
      in case r of
           Inl e \<Rightarrow> if propagates e then (Inl e, w')
             else let review = review_unavailable e
                  in (Inr \<lparr>k_action = reviewer_action review, k_summary = get_text review ''summary'' [], k_review = review,
                       k_qa = [], k_synthesis = []\<rparr>, w')
         | Inr review \<Rightarrow>
             (Inr \<lparr>k_action = reviewer_action review, k_summary = get_text review ''summary'' [], k_review = review,
                k_qa = [], k_synthesis = []\<rparr>, w'))"

section \<open>The flagged path: QA and reviewer, then the synthesizer\<close>

definition qa_args :: "'x loop_params \<Rightarrow> gmap \<Rightarrow> string \<Rightarrow> gmap" where
  "qa_args x coder iid =
     [(''worktree_path'', GStr (loop_worktree x)), (''coder_result'', GMap coder), (''issue'', GMap (x_issue x)),
      (''iteration_id'', GStr iid), (''project_context'', GMap (project_context (x_state x)))] @ common_args x ''qa_model''"

definition synth_args :: "'x loop_params \<Rightarrow> gmap \<Rightarrow> gmap \<Rightarrow> gmap list \<Rightarrow> string \<Rightarrow> gmap" where
  "synth_args x qa review history iid =
     [(''qa_result'', GMap qa), (''review_result'', GMap review), (''iteration_history'', GMaps history),
      (''iteration_id'', GStr iid), (''worktree_path'', GStr (loop_worktree x)),
      (''issue_summary'', GMap
         [(''name'', get_or (x_issue x) ''name'' (GStr [])), (''title'', get_or (x_issue x) ''title'' (GStr [])),
          (''acceptance_criteria'', get_or (x_issue x) ''acceptance_criteria'' (GList []))]),
      (''artifacts_dir'', get_or (project_context (x_state x)) ''artifacts_dir'' (GStr []))] @ common_args x ''qa_synthesizer_model''"

definition synth_fallback :: "gmap \<Rightarrow> gmap \<Rightarrow> gmap" where
  "synth_fallback qa review =
     (let passed = get_bool qa ''passed'' False; approved = get_bool review ''approved'' False;
          blocking = get_bool review ''blocking'' False
      in if passed \<and> approved \<and> \<not> blocking
         then [(''action'', GStr ''approve''), (''summary'', GStr ''Auto-approved (synthesizer unavailable)'')]
         else if blocking
         then [(''action'', GStr ''block''),
           (''summary'', GStr (''Blocked by review (synthesizer unavailable): '' @ get_text review ''summary'' []))]
         else [(''action'', GStr ''fix''),
           (''summary'', GStr (''Auto-fix (synthesizer unavailable): QA='' @ get_text qa ''summary'' [] @
              '', Review='' @ get_text review ''summary'' []))])"

definition qa_outcome :: "go_error + gmap \<Rightarrow> gmap" where
  "qa_outcome r = (case r of
     Inl e \<Rightarrow> [(''passed'', GBool False), (''summary'', GStr (''QA agent failed: '' @ err_text e))]
   | Inr qa \<Rightarrow> qa)"

definition review_outcome :: "go_error + gmap \<Rightarrow> gmap" where
  "review_outcome r = (case r of Inl e \<Rightarrow> review_unavailable e | Inr review \<Rightarrow> review)"

definition run_flagged_path :: "'x loop_params \<Rightarrow> gmap \<Rightarrow> int \<Rightarrow> string \<Rightarrow> gmap list \<Rightarrow> gmap \<Rightarrow> 'x world
    \<Rightarrow> (go_error + verdict) \<times> 'x world" where
  "run_flagged_path x coder i iid history mem w =
     (let (qr, w1) = role_call x ''.run_qa'' (iter_label ''qa'' (loop_name x) i) (qa_args x coder iid) w;
          (rr, w2) = role_call x ''.run_code_reviewer'' (iter_label ''review'' (loop_name x) i) (review_args x coder iid True mem) w1;
          qa = qa_outcome qr; review = review_outcome rr;
          (sr, w3) = role_call x ''.run_qa_synthesizer'' (iter_label ''synthesizer'' (loop_name x) i) (synth_args x qa review history iid) w2
      in case sr of
           Inl e \<Rightarrow> if propagates e then (Inl e, w3)
             else let syn = synth_fallback qa review
                  in (Inr \<lparr>k_action = get_text syn ''action'' ''fix'', k_summary = get_text syn ''summary'' [],
                       k_review = review, k_qa = qa, k_synthesis = syn\<rparr>, w3)
         | Inr syn \<Rightarrow>
             (Inr \<lparr>k_action = get_text syn ''action'' ''fix'', k_summary = get_text syn ''summary'' [],
                k_review = review, k_qa = qa, k_synthesis = syn\<rparr>, w3))"

section \<open>Stuck detection and feedback\<close>

definition is_fix_cycle :: "gmap \<Rightarrow> bool" where
  "is_fix_cycle entry \<longleftrightarrow> as_string (mget entry ''action'') = ''fix'' \<and> \<not> get_bool entry ''review_blocking'' False"

definition detect_stuck_loop :: "gmap list \<Rightarrow> nat \<Rightarrow> bool" where
  "detect_stuck_loop history window =
     (if length history < window then False
      else list_all is_fix_cycle (drop (length history - window) history))"

definition failure_line :: "gmap \<Rightarrow> string" where
  "failure_line f = ''- `'' @ get_text f ''test_name'' ''?'' @ ''` in `'' @ get_text f ''file'' ''?'' @ ''`: '' @ get_text f ''error'' []"

definition debt_line :: "gmap \<Rightarrow> string" where
  "debt_line d = ''- ['' @ get_text d ''severity'' [] @ ''] '' @ get_text d ''title'' ''?'' @ '': '' @ get_text d ''description'' []"

definition fix_feedback :: "string \<Rightarrow> gmap \<Rightarrow> gmap \<Rightarrow> string" where
  "fix_feedback summary qa review =
     (let failures = (if truthy (GMap qa) then maps_of (mget qa ''test_failures'') else []);
          blocking = (if truthy (GMap review)
            then filter (\<lambda>d. get_text d ''severity'' [] = ''blocking'') (maps_of (mget review ''debt_items'')) else [])
      in join [CHR 0x0A]
        ([summary]
         @ (if failures \<noteq> [] then ([CHR 0x0A] @ ''### Specific Test Failures'') # map failure_line failures else [])
         @ (if blocking \<noteq> [] then ([CHR 0x0A] @ ''### Blocking Review Issues'') # map debt_line blocking else [])))"

section \<open>One iteration\<close>

record loop_state =
  v_feedback :: string
  v_history :: "gmap list"
  v_files :: "string list"
  v_review :: gmap

datatype step = Return "go_error + issue_result" | Next loop_state

definition base_result :: "'x loop_params \<Rightarrow> string \<Rightarrow> int \<Rightarrow> string list \<Rightarrow> gmap list \<Rightarrow> issue_result" where
  "base_result x outcome attempts fs history =
     zero_result\<lparr>r_name := loop_name x, r_outcome := outcome, r_files := fs, r_branch := loop_branch x,
       r_attempts := attempts, r_history := history\<rparr>"

definition history_entry :: "'x loop_params \<Rightarrow> int \<Rightarrow> verdict \<Rightarrow> gmap" where
  "history_entry x i v =
     [(''iteration'', GInt i), (''action'', GStr (k_action v)), (''summary'', GStr (k_summary v)),
      (''qa_passed'', if truthy (GMap (k_qa v)) then mget (k_qa v) ''passed'' else GNil),
      (''review_approved'', GBool (truthy (GMap (k_review v)) \<and> get_bool (k_review v) ''approved'' False)),
      (''review_blocking'', GBool (truthy (GMap (k_review v)) \<and> get_bool (k_review v) ''blocking'' False)),
      (''path'', GStr (if needs_deeper_qa x then ''flagged'' else ''default''))]"

definition iteration_state :: "int \<Rightarrow> string \<Rightarrow> string list \<Rightarrow> gmap list \<Rightarrow> gmap" where
  "iteration_state i feedback fs history =
     [(''iteration'', GInt i), (''feedback'', GStr feedback), (''files_changed'', GStrs fs), (''iteration_history'', GMaps history)]"

text \<open>Everything after the review: history, checkpoint, memory, and the branch on the action.\<close>

definition review_blocks :: "gmap \<Rightarrow> bool" where
  "review_blocks review \<longleftrightarrow> truthy (GMap review) \<and> get_bool review ''blocking'' False"

definition conclude :: "'x loop_params \<Rightarrow> int \<Rightarrow> loop_state \<Rightarrow> string list \<Rightarrow> gmap \<Rightarrow> verdict \<Rightarrow> 'x world \<Rightarrow> step \<times> 'x world" where
  "conclude x i ls fs coder v w =
     (let s = x_state x; history = v_history ls @ [history_entry x i v]; summary = k_summary v; review = k_review v;
          w1 = save_iteration_state (x_env x) (d_artifacts_dir s) (loop_name x) (iteration_state i summary fs history) (d_build_id s) w;
          w2 = (if k_action v = ''approve'' then write_memory_on_approve (x_learn x) (x_issue x) coder (d_completed s = []) w1
                else if k_action v = ''fix'' then write_memory_on_failure (x_learn x) (x_issue x) summary review w1
                else w1)
      in if k_action v = ''approve''
         then (Return (Inr ((base_result x out_completed i fs history)
                \<lparr>r_summary := summary, r_repo := get_text coder ''repo_name'' []\<rparr>)), w2)
         else if k_action v = ''block''
         then (Return (Inr ((base_result x out_failed_unrecoverable i fs history)\<lparr>r_error := summary\<rparr>)),
               write_memory_on_failure (x_learn x) (x_issue x) summary review w2)
         else
           let feedback = (if k_action v = ''fix'' then fix_feedback summary (k_qa v) review else summary);
               stuck0 = (needs_deeper_qa x \<and> get_bool (k_synthesis v) ''stuck'' False);
               stuck = (if \<not> stuck0 \<and> \<not> needs_deeper_qa x then detect_stuck_loop history 3 else stuck0)
           in if stuck
              then (if \<not> review_blocks review \<and> fs \<noteq> []
                    then (Return (Inr ((base_result x out_completed_with_debt i fs history)
                           \<lparr>r_summary := ''Accepted with debt (stuck loop, non-blocking): '' @ summary\<rparr>)), w2)
                    else (Return (Inr ((base_result x out_failed_unrecoverable i fs history)
                           \<lparr>r_error := ''Stuck loop detected: '' @ summary\<rparr>)),
                          write_memory_on_failure (x_learn x) (x_issue x) summary review w2))
              else (Next \<lparr>v_feedback = feedback, v_history = history, v_files = fs, v_review = review\<rparr>, w2))"

definition review_path :: "'x loop_params \<Rightarrow> gmap \<Rightarrow> int \<Rightarrow> string \<Rightarrow> gmap list \<Rightarrow> gmap \<Rightarrow> 'x world
    \<Rightarrow> (go_error + verdict) \<times> 'x world" where
  "review_path x coder i iid history mem w =
     (let save = save_artifact (x_env x) (d_artifacts_dir (x_state x)) iid
      in if needs_deeper_qa x
         then (case run_flagged_path x coder i iid history mem w of
             (Inl e, w1) \<Rightarrow> (Inl e, w1)
           | (Inr v, w1) \<Rightarrow> (Inr v, save ''synthesis'' (k_synthesis v) (save ''review'' (k_review v) (save ''qa'' (k_qa v) w1))))
         else (case run_default_path x coder iid mem w of
             (Inl e, w1) \<Rightarrow> (Inl e, w1)
           | (Inr v, w1) \<Rightarrow> (Inr v, save ''review'' (k_review v) w1)))"

definition coder_args :: "'x loop_params \<Rightarrow> int \<Rightarrow> loop_state \<Rightarrow> string \<Rightarrow> gmap \<Rightarrow> gmap" where
  "coder_args x i ls iid mem =
     [(''issue'', GMap (x_issue x)), (''worktree_path'', GStr (loop_worktree x)), (''feedback'', GStr (v_feedback ls)),
      (''iteration'', GInt i), (''iteration_id'', GStr iid), (''project_context'', GMap (project_context (x_state x))),
      (''memory_context'', GMap mem)] @ common_args x ''coder_model''"

definition run_iteration :: "'x loop_params \<Rightarrow> int \<Rightarrow> loop_state \<Rightarrow> 'x world \<Rightarrow> step \<times> 'x world" where
  "run_iteration x i ls w = (case ctx_err w of
     Some e \<Rightarrow> (Return (Inl e), w)
   | None \<Rightarrow>
       let (iid, w1) = draw_id (x_env x) w;
           mem = read_memory_context (x_learn x) (x_issue x) w1;
           (cr, w2) = role_call x ''.run_coder'' (iter_label ''coder'' (loop_name x) i) (coder_args x i ls iid mem) w1
       in case cr of
            Inl e \<Rightarrow> if propagates e then (Return (Inl e), w2)
              else (Return (Inr ((base_result x out_failed_unrecoverable i (v_files ls) (v_history ls))
                      \<lparr>r_error := ''Coder agent failed on iteration '' @ show_int i @ '': '' @ err_text e,
                       r_context := err_text e\<rparr>)), w2)
          | Inr coder \<Rightarrow>
              let fs = add_all_unique (v_files ls) (texts_of (mget coder ''files_changed''));
                  w3 = save_artifact (x_env x) (d_artifacts_dir (x_state x)) iid ''coder'' coder w2
              in case review_path x coder i iid (v_history ls) mem w3 of
                   (Inl e, w4) \<Rightarrow> (Return (Inl e), w4)
                 | (Inr v, w4) \<Rightarrow> conclude x i ls fs coder v w4)"

section \<open>The loop\<close>

text \<open>Where the loop starts: fresh, or after the iteration of a checkpoint.\<close>

definition start_state :: "'x loop_params \<Rightarrow> 'x world \<Rightarrow> int \<times> loop_state" where
  "start_state x w =
     (case load_iteration_state (d_artifacts_dir (x_state x)) (loop_name x) (d_build_id (x_state x)) w of
        None \<Rightarrow> (1, \<lparr>v_feedback = [], v_history = [], v_files = [], v_review = []\<rparr>)
      | Some m \<Rightarrow>
          (as_int (mget m ''iteration'') + 1,
           \<lparr>v_feedback = get_text m ''feedback'' [],
            v_history = maps_of (mget m ''iteration_history''),
            v_files = texts_of (mget m ''files_changed''),
            v_review = []\<rparr>))"

definition exhausted :: "'x loop_params \<Rightarrow> loop_state \<Rightarrow> 'x world \<Rightarrow> (go_error + issue_result) \<times> 'x world" where
  "exhausted x ls w =
     (let n = c_max_iterations (x_cfg x)
      in if \<not> review_blocks (v_review ls) \<and> v_files ls \<noteq> []
         then (Inr ((base_result x out_completed_with_debt n (v_files ls) (v_history ls))
                \<lparr>r_summary := ''Accepted with debt after '' @ show_int n @ '' iterations (reviewer non-blocking, code changes present)''\<rparr>), w)
         else (Inr ((base_result x out_failed_unrecoverable n (v_files ls) (v_history ls))
                \<lparr>r_error := ''Coding loop exhausted after '' @ show_int n @ '' iterations without approval''\<rparr>),
               write_memory_on_failure (x_learn x) (x_issue x) ''Loop exhausted'' (v_review ls) w))"

text \<open>\<open>for iteration := start; iteration <= max; iteration++\<close>, with the number of rounds left.\<close>

fun run_iterations :: "'x loop_params \<Rightarrow> nat \<Rightarrow> int \<Rightarrow> loop_state \<Rightarrow> 'x world \<Rightarrow> (go_error + issue_result) \<times> 'x world" where
  "run_iterations x 0 i ls w = exhausted x ls w"
| "run_iterations x (Suc n) i ls w = (case run_iteration x i ls w of
     (Return r, w') \<Rightarrow> (r, w')
   | (Next ls', w') \<Rightarrow> run_iterations x n (i + 1) ls' w')"

definition run_coding_loop :: "'x loop_params \<Rightarrow> 'x world \<Rightarrow> (go_error + issue_result) \<times> 'x world" where
  "run_coding_loop x w =
     (let (start, ls) = start_state x w
      in run_iterations x (nat (c_max_iterations (x_cfg x) - start + 1)) start ls w)"

end
