(* ===== verification/Levels.thy ===== *)
theory Levels
  imports GoValue
begin

text \<open>
  Level computation of \<open>internal/dagutil/dagutil.go\<close>: \<open>RecomputeLevels\<close>, \<open>ComputeLevels\<close> and the
  Kahn loop they share. \<open>inDegree\<close> is read with default 0, so it is a total function;
  \<open>dependents\<close> is a finite map, an association list, which is what makes the loop's
  termination provable. An error is \<open>Inl\<close> of the message.
\<close>

type_synonym degrees = "string \<Rightarrow> int"
type_synonym dep_map = "(string \<times> string list) list"

definition issue_name :: "gmap \<Rightarrow> string" where
  "issue_name issue = as_string (mget issue ''name'')"

definition depends_on :: "gmap \<Rightarrow> string list" where
  "depends_on issue = strs_of (mget issue ''depends_on'')"

definition dep_list :: "dep_map \<Rightarrow> string \<Rightarrow> string list" where
  "dep_list dts n = lookup_def [] dts n"

definition dep_append :: "dep_map \<Rightarrow> string \<Rightarrow> string \<Rightarrow> dep_map" where
  "dep_append dts k n = AList.update k (dep_list dts k @ [n]) dts"

section \<open>Building the graph\<close>

fun link_deps :: "(string \<Rightarrow> bool) \<Rightarrow> string \<Rightarrow> string list \<Rightarrow> degrees \<times> dep_map \<Rightarrow> degrees \<times> dep_map" where
  "link_deps counted name [] st = st"
| "link_deps counted name (dep # deps) (deg, dts) =
     link_deps counted name deps
       (if counted dep then (deg(name := deg name + 1), dep_append dts dep name) else (deg, dts))"

fun link_issues :: "(string \<Rightarrow> bool) \<Rightarrow> gmap list \<Rightarrow> degrees \<times> dep_map \<Rightarrow> degrees \<times> dep_map" where
  "link_issues counted [] st = st"
| "link_issues counted (issue # issues) st =
     link_issues counted issues (link_deps counted (issue_name issue) (depends_on issue) st)"

section \<open>The Kahn loop\<close>

text \<open>The two inner loops over a level and over the dependents of one of its names.\<close>

fun release :: "string list \<Rightarrow> degrees \<times> string list \<Rightarrow> degrees \<times> string list" where
  "release [] st = st"
| "release (d # ds) (deg, nxt) =
     release ds (deg(d := deg d - 1), if deg d - 1 = 0 then nxt @ [d] else nxt)"

fun release_level :: "dep_map \<Rightarrow> string list \<Rightarrow> degrees \<times> string list \<Rightarrow> degrees \<times> string list" where
  "release_level dts [] st = st"
| "release_level dts (n # ns) st = release_level dts ns (release (dep_list dts n) st)"

text \<open>\<open>for len(queue) > 0\<close>: the state is (queue, levels, processed, inDegree).\<close>

function kahn_loop :: "dep_map \<Rightarrow> string list \<Rightarrow> string list list \<Rightarrow> nat \<Rightarrow> degrees
    \<Rightarrow> string list list \<times> nat \<times> degrees" where
  "kahn_loop dts queue levels processed deg =
     (if queue = [] then (levels, processed, deg)
      else let (deg', nxt) = release_level dts queue (deg, [])
           in kahn_loop dts nxt (levels @ [queue]) (processed + length queue) deg')"
  by pat_completeness auto

definition all_dependents :: "dep_map \<Rightarrow> string set" where
  "all_dependents dts = (\<Union>p \<in> set dts. set (snd p))"

definition pending_sum :: "string set \<Rightarrow> degrees \<Rightarrow> nat" where
  "pending_sum D deg = (\<Sum>d \<in> D. nat (deg d))"

lemma finite_all_dependents [simp]: "finite (all_dependents dts)"
  by (simp add: all_dependents_def)

lemma set_dep_list: "set (dep_list dts n) \<subseteq> all_dependents dts"
  by (cases "map_of dts n") (force simp: dep_list_def lookup_def_def all_dependents_def dest: map_of_SomeD)+

lemma pending_sum_upd:
  assumes "finite D" and "d \<in> D"
  shows "pending_sum D (deg(d := v)) + nat (deg d) = pending_sum D deg + nat v"
proof -
  from assms have "pending_sum D f = nat (f d) + (\<Sum>e \<in> D - {d}. nat (f e))" for f
    by (simp add: pending_sum_def sum.remove)
  from this [of deg] this [of "deg(d := v)"] show ?thesis by simp
qed

lemma release_measure:
  "finite D \<Longrightarrow> set ds \<subseteq> D \<Longrightarrow> release ds (deg, nxt) = (deg', nxt') \<Longrightarrow>
   pending_sum D deg' + length nxt' \<le> pending_sum D deg + length nxt"
proof (induction ds "(deg, nxt)" arbitrary: deg nxt rule: release.induct)
  case (2 d ds deg nxt)
  let ?deg1 = "deg(d := deg d - 1)"
  have IH: "pending_sum D deg' + length nxt' \<le> pending_sum D ?deg1 + length (if deg d - 1 = 0 then nxt @ [d] else nxt)"
    by (rule "2.hyps") (use "2.prems" in simp_all)
  have "pending_sum D ?deg1 + nat (deg d) = pending_sum D deg + nat (deg d - 1)"
    by (rule pending_sum_upd) (use "2.prems" in simp_all)
  with IH show ?case by (simp split: if_splits)
qed simp

lemma release_level_measure:
  "release_level dts ns (deg, nxt) = (deg', nxt') \<Longrightarrow>
   pending_sum (all_dependents dts) deg' + length nxt' \<le> pending_sum (all_dependents dts) deg + length nxt"
proof (induction ns arbitrary: deg nxt)
  case (Cons n ns)
  obtain deg1 nxt1 where r: "release (dep_list dts n) (deg, nxt) = (deg1, nxt1)" by force
  have "pending_sum (all_dependents dts) deg1 + length nxt1 \<le> pending_sum (all_dependents dts) deg + length nxt"
    using release_measure [OF _ set_dep_list r] by simp
  moreover have "pending_sum (all_dependents dts) deg' + length nxt' \<le> pending_sum (all_dependents dts) deg1 + length nxt1"
    using Cons.prems r by (intro Cons.IH) simp
  ultimately show ?case by linarith
qed simp

text \<open>
  Every name that enters the next queue has used up one unit of the pending in-degrees, so the
  pending sum, with one unit for a non-empty queue, decreases.
\<close>

termination kahn_loop
proof (relation "measure (\<lambda>(dts, queue, levels, processed, deg).
    2 * pending_sum (all_dependents dts) deg + (if queue = [] then 0 else 1))", goal_cases)
  case (2 dts queue levels processed deg x deg' nxt)
  from release_level_measure [of dts queue deg "[]" deg' nxt] 2
  have "pending_sum (all_dependents dts) deg' + length nxt \<le> pending_sum (all_dependents dts) deg" by simp
  with 2 show ?case by (cases nxt) auto
qed simp

declare kahn_loop.simps [simp del]

definition cycle_error :: "string list \<Rightarrow> string" where
  "cycle_error stuck = ''Dependency cycle detected among issues: '' @ py_list_repr stuck"

definition kahn :: "string list \<Rightarrow> degrees \<Rightarrow> dep_map \<Rightarrow> nat \<Rightarrow> string + string list list" where
  "kahn order deg dts expected =
     (let queue = filter (\<lambda>n. deg n = 0) order;
          (levels, processed, deg') = kahn_loop dts queue [] 0 deg
      in if processed \<noteq> expected
         then Inl (cycle_error (filter (\<lambda>n. 0 < deg' n) order))
         else Inr levels)"

text \<open>The name set, the insertion order and the zeroed degrees of the first loop.\<close>

definition name_order :: "gmap list \<Rightarrow> string list" where
  "name_order issues = add_all_unique [] (map issue_name issues)"

definition recompute_levels :: "gmap list \<Rightarrow> (string \<Rightarrow> bool) \<Rightarrow> string + string list list" where
  "recompute_levels remaining completed =
     (let name_set = set (map issue_name remaining);
          (deg, dts) = link_issues (\<lambda>dep. dep \<in> name_set \<and> \<not> completed dep) remaining (\<lambda>_. 0, [])
      in kahn (name_order remaining) deg dts (length remaining))"

definition compute_levels :: "gmap list \<Rightarrow> string + string list list" where
  "compute_levels issues =
     (let name_set = set (map issue_name issues);
          (deg, dts) = link_issues (\<lambda>dep. dep \<in> name_set) issues (\<lambda>_. 0, [])
      in kahn (name_order issues) deg dts (length issues))"

end
