(* ===== verification/LevelsCorrect.thy ===== *)
theory LevelsCorrect
  imports Levels
begin

text \<open>
  Correctness of the level computation. The abstract specification is a relation (which issue
  depends on which) and the predicate \<open>topological\<close>; the lemmas show that the Kahn loop returns
  a topological level partition exactly when the relation has no cycle.
\<close>

section \<open>Specification\<close>

text \<open>An edge \<open>(dep, name)\<close>: the issue \<open>name\<close> waits for \<open>dep\<close>.\<close>

definition edges :: "(string \<Rightarrow> bool) \<Rightarrow> gmap list \<Rightarrow> (string \<times> string) set" where
  "edges counted issues =
     {(dep, name). \<exists>issue \<in> set issues. name = issue_name issue \<and> dep \<in> set (depends_on issue) \<and> counted dep}"

text \<open>
  Every name is in exactly one level, the levels are non-empty, what a name waits for is in an
  earlier level, and a name that is not in the first level waits for one of the level before it.
\<close>

definition topological :: "(string \<times> string) set \<Rightarrow> string set \<Rightarrow> string list list \<Rightarrow> bool" where
  "topological r names levels \<longleftrightarrow>
     distinct (concat levels) \<and> set (concat levels) = names \<and> [] \<notin> set levels \<and>
     (\<forall>i < length levels. \<forall>n \<in> set (levels ! i). \<forall>d. (d, n) \<in> r \<longrightarrow> d \<in> set (concat (take i levels))) \<and>
     (\<forall>i. Suc i < length levels \<longrightarrow> (\<forall>n \<in> set (levels ! Suc i). \<exists>d \<in> set (levels ! i). (d, n) \<in> r))"

section \<open>Building the graph\<close>

lemma dep_list_Nil [simp]: "dep_list [] d = []"
  by (simp add: dep_list_def)

lemma dep_list_append: "dep_list (dep_append dts k n) d = (if d = k then dep_list dts d @ [n] else dep_list dts d)"
  by (simp add: dep_list_def dep_append_def lookup_def_update)

definition degrees_ok :: "string set \<Rightarrow> degrees \<Rightarrow> dep_map \<Rightarrow> bool" where
  "degrees_ok S deg dts \<longleftrightarrow> (\<forall>n. deg n = int (\<Sum>d \<in> S. count_list (dep_list dts d) n))"

lemma degrees_ok_link:
  assumes "finite S" and "dep \<in> S" and ok: "degrees_ok S deg dts"
  shows "degrees_ok S (deg(name := deg name + 1)) (dep_append dts dep name)"
  unfolding degrees_ok_def
proof
  fix n
  have "(\<Sum>d \<in> S. count_list (dep_list (dep_append dts dep name) d) n)
      = (\<Sum>d \<in> S. count_list (dep_list dts d) n + (if d = dep then if n = name then 1 else 0 else 0))"
    by (rule sum.cong) (auto simp: dep_list_append)
  also have "\<dots> = (\<Sum>d \<in> S. count_list (dep_list dts d) n) + (if n = name then 1 else 0)"
    using assms(1,2) by (simp add: sum.distrib)
  finally show "(deg(name := deg name + 1)) n = int (\<Sum>d \<in> S. count_list (dep_list (dep_append dts dep name) d) n)"
    using ok by (simp add: degrees_ok_def)
qed

lemma link_deps_ok:
  "finite S \<Longrightarrow> (\<And>d. counted d \<Longrightarrow> d \<in> S) \<Longrightarrow> degrees_ok S (fst st) (snd st) \<Longrightarrow>
   degrees_ok S (fst (link_deps counted name deps st)) (snd (link_deps counted name deps st))"
  by (induction counted name deps st rule: link_deps.induct) (simp_all add: degrees_ok_link)

lemma link_deps_set:
  "set (dep_list (snd (link_deps counted name deps st)) d) =
   set (dep_list (snd st) d) \<union> {n. n = name \<and> counted d \<and> d \<in> set deps}"
  by (induction counted name deps st rule: link_deps.induct) (auto simp: dep_list_append)

lemma link_issues_ok:
  "finite S \<Longrightarrow> (\<And>d. counted d \<Longrightarrow> d \<in> S) \<Longrightarrow> degrees_ok S (fst st) (snd st) \<Longrightarrow>
   degrees_ok S (fst (link_issues counted issues st)) (snd (link_issues counted issues st))"
  by (induction counted issues st rule: link_issues.induct) (simp_all add: link_deps_ok)

lemma link_issues_set:
  "set (dep_list (snd (link_issues counted issues st)) d) =
   set (dep_list (snd st) d) \<union> {n. (d, n) \<in> edges counted issues}"
  by (induction counted issues st rule: link_issues.induct) (auto simp: link_deps_set edges_def)

section \<open>One round of the loop\<close>

lemma release_app: "release (xs @ ys) st = release ys (release xs st)"
  by (induction xs st rule: release.induct) auto

lemma release_level_concat: "release_level dts ns st = release (concat (map (dep_list dts) ns)) st"
  by (induction dts ns st rule: release_level.induct) (auto simp: release_app)

text \<open>
  A round lowers each degree by the number of released entries; the next queue gets, once
  each, the names whose degree drops to 0.
\<close>

lemma release_spec:
  "\<forall>d. int (count_list ds d) \<le> deg d \<Longrightarrow> release ds (deg, nxt) = (deg', nxt') \<Longrightarrow>
   (\<forall>n. deg' n = deg n - int (count_list ds n)) \<and>
   (\<exists>ys. nxt' = nxt @ ys \<and> distinct ys \<and> set ys = {d \<in> set ds. deg d = int (count_list ds d)})"
proof (induction ds "(deg, nxt)" arbitrary: deg nxt rule: release.induct)
  case (2 d ds deg nxt)
  let ?deg1 = "deg(d := deg d - 1)" and ?nxt1 = "if deg d - 1 = 0 then nxt @ [d] else nxt"
  have le: "int (count_list ds e) \<le> ?deg1 e" for e
    using "2.prems"(1) [rule_format, of e] by (simp split: if_splits)
  then have "\<forall>e. int (count_list ds e) \<le> ?deg1 e" by blast
  from "2.hyps" [OF this] "2.prems"(2) obtain ys where
    deg': "\<And>n. deg' n = ?deg1 n - int (count_list ds n)" and
    ys: "nxt' = ?nxt1 @ ys" "distinct ys" "set ys = {e \<in> set ds. ?deg1 e = int (count_list ds e)}"
    by auto
  have deg'': "deg' n = deg n - int (count_list (d # ds) n)" for n
    using deg' [of n] by simp
  show ?case
  proof (cases "deg d = 1")
    case True
    then have "count_list ds d = 0" using le [of d] by simp
    then have notin: "d \<notin> set ds" by (simp add: count_list_0_iff)
    then have "set ys = {e \<in> set ds. deg e = int (count_list (d # ds) e)}"
      using ys(3) by auto
    moreover have "deg d = int (count_list (d # ds) d)" using True \<open>count_list ds d = 0\<close> by simp
    ultimately have "set (d # ys) = {e \<in> set (d # ds). deg e = int (count_list (d # ds) e)}" by auto
    moreover have "distinct (d # ys)" using ys(2,3) notin by simp
    moreover have "nxt' = nxt @ d # ys" using ys(1) True by simp
    ultimately show ?thesis using deg'' by blast
  next
    case False
    have "e \<in> set ys \<longleftrightarrow> e \<in> set (d # ds) \<and> deg e = int (count_list (d # ds) e)" for e
    proof (cases "e = d")
      case True
      have "d \<in> set ds" if "deg d = 1 + int (count_list ds d)"
        using that False by (cases "count_list ds d = 0") (auto simp: count_list_0_iff)
      with True show ?thesis using ys(3) by auto
    qed (use ys(3) in auto)
    then have "set ys = {e \<in> set (d # ds). deg e = int (count_list (d # ds) e)}" by blast
    moreover have "nxt' = nxt @ ys" using ys(1) False by simp
    ultimately show ?thesis using deg'' ys(2) by blast
  qed
qed auto

section \<open>The loop invariant\<close>

text \<open>
  With \<open>P\<close> the names already placed: a degree counts the entries of the names not yet placed,
  and the names of degree 0 are exactly those placed or queued.
\<close>

definition waits :: "string set \<Rightarrow> dep_map \<Rightarrow> (string \<times> string) set" where
  "waits N dts = {(d, n). d \<in> N \<and> n \<in> set (dep_list dts d)}"

definition kahn_inv :: "string set \<Rightarrow> dep_map \<Rightarrow> string list \<Rightarrow> string list list \<Rightarrow> nat \<Rightarrow> degrees \<Rightarrow> bool" where
  "kahn_inv N dts queue levels processed deg \<longleftrightarrow>
     processed = length (concat levels) \<and> distinct (concat levels @ queue) \<and>
     set (concat levels @ queue) \<subseteq> N \<and> [] \<notin> set levels \<and>
     degrees_ok (N - set (concat levels)) deg dts \<and>
     (\<forall>n \<in> N. deg n = 0 \<longleftrightarrow> n \<in> set (concat levels @ queue)) \<and>
     (\<forall>i < length (levels @ [queue]). \<forall>n \<in> set ((levels @ [queue]) ! i). \<forall>d.
        (d, n) \<in> waits N dts \<longrightarrow> d \<in> set (concat (take i levels))) \<and>
     (\<forall>i. Suc i < length (levels @ [queue]) \<longrightarrow>
        (\<forall>n \<in> set ((levels @ [queue]) ! Suc i). \<exists>d \<in> set ((levels @ [queue]) ! i). (d, n) \<in> waits N dts))"

lemma count_list_concat: "distinct qs \<Longrightarrow> count_list (concat (map f qs)) n = (\<Sum>q \<in> set qs. count_list (f q) n)"
  by (induction qs) auto

lemma nth_snoc: "i < length (xs @ [x]) \<Longrightarrow> (xs @ [x]) ! i = (if i < length xs then xs ! i else x)"
  by (auto simp: nth_append less_Suc_eq)

text \<open>The degrees after a round, and the next queue, when the invariant holds.\<close>

lemma kahn_round:
  assumes fin: "finite N" and Q: "distinct queue" "set queue \<subseteq> N - P"
    and ok: "degrees_ok (N - P) deg dts" and rel: "release_level dts queue (deg, []) = (deg', nxt)"
  shows "degrees_ok (N - P - set queue) deg' dts" and "distinct nxt"
    and "set nxt = {n. 0 < deg n \<and> deg' n = 0}"
proof -
  let ?ds = "concat (map (dep_list dts) queue)"
  let ?c = "\<lambda>n d. count_list (dep_list dts d) n"
  have cnt: "count_list ?ds n = (\<Sum>q \<in> set queue. ?c n q)" for n
    by (rule count_list_concat [OF Q(1)])
  have split: "(\<Sum>d \<in> N - P. ?c n d) = (\<Sum>d \<in> N - P - set queue. ?c n d) + count_list ?ds n" for n
    using sum.subset_diff [OF Q(2), of "?c n"] fin cnt by simp
  have deg: "deg n = int (\<Sum>d \<in> N - P. ?c n d)" for n
    using ok by (simp add: degrees_ok_def)
  then have le: "\<forall>n. int (count_list ?ds n) \<le> deg n"
    using split by (simp del: of_nat_sum)
  from release_spec [OF le, of "[]" deg' nxt] rel
  have deg': "deg' n = deg n - int (count_list ?ds n)" and "distinct nxt"
    and nxt: "set nxt = {d \<in> set ?ds. deg d = int (count_list ?ds d)}" for n
    by (auto simp: release_level_concat)
  then show "distinct nxt" by simp
  show "degrees_ok (N - P - set queue) deg' dts"
    using deg deg' split by (simp add: degrees_ok_def)
  have "n \<in> set ?ds \<longleftrightarrow> 0 < count_list ?ds n" for n
    by (metis count_list_0_iff neq0_conv)
  then show "set nxt = {n. 0 < deg n \<and> deg' n = 0}"
    unfolding nxt using deg' by force
qed

lemma kahn_inv_step:
  assumes fin: "finite N" and sub: "\<And>d. set (dep_list dts d) \<subseteq> N"
    and inv: "kahn_inv N dts queue levels processed deg" and ne: "queue \<noteq> []"
    and rel: "release_level dts queue (deg, []) = (deg', nxt)"
  shows "kahn_inv N dts nxt (levels @ [queue]) (processed + length queue) deg'"
proof -
  let ?P = "set (concat levels)"
  have Q: "distinct queue" "set queue \<subseteq> N - ?P" and ok: "degrees_ok (N - ?P) deg dts"
    and zero: "\<And>n. n \<in> N \<Longrightarrow> deg n = 0 \<longleftrightarrow> n \<in> set (concat levels @ queue)"
    using inv by (auto simp: kahn_inv_def)
  note round = kahn_round [OF fin Q ok rel]
  have ok': "degrees_ok (N - set (concat (levels @ [queue]))) deg' dts"
    using round(1) by (simp add: Diff_eq Int_assoc)
  have le: "deg' n \<le> deg n" for n
    using ok round(1) fin by (auto simp: degrees_ok_def intro!: sum_mono2)
  have pos: "0 \<le> deg' n" for n using round(1) by (simp add: degrees_ok_def del: of_nat_sum)
  have nxtN: "set nxt \<subseteq> N"
  proof
    fix n assume "n \<in> set nxt"
    then have "0 < deg n" using round(3) by blast
    then have "(\<Sum>d \<in> N - ?P. count_list (dep_list dts d) n) \<noteq> 0"
      using ok unfolding degrees_ok_def by (metis of_nat_0_less_iff less_irrefl)
    then obtain d where "count_list (dep_list dts d) n \<noteq> 0"
      by (meson sum.neutral)
    then show "n \<in> N" using sub [of d] by (auto simp: count_list_0_iff)
  qed
  have zero': "deg' n = 0 \<longleftrightarrow> n \<in> set (concat (levels @ [queue]) @ nxt)" if "n \<in> N" for n
  proof -
    have "n \<in> set nxt \<longleftrightarrow> 0 < deg n \<and> deg' n = 0" using round(3) by blast
    then have "deg' n = 0 \<longleftrightarrow> deg n = 0 \<or> n \<in> set nxt" using le [of n] pos [of n] by linarith
    with zero [OF that] show ?thesis by simp
  qed
  have fresh: "set nxt \<inter> set (concat levels @ queue) = {}"
  proof -
    have False if "n \<in> set nxt" "n \<in> set (concat levels @ queue)" for n
    proof -
      from that(1) have "0 < deg n" and "n \<in> N" using round(3) nxtN by blast+
      with zero [of n] that(2) show False by linarith
    qed
    then show ?thesis by blast
  qed
  have early: "d \<in> set (concat (levels @ [queue]))" if "n \<in> set nxt" "(d, n) \<in> waits N dts" for n d
  proof (rule ccontr)
    assume "d \<notin> set (concat (levels @ [queue]))"
    with that(2) have "d \<in> N - set (concat (levels @ [queue]))" and "0 < count_list (dep_list dts d) n"
      by (auto simp: waits_def count_list_0_iff intro: ccontr)
    then have "0 < (\<Sum>d \<in> N - set (concat (levels @ [queue])). count_list (dep_list dts d) n)"
      using fin by (intro sum_pos2 [where i = d]) auto
    with ok' have "0 < deg' n" by (simp only: degrees_ok_def of_nat_0_less_iff)
    with that(1) round(3) show False by simp
  qed
  have tight: "\<exists>d \<in> set queue. (d, n) \<in> waits N dts" if "n \<in> set nxt" for n
  proof (rule ccontr)
    assume "\<not> ?thesis"
    then have "\<forall>d \<in> set queue. count_list (dep_list dts d) n = 0"
      using Q by (auto simp: waits_def count_list_0_iff)
    then have "(\<Sum>d \<in> set queue. count_list (dep_list dts d) n) = 0" by simp
    then have "deg' n = deg n"
      using ok round(1) sum.subset_diff [OF Q(2), of "\<lambda>d. count_list (dep_list dts d) n"] fin
      by (simp add: degrees_ok_def del: of_nat_sum)
    moreover have "0 < deg n \<and> deg' n = 0" using that round(3) by blast
    ultimately show False by simp
  qed
  have A: "\<forall>i < length ((levels @ [queue]) @ [nxt]). \<forall>n \<in> set (((levels @ [queue]) @ [nxt]) ! i). \<forall>d.
      (d, n) \<in> waits N dts \<longrightarrow> d \<in> set (concat (take i (levels @ [queue])))"
  proof (intro allI ballI impI)
    fix i n d assume i: "i < length ((levels @ [queue]) @ [nxt])" and n: "n \<in> set (((levels @ [queue]) @ [nxt]) ! i)"
      and w: "(d, n) \<in> waits N dts"
    show "d \<in> set (concat (take i (levels @ [queue])))"
    proof (cases "i < length (levels @ [queue])")
      case True
      with n have "n \<in> set ((levels @ [queue]) ! i)" by (simp only: nth_snoc [OF i] if_True)
      with inv True w have "d \<in> set (concat (take i levels))" unfolding kahn_inv_def by blast
      then show ?thesis by auto
    next
      case False
      with n have "n \<in> set nxt" by (simp only: nth_snoc [OF i] if_False)
      with early [OF this w] False show ?thesis by simp
    qed
  qed
  have B: "\<forall>i. Suc i < length ((levels @ [queue]) @ [nxt]) \<longrightarrow>
      (\<forall>n \<in> set (((levels @ [queue]) @ [nxt]) ! Suc i). \<exists>d \<in> set (((levels @ [queue]) @ [nxt]) ! i). (d, n) \<in> waits N dts)"
  proof (intro allI impI)
    fix i assume i: "Suc i < length ((levels @ [queue]) @ [nxt])"
    show "\<forall>n \<in> set (((levels @ [queue]) @ [nxt]) ! Suc i). \<exists>d \<in> set (((levels @ [queue]) @ [nxt]) ! i). (d, n) \<in> waits N dts"
    proof (cases "Suc i < length (levels @ [queue])")
      case True
      with inv have "\<forall>n \<in> set ((levels @ [queue]) ! Suc i). \<exists>d \<in> set ((levels @ [queue]) ! i). (d, n) \<in> waits N dts"
        unfolding kahn_inv_def by blast
      with True show ?thesis by (simp add: nth_append)
    next
      case False
      with i have "i = length levels" by simp
      with tight show ?thesis by (simp add: nth_append)
    qed
  qed
  have C: "distinct (concat (levels @ [queue]) @ nxt)"
    using inv fresh round(2) by (auto simp: kahn_inv_def)
  have D: "set (concat (levels @ [queue]) @ nxt) \<subseteq> N" using inv nxtN by (auto simp: kahn_inv_def)
  have E: "processed + length queue = length (concat (levels @ [queue]))" "[] \<notin> set (levels @ [queue])"
    using inv ne by (auto simp: kahn_inv_def)
  have Z: "\<forall>n \<in> N. deg' n = 0 \<longleftrightarrow> n \<in> set (concat (levels @ [queue]) @ nxt)"
    using zero' by blast
  show ?thesis
    unfolding kahn_inv_def by (intro conjI) (fact A B C D E ok' Z)+
qed

lemma kahn_loop_inv:
  "finite N \<Longrightarrow> (\<And>d. set (dep_list dts d) \<subseteq> N) \<Longrightarrow> kahn_inv N dts queue levels processed deg \<Longrightarrow>
   kahn_loop dts queue levels processed deg = (levels', processed', deg') \<Longrightarrow>
   kahn_inv N dts [] levels' processed' deg'"
proof (induction dts queue levels processed deg rule: kahn_loop.induct)
  case (1 dts queue levels processed deg)
  show ?case
  proof (cases "queue = []")
    case True
    with "1.prems" show ?thesis by (simp add: kahn_loop.simps [of dts])
  next
    case False
    obtain deg1 nxt where rel: "release_level dts queue (deg, []) = (deg1, nxt)" by force
    have "kahn_inv N dts nxt (levels @ [queue]) (processed + length queue) deg1"
      using "1.prems"(1,2,3) False rel by (intro kahn_inv_step) auto
    moreover have "kahn_loop dts nxt (levels @ [queue]) (processed + length queue) deg1 = (levels', processed', deg')"
      using "1.prems"(4) False rel by (simp add: kahn_loop.simps [of dts queue])
    ultimately show ?thesis
      using "1.IH" [OF False rel [symmetric] refl] "1.prems"(1,2) by simp
  qed
qed

section \<open>The result\<close>

lemma topological_take:
  assumes "topological r N levels" and "(d, n) \<in> r" and i: "i < length levels" "n \<in> set (levels ! i)"
  shows "\<exists>j < i. d \<in> set (levels ! j)"
proof -
  have "d \<in> set (concat (take i levels))" using assms unfolding topological_def by blast
  then obtain l where "l \<in> set (take i levels)" and d: "d \<in> set l" by auto
  then obtain j where "j < length (take i levels)" "take i levels ! j = l" by (metis in_set_conv_nth)
  with i d show ?thesis by auto
qed

lemma topological_level_unique:
  "topological r N levels \<Longrightarrow> i < length levels \<Longrightarrow> j < length levels \<Longrightarrow>
   n \<in> set (levels ! i) \<Longrightarrow> n \<in> set (levels ! j) \<Longrightarrow> i = j"
  unfolding topological_def distinct_concat_iff
  by (metis IntI distinct_conv_nth empty_iff nth_mem removeAll_id)

text \<open>A level partition is a proof that there is no cycle: the level index grows along an edge.\<close>

lemma topological_acyclic:
  assumes top: "topological r N levels" and "r \<subseteq> UNIV \<times> N"
  shows "acyclic r"
proof -
  define rank where "rank n = (LEAST i. i < length levels \<and> n \<in> set (levels ! i))" for n
  have rank: "rank n = i" if "i < length levels" "n \<in> set (levels ! i)" for n i
    unfolding rank_def using that topological_level_unique [OF top] by (intro Least_equality) auto
  have "rank d < rank n" if e: "(d, n) \<in> r" for d n
  proof -
    from e assms have "n \<in> set (concat levels)" by (auto simp: topological_def)
    then obtain l where "l \<in> set levels" "n \<in> set l" by auto
    then obtain i where i: "i < length levels" "n \<in> set (levels ! i)" by (metis in_set_conv_nth)
    with topological_take [OF top e] obtain j where "j < i" "d \<in> set (levels ! j)" by blast
    with i show ?thesis using rank by (metis order.strict_trans)
  qed
  then have "r \<subseteq> measure rank" by auto
  then show ?thesis by (rule acyclic_subset [OF wf_acyclic [OF wf_measure]])
qed

lemma kahn_result:
  assumes N: "distinct order" "set order = N" and sub: "\<And>d. set (dep_list dts d) \<subseteq> N"
    and ok: "degrees_ok N deg dts"
  obtains levels deg' where
    "kahn_loop dts (filter (\<lambda>n. deg n = 0) order) [] 0 deg = (levels, length (concat levels), deg')"
    and "topological (waits N dts) (set (concat levels)) levels" and "set (concat levels) \<subseteq> N"
    and "\<And>n. n \<in> N \<Longrightarrow> 0 < deg' n \<longleftrightarrow> n \<notin> set (concat levels)"
    and "\<And>n. n \<in> N - set (concat levels) \<Longrightarrow> \<exists>d \<in> N - set (concat levels). (d, n) \<in> waits N dts"
proof -
  obtain levels processed deg' where
    loop: "kahn_loop dts (filter (\<lambda>n. deg n = 0) order) [] 0 deg = (levels, processed, deg')"
    by (cases "kahn_loop dts (filter (\<lambda>n. deg n = 0) order) [] 0 deg") auto
  have fin: "finite N" using N by auto
  have "(\<Sum>d \<in> N. count_list (dep_list dts d) n) = 0" if "d \<in> N" "deg n = 0" for d n
    using ok that by (simp add: degrees_ok_def del: of_nat_sum)
  then have "kahn_inv N dts (filter (\<lambda>n. deg n = 0) order) [] 0 deg"
    using N fin ok by (auto simp: kahn_inv_def waits_def count_list_0_iff)
  from kahn_loop_inv [OF fin sub this loop] have inv: "kahn_inv N dts [] levels processed deg'" .
  have top: "topological (waits N dts) (set (concat levels)) levels"
    unfolding topological_def
  proof (intro conjI allI impI ballI)
    fix i n d assume "i < length levels" "n \<in> set (levels ! i)" "(d, n) \<in> waits N dts"
    with inv show "d \<in> set (concat (take i levels))"
      unfolding kahn_inv_def by (metis length_append_singleton less_SucI nth_append)
  next
    fix i n assume "Suc i < length levels" "n \<in> set (levels ! Suc i)"
    with inv show "\<exists>d \<in> set (levels ! i). (d, n) \<in> waits N dts"
      unfolding kahn_inv_def by (metis Suc_lessD length_append_singleton less_SucI nth_append)
  qed (use inv in \<open>auto simp: kahn_inv_def\<close>)
  have okP: "degrees_ok (N - set (concat levels)) deg' dts"
    and zero: "\<And>n. n \<in> N \<Longrightarrow> deg' n = 0 \<longleftrightarrow> n \<in> set (concat levels)"
    using inv by (auto simp: kahn_inv_def)
  have left: "0 < deg' n \<and> (\<exists>d \<in> N - set (concat levels). (d, n) \<in> waits N dts)"
    if n: "n \<in> N - set (concat levels)" for n
  proof -
    have "deg' n \<noteq> 0" using zero n by blast
    then have nz: "(\<Sum>d \<in> N - set (concat levels). count_list (dep_list dts d) n) \<noteq> 0"
      using okP unfolding degrees_ok_def by (metis of_nat_0)
    then have "0 < deg' n" using okP unfolding degrees_ok_def by (metis of_nat_0_less_iff neq0_conv)
    moreover from nz obtain d where "d \<in> N - set (concat levels)" "count_list (dep_list dts d) n \<noteq> 0"
      by (meson sum.neutral)
    ultimately show ?thesis by (auto simp: waits_def count_list_0_iff)
  qed
  have pos: "0 < deg' n \<longleftrightarrow> n \<notin> set (concat levels)" if "n \<in> N" for n
    using left [of n] zero [OF that] that by auto
  show thesis
    by (rule that [of levels deg']) (use loop inv top left pos in \<open>auto simp: kahn_inv_def\<close>)
qed

definition schedule_with :: "(string \<Rightarrow> bool) \<Rightarrow> gmap list \<Rightarrow> string + string list list" where
  "schedule_with counted issues =
     (let (deg, dts) = link_issues counted issues (\<lambda>_. 0, []) in kahn (name_order issues) deg dts (length issues))"

lemma recompute_levels_schedule:
  "recompute_levels issues completed =
   schedule_with (\<lambda>d. d \<in> set (map issue_name issues) \<and> \<not> completed d) issues"
  by (simp add: recompute_levels_def schedule_with_def)

lemma compute_levels_schedule:
  "compute_levels issues = schedule_with (\<lambda>d. d \<in> set (map issue_name issues)) issues"
  by (simp add: compute_levels_def schedule_with_def)

lemma name_order: "distinct (name_order issues)" "set (name_order issues) = set (map issue_name issues)"
  by (simp_all add: name_order_def)

lemma no_stuck_if_acyclic:
  assumes "acyclic r" and "finite N" and "\<And>n. n \<in> N \<Longrightarrow> \<exists>d \<in> N. (d, n) \<in> r"
  shows "N = {}"
proof (rule ccontr)
  assume ne: "N \<noteq> {}"
  have "finite (r \<inter> N \<times> N)" using assms(2) by auto
  moreover have "acyclic (r \<inter> N \<times> N)" using assms(1) by (rule acyclic_subset) auto
  ultimately have "wf (r \<inter> N \<times> N)" by (rule finite_acyclic_wf)
  with ne obtain m where "m \<in> N" "\<And>d. (d, m) \<in> r \<inter> N \<times> N \<Longrightarrow> d \<notin> N" by (metis wfE_min ex_in_conv)
  with assms(3) [of m] show False by blast
qed

text \<open>
  What the loop reports: either a topological partition of all names, with distinct names, or
  the message with the names that could not be placed, each waiting for another of them.
\<close>

lemma schedule_with_cases:
  assumes cnt: "\<And>d. counted d \<Longrightarrow> d \<in> set (map issue_name issues)"
  shows "(\<exists>levels. schedule_with counted issues = Inr levels \<and> distinct (map issue_name issues) \<and>
            topological (edges counted issues) (set (map issue_name issues)) levels) \<or>
         (\<exists>stuck. schedule_with counted issues = Inl (cycle_error stuck) \<and>
            set stuck \<subseteq> set (map issue_name issues) \<and> (distinct (map issue_name issues) \<longrightarrow> stuck \<noteq> []) \<and>
            (stuck = [] \<longrightarrow> acyclic (edges counted issues)) \<and>
            (\<forall>n \<in> set stuck. \<exists>d \<in> set stuck. (d, n) \<in> edges counted issues))"
proof -
  let ?N = "set (map issue_name issues)"
  obtain deg dts where link: "link_issues counted issues (\<lambda>_. 0, []) = (deg, dts)" by force
  have dl: "set (dep_list dts d) = {n. (d, n) \<in> edges counted issues}" for d
    using link_issues_set [of counted issues "(\<lambda>_. 0, [])" d] link by simp
  have ok: "degrees_ok ?N deg dts"
    using link_issues_ok [of ?N counted "(\<lambda>_. 0, [])" issues] link cnt by (simp add: degrees_ok_def)
  have sub: "set (dep_list dts d) \<subseteq> ?N" for d by (auto simp: dl edges_def)
  have waits: "waits ?N dts = edges counted issues"
    using cnt by (auto simp: waits_def dl edges_def)
  from kahn_result [OF name_order sub ok, unfolded waits] obtain levels deg' where
    loop: "kahn_loop dts (filter (\<lambda>n. deg n = 0) (name_order issues)) [] 0 deg = (levels, length (concat levels), deg')"
    and top: "topological (edges counted issues) (set (concat levels)) levels" and subN: "set (concat levels) \<subseteq> ?N"
    and pos: "\<And>n. n \<in> ?N \<Longrightarrow> 0 < deg' n \<longleftrightarrow> n \<notin> set (concat levels)"
    and stuck: "\<And>n. n \<in> ?N - set (concat levels) \<Longrightarrow> \<exists>d \<in> ?N - set (concat levels). (d, n) \<in> edges counted issues"
    by blast
  have res: "schedule_with counted issues =
      (if length (concat levels) \<noteq> length issues
       then Inl (cycle_error (filter (\<lambda>n. 0 < deg' n) (name_order issues)))
       else Inr levels)"
    by (simp only: schedule_with_def link kahn_def loop Let_def prod.case)
  have card: "length (concat levels) = card (set (concat levels))"
    using top distinct_card unfolding topological_def by metis
  have le: "card (set (concat levels)) \<le> card ?N" "card ?N \<le> length issues"
    using subN card_mono [of ?N] card_length [of "map issue_name issues"] by auto
  show ?thesis
  proof (cases "length (concat levels) = length issues")
    case True
    with card le have "card ?N = length (map issue_name issues)" "card (set (concat levels)) = card ?N" by auto
    then have "set (concat levels) = ?N" using subN card_subset_eq [of ?N "set (concat levels)"] by simp
    moreover have "distinct (map issue_name issues)"
      using card_distinct [of "map issue_name issues"] \<open>card ?N = length (map issue_name issues)\<close> by simp
    ultimately have "distinct (map issue_name issues)" "set (concat levels) = ?N" by simp_all
    with res True top show ?thesis by auto
  next
    case False
    let ?stuck = "filter (\<lambda>n. 0 < deg' n) (name_order issues)"
    have set_stuck: "set ?stuck = ?N - set (concat levels)" using pos by (auto simp: name_order)
    have "?stuck \<noteq> []" if "distinct (map issue_name issues)"
    proof
      assume "?stuck = []"
      then have "?N - set (concat levels) = {}" using set_stuck by simp
      then have "card (set (concat levels)) = card ?N" using subN by (simp add: subset_antisym)
      with that False card distinct_card [OF that] show False by simp
    qed
    moreover have "acyclic (edges counted issues)" if "?stuck = []"
    proof (rule topological_acyclic [OF top])
      show "edges counted issues \<subseteq> UNIV \<times> set (concat levels)"
        using set_stuck that subN by (auto simp: edges_def)
    qed
    moreover have "\<forall>n \<in> set ?stuck. \<exists>d \<in> set ?stuck. (d, n) \<in> edges counted issues"
      unfolding set_stuck using stuck by blast
    moreover have "schedule_with counted issues = Inl (cycle_error ?stuck)" using res False by simp
    moreover have "set ?stuck \<subseteq> ?N" unfolding set_stuck by blast
    ultimately show ?thesis by (intro disjI2 exI [of _ ?stuck] conjI) blast+
  qed
qed

section \<open>The contract of a level scheduler\<close>

text \<open>
  What \<open>ApplyReplan\<close>, the planning pipeline and the executor rely on: a schedule is a topological
  partition, and there is one whenever names are distinct and no cycle exists.
\<close>

locale level_scheduler =
  fixes schedule :: "gmap list \<Rightarrow> string + string list list"
    and counted :: "gmap list \<Rightarrow> string \<Rightarrow> bool"
  assumes sound: "schedule issues = Inr levels \<Longrightarrow>
      distinct (map issue_name issues) \<and> topological (edges (counted issues) issues) (set (map issue_name issues)) levels"
    and complete: "distinct (map issue_name issues) \<Longrightarrow> acyclic (edges (counted issues) issues) \<Longrightarrow>
      \<exists>levels. schedule issues = Inr levels"
begin

lemma edge_names: "edges (counted issues) issues \<subseteq> UNIV \<times> set (map issue_name issues)"
  by (auto simp: edges_def)

lemma schedule_iff: "(\<exists>levels. schedule issues = Inr levels) \<longleftrightarrow>
    distinct (map issue_name issues) \<and> acyclic (edges (counted issues) issues)"
  using sound complete topological_acyclic [OF _ edge_names] by metis

lemma once: "schedule issues = Inr levels \<Longrightarrow> distinct (concat levels) \<and> set (concat levels) = set (map issue_name issues)"
  using sound by (auto simp: topological_def)

lemma dependency_earlier:
  "schedule issues = Inr levels \<Longrightarrow> issue \<in> set issues \<Longrightarrow> dep \<in> set (depends_on issue) \<Longrightarrow> counted issues dep \<Longrightarrow>
   i < length levels \<Longrightarrow> issue_name issue \<in> set (levels ! i) \<Longrightarrow> \<exists>j < i. dep \<in> set (levels ! j)"
  using sound by (intro topological_take) (auto simp: edges_def)

lemma level_count: "schedule issues = Inr levels \<Longrightarrow> length levels \<le> length issues"
proof -
  assume s: "schedule issues = Inr levels"
  have "length ls \<le> length (concat ls)" if "[] \<notin> set ls" for ls :: "string list list"
    using that
  proof (induction ls)
    case (Cons l ls)
    then have "1 \<le> length l" by (cases l) auto
    moreover have "length ls \<le> length (concat ls)" using Cons by simp
    ultimately show ?case by simp
  qed simp
  moreover have "[] \<notin> set levels" using sound [OF s] by (simp add: topological_def)
  moreover have "length (concat levels) = length issues"
    using sound [OF s] unfolding topological_def by (metis distinct_card length_map)
  ultimately show ?thesis by metis
qed

end

lemma schedule_with_scheduler:
  assumes "\<And>issues d. counted issues d \<Longrightarrow> d \<in> set (map issue_name issues)"
  shows "level_scheduler (\<lambda>issues. schedule_with (counted issues) issues) counted"
proof
  fix issues levels
  assume "schedule_with (counted issues) issues = Inr levels"
  then show "distinct (map issue_name issues) \<and> topological (edges (counted issues) issues) (set (map issue_name issues)) levels"
    using schedule_with_cases [of "counted issues" issues, OF assms] by auto
next
  fix issues
  assume dist: "distinct (map issue_name issues)" and acyc: "acyclic (edges (counted issues) issues)"
  have "False" if "set stuck \<subseteq> set (map issue_name issues)" "stuck \<noteq> []"
      "\<forall>n \<in> set stuck. \<exists>d \<in> set stuck. (d, n) \<in> edges (counted issues) issues" for stuck
    using no_stuck_if_acyclic [OF acyc, of "set stuck"] that by auto
  then show "\<exists>levels. schedule_with (counted issues) issues = Inr levels"
    using schedule_with_cases [of "counted issues" issues, OF assms] dist by blast
qed

interpretation recompute: level_scheduler
  "\<lambda>issues. recompute_levels issues completed" "\<lambda>issues d. d \<in> set (map issue_name issues) \<and> \<not> completed d"
  for completed
  unfolding recompute_levels_schedule by (rule schedule_with_scheduler) simp

interpretation compute: level_scheduler compute_levels "\<lambda>issues d. d \<in> set (map issue_name issues)"
  unfolding compute_levels_schedule by (rule schedule_with_scheduler) simp

section \<open>Properties\<close>

text \<open>
  C1: \<open>RecomputeLevels\<close> returns levels only when issue names are distinct, and then every issue is
  in exactly one level, every level is non-empty, each uncompleted in-set dependency of an issue
  is in an earlier level, and an issue outside the first level waits for one in the level before.
\<close>

theorem recompute_levels_topological:
  assumes "recompute_levels issues completed = Inr levels"
  shows "distinct (map issue_name issues) \<and>
    topological (edges (\<lambda>d. d \<in> set (map issue_name issues) \<and> \<not> completed d) issues) (set (map issue_name issues)) levels"
  using recompute.sound [OF assms] .

definition diamond :: "gmap list" where
  "diamond = [[(''name'', GStr ''d''), (''depends_on'', GList [GStr ''b'', GStr ''c''])],
     [(''name'', GStr ''b''), (''depends_on'', GList [GStr ''a''])],
     [(''name'', GStr ''c''), (''depends_on'', GStrs [''a'', ''done''])],
     [(''name'', GStr ''a''), (''depends_on'', GStr ''done'')]]"

theorem recompute_levels_topological_witness:
  "topological (edges (\<lambda>d. d \<in> set (map issue_name diamond) \<and> \<not> d = ''done'') diamond)
     (set (map issue_name diamond)) [[''a''], [''b'', ''c''], [''d'']]"
proof -
  have "recompute_levels diamond (\<lambda>n. n = ''done'') = Inr [[''a''], [''b'', ''c''], [''d'']]"
    by code_simp
  from recompute_levels_topological [OF this] show ?thesis by simp
qed

text \<open>
  \<open>RecomputeLevels\<close> succeeds exactly when the issue names are distinct and the uncompleted
  dependencies among the remaining issues form no cycle.
\<close>

lemma recompute_levels_complete:
  "(\<exists>levels. recompute_levels issues completed = Inr levels) \<longleftrightarrow>
   distinct (map issue_name issues) \<and>
   acyclic (edges (\<lambda>d. d \<in> set (map issue_name issues) \<and> \<not> completed d) issues)"
  using recompute.schedule_iff .

text \<open>An issue without its dependencies on completed issues.\<close>

definition without_completed :: "(string \<Rightarrow> bool) \<Rightarrow> gmap \<Rightarrow> gmap" where
  "without_completed completed issue =
     mset issue ''depends_on'' (GStrs (filter (\<lambda>d. \<not> completed d) (depends_on issue)))"

lemma without_completed [simp]:
  "issue_name (without_completed completed issue) = issue_name issue"
  "depends_on (without_completed completed issue) = filter (\<lambda>d. \<not> completed d) (depends_on issue)"
  by (simp_all add: without_completed_def issue_name_def depends_on_def strs_of_def as_string_slice_def)

lemma link_deps_filter:
  "link_deps (\<lambda>d. P d \<and> \<not> completed d) name deps st = link_deps P name (filter (\<lambda>d. \<not> completed d) deps) st"
proof (induction deps arbitrary: st)
  case (Cons d deps)
  then show ?case by (cases st) simp
qed simp

lemma link_issues_filter:
  "link_issues (\<lambda>d. P d \<and> \<not> completed d) issues st = link_issues P (map (without_completed completed) issues) st"
  by (induction issues arbitrary: st) (simp_all add: link_deps_filter)

text \<open>
  C2: The two copies of Kahn's algorithm agree: \<open>RecomputeLevels\<close>, which ignores completed
  dependencies while it counts, gives the levels, or the very error, that \<open>ComputeLevels\<close> gives for
  the same issues with those dependencies deleted beforehand, whatever has been completed.
\<close>

theorem recompute_is_compute:
  "recompute_levels issues completed = compute_levels (map (without_completed completed) issues)"
  by (simp add: recompute_levels_def compute_levels_def link_issues_filter name_order_def comp_def Let_def)

text \<open>
  \<open>ComputeLevels\<close> returns either a topological partition of distinct names into at most as
  many levels as issues, or a message naming issues that each wait for another named one. The
  message names no issue exactly when there is no cycle, which happens when two issues share a
  name: duplicates are reported as a dependency cycle.
\<close>

theorem compute_levels_contract:
  "case compute_levels issues of
     Inr levels \<Rightarrow> distinct (map issue_name issues) \<and> length levels \<le> length issues \<and>
       topological (edges (\<lambda>d. d \<in> set (map issue_name issues)) issues) (set (map issue_name issues)) levels
   | Inl msg \<Rightarrow> \<exists>stuck. msg = cycle_error stuck \<and>
       (\<forall>n \<in> set stuck. \<exists>d \<in> set stuck. (d, n) \<in> edges (\<lambda>d. d \<in> set (map issue_name issues)) issues) \<and>
       (if stuck = [] then acyclic (edges (\<lambda>d. d \<in> set (map issue_name issues)) issues) \<and> \<not> distinct (map issue_name issues)
        else \<not> acyclic (edges (\<lambda>d. d \<in> set (map issue_name issues)) issues))"
proof (cases "compute_levels issues")
  case (Inr levels)
  then show ?thesis using compute.level_count compute.sound by simp
next
  case (Inl msg)
  then obtain stuck where st: "msg = cycle_error stuck"
    "distinct (map issue_name issues) \<longrightarrow> stuck \<noteq> []"
    "stuck = [] \<longrightarrow> acyclic (edges (\<lambda>d. d \<in> set (map issue_name issues)) issues)"
    "\<forall>n \<in> set stuck. \<exists>d \<in> set stuck. (d, n) \<in> edges (\<lambda>d. d \<in> set (map issue_name issues)) issues"
    using schedule_with_cases [of "\<lambda>d. d \<in> set (map issue_name issues)" issues]
    by (auto simp: compute_levels_schedule)
  then have "\<not> acyclic (edges (\<lambda>d. d \<in> set (map issue_name issues)) issues)" if "stuck \<noteq> []"
    using no_stuck_if_acyclic [of "edges (\<lambda>d. d \<in> set (map issue_name issues)) issues" "set stuck"] that by auto
  with Inl st show ?thesis by auto
qed

definition twins :: "gmap list" where
  "twins = [[(''name'', GStr ''a'')], [(''name'', GStr ''a'')]]"

theorem compute_levels_contract_witness:
  "\<exists>stuck. cycle_error [] = cycle_error stuck \<and>
     (\<forall>n \<in> set stuck. \<exists>d \<in> set stuck. (d, n) \<in> edges (\<lambda>d. d \<in> set (map issue_name twins)) twins) \<and>
     (if stuck = [] then acyclic (edges (\<lambda>d. d \<in> set (map issue_name twins)) twins) \<and> \<not> distinct (map issue_name twins)
      else \<not> acyclic (edges (\<lambda>d. d \<in> set (map issue_name twins)) twins))"
proof -
  have "compute_levels twins = Inl (cycle_error [])" by code_simp
  with compute_levels_contract [of twins] show ?thesis by (simp only: sum.case)
qed

end
