(* ===== verification/Downstream.thy ===== *)
theory Downstream
  imports LevelsCorrect
begin

text \<open>
  \<open>FindDownstream\<close> of \<open>internal/dagutil/dagutil.go\<close>: the breadth-first search over the
  dependents. The visited set is kept in the order of its insertions; the code iterates over it
  in Go's unspecified map order, so its users only depend on its elements.
\<close>

fun link_all_deps :: "string \<Rightarrow> string list \<Rightarrow> dep_map \<Rightarrow> dep_map" where
  "link_all_deps name [] dts = dts"
| "link_all_deps name (dep # deps) dts = link_all_deps name deps (dep_append dts dep name)"

fun build_dependents :: "gmap list \<Rightarrow> dep_map \<Rightarrow> dep_map" where
  "build_dependents [] dts = dts"
| "build_dependents (issue # issues) dts =
     build_dependents issues (link_all_deps (issue_name issue) (depends_on issue) dts)"

text \<open>\<open>for len(queue) > 0\<close>: pop, skip a visited name, otherwise mark it and queue its dependents.\<close>

function bfs :: "dep_map \<Rightarrow> string list \<Rightarrow> string list \<Rightarrow> string list" where
  "bfs dts visited [] = visited"
| "bfs dts visited (name # queue) =
     (if name \<in> set visited then bfs dts visited queue
      else bfs dts (visited @ [name]) (queue @ dep_list dts name))"
  by pat_completeness auto
termination
proof (relation "measures [\<lambda>(dts, visited, queue). card ((all_dependents dts \<union> set queue) - set visited),
    \<lambda>(dts, visited, queue). length queue]", goal_cases)
  case (2 dts visited name queue)
  then have "card ((all_dependents dts \<union> set queue) - set visited)
      \<le> card ((all_dependents dts \<union> set (name # queue)) - set visited)"
    by (intro card_mono) auto
  then show ?case by (auto simp: less_le)
next
  case (3 dts visited name queue)
  then have "card ((all_dependents dts \<union> set (queue @ dep_list dts name)) - set (visited @ [name]))
      < card ((all_dependents dts \<union> set (name # queue)) - set visited)"
    using set_dep_list [of dts name] by (intro psubset_card_mono) auto
  then show ?case by simp
qed simp

definition find_downstream :: "string \<Rightarrow> gmap list \<Rightarrow> string list" where
  "find_downstream name issues =
     (let dts = build_dependents issues [] in bfs dts [] (dep_list dts name))"

section \<open>The result is the transitive closure of the dependency relation\<close>

lemma link_all_deps_set:
  "set (dep_list (link_all_deps name deps dts) d) = set (dep_list dts d) \<union> {n. n = name \<and> d \<in> set deps}"
  by (induction name deps dts rule: link_all_deps.induct) (auto simp: dep_list_append)

lemma build_dependents_set:
  "set (dep_list (build_dependents issues dts) d) = set (dep_list dts d) \<union> {n. (d, n) \<in> edges (\<lambda>_. True) issues}"
  by (induction issues dts rule: build_dependents.induct) (auto simp: link_all_deps_set edges_def)

lemma bfs_distinct: "distinct visited \<Longrightarrow> distinct (bfs dts visited queue)"
  by (induction dts visited queue rule: bfs.induct) auto

lemma bfs_sound:
  "set visited \<union> set queue \<subseteq> R \<Longrightarrow> (\<And>d. d \<in> R \<Longrightarrow> set (dep_list dts d) \<subseteq> R) \<Longrightarrow> set (bfs dts visited queue) \<subseteq> R"
proof (induction dts visited queue rule: bfs.induct)
  case (2 dts visited name queue)
  have "set (visited @ [name]) \<union> set (queue @ dep_list dts name) \<subseteq> R"
    using "2.prems" by auto
  with 2 show ?case by auto
qed simp

text \<open>The search's invariant: the dependents of a visited name are visited or queued.\<close>

lemma bfs_closed:
  "\<forall>d \<in> set visited. set (dep_list dts d) \<subseteq> set visited \<union> set queue \<Longrightarrow>
   set visited \<union> set queue \<subseteq> set (bfs dts visited queue) \<and>
   (\<forall>d \<in> set (bfs dts visited queue). set (dep_list dts d) \<subseteq> set (bfs dts visited queue))"
proof (induction dts visited queue rule: bfs.induct)
  case (2 dts visited name queue)
  show ?case
  proof (cases "name \<in> set visited")
    case True
    with 2 show ?thesis by auto
  next
    case False
    have "\<forall>d \<in> set (visited @ [name]). set (dep_list dts d) \<subseteq> set (visited @ [name]) \<union> set (queue @ dep_list dts name)"
      using "2.prems" by auto
    with "2.IH"(2) [OF False] False show ?thesis by auto
  qed
qed auto

lemma set_find_downstream: "set (find_downstream name issues) = {n. (name, n) \<in> (edges (\<lambda>_. True) issues)\<^sup>+}"
proof -
  let ?r = "edges (\<lambda>_. True) issues" and ?dts = "build_dependents issues []"
  have dl: "set (dep_list ?dts d) = {n. (d, n) \<in> ?r}" for d
    by (simp add: build_dependents_set)
  have "set (find_downstream name issues) \<subseteq> {n. (name, n) \<in> ?r\<^sup>+}"
    unfolding find_downstream_def Let_def
    by (rule bfs_sound) (auto simp: dl intro: trancl_into_trancl)
  moreover have cl: "set (dep_list ?dts name) \<subseteq> set (find_downstream name issues) \<and>
      (\<forall>d \<in> set (find_downstream name issues). set (dep_list ?dts d) \<subseteq> set (find_downstream name issues))"
    using bfs_closed [of "[]" ?dts "dep_list ?dts name"] by (simp add: find_downstream_def Let_def)
  have "n \<in> set (find_downstream name issues)" if "(name, n) \<in> ?r\<^sup>+" for n
    using that by (induction rule: trancl_induct) (use cl dl in blast)+
  ultimately show ?thesis by blast
qed

lemma distinct_find_downstream: "distinct (find_downstream name issues)"
  by (simp add: find_downstream_def Let_def bfs_distinct)

text \<open>
  \<open>FindDownstream\<close> returns, once each, exactly the issues that depend directly or indirectly
  on the given one; the name itself is among them exactly when it lies on a dependency cycle.
\<close>

theorem find_downstream_closure:
  "distinct (find_downstream name issues) \<and>
   set (find_downstream name issues) = {n. (name, n) \<in> (edges (\<lambda>_. True) issues)\<^sup>+} \<and>
   (name \<in> set (find_downstream name issues) \<longleftrightarrow> (name, name) \<in> (edges (\<lambda>_. True) issues)\<^sup>+)"
  by (simp add: set_find_downstream distinct_find_downstream)

end
