(* ===== verification/PlanChecks.thy ===== *)
theory PlanChecks
  imports Downstream
begin

text \<open>
  \<open>ValidateFileConflicts\<close> and \<open>AssignSequenceNumbers\<close> of \<open>internal/dagutil/dagutil.go\<close>.
\<close>

section \<open>File conflicts\<close>

text \<open>\<open>issueByName\<close>: a later issue of the same name replaces an earlier one.\<close>

fun index_issues :: "gmap list \<Rightarrow> (string \<times> gmap) list \<Rightarrow> (string \<times> gmap) list" where
  "index_issues [] m = m"
| "index_issues (issue # issues) m = index_issues issues (AList.update (issue_name issue) issue m)"

text \<open>The closure \<open>add\<close>: \<open>fileToIssues\<close> and \<open>fileOrder\<close>.\<close>

definition touch :: "string \<Rightarrow> (string \<times> string list) list \<times> string list \<Rightarrow> string \<Rightarrow> (string \<times> string list) list \<times> string list" where
  "touch name st f = (case st of (m, order) \<Rightarrow>
     (AList.update f (lookup_def [] m f @ [name]) m, if map_of m f = None then order @ [f] else order))"

definition touched_files :: "gmap \<Rightarrow> string list" where
  "touched_files issue = strs_of (mget issue ''files_to_create'') @ strs_of (mget issue ''files_to_modify'')"

fun touch_level :: "(string \<times> gmap) list \<Rightarrow> string list \<Rightarrow> (string \<times> string list) list \<times> string list \<Rightarrow> (string \<times> string list) list \<times> string list" where
  "touch_level by_name [] st = st"
| "touch_level by_name (name # names) st =
     touch_level by_name names
       (case map_of by_name name of None \<Rightarrow> st | Some issue \<Rightarrow> foldl (touch name) st (touched_files issue))"

definition conflict :: "nat \<Rightarrow> string \<Rightarrow> string list \<Rightarrow> gmap" where
  "conflict level file touching =
     [(''level'', GInt (int level)), (''file'', GStr file), (''issues'', GStrs touching)]"

definition level_conflicts :: "(string \<times> gmap) list \<Rightarrow> nat \<Rightarrow> string list \<Rightarrow> gmap list" where
  "level_conflicts by_name idx names =
     (let (m, order) = touch_level by_name names ([], [])
      in map (\<lambda>f. conflict idx f (lookup_def [] m f)) (filter (\<lambda>f. 1 < length (lookup_def [] m f)) order))"

fun conflicts_from :: "(string \<times> gmap) list \<Rightarrow> nat \<Rightarrow> string list list \<Rightarrow> gmap list" where
  "conflicts_from by_name idx [] = []"
| "conflicts_from by_name idx (names # levels) = level_conflicts by_name idx names @ conflicts_from by_name (Suc idx) levels"

definition validate_file_conflicts :: "gmap list \<Rightarrow> string list list \<Rightarrow> gmap list" where
  "validate_file_conflicts issues levels = conflicts_from (index_issues issues []) 0 levels"

text \<open>The touches of a level, one per issue and listed file.\<close>

definition touches :: "(string \<times> gmap) list \<Rightarrow> string list \<Rightarrow> string \<Rightarrow> string list" where
  "touches by_name names f = concat (map (\<lambda>name. case map_of by_name name of None \<Rightarrow> []
     | Some issue \<Rightarrow> replicate (count_list (touched_files issue) f) name) names)"

lemma touch_fold:
  assumes "set order = dom (map_of m)" and "distinct order"
  shows "\<exists>m' order'. foldl (touch name) (m, order) fs = (m', order') \<and> set order' = dom (map_of m') \<and> distinct order' \<and>
    (\<forall>f. lookup_def [] m' f = lookup_def [] m f @ replicate (count_list fs f) name) \<and> dom (map_of m') = dom (map_of m) \<union> set fs"
  using assms
proof (induction fs arbitrary: m order)
  case (Cons f fs)
  let ?m = "AList.update f (lookup_def [] m f @ [name]) m"
  let ?order = "if map_of m f = None then order @ [f] else order"
  have 1: "set ?order = dom (map_of ?m)" and 2: "distinct ?order"
    using Cons.prems by (auto simp: update_conv' domIff split: if_splits)
  from Cons.IH [OF 1 2] obtain m' order' where
    r: "foldl (touch name) (?m, ?order) fs = (m', order')" "set order' = dom (map_of m')" "distinct order'"
    "\<forall>g. lookup_def [] m' g = lookup_def [] ?m g @ replicate (count_list fs g) name"
    "dom (map_of m') = dom (map_of ?m) \<union> set fs"
    by blast
  have "lookup_def [] m' g = lookup_def [] m g @ replicate (count_list (f # fs) g) name" for g
    using r(4) by (auto simp: lookup_def_update replicate_app_Cons_same)
  moreover have "dom (map_of m') = dom (map_of m) \<union> set (f # fs)" using r(5) by (auto simp: update_conv' )
  moreover have "foldl (touch name) (m, order) (f # fs) = (m', order')" using r(1) by (simp add: touch_def)
  ultimately show ?case using r(2,3) by blast
qed auto

lemma touch_level_spec:
  assumes "set order = dom (map_of m)" and "distinct order"
  shows "\<exists>m' order'. touch_level by_name names (m, order) = (m', order') \<and> set order' = dom (map_of m') \<and> distinct order' \<and>
    (\<forall>f. lookup_def [] m' f = lookup_def [] m f @ touches by_name names f)"
  using assms
proof (induction names arbitrary: m order)
  case (Cons name names)
  show ?case
  proof (cases "map_of by_name name")
    case None
    with Cons show ?thesis by (simp add: touches_def)
  next
    case (Some issue)
    from touch_fold [OF Cons.prems, of name "touched_files issue"] obtain m1 order1 where
      1: "foldl (touch name) (m, order) (touched_files issue) = (m1, order1)" "set order1 = dom (map_of m1)" "distinct order1"
      "\<forall>f. lookup_def [] m1 f = lookup_def [] m f @ replicate (count_list (touched_files issue) f) name"
      by blast
    from Cons.IH [OF 1(2,3)] obtain m' order' where "touch_level by_name names (m1, order1) = (m', order')"
      "set order' = dom (map_of m')" "distinct order'"
      "\<forall>f. lookup_def [] m' f = lookup_def [] m1 f @ touches by_name names f" by blast
    with 1 Some show ?thesis by (simp add: touches_def)
  qed
qed (simp add: touches_def)

lemma level_conflicts_set:
  "set (level_conflicts by_name idx names) =
   {conflict idx f (touches by_name names f) | f. 1 < length (touches by_name names f)}"
proof -
  obtain m' order' where r: "touch_level by_name names ([], []) = (m', order')" "set order' = dom (map_of m')"
    "\<forall>f. lookup_def [] m' f = touches by_name names f"
    using touch_level_spec [of "[]" "[]" by_name names] by auto
  have in_order: "f \<in> set order'" if "1 < length (touches by_name names f)" for f
    using r(2,3) that by (auto simp: lookup_def_def domIff split: option.splits)
  have "lookup_def [] m' = touches by_name names" using r(3) by blast
  then have "level_conflicts by_name idx names =
      map (\<lambda>f. conflict idx f (touches by_name names f)) (filter (\<lambda>f. 1 < length (touches by_name names f)) order')"
    by (simp add: level_conflicts_def r(1))
  with in_order show ?thesis by auto
qed

lemma conflicts_from_set:
  "set (conflicts_from by_name idx levels) = (\<Union>i < length levels. set (level_conflicts by_name (idx + i) (levels ! i)))"
proof (induction by_name idx levels rule: conflicts_from.induct)
  case (2 by_name idx names levels)
  have "(\<Union>i < Suc (length levels). set (level_conflicts by_name (idx + i) ((names # levels) ! i)))
      = set (level_conflicts by_name idx names) \<union> (\<Union>i < length levels. set (level_conflicts by_name (Suc idx + i) (levels ! i)))"
    by (simp add: lessThan_Suc_eq_insert_0 image_Un)
  with 2 show ?case by simp
qed simp

text \<open>
  \<open>ValidateFileConflicts\<close> reports a file at a level exactly when the planned issues of that
  level list it more than once over their created and modified files. In particular one issue
  that lists a file both as created and as modified is reported against itself.
\<close>

theorem validate_file_conflicts_exact:
  "set (validate_file_conflicts issues levels) =
     {conflict i f (touches (index_issues issues []) (levels ! i) f) | i f.
        i < length levels \<and> 1 < length (touches (index_issues issues []) (levels ! i) f)} \<and>
   validate_file_conflicts
     [[(''name'', GStr ''solo''), (''files_to_create'', GList [GStr ''x.go'']), (''files_to_modify'', GList [GStr ''x.go''])]]
     [[''solo'']] = [conflict 0 ''x.go'' [''solo'', ''solo'']]"
proof
  show "set (validate_file_conflicts issues levels) =
     {conflict i f (touches (index_issues issues []) (levels ! i) f) | i f.
        i < length levels \<and> 1 < length (touches (index_issues issues []) (levels ! i) f)}"
    unfolding validate_file_conflicts_def conflicts_from_set level_conflicts_set by auto
qed code_simp

section \<open>Sequence numbers\<close>

text \<open>
  The dictionaries are mutated through \<open>issueByName\<close>, so the model keeps that index: with two
  issues of one name the last dictionary is numbered twice, as in the code.
\<close>

fun number_level :: "string list \<Rightarrow> gmap list \<Rightarrow> (string \<times> gmap) list \<times> int \<Rightarrow> (string \<times> gmap) list \<times> int" where
  "number_level names [] st = st"
| "number_level names (issue # issues) (by_name, counter) =
     number_level names issues
       (if issue_name issue \<in> set names
        then (AList.update (issue_name issue)
                (mset (lookup_def [] by_name (issue_name issue)) ''sequence_number'' (GInt counter)) by_name, counter + 1)
        else (by_name, counter))"

fun number_levels :: "string list list \<Rightarrow> gmap list \<Rightarrow> (string \<times> gmap) list \<times> int \<Rightarrow> (string \<times> gmap) list \<times> int" where
  "number_levels [] issues st = st"
| "number_levels (names # levels) issues st = number_levels levels issues (number_level names issues st)"

definition assign_sequence_numbers :: "gmap list \<Rightarrow> string list list \<Rightarrow> gmap list" where
  "assign_sequence_numbers issues levels =
     (let (by_name, counter) = number_levels levels issues (index_issues issues [], 1)
      in map (lookup_def [] by_name) (name_order issues))"

text \<open>The order in which the numbers are handed out.\<close>

definition numbering :: "string list list \<Rightarrow> gmap list \<Rightarrow> string list" where
  "numbering levels issues = concat (map (\<lambda>names. filter (\<lambda>n. n \<in> set names) (map issue_name issues)) levels)"

definition numbered :: "(string \<times> gmap) list \<Rightarrow> (string \<times> gmap) list \<Rightarrow> int \<Rightarrow> string list \<Rightarrow> bool" where
  "numbered m m' c ns \<longleftrightarrow>
     (\<forall>n. n \<notin> set ns \<longrightarrow> map_of m' n = map_of m n) \<and>
     (\<forall>k < length ns. map_of m' (ns ! k) = Some (mset (lookup_def [] m (ns ! k)) ''sequence_number'' (GInt (c + int k))))"

lemma numbered_Nil [simp]: "numbered m m c []"
  by (simp add: numbered_def)

lemma numbered_append:
  assumes 1: "numbered m m1 c ns" and 2: "numbered m1 m2 (c + int (length ns)) ns'" and dist: "distinct (ns @ ns')"
  shows "numbered m m2 c (ns @ ns')"
  unfolding numbered_def
proof (intro conjI allI impI)
  fix n assume "n \<notin> set (ns @ ns')"
  then show "map_of m2 n = map_of m n" using 1 2 by (simp add: numbered_def)
next
  fix k assume k: "k < length (ns @ ns')"
  show "map_of m2 ((ns @ ns') ! k) = Some (mset (lookup_def [] m ((ns @ ns') ! k)) ''sequence_number'' (GInt (c + int k)))"
  proof (cases "k < length ns")
    case True
    then have "ns ! k \<in> set ns" by simp
    then have "ns ! k \<notin> set ns'" using dist by auto
    with 1 2 True show ?thesis by (simp add: numbered_def nth_append)
  next
    case False
    with k have k': "k - length ns < length ns'" by simp
    then have "ns' ! (k - length ns) \<notin> set ns" using dist nth_mem by fastforce
    with 1 have "lookup_def [] m1 (ns' ! (k - length ns)) = lookup_def [] m (ns' ! (k - length ns))"
      by (simp add: numbered_def lookup_def_def)
    with 2 k' False show ?thesis by (simp add: numbered_def nth_append)
  qed
qed

lemma number_level_numbered:
  "distinct (map issue_name issues) \<Longrightarrow> number_level names issues (m, c) = (m', c') \<Longrightarrow>
   c' = c + int (length (filter (\<lambda>n. n \<in> set names) (map issue_name issues))) \<and>
   numbered m m' c (filter (\<lambda>n. n \<in> set names) (map issue_name issues))"
proof (induction issues arbitrary: m c)
  case (Cons issue issues)
  let ?n = "issue_name issue" and ?ns = "filter (\<lambda>n. n \<in> set names) (map issue_name issues)"
  show ?case
  proof (cases "?n \<in> set names")
    case True
    let ?m1 = "AList.update ?n (mset (lookup_def [] m ?n) ''sequence_number'' (GInt c)) m"
    have "c' = c + 1 + int (length ?ns) \<and> numbered ?m1 m' (c + 1) ?ns"
      using Cons.IH [of ?m1 "c + 1"] Cons.prems True by simp
    moreover have "numbered m ?m1 c [?n]" by (simp add: numbered_def map_of_update)
    ultimately have "numbered m m' c ([?n] @ ?ns)" using Cons.prems by (intro numbered_append) auto
    with True \<open>c' = c + 1 + int (length ?ns) \<and> _\<close> show ?thesis by simp
  next
    case False
    with Cons show ?thesis by simp
  qed
qed simp

lemma distinct_numbering:
  "distinct (map issue_name issues) \<Longrightarrow> distinct (concat levels) \<Longrightarrow> distinct (numbering levels issues)"
  by (induction levels) (auto simp: numbering_def)

lemma number_levels_numbered:
  "distinct (map issue_name issues) \<Longrightarrow> distinct (concat levels) \<Longrightarrow> number_levels levels issues (m, c) = (m', c') \<Longrightarrow>
   numbered m m' c (numbering levels issues)"
proof (induction levels arbitrary: m c)
  case (Cons names levels)
  let ?ns = "filter (\<lambda>n. n \<in> set names) (map issue_name issues)"
  obtain m1 c1 where 1: "number_level names issues (m, c) = (m1, c1)" by force
  from number_level_numbered [OF Cons.prems(1) 1]
  have 2: "c1 = c + int (length ?ns)" "numbered m m1 c ?ns" by auto
  have "numbered m1 m' c1 (numbering levels issues)"
    using Cons.prems 1 by (intro Cons.IH) auto
  moreover have "distinct (?ns @ numbering levels issues)"
    using Cons.prems distinct_numbering [of issues "names # levels"] by (simp add: numbering_def)
  ultimately show ?case using 2 by (simp add: numbering_def numbered_append)
qed (simp add: numbering_def)

lemma index_issues_absent: "n \<notin> set (map issue_name issues) \<Longrightarrow> map_of (index_issues issues m) n = map_of m n"
  by (induction issues m rule: index_issues.induct) (auto simp: map_of_update)

lemma index_issues_distinct:
  "distinct (map issue_name issues) \<Longrightarrow> issue \<in> set issues \<Longrightarrow> map_of (index_issues issues m) (issue_name issue) = Some issue"
  by (induction issues m rule: index_issues.induct) (auto simp: map_of_update index_issues_absent)

lemma concat_order:
  assumes dist: "distinct (concat ls)" and ji: "j < i" "i < length ls"
    and x: "x \<in> set (ls ! j)" "concat ls ! a = x" "a < length (concat ls)"
    and y: "y \<in> set (ls ! i)" "concat ls ! b = y" "b < length (concat ls)"
  shows "a < b"
proof -
  let ?l = "concat (take i ls)" and ?r = "concat (drop i ls)"
  have split: "concat ls = ?l @ ?r" by (metis append_take_drop_id concat_append)
  have "ls ! j = take i ls ! j" and "j < length (take i ls)" using ji by simp_all
  then have "ls ! j \<in> set (take i ls)" by (metis nth_mem)
  then have "x \<in> set ?l" using x(1) by auto
  moreover have "y \<in> set ?r" using y(1) unfolding Cons_nth_drop_Suc [OF ji(2), symmetric] by simp
  moreover have "set ?l \<inter> set ?r = {}" using dist by (subst (asm) split) simp
  ultimately have "x \<notin> set ?r" and "y \<notin> set ?l" by auto
  have "a < length ?l"
  proof (rule ccontr)
    assume "\<not> a < length ?l"
    then have "x = ?r ! (a - length ?l)" and "a - length ?l < length ?r"
      using x(2,3) unfolding split by (simp_all add: nth_append)
    with \<open>x \<notin> set ?r\<close> show False by (metis nth_mem)
  qed
  moreover have "length ?l \<le> b"
  proof (rule ccontr)
    assume "\<not> length ?l \<le> b"
    then have "y = ?l ! b" and "b < length ?l" using y(2) unfolding split by (simp_all add: nth_append)
    with \<open>y \<notin> set ?l\<close> show False by (metis nth_mem)
  qed
  ultimately show ?thesis by simp
qed

definition seq_number :: "gmap \<Rightarrow> int" where
  "seq_number issue = as_int (mget issue ''sequence_number'')"

lemma assigned_numbers:
  assumes "compute_levels issues = Inr levels"
  defines "ns \<equiv> numbering levels issues"
  shows "distinct ns" and "set ns = set (map issue_name issues)"
    and "issue \<in> set issues \<Longrightarrow> issue_name issue = ns ! k \<Longrightarrow> k < length ns \<Longrightarrow>
      map_of (fst (number_levels levels issues (index_issues issues [], 1))) (issue_name issue)
        = Some (mset issue ''sequence_number'' (GInt (1 + int k)))"
proof -
  from compute.sound [OF assms(1)] have dist: "distinct (map issue_name issues)" by simp
  from compute.once [OF assms(1)] have once: "distinct (concat levels)" "set (concat levels) = set (map issue_name issues)"
    by auto
  show "distinct ns" unfolding ns_def using dist once(1) by (rule distinct_numbering)
  show "set ns = set (map issue_name issues)" using once(2) by (auto simp: ns_def numbering_def)
  obtain m' c' where r: "number_levels levels issues (index_issues issues [], 1) = (m', c')" by force
  assume "issue \<in> set issues" "issue_name issue = ns ! k" "k < length ns"
  moreover from number_levels_numbered [OF dist once(1) r] have "numbered (index_issues issues []) m' 1 ns"
    by (simp add: ns_def)
  ultimately show "map_of (fst (number_levels levels issues (index_issues issues [], 1))) (issue_name issue)
        = Some (mset issue ''sequence_number'' (GInt (1 + int k)))"
    using r index_issues_distinct [OF dist, of issue "[]"] by (simp add: numbered_def lookup_def_def)
qed

lemma assign_sequence_numbers_nth:
  assumes lv: "compute_levels issues = Inr levels" and i: "i < length issues"
  shows "\<exists>k < length issues. numbering levels issues ! k = issue_name (issues ! i) \<and>
    assign_sequence_numbers issues levels ! i = mset (issues ! i) ''sequence_number'' (GInt (1 + int k))"
proof -
  let ?ns = "numbering levels issues"
  from compute.sound [OF lv] have dist: "distinct (map issue_name issues)" by simp
  note num = assigned_numbers [OF lv]
  have len: "length ?ns = length issues"
    using distinct_card [OF num(1)] distinct_card [OF dist] num(2) by simp
  have "issue_name (issues ! i) \<in> set ?ns" using num(2) i by simp
  then obtain k where k: "k < length ?ns" "?ns ! k = issue_name (issues ! i)" by (auto simp: in_set_conv_nth)
  have order: "name_order issues = map issue_name issues"
    using dist by (simp add: name_order_def add_all_unique_Nil_distinct)
  have "assign_sequence_numbers issues levels ! i = mset (issues ! i) ''sequence_number'' (GInt (1 + int k))"
    using num(3) [OF nth_mem [OF i] k(2) [symmetric] k(1)] i
    by (cases "number_levels levels issues (index_issues issues [], 1)")
      (simp add: assign_sequence_numbers_def order lookup_def_def)
  with k len show ?thesis by auto
qed

lemma numbering_increases:
  assumes lv: "compute_levels issues = Inr levels" and "i < length issues" and "j < length issues"
    and dep: "issue_name (issues ! j) \<in> set (depends_on (issues ! i))"
    and a: "a < length (numbering levels issues)" "numbering levels issues ! a = issue_name (issues ! i)"
    and b: "b < length (numbering levels issues)" "numbering levels issues ! b = issue_name (issues ! j)"
  shows "b < a"
proof -
  let ?lev = "map (\<lambda>names. filter (\<lambda>n. n \<in> set names) (map issue_name issues)) levels"
  from assms(2) have i: "issues ! i \<in> set issues" by simp
  with compute.once [OF lv] obtain li where li: "li < length levels" "issue_name (issues ! i) \<in> set (levels ! li)"
    by (metis (no_types, lifting) UN_iff image_eqI in_set_conv_nth set_concat set_map)
  obtain lj where lj: "lj < li" "issue_name (issues ! j) \<in> set (levels ! lj)"
    using compute.dependency_earlier [OF lv i dep _ li] assms(3) by auto
  show ?thesis
  proof (rule concat_order [of ?lev lj li])
    show "distinct (concat ?lev)" using assigned_numbers(1) [OF lv] by (simp add: numbering_def)
  qed (use li lj a b assms(2,3) in \<open>auto simp: numbering_def\<close>)
qed

text \<open>
  On the levels \<open>ComputeLevels\<close> returned, \<open>AssignSequenceNumbers\<close> keeps the issues in their
  order and changes nothing but \<open>sequence_number\<close>; the numbers handed out are 1 to the number
  of issues, each once, and an issue's number is above that of every planned issue it depends on.
\<close>

theorem assign_sequence_numbers_order:
  assumes "compute_levels issues = Inr levels"
  shows "length (assign_sequence_numbers issues levels) = length issues \<and>
    (\<forall>i < length issues. assign_sequence_numbers issues levels ! i =
       mset (issues ! i) ''sequence_number'' (GInt (seq_number (assign_sequence_numbers issues levels ! i)))) \<and>
    distinct (map seq_number (assign_sequence_numbers issues levels)) \<and>
    set (map seq_number (assign_sequence_numbers issues levels)) = {1..int (length issues)} \<and>
    (\<forall>i < length issues. \<forall>j < length issues. issue_name (issues ! j) \<in> set (depends_on (issues ! i)) \<longrightarrow>
       seq_number (assign_sequence_numbers issues levels ! j) < seq_number (assign_sequence_numbers issues levels ! i))"
proof -
  let ?out = "assign_sequence_numbers issues levels" and ?ns = "numbering levels issues" and ?n = "length issues"
  note nth = assign_sequence_numbers_nth [OF assms] and num = assigned_numbers [OF assms]
  from compute.sound [OF assms] have dist: "distinct (map issue_name issues)" by simp
  have len: "length ?out = ?n" and len_ns: "length ?ns = ?n"
    using dist distinct_card [OF num(1)] distinct_card [OF dist] num(2)
    by (simp_all add: assign_sequence_numbers_def name_order_def add_all_unique_Nil_distinct split: prod.split)
  obtain pos where pos: "\<And>i. i < ?n \<Longrightarrow> pos i < ?n \<and> ?ns ! pos i = issue_name (issues ! i) \<and>
      ?out ! i = mset (issues ! i) ''sequence_number'' (GInt (1 + int (pos i)))"
    using nth by metis
  then have seq: "\<And>i. i < ?n \<Longrightarrow> seq_number (?out ! i) = 1 + int (pos i)" by (simp add: seq_number_def as_int_def)
  have "inj_on pos {..<?n}"
    using pos dist by (auto intro!: inj_onI simp: distinct_conv_nth) metis
  then have d: "distinct (map seq_number ?out)"
    using seq len by (auto simp: distinct_conv_nth inj_on_def)
  have "set (map seq_number ?out) \<subseteq> {1..int ?n}" using seq pos len by (force simp: in_set_conv_nth)
  moreover have "card (set (map seq_number ?out)) = card {1..int ?n}" using d len by (simp only: distinct_card) simp
  ultimately have "set (map seq_number ?out) = {1..int ?n}" by (intro card_subset_eq) auto
  moreover have "seq_number (?out ! j) < seq_number (?out ! i)"
    if ij: "i < ?n" "j < ?n" and dep: "issue_name (issues ! j) \<in> set (depends_on (issues ! i))" for i j
    using numbering_increases [OF assms ij dep, of "pos i" "pos j"] pos ij seq len_ns by simp
  moreover have "?out ! i = mset (issues ! i) ''sequence_number'' (GInt (seq_number (?out ! i)))" if "i < ?n" for i
    using pos [OF that] seq [OF that] by simp
  ultimately show ?thesis using d len by simp
qed

theorem assign_sequence_numbers_order_witness:
  "\<exists>levels. compute_levels diamond = Inr levels \<and>
    map seq_number (assign_sequence_numbers diamond levels) = [4, 2, 3, 1] \<and>
    distinct (map seq_number (assign_sequence_numbers diamond levels))"
proof -
  have c: "compute_levels diamond = Inr [[''a''], [''b'', ''c''], [''d'']]" by code_simp
  have "map seq_number (assign_sequence_numbers diamond [[''a''], [''b'', ''c''], [''d'']]) = [4, 2, 3, 1]" by code_simp
  with c assign_sequence_numbers_order [OF c] show ?thesis by (intro exI [of _ "[[''a''], [''b'', ''c''], [''d'']]"] conjI) simp_all
qed

end
