(* ===== verification/Replan.thy ===== *)
theory Replan
  imports PlanChecks Schemas
begin

text \<open>
  \<open>ApplyReplan\<close> and \<open>NormalizeIssueDict\<close> of \<open>internal/dagutil/dagutil.go\<close>. The working set
  (\<open>remainingByName\<close> with \<open>remainingOrder\<close>) is one association list: an update keeps a key's
  place, a new key goes to the end, a removal closes the gap. The state is mutated in place, so
  the function returns it also when the replan is rejected.
\<close>

section \<open>\<open>NormalizeIssueDict\<close>\<close>

definition issue_list_fields :: "string list" where
  "issue_list_fields = [''acceptance_criteria'', ''depends_on'', ''provides'', ''files_to_create'', ''files_to_modify'']"

definition normalize_field :: "gmap \<Rightarrow> string \<Rightarrow> gmap" where
  "normalize_field issue f = (case map_of issue f of
     None \<Rightarrow> issue
   | Some (GStr t) \<Rightarrow> mset issue f (GStrs (if trim_space t = [] then [] else [t]))
   | Some GNil \<Rightarrow> mset issue f (GStrs [])
   | Some v \<Rightarrow> issue)"

definition normalize_issue_dict :: "gmap \<Rightarrow> gmap" where
  "normalize_issue_dict issue = foldl normalize_field issue issue_list_fields"

section \<open>\<open>ApplyReplan\<close>\<close>

definition completed_names :: "dag_state \<Rightarrow> string list" where
  "completed_names s = map r_name (d_completed s)"

definition failed_names :: "dag_state \<Rightarrow> string list" where
  "failed_names s = map r_name (d_failed s)"

definition settled :: "dag_state \<Rightarrow> string \<Rightarrow> bool" where
  "settled s n \<longleftrightarrow> n \<in> set (completed_names s) \<or> n \<in> set (failed_names s)"

type_synonym working_set = "(string \<times> gmap) list"

fun collect_remaining :: "dag_state \<Rightarrow> gmap list \<Rightarrow> working_set \<Rightarrow> working_set" where
  "collect_remaining s [] rem = rem"
| "collect_remaining s (issue # issues) rem =
     collect_remaining s issues
       (if settled s (issue_name issue) then rem else AList.update (issue_name issue) issue rem)"

fun remove_all :: "string list \<Rightarrow> working_set \<Rightarrow> working_set" where
  "remove_all [] rem = rem"
| "remove_all (n # ns) rem = remove_all ns (AList.delete n rem)"

fun update_existing :: "gmap list \<Rightarrow> working_set \<Rightarrow> working_set" where
  "update_existing [] rem = rem"
| "update_existing (u # us) rem =
     update_existing us
       (let name = as_string (mget u ''name'')
        in case map_of rem name of
             None \<Rightarrow> rem
           | Some existing \<Rightarrow> AList.update name (mset_all existing (normalize_issue_dict u)) rem)"

fun target_repos :: "gmap list \<Rightarrow> (string \<times> string) list \<Rightarrow> (string \<times> string) list" where
  "target_repos [] m = m"
| "target_repos (issue # issues) m =
     target_repos issues
       (let tr = as_string (mget issue ''target_repo'') in if tr \<noteq> [] then AList.update (issue_name issue) tr m else m)"

fun max_sequence :: "gmap list \<Rightarrow> int \<Rightarrow> int" where
  "max_sequence [] n = n"
| "max_sequence (issue # issues) n =
     max_sequence issues (let k = as_int (mget issue ''sequence_number'') in if k > n then k else n)"

definition inherit_repo :: "(string \<times> string) list \<Rightarrow> gmap \<Rightarrow> gmap" where
  "inherit_repo repos issue =
     (case find (\<lambda>dep. lookup_def [] repos dep \<noteq> []) (depends_on issue) of
        None \<Rightarrow> issue
      | Some dep \<Rightarrow> mset issue ''target_repo'' (GStr (lookup_def [] repos dep)))"

fun add_new :: "bool \<Rightarrow> (string \<times> string) list \<Rightarrow> gmap list \<Rightarrow> int \<Rightarrow> working_set \<Rightarrow> working_set" where
  "add_new multi repos [] n rem = rem"
| "add_new multi repos (raw # raws) n rem =
     (let issue = normalize_issue_dict raw; name = as_string (mget issue ''name'')
      in if name = [] \<or> map_of rem name \<noteq> None then add_new multi repos raws n rem
         else let unnumbered = (as_int (mget issue ''sequence_number'') = 0);
                  n' = (if unnumbered then n + 1 else n);
                  i1 = (if unnumbered then mset issue ''sequence_number'' (GInt n') else issue);
                  i2 = (if as_string (mget i1 ''target_repo'') = [] \<and> multi then inherit_repo repos i1 else i1)
              in add_new multi repos raws n' (AList.update name i2 rem))"

definition skip_names :: "string list \<Rightarrow> dag_state \<Rightarrow> dag_state" where
  "skip_names ns s = s\<lparr>d_skipped := add_all_unique (d_skipped s) ns\<rparr>"

definition replanned_set :: "dag_state \<Rightarrow> replan_decision \<Rightarrow> working_set" where
  "replanned_set s p =
     (let rem0 = collect_remaining s (d_issues s) [];
          rem1 = remove_all (p_skipped p) (remove_all (p_removed p) rem0);
          rem2 = update_existing (p_updated p) rem1;
          multi = (case d_manifest s of None \<Rightarrow> False | Some m \<Rightarrow> m \<noteq> [])
      in add_new multi (target_repos (d_issues s) []) (p_new p) (max_sequence (d_issues s) 0) rem2)"

definition apply_replan :: "dag_state \<Rightarrow> replan_decision \<Rightarrow> dag_state \<times> string option" where
  "apply_replan s p =
     (if p_action p = replan_abort \<or> p_action p = replan_continue
      then (s\<lparr>d_replans := d_replans s + 1, d_history := d_history s @ [p]\<rparr>, None)
      else
        let remaining = map snd (replanned_set s p); s1 = skip_names (p_skipped p) s
        in case recompute_levels remaining (\<lambda>n. n \<in> set (completed_names s)) of
             Inl e \<Rightarrow> (s1, Some e)
           | Inr levels \<Rightarrow>
               (s1\<lparr>d_issues := filter (\<lambda>issue. settled s (issue_name issue)) (d_issues s) @ remaining,
                  d_levels := levels, d_level := 0, d_replans := d_replans s + 1, d_history := d_history s @ [p]\<rparr>, None))"

section \<open>The working set\<close>

text \<open>Its keys are the names of its issues, each once.\<close>

definition set_ok :: "working_set \<Rightarrow> bool" where
  "set_ok rem \<longleftrightarrow> distinct (map fst rem) \<and> (\<forall>k issue. map_of rem k = Some issue \<longrightarrow> issue_name issue = k)"

lemma set_ok_names: "set_ok rem \<Longrightarrow> map issue_name (map snd rem) = map fst rem"
  by (auto simp: set_ok_def map_of_eq_Some_iff)

lemma set_ok_Nil [simp]: "set_ok []"
  by (simp add: set_ok_def)

lemma set_ok_update [simp]: "set_ok rem \<Longrightarrow> issue_name issue = k \<Longrightarrow> set_ok (AList.update k issue rem)"
  by (auto simp: set_ok_def distinct_update map_of_update)

lemma set_ok_delete [simp]: "set_ok rem \<Longrightarrow> set_ok (AList.delete k rem)"
  by (auto simp: set_ok_def distinct_delete delete_conv' split: if_splits)

lemma dom_alist_update [simp]: "dom (map_of (AList.update k v m)) = insert k (dom (map_of m))"
  by (auto simp: update_conv' split: if_splits)

lemma collect_remaining_ok: "set_ok rem \<Longrightarrow> set_ok (collect_remaining s issues rem)"
  by (induction s issues rem rule: collect_remaining.induct) auto

lemma collect_remaining_dom:
  "dom (map_of (collect_remaining s issues rem)) = dom (map_of rem) \<union> {n \<in> set (map issue_name issues). \<not> settled s n}"
  by (induction s issues rem rule: collect_remaining.induct) auto

lemma remove_all_ok: "set_ok rem \<Longrightarrow> set_ok (remove_all ns rem)"
  by (induction ns rem rule: remove_all.induct) auto

lemma remove_all_dom: "dom (map_of (remove_all ns rem)) = dom (map_of rem) - set ns"
  by (induction ns rem rule: remove_all.induct) (auto simp: delete_conv' split: if_splits)

lemma normalize_field_other: "k \<noteq> f \<Longrightarrow> map_of (normalize_field issue f) k = map_of issue k"
  by (simp add: normalize_field_def map_of_mset split: option.splits gval.splits)

lemma normalize_other: "k \<notin> set issue_list_fields \<Longrightarrow> map_of (normalize_issue_dict issue) k = map_of issue k"
proof -
  have "k \<notin> set fs \<Longrightarrow> map_of (foldl normalize_field issue fs) k = map_of issue k" for fs
    by (induction fs arbitrary: issue) (simp_all add: normalize_field_other)
  then show "k \<notin> set issue_list_fields \<Longrightarrow> ?thesis" by (simp add: normalize_issue_dict_def)
qed

lemma normalize_name [simp]: "map_of (normalize_issue_dict issue) ''name'' = map_of issue ''name''"
  by (rule normalize_other) (simp add: issue_list_fields_def)

lemma merged_name:
  assumes "issue_name existing = as_string (mget u ''name'')"
  shows "issue_name (mset_all existing (normalize_issue_dict u)) = as_string (mget u ''name'')"
  using assms
  by (simp add: issue_name_def mget_mset_all) (simp add: mget_def lookup_def_def split: option.splits)

lemma update_existing_ok: "set_ok rem \<Longrightarrow> set_ok (update_existing us rem)"
proof (induction us rem rule: update_existing.induct)
  case (2 u us rem)
  show ?case
  proof (cases "map_of rem (as_string (mget u ''name''))")
    case (Some existing)
    then have "issue_name existing = as_string (mget u ''name'')" using "2.prems" by (simp add: set_ok_def)
    with 2 Some show ?thesis by (simp add: merged_name Let_def)
  qed (use 2 in \<open>simp add: Let_def\<close>)
qed simp

lemma update_existing_dom: "dom (map_of (update_existing us rem)) = dom (map_of rem)"
  by (induction us rem rule: update_existing.induct) (auto simp: Let_def split: option.splits)

text \<open>The name of a new issue survives its numbering and the inherited repository.\<close>

lemma issue_name_mset [simp]: "k \<noteq> ''name'' \<Longrightarrow> issue_name (mset issue k v) = issue_name issue"
  by (simp add: issue_name_def)

lemma inherit_repo_name [simp]: "issue_name (inherit_repo repos issue) = issue_name issue"
  by (simp add: inherit_repo_def split: option.splits)

lemma normalize_issue_name [simp]: "issue_name (normalize_issue_dict issue) = issue_name issue"
  by (simp add: issue_name_def mget_def lookup_def_def)

lemma add_new_ok: "set_ok rem \<Longrightarrow> set_ok (add_new multi repos raws n rem)"
proof (induction raws arbitrary: n rem)
  case (Cons raw raws)
  have "as_string (mget (normalize_issue_dict raw) ''name'') = issue_name raw"
    using normalize_issue_name [of raw] by (simp only: issue_name_def)
  with Cons show ?case by (simp add: Let_def)
qed simp

lemma add_new_dom:
  "dom (map_of (add_new multi repos raws n rem)) = dom (map_of rem) \<union> {k \<in> set (map issue_name raws). k \<noteq> []}"
proof (induction raws arbitrary: n rem)
  case (Cons raw raws)
  have "as_string (mget (normalize_issue_dict raw) ''name'') = issue_name raw"
    using normalize_issue_name [of raw] by (simp only: issue_name_def)
  with Cons show ?case by (auto simp: Let_def)
qed simp

lemma replanned_ok: "set_ok (replanned_set s p)"
  by (simp add: replanned_set_def Let_def add_new_ok update_existing_ok remove_all_ok collect_remaining_ok)

lemma replanned_names:
  "set (map fst (replanned_set s p)) =
     {n \<in> set (map issue_name (d_issues s)). \<not> settled s n} - set (p_removed p) - set (p_skipped p)
     \<union> {n \<in> set (map issue_name (p_new p)). n \<noteq> []}"
proof -
  have "set (map fst (replanned_set s p)) = dom (map_of (replanned_set s p))" by (simp add: dom_map_of_conv_image_fst)
  then show ?thesis
    by (simp add: replanned_set_def Let_def add_new_dom update_existing_dom remove_all_dom collect_remaining_dom)
qed

text \<open>
  C3: An accepted replan that restructures the graph keeps the completed and failed issues in
  place and in order; after them come the issues left over, whose names are those still open, less
  the removed and the skipped ones, plus the named new issues, each once. The levels are a
  topological partition of exactly these, execution restarts at level 0, and one replan is
  counted and recorded.
\<close>

theorem apply_replan_accepts:
  assumes "apply_replan s p = (s', None)" and "p_action p \<noteq> replan_abort" and "p_action p \<noteq> replan_continue"
  shows "\<exists>rem. d_issues s' = filter (\<lambda>issue. settled s (issue_name issue)) (d_issues s) @ rem \<and>
    distinct (map issue_name rem) \<and>
    set (map issue_name rem) =
      {n \<in> set (map issue_name (d_issues s)). \<not> settled s n} - set (p_removed p) - set (p_skipped p)
      \<union> {n \<in> set (map issue_name (p_new p)). n \<noteq> []} \<and>
    topological (edges (\<lambda>d. d \<in> set (map issue_name rem) \<and> d \<notin> set (completed_names s)) rem)
      (set (map issue_name rem)) (d_levels s') \<and>
    d_level s' = 0 \<and> d_replans s' = d_replans s + 1 \<and> d_history s' = d_history s @ [p] \<and>
    d_completed s' = d_completed s \<and> d_failed s' = d_failed s \<and>
    d_skipped s' = add_all_unique (d_skipped s) (p_skipped p)"
proof -
  let ?rem = "map snd (replanned_set s p)"
  from assms obtain levels where lv: "recompute_levels ?rem (\<lambda>n. n \<in> set (completed_names s)) = Inr levels"
    and s': "s' = (skip_names (p_skipped p) s)\<lparr>d_issues := filter (\<lambda>issue. settled s (issue_name issue)) (d_issues s) @ ?rem,
       d_levels := levels, d_level := 0, d_replans := d_replans s + 1, d_history := d_history s @ [p]\<rparr>"
    by (auto simp: apply_replan_def Let_def split: sum.splits)
  note names = set_ok_names [OF replanned_ok [of s p]]
  from recompute.sound [OF lv] names replanned_names [of s p] show ?thesis
    by (intro exI [of _ ?rem]) (simp add: s' skip_names_def)
qed

text \<open>
  A replan is rejected exactly when the issues it would leave over wait for each other in a
  cycle. A rejected replan still marks its skipped issues as skipped, and changes nothing else.
\<close>

theorem apply_replan_rejects:
  "(snd (apply_replan s p) = None \<longleftrightarrow> p_action p = replan_abort \<or> p_action p = replan_continue \<or>
     acyclic (edges (\<lambda>d. d \<in> fst ` set (replanned_set s p) \<and> d \<notin> set (completed_names s)) (map snd (replanned_set s p)))) \<and>
   (case snd (apply_replan s p) of None \<Rightarrow> True
    | Some e \<Rightarrow> fst (apply_replan s p) = s\<lparr>d_skipped := add_all_unique (d_skipped s) (p_skipped p)\<rparr>)"
proof -
  let ?rem = "map snd (replanned_set s p)" and ?done = "\<lambda>n. n \<in> set (completed_names s)"
  have names: "map issue_name ?rem = map fst (replanned_set s p)" by (rule set_ok_names [OF replanned_ok])
  have dist: "distinct (map issue_name ?rem)" unfolding names using replanned_ok [of s p] by (simp add: set_ok_def)
  have "(\<exists>levels. recompute_levels ?rem ?done = Inr levels) \<longleftrightarrow>
      acyclic (edges (\<lambda>d. d \<in> fst ` set (replanned_set s p) \<and> \<not> ?done d) ?rem)"
    using recompute.schedule_iff [of ?rem ?done] dist unfolding names by simp
  then show ?thesis
    by (cases "recompute_levels ?rem ?done") (auto simp: apply_replan_def Let_def skip_names_def)
qed

definition diamond_state :: dag_state where
  "diamond_state = zero_state\<lparr>d_issues := diamond @ [[(''name'', GStr ''done'')]], d_completed := [zero_result\<lparr>r_name := ''done''\<rparr>]\<rparr>"

definition swap_c_for_e :: replan_decision where
  "swap_c_for_e = zero_decision\<lparr>p_action := ''modify_dag'', p_removed := [''c''],
     p_new := [[(''name'', GStr ''e''), (''depends_on'', GStr ''b'')]]\<rparr>"

theorem apply_replan_accepts_witness:
  "\<exists>s' rem. apply_replan diamond_state swap_c_for_e = (s', None) \<and> d_levels s' = [[''a''], [''b''], [''d'', ''e'']] \<and>
    d_issues s' = [(''name'', GStr ''done'')] # rem \<and> distinct (map issue_name rem)"
proof -
  define s' where "s' = fst (apply_replan diamond_state swap_c_for_e)"
  have "snd (apply_replan diamond_state swap_c_for_e) = None" by code_simp
  then have ok: "apply_replan diamond_state swap_c_for_e = (s', None)" by (simp add: s'_def prod_eq_iff)
  have "d_levels s' = [[''a''], [''b''], [''d'', ''e'']]" unfolding s'_def by code_simp
  moreover have "filter (\<lambda>issue. settled diamond_state (issue_name issue)) (d_issues diamond_state) = [[(''name'', GStr ''done'')]]"
    by code_simp
  moreover have "p_action swap_c_for_e \<noteq> replan_abort" "p_action swap_c_for_e \<noteq> replan_continue"
    by (simp_all add: swap_c_for_e_def)
  ultimately show ?thesis using apply_replan_accepts [OF ok] ok by auto
qed

theorem apply_replan_rejects_witness:
  "fst (apply_replan diamond_state (swap_c_for_e\<lparr>p_skipped := [''x''],
     p_updated := [[(''name'', GStr ''a''), (''depends_on'', GStr ''d'')]]\<rparr>)) = diamond_state\<lparr>d_skipped := [''x'']\<rparr>"
proof -
  let ?p = "swap_c_for_e\<lparr>p_skipped := [''x''], p_updated := [[(''name'', GStr ''a''), (''depends_on'', GStr ''d'')]]\<rparr>"
  have "snd (apply_replan diamond_state ?p) \<noteq> None" by code_simp
  moreover have "add_all_unique (d_skipped diamond_state) (p_skipped ?p) = [''x'']" by code_simp
  ultimately show ?thesis using apply_replan_rejects [of diamond_state ?p] by (auto split: option.splits)
qed

end
