(* ===== verification/GitFast.thy ===== *)
theory GitFast
  imports Memory Codec Config
begin

text \<open>
  The deterministic git paths of \<open>internal/dag/gitfast.go\<close> (\<open>runGitCmd\<close> to \<open>combineMergeResults\<close>).
  \<open>git\<close> itself and the file system under the worktrees are parameters: running a command may
  change the whole world and gives its output, its error output and, when it fails, an exit code
  and error text. An error of a fast path (\<open>gitFastPathError\<close>) is \<open>Inl\<close> of its message. The pauses
  between attempts are not modelled.
\<close>

record 'x git_env =
  g_exec :: "string \<Rightarrow> string list \<Rightarrow> 'x world \<Rightarrow> (string \<times> string \<times> (int \<times> string) option) \<times> 'x world"
  g_exists :: "'x world \<Rightarrow> string \<Rightarrow> bool"
  g_mkdir :: "string \<Rightarrow> 'x world \<Rightarrow> string option \<times> 'x world"
  g_remove :: "string \<Rightarrow> 'x world \<Rightarrow> 'x world"

section \<open>\<open>runGitCmd\<close> and names\<close>

definition run_git_cmd :: "'x git_env \<Rightarrow> string \<Rightarrow> string list \<Rightarrow> 'x world \<Rightarrow> (string \<times> string \<times> int) \<times> 'x world" where
  "run_git_cmd g repo args w =
     (let ((stdout, stderr, err), w') = g_exec g repo args w;
          out = trim_space stdout; d1 = trim_space stderr;
          d2 = (if d1 = [] then out else d1);
          detail = (if d2 = [] then (case err of None \<Rightarrow> [] | Some (c, text) \<Rightarrow> text) else d2);
          code = (case err of None \<Rightarrow> 0 | Some (c, text) \<Rightarrow> c)
      in ((out, detail, code), w'))"

definition git_identity_args :: "'x git_env \<Rightarrow> string \<Rightarrow> 'x world \<Rightarrow> string list \<times> 'x world" where
  "git_identity_args g repo w =
     (let ((out, detail, code), w') = run_git_cmd g repo [''config'', ''user.email''] w
      in (if code = 0 \<and> out \<noteq> [] then [] else [''-c'', ''user.name=SWE-AF'', ''-c'', ''user.email=swe-af@agentfield.local''], w'))"

definition fast_branch_core :: "gmap \<Rightarrow> string \<Rightarrow> string" where
  "fast_branch_core issue build_id =
     (let core = pad2 (as_int (mget issue ''sequence_number'')) @ ''-'' @ get_str issue ''name'' ''issue''
      in if build_id \<noteq> [] then build_id @ ''-'' @ core else core)"

section \<open>\<open>fastSetupWorktrees\<close>\<close>

text \<open>\<open>for attempt := 1; attempt <= 3\<close>: whether the worktree stands, and the last detail.\<close>

fun add_worktree :: "'x git_env \<Rightarrow> string \<Rightarrow> string \<Rightarrow> string \<Rightarrow> string \<Rightarrow> nat \<Rightarrow> string \<Rightarrow> 'x world \<Rightarrow> (bool \<times> string) \<times> 'x world" where
  "add_worktree g repo branch path integration 0 detail w = ((False, detail), w)"
| "add_worktree g repo branch path integration (Suc n) detail w =
     (let ((o1, d1, c1), w1) = run_git_cmd g repo [''worktree'', ''add'', ''-b'', branch, path, integration] w
      in if c1 = 0 then ((True, detail), w1)
         else let ((o2, d2, c2), w2) = run_git_cmd g repo [''rev-parse'', ''--verify'', branch] w1
              in if c2 = 0 \<and> g_exists g w2 path then ((True, detail), w2)
                 else if c2 = 0
                 then (let ((o3, d3, c3), w3) = run_git_cmd g repo [''worktree'', ''add'', path, branch] w2
                       in if c3 = 0 then ((True, detail), w3) else add_worktree g repo branch path integration n d1 w3)
                 else add_worktree g repo branch path integration n d1 w2)"

definition workspace_entry :: "gmap \<Rightarrow> string \<Rightarrow> string \<Rightarrow> gmap" where
  "workspace_entry issue branch path =
     [(''issue_name'', GStr (get_str issue ''name'' [])), (''branch_name'', GStr branch), (''worktree_path'', GStr path)]"

definition fast_branch :: "gmap \<Rightarrow> string \<Rightarrow> string" where
  "fast_branch issue build_id = ''issue/'' @ fast_branch_core issue build_id"

definition fast_worktree :: "string \<Rightarrow> gmap \<Rightarrow> string \<Rightarrow> string" where
  "fast_worktree dir issue build_id = path_join [dir, ''issue-'' @ fast_branch_core issue build_id]"

fun setup_each :: "'x git_env \<Rightarrow> string \<Rightarrow> string \<Rightarrow> string \<Rightarrow> string \<Rightarrow> gmap list \<Rightarrow> gmap list \<Rightarrow> 'x world
    \<Rightarrow> (string + gmap list) \<times> 'x world" where
  "setup_each g repo integration dir build_id [] acc w = (Inr acc, w)"
| "setup_each g repo integration dir build_id (issue # issues) acc w =
     (let branch = fast_branch issue build_id; path = fast_worktree dir issue build_id;
          ((created, detail), w1) = add_worktree g repo branch path integration 3 [] w
      in if \<not> created then (Inl (''worktree add failed for '' @ branch @ '': '' @ detail), w1)
         else setup_each g repo integration dir build_id issues (acc @ [workspace_entry issue branch path]) w1)"

definition fast_setup_worktrees :: "'x git_env \<Rightarrow> string \<Rightarrow> string \<Rightarrow> gmap list \<Rightarrow> string \<Rightarrow> string \<Rightarrow> 'x world
    \<Rightarrow> (string + gmap) \<times> 'x world" where
  "fast_setup_worktrees g repo integration issues dir build_id w =
     (if integration = [] then (Inl (''no integration branch '' @ em_dash @ '' cannot create worktrees''), w)
      else case g_mkdir g dir w of
        (Some err, w1) \<Rightarrow> (Inl (''mkdir worktrees dir failed: '' @ err), w1)
      | (None, w1) \<Rightarrow> (case setup_each g repo integration dir build_id issues [] w1 of
            (Inl e, w2) \<Rightarrow> (Inl e, w2)
          | (Inr ws, w2) \<Rightarrow> (Inr [(''success'', GBool True), (''workspaces'', GList (map GMap ws))], w2)))"

section \<open>\<open>fastMergeBranches\<close>\<close>

fun merge_each :: "'x git_env \<Rightarrow> string \<Rightarrow> string list \<Rightarrow> int \<Rightarrow> string list \<Rightarrow> string list \<times> string list \<Rightarrow> 'x world
    \<Rightarrow> (string list \<times> string list) \<times> 'x world" where
  "merge_each g repo identity level [] acc w = (acc, w)"
| "merge_each g repo identity level (b # bs) (merged, failed) w =
     (let ((out, detail, code), w1) = run_git_cmd g repo
            (identity @ [''merge'', ''--no-ff'', b, ''-m'', ''merge(level-'' @ show_int level @ ''): '' @ b]) w
      in if code = 0 then merge_each g repo identity level bs (merged @ [b], failed) w1
         else merge_each g repo identity level bs (merged, failed @ [b])
                (snd (run_git_cmd g repo [''merge'', ''--abort''] w1)))"

definition merge_summary :: "string list \<Rightarrow> string list \<Rightarrow> nat \<Rightarrow> string" where
  "merge_summary merged failed n =
     ''Fast-path merged '' @ show_nat (length merged) @ ''/'' @ show_nat n @ '' branch(es)'' @
     (if failed \<noteq> [] then ''; conflicts need the merger agent: '' @ py_list_repr failed else [])"

definition fast_merge_result :: "string list \<Rightarrow> string list \<Rightarrow> nat \<Rightarrow> string \<Rightarrow> string \<Rightarrow> gmap" where
  "fast_merge_result merged failed n merge_sha pre_sha =
     [(''success'', GBool (failed = [])), (''merged_branches'', GStrs merged), (''failed_branches'', GStrs failed),
      (''conflict_resolutions'', GList []), (''merge_commit_sha'', GStr merge_sha), (''pre_merge_sha'', GStr pre_sha),
      (''needs_integration_test'', GBool (1 < length merged)),
      (''integration_test_rationale'', GStr
        (if 1 < length merged then ''multiple branches merged this level; they have not run together''
         else ''single branch merged; per-issue tests already covered it'')),
      (''summary'', GStr (merge_summary merged failed n))]"

definition fast_merge_branches :: "'x git_env \<Rightarrow> string \<Rightarrow> string \<Rightarrow> string list \<Rightarrow> int \<Rightarrow> 'x world \<Rightarrow> (string + gmap) \<times> 'x world" where
  "fast_merge_branches g repo integration branches level w =
     (let ((o1, d1, c1), w1) = run_git_cmd g repo [''checkout'', integration] w
      in if c1 \<noteq> 0 then (Inl (''checkout '' @ integration @ '' failed: '' @ d1), w1)
         else let ((pre, d2, c2), w2) = run_git_cmd g repo [''rev-parse'', ''HEAD''] w1;
                  (identity, w3) = git_identity_args g repo w2;
                  ((merged, failed), w4) = merge_each g repo identity level branches ([], []) w3;
                  ((sha, d5, c5), w5) = run_git_cmd g repo [''rev-parse'', ''HEAD''] w4
              in (Inr (fast_merge_result merged failed (length branches) sha pre), w5))"

section \<open>\<open>fastCleanupWorktrees\<close>\<close>

definition dashed :: "string \<Rightarrow> string" where
  "dashed s = map (\<lambda>c. if c = CHR ''/'' then CHR ''-'' else c) s"

fun cleanup_each :: "'x git_env \<Rightarrow> string \<Rightarrow> string \<Rightarrow> string list \<Rightarrow> 'x world \<Rightarrow> 'x world" where
  "cleanup_each g repo dir [] w = w"
| "cleanup_each g repo dir (b # bs) w =
     (let path = path_join [dir, dashed b];
          ((o1, d1, c1), w1) = run_git_cmd g repo [''worktree'', ''remove'', ''--force'', path] w;
          w2 = (if c1 \<noteq> 0 \<and> g_exists g w1 path then g_remove g path w1 else w1);
          w3 = snd (run_git_cmd g repo [''branch'', ''-D'', b] w2)
      in cleanup_each g repo dir bs w3)"

definition fast_cleanup_worktrees :: "'x git_env \<Rightarrow> string \<Rightarrow> string \<Rightarrow> string list \<Rightarrow> 'x world \<Rightarrow> (string + gmap) \<times> 'x world" where
  "fast_cleanup_worktrees g repo dir branches w =
     (let ((o1, d1, c1), w1) = run_git_cmd g repo [''rev-parse'', ''--git-dir''] w
      in if c1 \<noteq> 0 then (Inl (''not a git repository: '' @ repo), w1)
         else let w2 = cleanup_each g repo dir branches w1
              in (Inr [(''success'', GBool True), (''cleaned'', GStrs branches)],
                  snd (run_git_cmd g repo [''worktree'', ''prune''] w2)))"

section \<open>\<open>combineMergeResults\<close>\<close>

definition combine_merge_results :: "gmap \<Rightarrow> gmap \<Rightarrow> gmap" where
  "combine_merge_results fast agent =
     (let merged = add_all_unique (strs_of (mget fast ''merged_branches'')) (strs_of (mget agent ''merged_branches''));
          failed = filter (\<lambda>b. b \<notin> set merged) (strs_of (mget agent ''failed_branches''));
          sha = get_str agent ''merge_commit_sha'' [];
          res = mget agent ''conflict_resolutions''
      in [(''success'', GBool (failed = [])), (''merged_branches'', GStrs merged), (''failed_branches'', GStrs failed),
          (''conflict_resolutions'', if res = GNil then GList [] else res),
          (''merge_commit_sha'', GStr (if sha = [] then get_str fast ''merge_commit_sha'' [] else sha)),
          (''pre_merge_sha'', GStr (get_str fast ''pre_merge_sha'' [])), (''needs_integration_test'', GBool True),
          (''integration_test_rationale'', GStr ''merger agent resolved conflicts this level''),
          (''summary'', GStr (get_str fast ''summary'' [] @ '' | merger agent: '' @ get_str agent ''summary'' []))])"

section \<open>What the fast paths promise\<close>

lemma merge_each_split:
  "merge_each g repo identity level bs (m, f) w = ((m', f'), w') \<Longrightarrow>
   \<exists>ms fs. m' = m @ ms \<and> f' = f @ fs \<and> length ms + length fs = length bs \<and>
     (\<forall>b. count_list ms b + count_list fs b = count_list bs b)"
proof (induction bs arbitrary: m f w)
  case (Cons b bs)
  obtain out detail code w1 where r: "run_git_cmd g repo
      (identity @ [''merge'', ''--no-ff'', b, ''-m'', ''merge(level-'' @ show_int level @ ''): '' @ b]) w = ((out, detail, code), w1)"
    by (metis prod_cases3 surj_pair)
  define ok where "ok = (code = 0)"
  define w2 where "w2 = (if ok then w1 else snd (run_git_cmd g repo [''merge'', ''--abort''] w1))"
  have "merge_each g repo identity level bs (if ok then m @ [b] else m, if ok then f else f @ [b]) w2 = ((m', f'), w')"
    using Cons.prems r by (auto simp: ok_def w2_def split: if_splits)
  from Cons.IH [OF this] obtain ms fs where "m' = (if ok then m @ [b] else m) @ ms" "f' = (if ok then f else f @ [b]) @ fs"
    "length ms + length fs = length bs" "\<forall>b. count_list ms b + count_list fs b = count_list bs b" by blast
  then show ?case
    by (intro exI [of _ "if ok then b # ms else ms"] exI [of _ "if ok then fs else b # fs"]) auto
qed simp

text \<open>
  A deterministic merge that returns a result accounts for every branch: each is either merged
  or failed, as often as it was given; success is claimed exactly when none failed, and an
  integration test is asked for exactly when more than one was merged.
\<close>

theorem fast_merge_accounts:
  assumes "fast_merge_branches g repo integration branches level w = (Inr res, w')"
  shows "\<exists>merged failed. strs_of (mget res ''merged_branches'') = merged \<and> strs_of (mget res ''failed_branches'') = failed \<and>
    (\<forall>b. count_list merged b + count_list failed b = count_list branches b) \<and>
    as_bool (mget res ''success'') = (failed = []) \<and>
    as_bool (mget res ''needs_integration_test'') = (1 < length merged)"
proof -
  from assms obtain merged failed sha pre identity w3 w4 where
    "merge_each g repo identity level branches ([], []) w3 = ((merged, failed), w4)"
    and res: "res = fast_merge_result merged failed (length branches) sha pre"
    by (auto simp: fast_merge_branches_def Let_def split: prod.splits if_splits)
  from merge_each_split [OF this(1)] have "\<forall>b. count_list merged b + count_list failed b = count_list branches b" by auto
  then show ?thesis by (simp add: res fast_merge_result_def mget_def lookup_def_def as_bool_def)
qed

text \<open>
  The combined result of a merge with conflicts claims success exactly when every branch the
  merger agent names as failed is also among the merged ones. A conflicted branch the agent names
  in neither list is in neither list of the combined result: with an agent that reports nothing
  at all (its own failure included) the level's merge is recorded as a success.
\<close>

theorem combined_merge_success:
  "(as_bool (mget (combine_merge_results fast agent) ''success'') \<longleftrightarrow>
      set (strs_of (mget agent ''failed_branches'')) \<subseteq> set (strs_of (mget (combine_merge_results fast agent) ''merged_branches''))) \<and>
   set (strs_of (mget (combine_merge_results fast agent) ''merged_branches'')) =
      set (strs_of (mget fast ''merged_branches'')) \<union> set (strs_of (mget agent ''merged_branches'')) \<and>
   set (strs_of (mget (combine_merge_results fast agent) ''failed_branches'')) =
      set (strs_of (mget agent ''failed_branches'')) -
      (set (strs_of (mget fast ''merged_branches'')) \<union> set (strs_of (mget agent ''merged_branches''))) \<and>
   as_bool (mget (combine_merge_results (fast_merge_result [] [''a'', ''b''] 2 [] []) [(''success'', GBool False)]) ''success'')"
  by (auto simp: combine_merge_results_def Let_def mget_def lookup_def_def as_bool_def filter_empty_conv)

section \<open>Names of branches and worktrees\<close>

definition code_of :: "char \<Rightarrow> nat" where
  "code_of c = of_char c"

definition read_nat :: "string \<Rightarrow> nat" where
  "read_nat s = foldl (\<lambda>n c. n * 10 + (code_of c - 48)) 0 s"

lemma code_of_digit: "d < 10 \<Longrightarrow> code_of (char_of (48 + d)) = 48 + d"
  by (simp add: code_of_def)

lemma read_show_nat: "read_nat (show_nat n) = n"
proof (induction n rule: show_nat.induct)
  case (1 n)
  show ?case
  proof (cases "n < 10")
    case True
    then show ?thesis by (subst show_nat.simps) (simp add: read_nat_def code_of_digit)
  next
    case False
    with 1 have ih: "foldl (\<lambda>n c. n * 10 + (code_of c - 48)) 0 (show_nat (n div 10)) = n div 10"
      by (simp add: read_nat_def)
    from False show ?thesis
      by (subst show_nat.simps) (simp add: read_nat_def ih code_of_digit)
  qed
qed

lemma show_nat_digits: "\<forall>c \<in> set (show_nat n). 48 \<le> code_of c"
proof (induction n rule: show_nat.induct)
  case (1 n)
  then show ?case by (subst show_nat.simps) (auto simp: code_of_digit)
qed

lemma dash_code: "code_of CHR ''-'' = 45"
  by (simp add: code_of_def)

lemma pad2_no_dash: "0 \<le> a \<Longrightarrow> CHR ''-'' \<notin> set (pad2 a)"
proof
  assume "0 \<le> a" "CHR ''-'' \<in> set (pad2 a)"
  then have "CHR ''-'' \<in> set (show_nat (nat a))" by (auto simp: pad2_def show_int_def split: if_splits)
  with show_nat_digits [of "nat a"] have "48 \<le> code_of CHR ''-''" by blast
  then show False by (simp add: dash_code)
qed

lemma read_pad2: "0 \<le> a \<Longrightarrow> read_nat (pad2 a) = nat a"
  using read_show_nat [of "nat a"] by (auto simp: pad2_def show_int_def read_nat_def code_of_def)

text \<open>
  Within a build two issues share a branch or worktree only if they have the same name and the
  same sequence number, so parallel issues are isolated from each other. The directory the
  cleanup derives from a branch is the one the setup made, provided no part of the branch holds a
  slash.
\<close>

theorem branches_isolate_issues:
  assumes "mget i1 ''name'' = GStr n1" and "mget i2 ''name'' = GStr n2"
    and "0 \<le> as_int (mget i1 ''sequence_number'')" and "0 \<le> as_int (mget i2 ''sequence_number'')"
  shows "(fast_branch i1 build_id = fast_branch i2 build_id \<longleftrightarrow>
      n1 = n2 \<and> as_int (mget i1 ''sequence_number'') = as_int (mget i2 ''sequence_number'')) \<and>
    (CHR ''/'' \<notin> set (fast_branch_core i1 build_id) \<longrightarrow>
      path_join [dir, dashed (fast_branch i1 build_id)] = fast_worktree dir i1 build_id)"
proof
  let ?a = "as_int (mget i1 ''sequence_number'')" and ?b = "as_int (mget i2 ''sequence_number'')"
  have names: "get_str i1 ''name'' ''issue'' = n1" "get_str i2 ''name'' ''issue'' = n2"
    using assms(1,2) by (auto simp: get_str_def mget_def lookup_def_def split: option.splits)
  have "n1 = n2 \<and> ?a = ?b" if eq: "pad2 ?a @ CHR ''-'' # n1 = pad2 ?b @ CHR ''-'' # n2"
  proof -
    have "takeWhile (\<lambda>c. c \<noteq> CHR ''-'') (pad2 a @ CHR ''-'' # n) = pad2 a" if "0 \<le> a" for a n
      using pad2_no_dash [OF that] by (subst takeWhile_append2) auto
    with eq assms(3,4) have "pad2 ?a = pad2 ?b" by metis
    with eq read_pad2 [OF assms(3)] read_pad2 [OF assms(4)] assms(3,4) show ?thesis by simp
  qed
  then show "fast_branch i1 build_id = fast_branch i2 build_id \<longleftrightarrow> n1 = n2 \<and> ?a = ?b"
    by (auto simp: fast_branch_def fast_branch_core_def names Let_def)
  have "dashed s = s" if "CHR ''/'' \<notin> set s" for s
    using that by (auto simp: dashed_def intro!: map_idI)
  then show "CHR ''/'' \<notin> set (fast_branch_core i1 build_id) \<longrightarrow>
      path_join [dir, dashed (fast_branch i1 build_id)] = fast_worktree dir i1 build_id"
    by (auto simp: fast_worktree_def fast_branch_def dashed_def)
qed

section \<open>Witnesses\<close>

text \<open>A repository in which everything works but merging \<open>issue/02-b\<close>.\<close>

definition demo_git :: "unit git_env" where
  "demo_git = \<lparr>g_exec = \<lambda>repo args w. (([], [], if ''issue/02-b'' \<in> set args then Some (1, ''exit status 1'') else None), w),
     g_exists = \<lambda>w p. False, g_mkdir = \<lambda>p w. (None, w), g_remove = \<lambda>p w. w\<rparr>"

definition still_world :: "unit world" where
  "still_world = \<lparr>files = \<lambda>p. None, memory = \<lambda>k. GNil, ctx_err = None, outside = ()\<rparr>"

theorem fast_merge_accounts_witness:
  "\<exists>res w'. fast_merge_branches demo_git ''/r'' ''int'' [''issue/01-a'', ''issue/02-b''] 0 still_world = (Inr res, w') \<and>
    (\<exists>merged failed. strs_of (mget res ''failed_branches'') = failed \<and>
       (\<forall>b. count_list merged b + count_list failed b = count_list [''issue/01-a'', ''issue/02-b''] b) \<and> failed = [''issue/02-b''])"
proof -
  let ?run = "fast_merge_branches demo_git ''/r'' ''int'' [''issue/01-a'', ''issue/02-b''] 0 still_world"
  have "case fst ?run of Inr res \<Rightarrow> strs_of (mget res ''failed_branches'') = [''issue/02-b''] | Inl e \<Rightarrow> False" by code_simp
  then obtain res w' where r: "?run = (Inr res, w')" "strs_of (mget res ''failed_branches'') = [''issue/02-b'']"
    by (cases ?run) (auto split: sum.splits)
  from fast_merge_accounts [OF r(1)] r show ?thesis by metis
qed

theorem branches_isolate_issues_witness:
  "fast_branch [(''name'', GStr ''a''), (''sequence_number'', GInt 1)] ''b7'' \<noteq>
   fast_branch [(''name'', GStr ''a''), (''sequence_number'', GInt 2)] ''b7''"
  using branches_isolate_issues [of "[(''name'', GStr ''a''), (''sequence_number'', GInt 1)]" "''a''"
      "[(''name'', GStr ''a''), (''sequence_number'', GInt 2)]" "''a''" "''b7''"]
  by (simp add: mget_def lookup_def_def as_int_def)

end
