(* ===== verification/IssueRun.thy ===== *)
theory IssueRun
  imports CodingLoop Replan GitFast
begin

text \<open>
  The middle loop and the gate helpers of \<open>internal/dag/gates.go\<close>: one issue with the issue
  advisor, the external coder path, a level of issues, and what the replan gate uses. The issues
  of a level run concurrently in the code; they meet only through calls and the shared memory,
  and a call may change the whole world, so the model runs them one after the other. Go's
  iteration over a set of names (\<open>skipDownstream\<close>) has no fixed order; the model uses the order of
  the search, and only the elements matter to what is shown.
\<close>

section \<open>What a run of the engine is given\<close>

type_synonym 'x execute_fn = "gmap \<Rightarrow> dag_state \<Rightarrow> 'x world \<Rightarrow> (go_error + gmap option) \<times> 'x world"

record 'x engine =
  e_env :: "'x env"
  e_git :: "'x git_env"
  e_call :: "'x call option"
  e_execute :: "'x execute_fn option"
  e_node :: string
  e_cfg :: exec_config
  e_learn :: bool

section \<open>\<open>runExecuteFn\<close>\<close>

definition executed_result :: "string \<Rightarrow> int \<Rightarrow> gmap option \<Rightarrow> issue_result" where
  "executed_result name attempt res = (case res of
     Some m \<Rightarrow> zero_result\<lparr>r_name := name, r_outcome := get_str m ''outcome'' ''completed'',
       r_summary := get_str m ''result_summary'' [], r_error := get_str m ''error_message'' [],
       r_context := get_str m ''error_context'' [], r_attempts := attempt,
       r_files := strs_of (mget m ''files_changed''), r_branch := get_str m ''branch_name'' []\<rparr>
   | None \<Rightarrow> zero_result\<lparr>r_name := name, r_outcome := out_completed, r_attempts := attempt\<rparr>)"

definition retry_advisor_args :: "'x engine \<Rightarrow> dag_state \<Rightarrow> gmap \<Rightarrow> string \<Rightarrow> int \<Rightarrow> gmap" where
  "retry_advisor_args eng s issue err attempt =
     [(''issue'', GMap issue), (''error_message'', GStr err), (''error_context'', GStr err), (''attempt_number'', GInt attempt),
      (''repo_path'', GStr (d_repo_path s)), (''prd_summary'', GStr (d_prd_summary s)),
      (''architecture_summary'', GStr (d_architecture_summary s)), (''prd_path'', GStr (d_prd_path s)),
      (''architecture_path'', GStr (d_architecture_path s)), (''artifacts_dir'', GStr (d_artifacts_dir s)),
      (''model'', GStr (model_for (e_cfg eng) ''retry_advisor_model'')), (''ai_provider'', GStr (ai_provider (e_cfg eng))),
      (''workspace_manifest'', manifest_arg s)]"

definition with_retry_context :: "gmap \<Rightarrow> gmap \<Rightarrow> string \<Rightarrow> gmap" where
  "with_retry_context issue advice err =
     mset (mset (mset issue ''retry_context'' (GStr (get_str advice ''modified_context'' [])))
        ''previous_error'' (GStr err)) ''retry_diagnosis'' (GStr (get_str advice ''diagnosis'' []))"

text \<open>\<open>for attempt := 1; attempt < MaxRetriesPerIssue+2\<close>, with the attempts left.\<close>

fun execute_attempts :: "'x engine \<Rightarrow> 'x execute_fn \<Rightarrow> dag_state \<Rightarrow> string \<Rightarrow> gmap \<Rightarrow> nat \<Rightarrow> int \<Rightarrow> gmap \<Rightarrow> string \<Rightarrow> 'x world
    \<Rightarrow> (go_error + issue_result) \<times> 'x world" where
  "execute_attempts eng exec s name issue 0 attempt cur err w =
     (Inr (zero_result\<lparr>r_name := name, r_outcome := out_failed_unrecoverable, r_error := err, r_context := err,
        r_attempts := c_max_retries (e_cfg eng) + 1\<rparr>), w)"
| "execute_attempts eng exec s name issue (Suc n) attempt cur err w =
     (case exec cur s w of
        (Inr res, w1) \<Rightarrow> (Inr (executed_result name attempt res), w1)
      | (Inl e, w1) \<Rightarrow>
          if propagates e then (Inl e, w1)
          else if attempt \<le> c_max_retries (e_cfg eng) \<and> e_call eng \<noteq> None
          then (case the (e_call eng) (e_node eng @ ''.run_retry_advisor'') (retry_advisor_args eng s cur (err_text e) attempt) w1 of
                  (Inl ae, w2) \<Rightarrow> if propagates ae then (Inl ae, w2)
                    else execute_attempts eng exec s name issue n (attempt + 1) cur (err_text e) w2
                | (Inr advice, w2) \<Rightarrow>
                    if \<not> as_bool (mget advice ''should_retry'')
                    then (Inr (zero_result\<lparr>r_name := name, r_outcome := out_failed_unrecoverable, r_error := err_text e,
                       r_context := err_text e, r_attempts := c_max_retries (e_cfg eng) + 1\<rparr>), w2)
                    else execute_attempts eng exec s name issue n (attempt + 1)
                           (with_retry_context issue advice (err_text e)) (err_text e) w2)
          else execute_attempts eng exec s name issue n (attempt + 1) cur (err_text e) w1)"

definition run_execute_fn :: "'x engine \<Rightarrow> 'x execute_fn \<Rightarrow> dag_state \<Rightarrow> string \<Rightarrow> gmap \<Rightarrow> 'x world
    \<Rightarrow> (go_error + issue_result) \<times> 'x world" where
  "run_execute_fn eng exec s name issue w =
     execute_attempts eng exec s name issue (nat (c_max_retries (e_cfg eng) + 1)) 1 issue [] w"

section \<open>\<open>executeSingleIssue\<close>: the issue advisor\<close>

record advisor_state =
  w_issue :: gmap
  w_adaptations :: "adaptation list"
  w_debt :: "gmap list"

datatype round_end = Finished "go_error + issue_result" | Gave_up issue_result | Again issue_result advisor_state

definition max_advisor :: "exec_config \<Rightarrow> int" where
  "max_advisor cfg = (if c_enable_advisor cfg then c_max_advisor cfg else 0)"

text \<open>The coding loop, or the external coder when one is set.\<close>

definition attempt_issue :: "'x engine \<Rightarrow> dag_state \<Rightarrow> string \<Rightarrow> gmap \<Rightarrow> 'x world \<Rightarrow> (go_error + issue_result) \<times> 'x world" where
  "attempt_issue eng s name issue w = (case e_execute eng of
     Some exec \<Rightarrow> run_execute_fn eng exec s name issue w
   | None \<Rightarrow> (case e_call eng of
       Some call \<Rightarrow> run_coding_loop \<lparr>x_env = e_env eng, x_call = call, x_node = e_node eng, x_cfg = e_cfg eng,
           x_learn = e_learn eng, x_issue = issue, x_state = s\<rparr> w
     | None \<Rightarrow> (Inl (Plain (''No execute_fn or call_fn '' @ em_dash @ '' cannot execute issue'')), w)))"

definition state_summary :: "dag_state \<Rightarrow> gmap" where
  "state_summary s =
     [(''completed_issues'', GMaps (map dump_result (d_completed s))), (''failed_issues'', GMaps (map dump_result (d_failed s))),
      (''prd_summary'', GStr (d_prd_summary s)), (''architecture_summary'', GStr (d_architecture_summary s)),
      (''prd_path'', GStr (d_prd_path s)), (''architecture_path'', GStr (d_architecture_path s)),
      (''issues_dir'', GStr (d_issues_dir s)), (''artifacts_dir'', GStr (d_artifacts_dir s)), (''repo_path'', GStr (d_repo_path s))]"

definition advisor_args :: "'x engine \<Rightarrow> dag_state \<Rightarrow> gmap \<Rightarrow> int \<Rightarrow> advisor_state \<Rightarrow> issue_result \<Rightarrow> gmap" where
  "advisor_args eng s original k st res =
     [(''issue'', GMap (w_issue st)), (''original_issue'', GMap original), (''failure_result'', GMap (dump_result res)),
      (''iteration_history'', GMaps (r_history res)), (''dag_state_summary'', GMap (state_summary s)),
      (''advisor_invocation'', GInt (k + 1)), (''max_advisor_invocations'', GInt (max_advisor (e_cfg eng))),
      (''previous_adaptations'', GMaps (map dump_adaptation (w_adaptations st))),
      (''worktree_path'', GStr (get_str (w_issue st) ''worktree_path'' (d_repo_path s))),
      (''model'', GStr (model_for (e_cfg eng) ''issue_advisor_model'')), (''ai_provider'', GStr (ai_provider (e_cfg eng))),
      (''workspace_manifest'', manifest_arg s)]"

definition base_adaptation :: "string \<Rightarrow> gmap \<Rightarrow> adaptation" where
  "base_adaptation typ d = zero_adaptation\<lparr>a_type := typ, a_diagnosis := get_str d ''failure_diagnosis'' [],
     a_rationale := get_str d ''rationale'' [], a_downstream := get_str d ''downstream_impact'' [], a_severity := ''medium''\<rparr>"

definition retry_modified :: "string \<Rightarrow> gmap \<Rightarrow> advisor_state \<Rightarrow> advisor_state" where
  "retry_modified name d st =
     (let cur = mget (w_issue st) ''acceptance_criteria''; dropped = strs_of (mget d ''dropped_criteria'');
          modified = as_string_slice (mget d ''modified_acceptance_criteria'')
      in \<lparr>w_issue = mset (w_issue st) ''acceptance_criteria'' (GStrs (case modified of Some ac \<Rightarrow> ac | None \<Rightarrow> strs_of cur)),
          w_adaptations = w_adaptations st @ [(base_adaptation advisor_retry_modified d)
            \<lparr>a_original := strs_of cur, a_modified := strs_of (mget d ''modified_acceptance_criteria''), a_dropped := dropped\<rparr>],
          w_debt = w_debt st @ map (\<lambda>c. [(''type'', GStr ''dropped_acceptance_criterion''), (''criterion'', GStr c),
             (''issue_name'', GStr name), (''justification'', GStr (get_str d ''modification_justification'' [])),
             (''severity'', GStr ''medium'')]) dropped\<rparr>)"

definition retry_approach :: "gmap \<Rightarrow> issue_result \<Rightarrow> advisor_state \<Rightarrow> advisor_state" where
  "retry_approach d res st =
     \<lparr>w_issue = mset (mset (mset (mset (w_issue st) ''retry_context'' (GStr (get_str d ''new_approach'' [])))
          ''approach_changes'' (mget d ''approach_changes'')) ''previous_error'' (GStr (r_error res)))
          ''retry_diagnosis'' (GStr (get_str d ''failure_diagnosis'' [])),
      w_adaptations = w_adaptations st @ [(base_adaptation advisor_retry_approach d)\<lparr>a_new_approach := get_str d ''new_approach'' []\<rparr>],
      w_debt = w_debt st\<rparr>"

definition accept_with_debt :: "string \<Rightarrow> int \<Rightarrow> gmap \<Rightarrow> issue_result \<Rightarrow> advisor_state \<Rightarrow> issue_result" where
  "accept_with_debt name k d res st =
     (let missing = strs_of (mget d ''missing_functionality''); severity = get_str d ''debt_severity'' ''medium''
      in zero_result\<lparr>r_name := name, r_outcome := out_completed_with_debt, r_summary := get_str d ''summary'' (r_summary res),
          r_files := r_files res, r_branch := r_branch res, r_attempts := r_attempts res, r_invocations := k + 1,
          r_adaptations := w_adaptations st @ [(base_adaptation advisor_accept_with_debt d)
             \<lparr>a_missing := missing, a_severity := severity\<rparr>],
          r_debt := w_debt st @ map (\<lambda>m. [(''type'', GStr ''missing_functionality''), (''description'', GStr m),
             (''issue_name'', GStr name), (''severity'', GStr severity)]) missing,
          r_final := strs_of (mget (w_issue st) ''acceptance_criteria''), r_history := r_history res\<rparr>)"

definition split_issue :: "string \<Rightarrow> int \<Rightarrow> gmap \<Rightarrow> issue_result \<Rightarrow> advisor_state \<Rightarrow> issue_result" where
  "split_issue name k d res st =
     (let subs = map (\<lambda>m. fst (map_to_split_spec m)) (maps_of (mget d ''sub_issues''))
      in zero_result\<lparr>r_name := name, r_outcome := out_failed_needs_split, r_summary := get_str d ''split_rationale'' [],
          r_error := ''Issue advisor recommended splitting into '' @ show_nat (length subs) @ '' sub-issues'',
          r_files := r_files res, r_branch := r_branch res, r_attempts := r_attempts res, r_invocations := k + 1,
          r_adaptations := w_adaptations st, r_debt := w_debt st, r_split := Some subs, r_history := r_history res\<rparr>)"

definition escalate_issue :: "string \<Rightarrow> int \<Rightarrow> gmap \<Rightarrow> issue_result \<Rightarrow> advisor_state \<Rightarrow> issue_result" where
  "escalate_issue name k d res st =
     zero_result\<lparr>r_name := name, r_outcome := out_failed_escalated, r_summary := get_str d ''summary'' [],
       r_error := get_str d ''escalation_reason'' (r_error res), r_context := r_context res,
       r_files := r_files res, r_branch := r_branch res, r_attempts := r_attempts res, r_invocations := k + 1,
       r_adaptations := w_adaptations st, r_debt := w_debt st,
       r_escalation := get_str d ''suggested_restructuring'' [], r_history := r_history res\<rparr>"

text \<open>The switch on the advisor's action; an action it does not know re-enters the loop.\<close>

definition follow_advice :: "string \<Rightarrow> int \<Rightarrow> gmap \<Rightarrow> issue_result \<Rightarrow> advisor_state \<Rightarrow> round_end" where
  "follow_advice name k d res st =
     (let action = get_str d ''action'' ''accept_with_debt''
      in if action = advisor_retry_modified then Again res (retry_modified name d st)
         else if action = advisor_retry_approach then Again res (retry_approach d res st)
         else if action = advisor_accept_with_debt then Finished (Inr (accept_with_debt name k d res st))
         else if action = advisor_split then Finished (Inr (split_issue name k d res st))
         else if action = advisor_escalate then Finished (Inr (escalate_issue name k d res st))
         else Again res st)"

definition is_success :: "issue_result \<Rightarrow> bool" where
  "is_success r \<longleftrightarrow> r_outcome r = out_completed \<or> r_outcome r = out_completed_with_debt"

definition advisor_round :: "'x engine \<Rightarrow> dag_state \<Rightarrow> gmap \<Rightarrow> int \<Rightarrow> advisor_state \<Rightarrow> 'x world \<Rightarrow> round_end \<times> 'x world" where
  "advisor_round eng s original k st w =
     (let name = issue_name original
      in case attempt_issue eng s name (w_issue st) w of
           (Inl e, w1) \<Rightarrow> (Finished (Inl e), w1)
         | (Inr res, w1) \<Rightarrow>
             if is_success res
             then (Finished (Inr (res\<lparr>r_adaptations := w_adaptations st, r_debt := w_debt st,
                     r_final := strs_of (mget (w_issue st) ''acceptance_criteria'')\<rparr>)), w1)
             else (case e_call eng of
                 None \<Rightarrow> (Gave_up res, w1)
               | Some call \<Rightarrow>
                   if k \<ge> max_advisor (e_cfg eng) then (Gave_up res, w1)
                   else (case call_with_timeout (e_env eng) (c_timeout (e_cfg eng))
                             (''issue_advisor:'' @ name @ '':'' @ show_int (k + 1))
                             (call (e_node eng @ ''.run_issue_advisor'') (advisor_args eng s original k st res)) w1 of
                           (Inl e, w2) \<Rightarrow> if propagates e then (Finished (Inl e), w2) else (Gave_up res, w2)
                         | (Inr d, w2) \<Rightarrow> (follow_advice name k d res st, w2))))"

definition give_up :: "exec_config \<Rightarrow> int \<Rightarrow> issue_result \<Rightarrow> advisor_state \<Rightarrow> issue_result" where
  "give_up cfg k res st =
     res\<lparr>r_invocations := (if k + 1 > max_advisor cfg then max_advisor cfg else k + 1),
       r_adaptations := w_adaptations st, r_debt := w_debt st\<rparr>"

text \<open>
  \<open>for advisorRound = 0; advisorRound <= maxAdvisor\<close>, with the rounds left and the last result.
\<close>

fun advisor_rounds :: "'x engine \<Rightarrow> dag_state \<Rightarrow> gmap \<Rightarrow> nat \<Rightarrow> int \<Rightarrow> advisor_state \<Rightarrow> issue_result option \<Rightarrow> 'x world
    \<Rightarrow> (go_error + issue_result) \<times> 'x world" where
  "advisor_rounds eng s original 0 k st prev w = (case prev of
     Some res \<Rightarrow> (Inr (give_up (e_cfg eng) k res st), w)
   | None \<Rightarrow> (Inr (zero_result\<lparr>r_name := issue_name original, r_outcome := out_failed_unrecoverable,
                 r_error := ''No execution attempted'', r_attempts := 1\<rparr>), w))"
| "advisor_rounds eng s original (Suc n) k st prev w = (case advisor_round eng s original k st w of
     (Finished r, w') \<Rightarrow> (r, w')
   | (Gave_up res, w') \<Rightarrow> (Inr (give_up (e_cfg eng) k res st), w')
   | (Again res st', w') \<Rightarrow> advisor_rounds eng s original n (k + 1) st' (Some res) w')"

definition execute_single_issue :: "'x engine \<Rightarrow> dag_state \<Rightarrow> gmap \<Rightarrow> 'x world \<Rightarrow> (go_error + issue_result) \<times> 'x world" where
  "execute_single_issue eng s issue w =
     advisor_rounds eng s issue (nat (max_advisor (e_cfg eng) + 1)) 0
       \<lparr>w_issue = issue, w_adaptations = [], w_debt = []\<rparr> None w"

section \<open>\<open>executeLevel\<close>\<close>

fun run_issues :: "'x engine \<Rightarrow> dag_state \<Rightarrow> gmap list \<Rightarrow> 'x world \<Rightarrow> (gmap \<times> (go_error + issue_result)) list \<times> 'x world" where
  "run_issues eng s [] w = ([], w)"
| "run_issues eng s (issue # issues) w =
     (let (r, w1) = execute_single_issue eng s issue w; (rs, w2) = run_issues eng s issues w1
      in ((issue, r) # rs, w2))"

text \<open>The barrier's classification: an error is a failure, a missing repository name is the issue's target.\<close>

definition settle :: "gmap \<times> (go_error + issue_result) \<Rightarrow> issue_result" where
  "settle oc = (case oc of
     (issue, Inl e) \<Rightarrow> zero_result\<lparr>r_name := issue_name issue, r_outcome := out_failed_unrecoverable,
        r_error := err_text e, r_context := err_text e, r_attempts := 1\<rparr>
   | (issue, Inr r) \<Rightarrow> if r_repo r = [] then r\<lparr>r_repo := get_str issue ''target_repo'' []\<rparr> else r)"

definition file_result :: "level_result \<Rightarrow> issue_result \<Rightarrow> level_result" where
  "file_result l r =
     (if is_success r then l\<lparr>l_completed := l_completed l @ [r]\<rparr>
      else if r_outcome r = out_skipped then l\<lparr>l_skipped := l_skipped l @ [r]\<rparr>
      else l\<lparr>l_failed := l_failed l @ [r]\<rparr>)"

definition execute_level :: "'x engine \<Rightarrow> dag_state \<Rightarrow> gmap list \<Rightarrow> int \<Rightarrow> 'x world \<Rightarrow> level_result \<times> 'x world" where
  "execute_level eng s active level w =
     (let (ocs, w') = run_issues eng s active w
      in (foldl file_result \<lparr>l_index = level, l_completed = [], l_failed = [], l_skipped = []\<rparr> (map settle ocs), w'))"

section \<open>What the replan gate uses\<close>

fun skip_downstream :: "dag_state \<Rightarrow> issue_result list \<Rightarrow> dag_state" where
  "skip_downstream s [] = s"
| "skip_downstream s (f # fs) =
     skip_downstream (s\<lparr>d_skipped := add_all_unique (d_skipped s) (find_downstream (r_name f) (d_issues s))\<rparr>) fs"

definition failure_note :: "issue_result \<Rightarrow> gmap \<Rightarrow> string" where
  "failure_note f issue =
     ''WARNING: Upstream issue '' @ [CHR 0x27] @ r_name f @ [CHR 0x27] @ '' failed. Error: '' @ r_error f @
     ''. It was supposed to provide: '' @ py_list_repr (strs_of (mget issue ''depends_on'')) @
     ''. You may need to implement workarounds or stubs for missing functionality.''"

definition add_failure_note :: "issue_result \<Rightarrow> string list \<Rightarrow> gmap \<Rightarrow> gmap" where
  "add_failure_note f downstream issue =
     (if issue_name issue \<in> set downstream
      then mset issue ''failure_notes'' (GList (as_any_slice (mget issue ''failure_notes'') @ [GStr (failure_note f issue)]))
      else issue)"

fun enrich_downstream :: "dag_state \<Rightarrow> issue_result list \<Rightarrow> dag_state" where
  "enrich_downstream s [] = s"
| "enrich_downstream s (f # fs) =
     enrich_downstream
       (s\<lparr>d_issues := map (add_failure_note f (find_downstream (r_name f) (d_issues s))) (d_issues s)\<rparr>) fs"

definition escalation_notes :: "issue_result list \<Rightarrow> gmap list" where
  "escalation_notes fs =
     map (\<lambda>f. [(''issue_name'', GStr (r_name f)), (''escalation_context'', GStr (r_escalation f)),
        (''adaptations'', GMaps (map dump_adaptation (r_adaptations f)))]) (filter (\<lambda>f. r_escalation f \<noteq> []) fs)"

text \<open>\<open>invokeReplannerViaCall\<close>: a call error or a decision that does not decode is an error.\<close>

definition decode_error :: go_error where
  "decode_error = Plain ''json: cannot unmarshal''"

definition invoke_replanner_via_call :: "'x engine \<Rightarrow> 'x call \<Rightarrow> dag_state \<Rightarrow> issue_result list \<Rightarrow> 'x world
    \<Rightarrow> (go_error + replan_decision) \<times> 'x world" where
  "invoke_replanner_via_call eng call s unrecoverable w =
     (case call (e_node eng @ ''.run_replanner'')
        [(''dag_state'', GMap (dump_state s)), (''failed_issues'', GMaps (map dump_result unrecoverable)),
         (''replan_model'', GStr (model_for (e_cfg eng) ''replan_model'')), (''ai_provider'', GStr (ai_provider (e_cfg eng))),
         (''escalation_notes'', GMaps (escalation_notes unrecoverable))] w of
        (Inl e, w') \<Rightarrow> (Inl e, w')
      | (Inr d, w') \<Rightarrow> (case map_to_decision d of (p, ok) \<Rightarrow> if ok then (Inr p, w') else (Inl decode_error, w')))"

text \<open>\<open>invokeReplannerDirect\<close> (\<open>replanner_compat.go\<close>), reached only without a \<open>CallFn\<close>.\<close>

definition invoke_replanner_direct :: replan_decision where
  "invoke_replanner_direct = zero_decision\<lparr>p_action := replan_abort,
     p_rationale := ''Replanner agent failed to produce a valid decision. Aborting.'',
     p_summary := ''Replanner failure '' @ em_dash @ '' automatic abort.''\<rparr>"

text \<open>
  \<open>writeIssueFilesForReplan\<close>. The numbers are stored into the decision's own dictionaries, so the
  decision is returned changed; what the writers reply is only counted in a note.
\<close>

fun number_unnumbered :: "gmap list \<Rightarrow> int \<Rightarrow> gmap list \<times> int" where
  "number_unnumbered [] n = ([], n)"
| "number_unnumbered (issue # issues) n =
     (let unnumbered = (as_int (mget issue ''sequence_number'') = 0);
          n1 = (if unnumbered then n + 1 else n);
          (rest, n2) = number_unnumbered issues n1
      in ((if unnumbered then mset issue ''sequence_number'' (GInt n1) else issue) # rest, n2))"

definition material :: "gmap \<Rightarrow> bool" where
  "material u \<longleftrightarrow> get_str u ''description'' [] \<noteq> []"

text \<open>The material updates are numbered in their places.\<close>

fun number_material :: "gmap list \<Rightarrow> int \<Rightarrow> gmap list" where
  "number_material [] n = []"
| "number_material (u # us) n =
     (if material u \<and> as_int (mget u ''sequence_number'') = 0
      then mset u ''sequence_number'' (GInt (n + 1)) # number_material us (n + 1)
      else u # number_material us n)"

definition number_decision :: "dag_state \<Rightarrow> replan_decision \<Rightarrow> replan_decision" where
  "number_decision s p =
     (let (new, n) = number_unnumbered (p_new p) (max_sequence (d_issues s) 0)
      in p\<lparr>p_new := new, p_updated := number_material (p_updated p) n\<rparr>)"

definition writer_args :: "'x engine \<Rightarrow> dag_state \<Rightarrow> gmap \<Rightarrow> gmap" where
  "writer_args eng s issue =
     [(''issue'', GMap issue), (''prd_summary'', GStr (d_prd_summary s)), (''architecture_summary'', GStr (d_architecture_summary s)),
      (''issues_dir'', GStr (d_issues_dir s)), (''repo_path'', GStr (d_repo_path s)),
      (''model'', GStr (model_for (e_cfg eng) ''issue_writer_model'')), (''ai_provider'', GStr (ai_provider (e_cfg eng)))]"

fun call_writers :: "'x engine \<Rightarrow> 'x call \<Rightarrow> dag_state \<Rightarrow> gmap list \<Rightarrow> 'x world \<Rightarrow> 'x world" where
  "call_writers eng call s [] w = w"
| "call_writers eng call s (issue # issues) w =
     call_writers eng call s issues (snd (call (e_node eng @ ''.run_issue_writer'') (writer_args eng s issue) w))"

definition write_issue_files :: "'x engine \<Rightarrow> 'x call \<Rightarrow> dag_state \<Rightarrow> replan_decision \<Rightarrow> 'x world \<Rightarrow> replan_decision \<times> 'x world" where
  "write_issue_files eng call s p w =
     (let p' = number_decision s p; todo = p_new p' @ filter material (p_updated p')
      in if todo = [] then (p, w) else (p', call_writers eng call s todo w))"

end
