(* ===== verification/Worktree.thy ===== *)
theory Worktree
  imports IssueRun
begin

text \<open>
  The git gates of \<open>internal/dag/worktree.go\<close> and the dispatchers of \<open>gitfast.go\<close>: worktree setup,
  merging a level, integration tests, cleanup, and the initialisation of a multi-repository
  workspace. Operations that fail return \<open>Inl\<close>; those that change the DAG state return it. Repositories the code
  serves concurrently are served in order, as calls may change the whole world.
\<close>

section \<open>The workspace manifest\<close>

record ws_repo =
  y_name :: string
  y_url :: string
  y_role :: string
  y_path :: string
  y_branch :: string
  y_sparse :: "string list"
  y_create_pr :: bool
  y_git :: "gmap option"

record manifest =
  m_root :: string
  m_repos :: "ws_repo list"
  m_primary :: string

definition j_ws_repo :: jtype where
  "j_ws_repo = JObj
     [fld ''repo_name'' JString, fld ''repo_url'' JString, fld ''role'' JString, fld ''absolute_path'' JString,
      fld ''branch'' JString, fld ''sparse_paths'' (JList JString), (''create_pr'', JBool, GBool True), fld ''git_init_result'' JDict]"

definition j_manifest :: jtype where
  "j_manifest = JObj [fld ''workspace_root'' JString, fld ''repos'' (JList j_ws_repo), fld ''primary_repo_name'' JString]"

definition ws_repo_of :: "gmap \<Rightarrow> ws_repo" where
  "ws_repo_of m = \<lparr>y_name = as_string (mget m ''repo_name''), y_url = as_string (mget m ''repo_url''),
     y_role = as_string (mget m ''role''), y_path = as_string (mget m ''absolute_path''), y_branch = as_string (mget m ''branch''),
     y_sparse = strs_of (mget m ''sparse_paths''), y_create_pr = as_bool (mget m ''create_pr''),
     y_git = (case mget m ''git_init_result'' of GMap g \<Rightarrow> Some g | _ \<Rightarrow> None)\<rparr>"

definition ws_repo_json :: "ws_repo \<Rightarrow> gmap" where
  "ws_repo_json r =
     [(''repo_name'', GStr (y_name r)), (''repo_url'', GStr (y_url r)), (''role'', GStr (y_role r)),
      (''absolute_path'', GStr (y_path r)), (''branch'', GStr (y_branch r)), (''sparse_paths'', strs (y_sparse r)),
      (''create_pr'', GBool (y_create_pr r)), (''git_init_result'', case y_git r of None \<Rightarrow> GNil | Some g \<Rightarrow> GMap g)]"

definition manifest_of :: "gmap \<Rightarrow> manifest" where
  "manifest_of m = \<lparr>m_root = as_string (mget m ''workspace_root''), m_repos = obj_list ws_repo_of (mget m ''repos''),
     m_primary = as_string (mget m ''primary_repo_name'')\<rparr>"

definition manifest_json :: "manifest \<Rightarrow> gmap" where
  "manifest_json m =
     [(''workspace_root'', GStr (m_root m)), (''repos'', objs ws_repo_json (m_repos m)), (''primary_repo_name'', GStr (m_primary m))]"

definition manifest_from_map :: "gmap \<Rightarrow> manifest option" where
  "manifest_from_map m = (case map_to_struct j_manifest m of (v, ok) \<Rightarrow> if ok then Some (manifest_of v) else None)"

definition find_repo :: "manifest \<Rightarrow> string \<Rightarrow> ws_repo option" where
  "find_repo m name = find (\<lambda>r. y_name r = name) (m_repos m)"

text \<open>The group of a key, kept in the order the keys are first met.\<close>

fun group_by :: "('a \<Rightarrow> string) \<Rightarrow> 'a list \<Rightarrow> (string \<times> 'a list) list \<Rightarrow> (string \<times> 'a list) list" where
  "group_by f [] m = m"
| "group_by f (x # xs) m = group_by f xs (AList.update (f x) (lookup_def [] m (f x) @ [x]) m)"

section \<open>Worktree setup\<close>

definition dispatch_workspace_setup :: "'x engine \<Rightarrow> 'x call \<Rightarrow> string \<Rightarrow> string \<Rightarrow> gmap list \<Rightarrow> string \<Rightarrow> string \<Rightarrow> int \<Rightarrow> string
    \<Rightarrow> 'x world \<Rightarrow> (go_error + gmap) \<times> 'x world" where
  "dispatch_workspace_setup eng call repo integration issues dir artifacts level build_id w =
     (let ask = call (e_node eng @ ''.run_workspace_setup'')
            [(''repo_path'', GStr repo), (''integration_branch'', GStr integration), (''issues'', GMaps issues),
             (''worktrees_dir'', GStr dir), (''artifacts_dir'', GStr artifacts), (''level'', GInt level),
             (''model'', GStr (model_for (e_cfg eng) ''git_model'')), (''ai_provider'', GStr (ai_provider (e_cfg eng))),
             (''build_id'', GStr build_id)]
      in if c_deterministic_git (e_cfg eng)
         then (case fast_setup_worktrees (e_git eng) repo integration issues dir build_id w of
                 (Inr setup, w1) \<Rightarrow> (Inr setup, w1)
               | (Inl e, w1) \<Rightarrow> ask w1)
         else ask w)"

definition digit :: "char \<Rightarrow> bool" where
  "digit c \<longleftrightarrow> c \<in> set ''0123456789''"

text \<open>\<open>seqPrefixRE\<close>: two digits and a dash at the start.\<close>

definition strip_seq_prefix :: "string \<Rightarrow> string" where
  "strip_seq_prefix s = (case s of
     a # b # c # rest \<Rightarrow> if digit a \<and> digit b \<and> c = CHR ''-'' then rest else s | _ \<Rightarrow> s)"

fun worktree_map :: "gmap list \<Rightarrow> (string \<times> gmap) list \<Rightarrow> (string \<times> gmap) list" where
  "worktree_map [] m = m"
| "worktree_map (ws # wss) m =
     (let raw = as_string (mget ws ''issue_name''); stripped = strip_seq_prefix raw;
          m1 = AList.update raw ws m
      in worktree_map wss (if stripped \<noteq> raw then AList.update stripped ws m1 else m1))"

definition enrich_issue :: "(string \<times> gmap) list \<Rightarrow> string \<Rightarrow> gmap \<Rightarrow> gmap" where
  "enrich_issue m integration issue = (case map_of m (issue_name issue) of
     None \<Rightarrow> issue
   | Some ws \<Rightarrow> mset (mset (mset issue ''worktree_path'' (mget ws ''worktree_path''))
       ''branch_name'' (mget ws ''branch_name'')) ''integration_branch'' (GStr integration))"

definition enrich_issues_from_setup :: "gmap list \<Rightarrow> gmap \<Rightarrow> string \<Rightarrow> gmap list" where
  "enrich_issues_from_setup issues setup integration =
     map (enrich_issue (worktree_map (maps_of (mget setup ''workspaces'')) []) integration) issues"

fun setup_repos :: "'x engine \<Rightarrow> 'x call \<Rightarrow> dag_state \<Rightarrow> manifest \<Rightarrow> string \<Rightarrow> (string \<times> gmap list) list \<Rightarrow> gmap list \<Rightarrow> 'x world
    \<Rightarrow> (go_error + gmap list) \<times> 'x world" where
  "setup_repos eng call s man build_id [] acc w = (Inr acc, w)"
| "setup_repos eng call s man build_id ((repo, issues) # groups) acc w = (case find_repo man repo of
     None \<Rightarrow> setup_repos eng call s man build_id groups (acc @ issues) w
   | Some r \<Rightarrow>
       let integration = get_str (case y_git r of None \<Rightarrow> [] | Some g \<Rightarrow> g) ''integration_branch'' []
       in if integration = [] then setup_repos eng call s man build_id groups (acc @ issues) w
          else (case dispatch_workspace_setup eng call (y_path r) integration issues
                      (path_join [y_path r, ''.worktrees'']) (d_artifacts_dir s) (d_level s) build_id w of
                  (Inl e, w1) \<Rightarrow> (Inl e, w1)
                | (Inr setup, w1) \<Rightarrow>
                    setup_repos eng call s man build_id groups
                      (acc @ (if as_bool (mget setup ''success'') then enrich_issues_from_setup issues setup integration else issues)) w1))"

definition setup_worktrees :: "'x engine \<Rightarrow> 'x call \<Rightarrow> dag_state \<Rightarrow> gmap list \<Rightarrow> string \<Rightarrow> 'x world
    \<Rightarrow> (go_error + gmap list) \<times> 'x world" where
  "setup_worktrees eng call s active build_id w = (case d_manifest s of
     None \<Rightarrow> (case dispatch_workspace_setup eng call (d_repo_path s) (d_integration_branch s) active (d_worktrees_dir s)
                  (d_artifacts_dir s) (d_level s) build_id w of
         (Inl e, w1) \<Rightarrow> (Inl e, w1)
       | (Inr setup, w1) \<Rightarrow>
           (Inr (if as_bool (mget setup ''success'') then enrich_issues_from_setup active setup (d_integration_branch s) else active), w1))
   | Some m \<Rightarrow> (case manifest_from_map m of
         None \<Rightarrow> (Inl decode_error, w)
       | Some man \<Rightarrow>
           let repo_of = (\<lambda>issue. let r = get_str issue ''target_repo'' [] in if r = [] then m_primary man else r)
           in setup_repos eng call s man build_id (group_by repo_of active []) [] w))"

section \<open>Merging a level\<close>

definition branch_entry :: "(string \<times> gmap) list \<Rightarrow> issue_result \<Rightarrow> gmap" where
  "branch_entry by_name r =
     [(''branch_name'', GStr (r_branch r)), (''issue_name'', GStr (r_name r)), (''result_summary'', GStr (r_summary r)),
      (''files_changed'', GStrs (r_files r)),
      (''issue_description'', GStr (get_str (lookup_def [] by_name (r_name r)) ''description'' []))]"

definition merge_args :: "'x engine \<Rightarrow> dag_state \<Rightarrow> string \<Rightarrow> string \<Rightarrow> gmap list \<Rightarrow> gmap list \<Rightarrow> int \<Rightarrow> gmap" where
  "merge_args eng s repo integration branches conflicts level =
     [(''repo_path'', GStr repo), (''integration_branch'', GStr integration), (''branches_to_merge'', GMaps branches),
      (''file_conflicts'', GMaps conflicts), (''prd_summary'', GStr (d_prd_summary s)),
      (''architecture_summary'', GStr (d_architecture_summary s)), (''artifacts_dir'', GStr (d_artifacts_dir s)),
      (''level'', GInt level), (''model'', GStr (model_for (e_cfg eng) ''merger_model'')),
      (''ai_provider'', GStr (ai_provider (e_cfg eng)))]"

text \<open>The agent merges everything, with one retry when it reports failed branches.\<close>

definition agent_merge :: "'x engine \<Rightarrow> 'x call \<Rightarrow> gmap \<Rightarrow> 'x world \<Rightarrow> (go_error + gmap) \<times> 'x world" where
  "agent_merge eng call kwargs w = (case call (e_node eng @ ''.run_merger'') kwargs w of
     (Inl e, w1) \<Rightarrow> (Inl e, w1)
   | (Inr res, w1) \<Rightarrow>
       if \<not> as_bool (mget res ''success'') \<and> strs_of (mget res ''failed_branches'') \<noteq> []
       then call (e_node eng @ ''.run_merger'') kwargs w1 else (Inr res, w1))"

definition dispatch_merge :: "'x engine \<Rightarrow> 'x call \<Rightarrow> string \<Rightarrow> string \<Rightarrow> gmap list \<Rightarrow> gmap \<Rightarrow> int \<Rightarrow> 'x world
    \<Rightarrow> (go_error + gmap) \<times> 'x world" where
  "dispatch_merge eng call repo integration branches kwargs level w =
     (if c_deterministic_git (e_cfg eng)
      then (case fast_merge_branches (e_git eng) repo integration (map (\<lambda>b. as_string (mget b ''branch_name'')) branches) level w of
              (Inl e, w1) \<Rightarrow> agent_merge eng call kwargs w1
            | (Inr fast, w1) \<Rightarrow>
                let failed = strs_of (mget fast ''failed_branches'')
                in if failed = [] then (Inr fast, w1)
                   else let conflicted = filter (\<lambda>b. get_str b ''branch_name'' [] \<in> set failed) branches
                        in (case call (e_node eng @ ''.run_merger'') (mset (mset_all [] kwargs) ''branches_to_merge'' (GMaps conflicted)) w1 of
                              (Inl e, w2) \<Rightarrow> (Inl e, w2)
                            | (Inr agent, w2) \<Rightarrow> (Inr (combine_merge_results fast agent), w2)))
      else agent_merge eng call kwargs w)"

text \<open>How a merge result is recorded in the state.\<close>

definition record_merge :: "gmap \<Rightarrow> gmap \<Rightarrow> dag_state \<Rightarrow> dag_state" where
  "record_merge entry res s =
     s\<lparr>d_merge_results := d_merge_results s @ [entry],
       d_merged := add_all_unique (d_merged s) (strs_of (mget res ''merged_branches'')),
       d_unmerged := add_all_unique (d_unmerged s) (strs_of (mget res ''failed_branches''))\<rparr>"

definition nothing_merged :: gmap where
  "nothing_merged = [(''success'', GBool False), (''merged_branches'', GList []), (''failed_branches'', GList [])]"

definition call_merger_for_repo :: "'x engine \<Rightarrow> 'x call \<Rightarrow> dag_state \<Rightarrow> manifest \<Rightarrow> string \<Rightarrow> issue_result list \<Rightarrow> (string \<times> gmap) list
    \<Rightarrow> gmap list \<Rightarrow> int \<Rightarrow> 'x world \<Rightarrow> (go_error + gmap) \<times> 'x world" where
  "call_merger_for_repo eng call s man repo results by_name conflicts level w =
     (case find_repo man repo of
        None \<Rightarrow> (Inr nothing_merged, w)
      | Some r \<Rightarrow> (case y_git r of
          None \<Rightarrow> (Inr nothing_merged, w)
        | Some g \<Rightarrow>
            let integration = get_str g ''integration_branch'' []; branches = map (branch_entry by_name) results
            in if integration = [] then (Inr nothing_merged, w)
               else dispatch_merge eng call (y_path r) integration branches
                      (merge_args eng s (y_path r) integration branches conflicts level) level w))"

fun merge_repos :: "'x engine \<Rightarrow> 'x call \<Rightarrow> dag_state \<Rightarrow> manifest \<Rightarrow> (string \<times> issue_result list) list \<Rightarrow> (string \<times> gmap) list
    \<Rightarrow> gmap list \<Rightarrow> int \<Rightarrow> 'x world \<Rightarrow> (string \<times> (go_error + gmap)) list \<times> 'x world" where
  "merge_repos eng call s man [] by_name conflicts level w = ([], w)"
| "merge_repos eng call s man ((repo, rs) # groups) by_name conflicts level w =
     (let (r, w1) = call_merger_for_repo eng call s man repo rs by_name conflicts level w;
          (outs, w2) = merge_repos eng call s man groups by_name conflicts level w1
      in ((repo, r) # outs, w2))"

fun record_merges :: "(string \<times> (go_error + gmap)) list \<Rightarrow> gmap option \<Rightarrow> dag_state \<Rightarrow> gmap option \<times> dag_state" where
  "record_merges [] good s = (good, s)"
| "record_merges ((repo, Inl e) # outs) good s = record_merges outs good s"
| "record_merges ((repo, Inr res) # outs) good s =
     record_merges outs (if as_bool (mget res ''success'') then Some res else good)
       (record_merge (mset res ''repo_name'' (GStr repo)) res s)"

definition merge_level_branches :: "'x engine \<Rightarrow> 'x call \<Rightarrow> dag_state \<Rightarrow> level_result \<Rightarrow> (string \<times> gmap) list \<Rightarrow> gmap list \<Rightarrow> 'x world
    \<Rightarrow> (go_error + gmap option) \<times> dag_state \<times> 'x world" where
  "merge_level_branches eng call s l by_name conflicts w =
     (let done = filter (\<lambda>r. r_branch r \<noteq> []) (l_completed l)
      in case d_manifest s of
        None \<Rightarrow>
          let branches = map (branch_entry by_name) done
          in if branches = [] then (Inr None, s, w)
             else (case dispatch_merge eng call (d_repo_path s) (d_integration_branch s) branches
                         (merge_args eng s (d_repo_path s) (d_integration_branch s) branches conflicts (l_index l)) (l_index l) w of
                     (Inl e, w1) \<Rightarrow> (Inl e, s, w1)
                   | (Inr res, w1) \<Rightarrow> (Inr (Some res), record_merge res res s, w1))
      | Some m \<Rightarrow> (case manifest_from_map m of
          None \<Rightarrow> (Inl decode_error, s, w)
        | Some man \<Rightarrow>
            let groups = group_by (\<lambda>r. if r_repo r = [] then m_primary man else r_repo r) done []
            in if groups = [] then (Inr None, s, w)
               else let (outs, w1) = merge_repos eng call s man groups by_name conflicts (l_index l) w;
                        (good, s') = record_merges outs None s
                    in (Inr good, s', w1)))"

section \<open>Integration tests\<close>

definition tested_branches :: "gmap \<Rightarrow> level_result \<Rightarrow> issue_result list" where
  "tested_branches merge l =
     filter (\<lambda>r. r_branch r \<noteq> [] \<and> r_branch r \<in> set (strs_of (mget merge ''merged_branches''))) (l_completed l)"

definition tested_entry :: "issue_result \<Rightarrow> gmap" where
  "tested_entry r =
     [(''branch_name'', GStr (r_branch r)), (''issue_name'', GStr (r_name r)), (''result_summary'', GStr (r_summary r)),
      (''files_changed'', GStrs (r_files r)), (''repo_name'', GStr (r_repo r))]"

text \<open>With a manifest and merges in a single repository, its path if it has one.\<close>

definition test_repo_path :: "dag_state \<Rightarrow> issue_result list \<Rightarrow> string" where
  "test_repo_path s rs = (case d_manifest s of
     None \<Rightarrow> d_repo_path s
   | Some m \<Rightarrow> (case add_all_unique [] (filter (\<lambda>n. n \<noteq> []) (map r_repo rs)) of
       [repo] \<Rightarrow> (case manifest_from_map m of
           None \<Rightarrow> d_repo_path s
         | Some man \<Rightarrow> (case find_repo man repo of
             Some r \<Rightarrow> if y_path r \<noteq> [] then y_path r else d_repo_path s | None \<Rightarrow> d_repo_path s))
     | _ \<Rightarrow> d_repo_path s))"

fun test_attempts :: "('x world \<Rightarrow> (go_error + gmap) \<times> 'x world) \<Rightarrow> nat \<Rightarrow> gmap option \<Rightarrow> 'x world
    \<Rightarrow> (go_error + gmap option) \<times> 'x world" where
  "test_attempts ask 0 prev w = (Inr prev, w)"
| "test_attempts ask (Suc n) prev w = (case ask w of
     (Inl e, w1) \<Rightarrow> (Inl e, w1)
   | (Inr res, w1) \<Rightarrow> if as_bool (mget res ''passed'') then (Inr (Some res), w1) else test_attempts ask n (Some res) w1)"

definition run_integration_tests :: "'x engine \<Rightarrow> 'x call \<Rightarrow> dag_state \<Rightarrow> gmap \<Rightarrow> level_result \<Rightarrow> 'x world
    \<Rightarrow> (go_error + gmap option) \<times> dag_state \<times> 'x world" where
  "run_integration_tests eng call s merge l w =
     (if \<not> as_bool (mget merge ''needs_integration_test'') \<or> \<not> c_enable_testing (e_cfg eng) then (Inr None, s, w)
      else let rs = tested_branches merge l;
               ask = call (e_node eng @ ''.run_integration_tester'')
                 [(''repo_path'', GStr (test_repo_path s rs)), (''integration_branch'', GStr (d_integration_branch s)),
                  (''merged_branches'', GMaps (map tested_entry rs)), (''prd_summary'', GStr (d_prd_summary s)),
                  (''architecture_summary'', GStr (d_architecture_summary s)),
                  (''conflict_resolutions'', mget merge ''conflict_resolutions''), (''artifacts_dir'', GStr (d_artifacts_dir s)),
                  (''level'', GInt (l_index l)), (''model'', GStr (model_for (e_cfg eng) ''integration_tester_model'')),
                  (''ai_provider'', GStr (ai_provider (e_cfg eng))), (''workspace_manifest'', manifest_arg s)]
           in case test_attempts ask (nat (c_max_test_retries (e_cfg eng) + 1)) None w of
                (Inl e, w1) \<Rightarrow> (Inl e, s, w1)
              | (Inr None, w1) \<Rightarrow> (Inr None, s, w1)
              | (Inr (Some res), w1) \<Rightarrow> (Inr (Some res), s\<lparr>d_test_results := d_test_results s @ [res]\<rparr>, w1))"

section \<open>Cleanup\<close>

fun is_fatal :: "go_error \<Rightarrow> bool" where
  "is_fatal (Fatal s) = True"
| "is_fatal e = False"

fun cleanup_attempts :: "('x world \<Rightarrow> (go_error + gmap) \<times> 'x world) \<Rightarrow> nat \<Rightarrow> 'x world \<Rightarrow> go_error option \<times> 'x world" where
  "cleanup_attempts ask 0 w = (None, w)"
| "cleanup_attempts ask (Suc n) w = (case ask w of
     (Inl e, w1) \<Rightarrow> if is_fatal e then (Some e, w1) else cleanup_attempts ask n w1
   | (Inr res, w1) \<Rightarrow> if as_bool (mget res ''success'') then (None, w1) else cleanup_attempts ask n w1)"

definition cleanup_single_repo :: "'x engine \<Rightarrow> 'x call \<Rightarrow> string \<Rightarrow> string \<Rightarrow> string list \<Rightarrow> string \<Rightarrow> int \<Rightarrow> 'x world
    \<Rightarrow> go_error option \<times> 'x world" where
  "cleanup_single_repo eng call repo dir branches artifacts level w =
     (let ask = call (e_node eng @ ''.run_workspace_cleanup'')
            [(''repo_path'', GStr repo), (''worktrees_dir'', GStr dir), (''branches_to_clean'', GStrs branches),
             (''artifacts_dir'', GStr artifacts), (''level'', GInt level), (''model'', GStr (model_for (e_cfg eng) ''git_model'')),
             (''ai_provider'', GStr (ai_provider (e_cfg eng)))]
      in if c_deterministic_git (e_cfg eng)
         then (case fast_cleanup_worktrees (e_git eng) repo dir branches w of
                 (Inr res, w1) \<Rightarrow> (None, w1)
               | (Inl e, w1) \<Rightarrow> cleanup_attempts ask 2 w1)
         else cleanup_attempts ask 2 w)"

fun cleanup_repos :: "'x engine \<Rightarrow> 'x call \<Rightarrow> dag_state \<Rightarrow> manifest \<Rightarrow> (string \<times> issue_result list) list \<Rightarrow> int \<Rightarrow> 'x world
    \<Rightarrow> go_error option \<times> 'x world" where
  "cleanup_repos eng call s man [] level w = (None, w)"
| "cleanup_repos eng call s man ((repo, rs) # groups) level w = (case find_repo man repo of
     None \<Rightarrow> cleanup_repos eng call s man groups level w
   | Some r \<Rightarrow> (case cleanup_single_repo eng call (y_path r) (path_join [y_path r, ''.worktrees'']) (map r_branch rs)
                   (d_artifacts_dir s) level w of
         (Some e, w1) \<Rightarrow> (Some e, w1)
       | (None, w1) \<Rightarrow> cleanup_repos eng call s man groups level w1))"

definition cleanup_worktrees :: "'x engine \<Rightarrow> 'x call \<Rightarrow> dag_state \<Rightarrow> string list \<Rightarrow> int \<Rightarrow> issue_result list \<Rightarrow> 'x world
    \<Rightarrow> go_error option \<times> 'x world" where
  "cleanup_worktrees eng call s branches level completed w =
     (if branches = [] then (None, w)
      else case d_manifest s of
        Some m \<Rightarrow>
          if completed \<noteq> []
          then (case manifest_from_map m of
                  None \<Rightarrow> (Some decode_error, w)
                | Some man \<Rightarrow>
                    cleanup_repos eng call s man
                      (group_by (\<lambda>r. if r_repo r = [] then m_primary man else r_repo r)
                         (filter (\<lambda>r. r_branch r \<noteq> [] \<and> r_branch r \<in> set branches) completed) []) level w)
          else cleanup_single_repo eng call (d_repo_path s) (d_worktrees_dir s) branches (d_artifacts_dir s) level w
      | None \<Rightarrow> cleanup_single_repo eng call (d_repo_path s) (d_worktrees_dir s) branches (d_artifacts_dir s) level w)"

section \<open>\<open>initAllRepos\<close>\<close>

fun init_each :: "'x engine \<Rightarrow> 'x call \<Rightarrow> dag_state \<Rightarrow> string \<Rightarrow> ws_repo list \<Rightarrow> 'x world \<Rightarrow> (go_error + gmap) list \<times> 'x world" where
  "init_each eng call s build_id [] w = ([], w)"
| "init_each eng call s build_id (r # rs) w =
     (let (out, w1) = call (e_node eng @ ''.run_git_init'')
            [(''repo_path'', GStr (y_path r)), (''goal'', GStr []), (''artifacts_dir'', GStr (d_artifacts_dir s)),
             (''model'', GStr (model_for (e_cfg eng) ''git_model'')), (''permission_mode'', GStr []),
             (''ai_provider'', GStr (ai_provider (e_cfg eng))), (''build_id'', GStr build_id)] w;
          (outs, w2) = init_each eng call s build_id rs w1
      in (out # outs, w2))"

text \<open>A result goes to the first repository of that name.\<close>

fun set_git_init :: "string \<Rightarrow> gmap \<Rightarrow> ws_repo list \<Rightarrow> ws_repo list" where
  "set_git_init name res [] = []"
| "set_git_init name res (r # rs) = (if y_name r = name then r\<lparr>y_git := Some res\<rparr> # rs else r # set_git_init name res rs)"

fun set_git_inits :: "(string \<times> (go_error + gmap)) list \<Rightarrow> ws_repo list \<Rightarrow> ws_repo list" where
  "set_git_inits [] rs = rs"
| "set_git_inits ((name, Inl e) # outs) rs = set_git_inits outs rs"
| "set_git_inits ((name, Inr res) # outs) rs = set_git_inits outs (set_git_init name res rs)"

definition init_all_repos :: "'x engine \<Rightarrow> 'x call \<Rightarrow> dag_state \<Rightarrow> string \<Rightarrow> 'x world \<Rightarrow> (go_error + dag_state) \<times> 'x world" where
  "init_all_repos eng call s build_id w = (case d_manifest s of
     None \<Rightarrow> (Inr s, w)
   | Some m \<Rightarrow> (case manifest_from_map m of
       None \<Rightarrow> (Inl decode_error, w)
     | Some man \<Rightarrow>
         let (outs, w1) = init_each eng call s build_id (m_repos man) w;
             repos = set_git_inits (zip (map y_name (m_repos man)) outs) (m_repos man)
         in (Inr (s\<lparr>d_manifest := Some (json_map (manifest_json (man\<lparr>m_repos := repos\<rparr>)))\<rparr>), w1)))"

end
