(* ===== verification/DagRun.thy ===== *)
theory DagRun
  imports Worktree
begin

text \<open>
  The outer loop, \<open>RunDAG\<close> of \<open>internal/dag/executor.go\<close>, with the checkpoints of
  \<open>internal/dag/checkpoint.go\<close>. The loop's body is split at its gates; each gate returns the DAG
  state and the index \<open>issueByName\<close>, which the code rebuilds only at some of them. The background
  cleanup runs where it is started (a call may change the whole world, so nothing depends on how
  it interleaves), and its error is delivered where the code awaits it. The loop may run forever
  (agents can keep splitting issues), so it is a partial function into \<open>option\<close>.
\<close>

section \<open>Checkpoints\<close>

definition checkpoint_file :: "string \<Rightarrow> string" where
  "checkpoint_file artifacts_dir = path_join [artifacts_dir, ''execution'', ''checkpoint.json'']"

definition checkpoint_path :: "dag_state \<Rightarrow> string" where
  "checkpoint_path s = (if d_artifacts_dir s = [] then [] else checkpoint_file (d_artifacts_dir s))"

definition save_checkpoint :: "'x env \<Rightarrow> dag_state \<Rightarrow> 'x world \<Rightarrow> 'x world" where
  "save_checkpoint env s w =
     (let path = checkpoint_path s in if path = [] then w else write_json env path (dag_state_json s) w)"

definition load_checkpoint :: "string \<Rightarrow> 'x world \<Rightarrow> dag_state option" where
  "load_checkpoint artifacts_dir w = (case files w (checkpoint_file artifacts_dir) of
     None \<Rightarrow> None
   | Some m \<Rightarrow> (case decode j_dag_state (zero_of j_dag_state) (GMap m) of
       (v, ok) \<Rightarrow> if ok then Some (dag_state_of (as_map v)) else None))"

definition coerce_levels :: "gval \<Rightarrow> string list list" where
  "coerce_levels v = (case v of GList t \<Rightarrow> map strs_of t | _ \<Rightarrow> [])"

definition plan_prd_summary :: "gmap \<Rightarrow> string" where
  "plan_prd_summary prd =
     (let ac = strs_of (mget prd ''acceptance_criteria'')
      in join [CHR 0x0A]
           ([get_str prd ''validated_description'' []]
            @ (if ac \<noteq> [] then ([CHR 0x0A] @ ''Acceptance Criteria:'') # map (\<lambda>c. ''- '' @ c) ac else [])))"

definition init_dag_state :: "gmap \<Rightarrow> string \<Rightarrow> gmap option \<Rightarrow> string \<Rightarrow> dag_state" where
  "init_dag_state plan repo git build_id =
     (let artifacts = get_str plan ''artifacts_dir'' [];
          under = (\<lambda>parts. if artifacts = [] then [] else path_join (artifacts # parts));
          s = zero_state\<lparr>d_repo_path := repo, d_artifacts_dir := artifacts,
                d_prd_path := under [''plan'', ''prd.md''], d_architecture_path := under [''plan'', ''architecture.md''],
                d_issues_dir := under [''plan'', ''issues''], d_plan_summary := get_str plan ''rationale'' [],
                d_prd_summary := plan_prd_summary (as_map (mget plan ''prd'')),
                d_architecture_summary := get_str (as_map (mget plan ''architecture'')) ''summary'' [],
                d_issues := maps_of (mget plan ''issues''), d_levels := coerce_levels (mget plan ''levels''),
                d_build_id := build_id, d_max_replans := 2\<rparr>
      in case git of
           None \<Rightarrow> s
         | Some g \<Rightarrow> s\<lparr>d_integration_branch := get_str g ''integration_branch'' [], d_original_branch := get_str g ''original_branch'' [],
               d_initial_commit := get_str g ''initial_commit_sha'' [], d_git_mode := get_str g ''mode'' [],
               d_worktrees_dir := path_join [repo, ''.worktrees'']\<rparr>)"

section \<open>The options of a run\<close>

record 'x run_options =
  o_git :: "gmap option"
  o_resume :: bool
  o_build_id :: string
  o_manifest :: "gmap option"
  o_level_complete :: "int \<Rightarrow> 'x world \<Rightarrow> 'x world"

section \<open>The head of a level\<close>

type_synonym issue_index = "(string \<times> gmap) list"

definition done_names :: "dag_state \<Rightarrow> string list" where
  "done_names s = completed_names s @ failed_names s @ d_skipped s"

definition active_issues :: "dag_state \<Rightarrow> issue_index \<Rightarrow> string list \<Rightarrow> gmap list" where
  "active_issues s by_name names =
     concat (map (\<lambda>n. case map_of by_name n of
       None \<Rightarrow> [] | Some issue \<Rightarrow> if n \<in> set (done_names s) then [] else [issue]) names)"

text \<open>Worktree setup and what is kept of it in \<open>all_issues\<close>.\<close>

definition persist_enriched :: "gmap list \<Rightarrow> gmap list \<Rightarrow> gmap list" where
  "persist_enriched enriched issues =
     (let by = index_issues enriched []
      in map (\<lambda>issue. case map_of by (issue_name issue) of
           None \<Rightarrow> issue | Some e \<Rightarrow> if map_of e ''worktree_path'' \<noteq> None then e else issue) issues)"

definition reselect :: "gmap list \<Rightarrow> issue_index \<Rightarrow> gmap list" where
  "reselect active by_name = map (\<lambda>i. case map_of by_name (issue_name i) of Some stored \<Rightarrow> stored | None \<Rightarrow> i) active"

definition prepare_level :: "'x engine \<Rightarrow> dag_state \<Rightarrow> issue_index \<Rightarrow> gmap list \<Rightarrow> 'x world
    \<Rightarrow> (go_error + dag_state \<times> issue_index \<times> gmap list) \<times> 'x world" where
  "prepare_level eng s by_name active w = (case e_call eng of
     Some call \<Rightarrow>
       if d_integration_branch s = [] then (Inr (s, by_name, active), w)
       else (case setup_worktrees eng call s active (d_build_id s) w of
               (Inl e, w1) \<Rightarrow> (Inl e, w1)
             | (Inr enriched, w1) \<Rightarrow>
                 let issues = persist_enriched enriched (d_issues s); by' = index_issues issues []
                 in (Inr (s\<lparr>d_issues := issues\<rparr>, by', reselect enriched by'), w1))
   | None \<Rightarrow> (Inr (s, by_name, active), w))"

section \<open>Recording a level and the failure threshold\<close>

definition record_level :: "level_result \<Rightarrow> dag_state \<Rightarrow> dag_state" where
  "record_level l s =
     s\<lparr>d_completed := d_completed s @ l_completed l, d_failed := d_failed s @ l_failed l,
       d_skipped := add_all_unique (d_skipped s) (map r_name (l_skipped l))\<rparr>"

definition level_total :: "level_result \<Rightarrow> nat" where
  "level_total l = length (l_completed l) + length (l_failed l) + length (l_skipped l)"

definition too_many_failed :: "exec_config \<Rightarrow> level_result \<Rightarrow> bool" where
  "too_many_failed cfg l \<longleftrightarrow> 0 < level_total l \<and> 0 < c_threshold_num cfg \<and>
     c_threshold_num cfg * int (level_total l) \<le> c_threshold_den cfg * int (length (l_failed l)) \<and> 1 < length (l_failed l)"

definition skip_future :: "dag_state \<Rightarrow> dag_state" where
  "skip_future s =
     s\<lparr>d_skipped := add_all_unique (d_skipped s) (concat (drop (Suc (nat (d_level s))) (d_levels s))),
       d_level := int (length (d_levels s))\<rparr>"

section \<open>The merge gate\<close>

definition default_branch :: "string \<Rightarrow> gmap \<Rightarrow> string" where
  "default_branch build_id issue =
     (let seq = pad2 (as_int (mget issue ''sequence_number''))
      in if build_id \<noteq> [] then ''issue/'' @ build_id @ ''-'' @ seq @ ''-'' @ issue_name issue
         else ''issue/'' @ seq @ ''-'' @ issue_name issue)"

definition branch_to_clean :: "string \<Rightarrow> gmap \<Rightarrow> string" where
  "branch_to_clean build_id issue =
     (let bn = get_str issue ''branch_name'' [] in if bn \<noteq> [] then bn else default_branch build_id issue)"

text \<open>The result is the state and the error of the background cleanup, or the error of a merge or test.\<close>

definition merge_gate :: "'x engine \<Rightarrow> gmap list \<Rightarrow> gmap list \<Rightarrow> level_result \<Rightarrow> dag_state \<Rightarrow> issue_index \<Rightarrow> 'x world
    \<Rightarrow> (go_error + dag_state \<times> go_error option) \<times> 'x world" where
  "merge_gate eng conflicts active l s by_name w = (case e_call eng of
     None \<Rightarrow> (Inr (s, None), w)
   | Some call \<Rightarrow>
       if d_integration_branch s = [] then (Inr (s, None), w)
       else let finish = (\<lambda>s w. let (e, w') = cleanup_worktrees eng call s (map (branch_to_clean (d_build_id s)) active)
                                   (d_level s) (l_completed l) w in (Inr (s, e), w'))
            in case merge_level_branches eng call s l by_name conflicts w of
                 (Inl e, s1, w1) \<Rightarrow> (Inl e, w1)
               | (Inr None, s1, w1) \<Rightarrow> finish s1 w1
               | (Inr (Some merge), s1, w1) \<Rightarrow> (case run_integration_tests eng call s1 merge l w1 of
                     (Inl e, s2, w2) \<Rightarrow> (Inl e, w2)
                   | (Inr t, s2, w2) \<Rightarrow> finish s2 w2))"

section \<open>The debt gate\<close>

definition debt_text :: "gmap \<Rightarrow> string" where
  "debt_text d = (case map_of d ''description'' of Some v \<Rightarrow> as_string v | None \<Rightarrow> get_str d ''criterion'' [])"

definition join_debt_descriptions :: "gmap list \<Rightarrow> string" where
  "join_debt_descriptions ds = join ''; '' (map debt_text ds)"

definition add_debt_note :: "issue_result \<Rightarrow> string list \<Rightarrow> gmap \<Rightarrow> gmap" where
  "add_debt_note r downstream issue =
     (if issue_name issue \<in> set downstream
      then mset issue ''debt_notes'' (GList (as_any_slice (mget issue ''debt_notes'') @
             [GStr (''NOTE: Upstream '' @ [CHR 0x27] @ r_name r @ [CHR 0x27] @ '' completed with debt: '' @
                join_debt_descriptions (r_debt r))]))
      else issue)"

definition book_debt :: "dag_state \<Rightarrow> issue_result \<Rightarrow> dag_state" where
  "book_debt s r =
     s\<lparr>d_debt := d_debt s @ r_debt r, d_adaptations := d_adaptations s @ map dump_adaptation (r_adaptations r),
       d_issues := map (add_debt_note r (find_downstream (r_name r) (d_issues s))) (d_issues s)\<rparr>"

definition debt_gate :: "level_result \<Rightarrow> dag_state \<Rightarrow> dag_state" where
  "debt_gate l s = foldl book_debt s (filter (\<lambda>r. r_outcome r = out_completed_with_debt) (l_completed l))"

section \<open>The split gate\<close>

definition wants_split :: "issue_result \<Rightarrow> bool" where
  "wants_split f \<longleftrightarrow> r_outcome f = out_failed_needs_split \<and> (case r_split f of None \<Rightarrow> False | Some subs \<Rightarrow> subs \<noteq> [])"

definition split_decision :: "issue_result \<Rightarrow> replan_decision" where
  "split_decision f =
     (let subs = (case r_split f of None \<Rightarrow> [] | Some ss \<Rightarrow> ss);
          new = map (\<lambda>sub. mset (dump_split_spec sub) ''parent_issue_name'' (GStr (r_name f))) subs
      in zero_decision\<lparr>p_action := replan_modify_dag,
           p_rationale := ''Issue '' @ [CHR 0x27] @ r_name f @ [CHR 0x27] @ '' split into '' @ show_nat (length new) @
              '' sub-issues by Issue Advisor'',
           p_new := new, p_removed := [r_name f], p_summary := ''Split '' @ r_name f\<rparr>)"

text \<open>
  An accepted decision stands last in the replan history and shares its dictionaries with the
  issue writer's arguments, so the numbers the writer stores show there too.
\<close>

definition record_written :: "replan_decision \<Rightarrow> dag_state \<Rightarrow> dag_state" where
  "record_written p s = s\<lparr>d_history := butlast (d_history s) @ [p]\<rparr>"

fun split_each :: "'x engine \<Rightarrow> 'x call \<Rightarrow> issue_result list \<Rightarrow> dag_state \<Rightarrow> issue_index \<Rightarrow> 'x world
    \<Rightarrow> dag_state \<times> issue_index \<times> 'x world" where
  "split_each eng call [] s by_name w = (s, by_name, w)"
| "split_each eng call (f # fs) s by_name w = (case apply_replan s (split_decision f) of
     (s1, Some err) \<Rightarrow> split_each eng call fs s1 by_name w
   | (s1, None) \<Rightarrow>
       let (p, w1) = write_issue_files eng call s1 (split_decision f) w
       in split_each eng call fs (record_written p s1) (index_issues (d_issues s1) []) w1)"

text \<open>Returns the state, the index and the failures left for the replan gate.\<close>

definition split_gate :: "'x engine \<Rightarrow> level_result \<Rightarrow> dag_state \<Rightarrow> issue_index \<Rightarrow> 'x world
    \<Rightarrow> (dag_state \<times> issue_index \<times> issue_result list) \<times> 'x world" where
  "split_gate eng l s by_name w =
     (let splits = filter wants_split (l_failed l)
      in case e_call eng of
           None \<Rightarrow> ((s, by_name, l_failed l), w)
         | Some call \<Rightarrow>
             if splits = [] then ((s, by_name, l_failed l), w)
             else let (s1, by1, w1) = split_each eng call splits s by_name w
                  in ((s1, by1, filter (\<lambda>f. r_outcome f \<noteq> out_failed_needs_split) (l_failed l)),
                      save_checkpoint (e_env eng) s1 w1))"

section \<open>The replan gate\<close>

definition unrecoverable :: "issue_result list \<Rightarrow> issue_result list" where
  "unrecoverable fs = filter (\<lambda>f. r_outcome f = out_failed_unrecoverable \<or> r_outcome f = out_failed_escalated) fs"

datatype gate_end = Proceed dag_state | Restart dag_state issue_index | Stop dag_state | Fail go_error

definition invoke_replanner :: "'x engine \<Rightarrow> dag_state \<Rightarrow> issue_result list \<Rightarrow> 'x world \<Rightarrow> (go_error + replan_decision) \<times> 'x world" where
  "invoke_replanner eng s fs w = (case e_call eng of
     Some call \<Rightarrow> invoke_replanner_via_call eng call s fs w
   | None \<Rightarrow> (Inr invoke_replanner_direct, w))"

definition count_replan :: "replan_decision \<Rightarrow> dag_state \<Rightarrow> dag_state" where
  "count_replan p s = s\<lparr>d_replans := d_replans s + 1, d_history := d_history s @ [p]\<rparr>"

definition written_decision :: "'x engine \<Rightarrow> dag_state \<Rightarrow> replan_decision \<Rightarrow> 'x world \<Rightarrow> replan_decision \<times> 'x world" where
  "written_decision eng s p w = (case e_call eng of
     Some call \<Rightarrow> if p_new p \<noteq> [] \<or> p_updated p \<noteq> [] then write_issue_files eng call s p w else (p, w)
   | None \<Rightarrow> (p, w))"

text \<open>The switch on the decision; \<open>pending\<close> is what awaiting the cleanup yields.\<close>

definition follow_decision :: "'x engine \<Rightarrow> dag_state \<Rightarrow> issue_result list \<Rightarrow> go_error option \<Rightarrow> replan_decision \<Rightarrow> 'x world
    \<Rightarrow> gate_end \<times> 'x world" where
  "follow_decision eng s fs pending p w =
     (if p_action p = replan_abort
      then (case pending of Some e \<Rightarrow> Fail e | None \<Rightarrow> Stop (count_replan p s), w)
      else if p_action p = replan_continue
      then (Proceed (skip_downstream (count_replan p (enrich_downstream s fs)) fs), w)
      else case pending of
        Some e \<Rightarrow> (Fail e, w)
      | None \<Rightarrow> (case apply_replan s p of
          (s1, Some err) \<Rightarrow> (Proceed (skip_downstream s1 fs), w)
        | (s1, None) \<Rightarrow>
            let (p', w1) = written_decision eng s1 p w; s2 = record_written p' s1
            in (Restart s2 (index_issues (d_issues s1) []), save_checkpoint (e_env eng) s2 w1)))"

definition replan_gate :: "'x engine \<Rightarrow> dag_state \<Rightarrow> issue_result list \<Rightarrow> go_error option \<Rightarrow> 'x world \<Rightarrow> gate_end \<times> 'x world" where
  "replan_gate eng s failed pending w =
     (let fs = unrecoverable failed
      in if fs = [] then (Proceed s, w)
         else if c_enable_replanning (e_cfg eng) \<and> d_replans s < c_max_replans (e_cfg eng)
         then (case invoke_replanner eng s fs w of
                 (Inl e, w1) \<Rightarrow> (Fail e, w1)
               | (Inr p, w1) \<Rightarrow> follow_decision eng s fs pending p w1)
         else (Proceed (skip_downstream s fs), w))"

section \<open>One pass of the main loop\<close>

text \<open>
  \<open>RunDAG\<close> returns a state (\<open>None\<close> is nil) and an error, or panics when a loaded checkpoint has a
  negative level. A pass goes on with the loop, leaves it, or ends the run.
\<close>

datatype run_end = Returned "dag_state option" "go_error option" | Panicked

datatype pass_end = Loop dag_state issue_index | Leave dag_state | End run_end

definition close_level :: "'x run_options \<Rightarrow> issue_index \<Rightarrow> go_error option \<Rightarrow> gate_end \<times> 'x world \<Rightarrow> pass_end \<times> 'x world" where
  "close_level opts by_name pending g = (case g of
     (Fail e, w) \<Rightarrow> (End (Returned None (Some e)), w)
   | (Stop s, w) \<Rightarrow> (Leave s, w)
   | (Restart s by', w) \<Rightarrow> (Loop s by', w)
   | (Proceed s, w) \<Rightarrow> (case pending of
       Some e \<Rightarrow> (End (Returned None (Some e)), w)
     | None \<Rightarrow> (Loop (s\<lparr>d_level := d_level s + 1\<rparr>) by_name, o_level_complete opts (d_level s) w)))"

definition run_gates :: "'x engine \<Rightarrow> 'x run_options \<Rightarrow> gmap list \<Rightarrow> gmap list \<Rightarrow> level_result \<Rightarrow> dag_state \<Rightarrow> issue_index \<Rightarrow> 'x world
    \<Rightarrow> pass_end \<times> 'x world" where
  "run_gates eng opts conflicts active l s by_name w = (case merge_gate eng conflicts active l s by_name w of
     (Inl e, w1) \<Rightarrow> (End (Returned None (Some e)), w1)
   | (Inr (s1, pending), w1) \<Rightarrow>
       let ((s2, by2, failed), w2) = split_gate eng l (debt_gate l s1) by_name w1
       in close_level opts by2 pending (replan_gate eng s2 failed pending w2))"

definition execute_active :: "'x engine \<Rightarrow> dag_state \<Rightarrow> gmap list \<Rightarrow> 'x world \<Rightarrow> level_result \<times> 'x world" where
  "execute_active eng s active w =
     (let flying = s\<lparr>d_in_flight := map (\<lambda>i. get_str i ''name'' ''?'') active\<rparr>;
          (l, w1) = execute_level eng flying active (d_level s) (save_checkpoint (e_env eng) flying w)
      in (l, save_checkpoint (e_env eng) (s\<lparr>d_in_flight := []\<rparr>) w1))"

definition run_level :: "'x engine \<Rightarrow> 'x run_options \<Rightarrow> gmap list \<Rightarrow> gmap list \<Rightarrow> dag_state \<Rightarrow> issue_index \<Rightarrow> 'x world
    \<Rightarrow> pass_end \<times> 'x world" where
  "run_level eng opts conflicts active0 s0 by0 w0 = (case prepare_level eng s0 by0 active0 w0 of
     (Inl e, w1) \<Rightarrow> (End (Returned None (Some e)), w1)
   | (Inr (s, by_name, active), w1) \<Rightarrow>
       let (l, w2) = execute_active eng s active w1;
           s1 = record_level l (s\<lparr>d_in_flight := []\<rparr>)
       in if too_many_failed (e_cfg eng) l
          then (Leave (skip_future s1), save_checkpoint (e_env eng) (skip_future s1) w2)
          else run_gates eng opts conflicts active l s1 by_name w2)"

definition run_pass :: "'x engine \<Rightarrow> 'x run_options \<Rightarrow> gmap list \<Rightarrow> dag_state \<Rightarrow> issue_index \<Rightarrow> 'x world \<Rightarrow> pass_end \<times> 'x world" where
  "run_pass eng opts conflicts s by_name w = (case ctx_err w of
     Some e \<Rightarrow> (End (Returned (Some s) (Some e)), w)
   | None \<Rightarrow>
       let active = active_issues s by_name (d_levels s ! nat (d_level s))
       in if d_level s < 0 then (End Panicked, w)
          else if active = [] then (Loop (s\<lparr>d_level := d_level s + 1\<rparr>) by_name, w)
          else run_level eng opts conflicts active s by_name w)"

section \<open>\<open>RunDAG\<close>\<close>

definition final_sweep :: "'x engine \<Rightarrow> dag_state \<Rightarrow> 'x world \<Rightarrow> go_error option \<times> 'x world" where
  "final_sweep eng s w = (case e_call eng of
     None \<Rightarrow> (None, w)
   | Some call \<Rightarrow>
       if d_worktrees_dir s = [] \<or> d_integration_branch s = [] then (None, w)
       else cleanup_worktrees eng call s (map (default_branch (d_build_id s)) (d_issues s)) (d_level s) [] w)"

definition finish_run :: "'x engine \<Rightarrow> dag_state \<Rightarrow> 'x world \<Rightarrow> run_end \<times> 'x world" where
  "finish_run eng s w = (case final_sweep eng s w of
     (Some e, w1) \<Rightarrow> (Returned None (Some e), w1)
   | (None, w1) \<Rightarrow> (Returned (Some s) None, save_checkpoint (e_env eng) s w1))"

partial_function (option) run_levels :: "'x engine \<Rightarrow> 'x run_options \<Rightarrow> gmap list \<Rightarrow> dag_state \<Rightarrow> issue_index \<Rightarrow> 'x world
    \<Rightarrow> (run_end \<times> 'x world) option" where
  "run_levels eng opts conflicts s by_name w =
     (if d_level s < int (length (d_levels s))
      then (case run_pass eng opts conflicts s by_name w of
              (Loop s1 by1, w1) \<Rightarrow> run_levels eng opts conflicts s1 by1 w1
            | (Leave s1, w1) \<Rightarrow> Some (finish_run eng s1 w1)
            | (End r, w1) \<Rightarrow> Some (r, w1))
      else Some (finish_run eng s w))"

definition start_run :: "exec_config \<Rightarrow> 'x run_options \<Rightarrow> gmap \<Rightarrow> string \<Rightarrow> 'x world \<Rightarrow> dag_state" where
  "start_run cfg opts plan repo w =
     (let fresh = (init_dag_state plan repo (o_git opts) (o_build_id opts))
            \<lparr>d_manifest := o_manifest opts, d_max_replans := c_max_replans cfg\<rparr>;
          artifacts = get_str plan ''artifacts_dir'' []
      in if o_resume opts \<and> artifacts \<noteq> []
         then (case load_checkpoint artifacts w of None \<Rightarrow> fresh | Some s \<Rightarrow> s) else fresh)"

definition with_defaults :: "'x engine \<Rightarrow> 'x engine" where
  "with_defaults eng = eng\<lparr>e_node := (if e_node eng = [] then ''swe-planner'' else e_node eng),
     e_learn := (e_call eng \<noteq> None \<and> c_enable_learning (e_cfg eng))\<rparr>"

definition run_dag :: "'x engine \<Rightarrow> 'x run_options \<Rightarrow> gmap \<Rightarrow> string \<Rightarrow> 'x world
    \<Rightarrow> (run_end \<times> 'x world) option" where
  "run_dag eng0 opts plan repo w =
     (let eng = with_defaults eng0; s = start_run (e_cfg eng) opts plan repo w;
          w1 = save_checkpoint (e_env eng) s w;
          go = (\<lambda>s w. run_levels eng opts (maps_of (mget plan ''file_conflicts'')) s (index_issues (d_issues s) []) w)
      in case (o_manifest opts, e_call eng) of
           (Some m, Some call) \<Rightarrow> (case init_all_repos eng call s (o_build_id opts) w1 of
               (Inl e, w2) \<Rightarrow> Some (Returned None (Some e), w2)
             | (Inr s', w2) \<Rightarrow> go s' w2)
         | _ \<Rightarrow> go s w1)"

end
