(* ===== verification/CodingCorrect.thy ===== *)
theory CodingCorrect
  imports CodingLoop
begin

text \<open>
  Correctness of the inner loop. A run is a sequence of iterations that go on (\<open>loop_steps\<close>),
  ended by one that returns or by the exhaustion check; the invariants are proved over that
  sequence by rule induction.
\<close>

section \<open>Runs\<close>

inductive loop_steps :: "'x loop_params \<Rightarrow> int \<times> loop_state \<times> 'x world \<Rightarrow> int \<times> loop_state \<times> 'x world \<Rightarrow> bool"
  for x where
  stay: "loop_steps x c c"
| again: "loop_steps x c (i, ls, w) \<Longrightarrow> run_iteration x i ls w = (Next ls', w') \<Longrightarrow> loop_steps x c (i + 1, ls', w')"

lemma loop_steps_first:
  "loop_steps x c d \<Longrightarrow> c = (i + 1, ls', w') \<Longrightarrow> run_iteration x i ls w = (Next ls', w') \<Longrightarrow> loop_steps x (i, ls, w) d"
  by (induction rule: loop_steps.induct) (auto intro: loop_steps.intros)

lemma loop_steps_count: "loop_steps x c d \<Longrightarrow> fst c \<le> fst d"
  by (induction rule: loop_steps.induct) auto

lemma run_iterations_end:
  "run_iterations x n i ls w = (r, w') \<Longrightarrow>
   \<exists>j ls' w1. loop_steps x (i, ls, w) (j, ls', w1) \<and>
     (j < i + int n \<and> run_iteration x j ls' w1 = (Return r, w') \<or> j = i + int n \<and> exhausted x ls' w1 = (r, w'))"
proof (induction n arbitrary: i ls w)
  case 0
  then show ?case using loop_steps.stay [of x "(i, ls, w)"] by force
next
  case (Suc n)
  obtain st w1 where it: "run_iteration x i ls w = (st, w1)" by force
  show ?case
  proof (cases st)
    case (Return r')
    with Suc.prems it show ?thesis using loop_steps.stay [of x "(i, ls, w)"] by force
  next
    case (Next ls1)
    with Suc.prems it have "run_iterations x n (i + 1) ls1 w1 = (r, w')" by simp
    from Suc.IH [OF this] obtain j ls' w2 where
      "loop_steps x (i + 1, ls1, w1) (j, ls', w2)"
      "j < i + 1 + int n \<and> run_iteration x j ls' w2 = (Return r, w') \<or> j = i + 1 + int n \<and> exhausted x ls' w2 = (r, w')"
      by blast
    moreover from this(1) it Next have "loop_steps x (i, ls, w) (j, ls', w2)" by (auto intro: loop_steps_first)
    ultimately show ?thesis by (intro exI [of _ j] exI [of _ ls'] exI [of _ w2]) auto
  qed
qed

section \<open>One iteration\<close>

text \<open>An iteration that gets past the coder and the review.\<close>

definition reviewed :: "'x loop_params \<Rightarrow> int \<Rightarrow> loop_state \<Rightarrow> 'x world \<Rightarrow> string list \<Rightarrow> gmap \<Rightarrow> verdict \<Rightarrow> 'x world \<Rightarrow> bool" where
  "reviewed x i ls w fs coder v w4 \<longleftrightarrow>
     (\<exists>iid w1 w2 w3 mem. ctx_err w = None \<and> draw_id (x_env x) w = (iid, w1) \<and>
        fs = add_all_unique (v_files ls) (texts_of (mget coder ''files_changed'')) \<and>
        role_call x ''.run_coder'' (iter_label ''coder'' (loop_name x) i) (coder_args x i ls iid mem) w1 = (Inr coder, w2) \<and>
        review_path x coder i iid (v_history ls) mem w3 = (Inr v, w4))"

lemma default_path_error: "run_default_path x coder iid mem w = (Inl e, w') \<Longrightarrow> propagates e"
  by (auto simp: run_default_path_def Let_def split: if_splits prod.splits sum.splits)

lemma flagged_path_error:
  assumes "run_flagged_path x coder i iid history mem w = (Inl e, w')"
  shows "propagates e"
proof -
  obtain qr w1 where 1: "role_call x ''.run_qa'' (iter_label ''qa'' (loop_name x) i) (qa_args x coder iid) w = (qr, w1)" by force
  obtain rr w2 where 2: "role_call x ''.run_code_reviewer'' (iter_label ''review'' (loop_name x) i) (review_args x coder iid True mem) w1 = (rr, w2)"
    by force
  obtain sr w3 where 3: "role_call x ''.run_qa_synthesizer'' (iter_label ''synthesizer'' (loop_name x) i)
      (synth_args x (qa_outcome qr) (review_outcome rr) history iid) w2 = (sr, w3)" by force
  from assms show ?thesis
    by (simp add: run_flagged_path_def 1 2 3 Let_def split: sum.splits if_splits)
qed

lemma review_path_error: "review_path x coder i iid history mem w = (Inl e, w') \<Longrightarrow> propagates e"
  by (auto simp: review_path_def Let_def dest: default_path_error flagged_path_error split: if_splits prod.splits sum.splits)

lemma run_iteration_eq:
  assumes "ctx_err w = None" and "draw_id (x_env x) w = (iid, w1)" and "mem = read_memory_context (x_learn x) (x_issue x) w1"
    and "role_call x ''.run_coder'' (iter_label ''coder'' (loop_name x) i) (coder_args x i ls iid mem) w1 = (cr, w2)"
  shows "run_iteration x i ls w = (case cr of
      Inl e \<Rightarrow> if propagates e then (Return (Inl e), w2)
        else (Return (Inr ((base_result x out_failed_unrecoverable i (v_files ls) (v_history ls))
                \<lparr>r_error := ''Coder agent failed on iteration '' @ show_int i @ '': '' @ err_text e,
                 r_context := err_text e\<rparr>)), w2)
    | Inr coder \<Rightarrow> (case review_path x coder i iid (v_history ls) mem
          (save_artifact (x_env x) (d_artifacts_dir (x_state x)) iid ''coder'' coder w2) of
             (Inl e, w4) \<Rightarrow> (Return (Inl e), w4)
           | (Inr v, w4) \<Rightarrow> conclude x i ls (add_all_unique (v_files ls) (texts_of (mget coder ''files_changed''))) coder v w4))"
  unfolding run_iteration_def assms(1) option.case assms(2) Let_def prod.case assms(3) [symmetric] assms(4)
  by (rule refl)

lemma run_iteration_cases:
  assumes "run_iteration x i ls w = (st, w')"
  obtains (halted) e where "ctx_err w = Some e" "st = Return (Inl e)" "w' = w"
    | (raised) e where "propagates e" "st = Return (Inl e)"
    | (coder) e where "\<not> propagates e" "st = Return (Inr ((base_result x out_failed_unrecoverable i (v_files ls) (v_history ls))
          \<lparr>r_error := ''Coder agent failed on iteration '' @ show_int i @ '': '' @ err_text e, r_context := err_text e\<rparr>))"
    | (reviewed) fs coder v w4 where "reviewed x i ls w fs coder v w4" "conclude x i ls fs coder v w4 = (st, w')"
proof (cases "ctx_err w")
  case (Some e)
  have "run_iteration x i ls w = (Return (Inl e), w)" unfolding run_iteration_def Some option.case by (rule refl)
  with assms have "st = Return (Inl e)" and "w' = w" by simp_all
  with Some show ?thesis by (rule that(1))
next
  case None
  obtain iid w1 where id: "draw_id (x_env x) w = (iid, w1)" by force
  define mem where "mem = read_memory_context (x_learn x) (x_issue x) w1"
  obtain cr w2 where cr: "role_call x ''.run_coder'' (iter_label ''coder'' (loop_name x) i) (coder_args x i ls iid mem) w1 = (cr, w2)"
    by (meson surj_pair)
  show ?thesis
  proof (cases cr)
    case (Inl e)
    show ?thesis
    proof (cases "propagates e")
      case True
      with assms run_iteration_eq [OF None id mem_def cr] Inl have "st = Return (Inl e)" by simp
      with True show ?thesis by (rule that(2))
    next
      case False
      show ?thesis
        by (rule that(3) [OF False]) (use assms run_iteration_eq [OF None id mem_def cr] Inl False in simp)
    qed
  next
    case (Inr coder)
    define w3 where "w3 = save_artifact (x_env x) (d_artifacts_dir (x_state x)) iid ''coder'' coder w2"
    define fs where "fs = add_all_unique (v_files ls) (texts_of (mget coder ''files_changed''))"
    obtain vr w4 where vr: "review_path x coder i iid (v_history ls) mem w3 = (vr, w4)" by force
    show ?thesis
    proof (cases vr)
      case (Inl e)
      have "propagates e"
        using review_path_error vr Inl by blast
      have "st = Return (Inl e)"
        using assms run_iteration_eq [OF None id mem_def cr] vr by (simp add: Inr Inl w3_def)
      with \<open>propagates e\<close> show ?thesis by (rule that(2))
    next
      case (Inr v)
      have "conclude x i ls fs coder v w4 = (st, w')"
        using assms run_iteration_eq [OF None id mem_def cr] vr
        by (simp add: \<open>cr = Inr coder\<close> Inr w3_def fs_def)
      moreover have "reviewed x i ls w fs coder v w4"
        unfolding reviewed_def using None id cr \<open>cr = Inr coder\<close> vr Inr by (auto simp: fs_def)
      ultimately show ?thesis using that(4) by blast
    qed
  qed
qed

text \<open>On the default path the action is the reviewer's, and nothing is stuck but by history.\<close>

lemma default_action:
  assumes "reviewed x i ls w fs coder v w4" and "\<not> needs_deeper_qa x"
  shows "k_action v = reviewer_action (k_review v)"
  using assms
  by (auto simp: reviewed_def review_path_def run_default_path_def Let_def split: prod.splits sum.splits if_splits)

lemma reviewer_action_cases:
  "reviewer_action review = ''approve'' \<and> get_bool review ''approved'' False \<and> \<not> get_bool review ''blocking'' False \<or>
   reviewer_action review = ''block'' \<and> get_bool review ''blocking'' False \<or>
   reviewer_action review = ''fix'' \<and> \<not> get_bool review ''blocking'' False"
  by (simp add: reviewer_action_def Let_def)

lemma conclude_next:
  assumes "conclude x i ls fs coder v w = (Next ls', w')"
  shows "v_history ls' = v_history ls @ [history_entry x i v] \<and> v_files ls' = fs \<and> v_review ls' = k_review v \<and>
    k_action v \<noteq> ''approve'' \<and> k_action v \<noteq> ''block'' \<and>
    (\<not> needs_deeper_qa x \<longrightarrow> \<not> detect_stuck_loop (v_history ls') 3)"
  using assms by (auto simp: conclude_def Let_def split: if_splits)

lemma conclude_return:
  assumes "conclude x i ls fs coder v w = (Return r, w')"
  shows "\<exists>res. r = Inr res \<and> r_name res = loop_name x \<and> r_attempts res = i \<and> r_files res = fs \<and>
    r_history res = v_history ls @ [history_entry x i v] \<and>
    (r_outcome res = out_completed \<and> k_action v = ''approve'' \<or>
     r_outcome res = out_completed_with_debt \<and> fs \<noteq> [] \<and> \<not> review_blocks (k_review v) \<or>
     r_outcome res = out_failed_unrecoverable)"
  using assms by (auto simp: conclude_def Let_def base_result_def zero_result_def split: if_splits)

lemma exhausted_result:
  assumes "exhausted x ls w = (r, w')"
  shows "\<exists>res. r = Inr res \<and> r_name res = loop_name x \<and> r_attempts res = c_max_iterations (x_cfg x) \<and>
    r_files res = v_files ls \<and> r_history res = v_history ls \<and>
    (r_outcome res = out_completed_with_debt \<and> v_files ls \<noteq> [] \<and> \<not> review_blocks (v_review ls) \<or>
     r_outcome res = out_failed_unrecoverable)"
  using assms by (auto simp: exhausted_def Let_def base_result_def zero_result_def split: if_splits)

lemma get_bool_entry:
  "mget (history_entry x i v) ''action'' = GStr (k_action v)"
  "get_bool (history_entry x i v) ''review_blocking'' d = review_blocks (k_review v)"
  "get_bool (history_entry x i v) ''review_approved'' d =
     (truthy (GMap (k_review v)) \<and> get_bool (k_review v) ''approved'' False)"
  by (simp_all add: history_entry_def mget_def lookup_def_def get_bool_def review_blocks_def)

lemma get_bool_truthy: "get_bool m k False \<Longrightarrow> truthy (GMap m)"
  by (cases m) (auto simp: get_bool_def truthy_def)

lemma reviewer_approves:
  "reviewer_action review = ''approve'' \<Longrightarrow>
   truthy (GMap review) \<and> get_bool review ''approved'' False \<and> \<not> get_bool review ''blocking'' False"
  using get_bool_truthy [of review "''approved''"] by (simp add: reviewer_action_def Let_def split: if_splits)

section \<open>The result of a run\<close>

definition approved_entry :: "bool \<Rightarrow> gmap \<Rightarrow> bool" where
  "approved_entry deeper entry \<longleftrightarrow> mget entry ''action'' = GStr ''approve'' \<and>
     (\<not> deeper \<longrightarrow> get_bool entry ''review_approved'' False \<and> \<not> get_bool entry ''review_blocking'' False)"

lemma approved_by_review:
  assumes "reviewed x j ls w fs coder v w4" and "k_action v = ''approve''"
  shows "approved_entry (needs_deeper_qa x) (history_entry x j v)"
proof (cases "needs_deeper_qa x")
  case True
  then show ?thesis by (simp add: approved_entry_def get_bool_entry assms(2))
next
  case False
  with default_action [OF assms(1)] assms(2) have "reviewer_action (k_review v) = ''approve''" by simp
  from reviewer_approves [OF this] show ?thesis
    by (simp add: approved_entry_def get_bool_entry assms(2) review_blocks_def)
qed

text \<open>
  C21: Whatever the agents reply, a run of the coding loop that gives a result names its issue,
  counts at most the configured iterations, and is completed, completed with debt or failed.
  It is completed only when the last recorded iteration was approved (on the default path by a
  reviewer that approves and does not block), and with debt only when files were changed.
\<close>

theorem coding_loop_result:
  assumes "run_coding_loop x w = (Inr r, w')"
  shows "r_name r = loop_name x \<and> r_attempts r \<le> c_max_iterations (x_cfg x) \<and>
    (r_outcome r = out_completed \<and> r_history r \<noteq> [] \<and> approved_entry (needs_deeper_qa x) (last (r_history r)) \<or>
     r_outcome r = out_completed_with_debt \<and> r_files r \<noteq> [] \<or>
     r_outcome r = out_failed_unrecoverable)"
proof -
  obtain start ls where s: "start_state x w = (start, ls)" by force
  define n where "n = nat (c_max_iterations (x_cfg x) - start + 1)"
  from assms s have "run_iterations x n start ls w = (Inr r, w')" by (simp add: run_coding_loop_def n_def)
  from run_iterations_end [OF this] obtain j ls' w1 where
    steps: "loop_steps x (start, ls, w) (j, ls', w1)"
    and end_: "j < start + int n \<and> run_iteration x j ls' w1 = (Return (Inr r), w') \<or>
      j = start + int n \<and> exhausted x ls' w1 = (Inr r, w')" by blast
  from loop_steps_count [OF steps] have "start \<le> j" by simp
  from end_ show ?thesis
  proof (elim disjE conjE)
    assume j: "j < start + int n" and it: "run_iteration x j ls' w1 = (Return (Inr r), w')"
    have max: "j \<le> c_max_iterations (x_cfg x)" using j \<open>start \<le> j\<close> by (simp add: n_def split: if_splits)
    from it show ?thesis
    proof (cases rule: run_iteration_cases)
      case (reviewed fs coder v w4)
      from conclude_return [OF reviewed(2)] approved_by_review [OF reviewed(1)] max show ?thesis by auto
    qed (use max in \<open>auto simp: base_result_def zero_result_def\<close>)
  next
    assume "exhausted x ls' w1 = (Inr r, w')"
    from exhausted_result [OF this] show ?thesis by auto
  qed
qed

text \<open>
  The only errors the coding loop returns are fatal harness errors, cancellations, and the
  context's own error found at the head of an iteration; any other failure of an agent is a
  result.
\<close>

theorem coding_loop_errors:
  assumes "run_coding_loop x w = (Inl e, w')"
  shows "propagates e \<or> (\<exists>start ls j ls' w1. start_state x w = (start, ls) \<and>
    loop_steps x (start, ls, w) (j, ls', w1) \<and> ctx_err w1 = Some e)"
proof -
  obtain start ls where s: "start_state x w = (start, ls)" by force
  from assms s have "run_iterations x (nat (c_max_iterations (x_cfg x) - start + 1)) start ls w = (Inl e, w')"
    by (simp add: run_coding_loop_def)
  from run_iterations_end [OF this] obtain j ls' w1 where
    steps: "loop_steps x (start, ls, w) (j, ls', w1)"
    and end_: "run_iteration x j ls' w1 = (Return (Inl e), w') \<or> exhausted x ls' w1 = (Inl e, w')" by blast
  from end_ show ?thesis
  proof
    assume "run_iteration x j ls' w1 = (Return (Inl e), w')"
    then show ?thesis
    proof (cases rule: run_iteration_cases)
      case (halted e')
      with steps s show ?thesis by auto
    next
      case (reviewed fs coder v w4)
      with conclude_return [OF reviewed(2)] show ?thesis by simp
    qed auto
  next
    assume "exhausted x ls' w1 = (Inl e, w')"
    from exhausted_result [OF this] show ?thesis by simp
  qed
qed

section \<open>How long the default path goes on\<close>

definition fresh :: loop_state where
  "fresh = \<lparr>v_feedback = [], v_history = [], v_files = [], v_review = []\<rparr>"

lemma next_default:
  assumes "run_iteration x i ls w = (Next ls', w')" and "\<not> needs_deeper_qa x"
  shows "\<exists>v. v_history ls' = v_history ls @ [history_entry x i v] \<and> is_fix_cycle (history_entry x i v) \<and>
    \<not> detect_stuck_loop (v_history ls') 3"
  using assms(1)
proof (cases rule: run_iteration_cases)
  case (reviewed fs coder v w4)
  note c = conclude_next [OF reviewed(2)]
  from default_action [OF reviewed(1) assms(2)] c reviewer_action_cases [of "k_review v"]
  have "k_action v = ''fix''" and "\<not> get_bool (k_review v) ''blocking'' False" by auto
  then have "is_fix_cycle (history_entry x i v)"
    by (simp add: is_fix_cycle_def get_bool_entry review_blocks_def)
  with c assms(2) show ?thesis by auto
qed auto

lemma default_steps:
  assumes "loop_steps x (start, ls0, w) (j, ls, w1)" and "\<not> needs_deeper_qa x"
  shows "\<exists>es. v_history ls = v_history ls0 @ es \<and> list_all is_fix_cycle es \<and> int (length es) = j - start \<and> j \<le> start + 2"
  using assms(1)
proof (induction "(start, ls0, w)" "(j, ls, w1)" arbitrary: j ls w1 rule: loop_steps.induct)
  case (again i ls w ls' w')
  from again.hyps(2) obtain es where es: "v_history ls = v_history ls0 @ es" "list_all is_fix_cycle es" "int (length es) = i - start" by blast
  from next_default [OF again.hyps(3) assms(2)] obtain e where
    e: "v_history ls' = v_history ls0 @ es @ [e]" "is_fix_cycle e" and ns: "\<not> detect_stuck_loop (v_history ls') 3"
    by (auto simp: es(1))
  have all: "list_all is_fix_cycle (es @ [e])" using es(2) e(2) by simp
  have "length (es @ [e]) < 3"
  proof (rule ccontr)
    assume "\<not> length (es @ [e]) < 3"
    then have "drop (length (v_history ls') - 3) (v_history ls') = drop (length (es @ [e]) - 3) (es @ [e])"
      unfolding e(1) by (simp only: length_append drop_append) simp
    moreover have "list_all is_fix_cycle (drop (length (es @ [e]) - 3) (es @ [e]))"
      using all by (auto simp only: list_all_iff dest: in_set_dropD)
    ultimately show False using ns \<open>\<not> length (es @ [e]) < 3\<close> by (auto simp: detect_stuck_loop_def e(1))
  qed
  with e(1) all es(3) show ?case by (intro exI [of _ "es @ [e]"]) simp
qed simp

text \<open>
  C22: On the default path a run takes at most three iterations, whatever \<open>max_coding_iterations\<close>
  allows: an approval or a block returns, and three non-blocking fix rounds in a row count as stuck,
  also when some of them were recorded before. A run that starts afresh therefore reports at most
  three attempts; a run that resumes from a checkpoint, for example when the advisor retries the issue,
  continues the count at the saved iteration and reports at most three more.
\<close>

theorem default_path_stops_at_three:
  assumes "run_coding_loop x w = (Inr r, w')" and "\<not> needs_deeper_qa x"
  shows "r_attempts r \<le> (case load_iteration_state (d_artifacts_dir (x_state x)) (loop_name x) (d_build_id (x_state x)) w of
    None \<Rightarrow> 3 | Some m \<Rightarrow> as_int (mget m ''iteration'') + 3)"
proof -
  obtain start ls where s: "start_state x w = (start, ls)" by force
  define n where "n = nat (c_max_iterations (x_cfg x) - start + 1)"
  from assms(1) s have "run_iterations x n start ls w = (Inr r, w')" by (simp add: run_coding_loop_def n_def)
  from run_iterations_end [OF this] obtain j ls' w1 where
    steps: "loop_steps x (start, ls, w) (j, ls', w1)"
    and end_: "run_iteration x j ls' w1 = (Return (Inr r), w') \<or> j = start + int n \<and> exhausted x ls' w1 = (Inr r, w')" by blast
  from default_steps [OF steps assms(2)] have j: "j \<le> start + 2" by blast
  have "r_attempts r \<le> start + 2" using end_
  proof (elim disjE conjE)
    assume "run_iteration x j ls' w1 = (Return (Inr r), w')"
    then show ?thesis
    proof (cases rule: run_iteration_cases)
      case (reviewed fs coder v w4)
      with conclude_return [OF reviewed(2)] j show ?thesis by auto
    qed (use j in \<open>auto simp: base_result_def zero_result_def\<close>)
  next
    assume "j = start + int n" "exhausted x ls' w1 = (Inr r, w')"
    from exhausted_result [OF this(2)] \<open>j = start + int n\<close> j show ?thesis by (auto simp: n_def split: if_splits)
  qed
  with s show ?thesis by (auto simp: start_state_def split: option.splits)
qed

section \<open>Checkpoints and retries\<close>

lemma clean_parts_nonempty: "[] \<notin> set acc \<Longrightarrow> [] \<notin> set (clean_parts rooted acc ps)"
proof (induction rooted acc ps rule: clean_parts.induct)
  case (2 rooted acc p ps)
  have "[] \<notin> set (butlast acc)" using "2.prems" by (meson in_set_butlastD)
  with 2 show ?case by auto
qed simp

lemma path_clean_nonempty [simp]: "path_clean s \<noteq> []"
proof -
  have "join ''/'' ps \<noteq> []" if "ps \<noteq> []" "[] \<notin> set ps" for ps :: "string list"
    using that by (cases ps; cases "tl ps") auto
  then show ?thesis
    using clean_parts_nonempty [of "[]" False "split_slash [] s"] by (simp add: path_clean_def Let_def)
qed

lemma iteration_state_path_nonempty [simp]: "a \<noteq> [] \<Longrightarrow> iteration_state_path a n b \<noteq> []"
  by (simp add: iteration_state_path_def path_join_def Let_def)

lemma write_memory_files [simp]:
  "files (write_memory_on_failure learn issue summary review w) = files w"
  "files (write_memory_on_approve learn issue coder first w) = files w"
  by (simp_all add: write_memory_on_failure_def write_memory_on_approve_def Let_def)

definition saves_iterations :: "'x loop_params \<Rightarrow> bool" where
  "saves_iterations x \<longleftrightarrow> d_artifacts_dir (x_state x) \<noteq> [] \<and>
     (\<forall>w. writable (x_env x) w (iteration_state_path (d_artifacts_dir (x_state x)) (loop_name x) (d_build_id (x_state x))))"

lemma conclude_saves:
  assumes "conclude x i ls fs coder v w = (st, w')" and "saves_iterations x"
  shows "load_iteration_state (d_artifacts_dir (x_state x)) (loop_name x) (d_build_id (x_state x)) w' =
    Some (json_map (iteration_state i (k_summary v) fs (v_history ls @ [history_entry x i v])))"
proof -
  have "files w' = files (save_iteration_state (x_env x) (d_artifacts_dir (x_state x)) (loop_name x)
      (iteration_state i (k_summary v) fs (v_history ls @ [history_entry x i v])) (d_build_id (x_state x)) w)"
    using assms(1) by (auto simp: conclude_def Let_def split: if_splits)
  with assms(2) show ?thesis
    by (simp add: load_iteration_state_def save_iteration_state_def saves_iterations_def Let_def files_write_json)
qed

lemma read_iteration_state:
  "as_int (mget (json_map (iteration_state i fb fs h)) ''iteration'') = i"
  "get_text (json_map (iteration_state i fb fs h)) ''feedback'' [] = fb"
  "texts_of (mget (json_map (iteration_state i fb fs h)) ''files_changed'') = fs"
  "maps_of (mget (json_map (iteration_state i fb fs h)) ''iteration_history'') = map json_map h"
  by (simp_all add: mget_def lookup_def_def map_of_json_map iteration_state_def get_text_def texts_of_def maps_of_def
      del: json_trip.simps(1,2,4))

text \<open>
  After an iteration that goes on, the checkpoint on disk brings a restarted run to the next
  iteration with the same changed files and the same history. The feedback it resumes with is
  the bare summary: the test failures and blocking items the coder would have been sent are not
  in the checkpoint.
\<close>

theorem resume_after_iteration:
  assumes "run_iteration x i ls w = (Next ls', w')" and "saves_iterations x"
  shows "\<exists>v. v_history ls' = v_history ls @ [history_entry x i v] \<and>
    start_state x w' = (i + 1, \<lparr>v_feedback = k_summary v, v_history = map json_map (v_history ls'),
      v_files = v_files ls', v_review = []\<rparr>) \<and>
    (k_action v = ''fix'' \<longrightarrow> v_feedback ls' = fix_feedback (k_summary v) (k_qa v) (k_review v))"
  using assms(1)
proof (cases rule: run_iteration_cases)
  case (reviewed fs coder v w4)
  note c = conclude_next [OF reviewed(2)]
  have "k_action v = ''fix'' \<longrightarrow> v_feedback ls' = fix_feedback (k_summary v) (k_qa v) (k_review v)"
    using reviewed(2) by (auto simp: conclude_def Let_def split: if_splits)
  with c conclude_saves [OF reviewed(2) assms(2)] show ?thesis
    by (intro exI [of _ v]) (simp add: start_state_def read_iteration_state)
qed auto

text \<open>
  A run that finds a checkpoint of the last allowed iteration with changed files calls no
  agent and is accepted with debt. So when the last allowed iteration was blocked by the review,
  which fails the issue, running the issue again (as every retry the issue advisor asks for
  does) accepts it at once, with the blocked code and without another review.
\<close>

theorem blocked_issue_accepted_on_retry:
  assumes blocked: "conclude x i ls fs coder v w = (Return (Inr r), w')" "k_action v = ''block''" "fs \<noteq> []"
    and last_one: "c_max_iterations (x_cfg x) \<le> i" and saves: "saves_iterations x"
    and again: "x_state y = x_state x" "x_cfg y = x_cfg x" "loop_name y = loop_name x"
  shows "r_outcome r = out_failed_unrecoverable \<and>
    (\<exists>r'. run_coding_loop y w' = (Inr r', w') \<and> r_outcome r' = out_completed_with_debt \<and> r_files r' = fs)"
proof
  show "r_outcome r = out_failed_unrecoverable"
    using blocked by (auto simp: conclude_def Let_def base_result_def split: if_splits)
  have "start_state y w' = (i + 1, \<lparr>v_feedback = k_summary v, v_history = map json_map (v_history ls @ [history_entry x i v]),
      v_files = fs, v_review = []\<rparr>)"
    using conclude_saves [OF blocked(1) saves] by (simp add: start_state_def again read_iteration_state)
  with blocked(3) last_one show "\<exists>r'. run_coding_loop y w' = (Inr r', w') \<and> r_outcome r' = out_completed_with_debt \<and> r_files r' = fs"
    by (simp add: run_coding_loop_def exhausted_def review_blocks_def truthy_def again base_result_def Let_def)
qed

section \<open>Witnesses\<close>

text \<open>Agents that always answer the same: a coder that changes one file, and a given review.\<close>

definition demo_env :: "unit env" where
  "demo_env = \<lparr>in_time = \<lambda>w l. True, writable = \<lambda>w p. True, draw_id = \<lambda>w. (''0a1b2c3d'', w)\<rparr>"

definition demo_world :: "unit world" where
  "demo_world = \<lparr>files = \<lambda>p. None, memory = \<lambda>k. GNil, ctx_err = None, outside = ()\<rparr>"

definition demo_call :: "gmap \<Rightarrow> unit call" where
  "demo_call review target kwargs w =
     (Inr (if target = ''n.run_coder'' then [(''files_changed'', GList [GStr ''a.go''])] else review), w)"

definition demo_params :: "unit call \<Rightarrow> int \<Rightarrow> unit loop_params" where
  "demo_params call n = \<lparr>x_env = demo_env, x_call = call, x_node = ''n'',
     x_cfg = (default_execution_config (\<lambda>_. []))\<lparr>c_max_iterations := n\<rparr>, x_learn = False,
     x_issue = [(''name'', GStr ''login'')], x_state = zero_state\<lparr>d_artifacts_dir := ''/art''\<rparr>\<rparr>"

definition approving :: gmap where "approving = [(''approved'', GBool True), (''blocking'', GBool False)]"
definition blocking :: gmap where "blocking = [(''approved'', GBool False), (''blocking'', GBool True)]"
definition asking :: gmap where "asking = [(''approved'', GBool False), (''summary'', GStr ''more tests'')]"

lemma fst_pair: "fst p = a \<Longrightarrow> p = (a, snd p)"
  by (cases p) simp

theorem coding_loop_result_witness:
  "\<exists>r w'. run_coding_loop (demo_params (demo_call approving) 5) demo_world = (Inr r, w') \<and>
    r_name r = loop_name (demo_params (demo_call approving) 5) \<and> r_attempts r \<le> 5"
proof -
  let ?x = "demo_params (demo_call approving) 5"
  have "case fst (run_coding_loop ?x demo_world) of Inr r \<Rightarrow> r_outcome r = out_completed | Inl e \<Rightarrow> False" by code_simp
  then obtain r where r: "fst (run_coding_loop ?x demo_world) = Inr r" by (auto split: sum.splits)
  have "c_max_iterations (x_cfg ?x) = 5" by (simp add: demo_params_def)
  with coding_loop_result [OF fst_pair [OF r]] fst_pair [OF r] show ?thesis by auto
qed

theorem coding_loop_errors_witness:
  "\<exists>w'. run_coding_loop (demo_params (\<lambda>t k w. (Inl (Fatal ''no credits''), w)) 5) demo_world = (Inl (Fatal ''no credits''), w') \<and>
    (propagates (Fatal ''no credits'') \<or> (\<exists>start ls j ls' w1.
       loop_steps (demo_params (\<lambda>t k w. (Inl (Fatal ''no credits''), w)) 5) (start, ls, demo_world) (j, ls', w1) \<and>
       ctx_err w1 = Some (Fatal ''no credits'')))"
proof -
  let ?x = "demo_params (\<lambda>t k w. (Inl (Fatal ''no credits''), w)) 5"
  have "fst (run_coding_loop ?x demo_world) = Inl (Fatal ''no credits'')" by code_simp
  from fst_pair [OF this] coding_loop_errors [OF fst_pair [OF this]] show ?thesis by blast
qed

theorem default_path_stops_at_three_witness:
  "\<exists>r w'. run_coding_loop (demo_params (demo_call asking) 10) demo_world = (Inr r, w') \<and>
    r_outcome r = out_completed_with_debt \<and> r_attempts r \<le> 3"
proof -
  let ?x = "demo_params (demo_call asking) 10"
  have "case fst (run_coding_loop ?x demo_world) of Inr r \<Rightarrow> r_outcome r = out_completed_with_debt | Inl e \<Rightarrow> False" by code_simp
  then obtain r where r: "fst (run_coding_loop ?x demo_world) = Inr r" "r_outcome r = out_completed_with_debt"
    by (auto split: sum.splits)
  have "\<not> needs_deeper_qa ?x" by code_simp
  moreover have "load_iteration_state (d_artifacts_dir (x_state ?x)) (loop_name ?x) (d_build_id (x_state ?x)) demo_world = None"
    by (simp add: load_iteration_state_def demo_world_def Let_def)
  ultimately show ?thesis using default_path_stops_at_three [OF fst_pair [OF r(1)]] fst_pair [OF r(1)] r(2) by auto
qed

lemma demo_saves: "saves_iterations (demo_params call n)"
  by (simp add: saves_iterations_def demo_params_def demo_env_def)

theorem resume_after_iteration_witness:
  "\<exists>ls' w' fb. run_iteration (demo_params (demo_call asking) 10) 1 fresh demo_world = (Next ls', w') \<and>
    start_state (demo_params (demo_call asking) 10) w' =
      (2, \<lparr>v_feedback = fb, v_history = map json_map (v_history ls'), v_files = v_files ls', v_review = []\<rparr>)"
proof -
  let ?x = "demo_params (demo_call asking) 10"
  have "case fst (run_iteration ?x 1 fresh demo_world) of Next ls \<Rightarrow> True | Return r \<Rightarrow> False" by code_simp
  then obtain ls' where n: "fst (run_iteration ?x 1 fresh demo_world) = Next ls'" by (auto split: step.splits)
  from resume_after_iteration [OF fst_pair [OF this] demo_saves] fst_pair [OF n] show ?thesis
    by (metis one_add_one)
qed

theorem blocked_issue_accepted_on_retry_witness:
  "\<exists>r w' r'. conclude (demo_params (demo_call blocking) 2) 2 fresh [''a.go''] []
      \<lparr>k_action = ''block'', k_summary = ''leaks keys'', k_review = blocking, k_qa = [], k_synthesis = []\<rparr> demo_world = (Return (Inr r), w') \<and>
    r_outcome r = out_failed_unrecoverable \<and>
    run_coding_loop (demo_params (demo_call blocking) 2) w' = (Inr r', w') \<and> r_outcome r' = out_completed_with_debt"
proof -
  let ?x = "demo_params (demo_call blocking) 2"
  let ?v = "\<lparr>k_action = ''block'', k_summary = ''leaks keys'', k_review = blocking, k_qa = [], k_synthesis = []\<rparr>"
  have "case fst (conclude ?x 2 fresh [''a.go''] [] ?v demo_world) of
      Return r \<Rightarrow> (case r of Inr q \<Rightarrow> True | Inl e \<Rightarrow> False) | Next ls \<Rightarrow> False" by code_simp
  then obtain r w' where c: "conclude ?x 2 fresh [''a.go''] [] ?v demo_world = (Return (Inr r), w')"
    by (cases "conclude ?x 2 fresh [''a.go''] [] ?v demo_world") (auto split: step.splits sum.splits)
  have "c_max_iterations (x_cfg ?x) \<le> 2" by (simp add: demo_params_def)
  then have "r_outcome r = out_failed_unrecoverable \<and>
      (\<exists>r'. run_coding_loop ?x w' = (Inr r', w') \<and> r_outcome r' = out_completed_with_debt \<and> r_files r' = [''a.go''])"
    by (intro blocked_issue_accepted_on_retry [OF c _ _ _ demo_saves refl refl refl]) simp_all
  with c show ?thesis by blast
qed

end
