(* ===== verification/IssueCorrect.thy ===== *)
theory IssueCorrect
  imports IssueRun CodingCorrect
begin

text \<open>
  Correctness of the middle loop and of the level barrier: what the advisor loop accumulates,
  that every issue of a level is accounted for once, and what the gate helpers change.
\<close>

section \<open>The advisor loop\<close>

text \<open>What holds of the accumulated adaptations and debt at the head of round \<open>k\<close>.\<close>

definition debt_of :: "string \<Rightarrow> gmap list \<Rightarrow> bool" where
  "debt_of name debt \<longleftrightarrow> (\<forall>d \<in> set debt. mget d ''issue_name'' = GStr name)"

definition advisor_inv :: "string \<Rightarrow> int \<Rightarrow> advisor_state \<Rightarrow> bool" where
  "advisor_inv name k st \<longleftrightarrow> debt_of name (w_debt st) \<and> int (length (w_adaptations st)) \<le> k"

lemma again_res: "follow_advice name k d res st = Again res' st' \<Longrightarrow> res' = res"
  by (auto simp: follow_advice_def Let_def split: if_splits)

lemma advisor_inv_again:
  assumes "follow_advice name k d res st = Again res' st'" and "advisor_inv name k st"
  shows "advisor_inv name (k + 1) st' \<and> res' = res"
  using assms
  by (auto simp: follow_advice_def Let_def advisor_inv_def debt_of_def retry_modified_def retry_approach_def
      mget_def lookup_def_def split: if_splits)

lemma base_adaptation_type [simp]: "a_type (base_adaptation t d) = t"
  by (simp add: base_adaptation_def)

definition result_inv :: "string \<Rightarrow> int \<Rightarrow> issue_result \<Rightarrow> bool" where
  "result_inv name n r \<longleftrightarrow> r_invocations r \<le> n \<and> int (length (r_adaptations r)) \<le> n \<and> debt_of name (r_debt r)"

lemma advice_finished:
  assumes "follow_advice name k d res st = Finished (Inr r)" and "advisor_inv name k st"
  shows "result_inv name (k + 1) r"
  using assms
  by (auto simp: follow_advice_def Let_def advisor_inv_def result_inv_def debt_of_def accept_with_debt_def
      split_issue_def escalate_issue_def zero_result_def mget_def lookup_def_def split: if_splits)

text \<open>What the coder alone returns carries no trace of the advisor.\<close>

definition unadvised :: "issue_result \<Rightarrow> bool" where
  "unadvised r \<longleftrightarrow> r_invocations r = 0 \<and> r_split r = None"

lemma executed_unadvised [simp]: "unadvised (executed_result name attempt res)"
  by (simp add: unadvised_def executed_result_def zero_result_def split: option.splits)

lemma execute_attempts_unadvised:
  "execute_attempts eng exec s name issue n attempt cur err w = (Inr r, w') \<Longrightarrow> unadvised r"
  by (induction eng exec s name issue n attempt cur err w rule: execute_attempts.induct)
    (auto simp: unadvised_def zero_result_def executed_unadvised [unfolded unadvised_def] split: prod.splits sum.splits if_splits)

lemma conclude_unadvised: "conclude x i ls fs coder v w = (Return (Inr r), w') \<Longrightarrow> unadvised r"
  by (auto simp: unadvised_def conclude_def Let_def base_result_def zero_result_def split: if_splits)

lemma coding_loop_unadvised:
  assumes "run_coding_loop x w = (Inr r, w')"
  shows "unadvised r"
proof -
  obtain start ls where s: "start_state x w = (start, ls)" by force
  from assms s have "run_iterations x (nat (c_max_iterations (x_cfg x) - start + 1)) start ls w = (Inr r, w')"
    by (simp add: run_coding_loop_def)
  from run_iterations_end [OF this] obtain j ls' w1 where
    "run_iteration x j ls' w1 = (Return (Inr r), w') \<or> exhausted x ls' w1 = (Inr r, w')" by blast
  then show ?thesis
  proof
    assume "run_iteration x j ls' w1 = (Return (Inr r), w')"
    then show ?thesis
      by (cases rule: run_iteration_cases) (auto simp: unadvised_def base_result_def zero_result_def dest: conclude_unadvised)
  next
    assume "exhausted x ls' w1 = (Inr r, w')"
    then show ?thesis by (auto simp: unadvised_def exhausted_def base_result_def zero_result_def Let_def split: if_splits)
  qed
qed

lemma coding_loop_names:
  assumes "run_coding_loop x w = (Inr r, w')"
  shows "r_name r = loop_name x"
proof -
  obtain start ls where s: "start_state x w = (start, ls)" by force
  from assms s have "run_iterations x (nat (c_max_iterations (x_cfg x) - start + 1)) start ls w = (Inr r, w')"
    by (simp add: run_coding_loop_def)
  from run_iterations_end [OF this] obtain j ls' w1 where
    "run_iteration x j ls' w1 = (Return (Inr r), w') \<or> exhausted x ls' w1 = (Inr r, w')" by blast
  then show ?thesis
  proof
    assume "run_iteration x j ls' w1 = (Return (Inr r), w')"
    then show ?thesis
      by (cases rule: run_iteration_cases) (auto simp: base_result_def dest: conclude_return)
  next
    assume "exhausted x ls' w1 = (Inr r, w')"
    then show ?thesis by (auto dest: exhausted_result)
  qed
qed

lemma attempt_unadvised: "attempt_issue eng s name issue w = (Inr r, w') \<Longrightarrow> unadvised r"
  by (auto simp: attempt_issue_def run_execute_fn_def dest: execute_attempts_unadvised coding_loop_unadvised
      split: option.splits)

lemma round_finished:
  assumes "advisor_round eng s original k st w = (Finished (Inr r), w')" and "advisor_inv (issue_name original) k st" and "0 \<le> k"
  shows "result_inv (issue_name original) (if k < max_advisor (e_cfg eng) then k + 1 else k) r"
proof -
  obtain ar w1 where a: "attempt_issue eng s (issue_name original) (w_issue st) w = (ar, w1)" by force
  from assms(1) a obtain res where res: "ar = Inr res"
    by (cases ar) (auto simp: advisor_round_def Let_def)
  show ?thesis
  proof (cases "is_success res")
    case True
    with assms a res attempt_unadvised [of eng s "issue_name original" "w_issue st" w res w1] show ?thesis
      by (auto simp: advisor_round_def Let_def result_inv_def advisor_inv_def unadvised_def)
  next
    case False
    with assms(1) a res obtain d where k: "k < max_advisor (e_cfg eng)"
      and d: "follow_advice (issue_name original) k d res st = Finished (Inr r)"
      by (auto simp: advisor_round_def Let_def split: option.splits if_splits prod.splits sum.splits)
    from advice_finished [OF d assms(2)] k show ?thesis by simp
  qed
qed

lemma round_gave_up:
  assumes "advisor_round eng s original k st w = (Gave_up res, w')"
  shows "\<exists>w1. attempt_issue eng s (issue_name original) (w_issue st) w = (Inr res, w1) \<and> \<not> is_success res"
  using assms
  by (auto simp: advisor_round_def Let_def follow_advice_def split: option.splits if_splits prod.splits sum.splits)

lemma round_again:
  assumes "advisor_round eng s original k st w = (Again res st', w')"
  shows "k < max_advisor (e_cfg eng) \<and> (\<exists>d. follow_advice (issue_name original) k d res st = Again res st') \<and>
    (\<exists>w1. attempt_issue eng s (issue_name original) (w_issue st) w = (Inr res, w1))"
proof -
  from assms obtain res0 w1 d where "k < max_advisor (e_cfg eng)" "follow_advice (issue_name original) k d res0 st = Again res st'"
    "attempt_issue eng s (issue_name original) (w_issue st) w = (Inr res0, w1)"
    by (auto simp: advisor_round_def Let_def split: option.splits if_splits prod.splits sum.splits)
  with again_res [OF this(2)] show ?thesis by auto
qed

lemma give_up_inv:
  "debt_of name (w_debt st) \<Longrightarrow> int (length (w_adaptations st)) \<le> n \<Longrightarrow> max_advisor cfg \<le> n \<Longrightarrow>
   result_inv name n (give_up cfg k res st)"
  by (auto simp: result_inv_def give_up_def)

lemma advisor_rounds_inv:
  assumes "advisor_rounds eng s original n k st prev w = (Inr r, w')"
    and "advisor_inv (issue_name original) k st" and "0 \<le> k"
    and "k \<le> max_advisor (e_cfg eng) \<and> k + int n = max_advisor (e_cfg eng) + 1 \<or> k = 0 \<and> n = 0 \<and> max_advisor (e_cfg eng) < 0"
  shows "result_inv (issue_name original) (max 0 (max_advisor (e_cfg eng))) r"
  using assms
proof (induction eng s original n k st prev w arbitrary: r rule: advisor_rounds.induct)
  case (1 eng s original k st prev w)
  then show ?case
    by (cases prev) (auto simp: advisor_inv_def debt_of_def result_inv_def zero_result_def give_up_def)
next
  case (2 eng s original n k st prev w)
  have k: "k \<le> max_advisor (e_cfg eng)" "k + 1 + int n = max_advisor (e_cfg eng) + 1" using "2.prems"(4) by auto
  obtain e w1 where e: "advisor_round eng s original k st w = (e, w1)" by force
  show ?case
  proof (cases e)
    case (Finished fr)
    with e "2.prems"(1) have "advisor_round eng s original k st w = (Finished (Inr r), w1)" by simp
    from round_finished [OF this "2.prems"(2,3)] k show ?thesis by (auto simp: result_inv_def split: if_splits)
  next
    case (Gave_up res)
    with e "2.prems" k show ?thesis by (auto simp: advisor_inv_def intro!: give_up_inv)
  next
    case (Again res st')
    from round_again [OF e [unfolded Again]] obtain d where
      d: "k < max_advisor (e_cfg eng)" "follow_advice (issue_name original) k d res st = Again res st'" by blast
    from advisor_inv_again [OF d(2) "2.prems"(2)] have "advisor_inv (issue_name original) (k + 1) st'" by simp
    with "2.IH" [OF e [symmetric] Again] "2.prems"(1,3) e Again d(1) k show ?thesis by auto
  qed
qed

text \<open>
  C23: However the coder and the issue advisor answer, an issue's result reports at most
  \<open>max_advisor_invocations\<close> advisor calls and at most as many adaptations (none when the advisor is
  off), and every debt item it carries names this issue.
\<close>

theorem advisor_loop_bounded:
  assumes "execute_single_issue eng s issue w = (Inr r, w')"
  shows "r_invocations r \<le> max 0 (max_advisor (e_cfg eng)) \<and>
    int (length (r_adaptations r)) \<le> max 0 (max_advisor (e_cfg eng)) \<and>
    (\<forall>d \<in> set (r_debt r). mget d ''issue_name'' = GStr (issue_name issue))"
proof -
  have "result_inv (issue_name issue) (max 0 (max_advisor (e_cfg eng))) r"
    using assms unfolding execute_single_issue_def
    by (rule advisor_rounds_inv) (auto simp: advisor_inv_def debt_of_def)
  then show ?thesis by (simp add: result_inv_def debt_of_def)
qed

text \<open>Without advisor calls no result asks for a split.\<close>

lemma no_advisor_no_split:
  assumes "execute_single_issue eng s issue w = (Inr r, w')" and "max_advisor (e_cfg eng) \<le> 0"
  shows "r_split r = None"
proof (cases "max_advisor (e_cfg eng) < 0")
  case True
  then have "nat (max_advisor (e_cfg eng) + 1) = 0" by simp
  with assms(1) show ?thesis by (auto simp: execute_single_issue_def zero_result_def)
next
  case False
  with assms(2) have m: "max_advisor (e_cfg eng) = 0" by simp
  obtain ar w1 where a: "attempt_issue eng s (issue_name issue) issue w = (ar, w1)" by force
  have "nat (max_advisor (e_cfg eng) + 1) = Suc 0" using m by simp
  with assms(1) a m show ?thesis
    by (cases ar) (auto simp: execute_single_issue_def advisor_round_def Let_def give_up_def unadvised_def
        dest!: attempt_unadvised split: option.splits if_splits)
qed

section \<open>The result names its issue\<close>

definition named :: "string \<Rightarrow> gmap \<Rightarrow> bool" where
  "named n issue \<longleftrightarrow> mget issue ''name'' = GStr n"

lemma named_issue_name: "named n issue \<Longrightarrow> issue_name issue = n"
  by (simp add: named_def issue_name_def)

lemma named_get_text: "named n issue \<Longrightarrow> get_text issue ''name'' d = n"
  by (auto simp: named_def mget_def lookup_def_def get_text_def split: option.splits)

lemma named_again: "follow_advice name k d res st = Again res' st' \<Longrightarrow> named n (w_issue st) \<Longrightarrow> named n (w_issue st')"
  by (auto simp: follow_advice_def Let_def named_def retry_modified_def retry_approach_def split: if_splits)

lemma advice_names: "follow_advice name k d res st = Finished (Inr r) \<Longrightarrow> r_name r = name"
  by (auto simp: follow_advice_def Let_def accept_with_debt_def split_issue_def escalate_issue_def split: if_splits)

lemma execute_attempts_name:
  "execute_attempts eng exec s name issue n attempt cur err w = (Inr r, w') \<Longrightarrow> r_name r = name"
  by (induction eng exec s name issue n attempt cur err w rule: execute_attempts.induct)
    (auto simp: executed_result_def split: prod.splits sum.splits if_splits option.splits)

lemma attempt_name:
  assumes "attempt_issue eng s n issue w = (Inr r, w')" and "named n issue"
  shows "r_name r = n"
proof (cases "e_execute eng")
  case (Some exec)
  with assms(1) show ?thesis by (auto simp: attempt_issue_def run_execute_fn_def dest: execute_attempts_name)
next
  case None
  with assms(1) obtain call where "run_coding_loop \<lparr>x_env = e_env eng, x_call = call, x_node = e_node eng, x_cfg = e_cfg eng,
           x_learn = e_learn eng, x_issue = issue, x_state = s\<rparr> w = (Inr r, w')"
    by (auto simp: attempt_issue_def split: option.splits)
  from coding_loop_names [OF this] assms(2) show ?thesis by (simp add: loop_name_def named_get_text)
qed

lemma advisor_rounds_name:
  "advisor_rounds eng s original n k st prev w = (Inr r, w') \<Longrightarrow> named nm original \<Longrightarrow> named nm (w_issue st) \<Longrightarrow>
   (\<And>p. prev = Some p \<Longrightarrow> r_name p = nm) \<Longrightarrow> r_name r = nm"
proof (induction eng s original n k st prev w arbitrary: r rule: advisor_rounds.induct)
  case (1 eng s original k st prev w)
  then show ?case by (cases prev) (auto simp: give_up_def named_issue_name)
next
  case (2 eng s original n k st prev w)
  obtain e w1 where e: "advisor_round eng s original k st w = (e, w1)" by force
  have nm: "issue_name original = nm" using "2.prems"(2) by (rule named_issue_name)
  show ?case
  proof (cases e)
    case (Finished fr)
    with e "2.prems"(1) have "advisor_round eng s original k st w = (Finished (Inr r), w1)" by simp
    then show ?thesis
      using attempt_name "2.prems"(3) advice_names
      by (auto simp: advisor_round_def Let_def nm split: option.splits if_splits prod.splits sum.splits)
  next
    case (Gave_up res)
    with round_gave_up [OF e [unfolded Gave_up]] attempt_name "2.prems" nm e show ?thesis
      by (auto simp: give_up_def)
  next
    case (Again res st')
    from round_again [OF e [unfolded Again]] obtain d where
      d: "follow_advice (issue_name original) k d res st = Again res st'" by blast
    have "r_name res = nm"
      using round_again [OF e [unfolded Again]] attempt_name "2.prems"(3) nm by blast
    with "2.IH" [OF e [symmetric] Again] "2.prems" e Again named_again [OF d] show ?thesis by auto
  qed
qed

section \<open>A level accounts for every issue\<close>

lemma run_issues_fst: "run_issues eng s issues w = (ocs, w') \<Longrightarrow> map fst ocs = issues"
  by (induction issues arbitrary: w ocs w') (auto simp: Let_def split: prod.splits)

lemma run_issues_from:
  "run_issues eng s issues w = (ocs, w') \<Longrightarrow> (issue, r) \<in> set ocs \<Longrightarrow> \<exists>w1 w2. execute_single_issue eng s issue w1 = (r, w2)"
  by (induction issues arbitrary: w ocs w') (auto simp: Let_def split: prod.splits, blast)

lemma settle_name:
  assumes "run_issues eng s issues w = (ocs, w')" and "oc \<in> set ocs" and "\<forall>issue \<in> set issues. \<exists>n. named n issue"
  shows "r_name (settle oc) = issue_name (fst oc)"
proof -
  obtain issue r where oc: "oc = (issue, r)" by force
  show ?thesis
  proof (cases r)
    case (Inl e)
    with oc show ?thesis by (simp add: settle_def)
  next
    case (Inr res)
    from run_issues_from [OF assms(1)] assms(2) oc Inr obtain w1 w2 where x: "execute_single_issue eng s issue w1 = (Inr res, w2)"
      by blast
    have "issue \<in> set issues" using run_issues_fst [OF assms(1)] assms(2) oc by force
    with assms(3) obtain n where n: "named n issue" by blast
    have "r_name res = n"
      using x [unfolded execute_single_issue_def] n n by (rule advisor_rounds_name [where st = "\<lparr>w_issue = issue, w_adaptations = [], w_debt = []\<rparr>", simplified]) simp
    with oc Inr n show ?thesis by (simp add: settle_def named_issue_name)
  qed
qed

definition level_names :: "level_result \<Rightarrow> string list" where
  "level_names l = map r_name (l_completed l @ l_failed l @ l_skipped l)"

lemma file_results_count:
  "count_list (level_names (foldl file_result l rs)) n = count_list (level_names l) n + count_list (map r_name rs) n"
  by (induction rs arbitrary: l) (auto simp: file_result_def level_names_def)

definition filed_ok :: "level_result \<Rightarrow> bool" where
  "filed_ok l \<longleftrightarrow> list_all is_success (l_completed l) \<and> list_all (\<lambda>r. \<not> is_success r) (l_failed l) \<and>
     list_all (\<lambda>r. r_outcome r = out_skipped) (l_skipped l)"

lemma file_results_ok: "filed_ok l \<Longrightarrow> filed_ok (foldl file_result l rs)"
  by (induction rs arbitrary: l) (auto simp: file_result_def filed_ok_def)

lemma execute_level_counts:
  assumes "execute_level eng s active level w = (l, w')" and "\<forall>issue \<in> set active. \<exists>n. mget issue ''name'' = GStr n"
  shows "count_list (level_names l) n = count_list (map issue_name active) n \<and> filed_ok l"
proof -
  obtain ocs w1 where r: "run_issues eng s active w = (ocs, w1)" by force
  with assms(1) have l: "l = foldl file_result \<lparr>l_index = level, l_completed = [], l_failed = [], l_skipped = []\<rparr> (map settle ocs)"
    by (simp add: execute_level_def)
  have "map r_name (map settle ocs) = map issue_name (map fst ocs)"
    using settle_name [OF r] assms(2) by (simp add: named_def)
  then have "map r_name (map settle ocs) = map issue_name active" using run_issues_fst [OF r] by simp
  then have "count_list (level_names l) n = count_list (map issue_name active) n"
    unfolding l file_results_count by (simp add: level_names_def del: map_map)
  moreover have "filed_ok l" unfolding l by (rule file_results_ok) (simp add: filed_ok_def)
  ultimately show ?thesis ..
qed

text \<open>
  C24: The level barrier loses no issue and invents none: among its completed, failed and skipped
  results every active issue has exactly as many as it occurs in the level, also when its run
  ended in an error. Completed are only the successes, and no failure is among them.
\<close>

theorem execute_level_accounts:
  assumes "execute_level eng s active level w = (l, w')" and "\<forall>issue \<in> set active. \<exists>n. mget issue ''name'' = GStr n"
  shows "count_list (level_names l) n = count_list (map issue_name active) n \<and> filed_ok l"
  using assms by (rule execute_level_counts)

section \<open>The gate helpers\<close>

lemma skip_downstream_frame: "\<exists>sk. skip_downstream s fs = s\<lparr>d_skipped := sk\<rparr>"
  by (induction s fs rule: skip_downstream.induct) (auto, metis dag_state.surjective dag_state.update_convs(13))

lemma skip_downstream_set:
  "set (d_skipped (skip_downstream s fs)) =
     set (d_skipped s) \<union> {n. \<exists>f \<in> set fs. (r_name f, n) \<in> (edges (\<lambda>_. True) (d_issues s))\<^sup>+}"
  by (induction s fs rule: skip_downstream.induct) (auto simp: set_find_downstream)

text \<open>
  After failures, exactly the issues that depend on a failed one, directly or through others,
  become skipped, each once; nothing else of the state changes.
\<close>

theorem skip_downstream_exact:
  "set (d_skipped (skip_downstream s fs)) =
     set (d_skipped s) \<union> {n. \<exists>f \<in> set fs. (r_name f, n) \<in> (edges (\<lambda>_. True) (d_issues s))\<^sup>+} \<and>
   (distinct (d_skipped (skip_downstream s fs)) \<longleftrightarrow> distinct (d_skipped s)) \<and>
   skip_downstream s fs = s\<lparr>d_skipped := d_skipped (skip_downstream s fs)\<rparr>"
proof (intro conjI)
  show "distinct (d_skipped (skip_downstream s fs)) \<longleftrightarrow> distinct (d_skipped s)"
    by (induction s fs rule: skip_downstream.induct) auto
  from skip_downstream_frame [of s fs] show "skip_downstream s fs = s\<lparr>d_skipped := d_skipped (skip_downstream s fs)\<rparr>" by auto
qed (rule skip_downstream_set)

lemma max_sequence_ge: "n \<le> max_sequence issues n \<and> (\<forall>i \<in> set issues. as_int (mget i ''sequence_number'') \<le> max_sequence issues n)"
proof (induction issues n rule: max_sequence.induct)
  case (2 issue issues n)
  then show ?case by (auto simp: Let_def split: if_splits)
qed simp

lemma number_unnumbered_new:
  "number_unnumbered issues n = (issues', n') \<Longrightarrow> n \<le> n' \<and> length issues' = length issues \<and>
   (\<forall>i < length issues. as_int (mget (issues ! i) ''sequence_number'') = 0 \<longrightarrow> as_int (mget (issues' ! i) ''sequence_number'') > n)"
proof (induction issues n arbitrary: issues' n' rule: number_unnumbered.induct)
  case (2 issue issues n)
  let ?u = "as_int (mget issue ''sequence_number'') = 0"
  let ?n1 = "if ?u then n + 1 else n"
  obtain rest n2 where r: "number_unnumbered issues ?n1 = (rest, n2)" by force
  from "2.IH" [OF refl refl r] r "2.prems" show ?case
    by (auto simp: Let_def nth_Cons split: nat.splits if_splits)
qed simp

text \<open>
  The issue writer gets other sequence numbers than the state has: every new issue that came
  without a number is handed to the writer with a number above all those in the state, among them
  the number \<open>ApplyReplan\<close> has just given that issue. So the name of its file
  (\<open>issue-<number>-<name>.md\<close>) does not fit its branch.
\<close>

theorem written_numbers_differ:
  assumes "i < length (p_new p)" and "as_int (mget (p_new p ! i) ''sequence_number'') = 0"
  shows "\<forall>issue \<in> set (d_issues s).
    as_int (mget issue ''sequence_number'') < as_int (mget (p_new (number_decision s p) ! i) ''sequence_number'')"
proof
  fix issue assume "issue \<in> set (d_issues s)"
  then have "as_int (mget issue ''sequence_number'') \<le> max_sequence (d_issues s) 0" using max_sequence_ge by blast
  moreover obtain new n' where "number_unnumbered (p_new p) (max_sequence (d_issues s) 0) = (new, n')" by force
  ultimately show "as_int (mget issue ''sequence_number'') < as_int (mget (p_new (number_decision s p) ! i) ''sequence_number'')"
    using number_unnumbered_new assms by (fastforce simp: number_decision_def)
qed

section \<open>Witnesses\<close>

text \<open>A coder that never changes a file, and an advisor that drops a criterion each time.\<close>

definition stubborn_call :: "unit call" where
  "stubborn_call target kwargs w =
     (Inr (if target = ''n.run_issue_advisor''
           then [(''action'', GStr ''retry_modified''), (''dropped_criteria'', GList [GStr ''fast'']), (''modified_acceptance_criteria'', GList [])]
           else if target = ''n.run_coder'' then []
           else blocking), w)"

definition demo_engine :: "unit call \<Rightarrow> unit engine" where
  "demo_engine call = \<lparr>e_env = demo_env, e_git = demo_git, e_call = Some call, e_execute = None, e_node = ''n'',
     e_cfg = (default_execution_config (\<lambda>_. []))\<lparr>c_max_iterations := 1\<rparr>, e_learn = False\<rparr>"

definition login :: gmap where
  "login = [(''name'', GStr ''login''), (''acceptance_criteria'', GList [GStr ''fast'', GStr ''safe''])]"

theorem advisor_loop_bounded_witness:
  "\<exists>r w'. execute_single_issue (demo_engine stubborn_call) zero_state login demo_world = (Inr r, w') \<and>
    \<not> is_success r \<and> r_debt r \<noteq> [] \<and> r_invocations r \<le> 2 \<and> (\<exists>d. d \<in> set (r_debt r) \<and> mget d ''issue_name'' = GStr ''login'')"
proof -
  let ?run = "execute_single_issue (demo_engine stubborn_call) zero_state login demo_world"
  have "case fst ?run of Inr r \<Rightarrow> \<not> is_success r \<and> r_debt r \<noteq> [] | Inl e \<Rightarrow> False" by code_simp
  then obtain r where r: "fst ?run = Inr r" "\<not> is_success r" "r_debt r \<noteq> []" by (auto split: sum.splits)
  have "max 0 (max_advisor (e_cfg (demo_engine stubborn_call))) = 2" by code_simp
  moreover have "issue_name login = ''login''" by code_simp
  moreover obtain d where "d \<in> set (r_debt r)" using r(3) by (cases "r_debt r") auto
  ultimately show ?thesis using advisor_loop_bounded [OF fst_pair [OF r(1)]] fst_pair [OF r(1)] r(2,3) by auto
qed

theorem execute_level_accounts_witness:
  "\<exists>l w'. execute_level (demo_engine stubborn_call) zero_state [login] 0 demo_world = (l, w') \<and>
    count_list (level_names l) ''login'' = 1 \<and> filed_ok l"
proof -
  obtain l w' where l: "execute_level (demo_engine stubborn_call) zero_state [login] 0 demo_world = (l, w')" by force
  have "\<forall>issue \<in> set [login]. \<exists>n. mget issue ''name'' = GStr n" by (simp add: login_def mget_def lookup_def_def)
  moreover have "issue_name login = ''login''" by code_simp
  ultimately show ?thesis using execute_level_accounts [OF l, of "''login''"] l by simp
qed

theorem written_numbers_differ_witness:
  "as_int (mget (p_new (number_decision (diamond_state\<lparr>d_issues := [[(''name'', GStr ''e''), (''sequence_number'', GInt 5)]]\<rparr>) swap_c_for_e) ! 0)
     ''sequence_number'') > 5"
proof -
  let ?s = "diamond_state\<lparr>d_issues := [[(''name'', GStr ''e''), (''sequence_number'', GInt 5)]]\<rparr>"
  have "0 < length (p_new swap_c_for_e)" "as_int (mget (p_new swap_c_for_e ! 0) ''sequence_number'') = 0"
    by (simp_all add: swap_c_for_e_def mget_def lookup_def_def as_int_def)
  from written_numbers_differ [OF this, of ?s] show ?thesis by (simp add: mget_def lookup_def_def as_int_def)
qed

end
