(* ===== verification/DagCorrect.thy ===== *)
theory DagCorrect
  imports DagRun IssueCorrect CodingCorrect
begin

text \<open>
  Correctness of the outer loop: checkpoints, what each gate may change, the invariants of the
  main loop (over its reachable passes), termination without splits, and the gates' end results.
\<close>

section \<open>Checkpoints\<close>

lemma join_ne: "xs \<noteq> [] \<Longrightarrow> [] \<notin> set xs \<Longrightarrow> join sep xs \<noteq> []"
  by (cases "(sep, xs)" rule: join.cases) auto

lemma clean_parts_ne: "[] \<notin> set acc \<Longrightarrow> [] \<notin> set (clean_parts rooted acc ps)"
proof (induction rooted acc ps rule: clean_parts.induct)
  case (2 rooted acc p ps)
  moreover have "[] \<notin> set (butlast acc)" using "2.prems" by (auto dest: in_set_butlastD)
  ultimately show ?case by auto
qed simp

lemma path_clean_ne: "path_clean p \<noteq> []"
proof -
  have "[] \<notin> set (clean_parts r [] ps)" for r ps by (rule clean_parts_ne) simp
  then show ?thesis by (auto simp: path_clean_def Let_def join_ne)
qed

lemma checkpoint_file_ne: "checkpoint_file d \<noteq> []"
  by (simp add: checkpoint_file_def path_join_def path_clean_ne)

lemma load_after_save:
  assumes "d_artifacts_dir s \<noteq> []" and "writable env w (checkpoint_path s)" and "state_ok s"
  shows "load_checkpoint (d_artifacts_dir s) (save_checkpoint env s w) = Some (trip_state s)"
proof -
  have "files (save_checkpoint env s w) (checkpoint_file (d_artifacts_dir s)) = Some (json_map (dag_state_json s))"
    using assms(1,2) by (simp add: save_checkpoint_def checkpoint_path_def checkpoint_file_ne files_write_json)
  then show ?thesis by (simp add: load_checkpoint_def decode_state [OF assms(3)] as_map_def)
qed

text \<open>
  C20: A run that resumes from the checkpoint another one saved starts from that one's state: every
  field comes back as it was, up to what JSON does to the dictionaries inside (ints become floats,
  typed slices untyped ones).
\<close>

theorem checkpoint_roundtrip:
  assumes "d_artifacts_dir s \<noteq> []" and "writable env w (checkpoint_path s)" and "state_ok s"
    and "o_resume opts" and "get_str plan ''artifacts_dir'' [] = d_artifacts_dir s"
  shows "start_run cfg opts plan repo (save_checkpoint env s w) = trip_state s"
  using assms load_after_save [OF assms(1-3)] by (simp add: start_run_def Let_def)

definition resume_opts :: "unit run_options" where
  "resume_opts = \<lparr>o_git = None, o_resume = True, o_build_id = [], o_manifest = None, o_level_complete = \<lambda>n w. w\<rparr>"

definition saved_state :: dag_state where
  "saved_state = zero_state\<lparr>d_artifacts_dir := ''.artifacts'', d_issues := [[(''name'', GStr ''a''), (''sequence_number'', GInt 10)]],
     d_levels := [[''a'']], d_level := 1, d_failed := [zero_result\<lparr>r_name := ''a'', r_split := Some []\<rparr>]\<rparr>"

theorem checkpoint_roundtrip_witness:
  "start_run (default_execution_config (\<lambda>_. [])) resume_opts [(''artifacts_dir'', GStr ''.artifacts'')] ''/r'' (save_checkpoint demo_env saved_state demo_world)
   = saved_state\<lparr>d_issues := [[(''name'', GStr ''a''), (''sequence_number'', GFloat 1 1)]]\<rparr>"
proof -
  have ok: "state_ok saved_state" by (simp add: state_ok_def saved_state_def zero_state_def result_ok_def zero_result_def int64_def)
  have "d_artifacts_dir saved_state \<noteq> []" "get_str [(''artifacts_dir'', GStr ''.artifacts'')] ''artifacts_dir'' [] = d_artifacts_dir saved_state"
    by (simp_all add: saved_state_def get_str_def)
  moreover have "writable demo_env demo_world (checkpoint_path saved_state)" by (simp add: demo_env_def)
  moreover have "norm_dec 10 0 = (1, 1)" by (simp add: norm_dec.simps)
  then have "trip_state saved_state = saved_state\<lparr>d_issues := [[(''name'', GStr ''a''), (''sequence_number'', GFloat 1 1)]]\<rparr>"
    by (simp add: trip_state_def saved_state_def zero_state_def trip_result_def zero_result_def json_map_def)
  ultimately show ?thesis using checkpoint_roundtrip [OF _ _ ok, of demo_env demo_world resume_opts]
    by (simp add: resume_opts_def)
qed

section \<open>What the gates may change\<close>

text \<open>The part of the state the loop is controlled by.\<close>

definition core :: "dag_state \<Rightarrow> gmap list \<times> string list list \<times> issue_result list \<times> issue_result list \<times> string list \<times> int \<times> int" where
  "core s = (d_issues s, d_levels s, d_completed s, d_failed s, d_skipped s, d_level s, d_replans s)"

lemma core_record_merge: "core (record_merge entry res s) = core s"
  by (simp add: core_def record_merge_def)

lemma core_record_merges: "record_merges outs good s = (good', s') \<Longrightarrow> core s' = core s"
  by (induction outs good s rule: record_merges.induct) (auto simp: core_record_merge)

lemma core_merge_level: "merge_level_branches eng call s l by_name conflicts w = (r, s', w') \<Longrightarrow> core s' = core s"
  by (auto simp: merge_level_branches_def Let_def core_record_merge dest: core_record_merges
      split: option.splits if_splits prod.splits sum.splits)

lemma core_integration_tests: "run_integration_tests eng call s merge l w = (r, s', w') \<Longrightarrow> core s' = core s"
  by (auto simp: run_integration_tests_def Let_def core_def split: if_splits prod.splits sum.splits option.splits)

lemma core_merge_gate:
  assumes "merge_gate eng conflicts active l s by_name w = (Inr (s', pending), w')"
  shows "core s' = core s"
proof (cases "e_call eng")
  case (Some call)
  obtain r s1 w1 where m: "merge_level_branches eng call s l by_name conflicts w = (r, s1, w1)" by (metis prod_cases3)
  note cm = core_merge_level [OF m]
  show ?thesis
  proof (cases r)
    case (Inr good)
    show ?thesis
    proof (cases good)
      case None
      with assms Some m Inr cm show ?thesis by (auto simp: merge_gate_def Let_def split: if_splits prod.splits)
    next
      case (Some merge)
      obtain t s2 w2 where t: "run_integration_tests eng call s1 merge l w1 = (t, s2, w2)" by (metis prod_cases3)
      from core_integration_tests [OF t] cm assms \<open>e_call eng = Some call\<close> m Inr Some t show ?thesis
        by (cases t) (auto simp: merge_gate_def Let_def split: if_splits prod.splits)
    qed
  qed (use assms Some m in \<open>auto simp: merge_gate_def Let_def split: if_splits\<close>)
qed (use assms in \<open>simp add: merge_gate_def\<close>)

text \<open>The two note gates rewrite issues in place, keeping their names.\<close>

definition same_but_issues :: "dag_state \<Rightarrow> dag_state \<Rightarrow> bool" where
  "same_but_issues s s' \<longleftrightarrow> snd (core s') = snd (core s) \<and> map (\<lambda>i. mget i ''name'') (d_issues s') = map (\<lambda>i. mget i ''name'') (d_issues s)"

lemma same_but_issues_refl: "same_but_issues s s"
  by (simp add: same_but_issues_def)

lemma same_but_issues_trans: "same_but_issues s s' \<Longrightarrow> same_but_issues s' s'' \<Longrightarrow> same_but_issues s s''"
  by (simp add: same_but_issues_def)

lemma book_debt_same: "same_but_issues s (book_debt s r)"
  by (simp add: same_but_issues_def book_debt_def core_def add_debt_note_def)

lemma debt_gate_same: "same_but_issues s (debt_gate l s)"
proof -
  have "same_but_issues s (foldl book_debt s rs)" for rs
    by (induction rs arbitrary: s) (auto intro: same_but_issues_refl same_but_issues_trans book_debt_same)
  then show ?thesis by (simp add: debt_gate_def)
qed

lemma enrich_downstream_same: "same_but_issues s (enrich_downstream s fs)"
proof (induction s fs rule: enrich_downstream.induct)
  case (2 s f fs)
  have "same_but_issues s (s\<lparr>d_issues := map (add_failure_note f (find_downstream (r_name f) (d_issues s))) (d_issues s)\<rparr>)"
    by (simp add: same_but_issues_def core_def add_failure_note_def)
  with 2 show ?case by (auto intro: same_but_issues_trans)
qed (simp add: same_but_issues_refl)

lemma same_but_issues_fields:
  assumes "same_but_issues s s'"
  shows "d_levels s' = d_levels s" "d_completed s' = d_completed s" "d_failed s' = d_failed s" "d_skipped s' = d_skipped s"
    "d_level s' = d_level s" "d_replans s' = d_replans s" "map issue_name (d_issues s') = map issue_name (d_issues s)"
proof -
  from assms show "d_levels s' = d_levels s" "d_completed s' = d_completed s" "d_failed s' = d_failed s" "d_skipped s' = d_skipped s"
    "d_level s' = d_level s" "d_replans s' = d_replans s"
    by (simp_all add: same_but_issues_def core_def)
  from assms have "map as_string (map (\<lambda>i. mget i ''name'') (d_issues s')) = map as_string (map (\<lambda>i. mget i ''name'') (d_issues s))"
    by (simp only: same_but_issues_def)
  then show "map issue_name (d_issues s') = map issue_name (d_issues s)"
    by (simp add: issue_name_def [abs_def] comp_def)
qed

end
