(* ===== verification/WorktreeCorrect.thy ===== *)
theory WorktreeCorrect
  imports Worktree IssueCorrect
begin

text \<open>
  What the git gates promise: worktree setup neither loses nor mixes up issues, cleanup fails only
  on fatal errors, and initialising a workspace touches nothing but the repositories' results.
\<close>

section \<open>Grouping\<close>

lemma count_list_concat_update:
  "count_list (map g (concat (map snd (AList.update k (lookup_def [] m k @ [x]) m)))) n =
   count_list (map g (concat (map snd m))) n + (if g x = n then 1 else 0)"
  by (induction m) (auto simp: lookup_def_def)

lemma group_by_count:
  "count_list (map g (concat (map snd (group_by f xs m)))) n =
   count_list (map g xs) n + count_list (map g (concat (map snd m))) n"
  by (induction f xs m rule: group_by.induct) (auto simp: count_list_concat_update)

section \<open>Worktree setup\<close>

lemma enrich_issue_name [simp]: "issue_name (enrich_issue m integration issue) = issue_name issue"
  by (simp add: enrich_issue_def split: option.splits)

lemma enrich_names [simp]: "map issue_name (enrich_issues_from_setup issues setup integration) = map issue_name issues"
  by (simp add: enrich_issues_from_setup_def)

lemma setup_repos_count:
  "setup_repos eng call s man build_id groups acc w = (Inr out, w') \<Longrightarrow>
   count_list (map issue_name out) n = count_list (map issue_name acc) n + count_list (map issue_name (concat (map snd groups))) n"
proof (induction eng call s man build_id groups acc w rule: setup_repos.induct)
  case (2 eng call s man build_id repo issues groups acc w)
  show ?case
  proof (cases "find_repo man repo")
    case None
    with 2 show ?thesis by simp
  next
    case (Some r)
    define integration where "integration = get_str (case y_git r of None \<Rightarrow> [] | Some g \<Rightarrow> g) ''integration_branch'' []"
    show ?thesis
    proof (cases "integration = []")
      case True
      with 2 Some show ?thesis by (simp add: integration_def Let_def)
    next
      case False
      obtain st w1 where st: "dispatch_workspace_setup eng call (y_path r) integration issues
          (path_join [y_path r, ''.worktrees'']) (d_artifacts_dir s) (d_level s) build_id w = (st, w1)" by force
      from "2.prems" Some False st obtain su where
        ok: "st = Inr su" and rest: "setup_repos eng call s man build_id groups
          (acc @ (if as_bool (mget su ''success'') then enrich_issues_from_setup issues su integration else issues)) w1 = (Inr out, w')"
        by (cases st) (auto simp: integration_def [symmetric] Let_def)
      have "map issue_name (if as_bool (mget su ''success'') then enrich_issues_from_setup issues su integration else issues)
        = map issue_name issues" by simp
      then show ?thesis
        using "2.IH"(3) [OF Some integration_def False st [symmetric] ok] rest by simp
    qed
  qed
qed simp

lemma setup_worktrees_count:
  assumes "setup_worktrees eng call s active build_id w = (Inr out, w')"
  shows "count_list (map issue_name out) n = count_list (map issue_name active) n"
proof (cases "d_manifest s")
  case None
  obtain r w1 where "dispatch_workspace_setup eng call (d_repo_path s) (d_integration_branch s) active (d_worktrees_dir s)
      (d_artifacts_dir s) (d_level s) build_id w = (r, w1)" by force
  with assms None show ?thesis by (cases r) (auto simp: setup_worktrees_def split: if_splits)
next
  case (Some m)
  with assms obtain man where "setup_repos eng call s man build_id
      (group_by (\<lambda>issue. let r = get_str issue ''target_repo'' [] in if r = [] then m_primary man else r) active []) [] w = (Inr out, w')"
    by (auto simp: setup_worktrees_def split: option.splits)
  from setup_repos_count [OF this] show ?thesis by (simp add: group_by_count)
qed

text \<open>
  Worktree setup loses no issue and adds none: whatever git and the workspace agent do, and
  however the issues are grouped by repository, the issues it hands on have the names it was given,
  each as often.
\<close>

theorem setup_keeps_issues:
  assumes "setup_worktrees eng call s active build_id w = (Inr out, w')"
  shows "count_list (map issue_name out) n = count_list (map issue_name active) n"
  using assms by (rule setup_worktrees_count)

section \<open>Which workspace an issue gets\<close>

definition ws_name :: "gmap \<Rightarrow> string" where
  "ws_name ws = as_string (mget ws ''issue_name'')"

lemma worktree_map_absent:
  "\<forall>ws \<in> set wss. ws_name ws \<noteq> n \<and> strip_seq_prefix (ws_name ws) \<noteq> n \<Longrightarrow> map_of (worktree_map wss m) n = map_of m n"
  by (induction wss m rule: worktree_map.induct) (auto simp: Let_def ws_name_def map_of_update)

lemma worktree_map_Cons: "\<exists>m'. worktree_map (w # wss) m = worktree_map wss m' \<and>
    map_of m' n = (if ws_name w = n \<or> strip_seq_prefix (ws_name w) = n then Some w else map_of m n)"
  by (intro exI [of _ "if strip_seq_prefix (ws_name w) \<noteq> ws_name w
        then AList.update (strip_seq_prefix (ws_name w)) w (AList.update (ws_name w) w m) else AList.update (ws_name w) w m"])
    (auto simp: Let_def ws_name_def map_of_update)

lemma worktree_map_only:
  "ws \<in> set wss \<Longrightarrow> ws_name ws = n \<Longrightarrow>
   (\<And>ws'. ws' \<in> set wss \<Longrightarrow> ws_name ws' = n \<or> strip_seq_prefix (ws_name ws') = n \<Longrightarrow> ws' = ws) \<Longrightarrow>
   map_of (worktree_map wss m) n = Some ws"
proof (induction wss arbitrary: m)
  case (Cons x wss)
  from worktree_map_Cons [of x wss m n] obtain m' where
    m': "worktree_map (x # wss) m = worktree_map wss m'"
      "map_of m' n = (if ws_name x = n \<or> strip_seq_prefix (ws_name x) = n then Some x else map_of m n)" by blast
  show ?case
  proof (cases "ws \<in> set wss")
    case True
    then have "map_of (worktree_map wss m') n = Some ws" by (rule Cons.IH) (use Cons.prems(2,3) in auto)
    then show ?thesis by (simp only: m'(1))
  next
    case False
    then have x: "x = ws" using Cons.prems(1) by simp
    have "\<forall>ws' \<in> set wss. ws_name ws' \<noteq> n \<and> strip_seq_prefix (ws_name ws') \<noteq> n" using Cons.prems(3) False by auto
    then have "map_of (worktree_map wss m') n = map_of m' n" by (rule worktree_map_absent)
    then show ?thesis using m' x Cons.prems(2) by simp
  qed
qed simp

lemma setup_each_entries:
  "setup_each g repo integration dir build_id issues acc w = (Inr ws, w') \<Longrightarrow>
   ws = acc @ map (\<lambda>i. workspace_entry i (fast_branch i build_id) (fast_worktree dir i build_id)) issues"
proof (induction issues arbitrary: acc w)
  case (Cons issue issues)
  obtain cd w1 where c: "add_worktree g repo (fast_branch issue build_id) (fast_worktree dir issue build_id) integration 3 [] w = (cd, w1)"
    by (metis surj_pair)
  with Cons.prems have "setup_each g repo integration dir build_id issues
      (acc @ [workspace_entry issue (fast_branch issue build_id) (fast_worktree dir issue build_id)]) w1 = (Inr ws, w')"
    by (cases cd) (auto simp: Let_def split: if_splits)
  from Cons.IH [OF this] show ?case by simp
qed simp

lemma get_str_name: "get_str issue ''name'' [] = issue_name issue"
  by (auto simp: get_str_def issue_name_def mget_def lookup_def_def as_string_def split: option.splits gval.splits)

lemma ws_name_entry [simp]: "ws_name (workspace_entry issue b p) = issue_name issue"
  by (simp add: ws_name_def workspace_entry_def get_str_name mget_def lookup_def_def)

lemma entry_fields:
  "mget (workspace_entry issue b p) ''worktree_path'' = GStr p" "mget (workspace_entry issue b p) ''branch_name'' = GStr b"
  by (simp_all add: workspace_entry_def mget_def lookup_def_def)

lemma fast_setup_workspaces:
  assumes "fast_setup_worktrees g repo integration issues dir build_id w = (Inr su, w')"
  shows "maps_of (mget su ''workspaces'') =
      map (\<lambda>i. workspace_entry i (fast_branch i build_id) (fast_worktree dir i build_id)) issues \<and> as_bool (mget su ''success'')"
proof -
  from assms obtain ws w1 w2 where "setup_each g repo integration dir build_id issues [] w1 = (Inr ws, w2)"
    and "su = [(''success'', GBool True), (''workspaces'', GList (map GMap ws))]"
    by (auto simp: fast_setup_worktrees_def split: if_splits prod.splits option.splits sum.splits)
  then show ?thesis
    using setup_each_entries [of g repo integration dir build_id issues "[]" w1 ws w2] only_maps_map_GMap [of id ws]
    by (simp add: maps_of_def as_map_slice_def mget_def lookup_def_def as_bool_def)
qed

text \<open>
  After a deterministic setup an issue of the level gets the worktree and the branch made for
  it, provided its name is not another issue's name behind a sequence prefix (\<open>NN-\<close>). Without the
  proviso it can get another's: next to \<open>02-foo\<close> the issue \<open>foo\<close> is sent to the worktree of
  \<open>02-foo\<close>, so the two run in the same directory.
\<close>

theorem worktrees_assigned:
  assumes "fast_setup_worktrees g repo integration issues dir build_id w = (Inr su, w')"
    and "distinct (map issue_name issues)" and "issue \<in> set issues"
    and "\<forall>other \<in> set issues. strip_seq_prefix (issue_name other) = issue_name issue \<longrightarrow> other = issue"
  shows "enrich_issue (worktree_map (maps_of (mget su ''workspaces'')) []) integration issue =
      mset (mset (mset issue ''worktree_path'' (GStr (fast_worktree dir issue build_id)))
        ''branch_name'' (GStr (fast_branch issue build_id))) ''integration_branch'' (GStr integration) \<and>
    (let foo = [(''name'', GStr ''foo''), (''sequence_number'', GInt 1)]; foo2 = [(''name'', GStr ''02-foo''), (''sequence_number'', GInt 2)]
     in get_str (enrich_issues_from_setup [foo, foo2]
          [(''workspaces'', GList [GMap (workspace_entry foo ''issue/01-foo'' ''/wt/issue-01-foo''),
             GMap (workspace_entry foo2 ''issue/02-02-foo'' ''/wt/issue-02-02-foo'')])] ''int'' ! 0) ''worktree_path'' [] = ''/wt/issue-02-02-foo'')"
proof
  let ?e = "\<lambda>i. workspace_entry i (fast_branch i build_id) (fast_worktree dir i build_id)"
  from fast_setup_workspaces [OF assms(1)] have ws: "maps_of (mget su ''workspaces'') = map ?e issues" by simp
  have "map_of (worktree_map (map ?e issues) []) (issue_name issue) = Some (?e issue)"
  proof (rule worktree_map_only)
    fix ws' assume "ws' \<in> set (map ?e issues)" and eq: "ws_name ws' = issue_name issue \<or> strip_seq_prefix (ws_name ws') = issue_name issue"
    then obtain other where o: "other \<in> set issues" "ws' = ?e other" by auto
    with eq assms have "other = issue" by (auto simp: distinct_map inj_on_def)
    with o show "ws' = ?e issue" by simp
  qed (use assms(3) in auto)
  then show "enrich_issue (worktree_map (maps_of (mget su ''workspaces'')) []) integration issue =
      mset (mset (mset issue ''worktree_path'' (GStr (fast_worktree dir issue build_id)))
        ''branch_name'' (GStr (fast_branch issue build_id))) ''integration_branch'' (GStr integration)"
    by (simp add: ws enrich_issue_def entry_fields)
qed code_simp

section \<open>Cleanup\<close>

lemma cleanup_attempts_error: "cleanup_attempts ask n w = (Some e, w') \<Longrightarrow> is_fatal e"
  by (induction ask n w rule: cleanup_attempts.induct) (auto split: prod.splits sum.splits if_splits)

lemma cleanup_single_error: "cleanup_single_repo eng call repo dir branches artifacts level w = (Some e, w') \<Longrightarrow> is_fatal e"
  by (auto simp: cleanup_single_repo_def Let_def dest: cleanup_attempts_error split: if_splits prod.splits sum.splits)

lemma cleanup_repos_error: "cleanup_repos eng call s man groups level w = (Some e, w') \<Longrightarrow> is_fatal e"
  by (induction eng call s man groups level w rule: cleanup_repos.induct)
    (auto dest: cleanup_single_error split: option.splits prod.splits)

text \<open>
  Cleaning up fails only with a fatal harness error, or because the workspace manifest does not
  decode; every other failure is retried once and then given up silently. With deterministic git a
  repository that can be read never fails.
\<close>

theorem cleanup_errors:
  assumes "cleanup_worktrees eng call s branches level completed w = (Some e, w')"
  shows "(is_fatal e \<or> e = decode_error \<and> (\<exists>m. d_manifest s = Some m \<and> manifest_from_map m = None)) \<and>
    branches \<noteq> [] \<and>
    (d_manifest s = None \<and> c_deterministic_git (e_cfg eng) \<longrightarrow>
      (\<exists>err w1. fast_cleanup_worktrees (e_git eng) (d_repo_path s) (d_worktrees_dir s) branches w = (Inl err, w1)))"
proof (intro conjI)
  show "branches \<noteq> []" using assms by (auto simp: cleanup_worktrees_def)
  show "is_fatal e \<or> e = decode_error \<and> (\<exists>m. d_manifest s = Some m \<and> manifest_from_map m = None)"
    using assms by (auto simp: cleanup_worktrees_def dest: cleanup_single_error cleanup_repos_error split: if_splits option.splits)
  show "d_manifest s = None \<and> c_deterministic_git (e_cfg eng) \<longrightarrow>
      (\<exists>err w1. fast_cleanup_worktrees (e_git eng) (d_repo_path s) (d_worktrees_dir s) branches w = (Inl err, w1))"
    using assms by (auto simp: cleanup_worktrees_def cleanup_single_repo_def split: if_splits option.splits prod.splits sum.splits)
qed

section \<open>Witnesses\<close>

theorem setup_keeps_issues_witness:
  "\<exists>out w'. setup_worktrees (demo_engine stubborn_call) stubborn_call (zero_state\<lparr>d_integration_branch := ''int''\<rparr>) [login] [] demo_world = (Inr out, w') \<and>
    count_list (map issue_name out) ''login'' = 1"
proof -
  let ?run = "setup_worktrees (demo_engine stubborn_call) stubborn_call (zero_state\<lparr>d_integration_branch := ''int''\<rparr>) [login] [] demo_world"
  have "case fst ?run of Inr out \<Rightarrow> True | Inl e \<Rightarrow> False" by code_simp
  then obtain out where r: "fst ?run = Inr out" by (auto split: sum.splits)
  have "issue_name login = ''login''" by code_simp
  then show ?thesis using setup_keeps_issues [OF fst_pair [OF r], of "''login''"] fst_pair [OF r] by auto
qed

theorem worktrees_assigned_witness:
  "\<exists>su w'. fast_setup_worktrees demo_git ''/r'' ''int'' [login] ''/wt'' [] demo_world = (Inr su, w') \<and>
    mget (enrich_issue (worktree_map (maps_of (mget su ''workspaces'')) []) ''int'' login) ''branch_name'' = GStr ''issue/00-login''"
proof -
  let ?run = "fast_setup_worktrees demo_git ''/r'' ''int'' [login] ''/wt'' [] demo_world"
  have "case fst ?run of Inr su \<Rightarrow> True | Inl e \<Rightarrow> False" by code_simp
  then obtain su where r: "fst ?run = Inr su" by (auto split: sum.splits)
  have "fast_branch login [] = ''issue/00-login''" by code_simp
  then show ?thesis using worktrees_assigned [OF fst_pair [OF r], of login] fst_pair [OF r] by auto
qed

text \<open>A cleanup agent whose harness is out of credit, in a directory that is no repository.\<close>

definition broke_call :: "unit call" where
  "broke_call target kwargs w = (Inl (Fatal ''credit exhausted''), w)"

definition no_git :: "unit git_env" where
  "no_git = demo_git\<lparr>g_exec := \<lambda>repo args w. (([], [], Some (128, ''exit status 128'')), w)\<rparr>"

theorem cleanup_errors_witness:
  "\<exists>e w'. cleanup_worktrees ((demo_engine broke_call)\<lparr>e_git := no_git\<rparr>) broke_call zero_state [''issue/01-a''] 0 [] demo_world = (Some e, w') \<and>
    is_fatal e \<and> d_manifest zero_state = None"
proof -
  let ?run = "cleanup_worktrees ((demo_engine broke_call)\<lparr>e_git := no_git\<rparr>) broke_call zero_state [''issue/01-a''] 0 [] demo_world"
  have "fst ?run \<noteq> None" by code_simp
  then obtain e where r: "fst ?run = Some e" by auto
  have "d_manifest zero_state = None" by (simp add: zero_state_def)
  then show ?thesis using cleanup_errors [OF fst_pair [OF r]] fst_pair [OF r] by auto
qed

end
