(* ===== verification/RunInvariant.thy ===== *)
theory RunInvariant
  imports DagCorrect WorktreeCorrect
begin

text \<open>
  The invariant of the main loop: issue names are not empty, the index maps a name to an issue of
  that name, no level holds a name twice, and no two results are for the same name. Every gate
  keeps it, so it holds whenever a run returns a state.
\<close>

section \<open>Names\<close>

lemma name_string: "issue_name i \<noteq> [] \<Longrightarrow> \<exists>n. mget i ''name'' = GStr n"
  by (auto simp: issue_name_def as_string_def split: gval.splits)

definition all_named :: "gmap list \<Rightarrow> bool" where
  "all_named issues \<longleftrightarrow> [] \<notin> set (map issue_name issues)"

definition index_ok :: "issue_index \<Rightarrow> bool" where
  "index_ok idx \<longleftrightarrow> (\<forall>n i. map_of idx n = Some i \<longrightarrow> issue_name i = n \<and> n \<noteq> [])"

lemma index_ok_update: "index_ok idx \<Longrightarrow> issue_name i \<noteq> [] \<Longrightarrow> index_ok (AList.update (issue_name i) i idx)"
  by (simp add: index_ok_def map_of_update)

lemma index_issues_named: "index_ok idx \<Longrightarrow> all_named issues \<Longrightarrow> index_ok (index_issues issues idx)"
proof (induction issues idx rule: index_issues.induct)
  case (2 i issues idx)
  then have "issue_name i \<noteq> []" and "all_named issues" by (auto simp: all_named_def)
  with 2 index_ok_update show ?case by simp
qed simp

lemma index_of_issues [simp]: "all_named issues \<Longrightarrow> index_ok (index_issues issues [])"
  by (rule index_issues_named) (simp_all add: index_ok_def)

lemma index_no_empty: "index_ok idx \<Longrightarrow> map_of idx [] = None"
  by (cases "map_of idx []") (auto simp: index_ok_def)

lemma index_name: "index_ok idx \<Longrightarrow> map_of idx n = Some i \<Longrightarrow> issue_name i = n"
  by (simp add: index_ok_def)

lemma all_named_cong: "map issue_name issues' = map issue_name issues \<Longrightarrow> all_named issues' = all_named issues"
  by (simp only: all_named_def)

text \<open>Equal counts of names: what a permutation of the issues keeps.\<close>

lemma same_counts:
  assumes "\<And>n. count_list xs n = count_list ys n"
  shows "set xs = set ys" "distinct xs = distinct ys"
proof -
  show s: "set xs = set ys" using assms by (metis count_list_0_iff subsetI subset_antisym)
  have "distinct zs \<longleftrightarrow> (\<forall>n. count_list zs n \<le> 1)" for zs :: "'a list"
  proof (induction zs)
    case (Cons a zs)
    have "(\<forall>n. count_list (a # zs) n \<le> 1) \<longleftrightarrow> count_list zs a = 0 \<and> (\<forall>n. count_list zs n \<le> 1)"
    proof (intro iffI conjI allI)
      assume le: "\<forall>n. count_list (a # zs) n \<le> 1"
      show "count_list zs a = 0" using le [THEN spec, of a] by simp
      show "count_list zs n \<le> 1" for n using le [THEN spec, of n] by (simp split: if_splits)
    qed auto
    with Cons show ?case by (simp add: count_list_0_iff)
  qed simp
  with assms show "distinct xs = distinct ys" by simp
qed

section \<open>The head of a level\<close>

lemma active_names:
  "index_ok idx \<Longrightarrow> map issue_name (active_issues s idx names) = filter (\<lambda>n. map_of idx n \<noteq> None \<and> n \<notin> set (done_names s)) names"
  by (induction names) (auto simp: active_issues_def dest: index_name split: option.splits)

lemma active_named: "index_ok idx \<Longrightarrow> all_named (active_issues s idx names)"
  unfolding all_named_def by (subst active_names) (auto simp: index_no_empty)

lemma persist_names: "index_ok (index_issues enriched []) \<Longrightarrow> map issue_name (persist_enriched enriched issues) = map issue_name issues"
  by (auto simp: persist_enriched_def Let_def index_ok_def split: option.splits)

lemma reselect_names: "index_ok idx \<Longrightarrow> map issue_name (reselect active idx) = map issue_name active"
  by (auto simp: reselect_def index_ok_def split: option.splits)

lemma prepare_level_ok:
  assumes "prepare_level eng s idx active w = (Inr (s', idx', active'), w')"
    and "all_named (d_issues s)" and "index_ok idx" and "all_named active"
  shows "snd (core s') = snd (core s)" "map issue_name (d_issues s') = map issue_name (d_issues s)" "index_ok idx'"
    "\<And>n. count_list (map issue_name active') n = count_list (map issue_name active) n"
proof -
  have "snd (core s') = snd (core s) \<and> map issue_name (d_issues s') = map issue_name (d_issues s) \<and> index_ok idx' \<and>
    (\<forall>n. count_list (map issue_name active') n = count_list (map issue_name active) n)"
  proof (cases "e_call eng = None \<or> d_integration_branch s = []")
    case True
    with assms show ?thesis by (auto simp: prepare_level_def split: option.splits)
  next
    case False
    with assms(1) obtain call enriched w1 where
      su: "setup_worktrees eng call s active (d_build_id s) w = (Inr enriched, w1)"
      and s': "s' = s\<lparr>d_issues := persist_enriched enriched (d_issues s)\<rparr>"
      and idx': "idx' = index_issues (persist_enriched enriched (d_issues s)) []"
      and a': "active' = reselect enriched idx'"
      by (auto simp: prepare_level_def Let_def split: prod.splits sum.splits)
    note counts = setup_worktrees_count [OF su]
    have "all_named enriched" using same_counts(1) [OF counts] assms(4) unfolding all_named_def by blast
    then have names: "map issue_name (persist_enriched enriched (d_issues s)) = map issue_name (d_issues s)"
      by (intro persist_names) simp
    then have "index_ok idx'" unfolding idx' using assms(2) by (simp add: all_named_def)
    then show ?thesis using names counts by (simp add: s' a' reselect_names core_def)
  qed
  then show "snd (core s') = snd (core s)" "map issue_name (d_issues s') = map issue_name (d_issues s)" "index_ok idx'"
    "\<And>n. count_list (map issue_name active') n = count_list (map issue_name active) n" by blast+
qed

section \<open>Replans\<close>

text \<open>What a replan does to the names and the results, whether it is accepted or not.\<close>

lemma apply_replan_frame:
  "apply_replan s p = (s', r) \<Longrightarrow>
   d_completed s' = d_completed s \<and> d_failed s' = d_failed s \<and> set (d_skipped s) \<subseteq> set (d_skipped s') \<and>
   (all_named (d_issues s) \<longrightarrow> all_named (d_issues s')) \<and>
   ((\<forall>lv \<in> set (d_levels s). distinct lv) \<longrightarrow> (\<forall>lv \<in> set (d_levels s'). distinct lv)) \<and>
   (d_level s' = d_level s \<or> d_level s' = 0)"
proof -
  assume r: "apply_replan s p = (s', r)"
  let ?rem = "map snd (replanned_set s p)"
  consider (kept) "p_action p = replan_abort \<or> p_action p = replan_continue"
    | (rejected) e where "p_action p \<noteq> replan_abort" "p_action p \<noteq> replan_continue"
        "recompute_levels ?rem (\<lambda>n. n \<in> set (completed_names s)) = Inl e"
    | (accepted) levels where "p_action p \<noteq> replan_abort" "p_action p \<noteq> replan_continue"
        "recompute_levels ?rem (\<lambda>n. n \<in> set (completed_names s)) = Inr levels"
    by (cases "recompute_levels ?rem (\<lambda>n. n \<in> set (completed_names s))") auto
  then show ?thesis
  proof cases
    case kept
    with r show ?thesis by (auto simp: apply_replan_def)
  next
    case rejected
    with r show ?thesis by (auto simp: apply_replan_def Let_def skip_names_def)
  next
    case (accepted levels)
    with r have s': "s' = (skip_names (p_skipped p) s)\<lparr>d_issues := filter (\<lambda>issue. settled s (issue_name issue)) (d_issues s) @ ?rem,
        d_levels := levels, d_level := 0, d_replans := d_replans s + 1, d_history := d_history s @ [p]\<rparr>"
      by (auto simp: apply_replan_def Let_def)
    from recompute.sound [OF accepted(3)] have "\<forall>lv \<in> set levels. distinct lv"
      by (auto simp: topological_def distinct_concat_iff)
    moreover have "all_named ?rem" if "all_named (d_issues s)"
      unfolding all_named_def set_ok_names [OF replanned_ok] replanned_names using that by (simp add: all_named_def)
    ultimately show ?thesis by (auto simp: s' skip_names_def all_named_def)
  qed
qed

section \<open>The gates keep the invariant\<close>

definition shape :: "dag_state \<Rightarrow> issue_index \<Rightarrow> bool" where
  "shape s idx \<longleftrightarrow> all_named (d_issues s) \<and> index_ok idx \<and> (\<forall>lv \<in> set (d_levels s). distinct lv) \<and> 0 \<le> d_level s"

text \<open>No recorded result is touched, and no skipped issue comes back.\<close>

definition keeps :: "dag_state \<Rightarrow> dag_state \<Rightarrow> bool" where
  "keeps s s' \<longleftrightarrow> d_completed s' = d_completed s \<and> d_failed s' = d_failed s \<and> set (d_skipped s) \<subseteq> set (d_skipped s')"

lemma keeps_refl [simp]: "keeps s s"
  by (simp add: keeps_def)

lemma keeps_trans: "keeps s s' \<Longrightarrow> keeps s' s'' \<Longrightarrow> keeps s s''"
  by (auto simp: keeps_def)

lemma shape_core: "core s' = core s \<Longrightarrow> shape s' idx = shape s idx"
  by (simp add: core_def shape_def)

lemma keeps_core: "core s' = core s \<Longrightarrow> keeps s s'"
  by (simp add: core_def keeps_def)

lemma shape_same: "same_but_issues s s' \<Longrightarrow> shape s' idx = shape s idx"
  using same_but_issues_fields [of s s'] all_named_cong [of "d_issues s'" "d_issues s"] by (simp add: shape_def)

lemma keeps_same: "same_but_issues s s' \<Longrightarrow> keeps s s'"
  using same_but_issues_fields [of s s'] by (simp add: keeps_def)

lemma apply_replan_keeps: "apply_replan s p = (s', r) \<Longrightarrow> keeps s s'"
  using apply_replan_frame [of s p s' r] by (simp add: keeps_def)

lemma apply_replan_shape: "apply_replan s p = (s', r) \<Longrightarrow> shape s idx \<Longrightarrow> shape s' idx"
  using apply_replan_frame [of s p s' r] by (auto simp: shape_def)

lemma record_written_ok [simp]: "keeps s (record_written p s)" "shape (record_written p s) idx = shape s idx"
  by (simp_all add: keeps_def shape_def record_written_def)

lemma shape_reindex: "shape s idx \<Longrightarrow> shape s (index_issues (d_issues s) [])"
  by (simp add: shape_def)

lemma split_each_ok:
  "split_each eng call fs s idx w = (s', idx', w') \<Longrightarrow> keeps s s' \<and> (shape s idx \<longrightarrow> shape s' idx')"
proof (induction eng call fs s idx w rule: split_each.induct)
  case (2 eng call f fs s idx w)
  obtain s1 r where ap: "apply_replan s (split_decision f) = (s1, r)" by force
  show ?case
  proof (cases r)
    case None
    obtain p w1 where wr: "write_issue_files eng call s1 (split_decision f) w = (p, w1)" by force
    with "2.prems" ap None have rest:
      "split_each eng call fs (record_written p s1) (index_issues (d_issues s1) []) w1 = (s', idx', w')" by simp
    have "keeps s (record_written p s1)" using apply_replan_keeps [OF ap] record_written_ok(1) by (rule keeps_trans)
    moreover have "shape (record_written p s1) (index_issues (d_issues s1) [])" if "shape s idx"
      using apply_replan_shape [OF ap that] by (simp add: shape_reindex)
    moreover note "2.IH"(1) [OF ap [symmetric] None refl wr [symmetric] rest]
    ultimately show ?thesis by (blast intro: keeps_trans)
  next
    case (Some err)
    with "2.prems" ap have rest: "split_each eng call fs s1 idx w = (s', idx', w')" by simp
    from "2.IH"(2) [OF ap [symmetric] Some rest] apply_replan_keeps [OF ap] apply_replan_shape [OF ap, of idx]
    show ?thesis by (blast intro: keeps_trans)
  qed
qed simp

lemma split_gate_ok:
  "split_gate eng l s idx w = ((s', idx', failed), w') \<Longrightarrow>
   keeps s s' \<and> (shape s idx \<longrightarrow> shape s' idx') \<and> set failed \<subseteq> set (l_failed l)"
  by (auto simp: split_gate_def Let_def dest: split_each_ok split: option.splits if_splits prod.splits)

lemma skip_downstream_ok: "keeps s (skip_downstream s fs) \<and> shape (skip_downstream s fs) idx = shape s idx"
proof -
  obtain sk where "skip_downstream s fs = s\<lparr>d_skipped := sk\<rparr>" using skip_downstream_frame by blast
  moreover have "set (d_skipped s) \<subseteq> set (d_skipped (skip_downstream s fs))" by (simp add: skip_downstream_set)
  ultimately show ?thesis by (simp add: keeps_def shape_def)
qed

fun gate_ok :: "dag_state \<Rightarrow> issue_index \<Rightarrow> gate_end \<Rightarrow> bool" where
  "gate_ok s idx (Proceed s') = (keeps s s' \<and> (shape s idx \<longrightarrow> shape s' idx))"
| "gate_ok s idx (Restart s' idx') = (keeps s s' \<and> (shape s idx \<longrightarrow> shape s' idx'))"
| "gate_ok s idx (Stop s') = (keeps s s' \<and> (shape s idx \<longrightarrow> shape s' idx))"
| "gate_ok s idx (Fail e) = True"

lemma count_replan_core [simp]: "keeps s (count_replan p s)" "shape (count_replan p s) idx = shape s idx"
  by (simp_all add: keeps_def shape_def count_replan_def)

lemma follow_decision_ok: "follow_decision eng s fs pending p w = (g, w') \<Longrightarrow> gate_ok s idx g"
proof -
  assume f: "follow_decision eng s fs pending p w = (g, w')"
  consider (abort) "p_action p = replan_abort" | (cont) "p_action p = replan_continue"
    | (restructure) "p_action p \<noteq> replan_abort" "p_action p \<noteq> replan_continue" by blast
  then show ?thesis
  proof cases
    case abort
    with f show ?thesis by (auto simp: follow_decision_def split: option.splits)
  next
    case cont
    let ?s = "count_replan p (enrich_downstream s fs)"
    note same = enrich_downstream_same [of s fs]
    have "keeps s ?s" using keeps_same [OF same] count_replan_core(1) by (rule keeps_trans)
    moreover have "shape ?s idx = shape s idx" using shape_same [OF same] by simp
    moreover have "keeps ?s (skip_downstream ?s fs)" "shape (skip_downstream ?s fs) idx = shape ?s idx"
      using skip_downstream_ok by blast+
    moreover have "g = Proceed (skip_downstream ?s fs)" using f cont by (simp add: follow_decision_def)
    ultimately show ?thesis by (auto elim: keeps_trans)
  next
    case restructure
    obtain s1 r where ap: "apply_replan s p = (s1, r)" by force
    note ok = apply_replan_keeps [OF ap] apply_replan_shape [OF ap, of idx]
    show ?thesis
    proof (cases r)
      case None
      obtain p' w1 where wr: "written_decision eng s1 p w = (p', w1)" by force
      have "keeps s (record_written p' s1)" using ok(1) record_written_ok(1) by (rule keeps_trans)
      moreover have "shape s idx \<longrightarrow> shape (record_written p' s1) (index_issues (d_issues s1) [])"
        using ok(2) shape_reindex by auto
      ultimately show ?thesis using f restructure ap None wr
        by (auto simp: follow_decision_def Let_def split: option.splits)
    next
      case (Some err)
      have "keeps s (skip_downstream s1 fs)" using ok(1) skip_downstream_ok keeps_trans by blast
      moreover have "shape s idx \<longrightarrow> shape (skip_downstream s1 fs) idx" using ok(2) skip_downstream_ok by blast
      ultimately show ?thesis using f restructure ap Some
        by (auto simp: follow_decision_def split: option.splits)
    qed
  qed
qed

lemma replan_gate_ok: "replan_gate eng s failed pending w = (g, w') \<Longrightarrow> gate_ok s idx g"
  using skip_downstream_ok [of s "unrecoverable failed" idx]
  by (auto simp: replan_gate_def Let_def dest: follow_decision_ok split: if_splits prod.splits sum.splits)

fun pass_ok :: "dag_state \<Rightarrow> issue_index \<Rightarrow> pass_end \<Rightarrow> bool" where
  "pass_ok s idx (Loop s' idx') = (keeps s s' \<and> (shape s idx \<longrightarrow> shape s' idx'))"
| "pass_ok s idx (Leave s') = (keeps s s' \<and> (shape s idx \<longrightarrow> shape s' idx))"
| "pass_ok s idx (End (Returned None e)) = True"
| "pass_ok s idx (End r) = False"

lemma close_level_ok: "close_level opts idx pending (g, w) = (e, w') \<Longrightarrow> gate_ok s idx g \<Longrightarrow> pass_ok s idx e"
  by (cases g) (auto simp: close_level_def shape_def keeps_def split: option.splits)

lemma run_gates_ok:
  assumes "run_gates eng opts conflicts active l s idx w = (e, w')"
  shows "(\<exists>s' idx'. keeps s s' \<and> (shape s idx \<longrightarrow> shape s' idx') \<and> pass_ok s' idx' e) \<or> (\<exists>e'. e = End (Returned None (Some e')))"
proof -
  obtain m w1 where m: "merge_gate eng conflicts active l s idx w = (m, w1)" by force
  show ?thesis
  proof (cases m)
    case (Inl e')
    with assms m show ?thesis by (auto simp: run_gates_def)
  next
    case (Inr sp)
    obtain s1 pending where sp: "sp = (s1, pending)" by force
    obtain s2 idx2 failed w2 where sg: "split_gate eng l (debt_gate l s1) idx w1 = ((s2, idx2, failed), w2)" by (metis surj_pair)
    obtain g w3 where g: "replan_gate eng s2 failed pending w2 = (g, w3)" by force
    from assms m Inr sp sg g have e: "close_level opts idx2 pending (g, w3) = (e, w')" by (simp add: run_gates_def Let_def)
    have c1: "core s1 = core s" using core_merge_gate m Inr sp by blast
    have "keeps s (debt_gate l s1)" using keeps_core [OF c1] keeps_same [OF debt_gate_same] by (rule keeps_trans)
    moreover have "shape (debt_gate l s1) idx = shape s idx" using shape_core [OF c1] shape_same [OF debt_gate_same] by simp
    ultimately have "keeps s s2" "shape s idx \<longrightarrow> shape s2 idx2" using split_gate_ok [OF sg] keeps_trans by blast+
    moreover have "pass_ok s2 idx2 e" by (rule close_level_ok [OF e]) (rule replan_gate_ok [OF g])
    ultimately show ?thesis by blast
  qed
qed

end
