(* ===== verification/RunCorrect.thy ===== *)
theory RunCorrect
  imports RunInvariant "HOL-Library.Sublist"
begin

text \<open>
  Correctness of whole runs of \<open>RunDAG\<close>: no issue gets two results and no result is lost, a run
  whose advisor cannot split issues ends within its replan budget, and what the split gate and the
  failure threshold leave behind.
\<close>

section \<open>Results are recorded once and kept\<close>

definition run_ok :: "dag_state \<Rightarrow> issue_index \<Rightarrow> bool" where
  "run_ok s idx \<longleftrightarrow> shape s idx \<and> distinct (completed_names s @ failed_names s)"

definition extends :: "dag_state \<Rightarrow> dag_state \<Rightarrow> bool" where
  "extends s s' \<longleftrightarrow> prefix (d_completed s) (d_completed s') \<and> prefix (d_failed s) (d_failed s') \<and>
     set (d_skipped s) \<subseteq> set (d_skipped s')"

lemma extends_refl [simp]: "extends s s"
  by (simp add: extends_def)

lemma extends_trans: "extends s s' \<Longrightarrow> extends s' s'' \<Longrightarrow> extends s s''"
  unfolding extends_def by (metis prefix_order.order_trans subset_trans)

lemma keeps_extends: "keeps s s' \<Longrightarrow> extends s s'"
  by (simp add: keeps_def extends_def)

lemma keeps_run_ok: "keeps s s' \<Longrightarrow> run_ok s idx \<Longrightarrow> shape s' idx' \<Longrightarrow> run_ok s' idx'"
  by (simp add: keeps_def run_ok_def completed_names_def failed_names_def)

text \<open>What a pass has to establish.\<close>

fun end_ok :: "dag_state \<Rightarrow> pass_end \<Rightarrow> bool" where
  "end_ok s (Loop s' idx') = (extends s s' \<and> run_ok s' idx')"
| "end_ok s (Leave s') = (extends s s' \<and> (\<exists>idx'. run_ok s' idx'))"
| "end_ok s (End (Returned (Some s') e)) = (extends s s' \<and> (\<exists>idx'. run_ok s' idx'))"
| "end_ok s (End (Returned None e)) = (e \<noteq> None)"
| "end_ok s (End Panicked) = False"

lemma end_ok_trans: "extends s s' \<Longrightarrow> end_ok s' e \<Longrightarrow> end_ok s e"
  by (cases "(s, e)" rule: end_ok.cases) (auto intro: extends_trans)

lemma pass_end_ok: "pass_ok s idx e \<Longrightarrow> run_ok s idx \<Longrightarrow> (\<And>e'. e = End (Returned None e') \<Longrightarrow> e' \<noteq> None) \<Longrightarrow> end_ok s e"
  by (cases "(s, idx, e)" rule: pass_ok.cases) (auto simp: keeps_extends run_ok_def keeps_def completed_names_def failed_names_def)

lemma close_level_error: "close_level opts idx pending g = (End (Returned None e'), w') \<Longrightarrow> e' \<noteq> None"
  by (auto simp: close_level_def split: prod.splits gate_end.splits option.splits)

lemma run_gates_error: "run_gates eng opts conflicts active l s idx w = (End (Returned None e'), w') \<Longrightarrow> e' \<noteq> None"
  by (auto simp: run_gates_def Let_def dest: close_level_error split: prod.splits sum.splits)

lemma run_gates_end:
  assumes g: "run_gates eng opts conflicts active l s idx w = (e, w')" and "run_ok s idx"
  shows "end_ok s e"
  using run_gates_ok [OF g]
proof
  assume "\<exists>s' idx'. keeps s s' \<and> (shape s idx \<longrightarrow> shape s' idx') \<and> pass_ok s' idx' e"
  then obtain s' idx' where k: "keeps s s'" "shape s idx \<longrightarrow> shape s' idx'" "pass_ok s' idx' e" by blast
  have "run_ok s' idx'" using keeps_run_ok [OF k(1) assms(2)] k(2) assms(2) by (simp add: run_ok_def)
  with k(3) have "end_ok s' e" by (rule pass_end_ok) (use g run_gates_error in blast)
  then show ?thesis by (rule end_ok_trans [OF keeps_extends [OF k(1)]])
qed auto

lemma distinct_spread: "distinct (xs @ ys @ zs) \<Longrightarrow> set (xs @ ys @ zs) \<inter> set (cs @ fs) = {} \<Longrightarrow> distinct (cs @ fs) \<Longrightarrow>
    distinct ((cs @ xs) @ (fs @ ys))"
  by auto

lemma distinct_level:
  assumes "\<And>n. count_list (level_names l) n = count_list (map issue_name active) n"
    and "distinct (map issue_name active)" and "\<forall>n \<in> set (map issue_name active). n \<notin> set (done_names s)"
    and "distinct (completed_names s @ failed_names s)"
  shows "distinct (completed_names (record_level l s) @ failed_names (record_level l s))"
proof -
  have "distinct (level_names l)" and names: "set (level_names l) = set (map issue_name active)"
    using same_counts [of "level_names l" "map issue_name active"] assms(1,2) by auto
  moreover have "set (level_names l) \<inter> set (completed_names s @ failed_names s) = {}"
    unfolding names using assms(3) by (auto simp: done_names_def)
  ultimately show ?thesis
    using distinct_spread [OF _ _ assms(4), of "map r_name (l_completed l)" "map r_name (l_failed l)" "map r_name (l_skipped l)"]
    by (simp add: level_names_def completed_names_def failed_names_def record_level_def)
qed

lemma record_level_extends: "extends s (record_level l s)"
  by (auto simp: extends_def record_level_def)

lemma skip_future_ok: "run_ok s idx \<Longrightarrow> extends s (skip_future s) \<and> run_ok (skip_future s) idx"
  by (auto simp: run_ok_def shape_def skip_future_def extends_def completed_names_def failed_names_def)

lemma active_issues_name: "index_ok idx \<Longrightarrow> issue \<in> set (active_issues s idx names) \<Longrightarrow> \<exists>n. mget issue ''name'' = GStr n"
  using active_named [of idx s names] by (intro name_string) (force simp: all_named_def)

text \<open>
  A level that does not fail in its preparation: the results carry exactly the names of the active
  issues, whatever the preparation did to their dictionaries.
\<close>

definition indexed :: "dag_state \<Rightarrow> issue_index \<Rightarrow> bool" where
  "indexed s idx \<longleftrightarrow> (\<forall>n. map_of idx n \<noteq> None \<longleftrightarrow> n \<in> set (map issue_name (d_issues s)))"

lemma index_issues_dom: "map_of (index_issues issues m) n \<noteq> None \<longleftrightarrow> n \<in> set (map issue_name issues) \<or> map_of m n \<noteq> None"
  by (induction issues m rule: index_issues.induct) (auto simp: map_of_update)

lemma indexed_issues: "indexed s (index_issues (d_issues s) [])"
  using index_issues_dom [of "d_issues s" "[]"] by (simp add: indexed_def)

lemma run_level_cases:
  assumes r: "run_level eng opts conflicts (active_issues s idx names) s idx w = (e, w')" and ok: "run_ok s idx"
  obtains (failed) e' where "e = End (Returned None (Some e'))"
  | (executed) s1 idx1 active l w2 where
      "snd (core s1) = snd (core s)" "map issue_name (d_issues s1) = map issue_name (d_issues s)" "index_ok idx1"
      "indexed s idx \<longrightarrow> indexed s1 idx1" "d_in_flight s1 = []"
      "\<And>n. count_list (level_names l) n = count_list (map issue_name (active_issues s idx names)) n"
      "\<exists>sx wx wy. execute_level eng sx active (d_level s) wx = (l, wy)"
      "(e, w') = (if too_many_failed (e_cfg eng) l
         then (Leave (skip_future (record_level l s1)), save_checkpoint (e_env eng) (skip_future (record_level l s1)) w2)
         else run_gates eng opts conflicts active l (record_level l s1) idx1 w2)"
proof -
  let ?active = "active_issues s idx names"
  obtain p w1 where p: "prepare_level eng s idx ?active w = (p, w1)" by force
  have idx: "index_ok idx" "all_named (d_issues s)" using ok by (simp_all add: run_ok_def shape_def)
  show ?thesis
  proof (cases p)
    case (Inl err)
    with r p show ?thesis by (intro failed) (auto simp: run_level_def)
  next
    case (Inr q)
    obtain s1 idx1 active where q: "q = (s1, idx1, active)" by (cases q) auto
    note prep = prepare_level_ok [OF p [unfolded Inr q] idx(2,1) active_named [OF idx(1)]]
    have "s1 = s \<and> idx1 = idx \<or> idx1 = index_issues (d_issues s1) []"
      using p Inr q by (auto simp: prepare_level_def Let_def split: option.splits if_splits prod.splits sum.splits)
    then have "indexed s idx \<longrightarrow> indexed s1 idx1" using indexed_issues by metis
    obtain l w2 where l: "execute_active eng s1 active w1 = (l, w2)" by force
    then obtain wx wy where x: "execute_level eng (s1\<lparr>d_in_flight := map (\<lambda>i. get_str i ''name'' ''?'') active\<rparr>) active (d_level s1) wx = (l, wy)"
      by (auto simp: execute_active_def Let_def split: prod.splits)
    have "\<exists>n. mget issue ''name'' = GStr n" if "issue \<in> set active" for issue
    proof (rule name_string)
      have "issue_name issue \<in> set (map issue_name ?active)" using that same_counts(1) [OF prep(4)] by (metis image_eqI set_map)
      with active_named [OF idx(1), of s names] show "issue_name issue \<noteq> []" by (auto simp: all_named_def)
    qed
    then have "count_list (level_names l) n = count_list (map issue_name ?active) n" for n
      using execute_level_counts [OF x] prep(4) by (metis (no_types, lifting))
    moreover have "d_level s1 = d_level s" using prep(1) by (simp add: core_def)
    ultimately show ?thesis
      using r p Inr q l prep x \<open>indexed s idx \<longrightarrow> indexed s1 idx1\<close>
      by (intro executed [of "s1\<lparr>d_in_flight := []\<rparr>" idx1 l active w2])
        (auto simp: run_level_def Let_def core_def indexed_def)
  qed
qed

lemma run_level_end:
  assumes r: "run_level eng opts conflicts (active_issues s idx names) s idx w = (e, w')"
    and ok: "run_ok s idx" and names: "distinct names"
  shows "end_ok s e"
  using r ok
proof (cases rule: run_level_cases)
  case (executed s1 idx1 active l w2)
  let ?active = "active_issues s idx names" let ?rec = "record_level l s1"
  have idx: "index_ok idx" using ok by (simp add: run_ok_def shape_def)
  have same: "d_completed s1 = d_completed s" "d_failed s1 = d_failed s" "d_skipped s1 = d_skipped s"
    "d_levels s1 = d_levels s" "d_level s1 = d_level s" using executed(1) by (simp_all add: core_def)
  have dist: "distinct (completed_names ?rec @ failed_names ?rec)"
  proof (rule distinct_level [OF executed(6)])
    show "distinct (map issue_name ?active)" using names by (simp add: active_names [OF idx])
    show "\<forall>n \<in> set (map issue_name ?active). n \<notin> set (done_names s1)"
      unfolding active_names [OF idx] by (simp add: done_names_def completed_names_def failed_names_def same)
    show "distinct (completed_names s1 @ failed_names s1)"
      using ok by (simp add: run_ok_def completed_names_def failed_names_def same)
  qed
  have "all_named (d_issues s1)" using ok all_named_cong [OF executed(2)] by (simp add: run_ok_def shape_def)
  then have "shape ?rec idx1" using ok executed(3) by (simp add: run_ok_def shape_def record_level_def same)
  with dist have ok1: "run_ok ?rec idx1" by (simp add: run_ok_def)
  have "extends s s1" by (simp add: extends_def same)
  then have ext: "extends s ?rec" using record_level_extends by (rule extends_trans)
  show ?thesis
  proof (cases "too_many_failed (e_cfg eng) l")
    case True
    with executed(8) have "e = Leave (skip_future ?rec)" by simp
    moreover note extends_trans [OF ext, of "skip_future ?rec"] skip_future_ok [OF ok1]
    ultimately show ?thesis by auto
  next
    case False
    with executed(8) have g: "run_gates eng opts conflicts active l ?rec idx1 w2 = (e, w')" by simp
    from end_ok_trans [OF ext run_gates_end [OF g ok1]] show ?thesis .
  qed
qed simp

lemma run_pass_end:
  assumes "run_pass eng opts conflicts s idx w = (e, w')" and ok: "run_ok s idx" and "d_level s < int (length (d_levels s))"
  shows "end_ok s e"
proof (cases "ctx_err w")
  case None
  let ?names = "d_levels s ! nat (d_level s)"
  have pos: "0 \<le> d_level s" using ok by (simp add: run_ok_def shape_def)
  then have "?names \<in> set (d_levels s)" using assms(3) by simp
  then have names: "distinct ?names" using ok by (simp add: run_ok_def shape_def)
  show ?thesis
  proof (cases "active_issues s idx ?names = []")
    case True
    with assms(1) pos None have "e = Loop (s\<lparr>d_level := d_level s + 1\<rparr>) idx" by (simp add: run_pass_def)
    with ok show ?thesis by (simp add: extends_def run_ok_def shape_def completed_names_def failed_names_def)
  next
    case False
    with assms(1) pos None have "run_level eng opts conflicts (active_issues s idx ?names) s idx w = (e, w')"
      by (simp add: run_pass_def)
    from run_level_end [OF this ok names] show ?thesis .
  qed
next
  case (Some err)
  with assms(1,2) show ?thesis by (auto simp: run_pass_def)
qed

text \<open>What a whole run has to establish: the state it returns, or an error.\<close>

fun result_ok_from :: "dag_state \<Rightarrow> run_end \<Rightarrow> bool" where
  "result_ok_from s (Returned (Some s') e) = (extends s s' \<and> distinct (completed_names s' @ failed_names s'))"
| "result_ok_from s (Returned None e) = (e \<noteq> None)"
| "result_ok_from s Panicked = False"

lemma finish_run_ok: "finish_run eng s w = (r, w') \<Longrightarrow> run_ok s idx \<Longrightarrow> result_ok_from s r"
  by (auto simp: finish_run_def run_ok_def split: option.splits prod.splits)

lemma result_ok_trans: "extends s s' \<Longrightarrow> result_ok_from s' r \<Longrightarrow> result_ok_from s r"
  by (cases "(s, r)" rule: result_ok_from.cases) (auto intro: extends_trans)

text \<open>Induction over the passes of a run that returns.\<close>

lemma run_levels_induct [consumes 1, case_names finish loop leave stop]:
  assumes "run_levels eng opts conflicts s idx w = Some out"
    and finish: "\<And>s idx w. \<not> d_level s < int (length (d_levels s)) \<Longrightarrow> P s idx w (finish_run eng s w)"
    and loop: "\<And>s idx w s1 idx1 w1 out. d_level s < int (length (d_levels s)) \<Longrightarrow>
      run_pass eng opts conflicts s idx w = (Loop s1 idx1, w1) \<Longrightarrow> P s1 idx1 w1 out \<Longrightarrow> P s idx w out"
    and leave: "\<And>s idx w s1 w1. d_level s < int (length (d_levels s)) \<Longrightarrow>
      run_pass eng opts conflicts s idx w = (Leave s1, w1) \<Longrightarrow> P s idx w (finish_run eng s1 w1)"
    and ends: "\<And>s idx w r w1. d_level s < int (length (d_levels s)) \<Longrightarrow>
      run_pass eng opts conflicts s idx w = (End r, w1) \<Longrightarrow> P s idx w (r, w1)"
  shows "P s idx w out"
proof -
  have "eng' = eng \<longrightarrow> opts' = opts \<longrightarrow> conflicts' = conflicts \<longrightarrow> P s idx w out"
    if "run_levels eng' opts' conflicts' s idx w = Some out" for eng' opts' conflicts'
  proof (rule run_levels.raw_induct [OF _ that], intro impI)
    fix rec eng' opts' conflicts' s idx w out
    assume IH: "\<And>eng' opts' conflicts' s idx w out. rec eng' opts' conflicts' s idx w = Some out \<Longrightarrow>
        eng' = eng \<longrightarrow> opts' = opts \<longrightarrow> conflicts' = conflicts \<longrightarrow> P s idx w out"
      and eqs: "eng' = eng" "opts' = opts" "conflicts' = conflicts"
      and r: "(if d_level s < int (length (d_levels s))
         then case run_pass eng' opts' conflicts' s idx w of
              (Loop s1 by1, w1) \<Rightarrow> rec eng' opts' conflicts' s1 by1 w1
            | (Leave s1, w1) \<Rightarrow> Some (finish_run eng' s1 w1)
            | (End r, w1) \<Rightarrow> Some (r, w1)
         else Some (finish_run eng' s w)) = Some out"
    obtain e w1 where e: "run_pass eng opts conflicts s idx w = (e, w1)" by force
    show "P s idx w out"
    proof (cases "d_level s < int (length (d_levels s))")
      case False
      with r eqs finish show ?thesis by auto
    next
      case True
      show ?thesis
      proof (cases e)
        case (Loop s1 idx1)
        with r True e eqs have "rec eng opts conflicts s1 idx1 w1 = Some out" by simp
        from loop [OF True e [unfolded Loop]] IH [OF this] show ?thesis by blast
      next
        case (Leave s1)
        with r True e eqs leave [OF True e [unfolded Leave]] show ?thesis by auto
      next
        case (End x)
        with r True e eqs ends [OF True e [unfolded End]] show ?thesis by auto
      qed
    qed
  qed
  with assms(1) show ?thesis by blast
qed

lemma run_levels_ok: "run_levels eng opts conflicts s idx w = Some out \<Longrightarrow> run_ok s idx \<Longrightarrow> result_ok_from s (fst out)"
proof (induction s idx w out rule: run_levels_induct)
  case (finish s idx w)
  then show ?case by (intro finish_run_ok [where w' = "snd (finish_run eng s w)"]) simp_all
next
  case (loop s idx w s1 idx1 w1 out)
  from run_pass_end [OF loop(2,4,1)] loop(3) show ?case by (auto intro: result_ok_trans)
next
  case (leave s idx w s1 w1)
  from run_pass_end [OF leave(2,3,1)] obtain idx1 where "extends s s1" "run_ok s1 idx1" by auto
  moreover have "finish_run eng s1 w1 = (fst (finish_run eng s1 w1), snd (finish_run eng s1 w1))" by simp
  ultimately show ?case using finish_run_ok result_ok_trans by blast
next
  case (stop s idx w r w1)
  from run_pass_end [OF stop(2,3,1)] show ?case
    by (cases "(s, r)" rule: result_ok_from.cases) (auto simp: run_ok_def)
qed

section \<open>Runs without splits end\<close>

lemma settled_no_split:
  assumes "run_issues eng s issues w = (ocs, w')" and "max_advisor (e_cfg eng) \<le> 0" and "oc \<in> set ocs"
  shows "r_split (settle oc) = None"
proof (cases oc)
  case (Pair issue r)
  with run_issues_from [OF assms(1)] assms(3) obtain w1 w2 where "execute_single_issue eng s issue w1 = (r, w2)" by blast
  with Pair no_advisor_no_split [OF _ assms(2)] show ?thesis
    by (cases r) (auto simp: settle_def zero_result_def)
qed

lemma filed_results: "set (l_failed (foldl file_result l rs)) \<subseteq> set (l_failed l) \<union> set rs"
proof (induction rs arbitrary: l)
  case (Cons r rs)
  have "set (l_failed (file_result l r)) \<subseteq> insert r (set (l_failed l))" by (auto simp: file_result_def)
  with Cons [of "file_result l r"] show ?case by auto
qed simp

lemma level_no_split:
  assumes "execute_level eng s active level w = (l, w')" and "max_advisor (e_cfg eng) \<le> 0" and "f \<in> set (l_failed l)"
  shows "\<not> wants_split f"
proof -
  obtain ocs w1 where r: "run_issues eng s active w = (ocs, w1)" by force
  with assms(1) have l: "l = foldl file_result \<lparr>l_index = level, l_completed = [], l_failed = [], l_skipped = []\<rparr> (map settle ocs)"
    by (simp add: execute_level_def)
  from assms(3) filed_results have "f \<in> set (map settle ocs)" unfolding l by fastforce
  with settled_no_split [OF r assms(2)] show ?thesis by (auto simp: wants_split_def)
qed

text \<open>How far a gate moves the two counters the loop is bounded by.\<close>

definition same_plan :: "exec_config \<Rightarrow> dag_state \<Rightarrow> dag_state \<Rightarrow> bool" where
  "same_plan cfg s s' \<longleftrightarrow> d_levels s' = d_levels s \<and> d_level s' = d_level s \<and>
     (d_replans s' = d_replans s \<or> d_replans s < c_max_replans cfg \<and> d_replans s' = d_replans s + 1)"

definition new_plan :: "exec_config \<Rightarrow> dag_state \<Rightarrow> dag_state \<Rightarrow> bool" where
  "new_plan cfg s s' \<longleftrightarrow> d_replans s < c_max_replans cfg \<and> d_replans s' = d_replans s + 1"

fun gate_moves :: "exec_config \<Rightarrow> dag_state \<Rightarrow> gate_end \<Rightarrow> bool" where
  "gate_moves cfg s (Proceed s') = same_plan cfg s s'"
| "gate_moves cfg s (Restart s' idx') = new_plan cfg s s'"
| "gate_moves cfg s (Stop s') = same_plan cfg s s'"
| "gate_moves cfg s (Fail e) = True"

lemma skip_downstream_same: "d_levels (skip_downstream s fs) = d_levels s \<and> d_level (skip_downstream s fs) = d_level s \<and>
    d_replans (skip_downstream s fs) = d_replans s"
proof -
  obtain sk where "skip_downstream s fs = s\<lparr>d_skipped := sk\<rparr>" using skip_downstream_frame by blast
  then show ?thesis by simp
qed

lemma apply_replan_rejected: "apply_replan s p = (s', Some e) \<Longrightarrow> \<exists>sk. s' = s\<lparr>d_skipped := sk\<rparr>"
  by (auto simp: apply_replan_def Let_def skip_names_def split: if_splits sum.splits)

lemma apply_replan_counted: "apply_replan s p = (s', None) \<Longrightarrow> d_replans s' = d_replans s + 1"
  by (auto simp: apply_replan_def Let_def skip_names_def split: if_splits sum.splits)

lemma follow_decision_moves:
  assumes f: "follow_decision eng s fs pending p w = (g, w')" and room: "d_replans s < c_max_replans cfg"
  shows "gate_moves cfg s g"
proof -
  obtain s1 r where ap: "apply_replan s p = (s1, r)" by force
  note same = same_but_issues_fields [OF enrich_downstream_same [of s fs]]
  show ?thesis
  proof (cases r)
    case None
    with f ap room same apply_replan_counted [of s p s1] show ?thesis
      by (auto simp: follow_decision_def Let_def same_plan_def new_plan_def count_replan_def record_written_def skip_downstream_same
          split: if_splits option.splits prod.splits)
  next
    case (Some e)
    with ap apply_replan_rejected obtain sk where "s1 = s\<lparr>d_skipped := sk\<rparr>" by blast
    with f ap Some room same show ?thesis
      by (auto simp: follow_decision_def same_plan_def count_replan_def skip_downstream_same split: if_splits option.splits)
  qed
qed

lemma replan_gate_moves: "replan_gate eng s failed pending w = (g, w') \<Longrightarrow> gate_moves (e_cfg eng) s g"
  by (auto simp: replan_gate_def Let_def same_plan_def skip_downstream_same dest: follow_decision_moves
      split: if_splits prod.splits sum.splits)

fun pass_moves :: "exec_config \<Rightarrow> dag_state \<Rightarrow> pass_end \<Rightarrow> bool" where
  "pass_moves cfg s (Loop s' idx') = (new_plan cfg s s' \<or> same_plan cfg (s\<lparr>d_level := d_level s + 1\<rparr>) s')"
| "pass_moves cfg s (Leave s') = (d_replans s' \<le> max (d_replans s) (c_max_replans cfg))"
| "pass_moves cfg s (End (Returned (Some s') e)) = (d_replans s' \<le> max (d_replans s) (c_max_replans cfg))"
| "pass_moves cfg s (End r) = True"

lemma same_plan_replans: "same_plan cfg s s' \<Longrightarrow> d_replans s' \<le> max (d_replans s) (c_max_replans cfg)"
  by (auto simp: same_plan_def)

lemma close_level_moves: "close_level opts idx pending (g, w) = (e, w') \<Longrightarrow> gate_moves cfg s g \<Longrightarrow> pass_moves cfg s e"
  by (cases g) (auto simp: close_level_def same_plan_def split: option.splits)

lemma no_split_gate: "filter wants_split (l_failed l) = [] \<Longrightarrow> split_gate eng l s idx w = ((s, idx, l_failed l), w)"
  by (simp add: split_gate_def split: option.splits)

lemma pass_moves_core:
  "d_levels s' = d_levels s \<Longrightarrow> d_level s' = d_level s \<Longrightarrow> d_replans s' = d_replans s \<Longrightarrow> pass_moves cfg s' e = pass_moves cfg s e"
  by (cases "(cfg, s, e)" rule: pass_moves.cases) (auto simp: new_plan_def same_plan_def)

lemma run_gates_moves:
  assumes "run_gates eng opts conflicts active l s idx w = (e, w')" and quiet: "e_call eng = None \<or> filter wants_split (l_failed l) = []"
  shows "pass_moves (e_cfg eng) s e"
proof -
  obtain m w1 where m: "merge_gate eng conflicts active l s idx w = (m, w1)" by force
  show ?thesis
  proof (cases m)
    case (Inl e')
    with assms m show ?thesis by (auto simp: run_gates_def)
  next
    case (Inr sp)
    obtain s1 pending where sp: "sp = (s1, pending)" by force
    have sg: "split_gate eng l (debt_gate l s1) idx w1 = ((debt_gate l s1, idx, l_failed l), w1)"
      using quiet no_split_gate by (auto simp: split_gate_def)
    obtain g w3 where g: "replan_gate eng (debt_gate l s1) (l_failed l) pending w1 = (g, w3)" by force
    from assms m Inr sp sg g have e: "close_level opts idx pending (g, w3) = (e, w')" by (simp add: run_gates_def Let_def)
    from close_level_moves [OF e replan_gate_moves [OF g]] have "pass_moves (e_cfg eng) (debt_gate l s1) e" .
    moreover have "core s1 = core s" using core_merge_gate m Inr sp by blast
    ultimately show ?thesis using same_but_issues_fields [OF debt_gate_same [of s1 l]]
      by (simp add: core_def pass_moves_core [of "debt_gate l s1" s])
  qed
qed

lemma run_pass_moves:
  assumes "run_pass eng opts conflicts s idx w = (e, w')" and quiet: "e_call eng = None \<or> max_advisor (e_cfg eng) \<le> 0"
  shows "pass_moves (e_cfg eng) s e"
proof -
  let ?active = "active_issues s idx (d_levels s ! nat (d_level s))"
  have "pass_moves (e_cfg eng) s e" if r: "run_level eng opts conflicts ?active s idx w = (e, w')"
  proof -
    obtain p w1 where p: "prepare_level eng s idx ?active w = (p, w1)" by force
    show ?thesis
    proof (cases p)
      case (Inl err)
      with r p show ?thesis by (auto simp: run_level_def)
    next
      case (Inr q)
      obtain s1 idx1 active where q: "q = (s1, idx1, active)" by (cases q) auto
      with p Inr have same: "d_levels s1 = d_levels s" "d_level s1 = d_level s" "d_replans s1 = d_replans s"
        by (auto simp: prepare_level_def Let_def split: option.splits if_splits prod.splits sum.splits)
      obtain l w2 where l: "execute_active eng s1 active w1 = (l, w2)" by force
      then obtain sx wx wy where x: "execute_level eng sx active (d_level s1) wx = (l, wy)"
        by (auto simp: execute_active_def Let_def split: prod.splits)
      have silent: "e_call eng = None \<or> filter wants_split (l_failed l) = []"
        using quiet level_no_split [OF x] by (auto simp: filter_empty_conv)
      let ?rec = "record_level l (s1\<lparr>d_in_flight := []\<rparr>)"
      have rec: "d_levels ?rec = d_levels s" "d_level ?rec = d_level s" "d_replans ?rec = d_replans s"
        by (simp_all add: record_level_def same)
      show ?thesis
      proof (cases "too_many_failed (e_cfg eng) l")
        case True
        with r p Inr q l have "e = Leave (skip_future ?rec)" by (simp add: run_level_def Let_def)
        then show ?thesis by (simp add: skip_future_def record_level_def same)
      next
        case False
        with r p Inr q l have "run_gates eng opts conflicts active l ?rec idx1 w2 = (e, w')"
          by (simp add: run_level_def Let_def)
        from run_gates_moves [OF this silent] show ?thesis using pass_moves_core [OF rec] by simp
      qed
    qed
  qed
  with assms(1) show ?thesis by (auto simp: run_pass_def Let_def same_plan_def split: option.splits if_splits)
qed

definition passes_left :: "exec_config \<Rightarrow> dag_state \<Rightarrow> nat \<times> nat" where
  "passes_left cfg s = (nat (c_max_replans cfg - d_replans s), nat (int (length (d_levels s)) - d_level s))"

lemma loop_progress:
  "pass_moves cfg s (Loop s1 idx1) \<Longrightarrow> d_level s < int (length (d_levels s)) \<Longrightarrow>
   (passes_left cfg s1, passes_left cfg s) \<in> less_than <*lex*> less_than"
  by (auto simp: passes_left_def new_plan_def same_plan_def)

lemma run_levels_returns:
  assumes quiet: "e_call eng = None \<or> max_advisor (e_cfg eng) \<le> 0"
  shows "\<exists>out. run_levels eng opts conflicts s idx w = Some out"
proof (induction "passes_left (e_cfg eng) s" arbitrary: s idx w rule: wf_induct_rule [OF wf_lex_prod [OF wf_less_than wf_less_than]])
  case (1 s idx w)
  obtain e w1 where e: "run_pass eng opts conflicts s idx w = (e, w1)" by force
  show ?case
  proof (cases "d_level s < int (length (d_levels s)) \<and> (\<exists>s1 idx1. e = Loop s1 idx1)")
    case True
    then obtain s1 idx1 where "e = Loop s1 idx1" "d_level s < int (length (d_levels s))" by blast
    with 1 [OF loop_progress [of "e_cfg eng" s s1 idx1], of idx1 w1] run_pass_moves [OF e quiet] e show ?thesis
      by (subst run_levels.simps) auto
  next
    case False
    with e show ?thesis by (subst run_levels.simps) (auto split: pass_end.splits)
  qed
qed

lemma run_levels_replans:
  "run_levels eng opts conflicts s idx w = Some out \<Longrightarrow> e_call eng = None \<or> max_advisor (e_cfg eng) \<le> 0 \<Longrightarrow>
   fst out = Returned (Some s') e \<Longrightarrow> d_replans s' \<le> max (d_replans s) (c_max_replans (e_cfg eng))"
proof (induction s idx w out rule: run_levels_induct)
  case (loop s idx w s1 idx1 w1 out)
  from run_pass_moves [OF loop(2) loop(4)] have "d_replans s1 \<le> max (d_replans s) (c_max_replans (e_cfg eng))"
    by (auto simp: new_plan_def same_plan_def)
  with loop show ?case by auto
next
  case (stop s idx w r w1)
  with run_pass_moves [OF stop(2,3)] show ?case by simp
next
  case (leave s idx w s1 w1)
  with run_pass_moves [OF leave(2,3)] show ?case by (auto simp: finish_run_def split: option.splits prod.splits)
qed (auto simp: finish_run_def split: option.splits prod.splits)

section \<open>Whole runs\<close>

lemma init_all_repos_state: "init_all_repos eng call s build_id w = (Inr s', w') \<Longrightarrow> \<exists>m. s' = s\<lparr>d_manifest := m\<rparr>"
proof (cases "d_manifest s")
  case None
  assume "init_all_repos eng call s build_id w = (Inr s', w')"
  with None have "s' = s\<lparr>d_manifest := d_manifest s\<rparr>" by (simp add: init_all_repos_def)
  then show ?thesis by blast
qed (auto simp: init_all_repos_def Let_def split: option.splits prod.splits)

text \<open>A run is an error of the repository set-up, or the main loop from the start state.\<close>

lemma run_dag_cases:
  obtains (failed) e w' where "run_dag eng opts plan repo w = Some (Returned None (Some e), w')"
  | (runs) m w1 where "run_dag eng opts plan repo w =
      run_levels (with_defaults eng) opts (maps_of (mget plan ''file_conflicts''))
        ((start_run (e_cfg eng) opts plan repo w)\<lparr>d_manifest := m\<rparr>) (index_issues (d_issues (start_run (e_cfg eng) opts plan repo w)) []) w1"
proof -
  let ?s = "start_run (e_cfg eng) opts plan repo w" let ?eng = "with_defaults eng"
  let ?w = "save_checkpoint (e_env ?eng) ?s w"
  have cfg: "e_cfg ?eng = e_cfg eng" "e_call ?eng = e_call eng" by (simp_all add: with_defaults_def)
  show ?thesis
  proof (cases "\<exists>m call. o_manifest opts = Some m \<and> e_call eng = Some call")
    case True
    then obtain m call where mc: "o_manifest opts = Some m" "e_call eng = Some call" by blast
    obtain x w2 where x: "init_all_repos ?eng call ?s (o_build_id opts) ?w = (x, w2)" by force
    show ?thesis
    proof (cases x)
      case (Inl e)
      with mc x have "run_dag eng opts plan repo w = Some (Returned None (Some e), w2)" by (simp add: run_dag_def Let_def cfg)
      then show ?thesis by (rule failed)
    next
      case (Inr s')
      with x init_all_repos_state obtain m' where "s' = ?s\<lparr>d_manifest := m'\<rparr>" by blast
      with mc x Inr show ?thesis by (intro runs [of m' w2]) (simp add: run_dag_def Let_def cfg)
    qed
  next
    case False
    then have "run_dag eng opts plan repo w =
        run_levels ?eng opts (maps_of (mget plan ''file_conflicts'')) ?s (index_issues (d_issues ?s) []) ?w"
      by (auto simp: run_dag_def Let_def cfg split: option.splits)
    then show ?thesis by (intro runs [of "d_manifest ?s" ?w]) simp
  qed
qed

lemma run_dag_ok:
  assumes run: "run_dag eng opts plan repo w = Some (r, w')"
    and ok: "run_ok (start_run (e_cfg eng) opts plan repo w) (index_issues (d_issues (start_run (e_cfg eng) opts plan repo w)) [])"
  shows "result_ok_from (start_run (e_cfg eng) opts plan repo w) r"
proof (cases rule: run_dag_cases [of eng opts plan repo w])
  case (failed e w1)
  with run have "r = Returned None (Some e)" by simp
  then show ?thesis by simp
next
  case (runs m w1)
  let ?s = "start_run (e_cfg eng) opts plan repo w"
  have "extends ?s (?s\<lparr>d_manifest := m\<rparr>)" by (simp add: extends_def)
  moreover have "run_ok (?s\<lparr>d_manifest := m\<rparr>) (index_issues (d_issues ?s) [])"
    using ok by (simp add: run_ok_def shape_def completed_names_def failed_names_def)
  moreover note run_levels_ok [of "with_defaults eng" opts _ "?s\<lparr>d_manifest := m\<rparr>" _ w1 "(r, w')"]
  ultimately show ?thesis using run runs by (auto intro: result_ok_trans)
qed

lemma fresh_start:
  assumes "\<not> o_resume opts" and "all_named (maps_of (mget plan ''issues''))" and "\<forall>lv \<in> set (coerce_levels (mget plan ''levels'')). distinct lv"
  shows "run_ok (start_run cfg opts plan repo w) (index_issues (d_issues (start_run cfg opts plan repo w)) [])"
proof -
  have "d_issues (init_dag_state plan repo g b) = maps_of (mget plan ''issues'')"
    "d_levels (init_dag_state plan repo g b) = coerce_levels (mget plan ''levels'')"
    "d_completed (init_dag_state plan repo g b) = []" "d_failed (init_dag_state plan repo g b) = []"
    "d_level (init_dag_state plan repo g b) = 0" for g b
    by (simp_all add: init_dag_state_def Let_def zero_state_def split: option.splits)
  with assms show ?thesis
    by (simp add: start_run_def Let_def run_ok_def shape_def completed_names_def failed_names_def)
qed

end
