(* ===== verification/RunAccounts.thy ===== *)
theory RunAccounts
  imports RunCorrect
begin

text \<open>
  What a whole run accounts for: in a run without splits every scheduled issue has a result or is
  skipped when the loop ends, unless the replanner aborted it. The properties of whole runs follow.
\<close>

section \<open>Every scheduled issue is settled\<close>

definition settled_to :: "nat \<Rightarrow> dag_state \<Rightarrow> bool" where
  "settled_to m s \<longleftrightarrow> (\<forall>k < m. k < length (d_levels s) \<longrightarrow>
     (\<forall>n \<in> set (d_levels s ! k). n \<in> set (map issue_name (d_issues s)) \<longrightarrow> n \<in> set (done_names s)))"

definition tidy :: "dag_state \<Rightarrow> issue_index \<Rightarrow> bool" where
  "tidy s idx \<longleftrightarrow> indexed s idx \<and> settled_to (nat (d_level s)) s"

definition aborted :: "dag_state \<Rightarrow> bool" where
  "aborted s \<longleftrightarrow> (\<exists>ps p. d_history s = ps @ [p] \<and> p_action p = replan_abort)"

lemma settled_to_mono: "settled_to m s \<Longrightarrow> k \<le> m \<Longrightarrow> settled_to k s"
  by (meson settled_to_def less_le_trans)

lemma settled_to_Suc:
  "settled_to (Suc m) s \<longleftrightarrow> settled_to m s \<and> (m < length (d_levels s) \<longrightarrow>
     (\<forall>n \<in> set (d_levels s ! m). n \<in> set (map issue_name (d_issues s)) \<longrightarrow> n \<in> set (done_names s)))"
  unfolding settled_to_def All_less_Suc by blast

lemma extends_done: "extends s s' \<Longrightarrow> set (done_names s) \<subseteq> set (done_names s')"
  by (force simp: extends_def done_names_def completed_names_def failed_names_def dest: set_mono_prefix)

lemma settled_to_extends:
  "extends s s' \<Longrightarrow> d_levels s' = d_levels s \<Longrightarrow> map issue_name (d_issues s') = map issue_name (d_issues s) \<Longrightarrow>
   settled_to m s \<Longrightarrow> settled_to m s'"
proof -
  assume e: "extends s s'" and lv: "d_levels s' = d_levels s" and names: "map issue_name (d_issues s') = map issue_name (d_issues s)"
    and st: "settled_to m s"
  show "settled_to m s'" using st extends_done [OF e] unfolding settled_to_def lv names by blast
qed

lemma indexed_same: "map issue_name (d_issues s') = map issue_name (d_issues s) \<Longrightarrow> indexed s' idx = indexed s idx"
  by (simp only: indexed_def)

fun gate_tidy :: "dag_state \<Rightarrow> gate_end \<Rightarrow> bool" where
  "gate_tidy s (Proceed s') = (map issue_name (d_issues s') = map issue_name (d_issues s))"
| "gate_tidy s (Restart s' idx') = (idx' = index_issues (d_issues s') [] \<and> d_level s' = 0)"
| "gate_tidy s (Stop s') = aborted s'"
| "gate_tidy s (Fail e) = True"

lemma skip_downstream_issues: "d_issues (skip_downstream s fs) = d_issues s"
proof -
  obtain sk where "skip_downstream s fs = s\<lparr>d_skipped := sk\<rparr>" using skip_downstream_frame by blast
  then show ?thesis by simp
qed

lemma follow_decision_tidy:
  assumes f: "follow_decision eng s fs pending p w = (g, w')"
  shows "gate_tidy s g"
proof -
  obtain s1 r where ap: "apply_replan s p = (s1, r)" by force
  note names = same_but_issues_fields(7) [OF enrich_downstream_same [of s fs]]
  show ?thesis
  proof (cases r)
    case None
    with ap have "d_level s1 = 0" if "p_action p \<noteq> replan_abort" "p_action p \<noteq> replan_continue"
      using that by (auto simp: apply_replan_def Let_def split: sum.splits)
    with f ap None names show ?thesis
      by (auto simp: follow_decision_def Let_def count_replan_def record_written_def skip_downstream_issues aborted_def
          split: if_splits option.splits prod.splits)
  next
    case (Some e)
    with ap apply_replan_rejected obtain sk where "s1 = s\<lparr>d_skipped := sk\<rparr>" by blast
    with f ap Some names show ?thesis
      by (auto simp: follow_decision_def count_replan_def skip_downstream_issues aborted_def split: if_splits option.splits)
  qed
qed

lemma replan_gate_tidy: "replan_gate eng s failed pending w = (g, w') \<Longrightarrow> gate_tidy s g"
  by (auto simp: replan_gate_def Let_def skip_downstream_issues dest: follow_decision_tidy
      split: if_splits prod.splits sum.splits)

fun pass_tidy :: "pass_end \<Rightarrow> bool" where
  "pass_tidy (Loop s idx) = tidy s idx"
| "pass_tidy (Leave s) = (aborted s \<or> settled_to (length (d_levels s)) s)"
| "pass_tidy (End (Returned (Some s) e)) = (e \<noteq> None)"
| "pass_tidy (End r) = True"

lemma close_level_tidy:
  assumes "close_level opts idx pending (g, w) = (e, w')" and "gate_tidy s g" and "gate_moves cfg s g" and "gate_ok s idx g"
    and "indexed s idx" and "settled_to (Suc (nat (d_level s))) s" and "0 \<le> d_level s"
  shows "pass_tidy e"
proof (cases g)
  case (Proceed s')
  with assms have ext: "extends s s'" and same: "d_levels s' = d_levels s" "d_level s' = d_level s"
      "map issue_name (d_issues s') = map issue_name (d_issues s)"
    by (simp_all add: keeps_extends same_plan_def)
  from settled_to_extends [OF ext same(1,3) assms(6)] have "settled_to (Suc (nat (d_level s))) s'" .
  moreover have "indexed s' idx" using indexed_same [OF same(3)] assms(5) by simp
  moreover have "nat (d_level s + 1) = Suc (nat (d_level s))" using assms(7) by simp
  ultimately show ?thesis using assms(1) Proceed same(2)
    by (auto simp: close_level_def tidy_def indexed_def settled_to_def done_names_def completed_names_def failed_names_def
        split: option.splits)
next
  case (Restart s' idx')
  with assms indexed_issues [of s'] show ?thesis by (auto simp: close_level_def tidy_def settled_to_def)
qed (use assms in \<open>auto simp: close_level_def\<close>)

lemma run_gates_tidy:
  assumes "run_gates eng opts conflicts active l s idx w = (e, w')" and quiet: "e_call eng = None \<or> filter wants_split (l_failed l) = []"
    and tidy: "indexed s idx" "settled_to (Suc (nat (d_level s))) s" "0 \<le> d_level s"
  shows "pass_tidy e"
proof -
  obtain m w1 where m: "merge_gate eng conflicts active l s idx w = (m, w1)" by force
  show ?thesis
  proof (cases m)
    case (Inl e')
    with assms m show ?thesis by (auto simp: run_gates_def)
  next
    case (Inr sp)
    obtain s1 pending where sp: "sp = (s1, pending)" by force
    let ?s = "debt_gate l s1"
    have sg: "split_gate eng l ?s idx w1 = ((?s, idx, l_failed l), w1)" using quiet no_split_gate by (auto simp: split_gate_def)
    obtain g w3 where g: "replan_gate eng ?s (l_failed l) pending w1 = (g, w3)" by force
    from assms(1) m Inr sp sg g have e: "close_level opts idx pending (g, w3) = (e, w')" by (simp add: run_gates_def Let_def)
    have c: "core s1 = core s" using core_merge_gate m Inr sp by blast
    note same = same_but_issues_fields [OF debt_gate_same [of s1 l]]
    have names: "map issue_name (d_issues ?s) = map issue_name (d_issues s)" and lv: "d_levels ?s = d_levels s" "d_level ?s = d_level s"
      and ext: "extends s ?s"
      using c same by (simp_all add: core_def extends_def)
    show ?thesis
    proof (rule close_level_tidy [OF e replan_gate_tidy [OF g] replan_gate_moves [OF g] replan_gate_ok [OF g]])
      show "indexed ?s idx" using indexed_same [OF names] tidy(1) by simp
      show "settled_to (Suc (nat (d_level ?s))) ?s" using settled_to_extends [OF ext lv(1) names] tidy(2) lv(2) by simp
      show "0 \<le> d_level ?s" using tidy(3) lv(2) by simp
    qed
  qed
qed

lemma record_level_done: "set (done_names (record_level l s)) = set (done_names s) \<union> set (level_names l)"
  by (auto simp: record_level_def done_names_def completed_names_def failed_names_def level_names_def)

lemma skip_future_settled: "settled_to (Suc (nat (d_level s))) s \<Longrightarrow> 0 \<le> d_level s \<Longrightarrow> settled_to (length (d_levels s)) (skip_future s)"
  unfolding settled_to_def
proof (intro allI impI ballI)
  fix k n
  assume below: "\<forall>k<Suc (nat (d_level s)). k < length (d_levels s) \<longrightarrow>
        (\<forall>n \<in> set (d_levels s ! k). n \<in> set (map issue_name (d_issues s)) \<longrightarrow> n \<in> set (done_names s))"
    and k: "k < length (d_levels (skip_future s))" and n: "n \<in> set (d_levels (skip_future s) ! k)" "n \<in> set (map issue_name (d_issues (skip_future s)))"
  show "n \<in> set (done_names (skip_future s))"
  proof (cases "k < Suc (nat (d_level s))")
    case True
    with below k n show ?thesis
      by (auto simp: skip_future_def done_names_def completed_names_def failed_names_def)
  next
    case False
    with k have "d_levels s ! k \<in> set (drop (Suc (nat (d_level s))) (d_levels s))"
      by (auto simp: in_set_conv_nth skip_future_def intro!: exI [of _ "k - Suc (nat (d_level s))"])
    with n(1) show ?thesis by (auto simp: skip_future_def done_names_def)
  qed
qed

lemma run_pass_tidy:
  assumes "run_pass eng opts conflicts s idx w = (e, w')" and quiet: "e_call eng = None \<or> max_advisor (e_cfg eng) \<le> 0"
    and ok: "run_ok s idx" and tidy: "tidy s idx" and lv: "d_level s < int (length (d_levels s))"
  shows "pass_tidy e"
proof (cases "ctx_err w")
  case None
  let ?names = "d_levels s ! nat (d_level s)"
  let ?active = "active_issues s idx ?names"
  have pos: "0 \<le> d_level s" and idx: "index_ok idx" using ok by (simp_all add: run_ok_def shape_def)
  have left: "n \<in> set (map issue_name ?active)"
    if "n \<in> set ?names" "n \<in> set (map issue_name (d_issues s))" "n \<notin> set (done_names s)" for n
    using that tidy by (auto simp: active_names [OF idx] tidy_def indexed_def)
  show ?thesis
  proof (cases "?active = []")
    case True
    then have "settled_to (Suc (nat (d_level s))) s"
      using left tidy unfolding settled_to_Suc tidy_def by force
    moreover have "nat (d_level s + 1) = Suc (nat (d_level s))" using pos by simp
    moreover have "e = Loop (s\<lparr>d_level := d_level s + 1\<rparr>) idx" using assms(1) pos None True by (simp add: run_pass_def)
    ultimately show ?thesis using tidy
      by (simp add: tidy_def indexed_def settled_to_def done_names_def completed_names_def failed_names_def)
  next
    case False
    with assms(1) pos None have r: "run_level eng opts conflicts ?active s idx w = (e, w')" by (simp add: run_pass_def)
    from r ok show ?thesis
    proof (cases rule: run_level_cases)
      case (executed s1 idx1 active l w2)
      let ?rec = "record_level l s1"
      have same: "d_completed s1 = d_completed s" "d_failed s1 = d_failed s" "d_skipped s1 = d_skipped s"
        "d_levels s1 = d_levels s" "d_level s1 = d_level s" using executed(1) by (simp_all add: core_def)
      have results: "set (level_names l) = set (map issue_name ?active)" using same_counts(1) [OF executed(6)] .
      have same_done: "set (done_names s1) = set (done_names s)" by (simp add: done_names_def completed_names_def failed_names_def same)
      have rec: "d_levels ?rec = d_levels s" "map issue_name (d_issues ?rec) = map issue_name (d_issues s)"
        using executed(2) by (simp_all add: record_level_def same)
      have "extends s ?rec" using record_level_extends [of s1 l] by (simp add: extends_def same)
      then have "settled_to (nat (d_level s)) ?rec" using tidy rec by (auto simp only: tidy_def intro: settled_to_extends)
      then have below: "settled_to (Suc (nat (d_level s))) ?rec"
        unfolding settled_to_Suc rec record_level_done results same_done using left by blast
      have idx1: "indexed ?rec idx1" using executed(4) tidy by (simp add: tidy_def indexed_def record_level_def)
      have lvl: "d_level ?rec = d_level s" by (simp add: record_level_def same)
      have silent: "e_call eng = None \<or> filter wants_split (l_failed l) = []"
        using quiet executed(7) by (auto simp: filter_empty_conv dest: level_no_split)
      show ?thesis
      proof (cases "too_many_failed (e_cfg eng) l")
        case True
        with executed(8) have "e = Leave (skip_future ?rec)" by simp
        with skip_future_settled [of ?rec] below lvl pos show ?thesis by (simp add: skip_future_def)
      next
        case False
        with executed(8) have g: "run_gates eng opts conflicts active l ?rec idx1 w2 = (e, w')" by simp
        from run_gates_tidy [OF g silent idx1] below lvl pos show ?thesis by simp
      qed
    qed simp
  qed
next
  case (Some err)
  with assms(1) show ?thesis by (auto simp: run_pass_def)
qed

fun run_tidy :: "run_end \<Rightarrow> bool" where
  "run_tidy (Returned (Some s) None) = (aborted s \<or> settled_to (length (d_levels s)) s)"
| "run_tidy r = True"

lemma finish_run_tidy: "aborted s \<or> settled_to (length (d_levels s)) s \<Longrightarrow> run_tidy (fst (finish_run eng s w))"
  by (simp add: finish_run_def split: option.splits prod.splits)

lemma run_levels_tidy:
  "run_levels eng opts conflicts s idx w = Some out \<Longrightarrow> e_call eng = None \<or> max_advisor (e_cfg eng) \<le> 0 \<Longrightarrow>
   run_ok s idx \<Longrightarrow> tidy s idx \<Longrightarrow> run_tidy (fst out)"
proof (induction s idx w out rule: run_levels_induct)
  case (finish s idx w)
  then have "length (d_levels s) \<le> nat (d_level s)" by simp
  with finish have "settled_to (length (d_levels s)) s" by (auto simp: tidy_def intro: settled_to_mono)
  then show ?case by (simp add: finish_run_tidy)
next
  case (loop s idx w s1 idx1 w1 out)
  from run_pass_tidy [OF loop(2,4,5,6,1)] run_pass_end [OF loop(2,5,1)] loop(3,4) show ?case by simp
next
  case (leave s idx w s1 w1)
  from run_pass_tidy [OF leave(2,3,4,5,1)] show ?case by (simp add: finish_run_tidy)
next
  case (stop s idx w r w1)
  from run_pass_tidy [OF stop(2,3,4,5,1)] show ?case by (cases r rule: run_tidy.cases) auto
qed

lemma fresh_tidy:
  assumes "\<not> o_resume opts"
  shows "tidy ((start_run cfg opts plan repo w)\<lparr>d_manifest := m\<rparr>) (index_issues (d_issues (start_run cfg opts plan repo w)) [])"
proof -
  have "d_level (start_run cfg opts plan repo w) = 0"
    using assms by (simp add: start_run_def Let_def init_dag_state_def zero_state_def split: option.splits)
  then show ?thesis using indexed_issues [of "start_run cfg opts plan repo w"]
    by (simp add: tidy_def settled_to_def indexed_def)
qed

section \<open>Properties of whole runs\<close>

text \<open>
  A run that starts afresh from a plan whose issues have names and whose levels repeat none
  never panics, and the state it returns (also with an error) has at most one result per issue:
  an issue is never both completed and failed, and never executed again after its result.
\<close>

theorem results_recorded_once:
  assumes "run_dag eng opts plan repo w = Some (r, w')" and "\<not> o_resume opts"
    and "all_named (maps_of (mget plan ''issues''))" and "\<forall>lv \<in> set (coerce_levels (mget plan ''levels'')). distinct lv"
  shows "r \<noteq> Panicked \<and> (\<forall>s e. r = Returned (Some s) e \<longrightarrow> distinct (map r_name (d_completed s @ d_failed s)))"
  using run_dag_ok [OF assms(1) fresh_start [OF assms(2-4)]]
  by (cases "(start_run (e_cfg eng) opts plan repo w, r)" rule: result_ok_from.cases)
    (simp_all add: completed_names_def failed_names_def)

text \<open>
  A resumed run keeps what its checkpoint holds: the completed and failed results of the
  checkpoint are a prefix of those of the state it returns, in the same order and unchanged, and no
  skipped issue is taken back.
\<close>

theorem resumed_run_keeps_results:
  assumes "run_dag eng opts plan repo w = Some (Returned (Some s') e, w')"
    and "o_resume opts" and "get_str plan ''artifacts_dir'' [] \<noteq> []" and "load_checkpoint (get_str plan ''artifacts_dir'' []) w = Some s"
    and "run_ok s (index_issues (d_issues s) [])"
  shows "prefix (d_completed s) (d_completed s') \<and> prefix (d_failed s) (d_failed s') \<and> set (d_skipped s) \<subseteq> set (d_skipped s')"
proof -
  have "start_run (e_cfg eng) opts plan repo w = s" using assms(2-4) by (simp add: start_run_def)
  with run_dag_ok [OF assms(1)] assms(5) show ?thesis by (simp add: extends_def)
qed

text \<open>
  C18: A run whose issue advisor is off (or that has no agent to call) returns, whatever the coder
  and the replanner answer: it never loops forever on replans, and it counts no more replans than
  the larger of the limit and what it started with.
\<close>

theorem run_without_splits_returns:
  assumes "e_call eng = None \<or> max_advisor (e_cfg eng) \<le> 0"
  shows "\<exists>r w'. run_dag eng opts plan repo w = Some (r, w') \<and>
    (\<forall>s e. r = Returned (Some s) e \<longrightarrow>
      d_replans s \<le> max (d_replans (start_run (e_cfg eng) opts plan repo w)) (c_max_replans (e_cfg eng)))"
proof (cases rule: run_dag_cases [of eng opts plan repo w])
  case (runs m w1)
  let ?s = "(start_run (e_cfg eng) opts plan repo w)\<lparr>d_manifest := m\<rparr>"
  have quiet: "e_call (with_defaults eng) = None \<or> max_advisor (e_cfg (with_defaults eng)) \<le> 0"
    and cfg: "e_cfg (with_defaults eng) = e_cfg eng"
    using assms by (simp_all add: with_defaults_def)
  let ?run = "run_levels (with_defaults eng) opts (maps_of (mget plan ''file_conflicts'')) ?s
      (index_issues (d_issues (start_run (e_cfg eng) opts plan repo w)) []) w1"
  obtain r w' where out: "?run = Some (r, w')" using run_levels_returns [OF quiet] by (metis surj_pair)
  with runs run_levels_replans [OF out quiet] cfg show ?thesis by auto
qed auto

text \<open>
  C19: In such a run no scheduled issue is forgotten: when it ends without an error, every issue
  named in the levels of its state is completed, failed or skipped, unless the replanner's last
  decision was to abort.
\<close>

theorem run_without_splits_settles:
  assumes "run_dag eng opts plan repo w = Some (Returned (Some s) None, w')"
    and "e_call eng = None \<or> max_advisor (e_cfg eng) \<le> 0" and "\<not> o_resume opts"
    and "all_named (maps_of (mget plan ''issues''))" and "\<forall>lv \<in> set (coerce_levels (mget plan ''levels'')). distinct lv"
    and "n \<in> set (concat (d_levels s))" and "n \<in> issue_name ` set (d_issues s)"
  shows "n \<in> set (done_names s) \<or> (\<exists>ps p. d_history s = ps @ [p] \<and> p_action p = replan_abort)"
proof (cases rule: run_dag_cases [of eng opts plan repo w])
  case (failed e w1)
  with assms(1) have "Returned (Some s) None = Returned None (Some e)" by simp
  then show ?thesis by simp
next
  case (runs m w1)
  let ?s = "start_run (e_cfg eng) opts plan repo w"
  have quiet: "e_call (with_defaults eng) = None \<or> max_advisor (e_cfg (with_defaults eng)) \<le> 0"
    using assms(2) by (simp add: with_defaults_def)
  have ok: "run_ok (?s\<lparr>d_manifest := m\<rparr>) (index_issues (d_issues ?s) [])"
    using fresh_start [OF assms(3-5)] by (simp add: run_ok_def shape_def completed_names_def failed_names_def)
  have "run_tidy (fst (Returned (Some s) None, w'))"
    by (rule run_levels_tidy [OF _ quiet ok fresh_tidy [OF assms(3)]]) (use assms(1) runs in simp)
  then consider "aborted s" | "settled_to (length (d_levels s)) s" by auto
  then show ?thesis
  proof cases
    case 2
    from assms(6) obtain lv where "lv \<in> set (d_levels s)" "n \<in> set lv" by auto
    then obtain k where "k < length (d_levels s)" "n \<in> set (d_levels s ! k)" by (metis in_set_conv_nth)
    with 2 assms(7) show ?thesis by (auto simp: settled_to_def)
  qed (simp add: aborted_def)
qed

section \<open>Witnesses\<close>

text \<open>Two issues, one after the other, and an external coder with a fixed outcome for each issue.\<close>

definition two_issues :: gmap where
  "two_issues = [(''artifacts_dir'', GStr ''art''),
     (''issues'', GList [GMap [(''name'', GStr ''a'')], GMap [(''name'', GStr ''b''), (''depends_on'', GList [GStr ''a''])]]),
     (''levels'', GList [GList [GStr ''a''], GList [GStr ''b'']])]"

definition scripted :: "(string \<Rightarrow> string) \<Rightarrow> unit engine" where
  "scripted out = (demo_engine stubborn_call)\<lparr>e_call := None,
     e_execute := Some (\<lambda>issue s w. (Inr (Some [(''outcome'', GStr (out (issue_name issue)))]), w))\<rparr>"

definition fresh_opts :: "unit run_options" where
  "fresh_opts = resume_opts\<lparr>o_resume := False\<rparr>"

lemma two_issues_plan: "all_named (maps_of (mget two_issues ''issues''))" "\<forall>lv \<in> set (coerce_levels (mget two_issues ''levels'')). distinct lv"
  by code_simp+

text \<open>The loop unrolled to a given number of passes, to evaluate runs.\<close>

fun run_upto :: "nat \<Rightarrow> 'x engine \<Rightarrow> 'x run_options \<Rightarrow> gmap list \<Rightarrow> dag_state \<Rightarrow> issue_index \<Rightarrow> 'x world
    \<Rightarrow> (run_end \<times> 'x world) option" where
  "run_upto 0 eng opts conflicts s idx w = None"
| "run_upto (Suc n) eng opts conflicts s idx w =
     (if d_level s < int (length (d_levels s))
      then (case run_pass eng opts conflicts s idx w of
              (Loop s1 idx1, w1) \<Rightarrow> run_upto n eng opts conflicts s1 idx1 w1
            | (Leave s1, w1) \<Rightarrow> Some (finish_run eng s1 w1)
            | (End r, w1) \<Rightarrow> Some (r, w1))
      else Some (finish_run eng s w))"

lemma run_upto_levels: "run_upto n eng opts conflicts s idx w = Some out \<Longrightarrow> run_levels eng opts conflicts s idx w = Some out"
proof (induction n arbitrary: s idx w)
  case (Suc n)
  then show ?case by (subst run_levels.simps) (auto split: if_splits prod.splits pass_end.splits)
qed simp

definition demo_run :: "nat \<Rightarrow> unit engine \<Rightarrow> unit run_options \<Rightarrow> gmap \<Rightarrow> unit world \<Rightarrow> (run_end \<times> unit world) option" where
  "demo_run n eng opts plan w =
     (let s = start_run (e_cfg eng) opts plan ''/r'' w
      in run_upto n (with_defaults eng) opts (maps_of (mget plan ''file_conflicts'')) s (index_issues (d_issues s) [])
           (save_checkpoint (e_env (with_defaults eng)) s w))"

lemma demo_run_dag:
  assumes "demo_run n eng opts plan w = Some out" and "o_manifest opts = None"
  shows "run_dag eng opts plan ''/r'' w = Some out"
  using assms by (simp add: demo_run_def run_dag_def Let_def with_defaults_def run_upto_levels)

lemma demo_opts: "o_manifest fresh_opts = None" "o_manifest resume_opts = None" "\<not> o_resume fresh_opts" "o_resume resume_opts"
  by (simp_all add: fresh_opts_def resume_opts_def)

definition both_done :: "string \<Rightarrow> string" where
  "both_done n = ''completed''"

definition returned_state :: "(run_end \<times> unit world) option \<Rightarrow> dag_state option" where
  "returned_state out = (case out of Some (Returned (Some s) None, w) \<Rightarrow> Some s | _ \<Rightarrow> None)"

lemma returned_stateD: "returned_state out = Some s \<Longrightarrow> \<exists>w. out = Some (Returned (Some s) None, w)"
  by (auto simp: returned_state_def split: option.splits prod.splits run_end.splits)

lemma both_done_run:
  obtains s w' where "run_dag (scripted both_done) fresh_opts two_issues ''/r'' demo_world = Some (Returned (Some s) None, w')"
    "completed_names s = [''a'', ''b'']" "d_levels s = [[''a''], [''b'']]" "map issue_name (d_issues s) = [''a'', ''b'']" "d_history s = []"
proof -
  let ?run = "demo_run 3 (scripted both_done) fresh_opts two_issues demo_world"
  have "map_option (\<lambda>s. (completed_names s, d_levels s, map issue_name (d_issues s), d_history s)) (returned_state ?run) =
      Some ([''a'', ''b''], [[''a''], [''b'']], [''a'', ''b''], [])"
    by code_simp
  then obtain s where s: "returned_state ?run = Some s" "completed_names s = [''a'', ''b'']" "d_levels s = [[''a''], [''b'']]"
      "map issue_name (d_issues s) = [''a'', ''b'']" "d_history s = []" by auto
  with that demo_run_dag [OF _ demo_opts(1)] show ?thesis by (metis returned_stateD)
qed

theorem results_recorded_once_witness:
  "\<exists>s w'. run_dag (scripted both_done) fresh_opts two_issues ''/r'' demo_world = Some (Returned (Some s) None, w') \<and>
    map r_name (d_completed s) = [''a'', ''b''] \<and> distinct (map r_name (d_completed s @ d_failed s))"
proof -
  obtain s w' where run: "run_dag (scripted both_done) fresh_opts two_issues ''/r'' demo_world = Some (Returned (Some s) None, w')"
    "completed_names s = [''a'', ''b'']" by (rule both_done_run)
  from results_recorded_once [OF run(1) demo_opts(3) two_issues_plan] run show ?thesis by (auto simp: completed_names_def)
qed

theorem run_without_splits_returns_witness:
  "\<exists>r w'. run_dag (scripted both_done) fresh_opts two_issues ''/r'' demo_world = Some (r, w') \<and>
    (\<forall>s e. r = Returned (Some s) e \<longrightarrow> d_replans s \<le> 2)"
proof -
  have "e_call (scripted both_done) = None" by (simp add: scripted_def)
  moreover have "c_max_replans (e_cfg (scripted both_done)) = 2" by code_simp
  moreover have "d_replans (start_run (e_cfg (scripted both_done)) fresh_opts two_issues ''/r'' demo_world) = 0" by code_simp
  ultimately show ?thesis
    using run_without_splits_returns [of "scripted both_done" fresh_opts two_issues "''/r''" demo_world] by auto
qed

theorem run_without_splits_settles_witness:
  "\<exists>s w'. run_dag (scripted both_done) fresh_opts two_issues ''/r'' demo_world = Some (Returned (Some s) None, w') \<and>
    ''b'' \<in> set (done_names s)"
proof -
  obtain s w' where run: "run_dag (scripted both_done) fresh_opts two_issues ''/r'' demo_world = Some (Returned (Some s) None, w')"
    and lv: "d_levels s = [[''a''], [''b'']]" and names: "map issue_name (d_issues s) = [''a'', ''b'']" and h: "d_history s = []"
    by (rule both_done_run)
  have "issue_name ` set (d_issues s) = {''a'', ''b''}" unfolding set_map [symmetric] names by simp
  moreover have "e_call (scripted both_done) = None" by (simp add: scripted_def)
  ultimately show ?thesis using run_without_splits_settles [OF run _ demo_opts(3) two_issues_plan, of "''b''"] run lv h by auto
qed

text \<open>A checkpoint in which the first issue is done.\<close>

definition half_done :: dag_state where
  "half_done = zero_state\<lparr>d_artifacts_dir := ''art'', d_issues := [[(''name'', GStr ''a'')], [(''name'', GStr ''b'')]],
     d_levels := [[''a''], [''b'']], d_level := 1, d_completed := [zero_result\<lparr>r_name := ''a''\<rparr>]\<rparr>"

lemma half_done_fields: "d_issues half_done = [[(''name'', GStr ''a'')], [(''name'', GStr ''b'')]]" "d_level half_done = 1"
    "d_levels half_done = [[''a''], [''b'']]" "completed_names half_done = [''a'']" "failed_names half_done = []"
    "d_artifacts_dir half_done = ''art''"
  by (simp_all add: half_done_def zero_state_def completed_names_def failed_names_def)

lemma half_done_named: "all_named (d_issues half_done)"
  unfolding half_done_fields by code_simp

lemma half_done_ok: "run_ok half_done (index_issues (d_issues half_done) [])"
  using index_of_issues [OF half_done_named] half_done_named by (simp add: run_ok_def shape_def half_done_fields)

definition half_world :: "unit world" where
  "half_world = save_checkpoint demo_env half_done demo_world"

lemma half_world_load: "load_checkpoint ''art'' half_world = Some half_done"
proof -
  have "state_ok half_done" by (simp add: state_ok_def half_done_def zero_state_def result_ok_def zero_result_def int64_def)
  then have "load_checkpoint (d_artifacts_dir half_done) half_world = Some (trip_state half_done)"
    unfolding half_world_def by (intro load_after_save) (simp_all add: half_done_fields demo_env_def)
  then show ?thesis
    by (simp add: half_done_def trip_state_def zero_state_def trip_result_def zero_result_def json_map_def)
qed

lemma two_issues_dir: "get_str two_issues ''artifacts_dir'' [] = ''art''"
  by code_simp

lemma half_world_start: "start_run cfg resume_opts two_issues ''/r'' half_world = half_done"
  by (simp add: start_run_def two_issues_dir half_world_load demo_opts)

lemma half_done_run: "map_option (\<lambda>s. map r_name (d_completed s))
    (returned_state (run_upto 2 (with_defaults (scripted both_done)) resume_opts [] half_done
      (index_issues (d_issues half_done) []) (save_checkpoint demo_env half_done half_world))) = Some [''a'', ''b'']"
  by code_simp

theorem resumed_run_keeps_results_witness:
  "\<exists>s' w'. run_dag (scripted both_done) resume_opts two_issues ''/r'' half_world = Some (Returned (Some s') None, w') \<and>
    prefix (d_completed half_done) (d_completed s') \<and> map r_name (d_completed s') = [''a'', ''b'']"
proof -
  have env: "e_env (with_defaults (scripted both_done)) = demo_env" by (simp add: with_defaults_def scripted_def demo_engine_def)
  have "maps_of (mget two_issues ''file_conflicts'') = []" by code_simp
  then have "demo_run 2 (scripted both_done) resume_opts two_issues half_world =
      run_upto 2 (with_defaults (scripted both_done)) resume_opts [] half_done (index_issues (d_issues half_done) [])
        (save_checkpoint demo_env half_done half_world)"
    by (simp add: demo_run_def half_world_start env Let_def del: run_upto.simps)
  with half_done_run obtain s' where s': "returned_state (demo_run 2 (scripted both_done) resume_opts two_issues half_world) = Some s'"
    "map r_name (d_completed s') = [''a'', ''b'']" by auto
  then obtain w' where run: "run_dag (scripted both_done) resume_opts two_issues ''/r'' half_world = Some (Returned (Some s') None, w')"
    using demo_run_dag [OF _ demo_opts(2)] by (metis returned_stateD)
  from resumed_run_keeps_results [OF run demo_opts(4), of half_done] half_world_load half_done_ok two_issues_dir run s'(2)
  show ?thesis by auto
qed

end
