(* ===== verification/RunGates.thy ===== *)
theory RunGates
  imports RunAccounts
begin

text \<open>
  What the split gate and the failure threshold leave behind when the loop goes on or ends.
\<close>

section \<open>The split gate\<close>

lemma apply_replan_restarts:
  "apply_replan s p = (s', None) \<Longrightarrow> p_action p \<noteq> replan_abort \<Longrightarrow> p_action p \<noteq> replan_continue \<Longrightarrow> d_level s' = 0"
  by (auto simp: apply_replan_def Let_def split: sum.splits)

lemma record_written_fields [simp]: "d_levels (record_written p s) = d_levels s" "d_level (record_written p s) = d_level s"
    "d_issues (record_written p s) = d_issues s" "done_names (record_written p s) = done_names s"
  by (simp_all add: record_written_def done_names_def completed_names_def failed_names_def)

lemma unrecoverable_filter: "unrecoverable fs = [] \<Longrightarrow> unrecoverable (filter P fs) = []"
  by (auto simp: unrecoverable_def filter_empty_conv)

text \<open>
  C25: When exactly one issue of a level is split, the plan with its sub-issues is accepted and no issue failed beyond
  recovery, the loop goes on with level 1 of the new plan: the level counter, which the replan has set to 0, is
  incremented at the end of the same pass. The issues of level 0, those that wait for nothing, are passed over,
  and when the new plan has no other level (the sub-issues are independent and nothing else is left), the
  run ends at once with the state of that moment, in which no issue has a result that had none before (finding).
\<close>

theorem split_skips_level_zero:
  assumes "merge_gate eng conflicts active l s idx w = (Inr (s1, None), w1)" and "e_call eng = Some call"
    and "filter wants_split (l_failed l) = [f]" and "apply_replan (debt_gate l s1) (split_decision f) = (s2, None)"
    and "unrecoverable (l_failed l) = []"
  shows "\<exists>s3 w3. run_gates eng opts conflicts active l s idx w = (Loop s3 (index_issues (d_issues s2) []), w3) \<and>
    d_level s3 = 1 \<and> d_levels s3 = d_levels s2 \<and> done_names s3 = done_names s2 \<and>
    (length (d_levels s2) \<le> 1 \<longrightarrow>
      run_levels eng opts conflicts s3 (index_issues (d_issues s2) []) w3 = Some (finish_run eng s3 w3))"
proof -
  let ?p = "split_decision f"
  have "d_level s2 = 0"
    by (rule apply_replan_restarts [OF assms(4)]) (simp_all add: split_decision_def Let_def)
  moreover obtain p w2 where wr: "write_issue_files eng call s2 ?p w1 = (p, w2)" by force
  let ?s3 = "record_written p s2"
  have "split_gate eng l (debt_gate l s1) idx w1 =
      ((?s3, index_issues (d_issues s2) [], filter (\<lambda>f. r_outcome f \<noteq> out_failed_needs_split) (l_failed l)),
       save_checkpoint (e_env eng) ?s3 w2)"
    using assms(2-4) wr by (simp add: split_gate_def)
  moreover have "replan_gate eng ?s3 (filter (\<lambda>f. r_outcome f \<noteq> out_failed_needs_split) (l_failed l)) None w3 = (Proceed ?s3, w3)" for w3
    using unrecoverable_filter [OF assms(5)] by (simp add: replan_gate_def)
  ultimately show ?thesis using assms(1)
    by (simp add: run_gates_def close_level_def done_names_def completed_names_def failed_names_def record_written_def run_levels.simps)
qed

section \<open>The failure threshold\<close>

text \<open>
  C26: When too many issues of a level fail, the run ends with that level: its completed issues
  stay recorded as completed, although none of their branches has been merged (the list of merged
  branches is as it was before), every issue of a later level is skipped, and the end of the run
  sweeps up the worktrees of all issues (finding).
\<close>

theorem threshold_abandons_merge:
  assumes "0 \<le> d_level s" and "d_level s < int (length (d_levels s))" and "ctx_err w = None"
    and "active_issues s idx (d_levels s ! nat (d_level s)) = active" and "active \<noteq> []"
    and "prepare_level eng s idx active w = (Inr (s1, idx1, active1), w1)"
    and "execute_active eng s1 active1 w1 = (l, w2)" and "too_many_failed (e_cfg eng) l"
  shows "\<exists>s' w3. run_levels eng opts conflicts s idx w = Some (finish_run eng s' w3) \<and>
    d_completed s' = d_completed s @ l_completed l \<and> d_merged s' = d_merged s \<and>
    (\<forall>k. nat (d_level s) < k \<and> k < length (d_levels s) \<longrightarrow> set (d_levels s ! k) \<subseteq> set (d_skipped s'))"
proof -
  have same: "d_levels s1 = d_levels s" "d_level s1 = d_level s" "d_completed s1 = d_completed s" "d_merged s1 = d_merged s"
    using assms(6) by (auto simp: prepare_level_def Let_def split: option.splits if_splits prod.splits sum.splits)
  let ?s = "skip_future (record_level l (s1\<lparr>d_in_flight := []\<rparr>))"
  have "run_pass eng opts conflicts s idx w = (Leave ?s, save_checkpoint (e_env eng) ?s w2)"
    using assms by (simp add: run_pass_def run_level_def Let_def)
  then have "run_levels eng opts conflicts s idx w = Some (finish_run eng ?s (save_checkpoint (e_env eng) ?s w2))"
    using assms(2) by (subst run_levels.simps) simp
  moreover have "d_levels s ! k \<in> set (drop (Suc (nat (d_level s))) (d_levels s))"
    if "nat (d_level s) < k" "k < length (d_levels s)" for k
    using that by (auto simp: in_set_conv_nth intro!: exI [of _ "k - Suc (nat (d_level s))"])
  ultimately show ?thesis
    by (intro exI [of _ ?s] exI [of _ "save_checkpoint (e_env eng) ?s w2"])
      (auto simp: skip_future_def record_level_def same)
qed

section \<open>Witnesses\<close>

text \<open>Issue \<open>a\<close> fails and is to be split into \<open>a1\<close> and \<open>a2\<close>, which wait for nothing.\<close>

definition sub_issue :: "string \<Rightarrow> split_spec" where
  "sub_issue n = \<lparr>s_name = n, s_title = [], s_description = [], s_acceptance = [], s_depends = [], s_provides = [],
     s_create = [], s_modify = [], s_parent = []\<rparr>"

definition split_result :: issue_result where
  "split_result = zero_result\<lparr>r_name := ''a'', r_outcome := out_failed_needs_split,
     r_split := Some [sub_issue ''a1'', sub_issue ''a2'']\<rparr>"

definition split_level :: level_result where
  "split_level = \<lparr>l_index = 0, l_completed = [], l_failed = [split_result], l_skipped = []\<rparr>"

definition split_state :: dag_state where
  "split_state = zero_state\<lparr>d_issues := [[(''name'', GStr ''a'')]], d_levels := [[''a'']], d_failed := [split_result]\<rparr>"

theorem split_skips_level_zero_witness:
  "\<exists>s3 idx3 w3. run_gates (demo_engine stubborn_call) fresh_opts [] [] split_level split_state [] demo_world = (Loop s3 idx3, w3) \<and>
    d_levels s3 = [[''a1'', ''a2'']] \<and> done_names s3 = [''a''] \<and>
    run_levels (demo_engine stubborn_call) fresh_opts [] s3 idx3 w3 = Some (finish_run (demo_engine stubborn_call) s3 w3)"
proof -
  let ?s = "debt_gate split_level split_state" let ?p = "split_decision split_result"
  have "snd (apply_replan ?s ?p) = None" by code_simp
  then obtain s2 where s2: "apply_replan ?s ?p = (s2, None)" by (metis prod.collapse)
  have "d_levels (fst (apply_replan ?s ?p)) = [[''a1'', ''a2'']]" by code_simp
  moreover have "done_names (fst (apply_replan ?s ?p)) = [''a'']" by code_simp
  moreover have "merge_gate (demo_engine stubborn_call) [] [] split_level split_state [] demo_world = (Inr (split_state, None), demo_world)"
    by (simp add: merge_gate_def demo_engine_def split_state_def zero_state_def)
  moreover have "filter wants_split (l_failed split_level) = [split_result]"
    by (simp add: split_level_def split_result_def wants_split_def zero_result_def)
  moreover have "unrecoverable (l_failed split_level) = []"
    by (simp add: split_level_def split_result_def unrecoverable_def zero_result_def)
  moreover have "e_call (demo_engine stubborn_call) = Some stubborn_call" by (simp add: demo_engine_def)
  ultimately show ?thesis
    using split_skips_level_zero [of "demo_engine stubborn_call" "[]" "[]" split_level split_state "[]" demo_world split_state
        demo_world stubborn_call split_result s2 fresh_opts] s2 by auto
qed

text \<open>Five issues, all but the first fail, and one more waits at the next level.\<close>

definition plain_issue :: "string \<Rightarrow> gmap" where
  "plain_issue n = [(''name'', GStr n)]"

definition wide_state :: dag_state where
  "wide_state = zero_state\<lparr>d_issues := map plain_issue [''a'', ''b'', ''c'', ''d'', ''e'', ''f''],
     d_levels := [[''a'', ''b'', ''c'', ''d'', ''e''], [''f'']]\<rparr>"

definition first_done :: "string \<Rightarrow> string" where
  "first_done n = (if n = ''a'' then ''completed'' else ''failed_unrecoverable'')"

theorem threshold_abandons_merge_witness:
  "\<exists>s' w3. run_levels (scripted first_done) fresh_opts [] wide_state (index_issues (d_issues wide_state) []) demo_world =
      Some (finish_run (scripted first_done) s' w3) \<and>
    completed_names s' = [''a''] \<and> d_merged s' = [] \<and> ''f'' \<in> set (d_skipped s')"
proof -
  let ?idx = "index_issues (d_issues wide_state) []"
  let ?active = "active_issues wide_state ?idx [''a'', ''b'', ''c'', ''d'', ''e'']"
  let ?run = "execute_active (scripted first_done) wide_state ?active demo_world"
  obtain l w2 where l: "?run = (l, w2)" by force
  have "map r_name (l_completed (fst ?run)) = [''a'']" by code_simp
  moreover have "too_many_failed (e_cfg (scripted first_done)) (fst ?run)" by code_simp
  moreover have "?active \<noteq> []" by code_simp
  moreover have fields: "d_levels wide_state = [[''a'', ''b'', ''c'', ''d'', ''e''], [''f'']]" "d_level wide_state = 0"
      "d_completed wide_state = []" "d_merged wide_state = []" "ctx_err demo_world = None"
    by (simp_all add: wide_state_def zero_state_def demo_world_def)
  moreover have "prepare_level (scripted first_done) wide_state ?idx ?active demo_world = (Inr (wide_state, ?idx, ?active), demo_world)"
    by (simp add: prepare_level_def scripted_def)
  ultimately obtain s' w3 where "run_levels (scripted first_done) fresh_opts [] wide_state ?idx demo_world =
      Some (finish_run (scripted first_done) s' w3)" "completed_names s' = [''a'']" "d_merged s' = []"
      and skipped: "\<forall>k. 0 < k \<and> k < 2 \<longrightarrow> set ([[''a'', ''b'', ''c'', ''d'', ''e''], [''f'']] ! k) \<subseteq> set (d_skipped s')"
    using threshold_abandons_merge [of wide_state demo_world ?idx ?active "scripted first_done" wide_state ?idx ?active demo_world l w2 fresh_opts "[]"] l
    by (auto simp: completed_names_def)
  moreover have "''f'' \<in> set (d_skipped s')" using skipped [THEN spec, of 1] by simp
  ultimately show ?thesis by blast
qed

end
