(* ===== verification/Failures.thy ===== *)
theory Failures
  imports World
begin

text \<open>
  How a failed agent call is recognised: the fatal and timeout patterns of \<open>internal/fatal/fatal.go\<close>
  and the execution envelopes of \<open>internal/envelope/envelope.go\<close>, with the call helpers of
  \<open>internal/orch/common.go\<close> that unwrap them. The control plane behind \<open>App.Call\<close> and the harness
  are parameters; of a harness result the fields the code reads are kept.
\<close>

section \<open>Runes\<close>

text \<open>\<open>[]rune(s)\<close> of UTF-8 text, each rune as its bytes; a byte that starts no rune stands alone.\<close>

definition rune_len :: "char \<Rightarrow> nat" where
  "rune_len c = (let n = (of_char c :: nat) in if n < 192 then 1 else if n < 224 then 2 else if n < 240 then 3 else 4)"

definition continues :: "char \<Rightarrow> bool" where
  "continues c = (let n = (of_char c :: nat) in 128 \<le> n \<and> n < 192)"

function runes :: "string \<Rightarrow> string list" where
  "runes [] = []"
| "runes (c # cs) =
     (let k = rune_len c - 1
      in if k \<le> length cs \<and> list_all continues (take k cs) then (c # take k cs) # runes (drop k cs) else [c] # runes cs)"
  by pat_completeness auto
termination by (relation "measure length") auto

lemma concat_runes [simp]: "concat (runes s) = s"
  by (induction s rule: runes.induct) (auto simp: Let_def)

definition first_n :: "string \<Rightarrow> nat \<Rightarrow> string" where
  "first_n s n = (if length (runes s) \<le> n then s else concat (take n (runes s)))"

section \<open>Patterns\<close>

text \<open>The part of the regular expressions the pattern lists use.\<close>

datatype pattern = Lit string | Dots nat | Maybe pattern | Either pattern pattern | Then pattern pattern

text \<open>The rests of a text (a list of runes) after a match at its front; the dot excludes the newline.\<close>

fun match_ends :: "pattern \<Rightarrow> string list \<Rightarrow> string list list" where
  "match_ends (Lit cs) rs = (if take (length cs) rs = map (\<lambda>c. [c]) cs then [drop (length cs) rs] else [])"
| "match_ends (Dots n) rs = map (\<lambda>k. drop k rs) [0..<Suc (min n (length (takeWhile (\<lambda>r. r \<noteq> [CHR 0x0A]) rs)))]"
| "match_ends (Maybe p) rs = match_ends p rs @ [rs]"
| "match_ends (Either p q) rs = match_ends p rs @ match_ends q rs"
| "match_ends (Then p q) rs = concat (map (match_ends q) (match_ends p rs))"

fun match_in :: "pattern \<Rightarrow> string list \<Rightarrow> bool" where
  "match_in p [] = (match_ends p [] \<noteq> [])"
| "match_in p (r # rs) = (match_ends p (r # rs) \<noteq> [] \<or> match_in p rs)"

text \<open>\<open>(?i)\<close>: besides ASCII, the Kelvin sign folds to \<open>k\<close> and the long s to \<open>s\<close>.\<close>

definition fold_rune :: "string \<Rightarrow> string" where
  "fold_rune r = (if r = [CHR 0xE2, CHR 0x84, CHR 0xAA] then ''k'' else if r = [CHR 0xC5, CHR 0xBF] then ''s'' else to_lower r)"

definition match_string :: "pattern \<Rightarrow> string \<Rightarrow> bool" where
  "match_string p s = match_in p (map fold_rune (runes s))"

definition apart :: "string \<Rightarrow> nat \<Rightarrow> pattern \<Rightarrow> pattern" where
  "apart s n p = Then (Lit s) (Then (Dots n) p)"

definition fatal_patterns :: "pattern list" where
  "fatal_patterns =
     [Lit ''credit balance is too low'',
      apart ''insufficient'' 20 (Then (Lit ''credit'') (Maybe (Lit ''s''))),
      apart ''billing'' 20 (Either (Lit ''expired'') (Either (Lit ''inactive'') (Lit ''suspended''))),
      apart ''invalid'' 10 (Then (Lit ''api'') (Then (Dots 1) (Lit ''key''))),
      apart ''invalid'' 10 (Lit ''x-api-key''),
      Then (Maybe (Lit ''your '')) (Lit ''api key is not valid''),
      Lit ''authentication failed'',
      Lit ''account has been disabled'',
      apart ''account'' 10 (Lit ''is disabled''),
      Lit ''unauthorized'',
      apart ''quota'' 20 (Lit ''exceeded''),
      Lit ''not supported when using codex with a chatgpt account'',
      Lit ''requires a newer version of codex'']"

definition timeout_patterns :: "pattern list" where
  "timeout_patterns =
     [Lit ''cli command timed out after'', Lit ''cli command made no progress for'', Lit ''timed out'',
      Lit ''made no progress for'', Lit ''timeout exceeded'', Lit ''timeout after'', Lit ''deadline exceeded'']"

definition is_fatal_error :: "string \<Rightarrow> bool" where
  "is_fatal_error msg \<longleftrightarrow> msg \<noteq> [] \<and> list_ex (\<lambda>p. match_string p msg) fatal_patterns"

definition is_timeout_error :: "string \<Rightarrow> bool" where
  "is_timeout_error msg \<longleftrightarrow> msg \<noteq> [] \<and> list_ex (\<lambda>p. match_string p msg) timeout_patterns"

definition fatal_text :: "string \<Rightarrow> string" where
  "fatal_text original = ''Fatal API error (non-retryable): '' @ original"

definition fatal_error :: "string \<Rightarrow> go_error" where
  "fatal_error original = Fatal (fatal_text original)"

section \<open>Harness results\<close>

datatype failure_type = Schema_Failure | Timeout_Failure | Other_Failure

record harness_result =
  h_is_error :: bool
  h_error :: string
  h_parsed :: bool
  h_result :: string
  h_failure :: failure_type

definition check_fatal_harness_error :: "harness_result option \<Rightarrow> go_error option" where
  "check_fatal_harness_error r = (case r of
     None \<Rightarrow> None
   | Some h \<Rightarrow> if \<not> h_is_error h then None else if is_fatal_error (h_error h) then Some (fatal_error (h_error h)) else None)"

definition strip_period :: "string \<Rightarrow> string" where
  "strip_period s = (if has_suffix ''.'' s \<and> \<not> has_suffix ''..'' s then butlast s else s)"

definition timeout_error_text :: "string \<Rightarrow> string \<Rightarrow> string \<Rightarrow> string \<Rightarrow> string" where
  "timeout_error_text role provider model detail =
     role @ '' harness timed out (provider='' @ provider @ '', model='' @ model @ '') '' @ em_dash @
     '' the stage exceeded its harness time budget and was killed before writing any output'' @
     (if detail \<noteq> [] then '': '' @ strip_period detail else []) @
     ''. Raise AGENTFIELD_HARNESS_TIMEOUT_SECONDS / AGENTFIELD_HARNESS_IDLE_SECONDS, or reduce the stage'' @
     [CHR 0x27] @ ''s scope.''"

definition check_harness_timeout :: "harness_result option \<Rightarrow> string \<Rightarrow> string \<Rightarrow> string \<Rightarrow> go_error option" where
  "check_harness_timeout r role provider model = (case r of
     None \<Rightarrow> None
   | Some h \<Rightarrow>
       if h_parsed h \<or> trim_space (h_result h) \<noteq> [] then None
       else if h_failure h = Schema_Failure then None
       else if h_failure h \<noteq> Timeout_Failure \<and> \<not> is_timeout_error (h_error h) then None
       else Some (Plain (timeout_error_text role provider model (trim_space (h_error h)))))"

section \<open>Envelopes\<close>

definition envelope_keys :: "string list" where
  "envelope_keys = [''execution_id'', ''run_id'', ''node_id'', ''type'', ''target'', ''status'', ''duration_ms'',
     ''timestamp'', ''result'', ''error_message'', ''cost'']"

definition failure_statuses :: "string list" where
  "failure_statuses = [''failed'', ''error'', ''cancelled'', ''timeout'']"

definition has_envelope_key :: "gmap \<Rightarrow> bool" where
  "has_envelope_key raw \<longleftrightarrow> list_ex (\<lambda>(k, v). k \<in> set envelope_keys) raw"

definition truthy_text :: "gval \<Rightarrow> string option" where
  "truthy_text v = (case v of GNil \<Rightarrow> None | GStr s \<Rightarrow> if s \<noteq> [] then Some s else None | _ \<Rightarrow> Some (go_show v))"

definition error_text :: "gmap \<Rightarrow> string" where
  "error_text raw = (case truthy_text (mget raw ''error_message'') of
     Some s \<Rightarrow> s
   | None \<Rightarrow> (case truthy_text (mget raw ''error'') of Some s \<Rightarrow> s | None \<Rightarrow> ''unknown''))"

definition envelope_status :: "gmap \<Rightarrow> string" where
  "envelope_status raw = (case mget raw ''status'' of GNil \<Rightarrow> [] | v \<Rightarrow> to_lower (go_show v))"

definition unwrap_call_result :: "gmap \<Rightarrow> string \<Rightarrow> go_error + gmap" where
  "unwrap_call_result raw label =
     (if \<not> has_envelope_key raw then Inr raw
      else if envelope_status raw \<in> set failure_statuses
      then Inl (if is_fatal_error (error_text raw) then fatal_error (error_text raw)
                else Plain (label @ '' failed (status='' @ envelope_status raw @ ''): '' @ error_text raw))
      else (case mget raw ''result'' of GMap m \<Rightarrow> Inr m | _ \<Rightarrow> Inr raw))"

text \<open>\<open>Deps.Call\<close> and the closure of \<open>NewCallFn\<close>, over the control plane's \<open>App.Call\<close>.\<close>

definition call_target :: "string \<Rightarrow> string \<Rightarrow> string" where
  "call_target node name = (if node = [] then ''swe-planner'' else node) @ ''.'' @ name"

definition unwrapped :: "string \<Rightarrow> (go_error + gmap) \<times> 'x world \<Rightarrow> (go_error + gmap) \<times> 'x world" where
  "unwrapped label r = (case r of (Inl e, w) \<Rightarrow> (Inl e, w) | (Inr raw, w) \<Rightarrow> (unwrap_call_result raw label, w))"

definition deps_call :: "'x call \<Rightarrow> string \<Rightarrow> string \<Rightarrow> gmap \<Rightarrow> string \<Rightarrow> 'x world \<Rightarrow> (go_error + gmap) \<times> 'x world" where
  "deps_call app node name kwargs label w =
     unwrapped (if label = [] then name else label) (app (call_target node name) kwargs w)"

definition after_dot :: "string \<Rightarrow> string" where
  "after_dot target = rev (takeWhile (\<lambda>c. c \<noteq> CHR ''.'') (rev target))"

definition new_call_fn :: "'x call \<Rightarrow> 'x call" where
  "new_call_fn app target kwargs w = unwrapped (after_dot target) (app target kwargs w)"

section \<open>What unwrapping does\<close>

lemma no_envelope: "set (map fst raw) \<inter> set envelope_keys = {} \<Longrightarrow> \<not> has_envelope_key raw"
  by (force simp: has_envelope_key_def list_ex_iff)

lemma has_envelope_key_lookup: "map_of raw k = Some v \<Longrightarrow> k \<in> set envelope_keys \<Longrightarrow> has_envelope_key raw"
  by (force simp: has_envelope_key_def list_ex_iff dest: map_of_SomeD)

lemma lookup_mget: "mget raw k \<noteq> GNil \<Longrightarrow> map_of raw k = Some (mget raw k)"
  by (auto simp: mget_def lookup_def_def split: option.splits)

lemma lower_failures: "s \<in> set failure_statuses \<Longrightarrow> to_lower s = s"
  by (auto simp: failure_statuses_def to_lower_def lower_char_def)

lemma unwrap_failure:
  assumes "mget raw ''status'' = GStr s" and "to_lower s \<in> set failure_statuses"
  shows "\<exists>e. unwrap_call_result raw label = Inl e"
proof -
  have "has_envelope_key raw" using lookup_mget [of raw "''status''"] assms(1)
    by (intro has_envelope_key_lookup [of raw "''status''"]) (auto simp: envelope_keys_def)
  with assms show ?thesis by (simp add: unwrap_call_result_def envelope_status_def)
qed

end
