(* ===== verification/CiWatch.thy ===== *)
theory CiWatch
  imports Failures
begin

text \<open>
  The CI watcher, \<open>internal/cigate/watch.go\<close>: it polls \<open>gh pr checks\<close> until the checks are
  conclusive, the wait is over or the context is cancelled. The \<open>gh\<close> binary, the JSON text parser and
  the clock are parameters; the loop may run forever, so it is a partial function into \<open>option\<close>.
\<close>

section \<open>Reading the checks\<close>

text \<open>
  \<open>gh_run\<close> gives standard output, standard error and exit code; \<open>parse_json\<close> a value or the text of
  the parse error; \<open>now_ns\<close> the clock in nanoseconds; \<open>sleep_for\<close> what a sleep (in seconds) does.
\<close>

record 'x watch_env =
  gh_run :: "string list \<Rightarrow> string \<Rightarrow> 'x world \<Rightarrow> (string \<times> string \<times> int) \<times> 'x world"
  parse_json :: "string \<Rightarrow> string + gval"
  now_ns :: "'x world \<Rightarrow> int"
  sleep_for :: "int \<Rightarrow> 'x world \<Rightarrow> 'x world"

record failed_check =
  f_name :: string
  f_workflow :: string
  f_conclusion :: string
  f_details :: string
  f_logs :: string

record watch_result =
  t_status :: string
  t_pr :: int
  t_elapsed :: int
  t_failed :: "failed_check list"
  t_summary :: string

definition pending_buckets :: "string list" where
  "pending_buckets = [''pending'', ''queued'']"

definition failure_buckets :: "string list" where
  "failure_buckets = [''fail'', ''cancel'']"

definition map_str :: "gmap \<Rightarrow> string \<Rightarrow> string" where
  "map_str m k = as_string (mget m k)"

definition head_sha_of :: "gmap \<Rightarrow> string" where
  "head_sha_of c = trim_space (map_str c ''headSha'')"

text \<open>Unmarshalling into \<open>[]map[string]any\<close>: an array of objects and nulls, or null.\<close>

fun rows_of :: "gval list \<Rightarrow> gmap list option" where
  "rows_of [] = Some []"
| "rows_of (GMap m # vs) = map_option (\<lambda>rs. m # rs) (rows_of vs)"
| "rows_of (GNil # vs) = map_option (\<lambda>rs. [] # rs) (rows_of vs)"
| "rows_of (v # vs) = None"

definition go_type :: "gval \<Rightarrow> string" where
  "go_type v = (case v of GMap m \<Rightarrow> ''map[string]interface {}'' | GStr s \<Rightarrow> ''string'' | GBool b \<Rightarrow> ''bool''
     | GFloat m e \<Rightarrow> ''float64'' | GList vs \<Rightarrow> ''[]interface {}'' | _ \<Rightarrow> ''<nil>'')"

definition parse_checks :: "'x watch_env \<Rightarrow> string \<Rightarrow> string + gmap list" where
  "parse_checks env payload =
     (let text = trim_space payload
      in if text = [] then Inr []
         else (case parse_json env text of
             Inl e \<Rightarrow> Inl e
           | Inr v \<Rightarrow> (case (case v of GNil \<Rightarrow> Some [] | GList vs \<Rightarrow> rows_of vs | _ \<Rightarrow> None) of
               Some checks \<Rightarrow> Inr checks
             | None \<Rightarrow> Inl (''Expected JSON array from gh pr checks, got '' @ go_type v))))"

definition is_conclusive :: "gmap list \<Rightarrow> bool" where
  "is_conclusive checks \<longleftrightarrow> list_all (\<lambda>c. map_str c ''bucket'' \<notin> set pending_buckets) checks"

definition is_failing :: "gmap \<Rightarrow> bool" where
  "is_failing c \<longleftrightarrow> map_str c ''bucket'' \<in> set failure_buckets"

definition classify :: "gmap list \<Rightarrow> string" where
  "classify checks = (if list_ex is_failing checks then ''failed'' else ''passed'')"

section \<open>Failed checks and their logs\<close>

definition is_digit :: "char \<Rightarrow> bool" where
  "is_digit c = (let n = (of_char c :: nat) in 48 \<le> n \<and> n \<le> 57)"

text \<open>The pattern \<open>/actions/runs/(digits)\<close>, followed by a slash or the end.\<close>

definition run_id_here :: "string \<Rightarrow> string option" where
  "run_id_here s =
     (if has_prefix ''/actions/runs/'' s
      then let r = drop 14 s; ds = takeWhile is_digit r; rest = dropWhile is_digit r
           in if ds \<noteq> [] \<and> (rest = [] \<or> hd rest = CHR ''/'') then Some ds else None
      else None)"

fun extract_run_id :: "string \<Rightarrow> string" where
  "extract_run_id [] = []"
| "extract_run_id (c # cs) = (case run_id_here (c # cs) of Some ds \<Rightarrow> ds | None \<Rightarrow> extract_run_id cs)"

definition ellipsis :: string where
  "ellipsis = [CHR 0xE2, CHR 0x80, CHR 0xA6]"

definition log_tail :: "string \<Rightarrow> nat \<Rightarrow> string" where
  "log_tail text n =
     (let r = runes text
      in if length r \<le> n then text
         else ellipsis @ ''[truncated]'' @ ellipsis @ [CHR 0x0A] @ concat (drop (length r - n) r))"

definition fetch_failed_logs :: "'x watch_env \<Rightarrow> string \<Rightarrow> string \<Rightarrow> 'x world \<Rightarrow> string \<times> 'x world" where
  "fetch_failed_logs env repo run_id w =
     (if run_id = [] then ([], w)
      else let ((out, err, code), w1) = gh_run env [''gh'', ''run'', ''view'', run_id, ''--log-failed''] repo w
           in (log_tail (if code \<noteq> 0 \<and> out = [] then err else out) 3000, w1))"

definition details_url :: "gmap \<Rightarrow> string" where
  "details_url c = (if map_str c ''link'' = [] then map_str c ''detailsUrl'' else map_str c ''link'')"

fun build_failed_checks :: "'x watch_env \<Rightarrow> string \<Rightarrow> gmap list \<Rightarrow> 'x world \<Rightarrow> failed_check list \<times> 'x world" where
  "build_failed_checks env repo [] w = ([], w)"
| "build_failed_checks env repo (c # cs) w =
     (if \<not> is_failing c then build_failed_checks env repo cs w
      else let (logs, w1) = fetch_failed_logs env repo (extract_run_id (details_url c)) w;
               (fs, w2) = build_failed_checks env repo cs w1
           in (\<lparr>f_name = (if map_of c ''name'' = None then ''?'' else map_str c ''name''), f_workflow = map_str c ''workflow'',
                f_conclusion = (if map_of c ''state'' = None then map_str c ''bucket'' else map_str c ''state''),
                f_details = details_url c, f_logs = logs\<rparr> # fs, w2))"

section \<open>One poll\<close>

definition is_no_checks_reported :: "string \<Rightarrow> bool" where
  "is_no_checks_reported err \<longleftrightarrow> str_contains (to_lower err) ''no checks reported''"

text \<open>\<open>lastChecks\<close> of this poll, or the summary of the error that ends the watch.\<close>

definition read_checks :: "'x watch_env \<Rightarrow> string \<Rightarrow> int \<Rightarrow> 'x world \<Rightarrow> (string + gmap list) \<times> 'x world" where
  "read_checks env repo pr w =
     (let ((out, err, code), w1) = gh_run env [''gh'', ''pr'', ''checks'', show_int pr, ''--json'', ''bucket,state,name,workflow,link''] repo w
      in (if code \<noteq> 0
          then (case parse_checks env out of
              Inr (c # cs) \<Rightarrow> Inr (c # cs)
            | _ \<Rightarrow> if \<not> is_no_checks_reported (trim_space err)
                   then Inl ([CHR 0x60] @ ''gh pr checks'' @ [CHR 0x60] @ '' failed: '' @ first_n (trim_space err) 300)
                   else Inr [])
          else (case parse_checks env out of
              Inl e \<Rightarrow> Inl (''Could not parse gh pr checks output: '' @ e)
            | Inr cs \<Rightarrow> Inr cs), w1))"

definition verdict_checks :: "string \<Rightarrow> gmap list \<Rightarrow> gmap list" where
  "verdict_checks sha cs =
     (if sha \<noteq> [] then filter (\<lambda>c. to_lower (head_sha_of c) = [] \<or> to_lower (head_sha_of c) = sha) cs else cs)"

definition saw_sha :: "string \<Rightarrow> gmap list \<Rightarrow> bool" where
  "saw_sha sha cs \<longleftrightarrow> sha \<noteq> [] \<and> list_ex (\<lambda>c. to_lower (head_sha_of c) = sha) cs"

definition sha_unsupported :: "string \<Rightarrow> gmap list \<Rightarrow> bool" where
  "sha_unsupported sha cs \<longleftrightarrow> sha \<noteq> [] \<and> cs \<noteq> [] \<and> list_all (\<lambda>c. head_sha_of c = []) cs"

definition eligible :: "string \<Rightarrow> gmap list \<Rightarrow> bool \<Rightarrow> bool" where
  "eligible sha cs seen_sha =
     (verdict_checks sha cs \<noteq> [] \<and> (sha = [] \<or> sha_unsupported sha cs \<or> seen_sha))"

definition elapsed :: "'x watch_env \<Rightarrow> int \<Rightarrow> 'x world \<Rightarrow> int" where
  "elapsed env start w = (let d = now_ns env w - start in if d < 0 then - ((- d) div 10 ^ 9) else d div 10 ^ 9)"

definition watched :: "'x watch_env \<Rightarrow> int \<Rightarrow> int \<Rightarrow> string \<Rightarrow> failed_check list \<Rightarrow> string \<Rightarrow> 'x world \<Rightarrow> watch_result" where
  "watched env pr start status failed summary w =
     \<lparr>t_status = status, t_pr = pr, t_elapsed = elapsed env start w, t_failed = failed, t_summary = summary\<rparr>"

record watch_params =
  n_repo :: string
  n_pr :: int
  n_wait :: int
  n_poll :: int
  n_sha :: string
  n_start :: int

definition watch_verdict :: "'x watch_env \<Rightarrow> watch_params \<Rightarrow> gmap list \<Rightarrow> 'x world \<Rightarrow> watch_result \<times> 'x world" where
  "watch_verdict env p cs w =
     (if classify cs = ''passed''
      then (watched env (n_pr p) (n_start p) ''passed'' [] (''All '' @ show_nat (length cs) @ '' check(s) passed'') w, w)
      else let (fs, w1) = build_failed_checks env (n_repo p) cs w
           in (watched env (n_pr p) (n_start p) ''failed'' fs
                 (show_nat (length fs) @ '' of '' @ show_nat (length cs) @ '' check(s) failing'') w1, w1))"

definition deadline_result :: "'x watch_env \<Rightarrow> watch_params \<Rightarrow> gmap list \<Rightarrow> bool \<Rightarrow> bool \<Rightarrow> 'x world \<Rightarrow> watch_result" where
  "deadline_result env p cs seen_any seen_sha w =
     (if \<not> seen_any \<or> (n_sha p \<noteq> [] \<and> \<not> seen_sha)
      then watched env (n_pr p) (n_start p) ''no_checks'' []
             (''No checks reported in '' @ show_int (n_wait p) @ ''s '' @ em_dash @ '' PR has no CI configured or checks not yet started'' @
              (if n_sha p \<noteq> [] \<and> \<not> seen_sha then '' for '' @ first_n (n_sha p) 10 else [])) w
      else watched env (n_pr p) (n_start p) ''timed_out'' []
             (''Checks still pending after '' @ show_int (n_wait p) @ ''s ('' @ show_nat (length (verdict_checks (n_sha p) cs)) @ '' reporting)'') w)"

text \<open>The body of the loop: a result, or what has been seen so far.\<close>

definition watch_poll :: "'x watch_env \<Rightarrow> watch_params \<Rightarrow> bool \<times> bool \<Rightarrow> 'x world \<Rightarrow> (watch_result + bool \<times> bool) \<times> 'x world" where
  "watch_poll env p seen w = (case read_checks env (n_repo p) (n_pr p) w of
     (Inl summary, w1) \<Rightarrow> (Inl (watched env (n_pr p) (n_start p) ''error'' [] summary w1), w1)
   | (Inr cs, w1) \<Rightarrow>
       let seen_any = (fst seen \<or> cs \<noteq> []); seen_sha = (snd seen \<or> saw_sha (n_sha p) cs);
           vs = verdict_checks (n_sha p) cs
       in if eligible (n_sha p) cs seen_sha \<and> is_conclusive vs
          then (case watch_verdict env p vs w1 of (r, w2) \<Rightarrow> (Inl r, w2))
          else if elapsed env (n_start p) w1 \<ge> n_wait p
          then (Inl (deadline_result env p cs seen_any seen_sha w1), w1)
          else (Inr (seen_any, seen_sha), w1))"

partial_function (option) watch_loop :: "'x watch_env \<Rightarrow> watch_params \<Rightarrow> bool \<times> bool \<Rightarrow> 'x world \<Rightarrow> (watch_result \<times> 'x world) option" where
  "watch_loop env p seen w = (case ctx_err w of
     Some e \<Rightarrow> Some (watched env (n_pr p) (n_start p) ''error'' [] (''CI watch cancelled: '' @ err_text e) w, w)
   | None \<Rightarrow> (case watch_poll env p seen w of
       (Inl r, w1) \<Rightarrow> Some (r, w1)
     | (Inr seen1, w1) \<Rightarrow> watch_loop env p seen1 (sleep_for env (n_poll p) w1)))"

definition watch_pr_checks :: "'x watch_env \<Rightarrow> string \<Rightarrow> int \<Rightarrow> int \<Rightarrow> int \<Rightarrow> string \<Rightarrow> 'x world \<Rightarrow> (watch_result \<times> 'x world) option" where
  "watch_pr_checks env repo pr wait poll head_sha w =
     watch_loop env \<lparr>n_repo = repo, n_pr = pr, n_wait = wait, n_poll = poll, n_sha = to_lower (trim_space head_sha), n_start = now_ns env w\<rparr>
       (False, False) w"

definition mark_pr_ready :: "'x watch_env \<Rightarrow> string \<Rightarrow> int \<Rightarrow> 'x world \<Rightarrow> (bool \<times> string) \<times> 'x world" where
  "mark_pr_ready env repo pr w =
     (let ((out, err, code), w1) = gh_run env [''gh'', ''pr'', ''ready'', show_int pr] repo w
      in (if code = 0 then (True, ''PR #'' @ show_int pr @ '' marked ready for review'')
          else let msg = first_n (trim_space err) 300 in (False, if msg = [] then ''gh pr ready failed'' else msg), w1))"

end
