(* ===== verification/ConfigLoad.thy ===== *)
theory ConfigLoad
  imports Config Codec
begin

text \<open>
  Loading configurations from raw maps: \<open>internal/config/legacy.go\<close>, \<open>buildconfig.go\<close>,
  \<open>executionconfig.go\<close>, \<open>fastconfig.go\<close> and \<open>issueconfig.go\<close>. A configuration is decoded over its
  defaults with unknown top-level keys rejected, then validated. What an error of the JSON decoder
  says is not modelled; the errors of the validators are verbatim. Where the code reports the first
  offending key of a map, whose order Go leaves open, the model takes the first in the list.
\<close>

datatype load_error = Undecodable | Invalid string

section \<open>Legacy keys\<close>

definition legacy_group_equivalents :: "(string \<times> string) list" where
  "legacy_group_equivalents =
     [(''planning'', ''models.pm, models.architect, models.tech_lead, models.sprint_planner''),
      (''coding'', ''models.coder, models.qa, models.code_reviewer''),
      (''orchestration'', ''models.replan, models.retry_advisor, models.issue_writer, models.issue_advisor, '' @
         ''models.verifier, models.git, models.merger, models.integration_tester''),
      (''lightweight'', ''models.qa_synthesizer'')]"

definition legacy_top_level :: "(string \<times> string) list" where
  "legacy_top_level =
     [(''ai_provider'', ''runtime''), (''preset'', ''runtime + models''), (''model'', ''models.default'')] @
     map (\<lambda>(role, field). (field, ''models.'' @ role)) role_model_pairs"

definition legacy_hint :: "string \<Rightarrow> string" where
  "legacy_hint key = (case map_of legacy_group_equivalents key of
     Some hint \<Rightarrow> hint
   | None \<Rightarrow> (case model_field_to_role key of
       Some role \<Rightarrow> ''models.'' @ role
     | None \<Rightarrow> if has_suffix ''_model'' key then ''models.'' @ take (length key - 6) key else ''models.<role>''))"

definition legacy_model_error :: "string \<Rightarrow> string option" where
  "legacy_model_error key =
     (if map_of legacy_group_equivalents key \<noteq> None
      then Some (''Legacy model group key '' @ py_repr key @ '' is not supported in V2. Use flat role keys: '' @ legacy_hint key @ ''.'')
      else if model_field_to_role key \<noteq> None \<or> has_suffix ''_model'' key
      then Some (''Legacy model key '' @ py_repr key @ '' is not supported in V2. Use '' @ py_repr (legacy_hint key) @ ''.'')
      else None)"

fun first_error :: "('a \<Rightarrow> string option) \<Rightarrow> 'a list \<Rightarrow> string option" where
  "first_error f [] = None"
| "first_error f (x # xs) = (case f x of Some e \<Rightarrow> Some e | None \<Rightarrow> first_error f xs)"

definition legacy_hits :: "gmap \<Rightarrow> string list" where
  "legacy_hits data = map (\<lambda>(k, eq). py_repr k @ '' -> '' @ py_repr eq) (filter (\<lambda>(k, eq). map_of data k \<noteq> None) legacy_top_level)"

definition reject_legacy_config_keys :: "gmap \<Rightarrow> string option" where
  "reject_legacy_config_keys data =
     (case first_error legacy_model_error (case mget data ''models'' of GMap m \<Rightarrow> map fst m | _ \<Rightarrow> []) of
        Some e \<Rightarrow> Some e
      | None \<Rightarrow> if legacy_hits data \<noteq> [] then Some (''Legacy config keys are not supported in V2: '' @ join '', '' (legacy_hits data) @ ''.'')
               else None)"

section \<open>Strict decoding\<close>

definition known_keys :: "jtype \<Rightarrow> gmap \<Rightarrow> bool" where
  "known_keys t m \<longleftrightarrow> list_all (\<lambda>(k, v). to_lower k \<in> set (map to_lower (names_of t))) m"

definition strict_decode :: "jtype \<Rightarrow> gmap \<Rightarrow> gmap option" where
  "strict_decode t raw = (case decode t (zero_of t) (GMap (json_map raw)) of
     (v, ok) \<Rightarrow> if ok \<and> known_keys t raw then Some (as_map v) else None)"

definition models_of :: "gval \<Rightarrow> (string \<times> string) list option" where
  "models_of v = (case v of GMap m \<Rightarrow> Some (map (\<lambda>(k, x). (k, as_string x)) m) | _ \<Rightarrow> None)"

definition models_value :: "(string \<times> string) list option \<Rightarrow> gval" where
  "models_value ms = (case ms of None \<Rightarrow> GNil | Some m \<Rightarrow> GMap (map (\<lambda>(k, x). (k, GStr x)) m))"

definition decimal :: "gval \<Rightarrow> int \<times> int" where
  "decimal v = (case v of GFloat m e \<Rightarrow> (m, e) | _ \<Rightarrow> (0, 0))"

definition of_decimal :: "int \<times> int \<Rightarrow> gval" where
  "of_decimal d = GFloat (fst d) (snd d)"

section \<open>\<open>BuildConfig\<close>\<close>

record repo_spec =
  rs_url :: string
  rs_path :: string
  rs_role :: string
  rs_branch :: string
  rs_sparse :: "string list"
  rs_mount :: string
  rs_create_pr :: bool

definition j_repo_spec :: jtype where
  "j_repo_spec = JObj
     [fld ''repo_url'' JString, fld ''repo_path'' JString, fld ''role'' JString, fld ''branch'' JString,
      fld ''sparse_paths'' (JList JString), fld ''mount_point'' JString, (''create_pr'', JBool, GBool True)]"

definition repo_spec_of :: "gmap \<Rightarrow> repo_spec" where
  "repo_spec_of m = \<lparr>
     rs_url = as_string (mget m ''repo_url''), rs_path = as_string (mget m ''repo_path''), rs_role = as_string (mget m ''role''),
     rs_branch = as_string (mget m ''branch''), rs_sparse = strs_of (mget m ''sparse_paths''),
     rs_mount = as_string (mget m ''mount_point''), rs_create_pr = as_bool (mget m ''create_pr'')\<rparr>"

record build_config =
  b_runtime :: string
  b_models :: "(string \<times> string) list option"
  b_max_reviews :: int
  b_max_plan_revisions :: int
  b_max_retries :: int
  b_max_replans :: int
  b_enable_replanning :: bool
  b_max_verify_cycles :: int
  b_git_retries :: int
  b_git_retry_delay :: "int \<times> int"
  b_max_test_retries :: int
  b_enable_testing :: bool
  b_max_iterations :: int
  b_agent_max_turns :: int
  b_deterministic_git :: bool
  b_execute_target :: string
  b_permission_mode :: string
  b_repo_url :: string
  b_repos :: "repo_spec list"
  b_enable_pr :: bool
  b_pr_base :: string
  b_check_ci :: bool
  b_max_ci_cycles :: int
  b_ci_wait :: int
  b_ci_poll :: int
  b_ci_grace :: int
  b_timeout :: int
  b_max_advisor :: int
  b_enable_advisor :: bool
  b_enable_learning :: bool
  b_max_concurrent :: int
  b_threshold :: "int \<times> int"
  b_approval_hours :: int

text \<open>The fields with their defaults (\<open>defaultBuildConfig\<close>).\<close>

definition build_fields :: "getenv \<Rightarrow> (string \<times> jtype \<times> gval) list" where
  "build_fields genv =
     [(''runtime'', JString, GStr (default_runtime genv)), (''models'', JDictOf JString, GNil),
      (''max_review_iterations'', JInt, GInt 2), (''max_plan_revision_iterations'', JInt, GInt 2),
      (''max_retries_per_issue'', JInt, GInt 2), (''max_replans'', JInt, GInt 2), (''enable_replanning'', JBool, GBool True),
      (''max_verify_fix_cycles'', JInt, GInt 1), (''git_init_max_retries'', JInt, GInt 3),
      (''git_init_retry_delay'', JFloat, GFloat 1 0), (''max_integration_test_retries'', JInt, GInt 1),
      (''enable_integration_testing'', JBool, GBool True), (''max_coding_iterations'', JInt, GInt 5),
      (''agent_max_turns'', JInt, GInt 150), (''deterministic_git'', JBool, GBool True),
      (''execute_fn_target'', JString, GStr []), (''permission_mode'', JString, GStr []), (''repo_url'', JString, GStr []),
      (''repos'', JList j_repo_spec, GList []), (''enable_github_pr'', JBool, GBool True), (''github_pr_base'', JString, GStr []),
      (''check_ci'', JBool, GBool True), (''max_ci_fix_cycles'', JInt, GInt 2), (''ci_wait_seconds'', JInt, GInt 1500),
      (''ci_poll_seconds'', JInt, GInt 30), (''ci_startup_grace_seconds'', JInt, GInt 30),
      (''agent_timeout_seconds'', JInt, GInt 2700), (''max_advisor_invocations'', JInt, GInt 2),
      (''enable_issue_advisor'', JBool, GBool True), (''enable_learning'', JBool, GBool False),
      (''max_concurrent_issues'', JInt, GInt 3), (''level_failure_abort_threshold'', JFloat, GFloat 8 (-1)),
      (''approval_expires_in_hours'', JInt, GInt 72)]"

definition build_config_of :: "gmap \<Rightarrow> build_config" where
  "build_config_of m =
     (let str = (\<lambda>k. as_string (mget m k)); num = (\<lambda>k. as_int (mget m k)); flag = (\<lambda>k. as_bool (mget m k))
      in \<lparr>b_runtime = str ''runtime'', b_models = models_of (mget m ''models''),
       b_max_reviews = num ''max_review_iterations'', b_max_plan_revisions = num ''max_plan_revision_iterations'',
       b_max_retries = num ''max_retries_per_issue'', b_max_replans = num ''max_replans'',
       b_enable_replanning = flag ''enable_replanning'', b_max_verify_cycles = num ''max_verify_fix_cycles'',
       b_git_retries = num ''git_init_max_retries'', b_git_retry_delay = decimal (mget m ''git_init_retry_delay''),
       b_max_test_retries = num ''max_integration_test_retries'', b_enable_testing = flag ''enable_integration_testing'',
       b_max_iterations = num ''max_coding_iterations'', b_agent_max_turns = num ''agent_max_turns'',
       b_deterministic_git = flag ''deterministic_git'', b_execute_target = str ''execute_fn_target'',
       b_permission_mode = str ''permission_mode'', b_repo_url = str ''repo_url'',
       b_repos = obj_list repo_spec_of (mget m ''repos''), b_enable_pr = flag ''enable_github_pr'',
       b_pr_base = str ''github_pr_base'', b_check_ci = flag ''check_ci'', b_max_ci_cycles = num ''max_ci_fix_cycles'',
       b_ci_wait = num ''ci_wait_seconds'', b_ci_poll = num ''ci_poll_seconds'', b_ci_grace = num ''ci_startup_grace_seconds'',
       b_timeout = num ''agent_timeout_seconds'', b_max_advisor = num ''max_advisor_invocations'',
       b_enable_advisor = flag ''enable_issue_advisor'', b_enable_learning = flag ''enable_learning'',
       b_max_concurrent = num ''max_concurrent_issues'', b_threshold = decimal (mget m ''level_failure_abort_threshold''),
       b_approval_hours = num ''approval_expires_in_hours''\<rparr>)"

definition validate_repo_spec :: "repo_spec \<Rightarrow> string option" where
  "validate_repo_spec r =
     (if rs_role r \<noteq> ''primary'' \<and> rs_role r \<noteq> ''dependency''
      then Some (''role must be '' @ py_repr ''primary'' @ '' or '' @ py_repr ''dependency'' @ '', got '' @ py_repr (rs_role r))
      else if rs_url r \<noteq> [] \<and> \<not> (has_prefix ''http://'' (rs_url r) \<or> has_prefix ''https://'' (rs_url r) \<or> has_prefix ''git@'' (rs_url r))
      then Some (''repo_url must be an HTTP(S) or SSH git URL, got '' @ py_repr (rs_url r))
      else None)"

definition is_primary :: "repo_spec \<Rightarrow> bool" where
  "is_primary r \<longleftrightarrow> rs_role r = ''primary''"

definition primary_repo :: "build_config \<Rightarrow> repo_spec option" where
  "primary_repo c = find is_primary (b_repos c)"

definition shorthand_repo :: "string \<Rightarrow> repo_spec" where
  "shorthand_repo url = \<lparr>rs_url = url, rs_path = [], rs_role = ''primary'', rs_branch = [], rs_sparse = [], rs_mount = [],
     rs_create_pr = True\<rparr>"

definition repo_urls :: "repo_spec list \<Rightarrow> string list" where
  "repo_urls rs = filter (\<lambda>u. u \<noteq> []) (map rs_url rs)"

definition normalize_repos :: "build_config \<Rightarrow> string + build_config" where
  "normalize_repos c =
     (if b_repo_url c \<noteq> [] \<and> b_repos c \<noteq> []
      then Inl (''Specify either '' @ py_repr ''repo_url'' @ '' (single-repo shorthand) or '' @ py_repr ''repos'' @
             '' (multi-repo list), not both.'')
      else if b_repo_url c \<noteq> []
      then (case validate_repo_spec (shorthand_repo (b_repo_url c)) of
              Some e \<Rightarrow> Inl e | None \<Rightarrow> Inr (c\<lparr>b_repos := [shorthand_repo (b_repo_url c)]\<rparr>))
      else if b_repos c = [] then Inr c
      else if length (filter is_primary (b_repos c)) \<noteq> 1
      then Inl (''Exactly one RepoSpec with role='' @ py_repr ''primary'' @ '' is required; found '' @
             show_nat (length (filter is_primary (b_repos c))) @ ''.'')
      else if length (repo_urls (b_repos c)) \<noteq> card (set (repo_urls (b_repos c)))
      then Inl (''Duplicate repo_url values are not allowed in '' @ py_repr ''repos'' @ ''.'')
      else Inr (c\<lparr>b_repo_url := (case primary_repo c of None \<Rightarrow> [] | Some r \<Rightarrow> rs_url r)\<rparr>))"

definition load_build_config :: "getenv \<Rightarrow> gmap \<Rightarrow> load_error + build_config" where
  "load_build_config genv raw = (case reject_legacy_config_keys raw of
     Some e \<Rightarrow> Inl (Invalid e)
   | None \<Rightarrow> (case strict_decode (JObj (build_fields genv)) raw of
       None \<Rightarrow> Inl Undecodable
     | Some m \<Rightarrow> (case first_error validate_repo_spec (b_repos (build_config_of m)) of
         Some e \<Rightarrow> Inl (Invalid e)
       | None \<Rightarrow> (case normalize_repos (build_config_of m) of
           Inl e \<Rightarrow> Inl (Invalid e)
         | Inr c \<Rightarrow> (case validate_flat_models (b_models c) of Inl e \<Rightarrow> Inl (Invalid e) | Inr ms \<Rightarrow> Inr c)))))"

definition build_ai_provider :: "build_config \<Rightarrow> string" where
  "build_ai_provider c = runtime_to_provider (b_runtime c)"

definition resolved_models :: "getenv \<Rightarrow> build_config \<Rightarrow> string + (string \<times> string) list" where
  "resolved_models genv c = resolve_runtime_models genv (b_runtime c) (b_models c) None"

definition to_execution_config_dict :: "build_config \<Rightarrow> gmap" where
  "to_execution_config_dict c =
     [(''runtime'', GStr (b_runtime c)), (''models'', models_value (b_models c)),
      (''permission_mode'', GStr (b_permission_mode c)), (''max_retries_per_issue'', GInt (b_max_retries c)),
      (''max_replans'', GInt (b_max_replans c)), (''enable_replanning'', GBool (b_enable_replanning c)),
      (''max_integration_test_retries'', GInt (b_max_test_retries c)), (''enable_integration_testing'', GBool (b_enable_testing c)),
      (''max_coding_iterations'', GInt (b_max_iterations c)), (''agent_max_turns'', GInt (b_agent_max_turns c)),
      (''deterministic_git'', GBool (b_deterministic_git c)), (''agent_timeout_seconds'', GInt (b_timeout c)),
      (''max_advisor_invocations'', GInt (b_max_advisor c)), (''enable_issue_advisor'', GBool (b_enable_advisor c)),
      (''enable_learning'', GBool (b_enable_learning c)), (''max_concurrent_issues'', GInt (b_max_concurrent c)),
      (''level_failure_abort_threshold'', of_decimal (b_threshold c)), (''check_ci'', GBool (b_check_ci c)),
      (''max_ci_fix_cycles'', GInt (b_max_ci_cycles c)), (''ci_wait_seconds'', GInt (b_ci_wait c)),
      (''ci_poll_seconds'', GInt (b_ci_poll c))]"

section \<open>\<open>ExecutionConfig\<close>\<close>

definition execution_fields :: "getenv \<Rightarrow> (string \<times> jtype \<times> gval) list" where
  "execution_fields genv =
     [(''runtime'', JString, GStr (default_runtime genv)), (''models'', JDictOf JString, GNil),
      (''max_retries_per_issue'', JInt, GInt 1), (''max_replans'', JInt, GInt 2), (''enable_replanning'', JBool, GBool True),
      (''max_integration_test_retries'', JInt, GInt 1), (''enable_integration_testing'', JBool, GBool True),
      (''max_coding_iterations'', JInt, GInt 5), (''agent_max_turns'', JInt, GInt 150), (''deterministic_git'', JBool, GBool True),
      (''permission_mode'', JString, GStr []), (''agent_timeout_seconds'', JInt, GInt 2700),
      (''max_advisor_invocations'', JInt, GInt 2), (''enable_issue_advisor'', JBool, GBool True),
      (''enable_learning'', JBool, GBool False), (''max_concurrent_issues'', JInt, GInt 3),
      (''level_failure_abort_threshold'', JFloat, GFloat 8 (-1)), (''check_ci'', JBool, GBool True),
      (''max_ci_fix_cycles'', JInt, GInt 2), (''ci_wait_seconds'', JInt, GInt 1500), (''ci_poll_seconds'', JInt, GInt 30)]"

definition fraction_num :: "int \<times> int \<Rightarrow> int" where
  "fraction_num d = (if 0 \<le> snd d then fst d * 10 ^ nat (snd d) else fst d)"

definition fraction_den :: "int \<times> int \<Rightarrow> int" where
  "fraction_den d = (if 0 \<le> snd d then 1 else 10 ^ nat (- snd d))"

definition execution_config_of :: "gmap \<Rightarrow> exec_config" where
  "execution_config_of m =
     (let str = (\<lambda>k. as_string (mget m k)); num = (\<lambda>k. as_int (mget m k)); flag = (\<lambda>k. as_bool (mget m k));
          threshold = decimal (mget m ''level_failure_abort_threshold'')
      in \<lparr>c_runtime = str ''runtime'', c_overrides = models_of (mget m ''models''), c_max_retries = num ''max_retries_per_issue'',
       c_max_replans = num ''max_replans'', c_enable_replanning = flag ''enable_replanning'',
       c_max_test_retries = num ''max_integration_test_retries'', c_enable_testing = flag ''enable_integration_testing'',
       c_max_iterations = num ''max_coding_iterations'', c_agent_max_turns = num ''agent_max_turns'',
       c_deterministic_git = flag ''deterministic_git'', c_permission_mode = str ''permission_mode'',
       c_timeout = num ''agent_timeout_seconds'', c_max_advisor = num ''max_advisor_invocations'',
       c_enable_advisor = flag ''enable_issue_advisor'', c_enable_learning = flag ''enable_learning'',
       c_max_concurrent = num ''max_concurrent_issues'', c_threshold_num = fraction_num threshold,
       c_threshold_den = fraction_den threshold, c_check_ci = flag ''check_ci'', c_max_ci_cycles = num ''max_ci_fix_cycles'',
       c_ci_wait = num ''ci_wait_seconds'', c_ci_poll = num ''ci_poll_seconds'', c_models = []\<rparr>)"

definition load_execution_config :: "getenv \<Rightarrow> gmap \<Rightarrow> load_error + exec_config" where
  "load_execution_config genv raw = (case reject_legacy_config_keys raw of
     Some e \<Rightarrow> Inl (Invalid e)
   | None \<Rightarrow> (case strict_decode (JObj (execution_fields genv)) raw of
       None \<Rightarrow> Inl Undecodable
     | Some m \<Rightarrow>
         let c = execution_config_of m; c1 = (if c_runtime c = ''claude'' then c\<lparr>c_runtime := ''claude_code''\<rparr> else c)
         in (case resolve_runtime_models genv (c_runtime c1) (c_overrides c1) None of
               Inl e \<Rightarrow> Inl (Invalid e) | Inr resolved \<Rightarrow> Inr (c1\<lparr>c_models := resolved\<rparr>))))"

section \<open>\<open>FastBuildConfig\<close>\<close>

record fast_config =
  k_runtime :: string
  k_models :: "(string \<times> string) list option"
  k_max_tasks :: int
  k_task_timeout :: int
  k_build_timeout :: int
  k_enable_pr :: bool
  k_pr_base :: string
  k_permission_mode :: string
  k_repo_url :: string
  k_agent_max_turns :: int

definition fast_roles :: "string list" where
  "fast_roles = [''pm_model'', ''coder_model'', ''verifier_model'', ''git_model'']"

definition fast_role_key_map :: "(string \<times> string) list" where
  "fast_role_key_map = [(''pm'', ''pm_model''), (''coder'', ''coder_model''), (''verifier'', ''verifier_model''), (''git'', ''git_model'')]"

definition fast_valid_keys :: "string list" where
  "fast_valid_keys = [''default'', ''pm'', ''coder'', ''verifier'', ''git'']"

definition default_fast_runtime :: "getenv \<Rightarrow> string" where
  "default_fast_runtime genv =
     (let value = env_stripped genv ''SWE_DEFAULT_RUNTIME''
      in if value = [] then (if openrouter_only_env genv then ''aforge'' else ''claude_code'')
         else if value \<in> set runtime_values then value else ''claude_code'')"

definition fast_runtime_default :: "getenv \<Rightarrow> string \<Rightarrow> string" where
  "fast_runtime_default genv runtime =
     (if runtime = ''codex'' then codex_default_model genv
      else if runtime = ''claude_code'' then ''haiku''
      else if runtime = ''aforge'' \<or> runtime = ''open_code'' then openrouter_auto_default_model
      else [])"

definition fast_fields :: "getenv \<Rightarrow> (string \<times> jtype \<times> gval) list" where
  "fast_fields genv =
     [(''runtime'', JString, GStr (default_fast_runtime genv)), (''models'', JDictOf JString, GNil), (''max_tasks'', JInt, GInt 10),
      (''task_timeout_seconds'', JInt, GInt 300), (''build_timeout_seconds'', JInt, GInt 600),
      (''enable_github_pr'', JBool, GBool True), (''github_pr_base'', JString, GStr []), (''permission_mode'', JString, GStr []),
      (''repo_url'', JString, GStr []), (''agent_max_turns'', JInt, GInt 50)]"

definition fast_config_of :: "gmap \<Rightarrow> fast_config" where
  "fast_config_of m = \<lparr>
     k_runtime = as_string (mget m ''runtime''), k_models = models_of (mget m ''models''),
     k_max_tasks = as_int (mget m ''max_tasks''), k_task_timeout = as_int (mget m ''task_timeout_seconds''),
     k_build_timeout = as_int (mget m ''build_timeout_seconds''), k_enable_pr = as_bool (mget m ''enable_github_pr''),
     k_pr_base = as_string (mget m ''github_pr_base''), k_permission_mode = as_string (mget m ''permission_mode''),
     k_repo_url = as_string (mget m ''repo_url''), k_agent_max_turns = as_int (mget m ''agent_max_turns'')\<rparr>"

definition load_fast_build_config :: "getenv \<Rightarrow> gmap \<Rightarrow> load_error + fast_config" where
  "load_fast_build_config genv raw = (case strict_decode (JObj (fast_fields genv)) raw of
     None \<Rightarrow> Inl Undecodable | Some m \<Rightarrow> Inr (fast_config_of m))"

fun fast_overrides :: "(string \<times> string) list \<Rightarrow> (string \<times> string) list \<Rightarrow> (string \<times> string) list \<Rightarrow> (string \<times> string) list" where
  "fast_overrides models [] r = r"
| "fast_overrides models ((role, field) # ps) r =
     fast_overrides models ps (case map_of models role of None \<Rightarrow> r | Some v \<Rightarrow> AList.update field v r)"

definition fast_resolve_models :: "getenv \<Rightarrow> fast_config \<Rightarrow> string + (string \<times> string) list" where
  "fast_resolve_models genv c =
     (let r1 = assign_fields (\<lambda>f. fast_runtime_default genv (k_runtime c)) fast_roles [];
          env_model = default_model_from_env genv (k_runtime c);
          r2 = (if env_model \<noteq> [] then assign_fields (\<lambda>f. env_model) fast_roles r1 else r1)
      in case k_models c of
           None \<Rightarrow> Inr r2
         | Some models \<Rightarrow> (case filter (\<lambda>k. k \<notin> set fast_valid_keys) (map fst models) of
             key # ks \<Rightarrow> Inl (''Unknown role key '' @ py_repr key @ '' in models dict. Valid keys are: '' @
               ''['' @ join '', '' (map py_repr (sort fast_valid_keys)) @ '']'')
           | [] \<Rightarrow>
               let r3 = (case map_of models ''default'' of None \<Rightarrow> r2 | Some d \<Rightarrow> assign_fields (\<lambda>f. d) fast_roles r2)
               in Inr (fast_overrides models fast_role_key_map r3)))"

section \<open>\<open>IssueBuildConfig\<close>\<close>

record issue_config =
  i_runtime :: string
  i_models :: "(string \<times> string) list option"
  i_max_iterations :: int
  i_agent_max_turns :: int
  i_timeout :: int
  i_permission_mode :: string
  i_verify :: bool
  i_enable_pr :: bool
  i_pr_base :: string
  i_branch_prefix :: string
  i_keep_worktree :: bool

definition issue_valid_model_keys :: "string list" where
  "issue_valid_model_keys = [''default'', ''coder'', ''code_reviewer'', ''qa'', ''qa_synthesizer'', ''verifier'', ''git'']"

definition issue_fields :: "getenv \<Rightarrow> (string \<times> jtype \<times> gval) list" where
  "issue_fields genv =
     [(''runtime'', JString, GStr (default_runtime genv)), (''models'', JDictOf JString, GNil),
      (''max_coding_iterations'', JInt, GInt 3), (''agent_max_turns'', JInt, GInt 50), (''agent_timeout_seconds'', JInt, GInt 1800),
      (''permission_mode'', JString, GStr []), (''verify'', JBool, GBool True), (''enable_github_pr'', JBool, GBool False),
      (''github_pr_base'', JString, GStr []), (''branch_prefix'', JString, GStr ''issue/''), (''keep_worktree'', JBool, GBool False)]"

definition issue_config_of :: "gmap \<Rightarrow> issue_config" where
  "issue_config_of m = \<lparr>
     i_runtime = as_string (mget m ''runtime''), i_models = models_of (mget m ''models''),
     i_max_iterations = as_int (mget m ''max_coding_iterations''), i_agent_max_turns = as_int (mget m ''agent_max_turns''),
     i_timeout = as_int (mget m ''agent_timeout_seconds''), i_permission_mode = as_string (mget m ''permission_mode''),
     i_verify = as_bool (mget m ''verify''), i_enable_pr = as_bool (mget m ''enable_github_pr''),
     i_pr_base = as_string (mget m ''github_pr_base''), i_branch_prefix = as_string (mget m ''branch_prefix''),
     i_keep_worktree = as_bool (mget m ''keep_worktree'')\<rparr>"

text \<open>\<open>%q\<close> of a key of printable ASCII without quotes and backslashes.\<close>

definition quoted :: "string \<Rightarrow> string" where
  "quoted s = [CHR 0x22] @ s @ [CHR 0x22]"

definition load_issue_build_config :: "getenv \<Rightarrow> gmap \<Rightarrow> load_error + issue_config" where
  "load_issue_build_config genv raw = (case strict_decode (JObj (issue_fields genv)) raw of
     None \<Rightarrow> Inl Undecodable
   | Some m \<Rightarrow>
       let c = issue_config_of m;
           keys = (case i_models c of None \<Rightarrow> [] | Some ms \<Rightarrow> map fst ms);
           unknown = map quoted (filter (\<lambda>k. k \<notin> set issue_valid_model_keys) keys)
       in if unknown \<noteq> []
          then Inl (Invalid (''Unknown model keys for implement_issue: '' @ join '', '' (sort unknown) @ ''. Valid keys: '' @
                  join '', '' (sort issue_valid_model_keys)))
          else Inr c)"

definition to_execution_raw :: "issue_config \<Rightarrow> gmap" where
  "to_execution_raw c =
     [(''runtime'', GStr (i_runtime c)), (''max_coding_iterations'', GInt (i_max_iterations c)),
      (''agent_max_turns'', GInt (i_agent_max_turns c)), (''agent_timeout_seconds'', GInt (i_timeout c)),
      (''permission_mode'', GStr (i_permission_mode c)), (''enable_learning'', GBool False), (''enable_replanning'', GBool False),
      (''enable_issue_advisor'', GBool False), (''enable_integration_testing'', GBool False), (''check_ci'', GBool False)] @
     (case i_models c of None \<Rightarrow> [] | Some ms \<Rightarrow> [(''models'', models_value (Some ms))])"

end
