(* ===== verification/Orch.thy ===== *)
theory Orch
  imports Failures ConfigLoad Worktree
begin

text \<open>
  What the orchestrators of \<open>internal/orch\<close> share: the helpers of \<open>common.go\<close>, the preparation of
  repositories (\<open>clone_repos.go\<close>, \<open>repohygiene.go\<close>) and the workspace root. The control plane, the
  commands \<open>git\<close> and \<open>gh\<close> and the file system are parameters; a command or a call may change the
  whole world. Notes are left out.
\<close>

section \<open>The surroundings\<close>

text \<open>
  \<open>run_cmd\<close> takes the working directory (empty: inherited), the program and its arguments and gives
  standard output, standard error and exit code. Operations on files give their error, if any.
\<close>

datatype file_text = Contents string | Absent | Unreadable string

record 'x host =
  app_call :: "'x call"
  node_id :: string
  default_target :: string
  env_var :: getenv
  work_dir :: string
  run_cmd :: "string \<Rightarrow> string \<Rightarrow> string list \<Rightarrow> 'x world \<Rightarrow> (string \<times> string \<times> int) \<times> 'x world"
  read_file :: "string \<Rightarrow> 'x world \<Rightarrow> file_text"
  write_file :: "string \<Rightarrow> string \<Rightarrow> 'x world \<Rightarrow> string option \<times> 'x world"
  append_file :: "string \<Rightarrow> string \<Rightarrow> 'x world \<Rightarrow> 'x world"
  remove_file :: "string \<Rightarrow> 'x world \<Rightarrow> string option \<times> 'x world"
  make_dirs :: "string \<Rightarrow> 'x world \<Rightarrow> string option \<times> 'x world"
  remove_tree :: "string \<Rightarrow> 'x world \<Rightarrow> 'x world"
  path_exists :: "string \<Rightarrow> 'x world \<Rightarrow> bool"
  is_directory :: "string \<Rightarrow> 'x world \<Rightarrow> bool"
  fresh_id :: "'x world \<Rightarrow> string \<times> 'x world"
  pause :: "int \<times> int \<Rightarrow> 'x world \<Rightarrow> 'x world"

text \<open>The Go idiom \<open>if err != nil { return nil, err }\<close>.\<close>

definition and_then :: "('e + 'a) \<times> 'w \<Rightarrow> ('a \<Rightarrow> 'w \<Rightarrow> ('e + 'b) \<times> 'w) \<Rightarrow> ('e + 'b) \<times> 'w" where
  "and_then m f = (case m of (Inl e, w) \<Rightarrow> (Inl e, w) | (Inr a, w) \<Rightarrow> f a w)"

lemma and_then_simps [simp]:
  "and_then (Inl e, w) f = (Inl e, w)" "and_then (Inr a, w) f = f a w"
  by (simp_all add: and_then_def)

lemma and_then_Inr:
  "and_then m f = (Inr b, w') \<longleftrightarrow> (\<exists>a w1. m = (Inr a, w1) \<and> f a w1 = (Inr b, w'))"
  by (cases m; cases "fst m") auto

lemma and_then_Inl:
  "and_then m f = (Inl e, w') \<longleftrightarrow> m = (Inl e, w') \<or> (\<exists>a w1. m = (Inr a, w1) \<and> f a w1 = (Inl e, w'))"
  by (cases m; cases "fst m") auto

definition load_error_of :: "load_error \<Rightarrow> go_error" where
  "load_error_of e = (case e of Undecodable \<Rightarrow> Plain ''json'' | Invalid s \<Rightarrow> Plain s)"

definition call_node :: "'x host \<Rightarrow> string \<Rightarrow> gmap \<Rightarrow> string \<Rightarrow> 'x world \<Rightarrow> (go_error + gmap) \<times> 'x world" where
  "call_node h name kwargs label w = deps_call (app_call h) (node_id h) name kwargs label w"

definition call_raw :: "'x host \<Rightarrow> string \<Rightarrow> gmap \<Rightarrow> 'x world \<Rightarrow> (go_error + gmap) \<times> 'x world" where
  "call_raw h name kwargs w = app_call h (call_target (node_id h) name) kwargs w"

definition git :: "'x host \<Rightarrow> string \<Rightarrow> string list \<Rightarrow> 'x world \<Rightarrow> (string \<times> string \<times> int) \<times> 'x world" where
  "git h dir args w = run_cmd h dir ''git'' args w"

definition gh :: "'x host \<Rightarrow> string \<Rightarrow> string list \<Rightarrow> 'x world \<Rightarrow> (string \<times> string \<times> int) \<times> 'x world" where
  "gh h dir args w = run_cmd h dir ''gh'' args w"

abbreviation exit_code :: "string \<times> string \<times> int \<Rightarrow> int" where
  "exit_code r \<equiv> snd (snd r)"

section \<open>Values\<close>

definition map_str_or :: "gmap \<Rightarrow> string \<Rightarrow> string \<Rightarrow> string" where
  "map_str_or m k dflt = (case mget m k of GStr s \<Rightarrow> s | _ \<Rightarrow> dflt)"

definition map_get :: "gmap \<Rightarrow> string \<Rightarrow> gval \<Rightarrow> gval" where
  "map_get m k dflt = (case mget m k of GNil \<Rightarrow> dflt | v \<Rightarrow> v)"

text \<open>\<open>asBool\<close>, Python's truthiness; a \<open>[]string\<close> is none of its cases and counts as true.\<close>

definition orch_bool :: "gval \<Rightarrow> bool" where
  "orch_bool v = (case v of GStrs t \<Rightarrow> True | _ \<Rightarrow> truthy v)"

fun only_strs :: "gval list \<Rightarrow> string list" where
  "only_strs [] = []"
| "only_strs (GStr s # vs) = s # only_strs vs"
| "only_strs (v # vs) = only_strs vs"

definition str_list :: "gval \<Rightarrow> string list" where
  "str_list v = (case v of GStrs t \<Rightarrow> t | GList t \<Rightarrow> only_strs t | _ \<Rightarrow> [])"

definition any0 :: "gval \<Rightarrow> gval" where
  "any0 v = (case v of GNil \<Rightarrow> GList [] | _ \<Rightarrow> v)"

definition append_to_map_list :: "gmap \<Rightarrow> string \<Rightarrow> gmap \<Rightarrow> gmap" where
  "append_to_map_list m k entry = mset m k (GMaps (maps_of (mget m k) @ [entry]))"

definition first_non_empty :: "string \<Rightarrow> string \<Rightarrow> string" where
  "first_non_empty a b = (if a \<noteq> [] then a else b)"

definition is_empty_build :: "bool \<Rightarrow> nat \<Rightarrow> nat \<Rightarrow> bool" where
  "is_empty_build success completed merged \<longleftrightarrow> \<not> success \<and> completed = 0 \<and> merged = 0"

section \<open>Paths and names\<close>

definition trim_right :: "char \<Rightarrow> string \<Rightarrow> string" where
  "trim_right c s = rev (dropWhile (\<lambda>x. x = c) (rev s))"

definition after_last :: "(char \<Rightarrow> bool) \<Rightarrow> string \<Rightarrow> string" where
  "after_last p s = rev (takeWhile (\<lambda>c. \<not> p c) (rev s))"

definition path_dir :: "string \<Rightarrow> string" where
  "path_dir p = path_clean (rev (dropWhile (\<lambda>c. c \<noteq> CHR ''/'') (rev p)))"

definition path_base :: "string \<Rightarrow> string" where
  "path_base p =
     (if p = [] then ''.''
      else let s = trim_right CHR ''/'' p in if s = [] then ''/'' else after_last (\<lambda>c. c = CHR ''/'') s)"

definition is_abs :: "string \<Rightarrow> bool" where
  "is_abs p \<longleftrightarrow> has_prefix ''/'' p"

definition abs_path :: "'x host \<Rightarrow> string \<Rightarrow> string" where
  "abs_path h p = (if is_abs p then path_clean p else path_join [work_dir h, p])"

definition strip_suffix :: "string \<Rightarrow> string \<Rightarrow> string" where
  "strip_suffix suf s = (if has_suffix suf s then take (length s - length suf) s else s)"

definition derive_repo_name :: "string \<Rightarrow> string" where
  "derive_repo_name url =
     (if url = [] then []
      else after_last (\<lambda>c. c = CHR ''/'' \<or> c = CHR '':'') (strip_suffix ''.git'' (trim_right CHR ''/'' url)))"

text \<open>\<open>workspace.Root\<close> on a system other than Windows.\<close>

definition workspace_root :: "getenv \<Rightarrow> string" where
  "workspace_root genv = (let root = genv ''SWE_WORKSPACE_ROOT'' in if root \<noteq> [] then root else ''/workspaces'')"

section \<open>Keeping the harness's files out of the repository\<close>

definition metadata_patterns :: "string list" where
  "metadata_patterns = [''.artifacts/'', ''.worktrees/'', ''.furrowpolicy'', ''.furrow/'']"

fun split_lines :: "string \<Rightarrow> string \<Rightarrow> string list" where
  "split_lines cur [] = [cur]"
| "split_lines cur (c # cs) = (if c = CHR 0x0A then cur # split_lines [] cs else split_lines (cur @ [c]) cs)"

fun git_each :: "'x host \<Rightarrow> string \<Rightarrow> string list list \<Rightarrow> 'x world \<Rightarrow> 'x world" where
  "git_each h dir [] w = w"
| "git_each h dir (args # rest) w = git_each h dir rest (snd (git h dir args w))"

definition exclude_metadata :: "'x host \<Rightarrow> string \<Rightarrow> 'x world \<Rightarrow> 'x world" where
  "exclude_metadata h repo w =
     (if trim_space repo = [] then w
      else let ((out, err, code), w1) = git h repo [''rev-parse'', ''--git-dir''] w; dir0 = trim_space out
      in if code \<noteq> 0 \<or> dir0 = [] then w1
         else let dir = (if is_abs dir0 then dir0 else path_join [repo, dir0]);
                  exclude = path_join [dir, ''info'', ''exclude''];
                  (e, w2) = make_dirs h (path_dir exclude) w1
         in if e \<noteq> None then w2
            else let present = (case read_file h exclude w2 of Contents s \<Rightarrow> map trim_space (split_lines [] s) | _ \<Rightarrow> []);
                     missing = filter (\<lambda>p. p \<notin> set present) metadata_patterns;
                     w3 = (if missing \<noteq> [] then append_file h exclude (join [CHR 0x0A] missing @ [CHR 0x0A]) w2 else w2)
            in git_each h repo
                 (map (\<lambda>p. [''rm'', ''-r'', ''--cached'', ''-q'', ''--ignore-unmatch'', ''--'', strip_suffix ''/'' p]) metadata_patterns) w3)"

definition head_sha :: "'x host \<Rightarrow> string \<Rightarrow> 'x world \<Rightarrow> string \<times> 'x world" where
  "head_sha h repo w =
     (if trim_space repo = [] then ([], w)
      else let ((out, err, code), w1) = git h repo [''rev-parse'', ''--verify'', ''--quiet'', ''HEAD''] w
           in (if code \<noteq> 0 then [] else trim_space out, w1))"

text \<open>\<open>integrationBranchBase\<close>: whether it moved the branch.\<close>

definition integration_branch_base :: "'x host \<Rightarrow> string \<Rightarrow> string \<Rightarrow> string \<Rightarrow> 'x world \<Rightarrow> bool \<times> 'x world" where
  "integration_branch_base h repo branch base w =
     (if trim_space repo = [] \<or> trim_space branch = [] \<or> trim_space base = [] then (False, w)
      else let (r1, w1) = git h repo [''rev-parse'', ''--verify'', ''--quiet'', branch @ ''^{commit}''] w
      in if exit_code r1 \<noteq> 0 then (False, w1)
         else let (r2, w2) = git h repo [''merge-base'', ''--is-ancestor'', base, branch] w1
         in if exit_code r2 = 0 then (False, w2)
            else let (r3, w3) = git h repo [''rev-list'', ''--count'', base @ ''..'' @ branch] w2
            in if trim_space (fst r3) \<noteq> ''0'' \<and> exit_code r3 = 0 then (False, w3)
               else let (r4, w4) = git h repo [''rev-parse'', ''--abbrev-ref'', ''HEAD''] w3;
                        (r5, w5) = (if trim_space (fst r4) = branch then git h repo [''reset'', ''--hard'', base] w4
                                    else git h repo [''branch'', ''-f'', branch, base] w4)
               in (exit_code r5 = 0, w5))"

section \<open>\<open>prepareSingleRepo\<close>\<close>

definition clone_into :: "'x host \<Rightarrow> string \<Rightarrow> string \<Rightarrow> 'x world \<Rightarrow> (string \<times> string \<times> int) \<times> 'x world" where
  "clone_into h url repo w = git h [] [''clone'', url, repo] (snd (make_dirs h (path_dir repo) w))"

definition prepare_single_repo :: "'x host \<Rightarrow> build_config \<Rightarrow> string \<Rightarrow> 'x world \<Rightarrow> string option \<times> 'x world" where
  "prepare_single_repo h cfg repo w =
     (if b_repo_url cfg = [] then (None, snd (make_dirs h repo w))
      else if \<not> path_exists h (path_join [repo, ''.git'']) w
      then let ((out, err, code), w1) = clone_into h (b_repo_url cfg) repo w
           in (if code \<noteq> 0 then Some (''git clone failed (exit '' @ show_int code @ ''): '' @ trim_space err) else None, w1)
      else let branch = (if b_pr_base cfg = [] then ''main'' else b_pr_base cfg);
               trees = path_join [repo, ''.worktrees''];
               w1 = (if is_directory h trees w then remove_tree h trees w else w);
               w2 = git_each h repo [[''worktree'', ''prune''], [''fetch'', ''origin''], [''checkout'', ''-f'', branch]] w1;
               ((out, err, code), w3) = git h repo [''reset'', ''--hard'', ''origin/'' @ branch] w2
           in if code = 0 then (None, w3)
              else let ((out', err', code'), w4) = clone_into h (b_repo_url cfg) repo (remove_tree h repo w3)
                   in (if code' \<noteq> 0 then Some (''git re-clone failed: '' @ trim_space err') else None, w4))"

section \<open>\<open>cloneRepos\<close>\<close>

definition mount_name :: "repo_spec \<Rightarrow> string" where
  "mount_name spec =
     (if rs_mount spec \<noteq> [] then rs_mount spec
      else if rs_url spec \<noteq> [] then derive_repo_name (rs_url spec)
      else path_base (trim_right CHR ''/'' (rs_path spec)))"

text \<open>The name and path of a repository or its error, and the directories cloned so far.\<close>

definition clone_single :: "'x host \<Rightarrow> string \<Rightarrow> repo_spec \<Rightarrow> string list \<Rightarrow> 'x world
    \<Rightarrow> (string + string \<times> string) \<times> string list \<times> 'x world" where
  "clone_single h root spec cloned w =
     (let name = mount_name spec; dest = path_join [root, name]
      in if rs_path spec \<noteq> [] then (Inr (name, rs_path spec), cloned, w)
         else if rs_url spec \<noteq> [] \<and> \<not> path_exists h (path_join [dest, ''.git'']) w
         then (case make_dirs h dest w of
             (Some e, w1) \<Rightarrow> (Inl e, cloned, w1)
           | (None, w1) \<Rightarrow>
               let ((out, err, code), w2) = git h []
                     ([''clone'', rs_url spec, dest] @ (if rs_branch spec \<noteq> [] then [''--branch'', rs_branch spec] else [])) w1
               in if code \<noteq> 0
                  then (Inl (''git clone '' @ quoted (rs_url spec) @ '' failed (exit '' @ show_int code @ ''): '' @ trim_space err), cloned, w2)
                  else (Inr (name, dest), cloned @ [dest], w2))
         else (Inr (name, dest), cloned, w))"

fun clone_each :: "'x host \<Rightarrow> string \<Rightarrow> repo_spec list \<Rightarrow> string list \<Rightarrow> 'x world
    \<Rightarrow> (string + string \<times> string) list \<times> string list \<times> 'x world" where
  "clone_each h root [] cloned w = ([], cloned, w)"
| "clone_each h root (spec # specs) cloned w =
     (let (r, cloned1, w1) = clone_single h root spec cloned w;
          (rs, cloned2, w2) = clone_each h root specs cloned1 w1
      in (r # rs, cloned2, w2))"

definition resolve_branch :: "'x host \<Rightarrow> repo_spec \<Rightarrow> string \<Rightarrow> 'x world \<Rightarrow> string \<times> 'x world" where
  "resolve_branch h spec path w =
     (let ((out, err, code), w1) = git h [] [''-C'', path, ''rev-parse'', ''--abbrev-ref'', ''HEAD''] w;
          fallback = (if rs_branch spec = [] then ''HEAD'' else rs_branch spec)
      in (if code = 0 \<and> trim_space out \<noteq> [] then trim_space out else fallback, w1))"

definition ws_repo_from :: "repo_spec \<Rightarrow> string \<Rightarrow> string \<Rightarrow> string \<Rightarrow> ws_repo" where
  "ws_repo_from spec name path branch =
     \<lparr>y_name = name, y_url = rs_url spec, y_role = rs_role spec, y_path = path, y_branch = branch,
      y_sparse = rs_sparse spec, y_create_pr = rs_create_pr spec, y_git = None\<rparr>"

fun resolve_each :: "'x host \<Rightarrow> (repo_spec \<times> string \<times> string) list \<Rightarrow> 'x world \<Rightarrow> ws_repo list \<times> 'x world" where
  "resolve_each h [] w = ([], w)"
| "resolve_each h ((spec, name, path) # rest) w =
     (let (branch, w1) = resolve_branch h spec path w; (rs, w2) = resolve_each h rest w1
      in (ws_repo_from spec name path branch # rs, w2))"

fun clone_errors :: "(string + 'a) list \<Rightarrow> string list" where
  "clone_errors [] = []"
| "clone_errors (Inl e # rs) = e # clone_errors rs"
| "clone_errors (Inr a # rs) = clone_errors rs"

fun clone_oks :: "(string + 'a) list \<Rightarrow> 'a list" where
  "clone_oks [] = []"
| "clone_oks (Inl e # rs) = clone_oks rs"
| "clone_oks (Inr a # rs) = a # clone_oks rs"

definition clone_repos :: "'x host \<Rightarrow> build_config \<Rightarrow> string \<Rightarrow> 'x world \<Rightarrow> (string + manifest) \<times> 'x world" where
  "clone_repos h cfg artifacts w =
     (let root = path_join [path_dir artifacts, ''workspace'']
      in case make_dirs h root w of
           (Some e, w1) \<Rightarrow> (Inl e, w1)
         | (None, w1) \<Rightarrow>
             let (rs, cloned, w2) = clone_each h root (b_repos cfg) [] w1
             in if clone_errors rs \<noteq> []
                then (Inl (''Multi-repo clone failed: '' @ join ''; '' (clone_errors rs)), fold (remove_tree h) cloned w2)
                else let (repos, w3) = resolve_each h (zip (b_repos cfg) (clone_oks rs)) w2;
                         prim = map y_name (filter (\<lambda>r. y_role r = ''primary'') repos)
                     in (Inr \<lparr>m_root = root, m_repos = repos, m_primary = (if prim = [] then [] else last prim)\<rparr>, w3))"

definition manifest_primary :: "manifest \<Rightarrow> ws_repo option" where
  "manifest_primary m = find (\<lambda>r. y_name r = m_primary m) (m_repos m)"

end
