(* ===== verification/CiGate.thy ===== *)
theory CiGate
  imports CiWatch Orch
begin

text \<open>
  The post-PR CI gate, \<open>RunCIGate\<close> of \<open>internal/orch/cigate_loop.go\<close>: watch the checks, let the fixer
  push, and watch again, for at most the configured number of fix cycles. Notes are left out. Then
  the correctness of the watcher and of the gate.
\<close>

section \<open>\<open>RunCIGate\<close>\<close>

record 'x gate_request =
  g_app :: "'x call"
  g_node :: string
  g_cfg :: build_config
  g_resolved :: "(string \<times> string) list"
  g_repo :: string
  g_pr :: int
  g_url :: string
  g_integration :: string
  g_base :: string
  g_goal :: string
  g_completed :: "gmap list"
  g_sha :: string

definition gate_result :: "string \<Rightarrow> gmap list \<Rightarrow> gmap \<Rightarrow> gmap" where
  "gate_result status attempts watch =
     [(''final_status'', GStr status), (''fix_attempts'', GMaps attempts), (''watch'', GMap watch)]"

definition watcher_args :: "'x gate_request \<Rightarrow> gmap" where
  "watcher_args q =
     [(''repo_path'', GStr (g_repo q)), (''pr_number'', GInt (g_pr q)), (''wait_seconds'', GInt (b_ci_wait (g_cfg q))),
      (''poll_seconds'', GInt (b_ci_poll (g_cfg q))), (''head_sha'', GStr (g_sha q))]"

definition fixer_model :: "(string \<times> string) list \<Rightarrow> string" where
  "fixer_model resolved = (case map_of resolved ''ci_fixer_model'' of Some m \<Rightarrow> m | None \<Rightarrow> lookup_def [] resolved ''coder_model'')"

definition fixer_args :: "'x gate_request \<Rightarrow> int \<Rightarrow> gmap list \<Rightarrow> gmap \<Rightarrow> gmap" where
  "fixer_args q cycle attempts watch =
     [(''repo_path'', GStr (g_repo q)), (''pr_number'', GInt (g_pr q)), (''pr_url'', GStr (g_url q)),
      (''integration_branch'', GStr (g_integration q)), (''base_branch'', GStr (g_base q)),
      (''failed_checks'', GMaps (maps_of (mget watch ''failed_checks''))), (''iteration'', GInt (cycle + 1)),
      (''max_iterations'', GInt (b_max_ci_cycles (g_cfg q))), (''goal'', GStr (g_goal q)),
      (''completed_issues'', GMaps (g_completed q)), (''previous_attempts'', GMaps attempts),
      (''model'', GStr (fixer_model (g_resolved q))), (''permission_mode'', GStr (b_permission_mode (g_cfg q))),
      (''ai_provider'', GStr (build_ai_provider (g_cfg q)))]"

text \<open>The cycles left.\<close>

fun gate_cycles :: "'x gate_request \<Rightarrow> nat \<Rightarrow> int \<Rightarrow> gmap list \<Rightarrow> gmap \<Rightarrow> 'x world \<Rightarrow> (go_error + gmap) \<times> 'x world" where
  "gate_cycles q 0 cycle attempts prev w = (Inr (gate_result ''loop_exhausted'' attempts prev), w)"
| "gate_cycles q (Suc n) cycle attempts prev w =
     (case deps_call (g_app q) (g_node q) ''run_ci_watcher'' (watcher_args q) ''run_ci_watcher'' w of
        (Inl e, w1) \<Rightarrow> (Inl e, w1)
      | (Inr watch, w1) \<Rightarrow>
          let status = map_str_or watch ''status'' ''error''
          in if status = ''passed'' \<or> status = ''no_checks'' \<or> status = ''timed_out'' \<or> status = ''error''
             then (Inr (gate_result status attempts watch), w1)
             else if cycle \<ge> b_max_ci_cycles (g_cfg q) then (Inr (gate_result ''failed_exhausted'' attempts watch), w1)
             else (case deps_call (g_app q) (g_node q) ''run_ci_fixer'' (fixer_args q cycle attempts watch) ''run_ci_fixer'' w1 of
                (Inl e, w2) \<Rightarrow> (Inl e, w2)
              | (Inr fix, w2) \<Rightarrow>
                  if \<not> orch_bool (mget fix ''pushed'') then (Inr (gate_result ''fixer_gave_up'' (attempts @ [fix]) watch), w2)
                  else gate_cycles q n (cycle + 1) (attempts @ [fix]) watch w2))"

definition run_ci_gate :: "'x gate_request \<Rightarrow> 'x world \<Rightarrow> (go_error + gmap) \<times> 'x world" where
  "run_ci_gate q w = gate_cycles q (nat (b_max_ci_cycles (g_cfg q) + 1)) 0 [] [] w"

section \<open>The watcher\<close>

lemma watch_loop_induct [consumes 1, case_names cancelled result again]:
  assumes "watch_loop env p seen w = Some out"
    and "\<And>seen w e. ctx_err w = Some e \<Longrightarrow>
      P seen w (watched env (n_pr p) (n_start p) ''error'' [] (''CI watch cancelled: '' @ err_text e) w, w)"
    and "\<And>seen w r w1. ctx_err w = None \<Longrightarrow> watch_poll env p seen w = (Inl r, w1) \<Longrightarrow> P seen w (r, w1)"
    and "\<And>seen w seen1 w1 out. ctx_err w = None \<Longrightarrow> watch_poll env p seen w = (Inr seen1, w1) \<Longrightarrow>
      P seen1 (sleep_for env (n_poll p) w1) out \<Longrightarrow> P seen w out"
  shows "P seen w out"
proof -
  have "env' = env \<longrightarrow> p' = p \<longrightarrow> P seen w out" if "watch_loop env' p' seen w = Some out" for env' p'
  proof (rule watch_loop.raw_induct [OF _ that], intro impI)
    fix rec env' p' seen w out
    assume IH: "\<And>env' p' seen w out. rec env' p' seen w = Some out \<Longrightarrow> env' = env \<longrightarrow> p' = p \<longrightarrow> P seen w out"
      and eqs: "env' = env" "p' = p"
      and r: "(case ctx_err w of
          Some e \<Rightarrow> Some (watched env' (n_pr p') (n_start p') ''error'' [] (''CI watch cancelled: '' @ err_text e) w, w)
        | None \<Rightarrow> (case watch_poll env' p' seen w of
            (Inl r, w1) \<Rightarrow> Some (r, w1) | (Inr seen1, w1) \<Rightarrow> rec env' p' seen1 (sleep_for env' (n_poll p') w1))) = Some out"
    show "P seen w out"
    proof (cases "ctx_err w")
      case (Some e)
      with r eqs assms(2) [OF Some, of seen] show ?thesis by simp
    next
      case None
      obtain x w1 where x: "watch_poll env p seen w = (x, w1)" by force
      show ?thesis
      proof (cases x)
        case (Inl y)
        with None r eqs x assms(3) [OF None x [unfolded Inl]] show ?thesis by simp
      next
        case (Inr seen1)
        with None r eqs x have "rec env p seen1 (sleep_for env (n_poll p) w1) = Some out" by simp
        with IH assms(4) [OF None x [unfolded Inr]] show ?thesis by blast
      qed
    qed
  qed
  with assms(1) show ?thesis by blast
qed




text \<open>A verdict is anchored at a commit when a check of that commit was seen, or the checks name no commit at all.\<close>

definition anchored :: "string \<Rightarrow> gmap list list \<Rightarrow> gmap list \<Rightarrow> bool" where
  "anchored sha css cs \<longleftrightarrow> sha = [] \<or> list_all (\<lambda>c. head_sha_of c = []) cs \<or> list_ex (\<lambda>c. to_lower (head_sha_of c) = sha) (concat css @ cs)"






lemma elapsed_reached: "start + 10 ^ 9 * n \<le> now_ns env w \<Longrightarrow> 0 \<le> n \<Longrightarrow> n \<le> elapsed env start w"
  by (auto simp: elapsed_def Let_def)

lemma fetch_clock:
  assumes "\<And>cmd dir w. now_ns env w \<le> now_ns env (snd (gh_run env cmd dir w))"
  shows "now_ns env w \<le> now_ns env (snd (read_checks env repo pr w))"
  using assms [of w] by (auto simp: read_checks_def Let_def split: prod.splits) (metis snd_conv)

text \<open>
  The watcher always returns, if time passes: it suffices that running \<open>gh\<close> does not turn the
  clock back and that a sleep moves it by at least a nanosecond.
\<close>

theorem watch_returns:
  assumes clock: "\<And>cmd dir w. now_ns env w \<le> now_ns env (snd (gh_run env cmd dir w))"
    and sleeps: "\<And>w. now_ns env w < now_ns env (sleep_for env poll w)"
  shows "\<exists>r w'. watch_pr_checks env repo pr wait poll sha w = Some (r, w')"
proof -
  let ?p = "\<lparr>n_repo = repo, n_pr = pr, n_wait = wait, n_poll = poll, n_sha = to_lower (trim_space sha), n_start = now_ns env w\<rparr>"
  let ?limit = "now_ns env w + 10 ^ 9 * max 0 wait"
  have "\<exists>out. watch_loop env ?p seen w1 = Some out" for seen w1
  proof (induction "nat (?limit - now_ns env w1)" arbitrary: seen w1 rule: less_induct)
    case less
    show ?case
    proof (cases "ctx_err w1")
      case (Some e)
      then show ?thesis by (subst watch_loop.simps) simp
    next
      case None
      obtain x w2 where x: "watch_poll env ?p seen w1 = (x, w2)" by force
      show ?thesis
      proof (cases x)
        case (Inl r)
        with None x show ?thesis by (subst watch_loop.simps) simp
      next
        case (Inr seen1)
        with x have rc: "\<exists>cs. read_checks env repo pr w1 = (Inr cs, w2)" and el: "elapsed env (now_ns env w) w2 < wait"
          by (auto simp: watch_poll_def Let_def split: prod.splits sum.splits if_splits)
        from rc fetch_clock [OF clock, of w1 repo pr] have "now_ns env w1 \<le> now_ns env w2" by auto
        moreover have "now_ns env w2 < ?limit" using elapsed_reached [of "now_ns env w" "max 0 wait" env w2] el by linarith
        ultimately have "nat (?limit - now_ns env (sleep_for env poll w2)) < nat (?limit - now_ns env w1)"
          using sleeps [of w2] by linarith
        from less [OF this] None x Inr show ?thesis by (subst watch_loop.simps) simp
      qed
    qed
  qed
  then show ?thesis by (simp add: watch_pr_checks_def)
qed

lemma anchored_poll:
  assumes "watch_poll env p (a, False) w = (x, w1)" and "n_sha p \<noteq> []"
    and "\<And>cs w2. read_checks env (n_repo p) (n_pr p) w = (Inr cs, w2) \<Longrightarrow> list_all (\<lambda>c. head_sha_of c = []) cs"
  shows "(case x of Inl r \<Rightarrow> t_status r \<noteq> ''timed_out'' | Inr seen \<Rightarrow> \<not> snd seen)"
proof -
  obtain rc w2 where rc: "read_checks env (n_repo p) (n_pr p) w = (rc, w2)" by force
  show ?thesis
  proof (cases rc)
    case (Inl e)
    with assms(1) rc show ?thesis by (auto simp: watch_poll_def watched_def)
  next
    case (Inr cs)
    have "to_lower [] = []" by (simp add: to_lower_def)
    then have unseen: "\<not> saw_sha (n_sha p) cs" using assms(2) assms(3) [of cs w2] rc Inr by (auto simp: saw_sha_def list_ex_iff list_all_iff)
    have v: "t_status r \<noteq> ''timed_out''" if "watch_verdict env p vs w = (r, w')" for vs w r w'
      using that by (auto simp: watch_verdict_def watched_def split: prod.splits if_splits)
    have "t_status (deadline_result env p cs b False w2) \<noteq> ''timed_out''" for b
      using assms(2) by (simp add: deadline_result_def watched_def)
    with assms(1) rc Inr unseen v show ?thesis
      by (auto simp: watch_poll_def Let_def split: if_splits prod.splits sum.splits)
  qed
qed

text \<open>
  When the watch is anchored to a commit, and the checks \<open>gh\<close> reports carry no commit (the
  fields asked for have none), the watcher never says \<open>timed_out\<close>: checks still pending at the deadline
  are reported as \<open>no_checks\<close>, which the CI gate takes for \<open>ready\<close> (finding).
\<close>

theorem anchored_watch_never_times_out:
  assumes "watch_pr_checks env repo pr wait poll sha w = Some (r, w')" and "trim_space sha \<noteq> []"
    and "\<And>w cs w'. read_checks env repo pr w = (Inr cs, w') \<Longrightarrow> list_all (\<lambda>c. head_sha_of c = []) cs"
  shows "t_status r \<noteq> ''timed_out''"
proof -
  let ?p = "\<lparr>n_repo = repo, n_pr = pr, n_wait = wait, n_poll = poll, n_sha = to_lower (trim_space sha), n_start = now_ns env w\<rparr>"
  have anchored: "n_sha ?p \<noteq> []" using assms(2) by (simp add: to_lower_def)
  have "\<not> snd seen \<Longrightarrow> t_status (fst out) \<noteq> ''timed_out''" if "watch_loop env ?p seen w = Some out" for seen w out
    using that
  proof (induction rule: watch_loop_induct)
    case (cancelled seen w e)
    then show ?case by (simp add: watched_def)
  next
    case (result seen w r w1)
    then have "watch_poll env ?p (fst seen, False) w = (Inl r, w1)" by (cases seen) simp
    from anchored_poll [OF this anchored] assms(3) show ?case by simp
  next
    case (again seen w seen1 w1 out)
    then have "watch_poll env ?p (fst seen, False) w = (Inr seen1, w1)" by (cases seen) simp
    from anchored_poll [OF this anchored] assms(3) again show ?case by simp
  qed
  from this [of "(False, False)" w "(r, w')"] assms(1) show ?thesis by (simp add: watch_pr_checks_def)
qed

section \<open>The gate\<close>

definition watch_ends :: "string list" where
  "watch_ends = [''passed'', ''no_checks'', ''timed_out'', ''error'']"

definition bounded_result :: "'x gate_request \<Rightarrow> gmap \<Rightarrow> bool" where
  "bounded_result q res \<longleftrightarrow> (\<exists>status fixes watch. res = gate_result status fixes watch \<and>
     int (length fixes) \<le> b_max_ci_cycles (g_cfg q) \<and>
     (status = map_str_or watch ''status'' ''error'' \<and> status \<in> set watch_ends \<or> status = ''failed_exhausted'' \<or> status = ''fixer_gave_up''))"

lemma bounded_resultI:
  "int (length fixes) \<le> b_max_ci_cycles (g_cfg q) \<Longrightarrow>
   status = map_str_or watch ''status'' ''error'' \<and> status \<in> set watch_ends \<or> status = ''failed_exhausted'' \<or> status = ''fixer_gave_up'' \<Longrightarrow>
   bounded_result q (gate_result status fixes watch)"
  unfolding bounded_result_def by blast

lemma gate_cycle_cases:
  assumes "gate_cycles q (Suc n) cycle attempts prev w = (Inr res, w')"
  obtains (watched) watch where "map_str_or watch ''status'' ''error'' \<in> set watch_ends"
      "res = gate_result (map_str_or watch ''status'' ''error'') attempts watch"
    | (exhausted) watch where "cycle \<ge> b_max_ci_cycles (g_cfg q)" "res = gate_result ''failed_exhausted'' attempts watch"
    | (gave_up) watch fix' where "cycle < b_max_ci_cycles (g_cfg q)" "res = gate_result ''fixer_gave_up'' (attempts @ [fix']) watch"
    | (again) watch fix' w2 where "cycle < b_max_ci_cycles (g_cfg q)"
      "gate_cycles q n (cycle + 1) (attempts @ [fix']) watch w2 = (Inr res, w')"
proof -
  obtain r w1 where r: "deps_call (g_app q) (g_node q) ''run_ci_watcher'' (watcher_args q) ''run_ci_watcher'' w = (r, w1)" by force
  with assms obtain watch where watch: "r = Inr watch" by (cases r) simp_all
  let ?status = "map_str_or watch ''status'' ''error''"
  have ends: "?status \<in> set watch_ends \<longleftrightarrow> ?status = ''passed'' \<or> ?status = ''no_checks'' \<or> ?status = ''timed_out'' \<or> ?status = ''error''"
    unfolding watch_ends_def list.set insert_iff empty_iff simp_thms ..
  obtain f w2 where f: "deps_call (g_app q) (g_node q) ''run_ci_fixer'' (fixer_args q cycle attempts watch) ''run_ci_fixer'' w1 = (f, w2)" by force
  consider "?status \<in> set watch_ends" | "?status \<notin> set watch_ends" "cycle \<ge> b_max_ci_cycles (g_cfg q)"
    | "?status \<notin> set watch_ends" "\<not> cycle \<ge> b_max_ci_cycles (g_cfg q)" by blast
  then show ?thesis
  proof cases
    case 1
    with assms r watch have "res = gate_result ?status attempts watch" by (simp only: gate_cycles.simps Let_def ends if_True prod.case sum.case prod.inject sum.inject)
    with 1 show ?thesis by (rule watched)
  next
    case 2
    with assms r watch have "gate_result ''failed_exhausted'' attempts watch = res"
      by (simp only: gate_cycles.simps Let_def ends if_True if_False prod.case sum.case prod.inject sum.inject)
    with 2(2) show ?thesis using exhausted by blast
  next
    case 3
    note step = assms [unfolded gate_cycles.simps r watch prod.case sum.case Let_def ends [symmetric] if_not_P [OF 3(1)] if_not_P [OF 3(2)] f]
    then obtain fix' where fx: "f = Inr fix'" by (cases f) simp_all
    show ?thesis
    proof (cases "orch_bool (mget fix' ''pushed'')")
      case True
      with step fx have "gate_cycles q n (cycle + 1) (attempts @ [fix']) watch w2 = (Inr res, w')" by simp
      with 3(2) show ?thesis using again by simp
    next
      case False
      with step fx have "res = gate_result ''fixer_gave_up'' (attempts @ [fix']) watch" by simp
      with 3(2) show ?thesis using gave_up by simp
    qed
  qed
qed

lemma gate_cycles_bounded:
  "gate_cycles q n cycle attempts prev w = (Inr res, w') \<Longrightarrow> int n = b_max_ci_cycles (g_cfg q) + 1 - cycle \<Longrightarrow>
   cycle \<le> b_max_ci_cycles (g_cfg q) \<Longrightarrow> int (length attempts) = cycle \<Longrightarrow> bounded_result q res"
proof (induction n arbitrary: cycle attempts prev w)
  case 0
  then show ?case by simp
next
  case (Suc n)
  from Suc.prems(1) show ?case
  proof (cases rule: gate_cycle_cases)
    case (watched watch)
    have "int (length attempts) \<le> b_max_ci_cycles (g_cfg q)" using Suc.prems(3,4) by simp
    with watched show ?thesis by (simp only: bounded_resultI simp_thms)
  next
    case (exhausted watch)
    have "int (length attempts) \<le> b_max_ci_cycles (g_cfg q)" using Suc.prems(3,4) by simp
    with exhausted show ?thesis by (simp only: bounded_resultI simp_thms)
  next
    case (gave_up watch fix')
    then have "int (length (attempts @ [fix'])) \<le> b_max_ci_cycles (g_cfg q)" using Suc.prems(4) by simp
    with gave_up show ?thesis by (simp only: bounded_resultI simp_thms)
  next
    case (again watch fix' w2)
    then show ?thesis using Suc.IH [OF again(2)] Suc.prems by simp
  qed
qed

text \<open>
  The CI gate is bounded: when it returns a result, at most \<open>max_ci_fix_cycles\<close> fixes were tried, and its
  status is either the last watch's own (one of the four final ones), or \<open>failed_exhausted\<close> or
  \<open>fixer_gave_up\<close>, never \<open>loop_exhausted\<close>.
\<close>

theorem ci_gate_bounded:
  assumes "run_ci_gate q w = (Inr res, w')" and "0 \<le> b_max_ci_cycles (g_cfg q)"
  shows "\<exists>status fixes watch. res = gate_result status fixes watch \<and> int (length fixes) \<le> b_max_ci_cycles (g_cfg q) \<and>
    (status = map_str_or watch ''status'' ''error'' \<and> status \<in> set [''passed'', ''no_checks'', ''timed_out'', ''error''] \<or>
     status = ''failed_exhausted'' \<or> status = ''fixer_gave_up'')"
  using gate_cycles_bounded [OF assms(1) [unfolded run_ci_gate_def]] assms(2)
  unfolding bounded_result_def watch_ends_def by simp

text \<open>
  A watcher result that arrives without an envelope is taken for one, because it has a key
  \<open>status\<close> itself: when the checks failed (or the watch ended in an error), the gate returns an error
  after the first watch and never calls the fixer (finding).
\<close>

theorem bare_failed_watch_ends_gate:
  assumes "g_app q (call_target (g_node q) ''run_ci_watcher'') (watcher_args q) w = (Inr watch, w1)"
    and "mget watch ''status'' = GStr ''failed'' \<or> mget watch ''status'' = GStr ''error''" and "0 \<le> b_max_ci_cycles (g_cfg q)"
  shows "\<exists>e. run_ci_gate q w = (Inl e, w1)"
proof -
  obtain s where s: "mget watch ''status'' = GStr s" "s \<in> set failure_statuses" using assms(2) by (auto simp: failure_statuses_def)
  then have "to_lower s \<in> set failure_statuses" using lower_failures by simp
  from unwrap_failure [OF s(1) this, of "''run_ci_watcher''"] obtain e where "unwrap_call_result watch ''run_ci_watcher'' = Inl e" by blast
  with assms(1) have "deps_call (g_app q) (g_node q) ''run_ci_watcher'' (watcher_args q) ''run_ci_watcher'' w = (Inl e, w1)"
    by (simp add: deps_call_def unwrapped_def)
  moreover obtain n where "nat (b_max_ci_cycles (g_cfg q) + 1) = Suc n" using assms(3) by (cases "nat (b_max_ci_cycles (g_cfg q) + 1)") auto
  ultimately show ?thesis by (simp add: run_ci_gate_def)
qed

section \<open>Examples\<close>

text \<open>One check in the given bucket, an instant \<open>gh\<close>, a clock in the world that a sleep moves by a second.\<close>

definition one_check_env :: "string \<Rightarrow> int watch_env" where
  "one_check_env bucket =
     \<lparr>gh_run = (\<lambda>cmd dir w. ((''[]'', [], 0), w)), parse_json = (\<lambda>s. Inr (GList [GMap [(''bucket'', GStr bucket)]])),
      now_ns = outside, sleep_for = (\<lambda>n w. w\<lparr>outside := outside w + 10 ^ 9\<rparr>)\<rparr>"

definition at_start :: "int world" where
  "at_start = \<lparr>files = (\<lambda>_. None), memory = (\<lambda>_. GNil), ctx_err = None, outside = 0\<rparr>"

lemma read_one_check: "read_checks (one_check_env b) repo pr w = (Inr [[(''bucket'', GStr b)]], w)"
proof -
  have "trim_space ''[]'' = ''[]''" by code_simp
  then show ?thesis by (simp add: read_checks_def one_check_env_def parse_checks_def)
qed

lemma passing_watch:
  "\<exists>r. watch_pr_checks (one_check_env ''pass'') [] 7 0 30 [] at_start = Some (r, at_start) \<and> t_status r = ''passed''"
proof -
  have "trim_space [] = []" "to_lower [] = []" by code_simp+
  then show ?thesis
    unfolding watch_pr_checks_def by (subst watch_loop.simps)
      (simp add: watch_poll_def read_one_check at_start_def eligible_def verdict_checks_def is_conclusive_def map_str_def
        mget_def lookup_def_def Let_def pending_buckets_def watch_verdict_def classify_def is_failing_def failure_buckets_def watched_def as_string_def)
qed




theorem watch_returns_witness: "\<exists>r w'. watch_pr_checks (one_check_env ''pending'') [] 7 60 30 [] at_start = Some (r, w')"
  by (rule watch_returns) (simp_all add: one_check_env_def)

lemma anchored_pending_watch:
  "\<exists>r. watch_pr_checks (one_check_env ''pending'') [] 7 0 30 ''abc'' at_start = Some (r, at_start) \<and> t_status r = ''no_checks''"
proof -
  have sha: "to_lower (trim_space ''abc'') = ''abc''" "trim_space [] = []" "to_lower [] = []" by code_simp+
  then show ?thesis
    unfolding watch_pr_checks_def by (subst watch_loop.simps)
      (simp add: watch_poll_def read_one_check at_start_def eligible_def verdict_checks_def is_conclusive_def map_str_def
        mget_def lookup_def_def Let_def pending_buckets_def saw_sha_def head_sha_of_def deadline_result_def watched_def as_string_def elapsed_def)
qed

theorem anchored_watch_never_times_out_witness:
  "\<exists>r. watch_pr_checks (one_check_env ''pending'') [] 7 0 30 ''abc'' at_start = Some (r, at_start) \<and> t_status r \<noteq> ''timed_out''"
proof -
  obtain r where r: "watch_pr_checks (one_check_env ''pending'') [] 7 0 30 ''abc'' at_start = Some (r, at_start)"
    using anchored_pending_watch by blast
  have "trim_space ''abc'' \<noteq> []" "trim_space [] = []" by code_simp+
  then have "t_status r \<noteq> ''timed_out''"
    by (intro anchored_watch_never_times_out [OF r]) (auto simp: read_one_check head_sha_of_def map_str_def mget_def lookup_def_def Let_def as_string_def)
  with r show ?thesis by blast
qed

text \<open>A gate whose control plane answers every call with the same map, for the default configuration.\<close>

definition constant_gate :: "gmap \<Rightarrow> int gate_request" where
  "constant_gate reply =
     \<lparr>g_app = (\<lambda>target kwargs w. (Inr reply, w)), g_node = [], g_cfg = build_config_of [(''max_ci_fix_cycles'', GInt 2)],
      g_resolved = [(''coder_model'', ''m'')], g_repo = ''/r'', g_pr = 7, g_url = [], g_integration = [], g_base = [], g_goal = [],
      g_completed = [], g_sha = []\<rparr>"

lemma constant_gate_cycles: "b_max_ci_cycles (g_cfg (constant_gate reply)) = 2"
  by (simp add: constant_gate_def build_config_of_def mget_def lookup_def_def as_int_def)

theorem ci_gate_bounded_witness:
  "\<exists>res fixes watch status. run_ci_gate (constant_gate [(''status'', GStr ''passed'')]) at_start = (Inr res, at_start) \<and>
    res = gate_result status fixes watch \<and> length fixes \<le> 2"
proof -
  let ?q = "constant_gate [(''status'', GStr ''passed'')]"
  have "deps_call (g_app ?q) (g_node ?q) ''run_ci_watcher'' (watcher_args ?q) ''run_ci_watcher'' at_start =
      (Inr [(''status'', GStr ''passed'')], at_start)"
  proof -
    have "unwrap_call_result [(''status'', GStr ''passed'')] ''run_ci_watcher'' = Inr [(''status'', GStr ''passed'')]" by code_simp
    then show ?thesis by (simp add: deps_call_def unwrapped_def constant_gate_def)
  qed
  moreover have three: "nat (b_max_ci_cycles (g_cfg ?q) + 1) = Suc (Suc (Suc 0))" by (simp add: constant_gate_cycles)
  ultimately obtain res where r: "run_ci_gate ?q at_start = (Inr res, at_start)"
    unfolding run_ci_gate_def three by (simp add: map_str_or_def mget_def lookup_def_def Let_def)
  from ci_gate_bounded [OF r] constant_gate_cycles [of "[(''status'', GStr ''passed'')]"] r show ?thesis by fastforce
qed

theorem bare_failed_watch_ends_gate_witness:
  "\<exists>e. run_ci_gate (constant_gate [(''status'', GStr ''failed'')]) at_start = (Inl e, at_start)"
  by (rule bare_failed_watch_ends_gate [where watch = "[(''status'', GStr ''failed'')]"])
    (simp_all add: constant_gate_cycles, simp_all add: constant_gate_def mget_def lookup_def_def Let_def)

end
