(* ===== verification/BuildRun.thy ===== *)
theory BuildRun
  imports CiGate
begin

text \<open>
  The build, \<open>Build\<close> of \<open>internal/orch/build.go\<close>: preparation of the repositories, plan and git
  initialisation, approval, execution, verification with fix cycles, pull requests with the CI gate,
  clean-up. The plan is called before the git initialisation it runs beside: each call may change the
  whole world. Notes, the workspace mirror (\<open>furrow\<close>) and the credentials store are left out.
\<close>

section \<open>Requests and outcomes\<close>

record build_input =
  bi_goal :: string
  bi_repo :: string
  bi_url :: string
  bi_artifacts :: string
  bi_context :: string
  bi_config :: gmap
  bi_target :: string
  bi_max_turns :: int
  bi_permission :: string
  bi_learning :: bool

definition j_build_input :: jtype where
  "j_build_input = JObj
     [fld ''goal'' JString, fld ''repo_path'' JString, fld ''repo_url'' JString, (''artifacts_dir'', JString, GStr ''.artifacts''),
      fld ''additional_context'' JString, fld ''config'' JDict, fld ''execute_fn_target'' JString, fld ''max_turns'' JInt,
      fld ''permission_mode'' JString, fld ''enable_learning'' JBool]"

definition build_input_of :: "gmap \<Rightarrow> build_input" where
  "build_input_of input =
     (let m = fst (map_to_struct j_build_input input); str = (\<lambda>k. as_string (mget m k))
      in \<lparr>bi_goal = str ''goal'', bi_repo = str ''repo_path'', bi_url = str ''repo_url'', bi_artifacts = str ''artifacts_dir'',
          bi_context = str ''additional_context'', bi_config = as_map (mget m ''config''), bi_target = str ''execute_fn_target'',
          bi_max_turns = as_int (mget m ''max_turns''), bi_permission = str ''permission_mode'',
          bi_learning = as_bool (mget m ''enable_learning'')\<rparr>)"

record approval_request =
  ar_cfg :: build_config
  ar_resolved :: "(string \<times> string) list"
  ar_plan :: gmap
  ar_manifest :: gval
  ar_repo :: string
  ar_goal :: string
  ar_artifacts :: string
  ar_abs_artifacts :: string
  ar_execution :: string

datatype approval_outcome = Terminal gmap | Proceed "gmap option"

text \<open>What \<open>Deps\<close> holds besides the host: the gates, when they are wired, and the execution id.\<close>

record 'x build_deps =
  bd_host :: "'x host"
  bd_gate :: "('x gate_request \<Rightarrow> 'x world \<Rightarrow> (go_error + gmap) \<times> 'x world) option"
  bd_approval :: "(approval_request \<Rightarrow> 'x world \<Rightarrow> (go_error + approval_outcome) \<times> 'x world) option"
  bd_execution :: string

record pr_result =
  pr_repo :: string
  pr_repo_url :: string
  pr_success :: bool
  pr_url :: string
  pr_number :: int
  pr_error :: string

definition pr_result_json :: "pr_result \<Rightarrow> gmap" where
  "pr_result_json r =
     [(''repo_name'', GStr (pr_repo r)), (''repo_url'', GStr (pr_repo_url r)), (''success'', GBool (pr_success r)),
      (''pr_url'', GStr (pr_url r)), (''pr_number'', GInt (pr_number r)), (''error_message'', GStr (pr_error r))]"

text \<open>\<open>BuildResult.PRURL\<close>, and the result with the computed key.\<close>

definition result_pr_url :: "pr_result list \<Rightarrow> string" where
  "result_pr_url rs = (case find (\<lambda>r. pr_success r \<and> pr_url r \<noteq> []) rs of None \<Rightarrow> [] | Some r \<Rightarrow> pr_url r)"

definition opt_map :: "gmap option \<Rightarrow> gval" where
  "opt_map m = (case m of None \<Rightarrow> GNil | Some x \<Rightarrow> GMap x)"

definition build_result :: "gmap \<Rightarrow> gmap \<Rightarrow> gmap option \<Rightarrow> bool \<Rightarrow> string \<Rightarrow> pr_result list \<Rightarrow> gmap list \<Rightarrow> gmap" where
  "build_result plan dag verification success summary prs gates = json_map
     [(''plan_result'', GMap plan), (''dag_state'', GMap dag), (''verification'', opt_map verification), (''success'', GBool success),
      (''summary'', GStr summary), (''pr_results'', GMaps (map pr_result_json prs)), (''ci_gate_results'', GMaps gates),
      (''pr_url'', GStr (result_pr_url prs))]"

section \<open>Git initialisation\<close>

definition git_init_args :: "build_config \<Rightarrow> (string \<times> string) list \<Rightarrow> string \<Rightarrow> string \<Rightarrow> string \<Rightarrow> string \<Rightarrow> gval \<Rightarrow> gmap" where
  "git_init_args cfg resolved repo goal artifacts build_id previous =
     [(''repo_path'', GStr repo), (''goal'', GStr goal), (''artifacts_dir'', GStr artifacts),
      (''model'', GStr (lookup_def [] resolved ''git_model'')), (''permission_mode'', GStr (b_permission_mode cfg)),
      (''ai_provider'', GStr (build_ai_provider cfg)), (''previous_error'', previous), (''build_id'', GStr build_id)]"

text \<open>
  The attempts left, the current attempt, the error of the last one and its reply. An error of the
  call itself ends the build; a reply that unwraps to an error counts as a failed attempt.
\<close>

fun git_init_rounds :: "'x host \<Rightarrow> build_config \<Rightarrow> (gval \<Rightarrow> gmap) \<Rightarrow> string \<Rightarrow> string \<Rightarrow> nat \<Rightarrow> gval \<Rightarrow> gmap \<Rightarrow> 'x world
    \<Rightarrow> (go_error + gmap) \<times> 'x world" where
  "git_init_rounds h cfg args repo base 0 previous git_init w = (Inr git_init, w)"
| "git_init_rounds h cfg args repo base (Suc n) previous git_init w =
     (case call_raw h ''run_git_init'' (args previous) w of
        (Inl e, w1) \<Rightarrow> (Inl e, w1)
      | (Inr raw, w1) \<Rightarrow>
          let gi = (case unwrap_call_result raw ''run_git_init'' of Inl e \<Rightarrow> raw | Inr m \<Rightarrow> m)
          in if orch_bool (mget gi ''success'')
             then (Inr gi, exclude_metadata h repo
                     (snd (integration_branch_base h repo (map_str_or gi ''integration_branch'' []) base w1)))
             else git_init_rounds h cfg args repo base n (GStr (map_str_or gi ''error_message'' ''unknown error'')) gi
                    (if n \<noteq> 0 then pause h (b_git_retry_delay cfg) w1 else w1))"

definition git_config_of :: "gmap \<Rightarrow> gmap option" where
  "git_config_of gi =
     (if orch_bool (mget gi ''success'')
      then Some [(''integration_branch'', mget gi ''integration_branch''), (''original_branch'', mget gi ''original_branch''),
                 (''initial_commit_sha'', mget gi ''initial_commit_sha''), (''mode'', mget gi ''mode''),
                 (''remote_url'', GStr (map_str_or gi ''remote_url'' [])),
                 (''remote_default_branch'', GStr (map_str_or gi ''remote_default_branch'' []))]
      else None)"

section \<open>Verification and fix cycles\<close>

record verify_context =
  vc_cfg :: build_config
  vc_resolved :: "(string \<times> string) list"
  vc_plan :: gmap
  vc_repo :: string
  vc_artifacts :: string
  vc_manifest :: gval
  vc_git :: gval

definition role_tail :: "verify_context \<Rightarrow> gmap" where
  "role_tail c =
     [(''artifacts_dir'', GStr (vc_artifacts c)), (''model'', GStr (lookup_def [] (vc_resolved c) ''verifier_model'')),
      (''permission_mode'', GStr (b_permission_mode (vc_cfg c))), (''ai_provider'', GStr (build_ai_provider (vc_cfg c))),
      (''workspace_manifest'', vc_manifest c)]"

definition verifier_args :: "verify_context \<Rightarrow> gmap \<Rightarrow> gmap" where
  "verifier_args c dag =
     [(''prd'', mget (vc_plan c) ''prd''), (''repo_path'', GStr (vc_repo c)),
      (''completed_issues'', GMaps (maps_of (mget dag ''completed_issues''))),
      (''failed_issues'', GMaps (maps_of (mget dag ''failed_issues''))), (''skipped_issues'', any0 (mget dag ''skipped_issues''))] @ role_tail c"

definition failed_criteria :: "gmap \<Rightarrow> gmap list" where
  "failed_criteria v = filter (\<lambda>c. map_of c ''passed'' \<noteq> None \<and> \<not> orch_bool (mget c ''passed'')) (maps_of (mget v ''criteria_results''))"

definition generate_args :: "verify_context \<Rightarrow> gmap list \<Rightarrow> gmap \<Rightarrow> gmap" where
  "generate_args c criteria dag =
     [(''failed_criteria'', GMaps criteria), (''dag_state'', GMap dag), (''prd'', mget (vc_plan c) ''prd'')] @ role_tail c"

definition unmet :: "gmap \<Rightarrow> gmap" where
  "unmet debt =
     [(''type'', GStr ''unmet_acceptance_criterion''), (''criterion'', GStr (map_str_or debt ''criterion'' [])),
      (''reason'', GStr (map_str_or debt ''reason'' [])), (''severity'', GStr (map_str_or debt ''severity'' ''high''))]"

definition book_unmet :: "gmap list \<Rightarrow> gmap \<Rightarrow> gmap" where
  "book_unmet debts dag = fold (\<lambda>d m. append_to_map_list m ''accumulated_debt'' (unmet d)) debts dag"

fun fix_names :: "nat \<Rightarrow> gmap list \<Rightarrow> string list" where
  "fix_names i [] = []"
| "fix_names i (x # xs) = map_str_or x ''name'' (''fix-'' @ show_nat i) # fix_names (Suc i) xs"

definition fix_plan :: "verify_context \<Rightarrow> gmap list \<Rightarrow> int \<Rightarrow> gmap" where
  "fix_plan c fixes cycle =
     [(''prd'', mget (vc_plan c) ''prd''), (''architecture'', map_get (vc_plan c) ''architecture'' (GMap [])),
      (''review'', map_get (vc_plan c) ''review'' (GMap [])), (''issues'', GMaps fixes), (''levels'', GList [GStrs (fix_names 0 fixes)]),
      (''file_conflicts'', GList []), (''artifacts_dir'', GStr (vc_artifacts c)),
      (''rationale'', GStr (''Fix issues for verification cycle '' @ show_int (cycle + 1)))]"

definition fix_args :: "verify_context \<Rightarrow> gmap list \<Rightarrow> int \<Rightarrow> gmap" where
  "fix_args c fixes cycle =
     [(''plan_result'', GMap (fix_plan c fixes cycle)), (''repo_path'', GStr (vc_repo c)),
      (''config'', GMap (to_execution_config_dict (vc_cfg c))), (''git_config'', vc_git c), (''workspace_manifest'', vc_manifest c)]"

text \<open>The result of the last execution, and the most issues completed and branches merged by one.\<close>

record shipped =
  sh_dag :: gmap
  sh_completed :: nat
  sh_merged :: nat

definition count_maps :: "gmap \<Rightarrow> string \<Rightarrow> nat" where
  "count_maps m k = length (maps_of (mget m k))"

definition count_strs :: "gmap \<Rightarrow> string \<Rightarrow> nat" where
  "count_strs m k = length (str_list (mget m k))"

definition ship_first :: "gmap \<Rightarrow> shipped" where
  "ship_first dag = \<lparr>sh_dag = dag, sh_completed = count_maps dag ''completed_issues'', sh_merged = count_strs dag ''merged_branches''\<rparr>"

definition ship_again :: "shipped \<Rightarrow> gmap \<Rightarrow> shipped" where
  "ship_again s dag = \<lparr>sh_dag = dag, sh_completed = max (sh_completed s) (count_maps dag ''completed_issues''),
     sh_merged = max (sh_merged s) (count_strs dag ''merged_branches'')\<rparr>"

fun verify_rounds :: "'x host \<Rightarrow> verify_context \<Rightarrow> nat \<Rightarrow> int \<Rightarrow> gmap option \<Rightarrow> shipped \<Rightarrow> 'x world
    \<Rightarrow> (go_error + gmap option \<times> shipped) \<times> 'x world" where
  "verify_rounds h c 0 cycle verification s w = (Inr (verification, s), w)"
| "verify_rounds h c (Suc n) cycle verification0 s w =
     (case call_node h ''run_verifier'' (verifier_args c (sh_dag s)) ''run_verifier'' w of
        (Inl e, w1) \<Rightarrow> (Inl e, w1)
      | (Inr v, w1) \<Rightarrow>
          if orch_bool (mget v ''passed'') \<or> cycle \<ge> b_max_verify_cycles (vc_cfg c) then (Inr (Some v, s), w1)
          else if failed_criteria v = [] then (Inr (Some v, s), w1)
          else (case call_node h ''generate_fix_issues'' (generate_args c (failed_criteria v) (sh_dag s)) ''generate_fix_issues'' w1 of
              (Inl e, w2) \<Rightarrow> (Inl e, w2)
            | (Inr fix, w2) \<Rightarrow>
                let fixes = maps_of (mget fix ''fix_issues'');
                    s1 = s\<lparr>sh_dag := book_unmet (maps_of (mget fix ''debt_items'')) (sh_dag s)\<rparr>
                in if fixes = [] then (Inr (Some v, s1), w2)
                   else (case call_node h ''execute'' (fix_args c fixes cycle) ''execute_fixes'' w2 of
                       (Inl e, w3) \<Rightarrow> (Inl e, w3)
                     | (Inr dag, w3) \<Rightarrow> verify_rounds h c n (cycle + 1) (Some v) (ship_again s1 dag) w3)))"

section \<open>Finalisation and plan documents\<close>

definition finalize_args :: "build_config \<Rightarrow> (string \<times> string) list \<Rightarrow> string \<Rightarrow> string \<Rightarrow> gmap" where
  "finalize_args cfg resolved artifacts path =
     [(''repo_path'', GStr path), (''artifacts_dir'', GStr artifacts), (''model'', GStr (lookup_def [] resolved ''git_model'')),
      (''permission_mode'', GStr (b_permission_mode cfg)), (''ai_provider'', GStr (build_ai_provider cfg))]"

text \<open>Finalisation never fails: its result and its error only reach the notes.\<close>

definition finalize_one :: "'x host \<Rightarrow> build_config \<Rightarrow> (string \<times> string) list \<Rightarrow> string \<Rightarrow> string \<Rightarrow> string \<Rightarrow> 'x world \<Rightarrow> 'x world" where
  "finalize_one h cfg resolved artifacts path name w =
     snd (call_node h ''run_repo_finalize'' (finalize_args cfg resolved artifacts path)
       (if name = [] then ''run_repo_finalize'' else ''run_repo_finalize ('' @ name @ '')'') w)"

definition several_repos :: "manifest option \<Rightarrow> bool" where
  "several_repos m = (case m of None \<Rightarrow> False | Some man \<Rightarrow> length (m_repos man) > 1)"

definition finalize_repos :: "'x host \<Rightarrow> build_config \<Rightarrow> (string \<times> string) list \<Rightarrow> manifest option \<Rightarrow> string \<Rightarrow> string \<Rightarrow> 'x world \<Rightarrow> 'x world" where
  "finalize_repos h cfg resolved m repo artifacts w = (case m of
     Some man \<Rightarrow> if several_repos m
        then fold (\<lambda>r. finalize_one h cfg resolved artifacts (y_path r) (y_name r)) (m_repos man) w
        else finalize_one h cfg resolved artifacts repo [] w
   | None \<Rightarrow> finalize_one h cfg resolved artifacts repo [] w)"

definition file_or_empty :: "file_text \<Rightarrow> string" where
  "file_or_empty f = (case f of Contents s \<Rightarrow> s | _ \<Rightarrow> [])"

definition read_plan_docs :: "'x host \<Rightarrow> gmap \<Rightarrow> 'x world \<Rightarrow> string \<times> string" where
  "read_plan_docs h plan w =
     (let dir = path_join [map_str_or plan ''artifacts_dir'' [], ''plan'']
      in (file_or_empty (read_file h (path_join [dir, ''prd.md'']) w), file_or_empty (read_file h (path_join [dir, ''architecture.md'']) w)))"

section \<open>Pull requests\<close>

definition newline :: string where
  "newline = [CHR 0x0A]"

definition plan_details :: "string \<Rightarrow> string \<Rightarrow> string" where
  "plan_details title text =
     (if text = [] then []
      else newline @ ''<details><summary>'' @ title @ ''</summary>'' @ newline @ newline @ text @ newline @ newline @ ''</details>'' @ newline)"

definition prd_title :: string where
  "prd_title = [CHR 0xF0, CHR 0x9F, CHR 0x93, CHR 0x8B] @ '' PRD (Product Requirements Document)''"

definition architecture_title :: string where
  "architecture_title = [CHR 0xF0, CHR 0x9F, CHR 0x8F, CHR 0x97, CHR 0xEF, CHR 0xB8, CHR 0x8F] @ '' Architecture''"

definition append_plan_docs :: "'x host \<Rightarrow> string \<Rightarrow> int \<Rightarrow> string \<Rightarrow> string \<Rightarrow> 'x world \<Rightarrow> 'x world" where
  "append_plan_docs h repo number prd arch w =
     (if prd = [] \<and> arch = [] then w
      else let ((out, err, code), w1) = gh h repo [''pr'', ''view'', show_int number, ''--json'', ''body'', ''--jq'', ''.body''] w
      in if code \<noteq> 0 then w1
         else snd (gh h repo [''pr'', ''edit'', show_int number, ''--body'',
           trim_space out @ newline @ newline @ ''---'' @ newline @ plan_details prd_title prd @ plan_details architecture_title arch] w1))"

definition pr_args :: "build_config \<Rightarrow> (string \<times> string) list \<Rightarrow> gmap \<Rightarrow> string \<Rightarrow> gval \<Rightarrow> string \<Rightarrow> string \<Rightarrow> string \<Rightarrow> gmap list \<Rightarrow> string \<Rightarrow> gmap" where
  "pr_args cfg resolved dag path integration base goal summary completed artifacts =
     [(''repo_path'', GStr path), (''integration_branch'', integration), (''base_branch'', GStr base), (''goal'', GStr goal),
      (''build_summary'', GStr summary), (''completed_issues'', GMaps completed),
      (''accumulated_debt'', GMaps (maps_of (mget dag ''accumulated_debt''))), (''artifacts_dir'', GStr artifacts),
      (''model'', GStr (lookup_def [] resolved ''git_model'')), (''permission_mode'', GStr (b_permission_mode cfg)),
      (''ai_provider'', GStr (build_ai_provider cfg))]"

definition gate_request_for :: "'x build_deps \<Rightarrow> build_config \<Rightarrow> (string \<times> string) list \<Rightarrow> string \<Rightarrow> int \<Rightarrow> string \<Rightarrow> string \<Rightarrow> string
    \<Rightarrow> string \<Rightarrow> gmap list \<Rightarrow> 'x gate_request" where
  "gate_request_for d cfg resolved path number url integration base goal completed =
     \<lparr>g_app = app_call (bd_host d), g_node = node_id (bd_host d), g_cfg = cfg, g_resolved = resolved, g_repo = path, g_pr = number,
      g_url = url, g_integration = integration, g_base = base, g_goal = goal, g_completed = completed, g_sha = []\<rparr>"

text \<open>The gate's result as an entry of \<open>ci_gate_results\<close>; an error of the gate gives no entry.\<close>

definition ci_entries :: "'x build_deps \<Rightarrow> build_config \<Rightarrow> string \<Rightarrow> 'x gate_request \<Rightarrow> 'x world \<Rightarrow> gmap list \<times> 'x world" where
  "ci_entries d cfg name q w =
     (if b_check_ci cfg \<and> g_pr q \<noteq> 0
      then (case bd_gate d of
          None \<Rightarrow> ([], w)
        | Some gate \<Rightarrow> (case gate q w of
            (Inl e, w1) \<Rightarrow> ([], w1)
          | (Inr m, w1) \<Rightarrow> ([mset_all [(''repo_name'', GStr name)] m], w1)))
      else ([], w))"

definition base_branch :: "build_config \<Rightarrow> gmap \<Rightarrow> string" where
  "base_branch cfg gi =
     (if b_pr_base cfg \<noteq> [] then b_pr_base cfg
      else if map_str_or gi ''remote_default_branch'' [] \<noteq> [] then map_str_or gi ''remote_default_branch'' []
      else ''main'')"

record pr_context =
  pc_cfg :: build_config
  pc_resolved :: "(string \<times> string) list"
  pc_dag :: gmap
  pc_artifacts :: string
  pc_goal :: string
  pc_summary :: string

definition single_repo_pr :: "'x build_deps \<Rightarrow> pr_context \<Rightarrow> gmap option \<Rightarrow> string \<Rightarrow> string \<times> string \<Rightarrow> 'x world
    \<Rightarrow> (pr_result list \<times> gmap list) \<times> 'x world" where
  "single_repo_pr d c git_config repo docs w = (case git_config of
     None \<Rightarrow> (([], []), w)
   | Some g \<Rightarrow>
       let cfg = pc_cfg c; h = bd_host d; base = base_branch cfg g; completed = maps_of (mget (pc_dag c) ''completed_issues'')
       in if map_str_or g ''remote_url'' [] = [] \<or> \<not> b_enable_pr cfg then (([], []), w)
          else (case call_node h ''run_github_pr'' (pr_args cfg (pc_resolved c) (pc_dag c) repo
                  (map_get g ''integration_branch'' (GStr [])) base (pc_goal c) (pc_summary c) completed (pc_artifacts c)) ''run_github_pr'' w of
              (Inl e, w1) \<Rightarrow> (([], []), w1)
            | (Inr pr, w1) \<Rightarrow>
                let url = map_str_or pr ''pr_url'' []; number = as_int (mget pr ''pr_number'');
                    name = (if b_repo_url cfg \<noteq> [] then derive_repo_name (b_repo_url cfg) else ''repo'')
                in if url = [] then (([], []), w1)
                   else let w2 = append_plan_docs h repo number (fst docs) (snd docs) w1;
                            (entries, w3) = ci_entries d cfg name
                              (gate_request_for d cfg (pc_resolved c) repo number url (map_str_or g ''integration_branch'' []) base
                                (pc_goal c) completed) w2
                        in (([\<lparr>pr_repo = name, pr_repo_url = b_repo_url cfg, pr_success = True, pr_url = url, pr_number = number,
                               pr_error = []\<rparr>], entries), w3)))"

definition completed_for_repo :: "gmap \<Rightarrow> string \<Rightarrow> gmap list" where
  "completed_for_repo dag name =
     filter (\<lambda>r. map_str_or r ''repo_name'' [] = [] \<or> map_str_or r ''repo_name'' [] = name) (maps_of (mget dag ''completed_issues''))"

definition repo_pr :: "'x build_deps \<Rightarrow> pr_context \<Rightarrow> ws_repo \<Rightarrow> 'x world \<Rightarrow> (pr_result list \<times> gmap list) \<times> 'x world" where
  "repo_pr d c r w =
     (let cfg = pc_cfg c; h = bd_host d; gi = (case y_git r of None \<Rightarrow> [] | Some g \<Rightarrow> g);
          remote = (if map_str_or gi ''remote_url'' [] = [] then y_url r else map_str_or gi ''remote_url'' []);
          integration = map_str_or gi ''integration_branch'' []; base = base_branch cfg gi;
          completed = completed_for_repo (pc_dag c) (y_name r)
      in if \<not> y_create_pr r \<or> \<not> b_enable_pr cfg \<or> remote = [] \<or> integration = [] then (([], []), w)
         else (case call_node h ''run_github_pr'' (pr_args cfg (pc_resolved c) (pc_dag c) (y_path r) (GStr integration) base
                 (pc_goal c) (pc_summary c) completed (pc_artifacts c)) ''run_github_pr'' w of
             (Inl e, w1) \<Rightarrow> (([\<lparr>pr_repo = y_name r, pr_repo_url = y_url r, pr_success = False, pr_url = [], pr_number = 0,
                               pr_error = err_text e\<rparr>], []), w1)
           | (Inr pr, w1) \<Rightarrow>
               let url = map_str_or pr ''pr_url'' []; number = as_int (mget pr ''pr_number'');
                   result = \<lparr>pr_repo = y_name r, pr_repo_url = y_url r, pr_success = orch_bool (mget pr ''success''), pr_url = url,
                     pr_number = number, pr_error = map_str_or pr ''error_message'' []\<rparr>
               in if url = [] then (([result], []), w1)
                  else let (entries, w2) = ci_entries d cfg (y_name r)
                         (gate_request_for d cfg (pc_resolved c) (y_path r) number url integration base (pc_goal c) completed) w1
                       in (([result], entries), w2)))"

fun multi_repo_prs :: "'x build_deps \<Rightarrow> pr_context \<Rightarrow> ws_repo list \<Rightarrow> 'x world \<Rightarrow> (pr_result list \<times> gmap list) \<times> 'x world" where
  "multi_repo_prs d c [] w = (([], []), w)"
| "multi_repo_prs d c (r # rs) w =
     (let ((prs, gates), w1) = repo_pr d c r w; ((prs', gates'), w2) = multi_repo_prs d c rs w1
      in ((prs @ prs', gates @ gates'), w2))"

section \<open>\<open>Build\<close>\<close>

definition build_summary_text :: "bool \<Rightarrow> nat \<Rightarrow> nat \<Rightarrow> gmap option \<Rightarrow> string" where
  "build_summary_text success completed n_all verification =
     (if success then ''Success'' else ''Partial'') @ '': '' @ show_nat completed @ ''/'' @ show_nat n_all @ '' issues completed'' @
     (case verification of None \<Rightarrow> [] | Some v \<Rightarrow> '', verification: '' @ map_str_or v ''summary'' [])"

datatype build_end = Built gmap | Shipped_nothing string gmap | Build_error go_error

definition named_path :: "'x host \<Rightarrow> string \<Rightarrow> string \<Rightarrow> string" where
  "named_path h url build_id = path_join [workspace_root (env_var h), derive_repo_name url @ ''-'' @ build_id]"

definition build_repo_path :: "'x host \<Rightarrow> build_config \<Rightarrow> string \<Rightarrow> string \<Rightarrow> string" where
  "build_repo_path h cfg path build_id =
     (if path \<noteq> [] then path
      else if b_repo_url cfg \<noteq> [] then named_path h (b_repo_url cfg) build_id
      else if length (b_repos cfg) > 1
      then named_path h (rs_url (case primary_repo cfg of Some r \<Rightarrow> r | None \<Rightarrow> hd (b_repos cfg))) build_id
      else [])"

definition build_overrides :: "build_input \<Rightarrow> build_config \<Rightarrow> build_config" where
  "build_overrides i cfg =
     cfg\<lparr>b_execute_target := (if bi_target i \<noteq> [] then bi_target i else b_execute_target cfg),
         b_permission_mode := (if bi_permission i \<noteq> [] then bi_permission i else b_permission_mode cfg),
         b_enable_learning := (bi_learning i \<or> b_enable_learning cfg),
         b_agent_max_turns := (if bi_max_turns i > 0 then bi_max_turns i else b_agent_max_turns cfg)\<rparr>"

definition plan_args :: "build_input \<Rightarrow> build_config \<Rightarrow> (string \<times> string) list \<Rightarrow> string \<Rightarrow> gval \<Rightarrow> gmap" where
  "plan_args i cfg resolved repo manifest =
     (let model = (\<lambda>k. GStr (lookup_def [] resolved k))
      in [(''goal'', GStr (bi_goal i)), (''repo_path'', GStr repo), (''artifacts_dir'', GStr (bi_artifacts i)),
          (''additional_context'', GStr (bi_context i)), (''max_review_iterations'', GInt (b_max_reviews cfg)),
          (''pm_model'', model ''pm_model''), (''architect_model'', model ''architect_model''),
          (''tech_lead_model'', model ''tech_lead_model''), (''sprint_planner_model'', model ''sprint_planner_model''),
          (''issue_writer_model'', model ''issue_writer_model''), (''permission_mode'', GStr (b_permission_mode cfg)),
          (''ai_provider'', GStr (build_ai_provider cfg)), (''workspace_manifest'', manifest)])"

definition execute_args :: "build_config \<Rightarrow> gmap \<Rightarrow> string \<Rightarrow> gval \<Rightarrow> string \<Rightarrow> gval \<Rightarrow> gmap" where
  "execute_args cfg plan repo git_config build_id manifest =
     [(''plan_result'', GMap plan), (''repo_path'', GStr repo), (''execute_fn_target'', GStr (b_execute_target cfg)),
      (''config'', GMap (to_execution_config_dict cfg)), (''git_config'', git_config), (''build_id'', GStr build_id),
      (''workspace_manifest'', manifest)]"

definition dump_manifest :: "manifest option \<Rightarrow> gval" where
  "dump_manifest m = (case m of None \<Rightarrow> GNil | Some man \<Rightarrow> GMap (json_map (manifest_json man)))"

definition refresh_manifest :: "gmap \<Rightarrow> manifest option \<Rightarrow> manifest option" where
  "refresh_manifest dag m = (case (m, mget dag ''workspace_manifest'') of
     (Some man, GMap wm) \<Rightarrow> (case manifest_from_map wm of Some man' \<Rightarrow> Some man' | None \<Rightarrow> m)
   | _ \<Rightarrow> m)"

text \<open>From the verified state on: documents, finalisation, pull requests, clean-up, result.\<close>

definition conclude_build :: "'x build_deps \<Rightarrow> build_input \<Rightarrow> build_config \<Rightarrow> (string \<times> string) list \<Rightarrow> gmap \<Rightarrow> string \<Rightarrow> gmap option
    \<Rightarrow> manifest option \<Rightarrow> gmap option \<Rightarrow> shipped \<Rightarrow> 'x world \<Rightarrow> build_end \<times> 'x world" where
  "conclude_build d i cfg resolved plan repo git_config manifest verification s w =
     (let h = bd_host d; dag = sh_dag s; artifacts = map_str_or plan ''artifacts_dir'' (bi_artifacts i);
          success = (case verification of None \<Rightarrow> False | Some v \<Rightarrow> orch_bool (mget v ''passed''));
          n_all = count_maps dag ''all_issues'';
          summary = build_summary_text success (count_maps dag ''completed_issues'') n_all verification;
          docs = read_plan_docs h plan w;
          w1 = finalize_repos h cfg resolved manifest repo artifacts w;
          c = \<lparr>pc_cfg = cfg, pc_resolved = resolved, pc_dag = dag, pc_artifacts = artifacts, pc_goal = bi_goal i, pc_summary = summary\<rparr>;
          ((prs, gates), w2) = (case manifest of
             Some man \<Rightarrow> if several_repos manifest then multi_repo_prs d c (m_repos man) w1
                         else single_repo_pr d c git_config repo docs w1
           | None \<Rightarrow> single_repo_pr d c git_config repo docs w1);
          w3 = (case manifest of Some man \<Rightarrow> if m_root man \<noteq> [] then remove_tree h (m_root man) w2 else w2 | None \<Rightarrow> w2);
          result = build_result plan dag verification success summary prs gates
      in (if is_empty_build success (sh_completed s) (sh_merged s)
          then Shipped_nothing (''Build failed: 0/'' @ show_nat n_all @ '' issues completed, no branches merged'') result
          else Built result, w3))"

text \<open>From an approved plan on: execution, verification, conclusion.\<close>

definition execute_build :: "'x build_deps \<Rightarrow> build_input \<Rightarrow> build_config \<Rightarrow> (string \<times> string) list \<Rightarrow> string \<Rightarrow> string \<Rightarrow> gmap option
    \<Rightarrow> manifest option \<Rightarrow> gmap \<Rightarrow> 'x world \<Rightarrow> build_end \<times> 'x world" where
  "execute_build d i cfg resolved build_id repo git_config manifest plan w =
     (let h = bd_host d
      in case call_node h ''execute'' (execute_args cfg plan repo (opt_map git_config) build_id (dump_manifest manifest)) ''execute'' w of
           (Inl e, w1) \<Rightarrow> (Build_error e, w1)
         | (Inr dag, w1) \<Rightarrow>
             let manifest1 = refresh_manifest dag manifest;
                 c = \<lparr>vc_cfg = cfg, vc_resolved = resolved, vc_plan = plan, vc_repo = repo,
                      vc_artifacts = map_str_or plan ''artifacts_dir'' (bi_artifacts i), vc_manifest = dump_manifest manifest1,
                      vc_git = opt_map git_config\<rparr>
             in (case verify_rounds h c (nat (b_max_verify_cycles cfg + 1)) 0 None (ship_first dag) w1 of
                   (Inl e, w2) \<Rightarrow> (Build_error e, w2)
                 | (Inr (verification, s), w2) \<Rightarrow>
                     conclude_build d i cfg resolved plan repo git_config manifest1 verification s w2))"

definition approve :: "'x build_deps \<Rightarrow> approval_request \<Rightarrow> 'x world \<Rightarrow> (go_error + approval_outcome) \<times> 'x world" where
  "approve d q w = (case bd_approval d of
     Some gate \<Rightarrow> if trim_space (env_var (bd_host d) ''HAX_API_KEY'') \<noteq> [] \<and> bd_execution d \<noteq> [] then gate q w else (Inr (Proceed None), w)
   | None \<Rightarrow> (Inr (Proceed None), w))"

text \<open>From the prepared working tree on: plan and git initialisation, approval, execution.\<close>

definition plan_build :: "'x build_deps \<Rightarrow> build_input \<Rightarrow> build_config \<Rightarrow> (string \<times> string) list \<Rightarrow> string \<Rightarrow> string \<Rightarrow> string
    \<Rightarrow> manifest option \<Rightarrow> 'x world \<Rightarrow> build_end \<times> 'x world" where
  "plan_build d i cfg resolved build_id repo artifacts manifest w =
     (let h = bd_host d; (planned, w1) = call_raw h ''plan'' (plan_args i cfg resolved repo (dump_manifest manifest)) w;
          w2 = exclude_metadata h repo w1; (base, w3) = head_sha h repo w2
      in case git_init_rounds h cfg (git_init_args cfg resolved repo (bi_goal i) artifacts build_id) repo base
                (nat (b_git_retries cfg)) GNil [] w3 of
           (Inl e, w4) \<Rightarrow> (Build_error e, w4)
         | (Inr gi, w4) \<Rightarrow> (case unwrapped ''plan'' (planned, w4) of
             (Inl e, w5) \<Rightarrow> (Build_error e, w5)
           | (Inr plan, w5) \<Rightarrow> (case approve d \<lparr>ar_cfg = cfg, ar_resolved = resolved, ar_plan = plan, ar_manifest = dump_manifest manifest,
                 ar_repo = repo, ar_goal = bi_goal i, ar_artifacts = bi_artifacts i, ar_abs_artifacts = artifacts,
                 ar_execution = bd_execution d\<rparr> w5 of
               (Inl e, w6) \<Rightarrow> (Build_error e, w6)
             | (Inr (Terminal result), w6) \<Rightarrow> (Built result, w6)
             | (Inr (Proceed revised), w6) \<Rightarrow>
                 execute_build d i cfg resolved build_id repo (git_config_of gi) manifest (case revised of Some p \<Rightarrow> p | None \<Rightarrow> plan) w6)))"

text \<open>The manifest and the repository the build works in, when the configuration names several.\<close>

definition checkout_repos :: "'x host \<Rightarrow> build_config \<Rightarrow> string \<Rightarrow> string \<Rightarrow> 'x world \<Rightarrow> (string + manifest option \<times> string) \<times> 'x world" where
  "checkout_repos h cfg artifacts repo w =
     (if length (b_repos cfg) > 1
      then (case clone_repos h cfg artifacts w of
          (Inl e, w1) \<Rightarrow> (Inl e, w1)
        | (Inr m, w1) \<Rightarrow> (Inr (Some m, case manifest_primary m of Some r \<Rightarrow> y_path r | None \<Rightarrow> repo), w1))
      else (Inr (None, repo), w))"

definition build :: "'x build_deps \<Rightarrow> gmap \<Rightarrow> 'x world \<Rightarrow> build_end \<times> 'x world" where
  "build d input w =
     (let i = build_input_of input; h = bd_host d
      in case load_build_config (env_var h) (bi_config i) of
           Inl e \<Rightarrow> (Build_error (load_error_of e), w)
         | Inr cfg0 \<Rightarrow>
             let cfg1 = (if bi_url i \<noteq> [] then cfg0\<lparr>b_repo_url := bi_url i\<rparr> else cfg0);
                 (build_id, w1) = fresh_id h w; repo = build_repo_path h cfg1 (bi_repo i) build_id
             in if repo = [] then (Build_error (Plain ''Either repo_path or repo_url must be provided''), w1)
                else (case prepare_single_repo h cfg1 repo w1 of
                    (Some e, w2) \<Rightarrow> (Build_error (Plain e), w2)
                  | (None, w2) \<Rightarrow>
                      let cfg = build_overrides i cfg1
                      in (case resolved_models (env_var h) cfg of
                            Inl e \<Rightarrow> (Build_error (Plain e), w2)
                          | Inr resolved \<Rightarrow>
                              let artifacts = path_join [abs_path h repo, bi_artifacts i]
                              in (case checkout_repos h cfg artifacts repo w2 of
                                    (Inl e, w3) \<Rightarrow> (Build_error (Plain e), w3)
                                  | (Inr (manifest, repo'), w3) \<Rightarrow>
                                      plan_build d i cfg resolved build_id repo' artifacts manifest w3))))"

end
