(* ===== verification/HostDemo.thy ===== *)
theory HostDemo
  imports Orch
begin

text \<open>
  A host with a small disk, on which the orchestrators can be evaluated, and what it means that the
  operations on a file do what they say.
\<close>

type_synonym disk = "string \<Rightarrow> string option"

definition demo_read :: "string \<Rightarrow> disk world \<Rightarrow> file_text" where
  "demo_read p w = (case outside w p of None \<Rightarrow> Absent | Some s \<Rightarrow> Contents s)"

definition demo_host :: "disk call \<Rightarrow> (string list \<Rightarrow> string \<times> string \<times> int) \<Rightarrow> disk host" where
  "demo_host app cmd =
     \<lparr>app_call = app, node_id = ''swe-planner'', default_target = [], env_var = (\<lambda>k. []), work_dir = ''/w'',
      run_cmd = (\<lambda>dir prog args w. (cmd args, w)), read_file = demo_read,
      write_file = (\<lambda>p s w. (None, w\<lparr>outside := (outside w)(p := Some s)\<rparr>)), append_file = (\<lambda>p s w. w),
      remove_file = (\<lambda>p w. (None, w\<lparr>outside := (outside w)(p := None)\<rparr>)), make_dirs = (\<lambda>p w. (None, w)),
      remove_tree = (\<lambda>p w. w), path_exists = (\<lambda>p w. False), is_directory = (\<lambda>p w. False),
      fresh_id = (\<lambda>w. (''0001'', w)), pause = (\<lambda>t w. w)\<rparr>"

text \<open>A host on which nothing happens.\<close>

definition idle_host :: "unit call \<Rightarrow> unit host" where
  "idle_host app =
     \<lparr>app_call = app, node_id = ''n'', default_target = [], env_var = (\<lambda>k. []), work_dir = ''/w'',
      run_cmd = (\<lambda>dir prog args w. (([], [], 0), w)), read_file = (\<lambda>p w. Absent), write_file = (\<lambda>p s w. (None, w)),
      append_file = (\<lambda>p s w. w), remove_file = (\<lambda>p w. (None, w)), make_dirs = (\<lambda>p w. (None, w)), remove_tree = (\<lambda>p w. w),
      path_exists = (\<lambda>p w. False), is_directory = (\<lambda>p w. False), fresh_id = (\<lambda>w. ([], w)), pause = (\<lambda>t w. w)\<rparr>"

definition blank_world :: "disk world" where
  "blank_world = \<lparr>files = (\<lambda>p. None), memory = (\<lambda>k. GNil), ctx_err = None, outside = (\<lambda>p. None)\<rparr>"

text \<open>Writes and removals of the file succeed and are seen by later reads.\<close>

definition faithful_file :: "'x host \<Rightarrow> string \<Rightarrow> bool" where
  "faithful_file h path \<longleftrightarrow>
     (\<forall>s w. read_file h path (snd (write_file h path s w)) = Contents s) \<and>
     (\<forall>w. read_file h path (snd (remove_file h path w)) = Absent)"

lemma demo_faithful [simp]: "faithful_file (demo_host app cmd) path"
  by (simp add: faithful_file_def demo_host_def demo_read_def)

end
