(* ===== verification/BuildCorrect.thy ===== *)
theory BuildCorrect
  imports BuildRun HostDemo
begin

text \<open>
  The verdict of a build, and the workspace of a build over several repositories.
\<close>

section \<open>The rounds of a build\<close>

definition ships :: "gmap \<Rightarrow> bool" where
  "ships dag \<longleftrightarrow> 0 < count_maps dag ''completed_issues'' \<or> 0 < count_strs dag ''merged_branches''"

text \<open>
  A state between two rounds: the cycles done, the replies of the executions so far, the world. A round
  goes on to the next one when verification fails, fix issues are generated and their execution replies.
\<close>

type_synonym 'x rounds = "int \<times> gmap list \<times> 'x world"

inductive fix_round :: "'x host \<Rightarrow> verify_context \<Rightarrow> 'x rounds \<Rightarrow> 'x rounds \<Rightarrow> bool" for h c where
  again: "\<lbrakk>call_node h ''run_verifier'' (verifier_args c (last dags)) ''run_verifier'' w = (Inr v, w1);
      \<not> orch_bool (mget v ''passed''); cycle < b_max_verify_cycles (vc_cfg c); failed_criteria v \<noteq> [];
      call_node h ''generate_fix_issues'' (generate_args c (failed_criteria v) (last dags)) ''generate_fix_issues'' w1 = (Inr fx, w2);
      maps_of (mget fx ''fix_issues'') \<noteq> [];
      call_node h ''execute'' (fix_args c (maps_of (mget fx ''fix_issues'')) cycle) ''execute_fixes'' w2 = (Inr dag, w3)\<rbrakk>
    \<Longrightarrow> fix_round h c (cycle, dags, w) (cycle + 1, dags @ [dag], w3)"

text \<open>The call a round ends with when it fails.\<close>

inductive round_fails :: "'x host \<Rightarrow> verify_context \<Rightarrow> 'x rounds \<Rightarrow> go_error \<Rightarrow> bool" for h c where
  no_verdict: "call_node h ''run_verifier'' (verifier_args c (last dags)) ''run_verifier'' w = (Inl e, w1)
    \<Longrightarrow> round_fails h c (cycle, dags, w) e"
| no_fixes: "\<lbrakk>call_node h ''run_verifier'' (verifier_args c (last dags)) ''run_verifier'' w = (Inr v, w1); \<not> orch_bool (mget v ''passed'');
      call_node h ''generate_fix_issues'' (generate_args c (failed_criteria v) (last dags)) ''generate_fix_issues'' w1 = (Inl e, w2)\<rbrakk>
    \<Longrightarrow> round_fails h c (cycle, dags, w) e"
| no_execution: "\<lbrakk>call_node h ''run_verifier'' (verifier_args c (last dags)) ''run_verifier'' w = (Inr v, w1); \<not> orch_bool (mget v ''passed'');
      call_node h ''generate_fix_issues'' (generate_args c (failed_criteria v) (last dags)) ''generate_fix_issues'' w1 = (Inr fx, w2);
      call_node h ''execute'' (fix_args c (maps_of (mget fx ''fix_issues'')) cycle) ''execute_fixes'' w2 = (Inl e, w3)\<rbrakk>
    \<Longrightarrow> round_fails h c (cycle, dags, w) e"

text \<open>What the verifier says of the last execution; a negative number of cycles verifies nothing.\<close>

definition verdict :: "'x host \<Rightarrow> verify_context \<Rightarrow> gmap list \<Rightarrow> 'x world \<Rightarrow> bool option" where
  "verdict h c dags w =
     (if b_max_verify_cycles (vc_cfg c) < 0 then Some False
      else case fst (call_node h ''run_verifier'' (verifier_args c (last dags)) ''run_verifier'' w) of
        Inl e \<Rightarrow> None | Inr v \<Rightarrow> Some (orch_bool (mget v ''passed'')))"

lemma count_append [simp]: "k' \<noteq> k \<Longrightarrow> count_maps (append_to_map_list m k x) k' = count_maps m k'"
  "k' \<noteq> k \<Longrightarrow> count_strs (append_to_map_list m k x) k' = count_strs m k'"
  by (simp_all add: count_maps_def count_strs_def append_to_map_list_def)

lemma count_book [simp]: "count_maps (book_unmet ds dag) ''completed_issues'' = count_maps dag ''completed_issues''"
  "count_strs (book_unmet ds dag) ''merged_branches'' = count_strs dag ''merged_branches''"
  unfolding book_unmet_def by (induction ds arbitrary: dag) simp_all

text \<open>The high-water marks of the counts are positive as soon as one execution has shipped something.\<close>

definition tally :: "shipped \<Rightarrow> gmap list \<Rightarrow> bool" where
  "tally s dags \<longleftrightarrow> (0 < sh_completed s \<or> 0 < sh_merged s) = list_ex ships dags \<and>
     count_maps (sh_dag s) ''completed_issues'' \<le> sh_completed s"

lemma tally_intros [intro]:
  "tally (ship_first dag) [dag]" "tally s dags \<Longrightarrow> tally (s\<lparr>sh_dag := book_unmet ds (sh_dag s)\<rparr>) dags"
  "tally s dags \<Longrightarrow> tally (ship_again s dag) (dags @ [dag])"
  by (auto simp: tally_def ship_first_def ship_again_def ships_def less_max_iff_disj)

text \<open>The recursion runs the rounds and stops where the verifier or a failing call stops it.\<close>

lemma verify_rounds_trace:
  "verify_rounds h c n cycle v0 s w = (r, w') \<Longrightarrow> int n + cycle = b_max_verify_cycles (vc_cfg c) + 1 \<Longrightarrow> 0 < n \<Longrightarrow> 0 \<le> cycle \<Longrightarrow>
   tally s dags \<Longrightarrow> sh_dag s = last dags \<Longrightarrow>
   \<exists>cycle' dags' w1. (fix_round h c)\<^sup>*\<^sup>* (cycle, dags, w) (cycle', dags', w1) \<and>
     (case r of Inl e \<Rightarrow> round_fails h c (cycle', dags', w1) e
      | Inr (vo, s') \<Rightarrow> tally s' dags' \<and> (\<exists>v. vo = Some v \<and> verdict h c dags' w1 = Some (orch_bool (mget v ''passed''))))"
proof (induction n arbitrary: cycle v0 s w dags)
  case (Suc n)
  note last = Suc.prems(6)
  have cycles: "\<not> b_max_verify_cycles (vc_cfg c) < 0" using Suc.prems(2,4) by simp
  obtain x w1 where x: "call_node h ''run_verifier'' (verifier_args c (last dags)) ''run_verifier'' w = (x, w1)" by force
  show ?case
  proof (cases x)
    case (Inl e)
    with Suc.prems(1) x last show ?thesis using round_fails.no_verdict by fastforce
  next
    case (Inr v)
    note v = x [unfolded Inr]
    have seen: "verdict h c dags w = Some (orch_bool (mget v ''passed''))" using cycles v by (simp add: verdict_def)
    show ?thesis
    proof (cases "orch_bool (mget v ''passed'') \<or> cycle \<ge> b_max_verify_cycles (vc_cfg c) \<or> failed_criteria v = []")
      case True
      with Suc.prems(1) v last have "r = Inr (Some v, s)" by (auto split: if_splits)
      with seen Suc.prems(5) show ?thesis by fastforce
    next
      case False
      obtain f w2 where f: "call_node h ''generate_fix_issues'' (generate_args c (failed_criteria v) (last dags)) ''generate_fix_issues'' w1 = (f, w2)"
        by force
      show ?thesis
      proof (cases f)
        case (Inl e)
        with Suc.prems(1) v last False f have "r = Inl e" by auto
        with round_fails.no_fixes [OF v _ f [unfolded Inl]] False show ?thesis by fastforce
      next
        case (Inr fx)
        note fx = f [unfolded Inr]
        let ?s1 = "s\<lparr>sh_dag := book_unmet (maps_of (mget fx ''debt_items'')) (sh_dag s)\<rparr>"
        have t1: "tally ?s1 dags" using Suc.prems(5) by blast
        show ?thesis
        proof (cases "maps_of (mget fx ''fix_issues'') = []")
          case True
          with Suc.prems(1) v last False fx have "r = Inr (Some v, ?s1)" by auto
          with t1 seen show ?thesis by fastforce
        next
          case more: False
          obtain e w3 where e: "call_node h ''execute'' (fix_args c (maps_of (mget fx ''fix_issues'')) cycle) ''execute_fixes'' w2 = (e, w3)"
            by force
          show ?thesis
          proof (cases e)
            case (Inl err)
            with Suc.prems(1) v last False fx more e have "r = Inl err" by (auto simp: Let_def)
            with round_fails.no_execution [OF v _ fx e [unfolded Inl]] False show ?thesis by fastforce
          next
            case (Inr dag)
            note dag = e [unfolded Inr]
            from Suc.prems(1) v last False fx more dag
            have rest: "verify_rounds h c n (cycle + 1) (Some v) (ship_again ?s1 dag) w3 = (r, w')" by (auto simp: Let_def)
            have "sh_dag (ship_again ?s1 dag) = last (dags @ [dag])" by (simp add: ship_again_def)
            from Suc.IH [OF rest _ _ _ tally_intros(3) [OF t1] this] False Suc.prems(2,4)
            obtain cycle' dags' w4 where "(fix_round h c)\<^sup>*\<^sup>* (cycle + 1, dags @ [dag], w3) (cycle', dags', w4)"
              and res: "case r of Inl e \<Rightarrow> round_fails h c (cycle', dags', w4) e
                | Inr (vo, s') \<Rightarrow> tally s' dags' \<and> (\<exists>v. vo = Some v \<and> verdict h c dags' w4 = Some (orch_bool (mget v ''passed'')))"
              by auto
            moreover have "fix_round h c (cycle, dags, w) (cycle + 1, dags @ [dag], w3)"
              by (rule again [OF v _ _ _ fx more dag]) (use False in auto)
            ultimately have "(fix_round h c)\<^sup>*\<^sup>* (cycle, dags, w) (cycle', dags', w4)" by (simp add: converse_rtranclp_into_rtranclp)
            with res show ?thesis by blast
          qed
        qed
      qed
    qed
  qed
qed simp

section \<open>The verdict\<close>

lemma only_maps_strs [simp]: "only_maps (map GStr ss) = []"
  by (induction ss) auto

lemma length_only_maps_trip: "length (only_maps (map json_trip vs)) = length (only_maps vs)"
  by (induction vs rule: only_maps.induct) (auto split: prod.splits)

lemma count_trip: "count_maps (json_map m) k = count_maps m k"
proof (cases "map_of m k")
  case (Some v)
  then show ?thesis
    by (cases v) (auto simp: count_maps_def mget_def lookup_def_def map_of_json_map maps_of_def as_map_slice_def length_only_maps_trip split: prod.splits)
qed (simp add: count_maps_def mget_def lookup_def_def map_of_json_map)

lemma build_result_fields:
  "mget (build_result plan dag v success summary prs gates) ''success'' = GBool success"
  "mget (build_result plan dag v success summary prs gates) ''dag_state'' = GMap (json_map dag)"
  unfolding build_result_def mget_def lookup_def_def map_of_json_map by (simp_all add: json_map_def)

text \<open>The outcome reported for an approved plan.\<close>

definition passed :: "gmap option \<Rightarrow> bool" where
  "passed v = (case v of None \<Rightarrow> False | Some v \<Rightarrow> orch_bool (mget v ''passed''))"

lemma conclude_build_end:
  obtains (built) res w' where "conclude_build d i cfg resolved plan repo gc man v s w = (Built res, w')"
    "mget res ''success'' = GBool (passed v)" "passed v \<or> 0 < sh_completed s \<or> 0 < sh_merged s"
  | (empty) msg res w' where "conclude_build d i cfg resolved plan repo gc man v s w = (Shipped_nothing msg res, w')"
    "mget res ''success'' = GBool False" "\<not> passed v" "sh_completed s = 0" "sh_merged s = 0" "mget res ''dag_state'' = GMap (json_map (sh_dag s))"
proof -
  obtain e w' where c: "conclude_build d i cfg resolved plan repo gc man v s w = (e, w')" by force
  then obtain summary prs gates msg where
    e: "e = (if is_empty_build (passed v) (sh_completed s) (sh_merged s)
         then Shipped_nothing msg (build_result plan (sh_dag s) v (passed v) summary prs gates)
         else Built (build_result plan (sh_dag s) v (passed v) summary prs gates))"
    unfolding conclude_build_def Let_def passed_def by (auto split: prod.splits)
  show ?thesis
  proof (cases "is_empty_build (passed v) (sh_completed s) (sh_merged s)")
    case True
    with c e have "conclude_build d i cfg resolved plan repo gc man v s w =
        (Shipped_nothing msg (build_result plan (sh_dag s) v (passed v) summary prs gates), w')" by simp
    with True show ?thesis by (intro empty) (auto simp: build_result_fields is_empty_build_def)
  next
    case False
    with c e show ?thesis by (intro built) (auto simp: build_result_fields is_empty_build_def)
  qed
qed

text \<open>The setting of the verification rounds of a build.\<close>

definition verify_setting :: "build_input \<Rightarrow> build_config \<Rightarrow> (string \<times> string) list \<Rightarrow> gmap \<Rightarrow> string \<Rightarrow> gmap option \<Rightarrow> manifest option
    \<Rightarrow> gmap \<Rightarrow> verify_context" where
  "verify_setting i cfg resolved plan repo gc manifest dag =
     \<lparr>vc_cfg = cfg, vc_resolved = resolved, vc_plan = plan, vc_repo = repo, vc_artifacts = map_str_or plan ''artifacts_dir'' (bi_artifacts i),
      vc_manifest = dump_manifest (refresh_manifest dag manifest), vc_git = opt_map gc\<rparr>"

text \<open>
  C6: The verdict of a build is honest. When the execution of the plan fails, so does the build, with its error. Else
  the rounds of verification and fixing run from its reply, and stop in a state they reach: the build fails with
  the error of the call that failed there, or its result says success exactly when the verifier, asked there about
  the last execution, says that it passed (never, when the number of cycles is negative and nothing is verified).
  It is reported as done only if it passed or one of its executions completed an issue or merged a branch, and as
  failed (nothing shipped) only if it did not pass and none of them did, nor does the state it reports.
\<close>

theorem build_verdict:
  "case call_node (bd_host d) ''execute'' (execute_args cfg plan repo (opt_map gc) build_id (dump_manifest manifest)) ''execute'' w of
     (Inl e, w1) \<Rightarrow> fst (execute_build d i cfg resolved build_id repo gc manifest plan w) = Build_error e
   | (Inr dag, w1) \<Rightarrow> (\<exists>c cycle dags w2. c = verify_setting i cfg resolved plan repo gc manifest dag \<and>
       (fix_round (bd_host d) c)\<^sup>*\<^sup>* (0, [dag], w1) (cycle, dags, w2) \<and>
       (case fst (execute_build d i cfg resolved build_id repo gc manifest plan w) of
          Built res \<Rightarrow> \<exists>p. verdict (bd_host d) c dags w2 = Some p \<and> mget res ''success'' = GBool p \<and> (p \<or> list_ex ships dags)
        | Shipped_nothing msg res \<Rightarrow> verdict (bd_host d) c dags w2 = Some False \<and> mget res ''success'' = GBool False \<and>
            \<not> list_ex ships dags \<and> count_maps (as_map (mget res ''dag_state'')) ''completed_issues'' = 0
        | Build_error e \<Rightarrow> round_fails (bd_host d) c (cycle, dags, w2) e))"
proof -
  let ?call = "call_node (bd_host d) ''execute'' (execute_args cfg plan repo (opt_map gc) build_id (dump_manifest manifest)) ''execute'' w"
  obtain x w1 where x: "?call = (x, w1)" by force
  show ?thesis
  proof (cases x)
    case (Inl e)
    with x show ?thesis by (simp add: execute_build_def Let_def)
  next
    case (Inr dag)
    let ?c = "verify_setting i cfg resolved plan repo gc manifest dag"
    obtain y w2 where y: "verify_rounds (bd_host d) ?c (nat (b_max_verify_cycles cfg + 1)) 0 None (ship_first dag) w1 = (y, w2)" by force
    have last: "sh_dag (ship_first dag) = last [dag]" by (simp add: ship_first_def)
    have "\<exists>cycle dags w3. (fix_round (bd_host d) ?c)\<^sup>*\<^sup>* (0, [dag], w1) (cycle, dags, w3) \<and>
      (case y of Inl e \<Rightarrow> round_fails (bd_host d) ?c (cycle, dags, w3) e
       | Inr (vo, s') \<Rightarrow> tally s' dags \<and> verdict (bd_host d) ?c dags w3 = Some (passed vo))"
    proof (cases "b_max_verify_cycles cfg < 0")
      case True
      with y have "y = Inr (None, ship_first dag)" by simp
      with True show ?thesis by (auto simp: verdict_def verify_setting_def passed_def)
    next
      case False
      then have "int (nat (b_max_verify_cycles cfg + 1)) + 0 = b_max_verify_cycles (vc_cfg ?c) + 1" "0 < nat (b_max_verify_cycles cfg + 1)"
        by (simp_all add: verify_setting_def)
      from verify_rounds_trace [OF y this order_refl tally_intros(1) last] show ?thesis
        by (fastforce simp: passed_def split: sum.splits)
    qed
    then obtain cycle dags w3 where reach: "(fix_round (bd_host d) ?c)\<^sup>*\<^sup>* (0, [dag], w1) (cycle, dags, w3)"
      and stop: "case y of Inl e \<Rightarrow> round_fails (bd_host d) ?c (cycle, dags, w3) e
       | Inr (vo, s') \<Rightarrow> tally s' dags \<and> verdict (bd_host d) ?c dags w3 = Some (passed vo)" by blast
    have "case fst (execute_build d i cfg resolved build_id repo gc manifest plan w) of
          Built res \<Rightarrow> \<exists>p. verdict (bd_host d) ?c dags w3 = Some p \<and> mget res ''success'' = GBool p \<and> (p \<or> list_ex ships dags)
        | Shipped_nothing msg res \<Rightarrow> verdict (bd_host d) ?c dags w3 = Some False \<and> mget res ''success'' = GBool False \<and>
            \<not> list_ex ships dags \<and> count_maps (as_map (mget res ''dag_state'')) ''completed_issues'' = 0
        | Build_error e \<Rightarrow> round_fails (bd_host d) ?c (cycle, dags, w3) e"
    proof (cases y)
      case (Inl e)
      with x Inr y stop show ?thesis by (simp add: execute_build_def Let_def verify_setting_def)
    next
      case (Inr vs)
      obtain v s where vs: "vs = (v, s)" by force
      with x \<open>x = Inr dag\<close> y Inr have e: "execute_build d i cfg resolved build_id repo gc manifest plan w =
          conclude_build d i cfg resolved plan repo gc (refresh_manifest dag manifest) v s w2"
        by (simp add: execute_build_def Let_def verify_setting_def)
      from stop Inr vs have t: "tally s dags" "verdict (bd_host d) ?c dags w3 = Some (passed v)" by simp_all
      show ?thesis
      proof (cases rule: conclude_build_end [of d i cfg resolved plan repo gc "refresh_manifest dag manifest" v s w2])
        case (built res w')
        with t show ?thesis unfolding e by (auto simp: tally_def)
      next
        case (empty msg res w')
        with t show ?thesis unfolding e by (auto simp: tally_def as_map_def count_trip)
      qed
    qed
    with reach x Inr show ?thesis by auto
  qed
qed

section \<open>The workspace of several repositories\<close>

lemma clone_single_ok: "clone_single h root spec cloned w = (Inr (name, path), cloned', w') \<Longrightarrow>
    name = mount_name spec \<and> path = (if rs_path spec \<noteq> [] then rs_path spec else path_join [root, mount_name spec])"
  by (auto simp: clone_single_def Let_def split: if_splits prod.splits option.splits)

definition place :: "string \<Rightarrow> repo_spec \<Rightarrow> string \<times> string" where
  "place root spec = (mount_name spec, if rs_path spec \<noteq> [] then rs_path spec else path_join [root, mount_name spec])"

lemma clone_each_oks:
  "clone_each h root specs cloned w = (rs, cloned', w') \<Longrightarrow> clone_errors rs = [] \<Longrightarrow> clone_oks rs = map (place root) specs"
proof (induction specs arbitrary: cloned w rs cloned' w')
  case (Cons spec specs)
  obtain r c1 w1 where r: "clone_single h root spec cloned w = (r, c1, w1)" by (metis prod_cases3)
  obtain rs' c2 w2 where rs': "clone_each h root specs c1 w1 = (rs', c2, w2)" by (metis prod_cases3)
  from Cons.prems r rs' have rs: "rs = r # rs'" by simp
  with Cons.prems(2) obtain p where p: "r = Inr p" by (cases r) auto
  obtain name path where np: "p = (name, path)" by force
  from clone_single_ok [OF r [unfolded p np]] Cons.IH [OF rs'] Cons.prems(2) show ?case
    by (simp add: rs p np place_def)
qed simp

lemma resolve_each_repos:
  "resolve_each h (zip specs (map f specs)) w = (repos, w') \<Longrightarrow>
   length repos = length specs \<and>
   (\<forall>i < length specs. \<exists>branch. repos ! i = ws_repo_from (specs ! i) (fst (f (specs ! i))) (snd (f (specs ! i))) branch)"
proof (induction specs arbitrary: w repos w')
  case (Cons spec specs)
  obtain branch w1 where b: "resolve_branch h spec (snd (f spec)) w = (branch, w1)" by force
  obtain rs w2 where rs: "resolve_each h (zip specs (map f specs)) w1 = (rs, w2)" by force
  have repos: "repos = ws_repo_from spec (fst (f spec)) (snd (f spec)) branch # rs"
    using Cons.prems b rs by (cases "f spec") simp
  from Cons.IH [OF rs] show ?case by (auto simp: repos nth_Cons split: nat.splits)
qed simp

lemma find_unique_name:
  assumes "distinct (map f xs)" and "x \<in> set xs"
  shows "find (\<lambda>y. f y = f x) xs = Some x"
  using assms by (induction xs) (auto simp: rev_image_eqI)

text \<open>The workspace two repositories of one name get.\<close>

definition same_name :: build_config where
  "same_name = (build_config_of [])\<lparr>b_repos :=
     [\<lparr>rs_url = ''https://h/ours/app'', rs_path = [], rs_role = ''dependency'', rs_branch = [], rs_sparse = [], rs_mount = [], rs_create_pr = True\<rparr>,
      \<lparr>rs_url = ''https://h/theirs/app'', rs_path = [], rs_role = ''primary'', rs_branch = [], rs_sparse = [], rs_mount = [], rs_create_pr = True\<rparr>]\<rparr>"

text \<open>
  The manifest of a cloned workspace lists the configured repositories in order, each under its
  mount point, or the name derived from its address, with its role and at its own path or under that
  name in the workspace; and when the names are distinct and one repository is the primary one, that
  is the one the manifest gives as primary. Two addresses with the same last part, which the
  configuration accepts, get the same directory, and the manifest then takes the wrong one for the
  primary repository.
\<close>

theorem clone_repos_manifest:
  assumes c: "clone_repos h cfg artifacts w = (Inr m, w')"
  shows "map (\<lambda>r. (y_url r, y_role r, y_name r, y_path r)) (m_repos m) =
      map (\<lambda>s. (rs_url s, rs_role s, place (m_root m) s)) (b_repos cfg) \<and>
    (distinct (map mount_name (b_repos cfg)) \<longrightarrow> filter is_primary (b_repos cfg) = [p] \<longrightarrow>
      (\<exists>r. manifest_primary m = Some r \<and> y_role r = ''primary'' \<and> y_url r = rs_url p)) \<and>
    (\<exists>m' w'. clone_repos (demo_host (\<lambda>t a w. (Inr [], w)) (\<lambda>a. ([], [], 0))) same_name ''/r/.artifacts'' blank_world = (Inr m', w') \<and>
      map y_path (m_repos m') = [''/r/workspace/app'', ''/r/workspace/app''] \<and> map_option y_role (manifest_primary m') = Some ''dependency'')"
proof (intro conjI impI)
  from c obtain rs cloned w1 w2 w3 repos where rs: "clone_each h (m_root m) (b_repos cfg) [] w1 = (rs, cloned, w2)" "clone_errors rs = []"
    and repos: "resolve_each h (zip (b_repos cfg) (clone_oks rs)) w2 = (repos, w3)" "m_repos m = repos"
    and prim: "m_primary m = (let prim = map y_name (filter (\<lambda>r. y_role r = ''primary'') repos) in if prim = [] then [] else last prim)"
    by (auto simp: clone_repos_def Let_def split: option.splits prod.splits if_splits)
  note r = resolve_each_repos [OF repos(1) [unfolded clone_each_oks [OF rs]]]
  then have same: "map (\<lambda>r. (y_url r, y_role r, y_name r, y_path r)) repos = map (\<lambda>s. (rs_url s, rs_role s, place (m_root m) s)) (b_repos cfg)"
    by (intro nth_equalityI) (auto simp: ws_repo_from_def)
  then show "map (\<lambda>r. (y_url r, y_role r, y_name r, y_path r)) (m_repos m) = map (\<lambda>s. (rs_url s, rs_role s, place (m_root m) s)) (b_repos cfg)"
    by (simp add: repos(2))
  assume dist: "distinct (map mount_name (b_repos cfg))" and one: "filter is_primary (b_repos cfg) = [p]"
  let ?f = "\<lambda>r. (y_url r, y_role r, y_name r, y_path r)" and ?g = "\<lambda>s. (rs_url s, rs_role s, place (m_root m) s)"
  have "map ?f (filter (\<lambda>r. y_role r = ''primary'') repos) = filter (\<lambda>(u, r, n). r = ''primary'') (map ?f repos)"
    by (simp add: filter_map comp_def)
  also have "\<dots> = map ?g (filter is_primary (b_repos cfg))"
    unfolding same by (simp add: filter_map comp_def is_primary_def [abs_def])
  finally obtain r where r': "filter (\<lambda>r. y_role r = ''primary'') repos = [r]" "?f r = ?g p" by (auto simp: one)
  have "r \<in> set (filter (\<lambda>r. y_role r = ''primary'') repos)" unfolding r'(1) by simp
  then have mem: "r \<in> set repos" "y_role r = ''primary''" by simp_all
  have "map y_name repos = map mount_name (b_repos cfg)"
    using arg_cong [OF same, of "map (\<lambda>(u, r, n, p). n)"] by (simp add: comp_def place_def)
  with dist mem(1) have "find (\<lambda>x. y_name x = y_name r) repos = Some r" by (intro find_unique_name) simp_all
  then have "manifest_primary m = Some r" by (simp add: manifest_primary_def prim r'(1) repos(2))
  with mem(2) r'(2) show "\<exists>r. manifest_primary m = Some r \<and> y_role r = ''primary'' \<and> y_url r = rs_url p" by blast
next
  show "\<exists>m' w'. clone_repos (demo_host (\<lambda>t a w. (Inr [], w)) (\<lambda>a. ([], [], 0))) same_name ''/r/.artifacts'' blank_world = (Inr m', w') \<and>
      map y_path (m_repos m') = [''/r/workspace/app'', ''/r/workspace/app''] \<and> map_option y_role (manifest_primary m') = Some ''dependency''"
  proof -
    let ?out = "clone_repos (demo_host (\<lambda>t a w. (Inr [], w)) (\<lambda>a. ([], [], 0))) same_name ''/r/.artifacts'' blank_world"
    have "case fst ?out of Inl e \<Rightarrow> False | Inr m' \<Rightarrow>
        map y_path (m_repos m') = [''/r/workspace/app'', ''/r/workspace/app''] \<and> map_option y_role (manifest_primary m') = Some ''dependency''"
      by code_simp
    then show ?thesis by (cases ?out) (auto split: sum.splits)
  qed
qed

theorem clone_repos_manifest_witness:
  "\<exists>m w'. clone_repos (demo_host (\<lambda>t a w. (Inr [], w)) (\<lambda>a. ([], [], 0))) same_name ''/r/.artifacts'' blank_world = (Inr m, w') \<and>
    map y_role (m_repos m) = [''dependency'', ''primary'']"
proof -
  let ?out = "clone_repos (demo_host (\<lambda>t a w. (Inr [], w)) (\<lambda>a. ([], [], 0))) same_name ''/r/.artifacts'' blank_world"
  have "case fst ?out of Inl e \<Rightarrow> False | Inr m \<Rightarrow> True" by code_simp
  then obtain m w' where out: "?out = (Inr m, w')" by (cases ?out) (auto split: sum.splits)
  have "map rs_role (b_repos same_name) = [''dependency'', ''primary'']" by code_simp
  moreover have "map y_role (m_repos m) = map rs_role (b_repos same_name)"
    using arg_cong [OF conjunct1 [OF clone_repos_manifest [OF out]], of "map (\<lambda>(u, r, n, p). r)"] by (simp add: comp_def)
  ultimately show ?thesis using out by auto
qed

section \<open>Fix cycles\<close>

text \<open>
  A fix cycle forgets what was done before it. When verification fails, fix issues are generated
  and executed and verification then passes, the state the build reports is the reply of the last
  execution alone: the issues completed and the debt recorded before it, including the debt for the
  unfixable criteria booked in this very cycle, appear in the result only if that reply repeats them.
  The request does not hand them on, nor the external coder and the build id.
\<close>

theorem fix_cycle_forgets:
  assumes "call_node h ''run_verifier'' (verifier_args c (sh_dag s)) ''run_verifier'' w = (Inr v, w1)"
    and "\<not> orch_bool (mget v ''passed'')" and "failed_criteria v \<noteq> []" and "cycle < b_max_verify_cycles (vc_cfg c)"
    and "call_node h ''generate_fix_issues'' (generate_args c (failed_criteria v) (sh_dag s)) ''generate_fix_issues'' w1 = (Inr fx, w2)"
    and "maps_of (mget fx ''fix_issues'') \<noteq> []"
    and "call_node h ''execute'' (fix_args c (maps_of (mget fx ''fix_issues'')) cycle) ''execute_fixes'' w2 = (Inr dag, w3)"
    and "call_node h ''run_verifier'' (verifier_args c dag) ''run_verifier'' w3 = (Inr v', w4)" and "orch_bool (mget v' ''passed'')"
  shows "\<exists>s'. verify_rounds h c (Suc (Suc n)) cycle v0 s w = (Inr (Some v', s'), w4) \<and> sh_dag s' = dag \<and>
    (\<forall>k \<in> {''completed_issues'', ''accumulated_debt'', ''execute_fn_target'', ''build_id''}.
       map_of (fix_args c (maps_of (mget fx ''fix_issues'')) cycle) k = None \<and>
       map_of (fix_plan c (maps_of (mget fx ''fix_issues'')) cycle) k = None)"
  using assms by (simp add: Let_def ship_again_def fix_args_def fix_plan_def)

text \<open>A build whose first execution left one criterion unmet and another one unfixable.\<close>

definition fixing_reply :: "string \<Rightarrow> gmap \<Rightarrow> gmap" where
  "fixing_reply target args =
     (if target = ''swe-planner.run_verifier''
      then (if map (\<lambda>i. as_string (mget i ''issue_name'')) (maps_of (mget args ''completed_issues'')) = [''fix'']
            then [(''passed'', GBool True)]
            else [(''passed'', GBool False), (''criteria_results'', GList [GMap [(''passed'', GBool False)]])])
      else if target = ''swe-planner.execute'' then [(''completed_issues'', GList [GMap [(''issue_name'', GStr ''fix'')]])]
      else [(''fix_issues'', GList [GMap [(''name'', GStr ''fix'')]]), (''debt_items'', GList [GMap [(''criterion'', GStr ''c'')]])])"

definition fixing_host :: "disk host" where
  "fixing_host = demo_host (\<lambda>target args w. (Inr (fixing_reply target args), w)) (\<lambda>args. ([], [], 0))"

lemma fixing_call: "label \<noteq> [] \<Longrightarrow>
    call_node fixing_host name args label w = (unwrap_call_result (fixing_reply (call_target ''swe-planner'' name) args) label, w)"
  by (simp add: call_node_def deps_call_def fixing_host_def demo_host_def unwrapped_def)

definition first_shipped :: shipped where
  "first_shipped = ship_first [(''completed_issues'', GList [GMap [(''issue_name'', GStr ''a'')], GMap [(''issue_name'', GStr ''b'')]])]"

definition fixing_context :: verify_context where
  "fixing_context = \<lparr>vc_cfg = (build_config_of [])\<lparr>b_max_verify_cycles := 1\<rparr>, vc_resolved = [], vc_plan = [], vc_repo = ''/r'',
     vc_artifacts = [], vc_manifest = GNil, vc_git = GNil\<rparr>"

theorem fix_cycle_forgets_witness:
  "\<exists>v s'. verify_rounds fixing_host fixing_context (Suc (Suc 0)) 0 None first_shipped blank_world
      = (Inr (Some v, s'), blank_world) \<and>
    sh_completed first_shipped = 2 \<and> count_maps (sh_dag s') ''completed_issues'' = 1 \<and> count_maps (sh_dag s') ''accumulated_debt'' = 0"
proof -
  let ?c = fixing_context
  let ?v = "[(''passed'', GBool False), (''criteria_results'', GList [GMap [(''passed'', GBool False)]])] :: gmap"
  let ?fx = "[(''fix_issues'', GList [GMap [(''name'', GStr ''fix'')]]), (''debt_items'', GList [GMap [(''criterion'', GStr ''c'')]])] :: gmap"
  let ?dag = "[(''completed_issues'', GList [GMap [(''issue_name'', GStr ''fix'')]])] :: gmap"
  have replies:
    "unwrap_call_result (fixing_reply (call_target ''swe-planner'' ''run_verifier'') (verifier_args ?c (sh_dag first_shipped))) ''run_verifier'' = Inr ?v"
    "unwrap_call_result (fixing_reply (call_target ''swe-planner'' ''generate_fix_issues'') (generate_args ?c (failed_criteria ?v) (sh_dag first_shipped)))
       ''generate_fix_issues'' = Inr ?fx"
    "unwrap_call_result (fixing_reply (call_target ''swe-planner'' ''execute'') (fix_args ?c (maps_of (mget ?fx ''fix_issues'')) 0)) ''execute_fixes'' = Inr ?dag"
    "unwrap_call_result (fixing_reply (call_target ''swe-planner'' ''run_verifier'') (verifier_args ?c ?dag)) ''run_verifier'' = Inr [(''passed'', GBool True)]"
    by code_simp+
  have guards: "\<not> orch_bool (mget ?v ''passed'')" "failed_criteria ?v \<noteq> []" "0 < b_max_verify_cycles (vc_cfg ?c)"
    "maps_of (mget ?fx ''fix_issues'') \<noteq> []" "orch_bool (mget [(''passed'', GBool True)] ''passed'')"
    by code_simp+
  have marks: "sh_completed first_shipped = 2" "count_maps ?dag ''completed_issues'' = 1" "count_maps ?dag ''accumulated_debt'' = 0"
    by code_simp+
  have labels: "''run_verifier'' \<noteq> []" "''generate_fix_issues'' \<noteq> []" "''execute_fixes'' \<noteq> []" by simp_all
  obtain s' where s': "verify_rounds fixing_host ?c (Suc (Suc 0)) 0 None first_shipped blank_world = (Inr (Some [(''passed'', GBool True)], s'), blank_world)"
    "sh_dag s' = ?dag"
    using fix_cycle_forgets [of fixing_host ?c first_shipped blank_world ?v blank_world 0 ?fx blank_world ?dag blank_world
        "[(''passed'', GBool True)]" blank_world 0 None] guards replies
    unfolding fixing_call [OF labels(1)] fixing_call [OF labels(2)] fixing_call [OF labels(3)] by auto
  then show ?thesis using s' marks by auto
qed

end
