(* ===== verification/Execute.thy ===== *)
theory Execute
  imports DagRun Orch
begin

text \<open>
  The reasoners around the engine: \<open>ExecuteHandler\<close> of \<open>internal/orch/execute.go\<close>, which turns a request
  into a run of the DAG, and \<open>ResumeBuildHandler\<close> of \<open>resume.go\<close>, which asks for a run from the last
  checkpoint. Notes and the workspace mirror are left out.
\<close>

section \<open>\<open>ExecuteHandler\<close>\<close>

record execute_input =
  x_plan :: gmap
  x_repo :: string
  x_target :: string
  x_config :: gmap
  x_git :: "gmap option"
  x_resume :: bool
  x_build_id :: string
  x_manifest :: "gmap option"

definition j_execute_input :: jtype where
  "j_execute_input = JObj
     [fld ''plan_result'' JDict, fld ''repo_path'' JString, fld ''execute_fn_target'' JString, fld ''config'' JDict,
      fld ''git_config'' JDict, fld ''resume'' JBool, fld ''build_id'' JString, fld ''workspace_manifest'' JDict]"

definition map_option_of :: "gval \<Rightarrow> gmap option" where
  "map_option_of v = (case v of GMap m \<Rightarrow> Some m | _ \<Rightarrow> None)"

definition execute_input_of :: "gmap \<Rightarrow> execute_input" where
  "execute_input_of input =
     (let m = fst (map_to_struct j_execute_input input)
      in \<lparr>x_plan = as_map (mget m ''plan_result''), x_repo = as_string (mget m ''repo_path''),
          x_target = as_string (mget m ''execute_fn_target''), x_config = as_map (mget m ''config''),
          x_git = map_option_of (mget m ''git_config''), x_resume = as_bool (mget m ''resume''),
          x_build_id = as_string (mget m ''build_id''), x_manifest = map_option_of (mget m ''workspace_manifest'')\<rparr>)"

text \<open>The external coder: a call to the full target with the issue and the repository.\<close>

definition external_coder :: "'x host \<Rightarrow> string \<Rightarrow> 'x execute_fn" where
  "external_coder h target issue s w =
     (case new_call_fn (app_call h) target [(''issue'', GMap issue), (''repo_path'', GStr (d_repo_path s))] w of
        (Inl e, w1) \<Rightarrow> (Inl e, w1) | (Inr m, w1) \<Rightarrow> (Inr (Some m), w1))"

definition coder_target :: "'x host \<Rightarrow> execute_input \<Rightarrow> string" where
  "coder_target h i = (if x_target i = [] then default_target h else x_target i)"

definition execute_engine :: "'x host \<Rightarrow> 'x env \<Rightarrow> 'x git_env \<Rightarrow> exec_config \<Rightarrow> execute_input \<Rightarrow> 'x engine" where
  "execute_engine h env g cfg i =
     \<lparr>e_env = env, e_git = g, e_call = Some (new_call_fn (app_call h)),
      e_execute = (if coder_target h i = [] then None else Some (external_coder h (coder_target h i))),
      e_node = node_id h, e_cfg = cfg, e_learn = False\<rparr>"

definition execute_options :: "execute_input \<Rightarrow> 'x run_options" where
  "execute_options i =
     \<lparr>o_git = x_git i, o_resume = x_resume i, o_build_id = x_build_id i, o_manifest = x_manifest i, o_level_complete = (\<lambda>n w. w)\<rparr>"

datatype execute_end = Executed gmap | Execute_error go_error | Execute_panic

fun execute_end_of :: "run_end \<Rightarrow> execute_end" where
  "execute_end_of (Returned s (Some e)) = Execute_error e"
| "execute_end_of (Returned (Some s) None) = Executed (dump_state s)"
| "execute_end_of (Returned None None) = Executed []"
| "execute_end_of Panicked = Execute_panic"

definition execute_handler :: "'x host \<Rightarrow> 'x env \<Rightarrow> 'x git_env \<Rightarrow> gmap \<Rightarrow> 'x world \<Rightarrow> (execute_end \<times> 'x world) option" where
  "execute_handler h env g input w =
     (let i = execute_input_of input
      in case load_execution_config (env_var h) (x_config i) of
           Inl e \<Rightarrow> Some (Execute_error (load_error_of e), w)
         | Inr cfg \<Rightarrow> map_option (\<lambda>(r, w'). (execute_end_of r, w'))
             (run_dag (execute_engine h env g cfg i) (execute_options i) (x_plan i) (x_repo i) w))"

section \<open>\<open>ResumeBuildHandler\<close>\<close>

definition resume_base :: "'x host \<Rightarrow> gmap \<Rightarrow> string" where
  "resume_base h input = path_join [abs_path h (map_str_or input ''repo_path'' []), map_str_or input ''artifacts_dir'' ''.artifacts'']"

definition resume_plan :: "gmap \<Rightarrow> string \<Rightarrow> gmap" where
  "resume_plan checkpoint base =
     [(''prd'', GMap []), (''architecture'', GMap []), (''review'', GMap []), (''issues'', any0 (mget checkpoint ''all_issues'')),
      (''levels'', any0 (mget checkpoint ''levels'')), (''file_conflicts'', GList []),
      (''artifacts_dir'', GStr (map_str_or checkpoint ''artifacts_dir'' base)),
      (''rationale'', GStr (map_str_or checkpoint ''original_plan_summary'' []))]"

definition resume_args :: "gmap \<Rightarrow> gmap \<Rightarrow> string \<Rightarrow> gmap" where
  "resume_args input checkpoint base =
     [(''plan_result'', GMap (resume_plan checkpoint base)), (''repo_path'', GStr (map_str_or input ''repo_path'' [])),
      (''config'', mget input ''config''), (''git_config'', mget input ''git_config''), (''resume'', GBool True)]"

definition resume_build :: "'x host \<Rightarrow> gmap \<Rightarrow> 'x world \<Rightarrow> (go_error + gmap) \<times> 'x world" where
  "resume_build h input w =
     (let base = resume_base h input; path = checkpoint_file base
      in case files w path of
           None \<Rightarrow> (Inl (Plain (''No checkpoint found at '' @ path @ ''. Cannot resume.'')), w)
         | Some checkpoint \<Rightarrow> call_raw h ''execute'' (resume_args input checkpoint base) w)"

end
