(* ===== verification/ConfigCorrect.thy ===== *)
theory ConfigCorrect
  imports ConfigLoad
begin

text \<open>
  Correctness of configuration loading: what a loaded build configuration guarantees about its
  repositories, and that the configuration handed from the build to the executor arrives unchanged.
\<close>

section \<open>Decoding over defaults\<close>

definition lower_keys :: "string list \<Rightarrow> bool" where
  "lower_keys ks \<longleftrightarrow> map to_lower ks = ks \<and> distinct ks"

lemma lower_keysD: "lower_keys ks \<Longrightarrow> k \<in> set ks \<Longrightarrow> to_lower k = k"
  unfolding lower_keys_def by (metis in_set_conv_nth length_map nth_map)

lemma json_field_lookup:
  assumes "lower_keys (map fst m)" and "to_lower n = n"
  shows "json_field (json_map m) n = map_option json_trip (map_of m n)"
proof (cases "map_of m n")
  case (Some v)
  then have "(n, json_trip v) \<in> set (json_map m)" by (force simp: json_map_def dest: map_of_SomeD)
  moreover have "distinct (map (to_lower \<circ> fst) m)" using assms(1) by (simp only: lower_keys_def map_map [symmetric])
  ultimately show ?thesis using json_field_unique [of "json_map m" n "json_trip v"] Some by simp
next
  case None
  then have "n \<notin> set (map fst m)" by (simp add: map_of_eq_None_iff)
  then have "filter (\<lambda>(k, v). to_lower k = to_lower n) (json_map m) = []"
    using lower_keysD [OF assms(1)] assms(2) by (force simp: filter_empty_conv json_map_def)
  with None show ?thesis by (simp add: json_field_def filter_sort)
qed

lemma decode_fields:
  assumes "lower_keys (map fst m)" and "\<forall>n \<in> set (map fst fs). to_lower n = n"
  shows "decode (JObj fs) d (GMap (json_map m)) =
    (GMap (map (\<lambda>(n, t, z). (n, case map_of m n of None \<Rightarrow> z | Some x \<Rightarrow> fst (decode t z (json_trip x)))) fs),
     list_all (\<lambda>(n, t, z). case map_of m n of None \<Rightarrow> True | Some x \<Rightarrow> snd (decode t z (json_trip x))) fs)"
proof -
  have f: "json_field (json_map m) (fst q) = map_option json_trip (map_of m (fst q))" if "q \<in> set fs" for q
    using json_field_lookup [OF assms(1)] assms(2) that by simp
  have 1: "map (\<lambda>(n, t, z). (n, case json_field (json_map m) n of None \<Rightarrow> z | Some x \<Rightarrow> fst (decode t z x))) fs
      = map (\<lambda>(n, t, z). (n, case map_of m n of None \<Rightarrow> z | Some x \<Rightarrow> fst (decode t z (json_trip x)))) fs"
    using f by (auto simp: split_beta split: option.splits)
  have 2: "(\<forall>(n, t, z) \<in> set fs. case json_field (json_map m) n of None \<Rightarrow> True | Some x \<Rightarrow> snd (decode t z x))
      \<longleftrightarrow> list_all (\<lambda>(n, t, z). case map_of m n of None \<Rightarrow> True | Some x \<Rightarrow> snd (decode t z (json_trip x))) fs"
    unfolding list_all_iff using f by (auto simp: split_beta split: option.splits)
  show ?thesis using 1 2 by (simp add: decode.simps)
qed

text \<open>What strict decoding gives for a map whose keys are in lower case.\<close>

definition over_defaults :: "gmap \<Rightarrow> (string \<times> jtype \<times> gval) list \<Rightarrow> gmap" where
  "over_defaults m fs = map (\<lambda>(n, t, z). (n, case map_of m n of None \<Rightarrow> z | Some x \<Rightarrow> fst (decode t z (json_trip x)))) fs"

definition fields_ok :: "gmap \<Rightarrow> (string \<times> jtype \<times> gval) list \<Rightarrow> bool" where
  "fields_ok m fs \<longleftrightarrow> list_all (\<lambda>(n, t, z). case map_of m n of None \<Rightarrow> True | Some x \<Rightarrow> snd (decode t z (json_trip x))) fs"

lemma strict_decode_fields:
  assumes "lower_keys (map fst raw)" and lower: "\<forall>n \<in> set (map fst fs). to_lower n = n"
  shows "strict_decode (JObj fs) raw = (if fields_ok raw fs \<and> set (map fst raw) \<subseteq> set (map fst fs) then Some (over_defaults raw fs) else None)"
proof -
  have "map to_lower (map fst fs) = map fst fs" by (rule map_idI) (use lower in blast)
  then have names: "map to_lower (names_of (JObj fs)) = map fst fs" by (simp add: names_of_def)
  have "known_keys (JObj fs) raw \<longleftrightarrow> (\<forall>k \<in> set (map fst raw). to_lower k \<in> set (map fst fs))"
    unfolding known_keys_def names by (simp add: list_all_iff split_beta)
  also have "\<dots> \<longleftrightarrow> set (map fst raw) \<subseteq> set (map fst fs)"
    unfolding subset_eq by (intro ball_cong refl) (simp only: lower_keysD [OF assms(1)])
  finally show ?thesis
    by (simp only: strict_decode_def decode_fields [OF assms] over_defaults_def fields_ok_def) (simp add: as_map_def)
qed

lemma mget_fields: "distinct (map fst fs) \<Longrightarrow> (n, t, z) \<in> set fs \<Longrightarrow>
    mget (over_defaults m fs) n = (case map_of m n of None \<Rightarrow> z | Some x \<Rightarrow> fst (decode t z (json_trip x)))"
  by (induction fs) (auto simp: over_defaults_def mget_def lookup_def_def rev_image_eqI)

section \<open>Loaded build configurations\<close>

lemma first_error_None: "first_error f xs = None \<longleftrightarrow> (\<forall>x \<in> set xs. f x = None)"
  by (induction xs) (auto split: option.splits)

definition repos_ok :: "build_config \<Rightarrow> bool" where
  "repos_ok c \<longleftrightarrow>
     (if b_repos c = [] then b_repo_url c = []
      else \<exists>p. filter is_primary (b_repos c) = [p] \<and> primary_repo c = Some p \<and> b_repo_url c = rs_url p) \<and>
     distinct (repo_urls (b_repos c)) \<and> (\<forall>r \<in> set (b_repos c). validate_repo_spec r = None)"

lemma find_filter: "filter P xs = [x] \<Longrightarrow> find P xs = Some x"
  by (induction xs) (auto split: if_splits)

lemma normalize_repos_ok:
  assumes "normalize_repos c = Inr c'" and "\<forall>r \<in> set (b_repos c). validate_repo_spec r = None"
  shows "repos_ok c'"
proof -
  consider (url) "b_repo_url c \<noteq> []" | (none) "b_repo_url c = []" "b_repos c = []" | (listed) "b_repo_url c = []" "b_repos c \<noteq> []"
    by blast
  then show ?thesis
  proof cases
    case url
    with assms(1) have "validate_repo_spec (shorthand_repo (b_repo_url c)) = None" "c' = c\<lparr>b_repos := [shorthand_repo (b_repo_url c)]\<rparr>"
      by (auto simp: normalize_repos_def split: if_splits option.splits)
    then show ?thesis
      by (simp add: repos_ok_def is_primary_def shorthand_repo_def primary_repo_def repo_urls_def)
  next
    case none
    with assms(1) show ?thesis by (simp add: normalize_repos_def repos_ok_def repo_urls_def)
  next
    case listed
    with assms(1) have one: "length (filter is_primary (b_repos c)) = 1"
      and urls: "length (repo_urls (b_repos c)) = card (set (repo_urls (b_repos c)))"
      and c': "c' = c\<lparr>b_repo_url := (case primary_repo c of None \<Rightarrow> [] | Some r \<Rightarrow> rs_url r)\<rparr>"
      by (auto simp: normalize_repos_def split: if_splits)
    from one obtain p where p: "filter is_primary (b_repos c) = [p]" by (auto simp: length_Suc_conv)
    have "distinct (repo_urls (b_repos c))" using urls by (metis card_distinct)
    then show ?thesis using listed assms(2) p find_filter [OF p] by (auto simp: repos_ok_def c' primary_repo_def)
  qed
qed

text \<open>
  C28: A build configuration that loads names its repositories consistently: there are none and no
  repository URL, or exactly one is primary and the URL is the primary's; no URL is listed twice; and
  every role and URL is well-formed. Its model overrides use known keys only.
\<close>

theorem load_build_config_repos:
  assumes "load_build_config genv raw = Inr c"
  shows "(if b_repos c = [] then b_repo_url c = []
      else \<exists>p. filter is_primary (b_repos c) = [p] \<and> primary_repo c = Some p \<and> b_repo_url c = rs_url p) \<and>
    distinct (repo_urls (b_repos c)) \<and> (\<forall>r \<in> set (b_repos c). validate_repo_spec r = None) \<and>
    (\<exists>ms. validate_flat_models (b_models c) = Inr ms)"
proof -
  from assms obtain m where
    specs: "first_error validate_repo_spec (b_repos (build_config_of m)) = None"
    and norm: "normalize_repos (build_config_of m) = Inr c" and "\<exists>ms. validate_flat_models (b_models c) = Inr ms"
    by (auto simp: load_build_config_def split: option.splits sum.splits)
  moreover have "repos_ok c" using normalize_repos_ok [OF norm] specs by (simp add: first_error_None)
  ultimately show ?thesis by (simp add: repos_ok_def)
qed

section \<open>From the build to the executor\<close>

definition ints_ok :: "build_config \<Rightarrow> bool" where
  "ints_ok c \<longleftrightarrow> list_all int64
     [b_max_retries c, b_max_replans c, b_max_test_retries c, b_max_iterations c, b_agent_max_turns c, b_timeout c,
      b_max_advisor c, b_max_concurrent c, b_max_ci_cycles c, b_ci_wait c, b_ci_poll c]"

lemma decode_bool [codec]: "decode JBool d (json_trip (GBool b)) = (GBool b, True)"
  by (simp add: decode.simps)

lemma decode_text [codec]: "decode JString d (json_trip (GStr s)) = (GStr s, True)"
  by (simp add: decode.simps)

lemma decode_float [codec]: "decode JFloat d (json_trip (of_decimal x)) = (of_decimal x, True)"
  by (simp add: decode.simps of_decimal_def)

lemma decode_models [codec]: "decode (JDictOf JString) GNil (json_trip (models_value ms)) = (models_value ms, True)"
proof (cases ms)
  case (Some m)
  have "\<forall>(k, x) \<in> set (map (\<lambda>(k, x). (k, GStr x)) m). \<exists>s. x = GStr s" by auto
  with Some show ?thesis by (auto simp: models_value_def decode.simps split_beta)
qed (simp add: models_value_def decode.simps)

lemma models_of_value [simp]: "models_of (models_value ms) = ms"
  by (cases ms) (auto simp: models_value_def models_of_def as_string_def split_beta comp_def)

lemma decimal_of [simp]: "decimal (of_decimal d) = d"
  by (simp add: decimal_def of_decimal_def)

definition effective_runtime :: "build_config \<Rightarrow> string" where
  "effective_runtime c = (if b_runtime c = ''claude'' then ''claude_code'' else b_runtime c)"

text \<open>What of a build configuration the executor is to see.\<close>

definition execution_view :: "build_config \<Rightarrow> (string \<times> string) list \<Rightarrow> exec_config" where
  "execution_view c resolved = \<lparr>
     c_runtime = effective_runtime c, c_overrides = b_models c, c_max_retries = b_max_retries c, c_max_replans = b_max_replans c,
     c_enable_replanning = b_enable_replanning c, c_max_test_retries = b_max_test_retries c,
     c_enable_testing = b_enable_testing c, c_max_iterations = b_max_iterations c, c_agent_max_turns = b_agent_max_turns c,
     c_deterministic_git = b_deterministic_git c, c_permission_mode = b_permission_mode c, c_timeout = b_timeout c,
     c_max_advisor = b_max_advisor c, c_enable_advisor = b_enable_advisor c, c_enable_learning = b_enable_learning c,
     c_max_concurrent = b_max_concurrent c, c_threshold_num = fraction_num (b_threshold c),
     c_threshold_den = fraction_den (b_threshold c), c_check_ci = b_check_ci c, c_max_ci_cycles = b_max_ci_cycles c,
     c_ci_wait = b_ci_wait c, c_ci_poll = b_ci_poll c, c_models = resolved\<rparr>"

lemma allowed_not_legacy: "k \<in> set allowed_model_keys \<Longrightarrow> legacy_model_error k = None"
proof -
  have "list_all (\<lambda>k. legacy_model_error k = None) allowed_model_keys" by code_simp
  then show "k \<in> set allowed_model_keys \<Longrightarrow> legacy_model_error k = None" by (simp add: list_all_iff)
qed

lemma valid_models_keys: "validate_flat_models (Some m) = Inr ms \<Longrightarrow> set (map fst m) \<subseteq> set allowed_model_keys"
  by (auto simp: validate_flat_models_def filter_empty_conv split: if_splits)

lemma no_legacy_hits:
  assumes "\<not> list_ex (\<lambda>k. k \<in> set (map fst legacy_top_level)) (map fst raw)"
  shows "legacy_hits raw = []"
proof -
  have "map_of raw k = None" if "k \<in> set (map fst legacy_top_level)" for k
    using that assms by (force simp: list_ex_iff map_of_eq_None_iff)
  then show ?thesis by (force simp: legacy_hits_def filter_empty_conv)
qed

lemma dict_not_legacy:
  assumes "validate_flat_models (b_models c) = Inr ms"
  shows "reject_legacy_config_keys (to_execution_config_dict c) = None"
proof -
  have "\<not> list_ex (\<lambda>k. k \<in> set (map fst legacy_top_level)) (map fst (to_execution_config_dict c))"
    by (simp add: to_execution_config_dict_def legacy_top_level_def role_model_pairs_def)
  then have "legacy_hits (to_execution_config_dict c) = []" by (rule no_legacy_hits)
  moreover have "mget (to_execution_config_dict c) ''models'' = models_value (b_models c)"
    by (simp add: to_execution_config_dict_def mget_def lookup_def_def)
  moreover have "first_error legacy_model_error (case models_value (b_models c) of GMap m \<Rightarrow> map fst m | _ \<Rightarrow> []) = None"
  proof (cases "b_models c")
    case (Some m)
    with assms have "set (map fst m) \<subseteq> set allowed_model_keys" by (intro valid_models_keys) simp
    with Some allowed_not_legacy show ?thesis by (force simp: models_value_def first_error_None split_beta)
  qed (simp add: models_value_def)
  ultimately show ?thesis by (simp add: reject_legacy_config_keys_def)
qed

lemma dict_lower: "lower_keys (map fst (to_execution_config_dict c))"
  by (simp add: lower_keys_def to_execution_config_dict_def to_lower_def)

lemma execution_names: "\<forall>n \<in> set (map fst (execution_fields genv)). to_lower n = n" "distinct (map fst (execution_fields genv))"
  by (simp_all add: execution_fields_def to_lower_def)

lemma dict_names: "set (map fst (to_execution_config_dict c)) = set (map fst (execution_fields genv))"
  by (auto simp: execution_fields_def to_execution_config_dict_def)

text \<open>Looking up a field of the decoded dictionary.\<close>

lemma mget_pairs: "n \<in> set ns \<Longrightarrow> mget (map (\<lambda>n. (n, g n)) ns) n = g n"
  by (induction ns) (auto simp: mget_def lookup_def_def)

lemma dict_lookup:
  "map_of (to_execution_config_dict c) ''runtime'' = Some (GStr (b_runtime c))"
  "map_of (to_execution_config_dict c) ''models'' = Some (models_value (b_models c))"
  "map_of (to_execution_config_dict c) ''permission_mode'' = Some (GStr (b_permission_mode c))"
  "map_of (to_execution_config_dict c) ''max_retries_per_issue'' = Some (GInt (b_max_retries c))"
  "map_of (to_execution_config_dict c) ''max_replans'' = Some (GInt (b_max_replans c))"
  "map_of (to_execution_config_dict c) ''enable_replanning'' = Some (GBool (b_enable_replanning c))"
  "map_of (to_execution_config_dict c) ''max_integration_test_retries'' = Some (GInt (b_max_test_retries c))"
  "map_of (to_execution_config_dict c) ''enable_integration_testing'' = Some (GBool (b_enable_testing c))"
  "map_of (to_execution_config_dict c) ''max_coding_iterations'' = Some (GInt (b_max_iterations c))"
  "map_of (to_execution_config_dict c) ''agent_max_turns'' = Some (GInt (b_agent_max_turns c))"
  "map_of (to_execution_config_dict c) ''deterministic_git'' = Some (GBool (b_deterministic_git c))"
  "map_of (to_execution_config_dict c) ''agent_timeout_seconds'' = Some (GInt (b_timeout c))"
  "map_of (to_execution_config_dict c) ''max_advisor_invocations'' = Some (GInt (b_max_advisor c))"
  "map_of (to_execution_config_dict c) ''enable_issue_advisor'' = Some (GBool (b_enable_advisor c))"
  "map_of (to_execution_config_dict c) ''enable_learning'' = Some (GBool (b_enable_learning c))"
  "map_of (to_execution_config_dict c) ''max_concurrent_issues'' = Some (GInt (b_max_concurrent c))"
  "map_of (to_execution_config_dict c) ''level_failure_abort_threshold'' = Some (of_decimal (b_threshold c))"
  "map_of (to_execution_config_dict c) ''check_ci'' = Some (GBool (b_check_ci c))"
  "map_of (to_execution_config_dict c) ''max_ci_fix_cycles'' = Some (GInt (b_max_ci_cycles c))"
  "map_of (to_execution_config_dict c) ''ci_wait_seconds'' = Some (GInt (b_ci_wait c))"
  "map_of (to_execution_config_dict c) ''ci_poll_seconds'' = Some (GInt (b_ci_poll c))"
  by (simp_all add: to_execution_config_dict_def)

lemma dict_decodes:
  assumes "ints_ok c"
  shows "fields_ok (to_execution_config_dict c) (execution_fields genv)"
    "over_defaults (to_execution_config_dict c) (execution_fields genv) =
      map (\<lambda>n. (n, the (map_of (to_execution_config_dict c) n))) (map fst (execution_fields genv))"
  using assms
  by (simp_all add: fields_ok_def over_defaults_def execution_fields_def dict_lookup codec ints_ok_def del: json_trip.simps)

lemma strict_decode_dict:
  assumes "ints_ok c"
  shows "\<exists>m. strict_decode (JObj (execution_fields genv)) (to_execution_config_dict c) = Some m \<and>
    execution_config_of m = (execution_view c [])\<lparr>c_runtime := b_runtime c\<rparr>"
proof -
  have "mget (over_defaults (to_execution_config_dict c) (execution_fields genv)) n = mget (to_execution_config_dict c) n"
    if "n \<in> set (map fst (execution_fields genv))" for n
  proof -
    have "map_of (to_execution_config_dict c) n \<noteq> None"
      using that dict_names [of c genv] map_of_eq_None_iff [of "to_execution_config_dict c" n] by auto
    then show ?thesis using that by (auto simp only: dict_decodes(2) [OF assms] mget_pairs) (auto simp: mget_def lookup_def_def)
  qed
  then have "execution_config_of (over_defaults (to_execution_config_dict c) (execution_fields genv)) =
      execution_config_of (to_execution_config_dict c)"
    by (simp add: execution_config_of_def execution_fields_def)
  also have "\<dots> = (execution_view c [])\<lparr>c_runtime := b_runtime c\<rparr>"
    by (simp add: execution_config_of_def dict_lookup mget_def lookup_def_def Let_def as_string_def as_int_def as_bool_def execution_view_def)
  finally show ?thesis
    using dict_decodes(1) [OF assms] dict_names [of c genv]
    by (simp add: strict_decode_fields [OF dict_lower execution_names(1)])
qed

text \<open>
  The configuration handed from the build to the executor arrives unchanged: loading what
  \<open>ToExecutionConfigDict\<close> produces succeeds whenever the models of its runtime resolve, and gives
  every limit, flag, timeout and override of the build configuration, with the resolved models (the
  legacy runtime name \<open>claude\<close> becomes \<open>claude_code\<close>).
\<close>

theorem execution_config_roundtrip:
  assumes "ints_ok c" and "resolve_runtime_models genv (effective_runtime c) (b_models c) None = Inr resolved"
  shows "load_execution_config genv (to_execution_config_dict c) = Inr (execution_view c resolved)"
proof -
  obtain m where m: "strict_decode (JObj (execution_fields genv)) (to_execution_config_dict c) = Some m"
    and view: "execution_config_of m = (execution_view c [])\<lparr>c_runtime := b_runtime c\<rparr>"
    using strict_decode_dict [OF assms(1)] by blast
  have "\<exists>ms. validate_flat_models (b_models c) = Inr ms"
    using assms(2) by (auto simp: resolve_runtime_models_def Let_def split: option.splits sum.splits)
  then have "reject_legacy_config_keys (to_execution_config_dict c) = None" using dict_not_legacy by blast
  moreover have "(if c_runtime (execution_config_of m) = ''claude'' then (execution_config_of m)\<lparr>c_runtime := ''claude_code''\<rparr>
      else execution_config_of m) = execution_view c []"
    by (simp add: view execution_view_def effective_runtime_def)
  moreover have "c_runtime (execution_view c []) = effective_runtime c" "c_overrides (execution_view c []) = b_models c"
    "(execution_view c [])\<lparr>c_models := resolved\<rparr> = execution_view c resolved" by (simp_all add: execution_view_def)
  ultimately show ?thesis using m assms(2) by (simp add: load_execution_config_def Let_def)
qed

section \<open>Issue-level builds\<close>

lemma decode_int_back: "snd (decode JInt d (json_trip (GInt n))) \<Longrightarrow> fst (decode JInt d (json_trip (GInt n))) = GInt n"
  using dec_int_norm [of 0 n] by (auto simp: decode.simps json_trip.simps(1) split: prod.splits if_splits)

lemma raw_lower: "lower_keys (map fst (to_execution_raw c))"
  by (simp add: lower_keys_def to_execution_raw_def to_lower_def split: option.splits)

text \<open>
  An issue-level build runs the engine with the issue advisor, replanning, shared memory,
  integration tests and the CI gate switched off, whatever its configuration says: so the advisor is
  never called in it.
\<close>

theorem issue_build_switches_off:
  assumes "load_execution_config genv (to_execution_raw c) = Inr x"
  shows "\<not> c_enable_advisor x \<and> \<not> c_enable_replanning x \<and> \<not> c_enable_learning x \<and> \<not> c_enable_testing x \<and> \<not> c_check_ci x \<and>
    c_max_iterations x = i_max_iterations c \<and> c_timeout x = i_timeout c"
proof -
  from assms obtain m resolved where m: "strict_decode (JObj (execution_fields genv)) (to_execution_raw c) = Some m"
    and x: "x = (execution_config_of m)\<lparr>c_models := resolved\<rparr> \<or>
      x = (execution_config_of m)\<lparr>c_runtime := ''claude_code'', c_models := resolved\<rparr>"
    by (auto simp: load_execution_config_def Let_def split: option.splits sum.splits if_splits)
  let ?raw = "to_execution_raw c"
  from m have m': "m = over_defaults ?raw (execution_fields genv)" and ok: "fields_ok ?raw (execution_fields genv)"
    by (auto simp: strict_decode_fields [OF raw_lower execution_names(1)] split: if_splits)
  have vals: "map_of ?raw ''enable_issue_advisor'' = Some (GBool False)" "map_of ?raw ''enable_replanning'' = Some (GBool False)"
    "map_of ?raw ''enable_learning'' = Some (GBool False)" "map_of ?raw ''enable_integration_testing'' = Some (GBool False)"
    "map_of ?raw ''check_ci'' = Some (GBool False)" "map_of ?raw ''max_coding_iterations'' = Some (GInt (i_max_iterations c))"
    "map_of ?raw ''agent_timeout_seconds'' = Some (GInt (i_timeout c))"
    by (simp_all add: to_execution_raw_def)
  have look: "mget m n = fst (decode t z (json_trip v))" "snd (decode t z (json_trip v))"
    if "(n, t, z) \<in> set (execution_fields genv)" "map_of ?raw n = Some v" for n t z v
    using mget_fields [OF execution_names(2) that(1)] ok that by (auto simp: m' fields_ok_def list_all_iff)
  have mem: "(''enable_issue_advisor'', JBool, GBool True) \<in> set (execution_fields genv)" "(''enable_replanning'', JBool, GBool True) \<in> set (execution_fields genv)"
    "(''enable_learning'', JBool, GBool False) \<in> set (execution_fields genv)" "(''enable_integration_testing'', JBool, GBool True) \<in> set (execution_fields genv)"
    "(''check_ci'', JBool, GBool True) \<in> set (execution_fields genv)" "(''max_coding_iterations'', JInt, GInt 5) \<in> set (execution_fields genv)"
    "(''agent_timeout_seconds'', JInt, GInt 2700) \<in> set (execution_fields genv)"
    by (simp_all add: execution_fields_def)
  have bools: "mget m ''enable_issue_advisor'' = GBool False" "mget m ''enable_replanning'' = GBool False"
    "mget m ''enable_learning'' = GBool False" "mget m ''enable_integration_testing'' = GBool False" "mget m ''check_ci'' = GBool False"
    using look(1) mem vals by (simp_all add: decode.simps)
  have ints: "mget m ''max_coding_iterations'' = GInt (i_max_iterations c)" "mget m ''agent_timeout_seconds'' = GInt (i_timeout c)"
    using look mem vals decode_int_back by metis+
  show ?thesis using x bools ints by (auto simp: execution_config_of_def Let_def as_bool_def as_int_def)
qed

section \<open>Witnesses\<close>

definition no_env :: getenv where
  "no_env k = []"

definition one_repo :: gmap where
  "one_repo = [(''repo_url'', GStr ''https://h/app''), (''max_replans'', GInt 4)]"

theorem load_build_config_repos_witness:
  "\<exists>c. load_build_config no_env one_repo = Inr c \<and> b_repos c = [shorthand_repo ''https://h/app''] \<and>
    primary_repo c = Some (shorthand_repo ''https://h/app'') \<and> b_repo_url c = ''https://h/app''"
proof -
  have lower: "lower_keys (map fst one_repo)" "\<forall>n \<in> set (map fst (build_fields no_env)). to_lower n = n"
    by (simp_all add: build_fields_def one_repo_def lower_keys_def to_lower_def)
  have "fields_ok one_repo (build_fields no_env)" "set (map fst one_repo) \<subseteq> set (map fst (build_fields no_env))"
    by (simp_all add: build_fields_def fields_ok_def one_repo_def codec int64_def del: json_trip.simps)
  then have "strict_decode (JObj (build_fields no_env)) one_repo = Some (over_defaults one_repo (build_fields no_env))"
    by (simp add: strict_decode_fields [OF lower])
  moreover have dist: "distinct (map fst (build_fields no_env))" by (simp add: build_fields_def)
  have "(''repo_url'', JString, GStr []) \<in> set (build_fields no_env)" "(''repos'', JList j_repo_spec, GList []) \<in> set (build_fields no_env)" "(''models'', JDictOf JString, GNil) \<in> set (build_fields no_env)"
    by (simp_all add: build_fields_def)
  then have "mget (over_defaults one_repo (build_fields no_env)) ''repo_url'' = GStr ''https://h/app''" "mget (over_defaults one_repo (build_fields no_env)) ''repos'' = GList []"
    "mget (over_defaults one_repo (build_fields no_env)) ''models'' = GNil"
    using mget_fields [OF dist, of _ _ _ one_repo] by (simp_all add: one_repo_def codec del: json_trip.simps)
  then have vals: "b_repo_url (build_config_of (over_defaults one_repo (build_fields no_env))) = ''https://h/app''"
    "b_repos (build_config_of (over_defaults one_repo (build_fields no_env))) = []" "b_models (build_config_of (over_defaults one_repo (build_fields no_env))) = None"
    by (simp_all add: build_config_of_def Let_def as_string_def obj_list_def dict_list_def models_of_def)
  moreover have "reject_legacy_config_keys one_repo = None"
    by (simp add: reject_legacy_config_keys_def legacy_hits_def legacy_top_level_def role_model_pairs_def one_repo_def mget_def lookup_def_def)
  moreover have "validate_repo_spec (shorthand_repo ''https://h/app'') = None"
    by (simp add: validate_repo_spec_def shorthand_repo_def has_prefix_def)
  ultimately have c: "load_build_config no_env one_repo =
      Inr ((build_config_of (over_defaults one_repo (build_fields no_env)))\<lparr>b_repos := [shorthand_repo ''https://h/app'']\<rparr>)"
    by (simp add: load_build_config_def normalize_repos_def validate_flat_models_def)
  from load_build_config_repos [OF c] c vals show ?thesis by (auto split: if_splits)
qed

text \<open>The default build configuration, as \<open>LoadBuildConfig\<close> gives it for an empty map.\<close>

definition default_build :: build_config where
  "default_build = build_config_of (as_map (zero_of (JObj (build_fields no_env))))"

theorem execution_config_roundtrip_witness:
  "\<exists>x. load_execution_config no_env (to_execution_config_dict default_build) = Inr x \<and> c_max_retries x = 2 \<and> c_max_replans x = 2"
proof -
  have "ints_ok default_build" by code_simp
  moreover have "case resolve_runtime_models no_env (effective_runtime default_build) (b_models default_build) None of Inr r \<Rightarrow> True | Inl e \<Rightarrow> False"
    by code_simp
  then obtain resolved where "resolve_runtime_models no_env (effective_runtime default_build) (b_models default_build) None = Inr resolved"
    by (auto split: sum.splits)
  ultimately have "load_execution_config no_env (to_execution_config_dict default_build) = Inr (execution_view default_build resolved)"
    by (rule execution_config_roundtrip)
  moreover have "b_max_retries default_build = 2" "b_max_replans default_build = 2" by code_simp+
  ultimately show ?thesis by (simp add: execution_view_def)
qed

definition default_issue :: issue_config where
  "default_issue = \<lparr>i_runtime = ''claude_code'', i_models = None, i_max_iterations = 3, i_agent_max_turns = 50, i_timeout = 1800,
     i_permission_mode = [], i_verify = True, i_enable_pr = False, i_pr_base = [], i_branch_prefix = ''issue/'',
     i_keep_worktree = False\<rparr>"

lemma claude_resolves: obtains r where "resolve_runtime_models no_env ''claude_code'' None None = Inr r"
proof -
  have "runtime_base_models ''claude_code'' \<noteq> None" by code_simp
  with that show ?thesis by (force simp: resolve_runtime_models_def Let_def validate_flat_models_def split: option.splits)
qed

lemma default_issue_executes:
  "\<exists>x. load_execution_config no_env (to_execution_raw default_issue) = Inr x \<and> \<not> c_enable_advisor x \<and> c_max_iterations x = 3"
proof -
  have raw: "i_models default_issue = None"
    and ints: "int64 (i_max_iterations default_issue)" "int64 (i_agent_max_turns default_issue)" "int64 (i_timeout default_issue)"
    and rt: "i_runtime default_issue = ''claude_code''" and three: "i_max_iterations default_issue = 3"
    by (simp_all add: default_issue_def int64_def)
  have "fields_ok (to_execution_raw default_issue) (execution_fields no_env)" "set (map fst (to_execution_raw default_issue)) \<subseteq> set (map fst (execution_fields no_env))"
    using ints raw by (simp_all add: execution_fields_def fields_ok_def to_execution_raw_def codec del: json_trip.simps)
  then have dec: "strict_decode (JObj (execution_fields no_env)) (to_execution_raw default_issue) = Some (over_defaults (to_execution_raw default_issue) (execution_fields no_env))"
    by (simp add: strict_decode_fields [OF raw_lower execution_names(1)])
  let ?c = "execution_config_of (over_defaults (to_execution_raw default_issue) (execution_fields no_env))"
  have "(''models'', JDictOf JString, GNil) \<in> set (execution_fields no_env)" "(''runtime'', JString, GStr (default_runtime no_env)) \<in> set (execution_fields no_env)"
    by (simp_all add: execution_fields_def)
  moreover have "map_of (to_execution_raw default_issue) ''models'' = None"
    "map_of (to_execution_raw default_issue) ''runtime'' = Some (GStr ''claude_code'')"
    using raw rt by (simp_all add: to_execution_raw_def)
  ultimately have "mget (over_defaults (to_execution_raw default_issue) (execution_fields no_env)) ''models'' = GNil"
    "mget (over_defaults (to_execution_raw default_issue) (execution_fields no_env)) ''runtime'' = GStr ''claude_code''"
    by (simp_all add: mget_fields [OF execution_names(2)] codec del: json_trip.simps)
  then have "c_runtime ?c = ''claude_code''" "c_overrides ?c = None"
    by (simp_all add: execution_config_of_def Let_def as_string_def models_of_def)
  moreover obtain r where "resolve_runtime_models no_env ''claude_code'' None None = Inr r" by (rule claude_resolves)
  moreover have "\<not> list_ex (\<lambda>k. k \<in> set (map fst legacy_top_level)) (map fst (to_execution_raw default_issue))"
    using raw by (simp add: to_execution_raw_def legacy_top_level_def role_model_pairs_def)
  then have "legacy_hits (to_execution_raw default_issue) = []" by (rule no_legacy_hits)
  then have "reject_legacy_config_keys (to_execution_raw default_issue) = None"
    using raw by (simp add: reject_legacy_config_keys_def to_execution_raw_def mget_def lookup_def_def)
  ultimately have x: "load_execution_config no_env (to_execution_raw default_issue) = Inr (?c\<lparr>c_models := r\<rparr>)"
    using dec by (simp add: load_execution_config_def Let_def)
  show ?thesis using issue_build_switches_off [OF x] three by (intro exI [of _ "?c\<lparr>c_models := r\<rparr>"] conjI x) simp_all
qed

end
