(* ===== verification/PlainKeys.thy ===== *)
theory PlainKeys
  imports Codec
begin

text \<open>
  Decoding maps whose keys are distinct and in lower case: then a field is decoded from the entry of
  its name, although the decoder compares keys up to case.
\<close>

section \<open>Plain keys\<close>

text \<open>The keys of a reply: distinct, as in every Go map, and in lower case, as in the schemas.\<close>

definition plain_keys :: "gmap \<Rightarrow> bool" where
  "plain_keys m \<longleftrightarrow> distinct (map fst m) \<and> (\<forall>k \<in> set (map fst m). to_lower k = k)"

lemma plain_keys_lower: "plain_keys m \<Longrightarrow> distinct (map (to_lower \<circ> fst) m)"
  by (induction m) (auto simp: plain_keys_def)

lemma json_field_plain:
  assumes "plain_keys m" and "to_lower n = n"
  shows "json_field (json_map m) n = map_option json_trip (map_of m n)"
proof (cases "map_of m n")
  case None
  have "to_lower k \<noteq> n" if "(k, v) \<in> set (json_map m)" for k v
  proof -
    have "k \<in> set (map fst m)" using that by (force simp: json_map_def)
    then show ?thesis using assms(1) None by (auto simp: plain_keys_def map_of_eq_None_iff)
  qed
  then have "filter (\<lambda>(k, v). to_lower k = to_lower n) (sort_key fst (json_map m)) = []"
    using assms(2) by (auto simp: filter_empty_conv)
  with None show ?thesis by (simp add: json_field_def)
next
  case (Some v)
  then have "map_of (json_map m) n = Some (json_trip v)" by (simp add: map_of_json_map)
  then have "(n, json_trip v) \<in> set (json_map m)" by (rule map_of_SomeD)
  moreover have "distinct (map (to_lower \<circ> fst) (json_map m))" using plain_keys_lower [OF assms(1)] by simp
  ultimately show ?thesis using Some json_field_unique by simp
qed

lemma plain_keys_mset: "plain_keys m \<Longrightarrow> to_lower k = k \<Longrightarrow> plain_keys (mset m k v)"
  by (auto simp: plain_keys_def mset_def dom_update distinct_update)

lemma decode_obj_field:
  assumes dist: "distinct (map fst fs)" and mem: "(n, t, z) \<in> set fs" and dec: "decode (JObj fs) d (GMap m) = (v, True)"
  shows "mget (as_map v) n = (case json_field m n of None \<Rightarrow> z | Some x \<Rightarrow> fst (decode t z x))"
    and "json_field m n = Some x \<Longrightarrow> snd (decode t z x)"
proof -
  define f where "f = (\<lambda>(n, t, z). (n, case json_field m n of None \<Rightarrow> z | Some x \<Rightarrow> fst (decode t z x)))"
  have v: "v = GMap (map f fs)"
    and ok: "\<forall>(n, t, z) \<in> set fs. case json_field m n of None \<Rightarrow> True | Some x \<Rightarrow> snd (decode t z x)"
    using dec by (simp_all add: decode.simps f_def)
  have keys: "map fst (map f fs) = map fst fs" by (simp add: f_def split_beta comp_def)
  have "distinct (map fst (map f fs))" unfolding keys by (rule dist)
  moreover have "f (n, t, z) \<in> set (map f fs)" using mem by (metis image_eqI set_map)
  ultimately have "map_of (map f fs) n = Some (case json_field m n of None \<Rightarrow> z | Some x \<Rightarrow> fst (decode t z x))"
    unfolding f_def by (simp only: prod.case map_of_is_SomeI)
  then show "mget (as_map v) n = (case json_field m n of None \<Rightarrow> z | Some x \<Rightarrow> fst (decode t z x))"
    by (simp add: v as_map_def mget_def lookup_def_def)
  assume "json_field m n = Some x"
  with bspec [OF ok mem] show "snd (decode t z x)" by simp
qed

lemma decode_string_text: "snd (decode JString (GStr []) (json_trip x)) \<Longrightarrow> fst (decode JString (GStr []) (json_trip x)) = GStr (as_string x)"
  by (cases x) (auto simp: decode.simps json_trip.simps as_string_def split: prod.splits)

lemma decode_texts:
  assumes "snd (decode (JSlice JString) GNil (json_trip x))"
  shows "strs_of (json_trip (fst (decode (JSlice JString) GNil (json_trip x)))) = strs_of x"
proof (cases x)
  case (GList vs)
  have "fst (decode JString (GStr []) (json_trip v)) = GStr (as_string v)" if "v \<in> set vs" for v
    using assms that GList by (intro decode_string_text) (simp add: decode.simps)
  then show ?thesis using GList by (simp add: decode.simps strs_of_def as_string_slice_def comp_def)
next
  case (GMaps ms)
  then show ?thesis using assms by (cases ms) (simp_all add: decode.simps strs_of_def as_string_slice_def)
qed (use assms in \<open>auto simp: decode.simps json_trip.simps strs_of_def as_string_slice_def comp_def split: prod.splits\<close>)

text \<open>Decoding a reply with plain keys, without comparing keys up to case.\<close>

fun decode_with :: "(string \<Rightarrow> gval option) \<Rightarrow> (string \<times> jtype \<times> gval) list \<Rightarrow> gmap \<times> bool" where
  "decode_with look [] = ([], True)"
| "decode_with look ((n, t, z) # fs) =
     (let (v, b) = (case look n of None \<Rightarrow> (z, True) | Some x \<Rightarrow> decode t z x); (m, ok) = decode_with look fs
      in ((n, v) # m, b \<and> ok))"

lemma decode_with:
  "decode_with look fs = (map (\<lambda>(n, t, z). (n, case look n of None \<Rightarrow> z | Some x \<Rightarrow> fst (decode t z x))) fs,
     \<forall>(n, t, z) \<in> set fs. case look n of None \<Rightarrow> True | Some x \<Rightarrow> snd (decode t z x))"
  by (induction look fs rule: decode_with.induct) (auto split: option.splits prod.splits)

lemma decode_obj_with: "decode (JObj fs) d (GMap m) = (case decode_with (json_field m) fs of (v, ok) \<Rightarrow> (GMap v, ok))"
  by (simp add: decode_with decode.simps)

lemma decode_with_cong: "(\<And>x. x \<in> set fs \<Longrightarrow> look (fst x) = look' (fst x)) \<Longrightarrow> decode_with look fs = decode_with look' fs"
proof (induction fs)
  case (Cons x fs)
  obtain n t z where x: "x = (n, t, z)" by (cases x) auto
  have "look n = look' n" using Cons.prems [of x] by (simp add: x)
  with Cons show ?case by (simp add: x)
qed simp

lemma decode_plain:
  assumes "plain_keys m" and "list_all (\<lambda>x. to_lower (fst x) = fst x) fs"
  shows "decode (JObj fs) d (GMap (json_map m)) =
    (case decode_with (\<lambda>n. map_option json_trip (map_of m n)) fs of (v, ok) \<Rightarrow> (GMap v, ok))"
proof -
  have "decode_with (json_field (json_map m)) fs = decode_with (\<lambda>n. map_option json_trip (map_of m n)) fs"
    using assms by (intro decode_with_cong json_field_plain) (auto simp: list_all_iff)
  then show ?thesis by (simp add: decode_obj_with)
qed

lemma map_to_struct_plain:
  assumes "plain_keys m" and "list_all (\<lambda>x. to_lower (fst x) = fst x) fs"
  shows "map_to_struct (JObj fs) m = decode_with (\<lambda>n. map_option json_trip (map_of m n)) fs"
  using decode_plain [OF assms] by (simp add: map_to_struct_def as_map_def split: prod.splits)

definition fields_of :: "jtype \<Rightarrow> (string \<times> jtype \<times> gval) list" where
  "fields_of t = (case t of JObj fs \<Rightarrow> fs | _ \<Rightarrow> [])"

definition is_object :: "jtype \<Rightarrow> bool" where
  "is_object t = (case t of JObj fs \<Rightarrow> True | _ \<Rightarrow> False)"

definition decoded :: "jtype \<Rightarrow> gmap \<Rightarrow> gmap" where
  "decoded t m = fst (decode_with (\<lambda>n. map_option json_trip (map_of m n)) (fields_of t))"

definition decodes :: "jtype \<Rightarrow> string list \<Rightarrow> gmap \<Rightarrow> bool" where
  "decodes t required m \<longleftrightarrow> is_object t \<and> plain_keys m \<and> list_all (\<lambda>x. to_lower (fst x) = fst x) (fields_of t) \<and>
     list_all (\<lambda>k. map_of m k \<noteq> None) required \<and> snd (decode_with (\<lambda>n. map_option json_trip (map_of m n)) (fields_of t))"

end
