(* ===== verification/ExecuteCorrect.thy ===== *)
theory ExecuteCorrect
  imports BuildRun Execute ConfigCorrect PlainKeys DagCorrect HostDemo
begin

text \<open>
  What the orchestrators hand to the engine arrives there: the configuration of a build reaches the
  run of the DAG unchanged, and a build that is resumed goes on from the state its checkpoint holds.
\<close>

section \<open>The request of \<open>execute\<close>\<close>

definition execute_fields :: "(string \<times> jtype \<times> gval) list" where
  "execute_fields = fields_of j_execute_input"

lemma execute_fields: "j_execute_input = JObj execute_fields" "list_all (\<lambda>x. to_lower (fst x) = fst x) execute_fields"
  by (simp_all add: execute_fields_def fields_of_def j_execute_input_def fld_def to_lower_def)

lemma decode_dict_field: "decode JDict d (GMap m) = (GMap m, True)" "decode JDict d GNil = (GNil, True)"
  by (simp_all add: decode.simps)

lemmas request_decoding = decode_dict_field decode_str json_trip_GMap execute_fields_def fields_of_def j_execute_input_def fld_def
  as_map_def as_bool_def map_option_of_def mget_def lookup_def_def

lemma load_execution_config_trip [simp]: "load_execution_config genv (json_map raw) = load_execution_config genv raw"
proof -
  have "(case mget (json_map raw) ''models'' of GMap m \<Rightarrow> map fst m | _ \<Rightarrow> []) = (case mget raw ''models'' of GMap m \<Rightarrow> map fst m | _ \<Rightarrow> [])"
    by (cases "map_of raw ''models''")
      (auto simp: mget_def lookup_def_def map_of_json_map json_trip.simps comp_def split_beta split: gval.splits elim!: json_trip.elims)
  moreover have "legacy_hits (json_map raw) = legacy_hits raw"
    by (simp add: legacy_hits_def map_of_json_map)
  ultimately have "reject_legacy_config_keys (json_map raw) = reject_legacy_config_keys raw"
    by (simp only: reject_legacy_config_keys_def)
  moreover have "known_keys t (json_map raw) = known_keys t raw" for t
    by (simp add: known_keys_def json_map_def list_all_iff split_beta)
  then have "strict_decode t (json_map raw) = strict_decode t raw" for t
    by (simp add: strict_decode_def)
  ultimately show ?thesis unfolding load_execution_config_def by (simp only:)
qed

section \<open>From a build to the engine\<close>

definition build_request :: "build_config \<Rightarrow> gmap \<Rightarrow> string \<Rightarrow> gmap option \<Rightarrow> string \<Rightarrow> gmap option \<Rightarrow> execute_input" where
  "build_request cfg plan repo git_config build_id manifest =
     \<lparr>x_plan = json_map plan, x_repo = repo, x_target = b_execute_target cfg, x_config = json_map (to_execution_config_dict cfg),
      x_git = map_option json_map git_config, x_resume = False, x_build_id = build_id, x_manifest = map_option json_map manifest\<rparr>"

lemma execute_args_request:
  "execute_input_of (execute_args cfg plan repo (opt_map git_config) build_id (opt_map manifest)) =
     build_request cfg plan repo git_config build_id manifest"
proof -
  let ?args = "execute_args cfg plan repo (opt_map git_config) build_id (opt_map manifest)"
  have "plain_keys ?args" by (simp add: plain_keys_def execute_args_def to_lower_def)
  then have *: "map_to_struct j_execute_input ?args = decode_with (\<lambda>n. map_option json_trip (map_of ?args n)) execute_fields"
    unfolding execute_fields(1) using execute_fields(2) by (rule map_to_struct_plain)
  show ?thesis unfolding execute_input_of_def *
    by (cases git_config; cases manifest)
      (simp_all add: request_decoding execute_args_def opt_map_def build_request_def Let_def json_map_def)
qed

text \<open>
  C7: The configuration of a build governs the run of the engine: \<open>ExecuteHandler\<close>, given the request
  \<open>Build\<close> makes, runs the DAG on the build's plan with every limit, flag and timeout of the build
  configuration and the models it resolves to, under the build's id and repositories, afresh; the
  external coder is the build's target, or the node's default one when the build names none.
\<close>

theorem build_config_reaches_engine:
  assumes "ints_ok cfg" and "resolve_runtime_models (env_var h) (effective_runtime cfg) (b_models cfg) None = Inr resolved"
  shows "execute_handler h env g (execute_args cfg plan repo (opt_map git_config) build_id (opt_map manifest)) w =
    map_option (\<lambda>(r, w'). (execute_end_of r, w'))
      (run_dag (execute_engine h env g (execution_view cfg resolved) (build_request cfg plan repo git_config build_id manifest))
        \<lparr>o_git = map_option json_map git_config, o_resume = False, o_build_id = build_id,
         o_manifest = map_option json_map manifest, o_level_complete = (\<lambda>n w. w)\<rparr> (json_map plan) repo w) \<and>
    coder_target h (build_request cfg plan repo git_config build_id manifest) =
      (if b_execute_target cfg = [] then default_target h else b_execute_target cfg)"
  by (simp add: execute_handler_def execute_args_request Let_def build_request_def coder_target_def execute_options_def
      execution_config_roundtrip [OF assms])

section \<open>Resuming a build\<close>

lemma checkpoint_dir: "map_str_or (json_map (dag_state_json s)) ''artifacts_dir'' base = d_artifacts_dir s"
  by (simp add: map_str_or_def mget_def lookup_def_def map_of_json_map dag_state_json_def)

lemma resume_args_request:
  assumes "i = execute_input_of (resume_args input (json_map (dag_state_json s)) base)"
  shows "x_resume i" "get_str (x_plan i) ''artifacts_dir'' [] = d_artifacts_dir s" "x_build_id i = []" "x_manifest i = None"
proof -
  let ?args = "resume_args input (json_map (dag_state_json s)) base"
  have "plain_keys ?args" by (simp add: plain_keys_def resume_args_def to_lower_def)
  then have *: "map_to_struct j_execute_input ?args = decode_with (\<lambda>n. map_option json_trip (map_of ?args n)) execute_fields"
    unfolding execute_fields(1) using execute_fields(2) by (rule map_to_struct_plain)
  show "x_resume i" "x_build_id i = []" "x_manifest i = None"
    unfolding assms execute_input_of_def *
    by (simp_all add: request_decoding resume_args_def Let_def decode.simps split: prod.split)
  have "x_plan i = json_map (resume_plan (json_map (dag_state_json s)) base)"
    unfolding assms execute_input_of_def *
    by (simp add: request_decoding resume_args_def Let_def json_map_def split: prod.split)
  then show "get_str (x_plan i) ''artifacts_dir'' [] = d_artifacts_dir s"
    by (simp add: get_str_def mget_def lookup_def_def map_of_json_map resume_plan_def checkpoint_dir)
qed

text \<open>
  C8: A build that is resumed goes on where it was: when the engine saved its state under the
  artifacts directory of the request, \<open>ResumeBuildHandler\<close> finds the file and calls \<open>execute\<close>, and
  \<open>ExecuteHandler\<close> starts a run for these arguments from the saved state, every field as it was up
  to what JSON does to the dictionaries inside. The run gets no build id and no manifest of its own.
\<close>

theorem resume_build_continues:
  assumes "d_artifacts_dir s \<noteq> []" and "writable env w (checkpoint_path s)" and "state_ok s"
    and "resume_base h input = d_artifacts_dir s"
  shows "\<exists>args. resume_build h input (save_checkpoint env s w) = call_raw h ''execute'' args (save_checkpoint env s w) \<and>
    start_run cfg (execute_options (execute_input_of args)) (x_plan (execute_input_of args)) (x_repo (execute_input_of args))
      (save_checkpoint env s w) = trip_state s \<and>
    x_build_id (execute_input_of args) = [] \<and> x_manifest (execute_input_of args) = None"
proof -
  let ?args = "resume_args input (json_map (dag_state_json s)) (d_artifacts_dir s)" let ?w = "save_checkpoint env s w"
  have "files ?w (checkpoint_file (d_artifacts_dir s)) = Some (json_map (dag_state_json s))"
    using assms(1,2) by (simp add: save_checkpoint_def checkpoint_path_def checkpoint_file_ne files_write_json)
  then have "resume_build h input ?w = call_raw h ''execute'' ?args ?w" by (simp add: resume_build_def assms(4) Let_def)
  moreover note i = resume_args_request [OF refl, of input s "d_artifacts_dir s"]
  have "start_run cfg (execute_options (execute_input_of ?args)) (x_plan (execute_input_of ?args)) repo ?w = trip_state s" for repo
    using load_after_save [OF assms(1-3)] i assms(1) by (simp add: start_run_def Let_def execute_options_def)
  ultimately show ?thesis using i(3,4) by blast
qed

section \<open>Examples\<close>

definition still_host :: "unit host" where
  "still_host =
     \<lparr>app_call = (\<lambda>target args w. (Inr [], w)), node_id = ''swe-planner'', default_target = ''pro.code'', env_var = no_env, work_dir = ''/w'',
      run_cmd = (\<lambda>dir prog args w. (([], [], 0), w)), read_file = (\<lambda>p w. Absent), write_file = (\<lambda>p s w. (None, w)),
      append_file = (\<lambda>p s w. w), remove_file = (\<lambda>p w. (None, w)), make_dirs = (\<lambda>p w. (None, w)), remove_tree = (\<lambda>p w. w),
      path_exists = (\<lambda>p w. False), is_directory = (\<lambda>p w. False), fresh_id = (\<lambda>w. (''0001'', w)), pause = (\<lambda>t w. w)\<rparr>"

theorem build_config_reaches_engine_witness:
  "\<exists>resolved. execute_handler still_host demo_env demo_git (execute_args default_build [] ''/r'' (opt_map None) ''0001'' (opt_map None)) demo_world =
    map_option (\<lambda>(r, w'). (execute_end_of r, w'))
      (run_dag (execute_engine still_host demo_env demo_git (execution_view default_build resolved) (build_request default_build [] ''/r'' None ''0001'' None))
        \<lparr>o_git = None, o_resume = False, o_build_id = ''0001'', o_manifest = None, o_level_complete = (\<lambda>n w. w)\<rparr> (json_map []) ''/r'' demo_world) \<and>
    coder_target still_host (build_request default_build [] ''/r'' None ''0001'' None) = ''pro.code''"
proof -
  have "ints_ok default_build" by code_simp
  moreover have "case resolve_runtime_models no_env (effective_runtime default_build) (b_models default_build) None of Inr r \<Rightarrow> True | Inl e \<Rightarrow> False"
    by code_simp
  then obtain resolved where
    r: "resolve_runtime_models (env_var still_host) (effective_runtime default_build) (b_models default_build) None = Inr resolved"
    by (auto simp: still_host_def split: sum.splits)
  moreover have "b_execute_target default_build = []" "default_target still_host = ''pro.code''"
    by code_simp (simp add: still_host_def)
  ultimately show ?thesis
    using build_config_reaches_engine [of default_build still_host resolved demo_env demo_git "[]" "''/r''" None "''0001''" None demo_world]
    by auto
qed

definition kept_state :: dag_state where
  "kept_state = saved_state\<lparr>d_artifacts_dir := ''/r/.artifacts''\<rparr>"

theorem resume_build_continues_witness:
  "\<exists>args. resume_build still_host [(''repo_path'', GStr ''/r'')] (save_checkpoint demo_env kept_state demo_world) =
      call_raw still_host ''execute'' args (save_checkpoint demo_env kept_state demo_world) \<and>
    start_run (default_execution_config no_env) (execute_options (execute_input_of args) :: unit run_options) (x_plan (execute_input_of args))
      (x_repo (execute_input_of args)) (save_checkpoint demo_env kept_state demo_world) = trip_state kept_state"
proof -
  have "state_ok kept_state"
    by (simp add: state_ok_def kept_state_def saved_state_def zero_state_def result_ok_def zero_result_def int64_def)
  moreover have "d_artifacts_dir kept_state = ''/r/.artifacts''" by (simp add: kept_state_def)
  moreover have "writable demo_env demo_world (checkpoint_path kept_state)" by (simp add: demo_env_def)
  moreover have "resume_base still_host [(''repo_path'', GStr ''/r'')] = ''/r/.artifacts''" by code_simp
  ultimately show ?thesis
    using resume_build_continues [of kept_state demo_env demo_world still_host "[(''repo_path'', GStr ''/r'')]" "default_execution_config no_env"]
    by auto
qed

end
