(* ===== verification/ResolveRun.thy ===== *)
theory ResolveRun
  imports CiGate
begin

text \<open>
  Updating an existing pull request, \<open>ResolveHandler\<close> of \<open>internal/orch/resolve.go\<close>: clone, check out the
  head branch, merge the base, let the resolver work, make sure its work is pushed (also when its
  report is unusable), watch CI, answer the addressed comments. Notes are left out.
\<close>

section \<open>Input and values\<close>

record resolve_input =
  ri_url :: string
  ri_number :: int
  ri_repo_url :: string
  ri_head :: string
  ri_base :: string
  ri_goal :: string
  ri_context :: string
  ri_config :: gmap

definition j_resolve_input :: jtype where
  "j_resolve_input = JObj
     [fld ''pr_url'' JString, fld ''pr_number'' JInt, fld ''repo_url'' JString, fld ''head_branch'' JString,
      (''base_branch'', JString, GStr ''main''), fld ''goal'' JString, fld ''additional_context'' JString, fld ''config'' JDict]"

definition resolve_input_of :: "gmap \<Rightarrow> resolve_input" where
  "resolve_input_of input =
     (let m = fst (map_to_struct j_resolve_input input); str = (\<lambda>k. as_string (mget m k))
      in \<lparr>ri_url = str ''pr_url'', ri_number = as_int (mget m ''pr_number''), ri_repo_url = str ''repo_url'',
          ri_head = str ''head_branch'', ri_base = str ''base_branch'', ri_goal = str ''goal'', ri_context = str ''additional_context'',
          ri_config = as_map (mget m ''config'')\<rparr>)"

definition invalid_report :: string where
  "invalid_report = ''PR resolver agent failed to produce a valid result.''"

definition report_invalid :: "gmap \<Rightarrow> bool" where
  "report_invalid r \<longleftrightarrow> map_str_or r ''error_message'' [] = invalid_report \<or> map_str_or r ''summary'' [] = invalid_report"

text \<open>\<open>pushVerdict\<close>: whether the remote branch moved, and whether to this workspace's head.\<close>

definition classify_advance :: "string \<Rightarrow> string \<Rightarrow> string \<Rightarrow> bool \<times> bool" where
  "classify_advance before after local =
     (if before = [] \<or> after = [] \<or> before = after then (False, False) else (True, local \<noteq> [] \<and> local = after))"

definition resolver_permission_mode :: "string \<Rightarrow> string \<Rightarrow> string" where
  "resolver_permission_mode configured provider =
     (if configured \<noteq> [] then configured else if provider = ''claude'' then ''auto'' else [])"

definition non_empty_lines :: "string \<Rightarrow> string list" where
  "non_empty_lines s = filter (\<lambda>l. l \<noteq> []) (map trim_space (split_lines [] s))"

text \<open>The first of \<open>strings.Fields\<close>, or the empty string.\<close>

fun until_space :: "string \<Rightarrow> string" where
  "until_space [] = []"
| "until_space (c # cs) = (if space_len white_space (c # cs) > 0 then [] else c # until_space cs)"

definition first_field :: "string \<Rightarrow> string" where
  "first_field s = until_space (trim_space s)"

definition truncate_note :: "string \<Rightarrow> string" where
  "truncate_note note = (let s = trim_space note in if s = [] then ''Addressed.'' else first_n s 500)"

section \<open>Questions to git\<close>

definition remote_branch_sha :: "'x host \<Rightarrow> string \<Rightarrow> string \<Rightarrow> 'x world \<Rightarrow> string \<times> 'x world" where
  "remote_branch_sha h repo branch w =
     (let ((out, err, code), w1) = git h repo [''ls-remote'', ''origin'', ''refs/heads/'' @ branch] w
      in (if code \<noteq> 0 then [] else first_field out, w1))"

definition local_head_sha :: "'x host \<Rightarrow> string \<Rightarrow> 'x world \<Rightarrow> string \<times> 'x world" where
  "local_head_sha h repo w =
     (let ((out, err, code), w1) = git h repo [''rev-parse'', ''HEAD''] w in (if code \<noteq> 0 then [] else trim_space out, w1))"

definition git_lines :: "'x host \<Rightarrow> string \<Rightarrow> string list \<Rightarrow> 'x world \<Rightarrow> string list \<times> 'x world" where
  "git_lines h repo args w =
     (let ((out, err, code), w1) = git h repo args w in (if code \<noteq> 0 then [] else non_empty_lines out, w1))"

definition remote_commits :: "'x host \<Rightarrow> string \<Rightarrow> string \<Rightarrow> string \<Rightarrow> 'x world \<Rightarrow> string list \<times> 'x world" where
  "remote_commits h repo before after w = git_lines h repo [''rev-list'', ''--reverse'', before @ ''..'' @ after] w"

definition remote_files :: "'x host \<Rightarrow> string \<Rightarrow> string \<Rightarrow> string \<Rightarrow> 'x world \<Rightarrow> string list \<times> 'x world" where
  "remote_files h repo before after w = git_lines h repo [''diff'', ''--name-only'', before, after] w"

definition attempt_base_merge :: "'x host \<Rightarrow> string \<Rightarrow> string \<Rightarrow> 'x world \<Rightarrow> (string \<times> string list) \<times> 'x world" where
  "attempt_base_merge h repo base w =
     (let (r1, w1) = git h repo [''fetch'', ''origin'', base] w
      in if exit_code r1 \<noteq> 0 then ((''skipped'', []), w1)
         else let (r2, w2) = git h repo [''merge-base'', ''--is-ancestor'', ''origin/'' @ base, ''HEAD''] w1
         in if exit_code r2 = 0 then ((''clean'', []), w2)
            else let (r3, w3) = git h repo [''merge'', ''--no-edit'', ''--no-ff'', ''origin/'' @ base] w2
            in if exit_code r3 = 0 then ((''merged'', []), w3)
               else let (r4, w4) = git h repo [''diff'', ''--name-only'', ''--diff-filter=U''] w3
                    in ((''conflict'', non_empty_lines (fst r4)), w4))"

section \<open>Clone and checkout\<close>

definition check_out_head :: "'x host \<Rightarrow> resolve_input \<Rightarrow> string \<Rightarrow> 'x world \<Rightarrow> string option \<times> 'x world" where
  "check_out_head h i repo w =
     (let (r1, w1) = clone_into h (ri_repo_url i) repo w
      in if exit_code r1 \<noteq> 0 then (Some (''git clone failed: '' @ trim_space (fst (snd r1))), w1)
         else let (r2, w2) = git h repo [''fetch'', ''origin'', ''pull/'' @ show_int (ri_number i) @ ''/head:'' @ ri_head i] w1;
                  (r3, w3) = (if exit_code r2 \<noteq> 0 then git h repo [''fetch'', ''origin'', ri_head i @ '':'' @ ri_head i] w2 else (r2, w2))
         in if exit_code r3 \<noteq> 0
            then (Some (''git fetch PR head failed: '' @ trim_space (fst (snd r2) @ [CHR 0x0A] @ fst (snd r3))), w3)
            else let (r4, w4) = git h repo [''checkout'', ri_head i] w3
            in if exit_code r4 \<noteq> 0 then (Some (''git checkout '' @ ri_head i @ '' failed: '' @ trim_space (fst (snd r4))), w4)
               else (None, git_each h repo
                 [[''config'', ''user.email'', first_non_empty (env_var h ''SWE_AF_GIT_EMAIL'') ''swe-af@users.noreply.github.com''],
                  [''config'', ''user.name'', first_non_empty (env_var h ''SWE_AF_GIT_NAME'') ''SWE-AF'']] w4))"

section \<open>The resolver and its push\<close>

definition resolver_model :: "(string \<times> string) list \<Rightarrow> string" where
  "resolver_model resolved =
     first_non_empty (lookup_def [] resolved ''ci_fixer_model'') (first_non_empty (lookup_def [] resolved ''coder_model'') ''sonnet'')"

definition resolver_args :: "gmap \<Rightarrow> resolve_input \<Rightarrow> build_config \<Rightarrow> (string \<times> string) list \<Rightarrow> string \<Rightarrow> string \<Rightarrow> string list \<Rightarrow> gmap" where
  "resolver_args input i cfg resolved repo merge_state conflicted =
     [(''repo_path'', GStr repo), (''pr_number'', GInt (ri_number i)), (''pr_url'', GStr (ri_url i)), (''head_branch'', GStr (ri_head i)),
      (''base_branch'', GStr (ri_base i)), (''merge_state'', GStr merge_state), (''conflicted_files'', GStrs conflicted),
      (''failed_checks'', GMaps (maps_of (mget input ''ci_failures''))),
      (''review_comments'', GMaps (maps_of (mget input ''review_comments''))), (''goal'', GStr (ri_goal i)),
      (''additional_context'', GStr (ri_context i)), (''model'', GStr (resolver_model resolved)),
      (''permission_mode'', GStr (resolver_permission_mode (b_permission_mode cfg) (build_ai_provider cfg))),
      (''ai_provider'', GStr (build_ai_provider cfg))]"

definition ensure_push :: "'x host \<Rightarrow> string \<Rightarrow> string \<Rightarrow> gmap \<Rightarrow> 'x world \<Rightarrow> (bool \<times> gmap) \<times> 'x world" where
  "ensure_push h repo head r w =
     (if \<not> orch_bool (mget r ''pushed'') \<and> orch_bool (mget r ''commit_shas'')
      then let (p, w1) = git h repo [''push'', ''origin'', head] w
           in if exit_code p = 0 then ((True, mset r ''pushed'' (GBool True)), w1) else ((False, r), w1)
      else ((orch_bool (mget r ''pushed''), r), w))"

definition describe_push :: "'x host \<Rightarrow> string \<Rightarrow> string \<Rightarrow> string \<Rightarrow> string \<Rightarrow> gmap \<Rightarrow> 'x world \<Rightarrow> gmap \<times> 'x world" where
  "describe_push h repo head before after r w =
     (let (f, w1) = git h repo [''fetch'', ''origin'', head] w;
          (r1, w2) = (if exit_code f = 0
            then let (commits, w2) = remote_commits h repo before after w1; (files, w3) = remote_files h repo before after w2
                 in (mset (mset r ''commit_shas'' (GStrs commits)) ''files_changed'' (GStrs files), w3)
            else (mset (mset (mset r ''commit_shas'' (GStrs [])) ''files_changed'' (GStrs [])) ''verification_partial'' (GBool True), w1))
      in (mset (mset r1 ''summary'' (GStr (''agent report invalid; verified this workspace'' @ [CHR 0x27] @ ''s work was pushed to '' @ head)))
            ''error_message'' (GStr ''agent report invalid; push verified against the remote, fix NOT verified''), w2))"

definition reconcile_report :: "'x host \<Rightarrow> string \<Rightarrow> string \<Rightarrow> string \<Rightarrow> bool \<times> gmap \<Rightarrow> 'x world \<Rightarrow> (bool \<times> gmap) \<times> 'x world" where
  "reconcile_report h repo head before pr w =
     (if \<not> report_invalid (snd pr) then (pr, w)
      else let r = mset (snd pr) ''report_invalid'' (GBool True);
               (after, w1) = remote_branch_sha h repo head w; (local, w2) = local_head_sha h repo w1;
               (advanced, attributed) = classify_advance before after local
           in if attributed
              then let (r1, w3) = describe_push h repo head before after (mset r ''pushed'' (GBool True)) w2 in ((True, r1), w3)
              else if advanced then ((fst pr, mset r ''remote_advanced'' (GBool True)), w2)
              else ((fst pr, r), w2))"

section \<open>Answers to review comments\<close>

definition resolve_mutation :: string where
  "resolve_mutation = ''mutation($id:ID!){resolveReviewThread(input:{threadId:$id})'' @ ''{thread{isResolved}}}''"

definition post_reply :: "'x host \<Rightarrow> string \<Rightarrow> int \<Rightarrow> int \<Rightarrow> string \<Rightarrow> 'x world \<Rightarrow> (bool \<times> string) \<times> 'x world" where
  "post_reply h repo number comment note w =
     (if comment = 0 then ((False, []), w)
      else let ((out, err, code), w1) = gh h repo [''api'', ''-X'', ''POST'',
             ''repos/:owner/:repo/pulls/'' @ show_int number @ ''/comments/'' @ show_int comment @ ''/replies'', ''-f'', ''body='' @ note] w
           in ((code = 0, if code = 0 then [] else first_n (trim_space err) 300), w1))"

definition resolve_thread :: "'x host \<Rightarrow> string \<Rightarrow> string \<Rightarrow> 'x world \<Rightarrow> (bool \<times> string) \<times> 'x world" where
  "resolve_thread h repo thread w =
     (if thread = [] then ((False, []), w)
      else let ((out, err, code), w1) = gh h repo [''api'', ''graphql'', ''-f'', ''query='' @ resolve_mutation, ''-f'', ''id='' @ thread] w
           in ((code = 0, if code = 0 then [] else first_n (trim_space err) 300), w1))"

fun post_thread_replies :: "'x host \<Rightarrow> string \<Rightarrow> int \<Rightarrow> gmap list \<Rightarrow> 'x world \<Rightarrow> gmap list \<times> 'x world" where
  "post_thread_replies h repo number [] w = ([], w)"
| "post_thread_replies h repo number (c # cs) w =
     (let comment = as_int (mget c ''comment_id''); thread = trim_space (map_str_or c ''thread_id'' []);
          ((replied, reply_error), w1) = post_reply h repo number comment (truncate_note (map_str_or c ''note'' [])) w;
          ((resolved, resolve_error), w2) = resolve_thread h repo thread w1;
          (rest, w3) = post_thread_replies h repo number cs w2
      in ([(''comment_id'', GInt comment), (''thread_id'', GStr thread), (''replied'', GBool replied), (''resolved'', GBool resolved),
           (''reply_error'', GStr reply_error), (''resolve_error'', GStr resolve_error)] # rest, w3))"

section \<open>\<open>ResolveHandler\<close>\<close>

type_synonym 'x ci_gate = "'x gate_request \<Rightarrow> 'x world \<Rightarrow> (go_error + gmap) \<times> 'x world"

definition resolve_gate :: "'x host \<Rightarrow> 'x ci_gate option \<Rightarrow> resolve_input \<Rightarrow> build_config \<Rightarrow> (string \<times> string) list \<Rightarrow> string \<Rightarrow> string
    \<Rightarrow> bool \<Rightarrow> 'x world \<Rightarrow> gmap option \<times> 'x world" where
  "resolve_gate h gate i cfg resolved repo sha pushed w =
     (if \<not> pushed \<or> \<not> b_check_ci cfg then (None, w)
      else case gate of
        None \<Rightarrow> (None, w)
      | Some run \<Rightarrow> (case run \<lparr>g_app = app_call h, g_node = node_id h, g_cfg = cfg, g_resolved = resolved, g_repo = repo, g_pr = ri_number i,
            g_url = ri_url i, g_integration = ri_head i, g_base = ri_base i, g_goal = ''Resolve PR #'' @ show_int (ri_number i),
            g_completed = [], g_sha = sha\<rparr> (if b_ci_grace cfg > 0 then pause h (b_ci_grace cfg, 0) w else w) of
          (Inl e, w1) \<Rightarrow> (None, w1)
        | (Inr m, w1) \<Rightarrow> (Some m, w1)))"

definition resolve_result :: "resolve_input \<Rightarrow> string \<Rightarrow> gmap \<Rightarrow> bool \<Rightarrow> gmap option \<Rightarrow> gmap list \<Rightarrow> gmap" where
  "resolve_result i merge_state r pushed ci replies =
     (let addressed = filter (\<lambda>c. orch_bool (mget c ''addressed'')) (maps_of (mget r ''addressed_comments''))
      in [(''pr_url'', GStr (ri_url i)), (''pr_number'', GInt (ri_number i)), (''head_branch'', GStr (ri_head i)),
          (''base_branch'', GStr (ri_base i)), (''merge_state'', GStr merge_state), (''resolve_result'', GMap r),
          (''ci_gate'', case ci of None \<Rightarrow> GNil | Some m \<Rightarrow> GMap m), (''thread_replies'', GMaps replies),
          (''summary'', GStr (''PR #'' @ show_int (ri_number i) @ '': merge='' @ merge_state @ '', '' @
             show_nat (length (str_list (mget r ''files_changed''))) @ '' file(s) changed, '' @ show_nat (length addressed) @ ''/'' @
             show_nat (length (maps_of (mget r ''addressed_comments''))) @ '' comment(s) addressed'' @
             (case ci of None \<Rightarrow> [] | Some m \<Rightarrow> '', CI='' @ map_str_or m ''final_status'' ''n/a''))),
          (''success'', GBool (orch_bool (mget r ''fixed'') \<and> pushed))])"

text \<open>From the resolver's answer on.\<close>

definition settle_resolution :: "'x host \<Rightarrow> 'x ci_gate option \<Rightarrow> resolve_input \<Rightarrow> build_config \<Rightarrow> (string \<times> string) list \<Rightarrow> string
    \<Rightarrow> string \<Rightarrow> string \<Rightarrow> gmap \<Rightarrow> 'x world \<Rightarrow> gmap \<times> 'x world" where
  "settle_resolution h gate i cfg resolved repo merge_state before r0 w =
     (let (pr1, w1) = ensure_push h repo (ri_head i) r0 w;
          ((pushed, r), w2) = reconcile_report h repo (ri_head i) before pr1 w1;
          (sha, w3) = local_head_sha h repo w2;
          (ci, w4) = resolve_gate h gate i cfg resolved repo sha pushed w3;
          (replies, w5) = post_thread_replies h repo (ri_number i)
            (filter (\<lambda>c. orch_bool (mget c ''addressed'')) (maps_of (mget r ''addressed_comments''))) w4
      in (resolve_result i merge_state r pushed ci replies, remove_tree h repo w5))"

definition resolve :: "'x host \<Rightarrow> 'x ci_gate option \<Rightarrow> gmap \<Rightarrow> 'x world \<Rightarrow> (go_error + gmap) \<times> 'x world" where
  "resolve h gate input w =
     (let i = resolve_input_of input
      in case load_build_config (env_var h) (ri_config i) of
           Inl e \<Rightarrow> (Inl (load_error_of e), w)
         | Inr cfg0 \<Rightarrow>
             let cfg = cfg0\<lparr>b_enable_pr := False\<rparr>
             in if ri_number i = 0 \<or> ri_head i = [] \<or> ri_repo_url i = [] \<or> ri_url i = []
                then (Inl (Plain ''resolve requires non-empty pr_url, pr_number, repo_url, head_branch''), w)
                else let (build_id, w1) = fresh_id h w;
                         repo = path_join [workspace_root (env_var h), derive_repo_name (ri_repo_url i) @ ''-resolve-'' @ build_id]
                in (case check_out_head h i repo w1 of
                      (Some e, w2) \<Rightarrow> (Inl (Plain e), w2)
                    | (None, w2) \<Rightarrow>
                        let ((merge_state, conflicted), w3) = attempt_base_merge h repo (ri_base i) w2
                        in (case resolved_models (env_var h) cfg of
                              Inl e \<Rightarrow> (Inl (Plain e), w3)
                            | Inr resolved \<Rightarrow>
                                let (before, w4) = remote_branch_sha h repo (ri_head i) w3
                                in (case call_node h ''run_pr_resolver'' (resolver_args input i cfg resolved repo merge_state conflicted)
                                        ''run_pr_resolver'' w4 of
                                      (Inl e, w5) \<Rightarrow> (Inl e, w5)
                                    | (Inr r, w5) \<Rightarrow>
                                        let (res, w6) = settle_resolution h gate i cfg resolved repo merge_state before r w5
                                        in (Inr res, w6)))))"

end
