(* ===== verification/ResolveCorrect.thy ===== *)
theory ResolveCorrect
  imports ResolveRun HostDemo ConfigCorrect
begin

text \<open>
  The verdict of a pull request resolution: success is reported exactly for work the agent says is
  fixed and that it says is pushed, or that the code pushed itself or saw on the remote branch.
\<close>

section \<open>What the code saw of the push\<close>

definition pushed_by_code :: "'x host \<Rightarrow> string \<Rightarrow> string \<Rightarrow> 'x world \<Rightarrow> bool" where
  "pushed_by_code h repo head w \<longleftrightarrow> exit_code (fst (git h repo [''push'', ''origin'', head] w)) = 0"

text \<open>The world after the push the code makes for an agent that reports commits and no push.\<close>

definition after_push :: "'x host \<Rightarrow> string \<Rightarrow> string \<Rightarrow> gmap \<Rightarrow> 'x world \<Rightarrow> 'x world" where
  "after_push h repo head r w =
     (if \<not> orch_bool (mget r ''pushed'') \<and> orch_bool (mget r ''commit_shas'') then snd (git h repo [''push'', ''origin'', head] w) else w)"

text \<open>The tip of the remote branch is the head of this workspace and not what it was before.\<close>

definition tip_is_ours :: "'x host \<Rightarrow> string \<Rightarrow> string \<Rightarrow> string \<Rightarrow> 'x world \<Rightarrow> bool" where
  "tip_is_ours h repo head before w =
     (let (after, w1) = remote_branch_sha h repo head w
      in before \<noteq> [] \<and> after \<noteq> [] \<and> after \<noteq> before \<and> fst (local_head_sha h repo w1) = after)"

lemma ensure_push_seen:
  "ensure_push h repo head r w = ((pushed, r'), w') \<Longrightarrow>
   (pushed \<longleftrightarrow> orch_bool (mget r ''pushed'') \<or> (orch_bool (mget r ''commit_shas'') \<and> pushed_by_code h repo head w)) \<and>
   mget r' ''fixed'' = mget r ''fixed'' \<and> report_invalid r' = report_invalid r \<and> w' = after_push h repo head r w"
  by (auto simp: ensure_push_def pushed_by_code_def after_push_def report_invalid_def map_str_or_def split: if_splits prod.splits)

lemma describe_push_fixed: "describe_push h repo head before after r w = (r', w') \<Longrightarrow> mget r' ''fixed'' = mget r ''fixed''"
  by (auto simp: describe_push_def split: if_splits prod.splits)

lemma reconcile_seen:
  assumes "reconcile_report h repo head before (pushed, r) w = ((pushed', r'), w')"
  shows "(pushed' \<longleftrightarrow> pushed \<or> (report_invalid r \<and> tip_is_ours h repo head before w)) \<and> mget r' ''fixed'' = mget r ''fixed''"
proof (cases "report_invalid r")
  case True
  obtain after w1 where a: "remote_branch_sha h repo head w = (after, w1)" by force
  obtain loc w2 where l: "local_head_sha h repo w1 = (loc, w2)" by force
  obtain adv att where v: "classify_advance before after loc = (adv, att)" by force
  then have att: "att \<longleftrightarrow> tip_is_ours h repo head before w" using a l
    by (auto simp: classify_advance_def tip_is_ours_def split: if_splits)
  show ?thesis
  proof (cases att)
    case True
    obtain r1 w3 where d: "describe_push h repo head before after (mset (mset r ''report_invalid'' (GBool True)) ''pushed'' (GBool True)) w2 = (r1, w3)"
      by force
    show ?thesis using assms \<open>report_invalid r\<close> a l v True att describe_push_fixed [OF d] d
      by (auto simp: reconcile_report_def Let_def)
  next
    case False
    with assms \<open>report_invalid r\<close> a l v att show ?thesis by (auto simp: reconcile_report_def Let_def split: if_splits)
  qed
qed (use assms in \<open>auto simp: reconcile_report_def\<close>)

section \<open>The result\<close>

lemma resolve_result_success: "mget (resolve_result i state r pushed ci replies) ''success'' = GBool (orch_bool (mget r ''fixed'') \<and> pushed)"
  by (simp add: resolve_result_def mget_def lookup_def_def Let_def)

text \<open>The evidence of delivery the code goes by, once the agent has answered.\<close>

definition delivered :: "'x host \<Rightarrow> string \<Rightarrow> string \<Rightarrow> string \<Rightarrow> gmap \<Rightarrow> 'x world \<Rightarrow> bool" where
  "delivered h repo head before report w \<longleftrightarrow>
     orch_bool (mget report ''pushed'') \<or>
     (orch_bool (mget report ''commit_shas'') \<and> pushed_by_code h repo head w) \<or>
     (report_invalid report \<and> tip_is_ours h repo head before (after_push h repo head report w))"

lemma settle_resolution_seen:
  assumes "settle_resolution h gate i cfg resolved repo state before r w = (res, w')"
  shows "mget res ''success'' = GBool (orch_bool (mget r ''fixed'') \<and> delivered h repo (ri_head i) before r w)"
proof -
  obtain p1 r1 w1 where e: "ensure_push h repo (ri_head i) r w = ((p1, r1), w1)" by (metis surj_pair)
  obtain p2 r2 w2 where c: "reconcile_report h repo (ri_head i) before (p1, r1) w1 = ((p2, r2), w2)" by (metis surj_pair)
  from assms e c obtain ci replies where "res = resolve_result i state r2 p2 ci replies"
    by (auto simp: settle_resolution_def split: prod.splits)
  with ensure_push_seen [OF e] reconcile_seen [OF c] show ?thesis by (auto simp: resolve_result_success delivered_def)
qed

text \<open>
  C10: A resolution reports success exactly when, in the resolver agent's own report, the work is
  fixed, and there is evidence that it was delivered: the report says that it was pushed, which
  the code takes on trust; or it names commits and no push, and the push the code then made from its own clone succeeded; or
  the report is invalid and the code, asking git right after, saw the remote branch point at the head of this clone,
  having moved from where it was just before the agent was called. The agent was called on the clone of
  this resolution, after the head branch had been checked out there and the base branch merged as far as possible.
\<close>

theorem resolve_success:
  assumes "resolve h gate input w = (Inr res, w')"
  shows "\<exists>i repo cfg resolved w2 merge_state conflicted w3 before w4 report w5.
    i = resolve_input_of input \<and>
    repo = path_join [workspace_root (env_var h), derive_repo_name (ri_repo_url i) @ ''-resolve-'' @ fst (fresh_id h w)] \<and>
    check_out_head h i repo (snd (fresh_id h w)) = (None, w2) \<and>
    attempt_base_merge h repo (ri_base i) w2 = ((merge_state, conflicted), w3) \<and>
    remote_branch_sha h repo (ri_head i) w3 = (before, w4) \<and>
    call_node h ''run_pr_resolver'' (resolver_args input i cfg resolved repo merge_state conflicted) ''run_pr_resolver'' w4 = (Inr report, w5) \<and>
    mget res ''success'' = GBool (orch_bool (mget report ''fixed'') \<and> delivered h repo (ri_head i) before report w5)"
proof -
  let ?i = "resolve_input_of input"
  let ?repo = "path_join [workspace_root (env_var h), derive_repo_name (ri_repo_url ?i) @ ''-resolve-'' @ fst (fresh_id h w)]"
  obtain ms conf w3 where m: "attempt_base_merge h ?repo (ri_base ?i) (snd (check_out_head h ?i ?repo (snd (fresh_id h w)))) = ((ms, conf), w3)"
    by (metis surj_pair)
  from assms m obtain cfg resolved before w4 report w5 where
    "check_out_head h ?i ?repo (snd (fresh_id h w)) = (None, snd (check_out_head h ?i ?repo (snd (fresh_id h w))))"
    "remote_branch_sha h ?repo (ri_head ?i) w3 = (before, w4)"
    "call_node h ''run_pr_resolver'' (resolver_args input ?i cfg resolved ?repo ms conf) ''run_pr_resolver'' w4 = (Inr report, w5)"
    "settle_resolution h gate ?i cfg resolved ?repo ms before report w5 = (res, w')"
    by (auto simp: resolve_def Let_def split: sum.splits if_splits prod.splits option.splits)
  with settle_resolution_seen [OF this(4)] m show ?thesis by blast
qed

text \<open>An agent that committed its fix and left the push to the code.\<close>

definition fixing_report :: gmap where
  "fixing_report = [(''fixed'', GBool True), (''pushed'', GBool False), (''commit_shas'', GList [GStr ''c1''])]"

definition resolver_host :: "disk host" where
  "resolver_host = demo_host (\<lambda>target args w. (Inr fixing_report, w)) (\<lambda>args. ([], [], 0))"

definition pr_input :: gmap where
  "pr_input = [(''pr_url'', GStr ''u''), (''pr_number'', GInt 7), (''repo_url'', GStr ''https://h/o/app''), (''head_branch'', GStr ''fix'')]"

lemma fixing_resolver: "label \<noteq> [] \<Longrightarrow> call_node resolver_host ''run_pr_resolver'' args label w = (Inr fixing_report, w)"
  by (simp add: call_node_def deps_call_def resolver_host_def demo_host_def unwrapped_def unwrap_call_result_def
    has_envelope_key_def envelope_keys_def fixing_report_def)

theorem resolve_success_witness:
  "\<exists>res w'. resolve resolver_host None pr_input blank_world = (Inr res, w') \<and> mget res ''success'' = GBool True \<and>
    (\<exists>repo before w5. delivered resolver_host repo ''fix'' before fixing_report w5)"
proof -
  let ?out = "resolve resolver_host None pr_input blank_world"
  have "case fst ?out of Inl e \<Rightarrow> False | Inr res \<Rightarrow> mget res ''success'' = GBool True"
    by code_simp
  then obtain res w' where out: "?out = (Inr res, w')" "mget res ''success'' = GBool True" by (cases ?out) (auto split: sum.splits)
  have head: "ri_head (resolve_input_of pr_input) = ''fix''" by code_simp
  from resolve_success [OF out(1)] obtain i repo cfg resolved ms conf before w4 report w5 where i: "i = resolve_input_of pr_input"
    and call: "call_node resolver_host ''run_pr_resolver'' (resolver_args pr_input i cfg resolved repo ms conf) ''run_pr_resolver'' w4 = (Inr report, w5)"
    and res: "mget res ''success'' = GBool (orch_bool (mget report ''fixed'') \<and> delivered resolver_host repo (ri_head i) before report w5)"
    by blast
  from call have "report = fixing_report" by (simp add: fixing_resolver)
  with res out i head show ?thesis by auto
qed

end
