(* ===== verification/PlanRun.thy ===== *)
theory PlanRun
  imports Orch PlanChecks
begin

text \<open>
  The planning pipeline, \<open>Plan\<close> of \<open>internal/orch/plan.go\<close>: product manager, architect and tech lead in a
  bounded review loop, sprint planner, levels and numbers, issue writers, and the validated result
  (\<open>schemas/planning.go\<close>). The writers, which the code runs concurrently, are called in order. Notes
  are left out, and what an error of the JSON decoder says is not modelled.
\<close>

section \<open>The input\<close>

record plan_input =
  pi_goal :: string
  pi_repo :: string
  pi_artifacts :: string
  pi_context :: string
  pi_max :: int
  pi_pm :: string
  pi_architect :: string
  pi_tech_lead :: string
  pi_sprint :: string
  pi_writer :: string
  pi_permission :: string
  pi_provider :: string
  pi_manifest :: gval

definition j_plan_input :: jtype where
  "j_plan_input = JObj
     [fld ''goal'' JString, fld ''repo_path'' JString, (''artifacts_dir'', JString, GStr ''.artifacts''),
      fld ''additional_context'' JString, (''max_review_iterations'', JInt, GInt 2), fld ''pm_model'' JString,
      fld ''architect_model'' JString, fld ''tech_lead_model'' JString, fld ''sprint_planner_model'' JString,
      fld ''issue_writer_model'' JString, fld ''permission_mode'' JString, fld ''ai_provider'' JString,
      fld ''workspace_manifest'' JDict]"

definition plan_input_of :: "gmap \<Rightarrow> plan_input" where
  "plan_input_of input =
     (let m = fst (map_to_struct j_plan_input input); str = (\<lambda>k. as_string (mget m k))
      in \<lparr>pi_goal = str ''goal'', pi_repo = str ''repo_path'', pi_artifacts = str ''artifacts_dir'',
          pi_context = str ''additional_context'', pi_max = as_int (mget m ''max_review_iterations''), pi_pm = str ''pm_model'',
          pi_architect = str ''architect_model'', pi_tech_lead = str ''tech_lead_model'', pi_sprint = str ''sprint_planner_model'',
          pi_writer = str ''issue_writer_model'', pi_permission = str ''permission_mode'', pi_provider = str ''ai_provider'',
          pi_manifest = mget m ''workspace_manifest''\<rparr>)"

definition plan_provider :: "getenv \<Rightarrow> plan_input \<Rightarrow> string" where
  "plan_provider genv p = first_non_empty (pi_provider p) (default_runtime genv)"

definition plan_model :: "getenv \<Rightarrow> plan_input \<Rightarrow> string \<Rightarrow> string" where
  "plan_model genv p m = first_non_empty m (default_planning_model genv (plan_provider genv p))"

text \<open>The arguments that every role is given.\<close>

definition role_args :: "getenv \<Rightarrow> plan_input \<Rightarrow> string \<Rightarrow> gmap" where
  "role_args genv p m =
     [(''repo_path'', GStr (pi_repo p)), (''artifacts_dir'', GStr (pi_artifacts p)), (''model'', GStr (plan_model genv p m)),
      (''permission_mode'', GStr (pi_permission p)), (''ai_provider'', GStr (plan_provider genv p)),
      (''workspace_manifest'', pi_manifest p)]"

section \<open>The architecture file\<close>

definition architecture_path :: "'x host \<Rightarrow> plan_input \<Rightarrow> string" where
  "architecture_path h p = path_join [abs_path h (pi_repo p), pi_artifacts p, ''plan'', ''architecture.md'']"

text \<open>A snapshot: \<open>None\<close> when the file could not be read, \<open>Some None\<close> when it did not exist.\<close>

definition snapshot_architecture :: "'x host \<Rightarrow> string \<Rightarrow> 'x world \<Rightarrow> string option option" where
  "snapshot_architecture h path w = (case read_file h path w of Contents s \<Rightarrow> Some (Some s) | Absent \<Rightarrow> Some None | Unreadable e \<Rightarrow> None)"

definition restore_architecture :: "'x host \<Rightarrow> string \<Rightarrow> string option option \<Rightarrow> 'x world \<Rightarrow> 'x world" where
  "restore_architecture h path snap w = (case snap of
     None \<Rightarrow> w
   | Some None \<Rightarrow> snd (remove_file h path w)
   | Some (Some s) \<Rightarrow> (case read_file h path w of
       Unreadable e \<Rightarrow> w
     | Contents t \<Rightarrow> if t = s then w else snd (write_file h path s w)
     | Absent \<Rightarrow> snd (write_file h path s w)))"

fun non_degradable :: "go_error \<Rightarrow> bool" where
  "non_degradable (Fatal s) = True"
| "non_degradable (Canceled s) = True"
| "non_degradable (Deadline s) = True"
| "non_degradable (Plain s) = False"

definition truncate_revision_error :: "string \<Rightarrow> string" where
  "truncate_revision_error s = first_n s 500"

section \<open>The review loop\<close>

definition tech_lead_args :: "getenv \<Rightarrow> plan_input \<Rightarrow> gmap \<Rightarrow> int \<Rightarrow> gmap" where
  "tech_lead_args genv p prd i = [(''prd'', GMap prd), (''revision_number'', GInt i)] @ role_args genv p (pi_tech_lead p)"

definition architect_args :: "getenv \<Rightarrow> plan_input \<Rightarrow> gmap \<Rightarrow> gmap" where
  "architect_args genv p prd = (''prd'', GMap prd) # role_args genv p (pi_architect p)"

text \<open>
  The passes left: the last review, the architecture, and the error of a revision that did not
  complete.
\<close>

fun review_rounds :: "'x host \<Rightarrow> plan_input \<Rightarrow> gmap \<Rightarrow> nat \<Rightarrow> int \<Rightarrow> gmap option \<Rightarrow> gmap \<Rightarrow> 'x world
    \<Rightarrow> (go_error + gmap option \<times> gmap \<times> string option) \<times> 'x world" where
  "review_rounds h p prd 0 i review arch w = (Inr (review, arch, None), w)"
| "review_rounds h p prd (Suc n) i review0 arch w =
     (case call_node h ''run_tech_lead'' (tech_lead_args (env_var h) p prd i) ''run_tech_lead'' w of
        (Inl e, w1) \<Rightarrow> (Inl e, w1)
      | (Inr review, w1) \<Rightarrow>
          if orch_bool (mget review ''approved'') then (Inr (Some review, arch, None), w1)
          else if i < pi_max p
          then (case call_node h ''run_architect'' ((''feedback'', mget review ''feedback'') # architect_args (env_var h) p prd)
                  ''run_architect (revision)'' w1 of
              (Inr revised, w2) \<Rightarrow> review_rounds h p prd n (i + 1) (Some review) revised w2
            | (Inl e, w2) \<Rightarrow>
                if non_degradable e then (Inl e, w2)
                else (Inr (Some review, arch, Some (truncate_revision_error (err_text e))),
                      restore_architecture h (architecture_path h p) (snapshot_architecture h (architecture_path h p) w1) w2))
          else review_rounds h p prd n (i + 1) (Some review) arch w1)"

definition auto_approved :: "gmap \<Rightarrow> string \<Rightarrow> gmap" where
  "auto_approved review why =
     [(''approved'', GBool True), (''feedback'', map_get review ''feedback'' (GStr [])),
      (''scope_issues'', any0 (mget review ''scope_issues'')),
      (''complexity_assessment'', GStr (map_str_or review ''complexity_assessment'' ''appropriate'')),
      (''summary'', GStr (map_str_or review ''summary'' [] @ why))]"

definition settled_review :: "gmap \<Rightarrow> string option \<Rightarrow> gmap" where
  "settled_review review failed = (case failed of
     Some e \<Rightarrow> auto_approved review ('' [auto-approved: architecture revision did not complete: '' @ e @ '']'')
   | None \<Rightarrow> if orch_bool (mget review ''approved'') then review
             else auto_approved review '' [auto-approved after max iterations]'')"

section \<open>The issue writers\<close>

definition bullet :: "string \<Rightarrow> string" where
  "bullet c = ''- '' @ c"

definition prd_summary :: "gmap \<Rightarrow> string" where
  "prd_summary prd =
     (let criteria = str_list (mget prd ''acceptance_criteria''); nl = [CHR 0x0A]
      in map_str_or prd ''validated_description'' [] @
         (if criteria \<noteq> [] then nl @ nl @ ''Acceptance Criteria:'' @ nl @ join nl (map bullet criteria) else []))"

definition sibling :: "gmap \<Rightarrow> gmap" where
  "sibling other = [(''name'', mget other ''name''), (''title'', map_get other ''title'' (GStr [])), (''provides'', any0 (mget other ''provides''))]"

definition plan_name :: "gmap \<Rightarrow> string" where
  "plan_name issue = map_str_or issue ''name'' []"

definition plan_writer_args :: "'x host \<Rightarrow> plan_input \<Rightarrow> gmap \<Rightarrow> gmap \<Rightarrow> string \<Rightarrow> gmap list \<Rightarrow> gmap \<Rightarrow> gmap" where
  "plan_writer_args h p prd arch base issues issue =
     [(''issue'', GMap issue), (''prd_summary'', GStr (prd_summary prd)),
      (''architecture_summary'', GStr (map_str_or arch ''summary'' [])), (''issues_dir'', GStr (path_join [base, ''plan'', ''issues''])),
      (''repo_path'', GStr (pi_repo p)), (''prd_path'', GStr (path_join [base, ''plan'', ''prd.md''])),
      (''architecture_path'', GStr (architecture_path h p)),
      (''sibling_issues'', GMaps (map sibling (filter (\<lambda>other. plan_name other \<noteq> plan_name issue) issues))),
      (''model'', GStr (plan_model (env_var h) p (pi_writer p))), (''permission_mode'', GStr (pi_permission p)),
      (''ai_provider'', GStr (plan_provider (env_var h) p)), (''workspace_manifest'', pi_manifest p)]"

fun write_issues :: "'x host \<Rightarrow> gmap list \<Rightarrow> 'x world \<Rightarrow> 'x world" where
  "write_issues h [] w = w"
| "write_issues h (args # rest) w = write_issues h rest (snd (call_node h ''run_issue_writer'' args ''run_issue_writer'' w))"

section \<open>The result\<close>

definition j_prd :: jtype where
  "j_prd = JObj
     [fld ''validated_description'' JString, fld ''acceptance_criteria'' (JSlice JString), fld ''must_have'' (JSlice JString),
      fld ''nice_to_have'' (JSlice JString), fld ''out_of_scope'' (JSlice JString), fld ''assumptions'' (JSlice JString),
      fld ''risks'' (JSlice JString), fld ''ask_user_form'' (JPtr j_form)]"

definition j_architecture :: jtype where
  "j_architecture = JObj
     [fld ''summary'' JString,
      fld ''components'' (JSlice (JObj [fld ''name'' JString, fld ''responsibility'' JString, fld ''touches_files'' (JSlice JString),
        fld ''depends_on'' (JSlice JString)])),
      fld ''interfaces'' (JSlice JString),
      fld ''decisions'' (JSlice (JObj [fld ''decision'' JString, fld ''rationale'' JString])),
      fld ''file_changes_overview'' JString]"

definition j_review :: jtype where
  "j_review = JObj
     [fld ''approved'' JBool, fld ''feedback'' JString, fld ''scope_issues'' (JSlice JString),
      (''complexity_assessment'', JString, GStr ''appropriate''), fld ''summary'' JString]"

definition j_guidance :: jtype where
  "j_guidance = JObj
     [(''needs_new_tests'', JBool, GBool True), (''estimated_scope'', JString, GStr ''medium''), fld ''touches_interfaces'' JBool,
      fld ''needs_deeper_qa'' JBool, fld ''testing_guidance'' JString, fld ''review_focus'' JString, fld ''risk_rationale'' JString]"

definition j_planned_issue :: jtype where
  "j_planned_issue = JObj
     [fld ''name'' JString, fld ''title'' JString, fld ''description'' JString, fld ''acceptance_criteria'' (JSlice JString),
      fld ''depends_on'' (JSlice JString), fld ''provides'' (JSlice JString), (''estimated_complexity'', JString, GStr ''medium''),
      fld ''files_to_create'' (JSlice JString), fld ''files_to_modify'' (JSlice JString), fld ''testing_strategy'' JString,
      fld ''sequence_number'' (JPtr JInt), fld ''guidance'' (JPtr j_guidance), fld ''target_repo'' JString]"

definition coerce :: "jtype \<Rightarrow> string list \<Rightarrow> string \<Rightarrow> gmap \<Rightarrow> go_error + gmap" where
  "coerce t required label m = (case filter (\<lambda>k. map_of m k = None) required of
     k # ks \<Rightarrow> Inl (Plain (label @ '': missing required field '' @ quoted k))
   | [] \<Rightarrow> (case map_to_struct t m of (v, ok) \<Rightarrow> if ok then Inr v else Inl (Plain (label @ '': json''))))"

fun coerce_issues :: "gmap list \<Rightarrow> go_error + gmap list" where
  "coerce_issues [] = Inr []"
| "coerce_issues (i # is) = (case coerce j_planned_issue [''name'', ''title'', ''description'', ''acceptance_criteria''] ''PlannedIssue'' i of
     Inl e \<Rightarrow> Inl e
   | Inr v \<Rightarrow> (case coerce_issues is of Inl e \<Rightarrow> Inl e | Inr vs \<Rightarrow> Inr (v # vs)))"

definition build_plan_result :: "gmap \<Rightarrow> gmap \<Rightarrow> gmap \<Rightarrow> gmap list \<Rightarrow> string list list \<Rightarrow> gmap list \<Rightarrow> string \<Rightarrow> string
    \<Rightarrow> go_error + gmap" where
  "build_plan_result prd arch review issues levels conflicts base rationale =
     (case coerce j_prd [''validated_description'', ''acceptance_criteria'', ''must_have'', ''nice_to_have'', ''out_of_scope''] ''PRD'' prd of
        Inl e \<Rightarrow> Inl e
      | Inr prd' \<Rightarrow> (case coerce j_architecture [''summary'', ''components'', ''interfaces'', ''decisions'', ''file_changes_overview'']
            ''Architecture'' arch of
          Inl e \<Rightarrow> Inl e
        | Inr arch' \<Rightarrow> (case coerce j_review [''approved'', ''feedback'', ''summary''] ''ReviewResult'' review of
            Inl e \<Rightarrow> Inl e
          | Inr review' \<Rightarrow> (case coerce_issues issues of
              Inl e \<Rightarrow> Inl e
            | Inr issues' \<Rightarrow> Inr (json_map
                [(''prd'', GMap prd'), (''architecture'', GMap arch'), (''review'', GMap review'), (''issues'', GMaps issues'),
                 (''levels'', GList (map strs levels)), (''file_conflicts'', GMaps conflicts), (''artifacts_dir'', GStr base),
                 (''rationale'', GStr rationale)])))))"

section \<open>The pipeline\<close>

definition of_message :: "string option \<times> 'w \<Rightarrow> (go_error + unit) \<times> 'w" where
  "of_message r = (case r of (Some e, w) \<Rightarrow> (Inl (Plain e), w) | (None, w) \<Rightarrow> (Inr (), w))"

text \<open>From the sprint plan on: levels, numbers, writers, rationale and result.\<close>

definition schedule_plan :: "'x host \<Rightarrow> plan_input \<Rightarrow> gmap \<Rightarrow> gmap \<Rightarrow> gmap \<Rightarrow> gmap \<Rightarrow> 'x world \<Rightarrow> (go_error + gmap) \<times> 'x world" where
  "schedule_plan h p prd arch review sprint w =
     (let issues0 = maps_of (mget sprint ''issues''); rationale = map_str_or sprint ''rationale'' [];
          base = path_join [abs_path h (pi_repo p), pi_artifacts p]
      in case compute_levels issues0 of
           Inl e \<Rightarrow> (Inl (Plain e), w)
         | Inr levels \<Rightarrow>
             let issues = assign_sequence_numbers issues0 levels
             in and_then (of_message (make_dirs h (path_join [base, ''plan'', ''issues'']) w)) (\<lambda>_ w1.
                and_then (of_message (write_file h (path_join [base, ''rationale.md'']) rationale
                    (write_issues h (map (plan_writer_args h p prd arch base issues) issues) w1))) (\<lambda>_ w2.
                (build_plan_result prd arch review issues levels (validate_file_conflicts issues levels) base rationale, w2))))"

definition plan :: "'x host \<Rightarrow> gmap \<Rightarrow> 'x world \<Rightarrow> (go_error + gmap) \<times> 'x world" where
  "plan h input w =
     (let p = plan_input_of input; genv = env_var h
      in and_then (call_node h ''run_product_manager''
             ([(''goal'', GStr (pi_goal p)), (''additional_context'', GStr (pi_context p))] @ role_args genv p (pi_pm p))
             ''run_product_manager'' w) (\<lambda>prd w1.
         and_then (if trim_space (genv ''HAX_API_KEY'') \<noteq> []
                   then call_node h ''run_environment_scout'' ((''prd'', GMap prd) # role_args genv p (pi_pm p)) ''run_environment_scout'' w1
                   else (Inr [], w1)) (\<lambda>_ w2.
         and_then (call_node h ''run_architect'' (architect_args genv p prd) ''run_architect'' w2) (\<lambda>arch0 w3.
         and_then (review_rounds h p prd (nat (pi_max p + 1)) 0 None arch0 w3) (\<lambda>(review, arch, failed) w4.
         case review of
           None \<Rightarrow> (Inl (Plain ''plan: tech lead review is nil''), w4)
         | Some r \<Rightarrow>
             and_then (call_node h ''run_sprint_planner''
                 ([(''prd'', GMap prd), (''architecture'', GMap arch)] @ role_args genv p (pi_sprint p)) ''run_sprint_planner'' w4) (\<lambda>sprint w5.
             schedule_plan h p prd arch (settled_review r failed) sprint w5))))))"

end
