(* ===== verification/HumanInput.thy ===== *)
theory HumanInput
  imports Orch
begin

text \<open>
  The human in the loop (\<open>internal/hitl\<close>): forms and their payloads, requests to the hax service,
  the pause that waits for the answer, and the loop that calls a reasoner again with the answers
  (\<open>ask_user.go\<close>, \<open>hax_client.go\<close>, \<open>wrapper.go\<close>). The HTTP exchange, the pause of the control plane
  and the parser of JSON text are parameters. Notes are left out.
\<close>

section \<open>Forms\<close>

record form_field =
  ff_id :: string
  ff_type :: string
  ff_label :: string
  ff_description :: "string option"
  ff_required :: bool
  ff_placeholder :: "string option"
  ff_default :: gval
  ff_options :: "gval list"
  ff_min :: "gval option"
  ff_max :: "gval option"
  ff_step :: "gval option"

record form =
  fm_title :: string
  fm_description :: "string option"
  fm_fields :: "form_field list"
  fm_submit :: string

definition opt_text :: "gval \<Rightarrow> string option" where
  "opt_text v = (case v of GStr s \<Rightarrow> Some s | _ \<Rightarrow> None)"

definition opt_number :: "gval \<Rightarrow> gval option" where
  "opt_number v = (case v of GFloat m e \<Rightarrow> Some v | _ \<Rightarrow> None)"

definition form_field_of :: "gmap \<Rightarrow> form_field" where
  "form_field_of m =
     \<lparr>ff_id = as_string (mget m ''id''), ff_type = as_string (mget m ''type''), ff_label = as_string (mget m ''label''),
      ff_description = opt_text (mget m ''description''), ff_required = as_bool (mget m ''required''),
      ff_placeholder = opt_text (mget m ''placeholder''), ff_default = mget m ''default_value'',
      ff_options = (case mget m ''options'' of GList vs \<Rightarrow> vs | _ \<Rightarrow> []),
      ff_min = opt_number (mget m ''min''), ff_max = opt_number (mget m ''max''), ff_step = opt_number (mget m ''step'')\<rparr>"

definition form_of :: "gmap \<Rightarrow> form" where
  "form_of m =
     \<lparr>fm_title = as_string (mget m ''title''), fm_description = opt_text (mget m ''description''),
      fm_fields = obj_list form_field_of (mget m ''fields''), fm_submit = as_string (mget m ''submit_label'')\<rparr>"

definition opt_entry :: "string \<Rightarrow> gval option \<Rightarrow> gmap" where
  "opt_entry k v = (case v of None \<Rightarrow> [] | Some x \<Rightarrow> [(k, x)])"

definition field_base :: "form_field \<Rightarrow> bool \<Rightarrow> gmap" where
  "field_base f placeholder =
     [(''label'', GStr (ff_label f))] @ opt_entry ''description'' (map_option GStr (ff_description f)) @
     (if ff_required f then [(''required'', GBool True)] else []) @
     (if placeholder then opt_entry ''placeholder'' (map_option GStr (ff_placeholder f)) else []) @
     (if ff_default f \<noteq> GNil then [(''defaultValue'', ff_default f)] else [])"

definition widget :: "string \<Rightarrow> form_field \<Rightarrow> gmap" where
  "widget t f = [(''type'', GStr t), (''id'', GStr (ff_id f))]"

definition field_named :: "string \<Rightarrow> form_field \<Rightarrow> string" where
  "field_named kind f = kind @ '' field '' @ [CHR 0x27] @ ff_id f @ [CHR 0x27]"

definition choice_payload :: "string \<Rightarrow> string \<Rightarrow> form_field \<Rightarrow> string + gmap" where
  "choice_payload kind t f =
     (if ff_options f = [] then Inl (field_named kind f @ '' requires options'')
      else Inr (field_base f True @ widget t f @ [(''options'', GList (ff_options f))]))"

definition field_to_payload :: "form_field \<Rightarrow> string + gmap" where
  "field_to_payload f =
     (if ff_type f \<in> {''input'', ''textarea'', ''date''} then Inr (field_base f True @ widget (ff_type f) f)
      else if ff_type f = ''number''
      then Inr (field_base f True @ widget ''number'' f @ opt_entry ''min'' (ff_min f) @ opt_entry ''max'' (ff_max f) @ opt_entry ''step'' (ff_step f))
      else if ff_type f = ''slider''
      then (if ff_min f = None \<or> ff_max f = None then Inl (field_named ''slider'' f @ '' requires both min and max'')
            else Inr (field_base f True @ widget ''slider'' f @ opt_entry ''min'' (ff_min f) @ opt_entry ''max'' (ff_max f) @ opt_entry ''step'' (ff_step f)))
      else if ff_type f = ''select'' then choice_payload ''select'' ''select'' f
      else if ff_type f = ''radio'' then choice_payload ''radio'' ''radio-group'' f
      else if ff_type f = ''checkbox_group'' then choice_payload ''checkbox_group'' ''checkbox-group'' f
      else if ff_type f = ''checkbox'' then Inr (field_base f False @ widget ''checkbox'' f @ [(''checkboxLabel'', GStr (ff_label f))])
      else if ff_type f = ''switch'' then Inr (field_base f False @ widget ''switch'' f @ [(''switchLabel'', GStr (ff_label f))])
      else Inl (''unsupported AskUserFormField type: '' @ ff_type f))"

fun fields_payload :: "form_field list \<Rightarrow> string + gmap list" where
  "fields_payload [] = Inr []"
| "fields_payload (f # fs) = (case field_to_payload f of
     Inl e \<Rightarrow> Inl e
   | Inr m \<Rightarrow> (case fields_payload fs of Inl e \<Rightarrow> Inl e | Inr ms \<Rightarrow> Inr (m # ms)))"

definition build_form_payload :: "form \<Rightarrow> string + gmap" where
  "build_form_payload spec = (case fields_payload (fm_fields spec) of
     Inl e \<Rightarrow> Inl e
   | Inr ms \<Rightarrow> Inr ([(''title'', GStr (fm_title spec))] @ opt_entry ''description'' (map_option GStr (fm_description spec)) @
       (if fm_submit spec \<noteq> [] \<and> fm_submit spec \<noteq> ''Submit'' then [(''submitLabel'', GStr (fm_submit spec))] else []) @
       [(''fields'', GMaps ms)]))"

section \<open>The hax client\<close>

text \<open>
  A reply: no response (the error, and whether the request's own deadline had passed), a body that
  could not be read, or status and body. A client is always built from the environment, so it has
  the default timeout of 120 seconds.
\<close>

datatype http_reply = No_response go_error bool | Unread_body go_error | Response int string

record hax_client =
  hc_base :: string
  hc_key :: string

record hax_params =
  hp_type :: string
  hp_payload :: gmap
  hp_title :: string
  hp_description :: "string option"
  hp_webhook :: string
  hp_expires :: int
  hp_user :: string
  hp_metadata :: "gmap option"

record pause_options =
  po_request :: string
  po_url :: string
  po_hours :: int
  po_execution :: string

record pause_result =
  pz_decision :: string
  pz_feedback :: string
  pz_raw :: gmap

record 'x hitl_env =
  hl_post :: "string \<Rightarrow> string \<Rightarrow> gmap \<Rightarrow> 'x world \<Rightarrow> http_reply \<times> 'x world"
  hl_pause :: "pause_options \<Rightarrow> 'x world \<Rightarrow> (go_error + pause_result) \<times> 'x world"
  hl_parse :: "string \<Rightarrow> string + gval"

definition build_hax_client :: "getenv \<Rightarrow> hax_client option" where
  "build_hax_client genv =
     (let key = trim_space (genv ''HAX_API_KEY''); base = trim_space (genv ''HAX_SDK_URL'')
      in if key = [] then None
         else Some \<lparr>hc_base = trim_right CHR ''/'' (if base = [] then ''http://localhost:3000'' else base), hc_key = key\<rparr>)"

definition approval_webhook_url :: "string \<Rightarrow> string" where
  "approval_webhook_url server =
     (let base = trim_right CHR ''/'' (trim_space server) in if base = [] then [] else base @ ''/api/v1/webhooks/approval-response'')"

definition hax_body :: "hax_params \<Rightarrow> gmap" where
  "hax_body p =
     [(''type'', GStr (hp_type p)), (''payload'', GMap (hp_payload p))] @
     (if hp_title p \<noteq> [] then [(''title'', GStr (hp_title p))] else []) @
     opt_entry ''description'' (map_option GStr (hp_description p)) @
     (if hp_webhook p \<noteq> [] then [(''webhookUrl'', GStr (hp_webhook p))] else []) @
     (if hp_expires p > 0 then [(''expiresInSeconds'', GInt (hp_expires p))] else []) @
     (if hp_user p \<noteq> [] then [(''userId'', GStr (hp_user p))] else []) @
     opt_entry ''metadata'' (map_option GMap (hp_metadata p))"

text \<open>An error wrapped with \<open>%w\<close> keeps its kind.\<close>

fun wrap_error :: "string \<Rightarrow> go_error \<Rightarrow> go_error" where
  "wrap_error p (Fatal s) = Fatal (p @ s)"
| "wrap_error p (Canceled s) = Canceled (p @ s)"
| "wrap_error p (Deadline s) = Deadline (p @ s)"
| "wrap_error p (Plain s) = Plain (p @ s)"

definition is_deadline :: "go_error \<Rightarrow> bool" where
  "is_deadline e = (case e of Deadline s \<Rightarrow> True | _ \<Rightarrow> False)"

definition j_created :: jtype where
  "j_created = JObj [fld ''id'' JString, fld ''url'' JString]"

text \<open>The id and the address of a created request.\<close>

definition read_created :: "(string \<Rightarrow> string + gval) \<Rightarrow> string \<Rightarrow> go_error + string \<times> string" where
  "read_created parse body = (case parse body of
     Inl e \<Rightarrow> Inl (Plain (''hax create_request: decode response: '' @ e))
   | Inr v \<Rightarrow> (case decode j_created (zero_of j_created) v of (d, ok) \<Rightarrow>
       let m = as_map d; rid = as_string (mget m ''id'')
       in if \<not> ok then Inl (Plain ''hax create_request: decode response: json'')
          else if rid = [] then Inl (Plain (''hax create_request: response missing id: '' @ trim_space body))
          else Inr (rid, as_string (mget m ''url''))))"

definition create_request :: "'x hitl_env \<Rightarrow> hax_client \<Rightarrow> hax_params \<Rightarrow> 'x world \<Rightarrow> (go_error + string \<times> string) \<times> 'x world" where
  "create_request env c p w = (case hl_post env (hc_base c @ ''/api/v1/requests'') (hc_key c) (json_map (hax_body p)) w of
     (No_response e late, w1) \<Rightarrow>
       (Inl (wrap_error (if is_deadline e \<or> late
          then ''hax create_request ('' @ hp_type p @ '') timed out after 2m0s; hax-sdk is likely wedged: ''
          else ''hax create_request: '') e), w1)
   | (Unread_body e, w1) \<Rightarrow> (Inl (wrap_error ''hax create_request: read response: '' e), w1)
   | (Response status body, w1) \<Rightarrow>
       (if status < 200 \<or> 300 \<le> status
        then Inl (Plain (''hax create_request: status '' @ show_int status @ '': '' @ trim_space body))
        else read_created (hl_parse env) body, w1))"

section \<open>Asking and waiting\<close>

record ask_response =
  an_status :: string
  an_values :: gmap
  an_feedback :: "string option"
  an_error :: "string option"

definition values_from_raw :: "gmap \<Rightarrow> gmap" where
  "values_from_raw raw = (case mget raw ''values'' of
     GMap vs \<Rightarrow> vs
   | _ \<Rightarrow> (case mget raw ''response'' of GMap r \<Rightarrow> as_map (mget r ''values'') | _ \<Rightarrow> []))"

definition answer_values :: "(string \<Rightarrow> string + gval) \<Rightarrow> string option \<Rightarrow> gmap \<Rightarrow> gmap" where
  "answer_values parse feedback raw =
     (let vs = values_from_raw raw
      in case feedback of
           None \<Rightarrow> vs
         | Some s \<Rightarrow> if vs = [] then (case parse s of Inr (GMap m) \<Rightarrow> m | _ \<Rightarrow> vs) else vs)"

definition parse_approval_result :: "(string \<Rightarrow> string + gval) \<Rightarrow> string \<Rightarrow> string option \<Rightarrow> gmap \<Rightarrow> ask_response" where
  "parse_approval_result parse decision feedback raw =
     (if decision = ''rejected'' then \<lparr>an_status = ''cancelled'', an_values = [], an_feedback = feedback, an_error = None\<rparr>
      else if decision = ''expired'' then \<lparr>an_status = ''timeout'', an_values = [], an_feedback = feedback, an_error = None\<rparr>
      else if decision = ''error''
      then \<lparr>an_status = ''error'', an_values = [], an_feedback = feedback,
            an_error = Some (case feedback of None \<Rightarrow> ''agentfield reported decision=error'' | Some s \<Rightarrow> s)\<rparr>
      else if decision \<in> {''approved'', ''request_changes'', ''submitted''}
      then \<lparr>an_status = ''submitted'', an_values = answer_values parse feedback raw, an_feedback = feedback, an_error = None\<rparr>
      else \<lparr>an_status = ''error'', an_values = answer_values parse feedback raw, an_feedback = feedback,
            an_error = Some (''unknown decision: '' @ quoted decision)\<rparr>)"

text \<open>The hours until expiry are a decimal, as \<open>GFloat\<close>s are.\<close>

record ask_params =
  ak_client :: "hax_client option"
  ak_budget :: "int option"
  ak_max :: int
  ak_hours :: "int \<times> int"
  ak_execution :: string
  ak_user :: string
  ak_webhook :: string
  ak_metadata :: "gmap option"

definition failed_answer :: "string \<Rightarrow> ask_response" where
  "failed_answer msg = \<lparr>an_status = ''error'', an_values = [], an_feedback = None, an_error = Some msg\<rparr>"

definition request_user_input :: "'x hitl_env \<Rightarrow> hax_client \<Rightarrow> form \<Rightarrow> ask_params \<Rightarrow> 'x world \<Rightarrow> ask_response \<times> 'x world" where
  "request_user_input env client spec p w =
     (let (m, e) = (if fst (ak_hours p) \<le> 0 then (24, 0) else ak_hours p)
      in case build_form_payload spec of
           Inl err \<Rightarrow> (failed_answer (''Failed to build form from spec: '' @ err), w)
         | Inr payload \<Rightarrow> (case create_request env client
               \<lparr>hp_type = ''form-builder'', hp_payload = payload, hp_title = fm_title spec, hp_description = fm_description spec,
                hp_webhook = ak_webhook p, hp_expires = trunc_dec (m * 3600) e, hp_user = ak_user p, hp_metadata = ak_metadata p\<rparr> w of
             (Inl err, w1) \<Rightarrow> (failed_answer (''create_form_request failed: '' @ err_text err), w1)
           | (Inr (rid, url), w1) \<Rightarrow>
               (case hl_pause env \<lparr>po_request = rid, po_url = url, po_hours = trunc_dec m e, po_execution = ak_execution p\<rparr> w1 of
                 (Inl err, w2) \<Rightarrow>
                   (if is_deadline err then \<lparr>an_status = ''timeout'', an_values = [], an_feedback = None, an_error = None\<rparr>
                    else failed_answer (''pause failed: '' @ err_text err), w2)
               | (Inr r, w2) \<Rightarrow>
                   (parse_approval_result (hl_parse env) (pz_decision r) (if pz_feedback r = [] then None else Some (pz_feedback r)) (pz_raw r), w2))))"

section \<open>Calling a reasoner again with the answers\<close>

text \<open>
  An entry of \<open>prior_user_responses\<close>: one that came with the input, or one the loop appended, whose
  feedback the code keeps as a pointer to a string. All callers pass that list alone, and a reasoner
  gives a map or nil.
\<close>

datatype prior_entry = Given gmap | Answered string string gmap "string option"

type_synonym 'x reasoner = "prior_entry list \<Rightarrow> 'x world \<Rightarrow> (go_error + gmap option) \<times> 'x world"

definition extract_form :: "gmap option \<Rightarrow> go_error + form option" where
  "extract_form result = (case result of
     None \<Rightarrow> Inr None
   | Some m \<Rightarrow> (case mget m ''ask_user_form'' of
       GNil \<Rightarrow> Inr None
     | v \<Rightarrow> (case decode j_form (zero_of j_form) (json_trip v) of (d, ok) \<Rightarrow>
         if ok then Inr (Some (form_of (as_map d))) else Inl (Plain ''ask_user_form: validate: json''))))"

definition clear_form :: "gmap option \<Rightarrow> gmap option" where
  "clear_form result = map_option (\<lambda>m. if map_of m ''ask_user_form'' \<noteq> None then mset m ''ask_user_form'' GNil else m) result"

definition ask_limit :: "ask_params \<Rightarrow> int" where
  "ask_limit p = (if ak_max p \<le> 0 then 3 else ak_max p)"

text \<open>The passes left and the current pass; the result, the budget left and the world.\<close>

fun ask_rounds :: "'x hitl_env \<Rightarrow> ask_params \<Rightarrow> 'x reasoner \<Rightarrow> nat \<Rightarrow> int \<Rightarrow> gmap option \<Rightarrow> prior_entry list \<Rightarrow> int \<Rightarrow> 'x world
    \<Rightarrow> (go_error + gmap option) \<times> int \<times> 'x world" where
  "ask_rounds env p invoke 0 i last_result prior budget w = (Inr (clear_form last_result), budget, w)"
| "ask_rounds env p invoke (Suc n) i last_result prior budget w = (case invoke prior w of
     (Inl e, w1) \<Rightarrow> (Inl e, budget, w1)
   | (Inr result, w1) \<Rightarrow> (case extract_form result of
       Inl e \<Rightarrow> (Inl e, budget, w1)
     | Inr None \<Rightarrow> (Inr result, budget, w1)
     | Inr (Some spec) \<Rightarrow> (case ak_client p of
         None \<Rightarrow> (Inr (clear_form result), budget, w1)
       | Some client \<Rightarrow>
           if budget \<le> 0 then (Inr (clear_form result), budget, w1)
           else if i \<ge> ask_limit p then (Inr (clear_form result), budget, w1)
           else let (answer, w2) = request_user_input env client spec p w1
                in ask_rounds env p invoke n (i + 1) result
                     (prior @ [Answered (fm_title spec) (an_status answer) (an_values answer) (an_feedback answer)]) (budget - 1) w2)))"

definition run_with_ask_user :: "'x hitl_env \<Rightarrow> ask_params \<Rightarrow> 'x reasoner \<Rightarrow> prior_entry list \<Rightarrow> 'x world
    \<Rightarrow> (go_error + gmap option) \<times> int \<times> 'x world" where
  "run_with_ask_user env p invoke prior w =
     ask_rounds env p invoke (nat (ask_limit p + 1)) 0 None prior (case ak_budget p of None \<Rightarrow> 2 | Some b \<Rightarrow> b) w"

section \<open>The answers in a prompt\<close>

text \<open>
  \<open>FormatPriorUserResponses\<close> of \<open>prompts/planning/utils.go\<close>, which the product manager and the
  scout use. The feedback of an appended entry is a pointer, and \<open>%v\<close> prints a pointer as \<open><nil>\<close> or
  as its address, which is a parameter here (by the number of the entry).
\<close>

definition text_default :: "gmap \<Rightarrow> string \<Rightarrow> string \<Rightarrow> string" where
  "text_default m k dflt = (case mget m k of GNil \<Rightarrow> dflt | v \<Rightarrow> go_show v)"

definition prompt_truthy :: "gval \<Rightarrow> bool" where
  "prompt_truthy v = (case v of GMaps t \<Rightarrow> True | _ \<Rightarrow> truthy v)"

definition value_lines :: "gmap \<Rightarrow> string list" where
  "value_lines vs =
     (if vs = [] then []
      else [[], ''Values submitted by user:''] @ map (\<lambda>(k, v). ''- **'' @ k @ ''**: '' @ go_show v) (sort_key fst vs))"

fun entry_lines :: "(nat \<Rightarrow> string) \<Rightarrow> nat \<Rightarrow> prior_entry \<Rightarrow> string list" where
  "entry_lines address n (Given m) =
     [''### Question '' @ show_nat (n + 1) @ '': '' @ text_default m ''question'' ''(no title)'',
      ''_Status: '' @ text_default m ''status'' ''unknown'' @ ''_''] @ value_lines (as_map (mget m ''values'')) @
     (if prompt_truthy (mget m ''feedback'') then [[], ''User feedback: '' @ go_show (mget m ''feedback'')] else []) @ [[]]"
| "entry_lines address n (Answered question status vs feedback) =
     [''### Question '' @ show_nat (n + 1) @ '': '' @ question, ''_Status: '' @ status @ ''_''] @ value_lines vs @
     [[], ''User feedback: '' @ (case feedback of None \<Rightarrow> ''<nil>'' | Some s \<Rightarrow> address n)] @ [[]]"

definition format_prior_responses :: "(nat \<Rightarrow> string) \<Rightarrow> prior_entry list \<Rightarrow> string" where
  "format_prior_responses address prior =
     (if prior = [] then []
      else join [CHR 0x0A]
        ([''## Prior Clarification From User'', []] @
         concat (map (\<lambda>(n, e). entry_lines address n e) (List.enumerate 0 prior)) @
         [''USE THESE PRIOR ANSWERS. DO NOT RE-ASK THE SAME QUESTIONS. Only '' @
          ''emit `ask_user_form` if you need DIFFERENT clarification not already '' @ ''covered above.'']))"

end
