(* ===== verification/ApprovalGate.thy ===== *)
theory ApprovalGate
  imports PlanRun BuildRun HumanInput
begin

text \<open>
  The plan approval gate, \<open>internal/orch/approval_gate.go\<close>: a plan is submitted to a human, who
  approves it, rejects it or asks for changes; then architect, tech lead and sprint planner run again
  with the feedback and the revised plan is submitted. The trail \<open>approval_state.json\<close> is written as
  JSON. Notes are left out.
\<close>

record 'x approval_env =
  av_host :: "'x host"
  av_hitl :: "'x hitl_env"
  av_pauser :: "approval_request \<Rightarrow> bool"
  av_server :: string
  av_disk :: "'x env"

section \<open>The plan as the human sees it\<close>

definition nl :: string where
  "nl = [CHR 0x0A]"

definition bullet_block :: "gval \<Rightarrow> string option" where
  "bullet_block v = (let items = to_any_slice v in if items = [] then None else Some (join nl (map (\<lambda>x. ''- '' @ go_show x) items)))"

definition headed :: "string \<Rightarrow> string option \<Rightarrow> string list" where
  "headed heading block = (case block of None \<Rightarrow> [] | Some b \<Rightarrow> [''## '' @ heading @ nl @ b])"

definition prd_markdown :: "gmap \<Rightarrow> string" where
  "prd_markdown prd =
     (let d = map_str_or prd ''validated_description'' []
      in join (nl @ nl)
        (headed ''Description'' (if d \<noteq> [] then Some d else None) @ headed ''Must Have'' (bullet_block (mget prd ''must_have'')) @
         headed ''Nice to Have'' (bullet_block (mget prd ''nice_to_have'')) @
         headed ''Acceptance Criteria'' (bullet_block (mget prd ''acceptance_criteria''))))"

definition quoted_file :: "gval \<Rightarrow> string" where
  "quoted_file f = [CHR 0x60] @ go_show f @ [CHR 0x60]"

definition component_parts :: "gmap \<Rightarrow> string list" where
  "component_parts c =
     (let touched = to_any_slice (mget c ''touches_files'')
      in [''### '' @ map_str_or c ''name'' ''Component'' @ nl @ map_str_or c ''responsibility'' []] @
         (if touched \<noteq> [] then [''Files: '' @ join '', '' (map quoted_file touched)] else []))"

definition decision_part :: "gmap \<Rightarrow> string" where
  "decision_part d = ''- **'' @ map_str_or d ''decision'' [] @ ''**: '' @ map_str_or d ''rationale'' []"

definition architecture_markdown :: "gmap \<Rightarrow> string" where
  "architecture_markdown arch =
     (let s = map_str_or arch ''summary'' []; comps = maps_of (map_get arch ''components'' GNil); decs = maps_of (map_get arch ''decisions'' GNil)
      in join (nl @ nl)
        (headed ''Summary'' (if s \<noteq> [] then Some s else None) @
         (if comps \<noteq> [] then ''## Components'' # concat (map component_parts comps) else []) @
         (if decs \<noteq> [] then ''## Key Decisions'' # map decision_part decs else [])))"

definition issue_entry :: "gmap \<Rightarrow> gmap" where
  "issue_entry iss =
     [(''name'', GStr (map_str_or iss ''name'' [])), (''title'', GStr (map_str_or iss ''title'' [])),
      (''description'', GStr (map_str_or iss ''description'' [])), (''dependsOn'', any0 (mget iss ''depends_on'')),
      (''filesToModify'', any0 (mget iss ''files_to_modify'')), (''filesToCreate'', any0 (mget iss ''files_to_create'')),
      (''acceptanceCriteria'', any0 (mget iss ''acceptance_criteria''))]"

text \<open>Summary, PRD, architecture and issues of a plan.\<close>

definition format_plan :: "gmap \<Rightarrow> string \<times> string \<times> string \<times> gmap list" where
  "format_plan p =
     (map_str_or p ''rationale'' [], prd_markdown (as_map (mget p ''prd'')), architecture_markdown (as_map (mget p ''architecture'')),
      map issue_entry (maps_of (map_get p ''issues'' GNil)))"

section \<open>Planning again with feedback\<close>

definition gate_role_args :: "approval_request \<Rightarrow> string \<Rightarrow> gmap" where
  "gate_role_args q key =
     [(''repo_path'', GStr (ar_repo q)), (''artifacts_dir'', GStr (ar_artifacts q)), (''model'', GStr (lookup_def [] (ar_resolved q) key)),
      (''permission_mode'', GStr (b_permission_mode (ar_cfg q))), (''ai_provider'', GStr (build_ai_provider (ar_cfg q))),
      (''workspace_manifest'', ar_manifest q)]"

definition plan_prd :: "gmap \<Rightarrow> gval" where
  "plan_prd p = map_get p ''prd'' (GMap [])"

definition gate_architect_args :: "approval_request \<Rightarrow> gmap \<Rightarrow> string \<Rightarrow> gmap" where
  "gate_architect_args q p feedback = [(''prd'', plan_prd p), (''feedback'', GStr feedback)] @ gate_role_args q ''architect_model''"

definition gate_architecture_path :: "'x host \<Rightarrow> approval_request \<Rightarrow> string" where
  "gate_architecture_path h q = path_join [abs_path h (ar_repo q), ar_artifacts q, ''plan'', ''architecture.md'']"

text \<open>
  A revision by the architect: its reply, or the text of the error that keeps the architecture as it
  was, the file included.
\<close>

definition revise_architecture :: "'x host \<Rightarrow> approval_request \<Rightarrow> gmap \<Rightarrow> string \<Rightarrow> string \<Rightarrow> 'x world
    \<Rightarrow> (go_error + string + gmap) \<times> 'x world" where
  "revise_architecture h q p feedback label w =
     (let path = gate_architecture_path h q; snap = snapshot_architecture h path w
      in case call_node h ''run_architect'' (gate_architect_args q p feedback) label w of
           (Inr revised, w1) \<Rightarrow> (Inr (Inr revised), w1)
         | (Inl e, w1) \<Rightarrow>
             if non_degradable e then (Inl e, w1)
             else (Inr (Inl (truncate_revision_error (err_text e))), restore_architecture h path snap w1))"

definition gate_tech_lead_args :: "approval_request \<Rightarrow> gmap \<Rightarrow> int \<Rightarrow> gmap" where
  "gate_tech_lead_args q p i = [(''prd'', plan_prd p), (''revision_number'', GInt i)] @ gate_role_args q ''tech_lead_model''"

text \<open>The passes left: the last review, the architecture and the error of a failed revision (empty: none).\<close>

fun feedback_rounds :: "'x host \<Rightarrow> approval_request \<Rightarrow> gmap \<Rightarrow> nat \<Rightarrow> int \<Rightarrow> gmap option \<Rightarrow> gmap \<Rightarrow> 'x world
    \<Rightarrow> (go_error + gmap option \<times> gmap \<times> string) \<times> 'x world" where
  "feedback_rounds h q p 0 i review arch w = (Inr (review, arch, []), w)"
| "feedback_rounds h q p (Suc n) i review0 arch w =
     (case call_node h ''run_tech_lead'' (gate_tech_lead_args q p i) ''run_tech_lead'' w of
        (Inl e, w1) \<Rightarrow> (Inl e, w1)
      | (Inr review, w1) \<Rightarrow>
          if orch_bool (mget review ''approved'') then (Inr (Some review, arch, []), w1)
          else if i < b_max_reviews (ar_cfg q)
          then (case revise_architecture h q p (map_str_or review ''feedback'' []) ''run_architect (tech lead revision)'' w1 of
              (Inl e, w2) \<Rightarrow> (Inl e, w2)
            | (Inr (Inl failed), w2) \<Rightarrow> (Inr (Some review, arch, failed), w2)
            | (Inr (Inr revised), w2) \<Rightarrow> feedback_rounds h q p n (i + 1) (Some review) revised w2)
          else feedback_rounds h q p n (i + 1) (Some review) arch w1)"

definition gate_auto_review :: "gmap \<Rightarrow> string \<Rightarrow> gmap" where
  "gate_auto_review review why = json_map
     [(''approved'', GBool True), (''feedback'', GStr (map_str_or review ''feedback'' [])),
      (''scope_issues'', case map_get review ''scope_issues'' (GList []) of GStrs t \<Rightarrow> GStrs t | GList t \<Rightarrow> GStrs (only_strs t) | _ \<Rightarrow> GNil),
      (''complexity_assessment'', GStr (map_str_or review ''complexity_assessment'' ''appropriate'')),
      (''summary'', GStr (map_str_or review ''summary'' [] @ why))]"

definition gate_review :: "gmap option \<Rightarrow> string \<Rightarrow> gmap option" where
  "gate_review review failed =
     (if failed \<noteq> []
      then Some (gate_auto_review (case review of None \<Rightarrow> [] | Some r \<Rightarrow> r)
        ('' [auto-approved: architecture revision did not complete: '' @ failed @ '']''))
      else case review of
             None \<Rightarrow> None
           | Some r \<Rightarrow> Some (if orch_bool (mget r ''approved'') then r else gate_auto_review r '' [auto-approved after max iterations]''))"

definition revised_plan :: "gmap \<Rightarrow> gmap \<Rightarrow> gmap option \<Rightarrow> gmap \<Rightarrow> gmap" where
  "revised_plan p arch review sprint =
     mset (mset (mset (mset p ''architecture'' (GMap arch)) ''review'' (opt_map review)) ''issues'' (map_get sprint ''issues'' (GList [])))
       ''rationale'' (map_get sprint ''rationale'' (GStr []))"

definition opt_dict :: "gval \<Rightarrow> gmap option" where
  "opt_dict v = (case v of GMap m \<Rightarrow> Some m | _ \<Rightarrow> None)"

text \<open>The first revision, after which the tech lead reviews; a failed one skips the tech lead.\<close>

definition reviewed_revision :: "'x host \<Rightarrow> approval_request \<Rightarrow> gmap \<Rightarrow> string \<Rightarrow> 'x world
    \<Rightarrow> (go_error + gmap option \<times> gmap \<times> string) \<times> 'x world" where
  "reviewed_revision h q p feedback w =
     (let arch = as_map (mget p ''architecture''); review = opt_dict (mget p ''review''); rounds = nat (b_max_reviews (ar_cfg q) + 1)
      in case revise_architecture h q p feedback ''run_architect (human revision)'' w of
           (Inl e, w1) \<Rightarrow> (Inl e, w1)
         | (Inr (Inl failed), w1) \<Rightarrow>
             if failed = [] then feedback_rounds h q p rounds 0 review arch w1 else (Inr (review, arch, failed), w1)
         | (Inr (Inr revised), w1) \<Rightarrow> feedback_rounds h q p rounds 0 None revised w1)"

definition replan_with_feedback :: "'x host \<Rightarrow> approval_request \<Rightarrow> gmap \<Rightarrow> string \<Rightarrow> 'x world
    \<Rightarrow> (go_error + gmap \<times> string) \<times> 'x world" where
  "replan_with_feedback h q p feedback w =
     and_then (reviewed_revision h q p feedback w) (\<lambda>(review, arch, failed) w1.
     and_then (call_node h ''run_sprint_planner'' ([(''prd'', plan_prd p), (''architecture'', GMap arch)] @ gate_role_args q ''sprint_planner_model'')
         ''run_sprint_planner (revision)'' w1) (\<lambda>sprint w2.
     (Inr (revised_plan p arch (gate_review review failed) sprint, failed), w2)))"

section \<open>Submission and decision\<close>

definition cp_base :: "string \<Rightarrow> string" where
  "cp_base server = (let base = trim_right CHR ''/'' (trim_space server) in if base = [] then ''http://localhost:8080'' else base)"

definition gate_payload :: "'x approval_env \<Rightarrow> approval_request \<Rightarrow> gmap \<Rightarrow> int \<Rightarrow> gmap list \<Rightarrow> gmap" where
  "gate_payload env q p i history =
     (let (summary, prd, arch, issues) = format_plan p; node = node_id (av_host env)
      in [(''planSummary'', GStr summary), (''issues'', GMaps issues), (''architecture'', GStr arch), (''prd'', GStr prd),
          (''metadata'', GMap [(''repoUrl'', GStr (b_repo_url (ar_cfg q))), (''goalDescription'', GStr (ar_goal q)),
             (''agentNodeId'', GStr (if node = [] then ''swe-planner'' else node)), (''executionId'', GStr (ar_execution q))]),
          (''revisionNumber'', GInt i), (''revisionHistory'', GMaps history)])"

definition gate_params :: "'x approval_env \<Rightarrow> approval_request \<Rightarrow> gmap \<Rightarrow> int \<Rightarrow> gmap list \<Rightarrow> hax_params" where
  "gate_params env q p i history =
     \<lparr>hp_type = ''plan-review-v2'', hp_payload = gate_payload env q p i history,
      hp_title = ''SWE-AF Plan Review'' @ (if i > 0 then '' (Revision '' @ show_int i @ '')'' else []),
      hp_description = Some ''Review the proposed implementation plan before execution begins'',
      hp_webhook = cp_base (av_server env) @ ''/api/v1/webhooks/approval-response'',
      hp_expires = b_approval_hours (ar_cfg q) * 3600,
      hp_user = trim_space (env_var (av_host env) ''AGENTFIELD_APPROVAL_USER_ID''), hp_metadata = None\<rparr>"

definition approval_state_path :: "approval_request \<Rightarrow> string" where
  "approval_state_path q = path_join [ar_abs_artifacts q, ''approval_state.json'']"

definition approval_state :: "string \<Rightarrow> string \<Rightarrow> string \<Rightarrow> string \<Rightarrow> int \<Rightarrow> gmap" where
  "approval_state decision feedback rid url i =
     [(''decision'', GStr decision), (''feedback'', GStr feedback), (''request_id'', GStr rid), (''request_url'', GStr url),
      (''revision_number'', GInt i)]"

text \<open>Submit the plan and wait for the decision and its feedback.\<close>

definition ask_approval :: "'x approval_env \<Rightarrow> hax_client \<Rightarrow> approval_request \<Rightarrow> gmap \<Rightarrow> int \<Rightarrow> gmap list \<Rightarrow> 'x world
    \<Rightarrow> (go_error + string \<times> string) \<times> 'x world" where
  "ask_approval env client q p i history w =
     (let path = approval_state_path q
      in and_then (create_request (av_hitl env) client (gate_params env q p i history) w) (\<lambda>(rid, url) w1.
         and_then (hl_pause (av_hitl env) \<lparr>po_request = rid, po_url = url, po_hours = b_approval_hours (ar_cfg q), po_execution = ar_execution q\<rparr>
             (write_json (av_disk env) path (approval_state ''pending'' [] rid url i) w1)) (\<lambda>r w2.
         (Inr (pz_decision r, pz_feedback r),
          write_json (av_disk env) path
            (approval_state (pz_decision r) (pz_feedback r) rid url i @ [(''revision_history'', GMaps history)]) w2))))"

definition terminal_outcome :: "gmap \<Rightarrow> string \<Rightarrow> approval_outcome" where
  "terminal_outcome p summary = Terminal (json_map
     [(''plan_result'', GMap p), (''dag_state'', GMap []), (''verification'', GNil), (''success'', GBool False), (''summary'', GStr summary),
      (''pr_results'', GNil), (''ci_gate_results'', GNil), (''pr_url'', GStr [])])"

definition revision_entry :: "int \<Rightarrow> string \<Rightarrow> string \<Rightarrow> gmap" where
  "revision_entry i feedback failed =
     [(''iteration'', GInt i), (''feedback'', GStr feedback)] @ (if failed \<noteq> [] then [(''revision_error'', GStr failed)] else [])"

text \<open>The passes left, the current pass, the history and the plan under review.\<close>

fun approval_rounds :: "'x approval_env \<Rightarrow> hax_client \<Rightarrow> approval_request \<Rightarrow> nat \<Rightarrow> int \<Rightarrow> gmap list \<Rightarrow> gmap \<Rightarrow> 'x world
    \<Rightarrow> (go_error + approval_outcome) \<times> 'x world" where
  "approval_rounds env client q 0 i history p w = (Inr (Proceed (Some p)), w)"
| "approval_rounds env client q (Suc n) i history p w = (case ask_approval env client q p i history w of
     (Inl e, w1) \<Rightarrow> (Inl e, w1)
   | (Inr (decision, feedback), w1) \<Rightarrow>
       if decision = ''approved'' then (Inr (Proceed (Some p)), w1)
       else if decision = ''request_changes''
       then if i \<ge> b_max_plan_revisions (ar_cfg q)
            then (Inr (terminal_outcome p (''Plan revision limit reached after '' @ show_int (i + 1) @ '' iterations'')), w1)
            else (case replan_with_feedback (av_host env) q p feedback w1 of
                (Inl e, w2) \<Rightarrow> (Inl e, w2)
              | (Inr (revised, failed), w2) \<Rightarrow>
                  approval_rounds env client q n (i + 1) (history @ [revision_entry i feedback failed]) revised w2)
       else (Inr (terminal_outcome p (''Plan '' @ decision @ '': '' @ (if feedback = [] then decision else feedback))), w1))"

definition plan_approval_gate :: "'x approval_env \<Rightarrow> approval_request \<Rightarrow> 'x world \<Rightarrow> (go_error + approval_outcome) \<times> 'x world" where
  "plan_approval_gate env q w = (case build_hax_client (env_var (av_host env)) of
     None \<Rightarrow> (Inr (Proceed (Some (ar_plan q))), w)
   | Some client \<Rightarrow>
       if \<not> av_pauser env q then (Inr (Proceed (Some (ar_plan q))), w)
       else approval_rounds env client q (nat (b_max_plan_revisions (ar_cfg q) + 1)) 0 [] (ar_plan q)
              (snd (make_dirs (av_host env) (path_dir (approval_state_path q)) w)))"

end
