(* ===== verification/RunLedger.thy ===== *)
theory RunLedger
  imports RunAccounts
begin

text \<open>
  The abstract specification of a run: an append-only ledger of results. A step books the result of
  one issue that is neither booked nor skipped yet, or skips an issue. Every pass of the main loop
  of \<open>RunDAG\<close>, with all its gates and replans, is simulated by such steps.
\<close>

section \<open>The ledger\<close>

record ledger =
  lg_completed :: "issue_result list"
  lg_failed :: "issue_result list"
  lg_skipped :: "string set"

definition booked_names :: "ledger \<Rightarrow> string list" where
  "booked_names L = map r_name (lg_completed L) @ map r_name (lg_failed L)"

definition booked :: "ledger \<Rightarrow> string set" where
  "booked L = set (booked_names L)"

inductive ledger_step :: "ledger \<Rightarrow> ledger \<Rightarrow> bool" where
  complete: "r_name r \<notin> booked L \<Longrightarrow> r_name r \<notin> lg_skipped L \<Longrightarrow> ledger_step L (L\<lparr>lg_completed := lg_completed L @ [r]\<rparr>)"
| fail: "r_name r \<notin> booked L \<Longrightarrow> r_name r \<notin> lg_skipped L \<Longrightarrow> ledger_step L (L\<lparr>lg_failed := lg_failed L @ [r]\<rparr>)"
| skip: "ledger_step L (L\<lparr>lg_skipped := insert n (lg_skipped L)\<rparr>)"

text \<open>What the steps promise: no result is changed or booked twice, and what is skipped stays unbooked.\<close>

definition ledger_ok :: "ledger \<Rightarrow> bool" where
  "ledger_ok L \<longleftrightarrow> distinct (booked_names L)"

lemma ledger_step_ok: "ledger_step L L' \<Longrightarrow> ledger_ok L \<Longrightarrow> ledger_ok L'"
  by (induction rule: ledger_step.induct) (simp_all add: ledger_ok_def booked_def booked_names_def)

lemma ledger_step_keeps:
  "ledger_step L L' \<Longrightarrow> prefix (lg_completed L) (lg_completed L') \<and> prefix (lg_failed L) (lg_failed L') \<and>
     lg_skipped L \<subseteq> lg_skipped L' \<and> (booked L' - booked L) \<inter> lg_skipped L = {}"
  by (cases rule: ledger_step.cases) (auto simp: booked_def booked_names_def)

lemma ledger_steps_ok: "ledger_step\<^sup>*\<^sup>* L L' \<Longrightarrow> ledger_ok L \<Longrightarrow> ledger_ok L'"
  by (induction rule: rtranclp_induct) (auto intro: ledger_step_ok)

lemma ledger_steps_keep:
  assumes "ledger_step\<^sup>*\<^sup>* L L'"
  shows "prefix (lg_completed L) (lg_completed L') \<and> prefix (lg_failed L) (lg_failed L') \<and>
     lg_skipped L \<subseteq> lg_skipped L' \<and> (booked L' - booked L) \<inter> lg_skipped L = {}"
  using assms
proof (induction rule: rtranclp_induct)
  case (step M N)
  from ledger_step_keeps [OF step(2)] step(3) show ?case
    by (auto intro: prefix_order.order_trans)
qed simp

lemma ledger_completes:
  "distinct (map r_name rs) \<Longrightarrow> r_name ` set rs \<inter> (booked L \<union> lg_skipped L) = {} \<Longrightarrow>
   ledger_step\<^sup>*\<^sup>* L (L\<lparr>lg_completed := lg_completed L @ rs\<rparr>)"
proof (induction rs arbitrary: L)
  case (Cons r rs)
  let ?L = "L\<lparr>lg_completed := lg_completed L @ [r]\<rparr>"
  have "ledger_step L ?L" using Cons.prems by (intro ledger_step.complete) auto
  moreover have "ledger_step\<^sup>*\<^sup>* ?L (?L\<lparr>lg_completed := lg_completed ?L @ rs\<rparr>)"
    using Cons.prems by (intro Cons.IH) (auto simp: booked_def booked_names_def)
  ultimately show ?case by (simp add: converse_rtranclp_into_rtranclp)
qed simp

lemma ledger_fails:
  "distinct (map r_name rs) \<Longrightarrow> r_name ` set rs \<inter> (booked L \<union> lg_skipped L) = {} \<Longrightarrow>
   ledger_step\<^sup>*\<^sup>* L (L\<lparr>lg_failed := lg_failed L @ rs\<rparr>)"
proof (induction rs arbitrary: L)
  case (Cons r rs)
  let ?L = "L\<lparr>lg_failed := lg_failed L @ [r]\<rparr>"
  have "ledger_step L ?L" using Cons.prems by (intro ledger_step.fail) auto
  moreover have "ledger_step\<^sup>*\<^sup>* ?L (?L\<lparr>lg_failed := lg_failed ?L @ rs\<rparr>)"
    using Cons.prems by (intro Cons.IH) (auto simp: booked_def booked_names_def)
  ultimately show ?case by (simp add: converse_rtranclp_into_rtranclp)
qed simp

lemma ledger_skips: "ledger_step\<^sup>*\<^sup>* L (L\<lparr>lg_skipped := lg_skipped L \<union> set ns\<rparr>)"
proof (induction ns arbitrary: L)
  case (Cons n ns)
  let ?L = "L\<lparr>lg_skipped := insert n (lg_skipped L)\<rparr>"
  have "ledger_step L ?L" by (rule ledger_step.skip)
  with Cons [of ?L] show ?case by (simp add: converse_rtranclp_into_rtranclp)
qed simp

section \<open>The simulation\<close>

definition ledger_of :: "dag_state \<Rightarrow> ledger" where
  "ledger_of s = \<lparr>lg_completed = d_completed s, lg_failed = d_failed s, lg_skipped = set (d_skipped s)\<rparr>"

definition advances :: "dag_state \<Rightarrow> dag_state \<Rightarrow> bool" where
  "advances s s' \<longleftrightarrow> ledger_step\<^sup>*\<^sup>* (ledger_of s) (ledger_of s')"

lemma advances_refl [simp]: "advances s s"
  by (simp add: advances_def)

lemma advances_trans: "advances s s' \<Longrightarrow> advances s' s'' \<Longrightarrow> advances s s''"
  by (simp add: advances_def)

lemma advances_same: "ledger_of s' = ledger_of s \<Longrightarrow> advances s s'"
  by (simp add: advances_def)

lemma keeps_advances: "keeps s s' \<Longrightarrow> advances s s'"
  using ledger_skips [of "ledger_of s" "d_skipped s'"]
  by (auto simp: keeps_def advances_def ledger_of_def Un_absorb1)

text \<open>A level books fresh names only.\<close>

lemma record_level_advances:
  assumes "distinct (level_names l)" and "set (level_names l) \<inter> set (done_names s) = {}"
  shows "advances s (record_level l s)"
proof -
  let ?L = "ledger_of s" let ?L1 = "?L\<lparr>lg_completed := lg_completed ?L @ l_completed l\<rparr>"
  have "ledger_step\<^sup>*\<^sup>* ?L ?L1" using assms
    by (intro ledger_completes) (auto simp: level_names_def booked_def booked_names_def ledger_of_def done_names_def completed_names_def failed_names_def)
  also have "ledger_step\<^sup>*\<^sup>* ?L1 (?L1\<lparr>lg_failed := lg_failed ?L1 @ l_failed l\<rparr>)" using assms
    by (intro ledger_fails) (auto simp: level_names_def booked_def booked_names_def ledger_of_def done_names_def completed_names_def failed_names_def)
  also (rtranclp_trans) have "ledger_step\<^sup>*\<^sup>* \<dots> (ledger_of (record_level l s))"
    using ledger_skips [of "ledger_of s\<lparr>lg_completed := d_completed s @ l_completed l, lg_failed := d_failed s @ l_failed l\<rparr>" "map r_name (l_skipped l)"]
    by (simp add: ledger_of_def record_level_def)
  finally (rtranclp_trans) show ?thesis by (simp add: advances_def)
qed

fun end_advances :: "dag_state \<Rightarrow> pass_end \<Rightarrow> bool" where
  "end_advances s (Loop s' idx') = advances s s'"
| "end_advances s (Leave s') = advances s s'"
| "end_advances s (End (Returned (Some s') e)) = advances s s'"
| "end_advances s (End r) = True"

lemma end_advances_trans: "advances s s' \<Longrightarrow> end_advances s' e \<Longrightarrow> end_advances s e"
  by (cases "(s, e)" rule: end_advances.cases) (auto intro: advances_trans)

lemma run_gates_advances:
  assumes g: "run_gates eng opts conflicts active l s idx w = (e, w')"
  shows "end_advances s e"
  using run_gates_ok [OF g]
proof
  assume "\<exists>s' idx'. keeps s s' \<and> (shape s idx \<longrightarrow> shape s' idx') \<and> pass_ok s' idx' e"
  then obtain s' idx' where k: "keeps s s'" "pass_ok s' idx' e" by blast
  then have "end_advances s' e" by (cases "(s', idx', e)" rule: pass_ok.cases) (auto intro: keeps_advances)
  then show ?thesis by (rule end_advances_trans [OF keeps_advances [OF k(1)]])
qed auto

lemma run_level_advances:
  assumes r: "run_level eng opts conflicts (active_issues s idx names) s idx w = (e, w')"
    and ok: "run_ok s idx" and names: "distinct names"
  shows "end_advances s e"
  using r ok
proof (cases rule: run_level_cases)
  case (executed s1 idx1 active l w2)
  have idx: "index_ok idx" using ok by (simp add: run_ok_def shape_def)
  have same: "ledger_of s1 = ledger_of s" "done_names s1 = done_names s"
    using executed(1) by (simp_all add: core_def ledger_of_def done_names_def completed_names_def failed_names_def)
  have "advances s1 (record_level l s1)"
  proof (rule record_level_advances)
    note counts = same_counts [of "level_names l" "map issue_name (active_issues s idx names)", OF executed(6)]
    show "distinct (level_names l)" using counts(2) names by (simp add: active_names [OF idx])
    show "set (level_names l) \<inter> set (done_names s1) = {}"
      using counts(1) unfolding active_names [OF idx] same by auto
  qed
  then have adv: "advances s (record_level l s1)" using advances_same [OF same(1)] advances_trans by blast
  show ?thesis
  proof (cases "too_many_failed (e_cfg eng) l")
    case True
    have "keeps (record_level l s1) (skip_future (record_level l s1))" by (auto simp: keeps_def skip_future_def)
    with executed(8) True adv keeps_advances advances_trans show ?thesis by (metis end_advances.simps(2) fst_conv)
  next
    case False
    with executed(8) have "run_gates eng opts conflicts active l (record_level l s1) idx1 w2 = (e, w')" by simp
    from end_advances_trans [OF adv run_gates_advances [OF this]] show ?thesis .
  qed
qed simp

lemma run_pass_advances:
  assumes "run_pass eng opts conflicts s idx w = (e, w')" and ok: "run_ok s idx" and "d_level s < int (length (d_levels s))"
  shows "end_advances s e"
proof (cases "ctx_err w")
  case None
  let ?names = "d_levels s ! nat (d_level s)"
  have pos: "0 \<le> d_level s" using ok by (simp add: run_ok_def shape_def)
  then have "?names \<in> set (d_levels s)" using assms(3) by simp
  then have names: "distinct ?names" using ok by (simp add: run_ok_def shape_def)
  show ?thesis
  proof (cases "active_issues s idx ?names = []")
    case True
    with assms(1) pos None have "e = Loop (s\<lparr>d_level := d_level s + 1\<rparr>) idx" by (simp add: run_pass_def)
    then show ?thesis by (simp add: advances_same ledger_of_def)
  next
    case False
    with assms(1) pos None have "run_level eng opts conflicts (active_issues s idx ?names) s idx w = (e, w')"
      by (simp add: run_pass_def)
    from run_level_advances [OF this ok names] show ?thesis .
  qed
next
  case (Some err)
  with assms(1) show ?thesis by (auto simp: run_pass_def)
qed

fun result_advances :: "dag_state \<Rightarrow> run_end \<Rightarrow> bool" where
  "result_advances s (Returned (Some s') e) = advances s s'"
| "result_advances s r = True"

lemma result_advances_trans: "advances s s' \<Longrightarrow> result_advances s' r \<Longrightarrow> result_advances s r"
  by (cases "(s, r)" rule: result_advances.cases) (auto intro: advances_trans)

lemma finish_run_advances: "result_advances s (fst (finish_run eng s w))"
  by (auto simp: finish_run_def advances_same ledger_of_def split: option.splits prod.splits)

lemma run_levels_advances:
  "run_levels eng opts conflicts s idx w = Some out \<Longrightarrow> run_ok s idx \<Longrightarrow> result_advances s (fst out)"
proof (induction s idx w out rule: run_levels_induct)
  case (finish s idx w)
  show ?case by (rule finish_run_advances)
next
  case (loop s idx w s1 idx1 w1 out)
  from run_pass_advances [OF loop(2,4,1)] run_pass_end [OF loop(2,4,1)] loop(3) show ?case
    by (auto intro: result_advances_trans)
next
  case (leave s idx w s1 w1)
  from run_pass_advances [OF leave(2,3,1)] show ?case by (auto intro: result_advances_trans finish_run_advances)
next
  case (stop s idx w r w1)
  from run_pass_advances [OF stop(2,3,1)] show ?case by (cases "(s, r)" rule: result_advances.cases) auto
qed

lemma run_steps_ledger:
  assumes run: "run_dag eng opts plan repo w = Some (r, w')"
    and ok: "run_ok (start_run (e_cfg eng) opts plan repo w) (index_issues (d_issues (start_run (e_cfg eng) opts plan repo w)) [])"
  shows "r \<noteq> Panicked \<and> (\<forall>s e. r = Returned (Some s) e \<longrightarrow>
    ledger_step\<^sup>*\<^sup>* (ledger_of (start_run (e_cfg eng) opts plan repo w)) (ledger_of s))"
proof
  let ?s = "start_run (e_cfg eng) opts plan repo w"
  show "r \<noteq> Panicked" using run_dag_ok [OF run ok] by auto
  have "result_advances ?s r"
  proof (cases rule: run_dag_cases [of eng opts plan repo w])
    case (failed e w1)
    with run have "r = Returned None (Some e)" by simp
    then show ?thesis by simp
  next
    case (runs m w1)
    have "run_ok (?s\<lparr>d_manifest := m\<rparr>) (index_issues (d_issues ?s) [])"
      using ok by (simp add: run_ok_def shape_def completed_names_def failed_names_def)
    moreover have "advances ?s (?s\<lparr>d_manifest := m\<rparr>)" by (simp add: advances_same ledger_of_def)
    moreover note run_levels_advances [of "with_defaults eng" opts _ "?s\<lparr>d_manifest := m\<rparr>" _ w1 "(r, w')"]
    ultimately show ?thesis using run runs by (auto intro: result_advances_trans)
  qed
  then show "\<forall>s e. r = Returned (Some s) e \<longrightarrow> ledger_step\<^sup>*\<^sup>* (ledger_of ?s) (ledger_of s)"
    by (auto simp: advances_def)
qed

text \<open>
  C4: Every run of \<open>RunDAG\<close> refines the ledger: started from any state that satisfies the invariant,
  afresh or from a checkpoint, it does not panic, and the results and skips of the state it returns
  (also with an error) come from those it started with by ledger steps. So each result is appended
  for an issue that at that time had no result and was not skipped, whatever the advisor, the
  splits and the replans did in between.
\<close>

theorem run_refines_ledger:
  assumes run: "run_dag eng opts plan repo w = Some (r, w')"
    and ok: "run_ok (start_run (e_cfg eng) opts plan repo w) (index_issues (d_issues (start_run (e_cfg eng) opts plan repo w)) [])"
  shows "r \<noteq> Panicked \<and> (\<forall>s e. r = Returned (Some s) e \<longrightarrow>
    ledger_step\<^sup>*\<^sup>* (ledger_of (start_run (e_cfg eng) opts plan repo w)) (ledger_of s))"
  using run_steps_ledger [OF assms] .

theorem run_refines_ledger_witness:
  "\<exists>s w'. run_dag (scripted both_done) fresh_opts two_issues ''/r'' demo_world = Some (Returned (Some s) None, w') \<and>
    map r_name (lg_completed (ledger_of s)) = [''a'', ''b''] \<and>
    ledger_step\<^sup>*\<^sup>* (ledger_of (start_run (e_cfg (scripted both_done)) fresh_opts two_issues ''/r'' demo_world)) (ledger_of s)"
proof -
  obtain s w' where run: "run_dag (scripted both_done) fresh_opts two_issues ''/r'' demo_world = Some (Returned (Some s) None, w')"
    "completed_names s = [''a'', ''b'']" by (rule both_done_run)
  from run_refines_ledger [OF run(1) fresh_start [OF demo_opts(3) two_issues_plan]] run show ?thesis
    by (auto simp: completed_names_def ledger_of_def)
qed

end
