(* ===== verification/PlanCorrect.thy ===== *)
theory PlanCorrect
  imports PlanRun PlainKeys RunLedger HostDemo
begin

text \<open>
  The planning pipeline: what it returns is a plan the engine can run (the issues the sprint planner
  named, in topological levels), always approved, and a revision of the architecture that fails
  leaves the architecture file as it was.
\<close>

section \<open>A validated issue keeps its name and its dependencies\<close>

definition planned_fields :: "(string \<times> jtype \<times> gval) list" where
  "planned_fields = (case j_planned_issue of JObj fs \<Rightarrow> fs | _ \<Rightarrow> [])"

lemma planned_fields:
  "j_planned_issue = JObj planned_fields" "distinct (map fst planned_fields)"
  "(''name'', JString, GStr []) \<in> set planned_fields" "(''depends_on'', JSlice JString, GNil) \<in> set planned_fields"
  by (simp_all add: planned_fields_def j_planned_issue_def fld_def)

lemma plain_names [simp]: "to_lower ''name'' = ''name''" "to_lower ''depends_on'' = ''depends_on''"
  "to_lower ''sequence_number'' = ''sequence_number''" "to_lower ''approved'' = ''approved''"
  by code_simp+

lemma coerce_ok: "coerce t required label m = Inr v \<longleftrightarrow>
    (\<forall>k \<in> set required. map_of m k \<noteq> None) \<and> map_to_struct t m = (v, True)"
  by (auto simp: coerce_def filter_empty_conv filter_eq_Cons_iff split: list.splits prod.splits if_splits)

lemma coerced_issue:
  assumes c: "coerce j_planned_issue [''name'', ''title'', ''description'', ''acceptance_criteria''] label m = Inr v" and plain: "plain_keys m"
  shows "issue_name (json_map v) = issue_name m" and "depends_on (json_map v) = depends_on m"
proof -
  from c obtain v' where d: "decode (JObj planned_fields) (zero_of (JObj planned_fields)) (GMap (json_map m)) = (v', True)" and v: "v = as_map v'"
    by (auto simp: coerce_ok map_to_struct_def planned_fields(1) split: prod.splits)
  have trip: "mget (json_map v) k = json_trip (mget v k)" for k
    by (cases "map_of v k") (simp_all add: mget_def lookup_def_def map_of_json_map)
  from c obtain x where x: "map_of m ''name'' = Some x" by (auto simp: coerce_ok)
  then have f: "json_field (json_map m) ''name'' = Some (json_trip x)" using plain by (simp add: json_field_plain)
  have "snd (decode JString (GStr []) (json_trip x))" using decode_obj_field(2) [OF planned_fields(2,3) d f] .
  from decode_string_text [OF this] have "mget v ''name'' = GStr (as_string x)"
    using decode_obj_field(1) [OF planned_fields(2,3) d] f by (simp add: v)
  then show "issue_name (json_map v) = issue_name m" using x by (simp add: issue_name_def trip) (simp add: mget_def lookup_def_def)
  show "depends_on (json_map v) = depends_on m"
  proof (cases "map_of m ''depends_on''")
    case None
    then have "json_field (json_map m) ''depends_on'' = None" using plain by (simp add: json_field_plain)
    with decode_obj_field(1) [OF planned_fields(2,4) d] have "mget v ''depends_on'' = GNil" by (simp add: v)
    with None show ?thesis by (simp add: depends_on_def trip) (simp add: mget_def lookup_def_def)
  next
    case (Some y)
    then have g: "json_field (json_map m) ''depends_on'' = Some (json_trip y)" using plain by (simp add: json_field_plain)
    with decode_obj_field [OF planned_fields(2,4) d] decode_texts [of y] Some
    show ?thesis by (simp add: v [symmetric] depends_on_def trip) (simp add: v mget_def lookup_def_def)
  qed
qed

lemma coerced_issues:
  "coerce_issues is = Inr vs \<Longrightarrow> \<forall>i \<in> set is. plain_keys i \<Longrightarrow>
   map issue_name (map json_map vs) = map issue_name is \<and> map depends_on (map json_map vs) = map depends_on is"
proof (induction "is" arbitrary: vs rule: coerce_issues.induct)
  case (2 i "is")
  from 2(2) obtain v vs' where c: "coerce j_planned_issue [''name'', ''title'', ''description'', ''acceptance_criteria''] ''PlannedIssue'' i = Inr v"
      "coerce_issues is = Inr vs'" "vs = v # vs'"
    by (auto split: sum.splits)
  from 2(1) [OF c(1,2)] coerced_issue [OF c(1)] 2(3) show ?case by (simp add: c(3))
qed simp

text \<open>Names and dependencies determine the graph.\<close>

lemma edges_same: "map issue_name is = map issue_name js \<Longrightarrow> map depends_on is = map depends_on js \<Longrightarrow> edges P is = edges P js"
proof -
  assume n: "map issue_name is = map issue_name js" and d: "map depends_on is = map depends_on js"
  have "edges P is = {(dep, name). \<exists>(n, ds) \<in> set (zip (map issue_name is) (map depends_on is)). name = n \<and> dep \<in> set ds \<and> P dep}" for "is"
    by (auto simp: edges_def zip_map_map zip_same_conv_map)
  with n d show ?thesis by simp
qed

section \<open>The plan that is returned\<close>

text \<open>A plan read by the engine: its issues and its levels.\<close>

definition plan_issues :: "gmap \<Rightarrow> gmap list" where
  "plan_issues m = maps_of (mget m ''issues'')"

definition plan_levels :: "gmap \<Rightarrow> string list list" where
  "plan_levels m = coerce_levels (mget m ''levels'')"

lemma levels_trip: "coerce_levels (json_trip (GList (map strs levels))) = levels"
  by (simp add: coerce_levels_def strs_def strs_of_def as_string_slice_def comp_def)

lemma plan_result_cases:
  assumes "build_plan_result prd arch review issues levels conflicts base rationale = Inr m"
  obtains prd' arch' review' vs where "coerce_issues issues = Inr vs"
    "coerce j_review [''approved'', ''feedback'', ''summary''] ''ReviewResult'' review = Inr review'"
    "plan_issues m = map json_map vs" "plan_levels m = levels" "mget m ''review'' = GMap (json_map review')"
proof -
  from assms obtain prd' arch' review' "is" where c: "coerce_issues issues = Inr is"
      "coerce j_review [''approved'', ''feedback'', ''summary''] ''ReviewResult'' review = Inr review'"
    and m: "m = json_map
      [(''prd'', GMap prd'), (''architecture'', GMap arch'), (''review'', GMap review'), (''issues'', GMaps is),
       (''levels'', GList (map strs levels)), (''file_conflicts'', GMaps conflicts), (''artifacts_dir'', GStr base),
       (''rationale'', GStr rationale)]"
    by (auto simp: build_plan_result_def split: sum.splits)
  have "mget m ''issues'' = json_trip (GMaps is)" "mget m ''levels'' = json_trip (GList (map strs levels))"
    "mget m ''review'' = json_trip (GMap review')"
    unfolding m mget_def lookup_def_def map_of_json_map by simp_all
  then have "plan_issues m = map json_map is" "plan_levels m = levels" "mget m ''review'' = GMap (json_map review')"
    unfolding plan_issues_def plan_levels_def by (simp_all only: maps_of_def as_map_slice_trip_maps option.case levels_trip json_trip_GMap)
  with that [OF c] show ?thesis .
qed

lemma schedule_plan_cases:
  assumes "schedule_plan h p prd arch review sprint w = (Inr m, w')"
  obtains levels conflicts base rationale where "compute_levels (maps_of (mget sprint ''issues'')) = Inr levels"
    "build_plan_result prd arch review (assign_sequence_numbers (maps_of (mget sprint ''issues'')) levels) levels conflicts base rationale = Inr m"
  using assms by (auto simp: schedule_plan_def Let_def and_then_Inr split: sum.splits)

lemma numbered_same:
  assumes lv: "compute_levels issues = Inr levels"
  shows "map issue_name (assign_sequence_numbers issues levels) = map issue_name issues"
    "map depends_on (assign_sequence_numbers issues levels) = map depends_on issues"
    "\<forall>i \<in> set issues. plain_keys i \<Longrightarrow> \<forall>i \<in> set (assign_sequence_numbers issues levels). plain_keys i"
proof -
  let ?out = "assign_sequence_numbers issues levels"
  have len: "length ?out = length issues"
    using compute.sound [OF lv] by (simp add: assign_sequence_numbers_def name_order_def add_all_unique_Nil_distinct split: prod.split)
  have nth: "\<exists>k. ?out ! i = mset (issues ! i) ''sequence_number'' (GInt k)" if "i < length issues" for i
    using assign_sequence_numbers_nth [OF lv that] by blast
  show "map issue_name ?out = map issue_name issues" "map depends_on ?out = map depends_on issues"
    using nth len by (fastforce intro!: nth_equalityI simp: issue_name_def depends_on_def)+
  assume "\<forall>i \<in> set issues. plain_keys i"
  then have plain: "plain_keys (mset (issues ! i) ''sequence_number'' v)" if "i < length issues" for i v
    using that by (intro plain_keys_mset) simp_all
  have "plain_keys (?out ! i)" if "i < length issues" for i
    using nth [OF that] plain [OF that] by auto
  with len show "\<forall>i \<in> set ?out. plain_keys i" by (simp add: all_set_conv_all_nth)
qed

lemma planned_levels_raw:
  assumes s: "schedule_plan h p prd arch review sprint w = (Inr m, w')"
    and keys: "\<forall>i \<in> set (maps_of (mget sprint ''issues'')). plain_keys i"
  shows "map issue_name (plan_issues m) = map issue_name (maps_of (mget sprint ''issues'')) \<and>
    map depends_on (plan_issues m) = map depends_on (maps_of (mget sprint ''issues'')) \<and>
    distinct (map issue_name (plan_issues m)) \<and>
    topological (edges (\<lambda>d. d \<in> set (map issue_name (plan_issues m))) (plan_issues m))
      (set (map issue_name (plan_issues m))) (plan_levels m)"
proof -
  let ?issues = "maps_of (mget sprint ''issues'')"
  from s obtain levels conflicts base rationale where lv: "compute_levels ?issues = Inr levels"
    and b: "build_plan_result prd arch review (assign_sequence_numbers ?issues levels) levels conflicts base rationale = Inr m"
    by (rule schedule_plan_cases)
  from b obtain "is" where c: "coerce_issues (assign_sequence_numbers ?issues levels) = Inr is"
    and m: "plan_issues m = map json_map is" "plan_levels m = levels" by (rule plan_result_cases)
  have same: "map issue_name (plan_issues m) = map issue_name ?issues" "map depends_on (plan_issues m) = map depends_on ?issues"
    using coerced_issues [OF c numbered_same(3) [OF lv keys]] numbered_same(1,2) [OF lv] unfolding m(1) by simp_all
  then have "edges (\<lambda>d. d \<in> set (map issue_name ?issues)) (plan_issues m) = edges (\<lambda>d. d \<in> set (map issue_name ?issues)) ?issues"
    by (rule edges_same)
  with compute.sound [OF lv] show ?thesis unfolding same m(2) by simp
qed

text \<open>
  A plan that is returned can be scheduled: its issues are those of the sprint planner, in order
  and under distinct names, with the dependencies they were given, although they went through the
  decoder, and its levels are a topological partition of them.
\<close>

theorem planned_levels:
  assumes s: "schedule_plan h p prd arch review sprint w = (Inr m, w')"
    and keys: "\<forall>i \<in> set (maps_of (mget sprint ''issues'')). plain_keys i"
  shows "map issue_name (plan_issues m) = map issue_name (maps_of (mget sprint ''issues'')) \<and>
    map depends_on (plan_issues m) = map depends_on (maps_of (mget sprint ''issues'')) \<and>
    distinct (map issue_name (plan_issues m)) \<and>
    topological (edges (\<lambda>d. d \<in> set (map issue_name (plan_issues m))) (plan_issues m))
      (set (map issue_name (plan_issues m))) (plan_levels m)"
  using planned_levels_raw [OF assms] .

text \<open>
  C5: From the planner to the engine: a run that starts afresh from a returned plan whose issues have
  names never panics, and what it books refines the ledger from the empty one, so each planned issue
  gets at most one result.
\<close>

theorem planned_run:
  assumes s: "schedule_plan h p prd arch review sprint w = (Inr m, w')"
    and keys: "\<forall>i \<in> set (maps_of (mget sprint ''issues'')). plain_keys i \<and> issue_name i \<noteq> []"
    and run: "run_dag eng opts m repo w1 = Some (r, w2)" and fresh: "\<not> o_resume opts"
  shows "r \<noteq> Panicked \<and> (\<forall>s e. r = Returned (Some s) e \<longrightarrow>
    ledger_step\<^sup>*\<^sup>* \<lparr>lg_completed = [], lg_failed = [], lg_skipped = {}\<rparr> (ledger_of s) \<and>
    distinct (map r_name (d_completed s @ d_failed s)))"
proof -
  let ?issues = "maps_of (mget sprint ''issues'')" let ?s0 = "start_run (e_cfg eng) opts m repo w1"
  have plan: "map issue_name (plan_issues m) = map issue_name ?issues"
    "topological (edges (\<lambda>d. d \<in> set (map issue_name (plan_issues m))) (plan_issues m)) (set (map issue_name (plan_issues m))) (plan_levels m)"
    using planned_levels_raw [OF s] keys by blast+
  have "all_named (plan_issues m)" using keys unfolding all_named_def plan(1) by auto
  moreover have "\<forall>lv \<in> set (plan_levels m). distinct lv"
    using plan(2) by (auto simp: topological_def distinct_concat_iff)
  ultimately have ok: "run_ok ?s0 (index_issues (d_issues ?s0) [])"
    unfolding plan_issues_def plan_levels_def by (rule fresh_start [OF fresh])
  have "ledger_of ?s0 = \<lparr>lg_completed = [], lg_failed = [], lg_skipped = {}\<rparr>"
    using fresh by (simp add: start_run_def Let_def ledger_of_def init_dag_state_def zero_state_def split: option.splits)
  with run_steps_ledger [OF run ok] have *: "r \<noteq> Panicked \<and> (\<forall>s e. r = Returned (Some s) e \<longrightarrow>
      ledger_step\<^sup>*\<^sup>* \<lparr>lg_completed = [], lg_failed = [], lg_skipped = {}\<rparr> (ledger_of s))" by simp
  moreover have "distinct (map r_name (d_completed s @ d_failed s))" if "r = Returned (Some s) e" for s e
    using ledger_steps_ok * that by (fastforce simp: ledger_ok_def booked_names_def ledger_of_def)
  ultimately show ?thesis by blast
qed

section \<open>The review loop\<close>

lemma restored_file:
  assumes "faithful_file h path"
    and "\<And>x. read_file h path w1 \<noteq> Unreadable x" and "\<And>x. read_file h path w2 \<noteq> Unreadable x"
  shows "read_file h path (restore_architecture h path (snapshot_architecture h path w1) w2) = read_file h path w1"
  using assms by (auto simp: restore_architecture_def snapshot_architecture_def faithful_file_def split: file_text.splits)

text \<open>
  One pass of the loop that goes on: the tech lead, asked about the pass, does not approve, and the
  architect, given the feedback, answers with the next architecture.
\<close>

definition ask_tech_lead :: "'x host \<Rightarrow> plan_input \<Rightarrow> gmap \<Rightarrow> int \<Rightarrow> 'x world \<Rightarrow> (go_error + gmap) \<times> 'x world" where
  "ask_tech_lead h p prd i w = call_node h ''run_tech_lead'' (tech_lead_args (env_var h) p prd i) ''run_tech_lead'' w"

definition ask_revision :: "'x host \<Rightarrow> plan_input \<Rightarrow> gmap \<Rightarrow> gmap \<Rightarrow> 'x world \<Rightarrow> (go_error + gmap) \<times> 'x world" where
  "ask_revision h p prd rv w =
     call_node h ''run_architect'' ((''feedback'', mget rv ''feedback'') # architect_args (env_var h) p prd) ''run_architect (revision)'' w"

inductive review_step :: "'x host \<Rightarrow> plan_input \<Rightarrow> gmap \<Rightarrow> int \<times> gmap \<times> 'x world \<Rightarrow> int \<times> gmap \<times> 'x world \<Rightarrow> bool" for h p prd where
  revised: "\<lbrakk>i < pi_max p; ask_tech_lead h p prd i w = (Inr rv, w1); \<not> orch_bool (mget rv ''approved'');
      ask_revision h p prd rv w1 = (Inr arch', w2)\<rbrakk>
    \<Longrightarrow> review_step h p prd (i, arch, w) (i + 1, arch', w2)"

text \<open>
  C9: A revision of the architecture that fails, with an error that does not end the plan, changes
  nothing. When the review loop ends on such a revision, it had reached by complete revisions
  a pass in which the tech lead did not approve and the architect, given that feedback, failed; the
  architecture it keeps is exactly the one of that pass, the review that of its tech lead; the error
  is neither fatal nor a cancellation or a timeout of the build, for those end the plan; and if
  \<open>architecture.md\<close> can be read and written, it is what it was before the failed revision, whatever
  the architect left behind.
\<close>

theorem failed_revision_restores:
  assumes "review_rounds h p prd n i rv arch w = (Inr (rv', arch', Some e), w')"
    and "faithful_file h (architecture_path h p)" and "\<forall>w x. read_file h (architecture_path h p) w \<noteq> Unreadable x"
  shows "\<exists>j wj review w1 err w2. (review_step h p prd)\<^sup>*\<^sup>* (i, arch, w) (j, arch', wj) \<and> j < pi_max p \<and>
    ask_tech_lead h p prd j wj = (Inr review, w1) \<and> \<not> orch_bool (mget review ''approved'') \<and> rv' = Some review \<and>
    ask_revision h p prd review w1 = (Inl err, w2) \<and> \<not> non_degradable err \<and> e = first_n (err_text err) 500 \<and>
    read_file h (architecture_path h p) w' = read_file h (architecture_path h p) w1"
proof -
  let ?path = "architecture_path h p"
  let ?failed = "\<lambda>i (arch :: gmap) w j. \<exists>wj review w1 err w2. (review_step h p prd)\<^sup>*\<^sup>* (i, arch, w) (j, arch', wj) \<and> j < pi_max p \<and>
    ask_tech_lead h p prd j wj = (Inr review, w1) \<and> \<not> orch_bool (mget review ''approved'') \<and> rv' = Some review \<and>
    ask_revision h p prd review w1 = (Inl err, w2) \<and> \<not> non_degradable err \<and> e = first_n (err_text err) 500 \<and>
    read_file h ?path w' = read_file h ?path w1"
  have "\<exists>j \<ge> i. ?failed i arch w j" using assms(1)
  proof (induction n arbitrary: i rv arch w)
    case (Suc n)
    obtain t w1 where t: "ask_tech_lead h p prd i w = (t, w1)" by force
    from Suc.prems t obtain review where review: "t = Inr review" "\<not> orch_bool (mget review ''approved'')"
      by (cases t) (auto simp: ask_tech_lead_def split: if_splits)
    note lead = t [unfolded review(1)]
    show ?case
    proof (cases "i < pi_max p")
      case False
      with Suc.prems lead review have "review_rounds h p prd n (i + 1) (Some review) arch w1 = (Inr (rv', arch', Some e), w')"
        by (simp add: ask_tech_lead_def)
      from Suc.IH [OF this] False show ?thesis by auto
    next
      case True
      obtain a w2 where a: "ask_revision h p prd review w1 = (a, w2)" by force
      show ?thesis
      proof (cases a)
        case (Inr revised)
        with Suc.prems lead review a True have "review_rounds h p prd n (i + 1) (Some review) revised w2 = (Inr (rv', arch', Some e), w')"
          by (simp add: ask_tech_lead_def ask_revision_def)
        from Suc.IH [OF this] obtain j where j: "i + 1 \<le> j" "?failed (i + 1) revised w2 j" by blast
        have "review_step h p prd (i, arch, w) (i + 1, revised, w2)" using True lead review(2) a Inr by (intro revised) simp_all
        moreover from j(2) obtain wj where wj: "(review_step h p prd)\<^sup>*\<^sup>* (i + 1, revised, w2) (j, arch', wj)"
          and rest: "\<exists>review w1 err w2. j < pi_max p \<and>
            ask_tech_lead h p prd j wj = (Inr review, w1) \<and> \<not> orch_bool (mget review ''approved'') \<and> rv' = Some review \<and>
            ask_revision h p prd review w1 = (Inl err, w2) \<and> \<not> non_degradable err \<and> e = first_n (err_text err) 500 \<and>
            read_file h ?path w' = read_file h ?path w1" by blast
        ultimately have "(review_step h p prd)\<^sup>*\<^sup>* (i, arch, w) (j, arch', wj)" by (simp add: converse_rtranclp_into_rtranclp)
        with rest have "?failed i arch w j" by blast
        moreover have "i \<le> j" using j(1) by simp
        ultimately show ?thesis by blast
      next
        case (Inl err)
        with Suc.prems lead review a True have r: "\<not> non_degradable err" "arch' = arch" "e = first_n (err_text err) 500" "rv' = Some review"
          "w' = restore_architecture h ?path (snapshot_architecture h ?path w1) w2"
          by (auto simp: ask_tech_lead_def ask_revision_def truncate_revision_error_def split: if_splits)
        then have "read_file h ?path w' = read_file h ?path w1" using restored_file [OF assms(2), of w1 w2] assms(3) by simp
        with r(1-4) True lead review(2) a Inl have "?failed i arch w i" by blast
        then show ?thesis by blast
      qed
    qed
  qed simp
  then show ?thesis by blast
qed

section \<open>Example plans\<close>

definition demo_input :: plan_input where
  "demo_input = \<lparr>pi_goal = ''g'', pi_repo = ''/r'', pi_artifacts = ''.artifacts'', pi_context = [], pi_max = 2, pi_pm = ''m'',
     pi_architect = ''m'', pi_tech_lead = ''m'', pi_sprint = ''m'', pi_writer = ''m'', pi_permission = [], pi_provider = ''claude'',
     pi_manifest = GNil\<rparr>"

definition demo_prd :: gmap where
  "demo_prd = [(''validated_description'', GStr ''d''), (''acceptance_criteria'', GList [GStr ''c'']), (''must_have'', GList []),
     (''nice_to_have'', GList []), (''out_of_scope'', GList [])]"

definition demo_arch :: gmap where
  "demo_arch = [(''summary'', GStr ''s''), (''components'', GList []), (''interfaces'', GList []), (''decisions'', GList []),
     (''file_changes_overview'', GStr ''f'')]"

definition demo_review :: "bool \<Rightarrow> gmap" where
  "demo_review ok = [(''approved'', GBool ok), (''feedback'', GStr ''more''), (''summary'', GStr ''s'')]"

definition demo_issue :: "string \<Rightarrow> string list \<Rightarrow> gmap" where
  "demo_issue n ds = [(''name'', GStr n), (''title'', GStr n), (''description'', GStr n), (''acceptance_criteria'', GList []),
     (''depends_on'', strs ds)]"

definition demo_sprint :: gmap where
  "demo_sprint = [(''issues'', GList [GMap (demo_issue ''b'' [''a'']), GMap (demo_issue ''a'' [])]), (''rationale'', GStr ''r'')]"

text \<open>The architect overwrites the file and fails; all other roles answer.\<close>

definition demo_roles :: "disk call" where
  "demo_roles target args w =
     (if target = ''swe-planner.run_architect''
      then (Inl (Plain ''no answer''), w\<lparr>outside := (outside w)(''/r/.artifacts/plan/architecture.md'' := Some ''half'')\<rparr>)
      else (Inr (demo_review False), w))"

definition planner_host :: "disk host" where
  "planner_host = demo_host demo_roles (\<lambda>args. ([], [], 0))"

lemma coerce_decodes:
  assumes "decodes t required m"
  shows "coerce t required label m = Inr (decoded t m)"
proof -
  from assms have "t = JObj (fields_of t)" by (cases t) (simp_all add: decodes_def is_object_def fields_of_def)
  with assms map_to_struct_plain [of m "fields_of t"] have "map_to_struct t m = (decoded t m, True)"
    by (simp add: decodes_def decoded_def prod_eq_iff)
  with assms show ?thesis by (simp add: coerce_ok decodes_def list_all_iff)
qed

definition demo_issues :: "gmap list" where
  "demo_issues = [mset (demo_issue ''b'' [''a'']) ''sequence_number'' (GInt 2), mset (demo_issue ''a'' []) ''sequence_number'' (GInt 1)]"

lemma demo_levels: "compute_levels (maps_of (mget demo_sprint ''issues'')) = Inr [[''a''], [''b'']]"
  "assign_sequence_numbers (maps_of (mget demo_sprint ''issues'')) [[''a''], [''b'']] = demo_issues"
  by code_simp+

lemma demo_decodes:
  "decodes j_prd [''validated_description'', ''acceptance_criteria'', ''must_have'', ''nice_to_have'', ''out_of_scope''] demo_prd"
  "decodes j_architecture [''summary'', ''components'', ''interfaces'', ''decisions'', ''file_changes_overview''] demo_arch"
  "decodes j_review [''approved'', ''feedback'', ''summary''] (demo_review True)"
  by code_simp+

lemma demo_issue_decodes:
  "decodes j_planned_issue [''name'', ''title'', ''description'', ''acceptance_criteria''] (hd demo_issues)"
  "decodes j_planned_issue [''name'', ''title'', ''description'', ''acceptance_criteria''] (last demo_issues)"
  by code_simp+

definition demo_plan :: gmap where
  "demo_plan = json_map
     [(''prd'', GMap (decoded j_prd demo_prd)), (''architecture'', GMap (decoded j_architecture demo_arch)),
      (''review'', GMap (decoded j_review (demo_review True))), (''issues'', GMaps (map (decoded j_planned_issue) demo_issues)),
      (''levels'', GList (map strs [[''a''], [''b'']])), (''file_conflicts'', GMaps (validate_file_conflicts demo_issues [[''a''], [''b'']])),
      (''artifacts_dir'', GStr ''/r/.artifacts''), (''rationale'', GStr ''r'')]"

lemma demo_coerce_issues: "coerce_issues demo_issues = Inr (map (decoded j_planned_issue) demo_issues)"
  using coerce_decodes [OF demo_issue_decodes(1), of "''PlannedIssue''"] coerce_decodes [OF demo_issue_decodes(2), of "''PlannedIssue''"]
  by (simp add: demo_issues_def)

lemma demo_files: "make_dirs planner_host p w = (None, w)" "fst (write_file planner_host p s w) = None"
  by (simp_all add: planner_host_def demo_host_def)

lemma demo_base: "path_join [abs_path planner_host (pi_repo demo_input), pi_artifacts demo_input] = ''/r/.artifacts''"
  by code_simp

lemma demo_sprint_fields: "map_str_or demo_sprint ''rationale'' [] = ''r''"
  by code_simp

lemma demo_plan_made:
  obtains w' where "schedule_plan planner_host demo_input demo_prd demo_arch (demo_review True) demo_sprint blank_world = (Inr demo_plan, w')"
proof -
  have "build_plan_result demo_prd demo_arch (demo_review True) demo_issues [[''a''], [''b'']]
      (validate_file_conflicts demo_issues [[''a''], [''b'']]) ''/r/.artifacts'' ''r'' = Inr demo_plan"
    by (simp add: build_plan_result_def coerce_decodes demo_decodes demo_coerce_issues demo_plan_def)
  moreover have "of_message (write_file planner_host p s w) = (Inr (), snd (write_file planner_host p s w))" for p s w
    using demo_files(2) [of p s w] by (cases "write_file planner_host p s w") (simp add: of_message_def)
  ultimately show ?thesis
    using that by (simp add: schedule_plan_def Let_def demo_levels demo_files of_message_def demo_base demo_sprint_fields)
qed

lemma demo_sprint_keys: "\<forall>i \<in> set (maps_of (mget demo_sprint ''issues'')). plain_keys i \<and> issue_name i \<noteq> []"
  by code_simp

theorem planned_levels_witness: "topological (edges (\<lambda>d. d \<in> {''a'', ''b''}) (plan_issues demo_plan)) {''a'', ''b''} (plan_levels demo_plan)"
proof -
  obtain w' where "schedule_plan planner_host demo_input demo_prd demo_arch (demo_review True) demo_sprint blank_world = (Inr demo_plan, w')"
    by (rule demo_plan_made)
  moreover have "map issue_name (maps_of (mget demo_sprint ''issues'')) = [''b'', ''a'']" by code_simp
  ultimately show ?thesis using planned_levels demo_sprint_keys by (fastforce simp: insert_commute)
qed

theorem planned_run_witness:
  "\<exists>s w'. run_dag (scripted both_done) fresh_opts demo_plan ''/r'' demo_world = Some (Returned (Some s) None, w') \<and>
    map r_name (d_completed s) = [''a'', ''b''] \<and> distinct (map r_name (d_completed s @ d_failed s))"
proof -
  obtain w1 where plan: "schedule_plan planner_host demo_input demo_prd demo_arch (demo_review True) demo_sprint blank_world = (Inr demo_plan, w1)"
    by (rule demo_plan_made)
  have "map_option completed_names (returned_state (demo_run 3 (scripted both_done) fresh_opts demo_plan demo_world)) = Some [''a'', ''b'']"
    by code_simp
  then obtain s where s: "returned_state (demo_run 3 (scripted both_done) fresh_opts demo_plan demo_world) = Some s" "completed_names s = [''a'', ''b'']"
    by auto
  with demo_run_dag [OF _ demo_opts(1)] obtain w' where
    run: "run_dag (scripted both_done) fresh_opts demo_plan ''/r'' demo_world = Some (Returned (Some s) None, w')"
    by (metis returned_stateD)
  from planned_run [OF plan demo_sprint_keys run demo_opts(3)] run s show ?thesis by (auto simp: completed_names_def)
qed

theorem failed_revision_restores_witness:
  "\<exists>rv e w'. review_rounds planner_host demo_input demo_prd 3 0 None demo_arch
      (blank_world\<lparr>outside := [''/r/.artifacts/plan/architecture.md'' \<mapsto> ''good'']\<rparr>) = (Inr (rv, demo_arch, Some e), w') \<and>
    e = ''no answer'' \<and> (\<exists>j wj review w1 err w2. ask_tech_lead planner_host demo_input demo_prd j wj = (Inr review, w1) \<and>
      ask_revision planner_host demo_input demo_prd review w1 = (Inl err, w2) \<and>
      demo_read ''/r/.artifacts/plan/architecture.md'' w' = demo_read ''/r/.artifacts/plan/architecture.md'' w1)"
proof -
  let ?w = "blank_world\<lparr>outside := [''/r/.artifacts/plan/architecture.md'' \<mapsto> ''good'']\<rparr>"
  let ?out = "review_rounds planner_host demo_input demo_prd 3 0 None demo_arch ?w"
  have kept: "case ?out of (Inr (rv, arch, Some e), w') \<Rightarrow> arch = demo_arch \<and> e = ''no answer'' | _ \<Rightarrow> False"
    by code_simp
  obtain r w' where r: "?out = (r, w')" by force
  with kept obtain rv e where out: "?out = (Inr (rv, demo_arch, Some e), w')" "e = ''no answer''"
    by (auto split: sum.splits prod.splits option.splits)
  have "\<forall>w x. read_file planner_host (architecture_path planner_host demo_input) w \<noteq> Unreadable x"
    by (simp add: planner_host_def demo_host_def demo_read_def split: option.splits)
  moreover have "architecture_path planner_host demo_input = ''/r/.artifacts/plan/architecture.md''" by code_simp
  moreover have "read_file planner_host = demo_read" by (simp add: planner_host_def demo_host_def)
  ultimately show ?thesis using failed_revision_restores [OF out(1)] out by (fastforce simp: planner_host_def)
qed

end
