(* ===== verification/Credentials.thy ===== *)
theory Credentials
  imports Orch
begin

text \<open>
  Scoped credentials: the process-local store that keeps the secrets of concurrent builds apart
  (\<open>hitl/credentials_store.go\<close>), how they reach the environment of an agent (\<open>harnessx/run.go\<close>), the
  services a repository is known to use (\<open>hitl/services.go\<close>, \<open>schemas/services.go\<close>) and the form that
  asks for their tokens (\<open>hitl/scout.go\<close>).
\<close>

section \<open>The store\<close>

text \<open>
  Rows of names and values by scope. A scope without a row and one with an empty row cannot be told
  apart, and the code never keeps an empty row.
\<close>

type_synonym creds = "(string \<times> string) list"
type_synonym cred_store = "string \<Rightarrow> creds"

definition scope_id :: "string \<Rightarrow> string \<Rightarrow> string" where
  "scope_id run root_workflow = (if run \<noteq> [] then run else root_workflow)"

definition usable_creds :: "creds \<Rightarrow> creds" where
  "usable_creds cs = filter (\<lambda>(k, v). trim_space v \<noteq> []) cs"

definition store_credentials :: "string \<Rightarrow> creds \<Rightarrow> cred_store \<Rightarrow> cred_store" where
  "store_credentials run cs st = (if run = [] then st else st(run := usable_creds cs))"

definition get_credentials :: "string \<Rightarrow> cred_store \<Rightarrow> creds" where
  "get_credentials run st = (if run = [] then [] else st run)"

definition clear_credentials :: "string \<Rightarrow> cred_store \<Rightarrow> cred_store" where
  "clear_credentials run st = (if run = [] then st else st(run := []))"

definition inject_credentials :: "creds \<Rightarrow> string \<Rightarrow> cred_store \<Rightarrow> creds" where
  "inject_credentials base run st = fold (\<lambda>(k, v). AList.update k v) (get_credentials run st) base"

text \<open>The environment a harness is started with, by the run and the root workflow of its execution.\<close>

definition harness_env :: "creds \<Rightarrow> string \<Rightarrow> string \<Rightarrow> cred_store \<Rightarrow> creds" where
  "harness_env base run root_workflow st = inject_credentials base (scope_id run root_workflow) st"

section \<open>Known services\<close>

record service =
  sv_name :: string
  sv_env :: string
  sv_mint :: string
  sv_hint :: string
  sv_signals :: "string list"
  sv_evidence :: string

definition service_of :: "string \<Rightarrow> string \<Rightarrow> string \<Rightarrow> string \<Rightarrow> string list \<Rightarrow> string \<Rightarrow> service" where
  "service_of name var mint hint signals evidence =
     \<lparr>sv_name = name, sv_env = var, sv_mint = mint, sv_hint = hint, sv_signals = signals, sv_evidence = evidence\<rparr>"

definition known_services :: "service list" where
  "known_services =
     [service_of ''Railway'' ''RAILWAY_TOKEN'' ''https://railway.com/account/tokens''
        ''Project token, read-only if possible, set expiry to 1 day.'' [''railway.toml'', ''railway.json'', ''.railway/config.json'']
        (''Saw {signal} '' @ em_dash @ '' build likely needs Railway access to deploy or query services.''),
      service_of ''Fly.io'' ''FLY_API_TOKEN'' ''https://fly.io/user/personal_access_tokens''
        ''Deploy token scoped to this app, 1-day expiry.'' [''fly.toml'', ''fly.io.toml'', ''.fly/config.toml'']
        (''Saw {signal} '' @ em_dash @ '' build may need Fly.io access for deploys.''),
      service_of ''Vercel'' ''VERCEL_TOKEN'' ''https://vercel.com/account/tokens''
        ''Scope to this team only, 1-day expiry.'' [''vercel.json'', ''.vercel/project.json'']
        (''Saw {signal} '' @ em_dash @ '' build may need Vercel access.''),
      service_of ''Supabase'' ''SUPABASE_ACCESS_TOKEN'' ''https://supabase.com/dashboard/account/tokens''
        (''Personal access token, 1-day expiry '' @ em_dash @ '' required only if migrations or schema changes are part of the work.'')
        [''supabase/config.toml'', ''supabase/.gitignore'', ''supabase/migrations'']
        (''Saw {signal} '' @ em_dash @ '' Supabase project detected.''),
      service_of ''Sentry'' ''SENTRY_AUTH_TOKEN'' ''https://sentry.io/settings/account/api/auth-tokens/''
        ''Auth token scoped to project:read + project:releases, 1-day expiry.'' [''sentry.properties'', ''.sentryclirc'', ''sentry.io.json'']
        (''Saw {signal} '' @ em_dash @ '' Sentry integration detected.''),
      service_of ''Datadog'' ''DATADOG_API_KEY'' ''https://app.datadoghq.com/organization-settings/api-keys''
        ''Application API key (NOT a client token), restricted to read scopes if possible.'' [''datadog.yaml'', ''.datadog/conf.yaml'']
        (''Saw {signal} '' @ em_dash @ '' Datadog integration detected.''),
      service_of ''GitHub'' ''GH_TOKEN'' ''https://github.com/settings/personal-access-tokens/new''
        ''Fine-grained PAT scoped to THIS repo only, repo:contents+pull-requests, 1-day expiry.'' [''.github/workflows'', ''CODEOWNERS'']
        (''Saw {signal} '' @ em_dash @ '' work likely needs GitHub API beyond what gh CLI provides anonymously.''),
      service_of ''OpenAI'' ''OPENAI_API_KEY'' ''https://platform.openai.com/api-keys''
        ''Restricted API key with low usage cap; 1-day expiry.'' [] ''Project depends on the OpenAI SDK.'',
      service_of ''Anthropic'' ''ANTHROPIC_API_KEY'' ''https://console.anthropic.com/settings/keys''
        ''Restricted API key, set monthly spend limit, 1-day expiry.'' [] ''Project depends on the Anthropic SDK.'']"

definition detect_services :: "'x host \<Rightarrow> string \<Rightarrow> 'x world \<Rightarrow> service list" where
  "detect_services h repo w =
     (if repo = [] \<or> \<not> is_directory h repo w then []
      else filter (\<lambda>s. list_ex (\<lambda>signal. path_exists h (path_join [repo, signal]) w) (sv_signals s)) known_services)"

definition backquoted :: "string \<Rightarrow> string" where
  "backquoted s = [CHR 0x60] @ s @ [CHR 0x60]"

definition service_summary :: "service list \<Rightarrow> string" where
  "service_summary specs = join [CHR 0x0A] (map (\<lambda>s.
     ''- **'' @ sv_name s @ ''** '' @ em_dash @ '' env '' @ backquoted (sv_env s) @ ''; signals: '' @
     (let signals = join '', '' (map backquoted (sv_signals s)) in if signals = [] then ''(no static signal)'' else signals) @
     ''; mint at '' @ sv_mint s @ ''; hint: '' @ sv_hint s) specs)"

section \<open>Asking for tokens\<close>

definition scout_field :: "service \<Rightarrow> gmap" where
  "scout_field s =
     [(''id'', GStr (sv_env s)), (''type'', GStr ''input''), (''label'', GStr (sv_name s @ '' ('' @ sv_env s @ '')'')),
      (''description'', GStr (''Mint at '' @ sv_mint s @ '' '' @ em_dash @ '' '' @ sv_hint s)), (''required'', GBool False),
      (''placeholder'', GNil), (''default_value'', GNil), (''options'', GNil), (''min'', GNil), (''max'', GNil), (''step'', GNil)]"

definition build_scout_form :: "service list \<Rightarrow> gmap option" where
  "build_scout_form detected =
     (if detected = [] then None
      else Some [(''title'', GStr ''Scoped credentials for this build''), (''description'', GNil), (''fields'', GMaps (map scout_field detected)),
                 (''submit_label'', GStr ''Submit'')])"

fun text_entries :: "gmap \<Rightarrow> creds" where
  "text_entries [] = []"
| "text_entries ((k, GStr s) # m) = (k, s) # text_entries m"
| "text_entries ((k, v) # m) = text_entries m"

definition creds_from_prior :: "gmap list \<Rightarrow> creds" where
  "creds_from_prior prior =
     (if prior = [] then [] else filter (\<lambda>(k, s). s \<noteq> []) (text_entries (as_map (mget (last prior) ''values''))))"

text \<open>
  The end of \<open>RunEnvironmentScout\<close>: a result's credentials go to the store and never into the reply;
  without a result the reply is a fixed one.
\<close>

definition scout_fallback :: gmap where
  "scout_fallback =
     [(''detected_services'', GList []), (''skipped_services'', GList []),
      (''summary'', GStr ''Scout produced no parseable result; proceeding without credentials.''), (''ask_user_form'', GNil)]"

definition settle_scout :: "string \<Rightarrow> string \<Rightarrow> gmap option \<Rightarrow> cred_store \<Rightarrow> gmap \<times> cred_store" where
  "settle_scout run root_workflow result st = (case result of
     None \<Rightarrow> (scout_fallback, st)
   | Some m \<Rightarrow>
       let scope = scope_id run root_workflow; cs = text_entries (as_map (mget m ''scoped_credentials''))
       in (AList.delete ''scoped_credentials'' m, if scope \<noteq> [] \<and> cs \<noteq> [] then store_credentials scope cs st else st))"

section \<open>What a scope sees\<close>

text \<open>
  The interface: reading a scope, writing and dropping its row. The laws say that scopes do not see
  each other and that the empty scope holds nothing.
\<close>

datatype store_op = Store_row string creds | Clear_row string

fun store_op_scope :: "store_op \<Rightarrow> string" where
  "store_op_scope (Store_row r cs) = r"
| "store_op_scope (Clear_row r) = r"

locale scoped_store =
  fixes put :: "string \<Rightarrow> creds \<Rightarrow> 's \<Rightarrow> 's" and row :: "string \<Rightarrow> 's \<Rightarrow> creds" and drop_row :: "string \<Rightarrow> 's \<Rightarrow> 's"
    and kept :: "creds \<Rightarrow> creds"
  assumes row_put: "r \<noteq> [] \<Longrightarrow> row r (put r cs s) = kept cs"
    and row_put_other: "r' \<noteq> r \<Longrightarrow> row r' (put r cs s) = row r' s"
    and row_drop: "row r (drop_row r s) = []"
    and row_drop_other: "r' \<noteq> r \<Longrightarrow> row r' (drop_row r s) = row r' s"
    and row_empty: "row [] s = []"
begin

lemma row_after_others:
  assumes "\<forall>op \<in> set ops. store_op_scope op \<noteq> r"
  shows "row r (fold (\<lambda>op. case op of Store_row r cs \<Rightarrow> put r cs | Clear_row r \<Rightarrow> drop_row r) ops s) = row r s"
  using assms
proof (induction ops arbitrary: s)
  case (Cons op ops)
  then show ?case by (cases op) (auto intro!: row_put_other row_drop_other)
qed simp

lemma row_after_clear:
  assumes "\<forall>op \<in> set ops. store_op_scope op \<noteq> r"
  shows "row r (fold (\<lambda>op. case op of Store_row r cs \<Rightarrow> put r cs | Clear_row r \<Rightarrow> drop_row r) (Clear_row r # ops) s) = []"
  using row_after_others [OF assms] by (simp add: row_drop)

end

interpretation creds: scoped_store store_credentials get_credentials clear_credentials usable_creds
  by unfold_locales (simp_all add: store_credentials_def get_credentials_def clear_credentials_def)

definition run_store_op :: "store_op \<Rightarrow> cred_store \<Rightarrow> cred_store" where
  "run_store_op op = (case op of Store_row r cs \<Rightarrow> store_credentials r cs | Clear_row r \<Rightarrow> clear_credentials r)"

lemma run_store_ops: "fold run_store_op = fold (\<lambda>op. case op of Store_row r cs \<Rightarrow> store_credentials r cs | Clear_row r \<Rightarrow> clear_credentials r)"
  by (simp add: run_store_op_def [abs_def])

lemma settle_scout_reply: "map_of (fst (settle_scout run root_wf result st)) ''scoped_credentials'' = None"
  by (simp add: settle_scout_def scout_fallback_def Let_def delete_conv' split: option.split)

lemma settle_scout_others: "scope \<noteq> scope_id run root_wf \<Longrightarrow> get_credentials scope (snd (settle_scout run root_wf result st)) = get_credentials scope st"
  by (simp add: settle_scout_def Let_def creds.row_put_other split: option.split)

end
