(* ===== verification/HumanCorrect.thy ===== *)
theory HumanCorrect
  imports HumanInput Credentials HostDemo PlainKeys
begin

text \<open>
  The human in the loop: secrets stay in their scope, a reasoner's questions are bounded and never
  left open, an answer counts as submitted only when the human gave it, and what the planning prompts
  make of the feedback.
\<close>

section \<open>Secrets\<close>

text \<open>
  C14: Secrets stay in their scope. The reply of the environment scout never carries them. The
  environment of a harness whose execution has another scope is not affected by what the scout
  stores, nothing that other scopes store or clear afterwards affects the one of this scope, and once
  the scope is cleared its environment is the base environment again, whatever was stored before.
\<close>

theorem scoped_credentials_isolated:
  assumes others: "\<forall>op \<in> set ops. store_op_scope op \<noteq> scope_id run root_wf"
  shows "map_of (fst (settle_scout run root_wf result st)) ''scoped_credentials'' = None \<and>
    harness_env base run root_wf (fold run_store_op ops st) = harness_env base run root_wf st \<and>
    harness_env base run root_wf (fold run_store_op (Clear_row (scope_id run root_wf) # ops) st) = base \<and>
    (\<forall>run' root_wf'. scope_id run' root_wf' \<noteq> scope_id run root_wf \<longrightarrow>
       harness_env base run' root_wf' (snd (settle_scout run root_wf result st)) = harness_env base run' root_wf' st)"
  using settle_scout_reply settle_scout_others creds.row_after_others [OF others] creds.row_after_clear [OF others]
  unfolding harness_env_def inject_credentials_def run_store_ops by simp

theorem scoped_credentials_isolated_witness:
  "harness_env [(''PATH'', ''/bin'')] ''a'' [] (fold run_store_op [Clear_row ''a'', Store_row ''b'' [(''T'', ''y'')]]
      (store_credentials ''a'' [(''T'', ''x'')] (\<lambda>r. []))) = [(''PATH'', ''/bin'')] \<and>
   harness_env [(''PATH'', ''/bin'')] ''a'' [] (store_credentials ''a'' [(''T'', ''x''), (''U'', '' '')] (\<lambda>r. [])) =
     [(''PATH'', ''/bin''), (''T'', ''x'')]"
proof
  show "harness_env [(''PATH'', ''/bin'')] ''a'' [] (fold run_store_op [Clear_row ''a'', Store_row ''b'' [(''T'', ''y'')]]
      (store_credentials ''a'' [(''T'', ''x'')] (\<lambda>r. []))) = [(''PATH'', ''/bin'')]"
    using scoped_credentials_isolated [of "[Store_row ''b'' [(''T'', ''y'')]]" "''a''" "[]" None
      "store_credentials ''a'' [(''T'', ''x'')] (\<lambda>r. [])" "[(''PATH'', ''/bin'')]"]
    by (simp add: scope_id_def)
  show "harness_env [(''PATH'', ''/bin'')] ''a'' [] (store_credentials ''a'' [(''T'', ''x''), (''U'', '' '')] (\<lambda>r. [])) =
     [(''PATH'', ''/bin''), (''T'', ''x'')]" by code_simp
qed

section \<open>Questions\<close>

definition answered :: "prior_entry \<Rightarrow> bool" where
  "answered e = (case e of Answered q s vs f \<Rightarrow> True | Given m \<Rightarrow> False)"

definition open_form :: "gmap option \<Rightarrow> bool" where
  "open_form r = (case r of None \<Rightarrow> False | Some m \<Rightarrow> mget m ''ask_user_form'' \<noteq> GNil)"

lemma clear_form_closed [simp]: "\<not> open_form (clear_form r)"
  by (cases r) (auto simp: open_form_def clear_form_def, simp add: mget_def lookup_def_def)

lemma extract_none: "extract_form r = Inr None \<Longrightarrow> clear_form r = r"
proof (cases r)
  case (Some m)
  assume "extract_form r = Inr None"
  then have nil: "mget m ''ask_user_form'' = GNil"
    using Some by (auto simp: extract_form_def split: gval.splits prod.splits if_splits)
  show ?thesis
  proof (cases "map_of m ''ask_user_form''")
    case (Some v)
    with nil have "AList.update ''ask_user_form'' GNil m = m" by (intro update_triv) (simp add: mget_def lookup_def_def)
    with \<open>r = Some m\<close> show ?thesis by (simp add: clear_form_def mset_def)
  qed (simp add: \<open>r = Some m\<close> clear_form_def)
qed (simp add: clear_form_def)

text \<open>What a pass leaves: the reasoner's last reply without its form, and the answers it was given.\<close>

definition settled_with :: "'x reasoner \<Rightarrow> prior_entry list \<Rightarrow> prior_entry list \<Rightarrow> gmap option \<Rightarrow> bool" where
  "settled_with invoke prior asked result \<longleftrightarrow> (\<exists>r w1 w2. invoke (prior @ asked) w1 = (Inr r, w2) \<and> result = clear_form r)"

lemma ask_rounds_settle:
  assumes "ask_rounds env p invoke n i last_result prior budget w = (out, left, w')"
    and "int n + i = ask_limit p + 1" and "i \<le> ask_limit p" and "0 < n"
  shows "\<exists>asked. list_all answered asked \<and> left = budget - int (length asked) \<and> int (length asked) \<le> max 0 budget \<and>
    int (length asked) + i \<le> ask_limit p \<and> (ak_client p = None \<longrightarrow> asked = []) \<and>
    (\<forall>result. out = Inr result \<longrightarrow> settled_with invoke prior asked result)"
  using assms
proof (induction env p invoke n i last_result prior budget w rule: ask_rounds.induct)
  case (2 env p invoke n i last_result prior budget w)
  obtain r w1 where inv: "invoke prior w = (r, w1)" by (cases "invoke prior w")
  show ?case
  proof (cases "\<exists>result spec client. r = Inr result \<and> extract_form result = Inr (Some spec) \<and> ak_client p = Some client \<and>
      \<not> budget \<le> 0 \<and> \<not> i \<ge> ask_limit p")
    case True
    then obtain result spec client where c: "r = Inr result" "extract_form result = Inr (Some spec)" "ak_client p = Some client"
      "\<not> budget \<le> 0" "\<not> i \<ge> ask_limit p" by blast
    obtain answer w2 where a: "request_user_input env client spec p w1 = (answer, w2)" by (cases "request_user_input env client spec p w1")
    let ?e = "Answered (fm_title spec) (an_status answer) (an_values answer) (an_feedback answer)"
    from 2(2) inv c a have "ask_rounds env p invoke n (i + 1) result (prior @ [?e]) (budget - 1) w2 = (out, left, w')" by simp
    with 2(1) [OF inv [symmetric] c(1,2) _ c(3,4,5) a [symmetric]] c(4,5) 2(3)
    obtain asked where *: "list_all answered asked" "left = budget - 1 - int (length asked)" "int (length asked) \<le> max 0 (budget - 1)"
      "int (length asked) + (i + 1) \<le> ask_limit p" "ak_client p = None \<longrightarrow> asked = []"
      "\<forall>result. out = Inr result \<longrightarrow> settled_with invoke (prior @ [?e]) asked result" by auto
    have "\<forall>result. out = Inr result \<longrightarrow> settled_with invoke prior (?e # asked) result"
      using *(6) by (simp add: settled_with_def)
    moreover have "answered ?e" by (simp add: answered_def)
    ultimately show ?thesis using * c by (intro exI [of _ "?e # asked"]) auto
  next
    case False
    with 2(2) inv have "left = budget \<and> (\<forall>result. out = Inr result \<longrightarrow> settled_with invoke prior [] result)"
      by (fastforce simp: settled_with_def Let_def extract_none split: sum.splits option.splits if_splits dest: extract_none)
    with 2(4) show ?thesis by (intro exI [of _ "[]"]) simp
  qed
qed simp

text \<open>
  C13: A reasoner that asks is asked back in bounds: however it behaves, it gets at most as many
  answers as the budget and the limit of iterations allow, each one is paid for out of the budget,
  none is given when hax is disabled, and a result is always the reasoner's reply to all the answers
  gathered so far, with no question left open in it.
\<close>

theorem ask_user_settles:
  assumes "run_with_ask_user env p invoke prior w = (out, left, w')"
  shows "\<exists>asked. list_all answered asked \<and> left = (case ak_budget p of None \<Rightarrow> 2 | Some b \<Rightarrow> b) - int (length asked) \<and>
    int (length asked) \<le> max 0 (case ak_budget p of None \<Rightarrow> 2 | Some b \<Rightarrow> b) \<and> int (length asked) \<le> ask_limit p \<and>
    (ak_client p = None \<longrightarrow> asked = []) \<and>
    (\<forall>result. out = Inr result \<longrightarrow> settled_with invoke prior asked result \<and> \<not> open_form result)"
proof -
  have "0 < ask_limit p" by (simp add: ask_limit_def)
  with ask_rounds_settle [OF assms [unfolded run_with_ask_user_def]]
  have "\<exists>asked. list_all answered asked \<and> left = (case ak_budget p of None \<Rightarrow> 2 | Some b \<Rightarrow> b) - int (length asked) \<and>
    int (length asked) \<le> max 0 (case ak_budget p of None \<Rightarrow> 2 | Some b \<Rightarrow> b) \<and> int (length asked) \<le> ask_limit p \<and>
    (ak_client p = None \<longrightarrow> asked = []) \<and> (\<forall>result. out = Inr result \<longrightarrow> settled_with invoke prior asked result)"
    by simp
  then show ?thesis by (fastforce simp: settled_with_def)
qed

text \<open>A service that creates every request, and a human who approves.\<close>

definition kind_env :: "disk hitl_env" where
  "kind_env = \<lparr>hl_post = (\<lambda>url key body w. (Response 200 ''created'', w)),
     hl_pause = (\<lambda>o' w. (Inr \<lparr>pz_decision = ''approved'', pz_feedback = ''go on'', pz_raw = [(''values'', GMap [(''port'', GStr ''80'')])]\<rparr>, w)),
     hl_parse = (\<lambda>s. Inr (GMap [(''id'', GStr ''r1''), (''url'', GStr ''/r1'')]))\<rparr>"

definition kind_params :: ask_params where
  "kind_params = \<lparr>ak_client = Some \<lparr>hc_base = ''http://h'', hc_key = ''k''\<rparr>, ak_budget = Some 2, ak_max = 0, ak_hours = (0, 0),
     ak_execution = ''e'', ak_user = [], ak_webhook = [], ak_metadata = None\<rparr>"

definition asking_form :: form where
  "asking_form = \<lparr>fm_title = ''Which port?'', fm_description = None, fm_fields = [], fm_submit = ''Submit''\<rparr>"

text \<open>A reasoner that asks once.\<close>

definition asks_once :: "disk reasoner" where
  "asks_once prior w =
     (Inr (Some (if prior = [] then [(''ask_user_form'', GMap [(''title'', GStr ''Which port?'')])] else [(''scope'', GStr ''done'')])), w)"

lemma asks_once_form: "extract_form (Some [(''ask_user_form'', GMap [(''title'', GStr ''Which port?'')])]) = Inr (Some asking_form)"
proof -
  define m where "m = [(''title'', GStr ''Which port?'')]"
  obtain fs where fs: "j_form = JObj fs" "fs = [fld ''title'' JString, fld ''description'' (JPtr JString), fld ''fields'' (JList j_form_field),
      (''submit_label'', JString, GStr ''Submit'')]"
    by (simp add: j_form_def)
  have lower: "list_all (\<lambda>x. to_lower (fst x) = fst x) fs" "plain_keys m"
    unfolding fs(2) m_def fld_def plain_keys_def by (simp_all, code_simp+)
  have "decode j_form (zero_of j_form) (json_trip (GMap m)) =
      (GMap [(''title'', GStr ''Which port?''), (''description'', GNil), (''fields'', GList []), (''submit_label'', GStr ''Submit'')], True)"
    unfolding json_trip_GMap fs(1) decode_plain [OF lower(2,1)]
    by (simp add: fs(2) m_def fld_def decode.simps)
  then show ?thesis
    by (simp add: extract_form_def mget_def lookup_def_def m_def form_of_def asking_form_def opt_text_def obj_list_def dict_list_def as_map_def del: decode.simps)
qed

lemma asks_once_answer:
  "request_user_input kind_env \<lparr>hc_base = ''http://h'', hc_key = ''k''\<rparr> asking_form kind_params w =
     (\<lparr>an_status = ''submitted'', an_values = [(''port'', GStr ''80'')], an_feedback = Some ''go on'', an_error = None\<rparr>, w)"
proof -
  have "read_created (\<lambda>s. Inr (GMap [(''id'', GStr ''r1''), (''url'', GStr ''/r1'')])) ''created'' = Inr (''r1'', ''/r1'')" by code_simp
  then show ?thesis
    by (simp add: request_user_input_def create_request_def kind_env_def kind_params_def asking_form_def build_form_payload_def
      parse_approval_result_def answer_values_def values_from_raw_def as_map_def mget_def lookup_def_def)
qed

theorem ask_user_settles_witness:
  "\<exists>asked. fst (run_with_ask_user kind_env kind_params asks_once [] blank_world) = Inr (Some [(''scope'', GStr ''done'')]) \<and>
     list_all answered asked \<and> length asked = 1 \<and>
     settled_with asks_once [] asked (Some [(''scope'', GStr ''done'')])"
proof -
  let ?p = kind_params
  have run: "run_with_ask_user kind_env ?p asks_once [] blank_world = (Inr (Some [(''scope'', GStr ''done'')]), 1, blank_world)"
  proof -
    have "ask_limit ?p = 3" "ak_budget ?p = Some 2" "ak_client ?p = Some \<lparr>hc_base = ''http://h'', hc_key = ''k''\<rparr>"
      by (simp_all add: ask_limit_def kind_params_def)
    then show ?thesis
      by (simp add: run_with_ask_user_def asks_once_def asks_once_form asks_once_answer eval_nat_numeral)
        (simp add: extract_form_def mget_def lookup_def_def)
  qed
  from ask_user_settles [OF run] obtain asked where "list_all answered asked" "length asked = 1"
    "settled_with asks_once [] asked (Some [(''scope'', GStr ''done'')])"
    by (auto simp: kind_params_def)
  with run show ?thesis by auto
qed

section \<open>Answers\<close>

lemma request_cases:
  assumes "request_user_input env client spec p w = (answer, w')"
  obtains (failed) "an_status answer \<in> {''timeout'', ''error''}" "an_values answer = []"
  | (answered) params rid url w1 r hours where "create_request env client params w = (Inr (rid, url), w1)"
      "hl_pause env \<lparr>po_request = rid, po_url = url, po_hours = hours, po_execution = ak_execution p\<rparr> w1 = (Inr r, w')"
      "answer = parse_approval_result (hl_parse env) (pz_decision r) (if pz_feedback r = [] then None else Some (pz_feedback r)) (pz_raw r)"
proof -
  obtain m e where h: "(if fst (ak_hours p) \<le> 0 then (24, 0) else ak_hours p) = (m, e)" by fastforce
  show thesis
  proof (cases "build_form_payload spec")
    case (Inl err)
    with assms h show ?thesis by (intro that(1)) (auto simp: request_user_input_def failed_answer_def)
  next
    case (Inr payload)
    let ?params = "\<lparr>hp_type = ''form-builder'', hp_payload = payload, hp_title = fm_title spec, hp_description = fm_description spec,
      hp_webhook = ak_webhook p, hp_expires = trunc_dec (m * 3600) e, hp_user = ak_user p, hp_metadata = ak_metadata p\<rparr>"
    note run = assms [unfolded request_user_input_def h Let_def prod.case Inr sum.case]
    obtain c w1 where c: "create_request env client ?params w = (c, w1)" by fastforce
    show ?thesis
    proof (cases c)
      case (Inl err)
      with run c show ?thesis by (intro that(1)) (auto simp: failed_answer_def)
    next
      case (Inr ru)
      obtain rid url where ru: "ru = (rid, url)" by fastforce
      obtain d w2 where d: "hl_pause env \<lparr>po_request = rid, po_url = url, po_hours = trunc_dec m e, po_execution = ak_execution p\<rparr> w1 = (d, w2)" by fastforce
      show ?thesis
      proof (cases d)
        case (Inl err)
        with run c d ru \<open>c = Inr ru\<close> show ?thesis by (intro that(1)) (auto simp: failed_answer_def split: if_splits)
      next
        case (Inr r)
        with run c d ru \<open>c = Inr ru\<close> that(2) [of ?params rid url w1 "trunc_dec m e" r] show ?thesis by auto
      qed
    qed
  qed
qed

lemma parsed_status:
  "an_status (parse_approval_result parse d f raw) = ''submitted'' \<Longrightarrow> d \<in> {''approved'', ''request_changes'', ''submitted''}"
  "an_status (parse_approval_result parse d f raw) \<in> {''submitted'', ''timeout'', ''cancelled'', ''error''}"
  "an_values (parse_approval_result parse d f raw) \<noteq> [] \<Longrightarrow> an_status (parse_approval_result parse d f raw) = ''submitted'' \<or>
     an_error (parse_approval_result parse d f raw) = Some (''unknown decision: '' @ quoted d)"
  unfolding parse_approval_result_def by (simp_all split: if_splits)

text \<open>
  An answer counts as submitted only when the hax service created the request and the pause on
  that very request, with the execution it belongs to, returned with one of the three decisions
  approved, request_changes and submitted: a failure of the form, of the service or of the pause, a
  rejection, an expiry or an unknown decision is never taken for an answer, and leaves no values
  unless the decision is unknown.
\<close>

theorem submitted_answer:
  assumes a: "request_user_input env client spec p w = (answer, w')"
  shows "(an_status answer = ''submitted'' \<longrightarrow> (\<exists>params rid url w1 r hours. create_request env client params w = (Inr (rid, url), w1) \<and>
      hl_pause env \<lparr>po_request = rid, po_url = url, po_hours = hours, po_execution = ak_execution p\<rparr> w1 = (Inr r, w') \<and>
      pz_decision r \<in> {''approved'', ''request_changes'', ''submitted''})) \<and>
    an_status answer \<in> {''submitted'', ''timeout'', ''cancelled'', ''error''} \<and>
    (an_values answer \<noteq> [] \<longrightarrow> an_status answer = ''submitted'' \<or> (\<exists>d. an_error answer = Some (''unknown decision: '' @ quoted d)))"
  using a
proof (cases rule: request_cases)
  case failed
  then show ?thesis by auto
next
  case (answered params rid url w1 r hours)
  let ?f = "if pz_feedback r = [] then None else Some (pz_feedback r)"
  note parsed = parsed_status [of "hl_parse env" "pz_decision r" ?f "pz_raw r", folded answered(3)]
  show ?thesis using answered(1,2) parsed by blast
qed

theorem submitted_answer_witness:
  "an_status (fst (request_user_input kind_env \<lparr>hc_base = ''http://h'', hc_key = ''k''\<rparr> asking_form kind_params blank_world)) = ''submitted'' \<and>
   (\<exists>params rid url w1 r hours. create_request kind_env \<lparr>hc_base = ''http://h'', hc_key = ''k''\<rparr> params blank_world = (Inr (rid, url), w1) \<and>
      hl_pause kind_env \<lparr>po_request = rid, po_url = url, po_hours = hours, po_execution = ''e''\<rparr> w1 = (Inr r, blank_world) \<and>
      pz_decision r \<in> {''approved'', ''request_changes'', ''submitted''})"
  using submitted_answer [OF asks_once_answer [of blank_world]] by (simp add: asks_once_answer) (simp add: kind_params_def)

section \<open>Feedback\<close>

text \<open>Two lists of entries that differ only in what the feedback of appended answers says.\<close>

fun same_but_feedback :: "prior_entry \<Rightarrow> prior_entry \<Rightarrow> bool" where
  "same_but_feedback (Given m) (Given m') = (m = m')"
| "same_but_feedback (Answered q s vs f) (Answered q' s' vs' f') = (q = q' \<and> s = s' \<and> vs = vs' \<and> (f = None \<longleftrightarrow> f' = None))"
| "same_but_feedback e e' = False"

lemma entry_lines_same: "same_but_feedback e e' \<Longrightarrow> entry_lines address n e = entry_lines address n e'"
  by (cases "(e, e')" rule: same_but_feedback.cases) (auto split: option.splits)

text \<open>
  The product manager and the scout never read what a human wrote. The prompt that repeats the
  answers gathered in a call is the same whatever the texts of their feedback are, since the code
  prints a pointer, so a human's words are replaced by an address; and an answer without feedback is
  reported as having the feedback \<open><nil>\<close>.
\<close>

theorem prompt_hides_feedback:
  "(list_all2 same_but_feedback prior prior' \<longrightarrow> format_prior_responses address prior = format_prior_responses address prior') \<and>
   ''User feedback: <nil>'' \<in> set (entry_lines address n (Answered question status vs None))"
proof (intro conjI impI)
  assume same: "list_all2 same_but_feedback prior prior'"
  have "map (\<lambda>(n, e). entry_lines address n e) (List.enumerate k prior) = map (\<lambda>(n, e). entry_lines address n e) (List.enumerate k prior')" for k
    using same by (induction arbitrary: k rule: list_all2_induct) (simp_all add: entry_lines_same)
  moreover have "prior = [] \<longleftrightarrow> prior' = []" using same by auto
  ultimately show "format_prior_responses address prior = format_prior_responses address prior'"
    by (simp add: format_prior_responses_def)
qed simp

theorem prompt_hides_feedback_witness:
  "format_prior_responses (\<lambda>n. ''0xc0'') [Answered ''Which port?'' ''submitted'' [] (Some ''80, not 8080'')] =
   format_prior_responses (\<lambda>n. ''0xc0'') [Answered ''Which port?'' ''submitted'' [] (Some ''8080'')]"
  using prompt_hides_feedback by simp

end
