(* ===== verification/ApprovalCorrect.thy ===== *)
theory ApprovalCorrect
  imports ApprovalGate PlanCorrect HumanCorrect
begin

text \<open>
  The approval gate: a plan goes on only when a human approved that very plan; and what a revision
  leaves of the old plan.
\<close>

section \<open>Only approved plans go on\<close>

text \<open>The plan was submitted in pass \<open>i\<close> and the pause on the request came back with the decision.\<close>

definition decided :: "'x approval_env \<Rightarrow> hax_client \<Rightarrow> approval_request \<Rightarrow> gmap \<Rightarrow> string \<Rightarrow> bool" where
  "decided env client q p decision \<longleftrightarrow> (\<exists>i history w0 w1 rid url o' w2 r w3.
     0 \<le> i \<and> i \<le> b_max_plan_revisions (ar_cfg q) \<and>
     create_request (av_hitl env) client (gate_params env q p i history) w0 = (Inr (rid, url), w1) \<and>
     po_request o' = rid \<and> po_execution o' = ar_execution q \<and>
     hl_pause (av_hitl env) o' w2 = (Inr r, w3) \<and> pz_decision r = decision)"

lemma ask_approval_decided:
  assumes "ask_approval env client q p i history w = (Inr (decision, feedback), w')"
    and "0 \<le> i" "i \<le> b_max_plan_revisions (ar_cfg q)"
  shows "decided env client q p decision"
  using assms unfolding ask_approval_def decided_def by (auto simp: Let_def and_then_Inr) (metis pause_options.select_convs(1,4))

lemma approval_rounds_proceed:
  assumes "approval_rounds env client q n i history p w = (Inr (approval_outcome.Proceed r), w')"
    and "0 \<le> i" and "int n + i = b_max_plan_revisions (ar_cfg q) + 1" and "0 < n"
  shows "\<exists>p'. r = Some p' \<and> decided env client q p' ''approved''"
  using assms
proof (induction env client q n i history p w rule: approval_rounds.induct)
  case (2 env client q n i history p w)
  obtain a w1 where a: "ask_approval env client q p i history w = (a, w1)" by fastforce
  show ?case
  proof (cases a)
    case (Inr df)
    obtain decision feedback where df: "df = (decision, feedback)" by fastforce
    have d: "decided env client q p decision" using ask_approval_decided a Inr df 2(3,4) by fastforce
    consider "decision = ''approved''" | "decision = ''request_changes''" "i < b_max_plan_revisions (ar_cfg q)"
      using 2(2) a Inr df by (fastforce simp: terminal_outcome_def split: if_splits)
    then show ?thesis
    proof cases
      case 1
      with 2(2) a Inr df d show ?thesis by auto
    next
      case 2
      note again = this
      from again "2.prems"(1) a Inr df obtain revised failed w2 where
        re: "replan_with_feedback (av_host env) q p feedback w1 = (Inr (revised, failed), w2)"
        and rest: "approval_rounds env client q n (i + 1) (history @ [revision_entry i feedback failed]) revised w2 = (Inr (approval_outcome.Proceed r), w')"
        by (auto split: sum.splits prod.splits)
      show ?thesis
        by (rule "2.IH" [OF a [symmetric, unfolded Inr df] refl refl _ again(1) _ re [symmetric] refl refl rest])
          (use again "2.prems" in auto)
    qed
  qed (use 2(2) a in simp)
qed simp

text \<open>
  C11: No plan passes the gate unreviewed. When human approval is configured and a pause surface is
  wired, and the number of revisions is not negative, the gate lets a plan go on only if that very
  plan was submitted and the pause on its request came back with approved; any other decision,
  including one the code does not know, ends the build with a result whose success is false. Without
  a client or a pauser the plan goes on as it is; and so it does, unreviewed, when the configured
  number of revisions is negative, which the comment calls unreachable.
\<close>

theorem approval_required:
  assumes run: "plan_approval_gate env q w = (Inr outcome, w')"
  shows "(case outcome of
      Terminal result \<Rightarrow> mget result ''success'' = GBool False
    | approval_outcome.Proceed r \<Rightarrow> (\<exists>p. r = Some p \<and>
        (if build_hax_client (env_var (av_host env)) = None \<or> \<not> av_pauser env q \<or> b_max_plan_revisions (ar_cfg q) < 0 then p = ar_plan q
         else \<exists>client. build_hax_client (env_var (av_host env)) = Some client \<and> decided env client q p ''approved'')))"
proof -
  have terminal: "\<exists>p s. out = terminal_outcome p s \<or> (\<exists>r. out = approval_outcome.Proceed r)"
    if "approval_rounds env client q n i history p w = (Inr out, w')" for client n i history p w out
    using that
    by (induction env client q n i history p w rule: approval_rounds.induct) (fastforce split: sum.splits prod.splits if_splits)+
  show ?thesis
  proof (cases "build_hax_client (env_var (av_host env)) = None \<or> \<not> av_pauser env q")
    case True
    with run show ?thesis by (auto simp: plan_approval_gate_def split: option.splits)
  next
    case False
    then obtain client where c: "build_hax_client (env_var (av_host env)) = Some client" "av_pauser env q" by auto
    let ?w = "snd (make_dirs (av_host env) (path_dir (approval_state_path q)) w)" let ?n = "nat (b_max_plan_revisions (ar_cfg q) + 1)"
    have rounds: "approval_rounds env client q ?n 0 [] (ar_plan q) ?w = (Inr outcome, w')"
      using run c by (simp add: plan_approval_gate_def)
    show ?thesis
    proof (cases outcome)
      case (Terminal result)
      with terminal [OF rounds] obtain p s where "Terminal result = terminal_outcome p s" by auto
      then have "mget result ''success'' = GBool False"
        by (simp add: terminal_outcome_def json_map_def mget_def lookup_def_def)
      with Terminal show ?thesis by simp
    next
      case (Proceed r)
      show ?thesis
      proof (cases "b_max_plan_revisions (ar_cfg q) < 0")
        case True
        with rounds Proceed show ?thesis by auto
      next
        case nonneg: False
        with approval_rounds_proceed [OF rounds [unfolded Proceed]] Proceed c show ?thesis by auto
      qed
    qed
  qed
qed

text \<open>A gate on the small disk, with the human of \<open>kind_env\<close>.\<close>

definition kind_gate :: "disk approval_env" where
  "kind_gate = \<lparr>av_host = (demo_host (\<lambda>target args w. (Inr [], w)) (\<lambda>args. ([], [], 0)))\<lparr>env_var := (\<lambda>k. if k = ''HAX_API_KEY'' then ''k'' else [])\<rparr>,
     av_hitl = kind_env, av_pauser = (\<lambda>q. True), av_server = [],
     av_disk = \<lparr>in_time = (\<lambda>w l. True), writable = (\<lambda>w p. False), draw_id = (\<lambda>w. ([], w))\<rparr>\<rparr>"

definition small_request :: approval_request where
  "small_request = \<lparr>ar_cfg = build_config_of [], ar_resolved = [], ar_plan = [(''rationale'', GStr ''r'')], ar_manifest = GNil, ar_repo = ''/r'',
     ar_goal = ''g'', ar_artifacts = [], ar_abs_artifacts = ''/r/a'', ar_execution = ''e''\<rparr>"

lemma kind_client: "build_hax_client (env_var (av_host kind_gate)) = Some \<lparr>hc_base = ''http://localhost:3000'', hc_key = ''k''\<rparr>"
  by code_simp

lemma kind_approves: "plan_approval_gate kind_gate small_request blank_world = (Inr (approval_outcome.Proceed (Some [(''rationale'', GStr ''r'')])), blank_world)"
proof -
  have cfg: "b_max_plan_revisions (ar_cfg small_request) = 0" by code_simp
  have created: "read_created (\<lambda>s. Inr (GMap [(''id'', GStr ''r1''), (''url'', GStr ''/r1'')])) ''created'' = Inr (''r1'', ''/r1'')" by code_simp
  have "create_request kind_env c params w = (Inr (''r1'', ''/r1''), w)" for c params w
    using created by (simp add: create_request_def kind_env_def)
  then have "ask_approval kind_gate c small_request p i history w = (Inr (''approved'', ''go on''), w)" for c p i history w
    by (simp add: ask_approval_def kind_gate_def kind_env_def write_json_def)
  then show ?thesis
    using kind_client cfg by (simp add: plan_approval_gate_def kind_gate_def demo_host_def small_request_def)
qed

theorem approval_required_witness:
  "\<exists>client. build_hax_client (env_var (av_host kind_gate)) = Some client \<and> decided kind_gate client small_request [(''rationale'', GStr ''r'')] ''approved''"
proof -
  have "b_max_plan_revisions (ar_cfg small_request) = 0" by code_simp
  with approval_required [OF kind_approves] kind_client show ?thesis by (simp add: kind_gate_def)
qed

section \<open>What a revision leaves of the old plan\<close>

text \<open>
  C12: A revised plan keeps the schedule of the plan it replaces. Its issues are whatever the sprint
  planner replied, but levels and file conflicts are those of the old plan, and the issues get no
  sequence numbers and no validation. So an issue the revision adds is in no level, and the engine,
  which executes the levels, never runs it.
\<close>

theorem revision_keeps_levels:
  assumes "replan_with_feedback h q p feedback w = (Inr (revised, failed), w')"
  shows "plan_levels revised = plan_levels p \<and> mget revised ''file_conflicts'' = mget p ''file_conflicts'' \<and>
    mget revised ''prd'' = mget p ''prd'' \<and>
    (\<exists>args w1 sprint. call_node h ''run_sprint_planner'' args ''run_sprint_planner (revision)'' w1 = (Inr sprint, w') \<and>
       mget revised ''issues'' = map_get sprint ''issues'' (GList []))"
  using assms unfolding replan_with_feedback_def
  by (auto simp: and_then_Inr revised_plan_def plan_levels_def) metis

text \<open>A revision that replaces the issue \<open>a\<close> by \<open>b\<close>: \<open>b\<close> is in no level.\<close>

definition revising_host :: "disk host" where
  "revising_host = demo_host (\<lambda>target args w.
     (Inr (if target = ''swe-planner.run_sprint_planner'' then [(''issues'', GList [GMap [(''name'', GStr ''b'')]])] else [(''approved'', GBool True)]), w))
     (\<lambda>args. ([], [], 0))"

definition scheduled_plan :: gmap where
  "scheduled_plan = [(''issues'', GList [GMap [(''name'', GStr ''a'')]]), (''levels'', GList [GList [GStr ''a'']])]"

theorem revision_keeps_levels_witness:
  "\<exists>revised failed w'. replan_with_feedback revising_host small_request scheduled_plan ''split a'' blank_world = (Inr (revised, failed), w') \<and>
     map issue_name (plan_issues revised) = [''b''] \<and> plan_levels revised = [[''a'']]"
proof -
  have call: "call_node revising_host name args label w =
      (Inr (if name = ''run_sprint_planner'' then [(''issues'', GList [GMap [(''name'', GStr ''b'')]])] else [(''approved'', GBool True)]), w)"
    if "label \<noteq> []" "name \<in> {''run_sprint_planner'', ''run_architect'', ''run_tech_lead''}" for name args label w
  proof -
    have "unwrap_call_result [(''issues'', GList [GMap [(''name'', GStr ''b'')]])] label = Inr [(''issues'', GList [GMap [(''name'', GStr ''b'')]])]"
      "unwrap_call_result [(''approved'', GBool True)] label = Inr [(''approved'', GBool True)]"
      by (simp_all add: unwrap_call_result_def has_envelope_key_def envelope_keys_def)
    with that show ?thesis
      by (auto simp: call_node_def deps_call_def revising_host_def demo_host_def unwrapped_def call_target_def)
  qed
  have cfg: "nat (b_max_reviews (ar_cfg small_request) + 1) = Suc 0" by code_simp
  obtain review where rev: "reviewed_revision revising_host small_request scheduled_plan ''split a'' blank_world =
      (Inr (review, [(''approved'', GBool True)], []), blank_world)"
    using cfg by (simp add: reviewed_revision_def revise_architecture_def call Let_def orch_bool_def truthy_def mget_def lookup_def_def)
  then obtain revised failed w' where run: "replan_with_feedback revising_host small_request scheduled_plan ''split a'' blank_world = (Inr (revised, failed), w')"
    and i: "mget revised ''issues'' = GList [GMap [(''name'', GStr ''b'')]]"
    by (simp add: replan_with_feedback_def call revised_plan_def map_get_def) (simp add: mget_def lookup_def_def)
  have "plan_levels scheduled_plan = [[''a'']]" by code_simp
  with revision_keeps_levels [OF run] run i show ?thesis
    by (auto simp: plan_issues_def maps_of_def as_map_slice_def issue_name_def mget_def lookup_def_def)
qed

end
