(* ===== verification/IssueBuild.thy ===== *)
theory IssueBuild
  imports CodingLoop Orch
begin

text \<open>
  The issue-level build, \<open>internal/issue\<close>: one fully scoped issue is implemented on a branch of its
  own by the coding loop (\<open>build.go\<close>), between deterministic git steps (\<open>gitops.go\<close>, \<open>exec.go\<close>) and from
  a strictly decoded specification (\<open>spec.go\<close>). Notes are left out.
\<close>

section \<open>The specification\<close>

record issue_spec =
  sp_title :: string
  sp_description :: string
  sp_name :: string
  sp_criteria :: "string list"
  sp_create :: "string list"
  sp_modify :: "string list"
  sp_testing :: string
  sp_complexity :: string
  sp_deeper_qa :: bool

definition j_issue_spec :: jtype where
  "j_issue_spec = JObj
     [fld ''title'' JString, fld ''description'' JString, fld ''name'' JString, fld ''acceptance_criteria'' (JList JString),
      fld ''files_to_create'' (JList JString), fld ''files_to_modify'' (JList JString), fld ''testing_strategy'' JString,
      (''estimated_complexity'', JString, GStr ''small''), fld ''needs_deeper_qa'' JBool]"

definition issue_spec_of :: "gmap \<Rightarrow> issue_spec" where
  "issue_spec_of m =
     \<lparr>sp_title = as_string (mget m ''title''), sp_description = as_string (mget m ''description''), sp_name = as_string (mget m ''name''),
      sp_criteria = strs_of (mget m ''acceptance_criteria''), sp_create = strs_of (mget m ''files_to_create''),
      sp_modify = strs_of (mget m ''files_to_modify''), sp_testing = as_string (mget m ''testing_strategy''),
      sp_complexity = as_string (mget m ''estimated_complexity''), sp_deeper_qa = as_bool (mget m ''needs_deeper_qa'')\<rparr>"

definition parse_spec :: "gmap \<Rightarrow> string + issue_spec" where
  "parse_spec raw = (case strict_decode j_issue_spec raw of
     None \<Rightarrow> Inl ''issue: invalid issue spec: json''
   | Some m \<Rightarrow>
       let spec = issue_spec_of m
       in if trim_space (sp_title spec) = [] then Inl ''issue: title must be a non-empty string''
          else if trim_space (sp_description spec) = [] then Inl ''issue: description must be a non-empty string''
          else Inr spec)"

text \<open>Every run of characters with the property becomes one dash; the flag says whether one is under way.\<close>

fun dash_runs :: "(char \<Rightarrow> bool) \<Rightarrow> bool \<Rightarrow> string \<Rightarrow> string" where
  "dash_runs p under_way [] = []"
| "dash_runs p under_way (c # cs) =
     (if \<not> p c then c # dash_runs p False cs else if under_way then dash_runs p True cs else CHR ''-'' # dash_runs p True cs)"

definition alnum :: "char \<Rightarrow> bool" where
  "alnum c = (let n = (of_char c :: nat) in 48 \<le> n \<and> n \<le> 57 \<or> 65 \<le> n \<and> n \<le> 90 \<or> 97 \<le> n \<and> n \<le> 122)"

definition trim_char :: "char \<Rightarrow> string \<Rightarrow> string" where
  "trim_char c s = trim_right c (dropWhile (\<lambda>x. x = c) s)"

definition slugify :: "string \<Rightarrow> string" where
  "slugify s =
     (let s1 = trim_char CHR ''-'' (dash_runs (\<lambda>c. \<not> alnum c) False (to_lower (trim_space s)));
          s2 = trim_char CHR ''-'' (truncate_str (dash_runs (\<lambda>c. c = CHR ''-'') False s1) 40)
      in if s2 = [] then ''issue'' else s2)"

definition to_planned_issue :: "issue_spec \<Rightarrow> string \<Rightarrow> gmap" where
  "to_planned_issue s context =
     [(''name'', GStr (slugify (if sp_name s = [] then sp_title s else sp_name s))), (''title'', GStr (sp_title s)),
      (''description'', GStr (sp_description s @
         (if context \<noteq> [] then [CHR 0x0A, CHR 0x0A] @ ''## Additional context from the caller'' @ [CHR 0x0A, CHR 0x0A] @ context else []))),
      (''acceptance_criteria'', strs (sp_criteria s)), (''depends_on'', GList []), (''provides'', GList []),
      (''estimated_complexity'', GStr (sp_complexity s)), (''files_to_create'', strs (sp_create s)), (''files_to_modify'', strs (sp_modify s)),
      (''testing_strategy'', GStr (sp_testing s)), (''sequence_number'', GInt 1),
      (''guidance'', GMap
        [(''needs_new_tests'', GBool True), (''estimated_scope'', GStr (sp_complexity s)), (''touches_interfaces'', GBool False),
         (''needs_deeper_qa'', GBool (sp_deeper_qa s)), (''testing_guidance'', GStr (sp_testing s)), (''review_focus'', GStr []),
         (''risk_rationale'', GStr [])]),
      (''target_repo'', GStr [])]"

section \<open>Git\<close>

text \<open>
  What the build needs besides the host: the coding loop's environment, and an append to a file that
  gives its error. A git that cannot be started reports that on standard error output.
\<close>

record 'x issue_deps =
  is_host :: "'x host"
  is_env :: "'x env"
  is_append :: "string \<Rightarrow> string \<Rightarrow> 'x world \<Rightarrow> string option \<times> 'x world"

definition issue_git :: "'x host \<Rightarrow> string \<Rightarrow> string list \<Rightarrow> 'x world \<Rightarrow> (string \<times> string \<times> int) \<times> 'x world" where
  "issue_git h repo args w =
     (let ((out0, err0, code), w1) = run_cmd h [] ''git'' ([''-C'', repo] @ args) w; out = trim_space out0; err = trim_space err0
      in ((out, if err \<noteq> [] then err else if out \<noteq> [] then out else if code \<noteq> 0 then ''exit status '' @ show_int code else [], code), w1))"

definition issue_git_do :: "'x host \<Rightarrow> string \<Rightarrow> string list \<Rightarrow> 'x world \<Rightarrow> 'x world" where
  "issue_git_do h repo args w = snd (issue_git h repo args w)"

definition ensure_ready_repo :: "'x host \<Rightarrow> string \<Rightarrow> 'x world \<Rightarrow> (go_error + unit) \<times> 'x world" where
  "ensure_ready_repo h repo w =
     (if \<not> is_directory h repo w then (Inl (Plain (''repo_path does not exist or is not a directory: '' @ repo)), w)
      else let ((o1, d1, c1), w1) = issue_git h repo [''rev-parse'', ''--git-dir''] w
      in if c1 \<noteq> 0 then (Inl (Plain (''repo_path is not a git repository: '' @ repo)), w1)
         else let ((o2, d2, c2), w2) = issue_git h repo [''rev-parse'', ''--verify'', ''HEAD''] w1
         in if c2 \<noteq> 0
            then (Inl (Plain (''repository has no commits; issue-level builds require an existing '' @
                              ''base commit (use the feature-level build for empty repos)'')), w2)
            else (Inr (), w2))"

definition issue_current_branch :: "'x host \<Rightarrow> string \<Rightarrow> 'x world \<Rightarrow> (go_error + string) \<times> 'x world" where
  "issue_current_branch h repo w =
     (let ((out, detail, code), w1) = issue_git h repo [''rev-parse'', ''--abbrev-ref'', ''HEAD''] w
      in (if code \<noteq> 0 then Inl (Plain (''git rev-parse --abbrev-ref HEAD failed: '' @ detail)) else Inr out, w1))"

definition resolve_base :: "'x host \<Rightarrow> string \<Rightarrow> string \<Rightarrow> 'x world \<Rightarrow> (go_error + string \<times> string) \<times> 'x world" where
  "resolve_base h repo base w =
     and_then (if base = [] then issue_current_branch h repo w else (Inr base, w)) (\<lambda>ref w1.
       let ((sha, detail, code), w2) = issue_git h repo [''rev-parse'', ''--verify'', ref @ ''^{commit}''] w1
       in (if code \<noteq> 0 then Inl (Plain (''base branch/ref not found: '' @ ref)) else Inr (ref, sha), w2))"

definition is_dirty :: "'x host \<Rightarrow> string \<Rightarrow> 'x world \<Rightarrow> bool \<times> 'x world" where
  "is_dirty h repo w =
     (let ((out, detail, code), w1) = issue_git h repo [''status'', ''--porcelain''] w in (code = 0 \<and> out \<noteq> [], w1))"

text \<open>The attempts left, the current attempt and what the last one said; the sleep is in half seconds.\<close>

fun worktree_attempts :: "'x host \<Rightarrow> string \<Rightarrow> string list \<Rightarrow> nat \<Rightarrow> int \<Rightarrow> string \<Rightarrow> 'x world \<Rightarrow> (go_error + unit) \<times> 'x world" where
  "worktree_attempts h repo args 0 attempt detail w =
     (Inl (Plain (''git worktree add failed after 3 attempts: '' @ detail)), w)"
| "worktree_attempts h repo args (Suc n) attempt last_detail w =
     (let ((out, detail, code), w1) = issue_git h repo args w
      in if code = 0 then (Inr (), w1)
         else worktree_attempts h repo args n (attempt + 1) detail (if attempt < 3 then pause h (attempt * 5, - 1) w1 else w1))"

definition issue_add_worktree :: "'x host \<Rightarrow> string \<Rightarrow> string \<Rightarrow> string \<Rightarrow> string \<Rightarrow> 'x world \<Rightarrow> (go_error + unit) \<times> 'x world" where
  "issue_add_worktree h repo tree branch sha w = (case make_dirs h (path_dir tree) w of
     (Some e, w1) \<Rightarrow> (Inl (Plain (''mkdir for worktree failed: '' @ e)), w1)
   | (None, w1) \<Rightarrow> worktree_attempts h repo [''worktree'', ''add'', ''-b'', branch, tree, sha] 3 1 [] w1)"

definition has_commit_identity :: "'x host \<Rightarrow> string \<Rightarrow> 'x world \<Rightarrow> bool \<times> 'x world" where
  "has_commit_identity h repo w =
     (let ((out, detail, code), w1) = issue_git h repo [''config'', ''user.email''] w in (code = 0 \<and> out \<noteq> [], w1))"

definition junk_pathspecs :: "string list" where
  "junk_pathspecs = [''*__pycache__*'', ''*.pyc'', ''*.pyo'']"

definition commit_index :: "'x host \<Rightarrow> string \<Rightarrow> string \<Rightarrow> 'x world \<Rightarrow> (go_error + string) \<times> 'x world" where
  "commit_index h tree message w =
     (let (identity, w1) = has_commit_identity h tree w;
          ((out, detail, code), w2) = issue_git h tree
            ((if identity then [] else [''-c'', ''user.name=SWE-AF'', ''-c'', ''user.email=swe-af@agentfield.local'']) @
             [''commit'', ''-m'', message]) w1;
          lower = to_lower (out @ [CHR 0x0A] @ detail)
      in if code \<noteq> 0
         then (if str_contains lower ''nothing to commit'' \<or> str_contains lower ''nothing added to commit'' then Inr []
               else Inl (Plain (''git commit failed: '' @ detail)), w2)
         else let ((sha, detail', code'), w3) = issue_git h tree [''rev-parse'', ''HEAD''] w2
              in (if code' \<noteq> 0 then Inl (Plain (''git rev-parse HEAD failed: '' @ detail')) else Inr sha, w3))"

definition scrub_tracked_junk :: "'x host \<Rightarrow> string \<Rightarrow> string \<Rightarrow> 'x world \<Rightarrow> (go_error + string) \<times> 'x world" where
  "scrub_tracked_junk h tree name w =
     (let ((out, detail, code), w1) = issue_git h tree ([''ls-files'', ''--''] @ junk_pathspecs) w
      in if code \<noteq> 0 \<or> out = [] then (Inr [], w1)
         else let ((out', detail', code'), w2) = issue_git h tree
                    ([''rm'', ''-r'', ''--cached'', ''-q'', ''--ignore-unmatch'', ''--''] @ junk_pathspecs) w1
              in if code' \<noteq> 0 then (Inl (Plain (''git rm --cached failed: '' @ detail')), w2)
                 else commit_index h tree (''chore('' @ name @ ''): untrack bytecode caches'') w2)"

definition commit_all :: "'x host \<Rightarrow> string \<Rightarrow> string \<Rightarrow> 'x world \<Rightarrow> (go_error + string) \<times> 'x world" where
  "commit_all h tree message w =
     (let (dirty, w1) = is_dirty h tree w
      in if \<not> dirty then (Inr [], w1)
         else let ((out, detail, code), w2) = issue_git h tree
                    ([''add'', ''-A'', ''--'', ''.''] @ map (\<lambda>p. '':(exclude)'' @ p) junk_pathspecs) w1
              in if code \<noteq> 0 then (Inl (Plain (''git add -A failed: '' @ detail)), w2) else commit_index h tree message w2)"

text \<open>\<open>strings.Fields\<close>: the text between white space, the field read so far first.\<close>

function text_fields :: "string \<Rightarrow> string \<Rightarrow> string list" where
  "text_fields cur s =
     (if s = [] then (if cur = [] then [] else [cur])
      else let k = space_len white_space s
           in if k = 0 then text_fields (cur @ [hd s]) (tl s)
              else (if cur = [] then [] else [cur]) @ text_fields [] (drop k s))"
  by pat_completeness auto
termination
  by (relation "measure (\<lambda>(cur, s). length s)") (auto simp: length_greater_0_conv [symmetric] simp del: length_greater_0_conv)

declare text_fields.simps [simp del]

definition commit_range :: "string \<Rightarrow> string \<Rightarrow> string" where
  "commit_range sha branch = sha @ ''..'' @ branch"

definition new_commits :: "'x host \<Rightarrow> string \<Rightarrow> string \<Rightarrow> string \<Rightarrow> 'x world \<Rightarrow> string list \<times> 'x world" where
  "new_commits h repo sha branch w =
     (let ((out, detail, code), w1) = issue_git h repo [''rev-list'', ''--reverse'', commit_range sha branch] w
      in (if code \<noteq> 0 \<or> out = [] then [] else text_fields [] out, w1))"

definition changed_files :: "'x host \<Rightarrow> string \<Rightarrow> string \<Rightarrow> string \<Rightarrow> 'x world \<Rightarrow> string list \<times> 'x world" where
  "changed_files h repo sha branch w =
     (let ((out, detail, code), w1) = issue_git h repo [''diff'', ''--name-only'', commit_range sha branch] w
      in (if code \<noteq> 0 \<or> out = [] then [] else split_lines [] out, w1))"

definition diff_stat :: "'x host \<Rightarrow> string \<Rightarrow> string \<Rightarrow> string \<Rightarrow> 'x world \<Rightarrow> string \<times> 'x world" where
  "diff_stat h repo sha branch w =
     (let ((out, detail, code), w1) = issue_git h repo [''diff'', ''--stat'', commit_range sha branch] w
      in (if code \<noteq> 0 then [] else out, w1))"

definition issue_remove_worktree :: "'x host \<Rightarrow> string \<Rightarrow> string \<Rightarrow> 'x world \<Rightarrow> 'x world" where
  "issue_remove_worktree h repo tree w =
     (let ((out, detail, code), w1) = issue_git h repo [''worktree'', ''remove'', ''--force'', tree] w
      in if code \<noteq> 0 \<and> path_exists h tree w1 then issue_git_do h repo [''worktree'', ''prune''] (remove_tree h tree w1) else w1)"

definition issue_delete_branch :: "'x host \<Rightarrow> string \<Rightarrow> string \<Rightarrow> 'x world \<Rightarrow> 'x world" where
  "issue_delete_branch h repo branch w = issue_git_do h repo [''branch'', ''-D'', branch] w"

definition remote_url :: "'x host \<Rightarrow> string \<Rightarrow> 'x world \<Rightarrow> string \<times> 'x world" where
  "remote_url h repo w =
     (let ((out, detail, code), w1) = issue_git h repo [''remote'', ''get-url'', ''origin''] w in (if code \<noteq> 0 then [] else out, w1))"

definition default_remote_branch :: "'x host \<Rightarrow> string \<Rightarrow> 'x world \<Rightarrow> string \<times> 'x world" where
  "default_remote_branch h repo w =
     (let ((out, detail, code), w1) = issue_git h repo [''symbolic-ref'', ''refs/remotes/origin/HEAD''] w; prefix = ''refs/remotes/origin/''
      in (if code = 0 \<and> has_prefix prefix out then drop (length prefix) out else [], w1))"

definition ensure_local_excludes :: "'x issue_deps \<Rightarrow> string \<Rightarrow> string list \<Rightarrow> 'x world \<Rightarrow> (go_error + unit) \<times> 'x world" where
  "ensure_local_excludes d repo patterns w =
     (let h = is_host d; ((dir0, detail, code), w1) = issue_git h repo [''rev-parse'', ''--git-dir''] w
      in if code \<noteq> 0 then (Inl (Plain (''git rev-parse --git-dir failed: '' @ detail)), w1)
         else let dir = (if is_abs dir0 then dir0 else path_join [repo, dir0]); exclude = path_join [dir, ''info'', ''exclude'']
         in case make_dirs h (path_dir exclude) w1 of
              (Some e, w2) \<Rightarrow> (Inl (Plain (''mkdir .git/info failed: '' @ e)), w2)
            | (None, w2) \<Rightarrow>
                let present = (case read_file h exclude w2 of Contents s \<Rightarrow> map trim_space (split_lines [] s) | _ \<Rightarrow> []);
                    missing = filter (\<lambda>p. p \<notin> set present) patterns
                in if missing = [] then (Inr (), w2)
                   else (case is_append d exclude (join [CHR 0x0A] missing @ [CHR 0x0A]) w2 of
                       (Some e, w3) \<Rightarrow> (Inl (Plain e), w3) | (None, w3) \<Rightarrow> (Inr (), w3)))"

section \<open>\<open>ImplementIssue\<close>\<close>

record implement_input =
  im_issue :: gmap
  im_repo :: string
  im_base :: string
  im_artifacts :: string
  im_context :: string
  im_config :: gmap

definition j_implement_input :: jtype where
  "j_implement_input = JObj
     [fld ''issue'' JDict, fld ''repo_path'' JString, fld ''base_branch'' JString, fld ''artifacts_dir'' JString,
      fld ''additional_context'' JString, fld ''config'' JDict]"

definition implement_input_of :: "gmap \<Rightarrow> implement_input" where
  "implement_input_of m =
     (let str = (\<lambda>k. as_string (mget m k))
      in \<lparr>im_issue = as_map (mget m ''issue''), im_repo = str ''repo_path'', im_base = str ''base_branch'',
          im_artifacts = (if str ''artifacts_dir'' = [] then ''.artifacts'' else str ''artifacts_dir''),
          im_context = str ''additional_context'', im_config = as_map (mget m ''config'')\<rparr>)"

definition completed_outcomes :: "string list" where
  "completed_outcomes = [''completed'', ''completed_with_debt'']"

definition top_path_segment :: "string \<Rightarrow> string" where
  "top_path_segment p = takeWhile (\<lambda>c. c \<noteq> CHR ''/'') (trim_char CHR ''/'' p)"

definition local_excludes :: "string \<Rightarrow> string list" where
  "local_excludes artifacts =
     ''.worktrees/'' #
     (let top = top_path_segment artifacts
      in if \<not> is_abs artifacts \<and> top \<noteq> [] \<and> top \<noteq> ''.'' \<and> top \<noteq> ''..'' then [top @ ''/''] else [])"

text \<open>One branch under construction: everything the build knows once its worktree is there.\<close>

record issue_job =
  jb_cfg :: issue_config
  jb_exec :: exec_config
  jb_spec :: issue_spec
  jb_planned :: gmap
  jb_name :: string
  jb_repo :: string
  jb_tree :: string
  jb_branch :: string
  jb_base :: string
  jb_sha :: string
  jb_artifacts :: string
  jb_build_id :: string

definition job_completed :: "issue_job \<Rightarrow> string \<Rightarrow> gval" where
  "job_completed j summary =
     GList [GMap [(''issue_name'', mget (jb_planned j) ''name''), (''result_summary'', GStr summary)]]"

definition job_prd :: "issue_spec \<Rightarrow> gmap" where
  "job_prd s =
     [(''validated_description'', GStr (sp_title s @ [CHR 0x0A, CHR 0x0A] @ sp_description s)), (''acceptance_criteria'', strs (sp_criteria s)),
      (''must_have'', strs (sp_criteria s)), (''nice_to_have'', GList []), (''out_of_scope'', GList [])]"

definition job_tail :: "issue_job \<Rightarrow> string \<Rightarrow> gmap" where
  "job_tail j model =
     [(''model'', GStr (model_for (jb_exec j) model)), (''permission_mode'', GStr (i_permission_mode (jb_cfg j))),
      (''ai_provider'', GStr (ai_provider (jb_exec j)))]"

text \<open>The deadline of the call is part of what the call may answer.\<close>

definition run_verification :: "'x host \<Rightarrow> issue_job \<Rightarrow> string \<Rightarrow> 'x world \<Rightarrow> gmap \<times> 'x world" where
  "run_verification h j summary w = (case new_call_fn (app_call h) (node_id h @ ''.run_verifier'')
       ([(''prd'', GMap (job_prd (jb_spec j))), (''repo_path'', GStr (jb_tree j)), (''artifacts_dir'', GStr (jb_artifacts j)),
         (''completed_issues'', job_completed j summary), (''failed_issues'', GList []), (''skipped_issues'', GList [])] @
        job_tail j ''verifier_model'') w of
     (Inl e, w1) \<Rightarrow> ([(''passed'', GBool False), (''summary'', GStr (''Verification unavailable: '' @ err_text e))], w1)
   | (Inr r, w1) \<Rightarrow> (r, w1))"

definition maybe_create_pr :: "'x host \<Rightarrow> issue_job \<Rightarrow> string \<Rightarrow> gmap list \<Rightarrow> 'x world \<Rightarrow> string \<times> 'x world" where
  "maybe_create_pr h j summary debt w =
     (let (remote, w1) = remote_url h (jb_repo j) w
      in if remote = [] then ([], w1)
         else let (dflt, w2) = (if i_pr_base (jb_cfg j) = [] then default_remote_branch h (jb_repo j) w1 else ([], w1));
                  base = (if i_pr_base (jb_cfg j) \<noteq> [] then i_pr_base (jb_cfg j) else if dflt \<noteq> [] then dflt
                          else if jb_base j = ''HEAD'' then ''main'' else jb_base j)
              in case new_call_fn (app_call h) (node_id h @ ''.run_github_pr'')
                   ([(''repo_path'', GStr (jb_tree j)), (''integration_branch'', GStr (jb_branch j)), (''base_branch'', GStr base),
                     (''goal'', GStr (sp_title (jb_spec j))), (''build_summary'', GStr (if summary = [] then sp_title (jb_spec j) else summary)),
                     (''completed_issues'', job_completed j summary), (''accumulated_debt'', GList (map GMap debt)),
                     (''artifacts_dir'', GStr (jb_artifacts j))] @ job_tail j ''git_model'') w2 of
                 (Inl e, w3) \<Rightarrow> ([], w3)
               | (Inr r, w3) \<Rightarrow> (as_string (mget r ''pr_url''), w3))"

text \<open>What the execution left behind.\<close>

record issue_outcome =
  oc_outcome :: string
  oc_summary :: string
  oc_error :: string
  oc_iterations :: int
  oc_history :: "gmap list"
  oc_debt :: "gmap list"
  oc_commits :: "string list"
  oc_files :: "string list"
  oc_stat :: string
  oc_verification :: "gmap option"
  oc_pr_url :: string

definition branch_state :: "'x host \<Rightarrow> issue_job \<Rightarrow> 'x world \<Rightarrow> (string list \<times> string list \<times> string) \<times> 'x world" where
  "branch_state h j w =
     (let (commits, w1) = new_commits h (jb_repo j) (jb_sha j) (jb_branch j) w;
          (changed, w2) = changed_files h (jb_repo j) (jb_sha j) (jb_branch j) w1;
          (stat, w3) = diff_stat h (jb_repo j) (jb_sha j) (jb_branch j) w2
      in ((commits, changed, stat), w3))"

definition failed_outcome :: "'x host \<Rightarrow> issue_job \<Rightarrow> go_error \<Rightarrow> 'x world \<Rightarrow> issue_outcome \<times> 'x world" where
  "failed_outcome h j e w =
     (let ((commits, changed, stat), w1) = branch_state h j w
      in (\<lparr>oc_outcome = ''error'', oc_summary = [], oc_error = err_text e, oc_iterations = 0, oc_history = [], oc_debt = [],
           oc_commits = commits, oc_files = changed, oc_stat = stat, oc_verification = None, oc_pr_url = []\<rparr>, w1))"

definition loop_outcome :: "'x host \<Rightarrow> issue_job \<Rightarrow> issue_result \<Rightarrow> 'x world \<Rightarrow> issue_outcome \<times> 'x world" where
  "loop_outcome h j r w =
     (let summary = (if r_summary r = [] then r_error r else r_summary r);
          w1 = snd (scrub_tracked_junk h (jb_tree j) (jb_name j) w);
          w2 = snd (commit_all h (jb_tree j) (''chore('' @ jb_name j @ ''): checkpoint uncommitted issue work'') w1);
          ((commits, changed, stat), w3) = branch_state h j w2;
          done_ok = (r_outcome r \<in> set completed_outcomes \<and> commits \<noteq> []);
          (verification, w4) = (if i_verify (jb_cfg j) \<and> done_ok
             then case run_verification h j summary w3 of (v, w') \<Rightarrow> (Some v, w') else (None, w3));
          (url, w5) = (if i_enable_pr (jb_cfg j) \<and> done_ok then maybe_create_pr h j summary (r_debt r) w4 else ([], w4))
      in (\<lparr>oc_outcome = r_outcome r, oc_summary = summary, oc_error = r_error r, oc_iterations = r_attempts r, oc_history = r_history r,
           oc_debt = r_debt r, oc_commits = commits, oc_files = changed, oc_stat = stat, oc_verification = verification, oc_pr_url = url\<rparr>, w5))"

definition issue_success :: "issue_outcome \<Rightarrow> bool" where
  "issue_success r \<longleftrightarrow> oc_outcome r \<in> set completed_outcomes \<and> oc_commits r \<noteq> [] \<and>
     (case oc_verification r of None \<Rightarrow> True | Some v \<Rightarrow> as_bool (mget v ''passed''))"

definition issue_summary :: "issue_job \<Rightarrow> issue_outcome \<Rightarrow> string" where
  "issue_summary j r =
     jb_name j @ '': '' @ oc_outcome r @ '', '' @ show_nat (length (oc_commits r)) @ '' commit(s), '' @
     show_nat (length (oc_files r)) @ '' file(s) changed'' @
     (if oc_commits r \<noteq> [] then '' on '' @ jb_branch j else ''; no commits produced'') @
     (case oc_verification r of None \<Rightarrow> []
      | Some v \<Rightarrow> if as_bool (mget v ''passed'') then ''; verification passed'' else ''; verification FAILED'') @
     (if oc_summary r \<noteq> [] then '' '' @ em_dash @ '' '' @ oc_summary r else [])"

definition issue_reply :: "issue_job \<Rightarrow> issue_outcome \<Rightarrow> gmap" where
  "issue_reply j r =
     [(''success'', GBool (issue_success r)), (''outcome'', GStr (oc_outcome r)), (''summary'', GStr (issue_summary j r)),
      (''build_id'', GStr (jb_build_id j)), (''branch'', GStr (if oc_commits r = [] then [] else jb_branch j)),
      (''base_branch'', GStr (jb_base j)), (''base_sha'', GStr (jb_sha j)), (''commits'', GStrs (oc_commits r)),
      (''files_changed'', GStrs (oc_files r)), (''diff_stat'', GStr (oc_stat r)), (''iterations'', GInt (oc_iterations r)),
      (''iteration_history'', GMaps (oc_history r)), (''debt_items'', GMaps (oc_debt r)),
      (''verification'', case oc_verification r of None \<Rightarrow> GNil | Some v \<Rightarrow> GMap v), (''pr_url'', GStr (oc_pr_url r)),
      (''error_message'', GStr (if issue_success r then [] else oc_error r))]"

definition job_params :: "'x issue_deps \<Rightarrow> issue_job \<Rightarrow> 'x loop_params" where
  "job_params d j =
     \<lparr>x_env = is_env d, x_call = new_call_fn (app_call (is_host d)), x_node = node_id (is_host d), x_cfg = jb_exec j, x_learn = False,
      x_issue = jb_planned j,
      x_state = zero_state\<lparr>d_repo_path := jb_tree j, d_artifacts_dir := jb_artifacts j, d_build_id := jb_build_id j,
        d_issues := [jb_planned j]\<rparr>\<rparr>"

text \<open>From the worktree on: coding loop, deliverable, clean-up, reply.\<close>

definition execute_issue :: "'x issue_deps \<Rightarrow> issue_job \<Rightarrow> 'x world \<Rightarrow> (go_error + gmap) \<times> 'x world" where
  "execute_issue d j w =
     (let h = is_host d; (loop, w1) = run_coding_loop (job_params d j) w;
          finish = (\<lambda>(r, w2).
            let w3 = (if i_keep_worktree (jb_cfg j) then w2 else issue_remove_worktree h (jb_repo j) (jb_tree j) w2);
                w4 = (if oc_commits r = [] then issue_delete_branch h (jb_repo j) (jb_branch j) w3 else w3)
            in (Inr (issue_reply j r), w4))
      in case loop of
           Inl e \<Rightarrow> if ctx_err w1 \<noteq> None then (Inl e, issue_remove_worktree h (jb_repo j) (jb_tree j) w1)
                    else finish (failed_outcome h j e w1)
         | Inr r \<Rightarrow> finish (loop_outcome h j r w1))"

definition artifacts_for :: "string \<Rightarrow> string \<Rightarrow> string \<Rightarrow> string" where
  "artifacts_for repo artifacts build_id =
     (if is_abs artifacts then path_join [artifacts, ''issue-builds'', build_id] else path_join [repo, artifacts, ''issue-builds'', build_id])"

definition implement_issue :: "'x issue_deps \<Rightarrow> gmap \<Rightarrow> 'x world \<Rightarrow> (go_error + gmap) \<times> 'x world" where
  "implement_issue d input w =
     (let h = is_host d; (m, ok) = map_to_struct j_implement_input input; i = implement_input_of m
      in if \<not> ok then (Inl (Plain ''afx.Bind: json''), w)
         else if im_repo i = [] then (Inl (Plain ''implement_issue: repo_path is required''), w)
         else case load_issue_build_config (env_var h) (im_config i) of Inl e \<Rightarrow> (Inl (load_error_of e), w)
       | Inr cfg \<Rightarrow> (case parse_spec (im_issue i) of Inl e \<Rightarrow> (Inl (Plain e), w)
       | Inr spec \<Rightarrow>
           let planned = to_planned_issue spec (im_context i); name = as_string (mget planned ''name''); repo = abs_path h (im_repo i)
           in and_then (ensure_ready_repo h repo w) (\<lambda>_ w1.
              and_then (resolve_base h repo (im_base i) w1) (\<lambda>(base, sha) w2.
              and_then (ensure_local_excludes d repo (local_excludes (im_artifacts i)) w2) (\<lambda>_ w3.
                let (build_id, w4) = fresh_id h (snd (is_dirty h repo w3));
                    branch = i_branch_prefix cfg @ build_id @ ''-'' @ name;
                    tree = path_join [repo, ''.worktrees'', build_id @ ''-'' @ name];
                    artifacts = artifacts_for repo (im_artifacts i) build_id
                in case make_dirs h artifacts w4 of (Some e, w5) \<Rightarrow> (Inl (Plain e), w5)
                 | (None, w5) \<Rightarrow>
                     and_then (issue_add_worktree h repo tree branch sha w5) (\<lambda>_ w6.
                       case load_execution_config (env_var h) (to_execution_raw cfg) of
                         Inl e \<Rightarrow> (Inl (load_error_of e), issue_delete_branch h repo branch (issue_remove_worktree h repo tree w6))
                       | Inr ex \<Rightarrow> execute_issue d
                           \<lparr>jb_cfg = cfg, jb_exec = ex, jb_spec = spec,
                            jb_planned = mset (mset planned ''worktree_path'' (GStr tree)) ''branch_name'' (GStr branch), jb_name = name,
                            jb_repo = repo, jb_tree = tree, jb_branch = branch, jb_base = base, jb_sha = sha, jb_artifacts = artifacts,
                            jb_build_id = build_id\<rparr> w6))))))"

end
