(* ===== verification/IssueBuildCorrect.thy ===== *)
theory IssueBuildCorrect
  imports IssueBuild HostDemo PlainKeys ConfigCorrect
begin

text \<open>
  The issue-level build: branch names are safe, and success is reported only for committed work that
  the coding loop finished and the verifier, when it is asked, passed.
\<close>

section \<open>Slugs\<close>

definition slug_char :: "char \<Rightarrow> bool" where
  "slug_char c \<longleftrightarrow> alnum c \<and> lower_char c = c"

lemma set_dash_runs: "c \<in> set (dash_runs p b s) \<Longrightarrow> c = CHR ''-'' \<or> c \<in> set s \<and> \<not> p c"
  by (induction p b s rule: dash_runs.induct) (auto split: if_splits)

lemma trim_char_ends:
  "set (trim_char c s) \<subseteq> set s" "trim_char c s \<noteq> [] \<Longrightarrow> hd (trim_char c s) \<noteq> c" "trim_char c s \<noteq> [] \<Longrightarrow> last (trim_char c s) \<noteq> c"
  "length (trim_char c s) \<le> length s"
proof -
  let ?t = "dropWhile (\<lambda>x. x = c) s"
  have right: "set (trim_right c t) \<subseteq> set t" "length (trim_right c t) \<le> length t" for t
    using length_dropWhile_le [of "\<lambda>x. x = c" "rev t"] by (auto simp: trim_right_def dest: set_dropWhileD)
  have "set ?t \<subseteq> set s" using set_dropWhileD [of _ "\<lambda>x. x = c" s] by fast
  with right(1) [of ?t] show "set (trim_char c s) \<subseteq> set s" unfolding trim_char_def by fast
  show "length (trim_char c s) \<le> length s"
    using right(2) [of ?t] length_dropWhile_le [of "\<lambda>x. x = c" s] by (simp add: trim_char_def)
  assume ne: "trim_char c s \<noteq> []"
  then have ne': "dropWhile (\<lambda>x. x = c) (rev ?t) \<noteq> []" unfolding trim_char_def trim_right_def by (metis rev.simps(1))
  then show "last (trim_char c s) \<noteq> c"
    using hd_dropWhile [OF ne'] unfolding trim_char_def trim_right_def by (metis last_rev)
  have t: "?t \<noteq> []" using ne' by (metis dropWhile.simps(1) rev.simps(1))
  have "trim_right c ?t = take (length (trim_right c ?t)) ?t"
    unfolding trim_right_def by (metis append_eq_conv_conj length_rev rev_append rev_rev_ident takeWhile_dropWhile_id)
  then have "hd (trim_char c s) = hd ?t" using ne by (metis hd_take length_greater_0_conv trim_char_def)
  then show "hd (trim_char c s) \<noteq> c" using hd_dropWhile [OF t] by simp
qed

lemma lower_idem: "alnum (lower_char c) \<Longrightarrow> lower_char (lower_char c) = lower_char c"
  by (auto simp: lower_char_def alnum_def Let_def split: if_splits)

text \<open>
  A slug is a safe part of a branch name and of a path: it has between one and 40 characters, all
  of them digits, lower-case letters and dashes, and neither begins nor ends with a dash, whatever
  the caller named the issue. So it has no slash, no dots and no leading dash that git would take for
  an option.
\<close>

theorem slug_safe:
  "slugify s \<noteq> [] \<and> length (slugify s) \<le> 40 \<and> (\<forall>c \<in> set (slugify s). slug_char c \<or> c = CHR ''-'') \<and>
   hd (slugify s) \<noteq> CHR ''-'' \<and> last (slugify s) \<noteq> CHR ''-''"
proof -
  let ?s1 = "trim_char CHR ''-'' (dash_runs (\<lambda>c. \<not> alnum c) False (to_lower (trim_space s)))"
  let ?s2 = "trim_char CHR ''-'' (truncate_str (dash_runs (\<lambda>c. c = CHR ''-'') False ?s1) 40)"
  have 1: "slug_char c \<or> c = CHR ''-''" if "c \<in> set ?s1" for c
  proof -
    from that have "c \<in> set (dash_runs (\<lambda>c. \<not> alnum c) False (to_lower (trim_space s)))" using trim_char_ends(1) by blast
    then have "c = CHR ''-'' \<or> c \<in> set (to_lower (trim_space s)) \<and> alnum c" using set_dash_runs by fastforce
    then show ?thesis by (auto simp: to_lower_def slug_char_def lower_idem)
  qed
  have 2: "slug_char c \<or> c = CHR ''-''" if "c \<in> set ?s2" for c
  proof -
    from that have "c \<in> set (dash_runs (\<lambda>c. c = CHR ''-'') False ?s1)" using trim_char_ends(1) by (fastforce dest: in_set_takeD)
    then show ?thesis using set_dash_runs 1 by fastforce
  qed
  have "length ?s2 \<le> 40" using trim_char_ends(4) [of "CHR ''-''" "truncate_str (dash_runs (\<lambda>c. c = CHR ''-'') False ?s1) 40"] by simp
  moreover have "?s2 \<noteq> [] \<Longrightarrow> hd ?s2 \<noteq> CHR ''-'' \<and> last ?s2 \<noteq> CHR ''-''" using trim_char_ends(2,3) by blast
  moreover have "slug_char c" if "c \<in> set ''issue''" for c
    using that by (auto simp: slug_char_def alnum_def lower_char_def)
  ultimately show ?thesis using 2 unfolding slugify_def Let_def by (cases "?s2 = []") simp_all
qed

theorem slug_safe_witness:
  "length (slugify ''--upload-pack=/../x'') \<le> 40 \<and> hd (slugify ''--upload-pack=/../x'') \<noteq> CHR ''-'' \<and>
   slugify ''--upload-pack=/../x'' = ''upload-pack-x''"
proof (intro conjI)
  show "length (slugify ''--upload-pack=/../x'') \<le> 40" "hd (slugify ''--upload-pack=/../x'') \<noteq> CHR ''-''"
    using slug_safe [of "''--upload-pack=/../x''"] by blast+
  show "slugify ''--upload-pack=/../x'' = ''upload-pack-x''" by code_simp
qed

section \<open>Success\<close>

text \<open>The world in which git is asked for the commits, once the junk is removed and the rest is committed.\<close>

definition settled_world :: "'x issue_deps \<Rightarrow> issue_job \<Rightarrow> 'x world \<Rightarrow> 'x world" where
  "settled_world d j w =
     snd (commit_all (is_host d) (jb_tree j) (''chore('' @ jb_name j @ ''): checkpoint uncommitted issue work'')
       (snd (scrub_tracked_junk (is_host d) (jb_tree j) (jb_name j) w)))"

text \<open>The commits git lists on the branch of the job beyond its base.\<close>

definition delivered_commits :: "'x issue_deps \<Rightarrow> issue_job \<Rightarrow> 'x world \<Rightarrow> string list" where
  "delivered_commits d j w = fst (new_commits (is_host d) (jb_repo j) (jb_sha j) (jb_branch j) (settled_world d j w))"

text \<open>The verifier, asked about the worktree of the job, answers that it passed. A call that fails is no pass.\<close>

definition verifier_passes :: "'x issue_deps \<Rightarrow> issue_job \<Rightarrow> issue_result \<Rightarrow> 'x world \<Rightarrow> bool" where
  "verifier_passes d j res w = (case fst (new_call_fn (app_call (is_host d)) (node_id (is_host d) @ ''.run_verifier'')
       ([(''prd'', GMap (job_prd (jb_spec j))), (''repo_path'', GStr (jb_tree j)), (''artifacts_dir'', GStr (jb_artifacts j)),
         (''completed_issues'', job_completed j (if r_summary res = [] then r_error res else r_summary res)),
         (''failed_issues'', GList []), (''skipped_issues'', GList [])] @ job_tail j ''verifier_model'')
       (snd (branch_state (is_host d) j (settled_world d j w)))) of
     Inl e \<Rightarrow> False | Inr v \<Rightarrow> as_bool (mget v ''passed''))"

lemma run_verification_passes:
  "as_bool (mget (fst (run_verification (is_host d) j (if r_summary res = [] then r_error res else r_summary res)
      (snd (branch_state (is_host d) j (settled_world d j w))))) ''passed'') = verifier_passes d j res w"
  by (auto simp: run_verification_def verifier_passes_def mget_def lookup_def_def as_bool_def split: prod.splits sum.splits)

text \<open>The deliverable of a job: what the loop returned, what git lists, what the verifier said.\<close>

lemma loop_outcome_facts:
  assumes "loop_outcome (is_host d) j res w = (r, w')"
  shows "oc_commits r = delivered_commits d j w \<and>
    issue_success r = (r_outcome res \<in> {out_completed, out_completed_with_debt} \<and> delivered_commits d j w \<noteq> [] \<and>
      (i_verify (jb_cfg j) \<longrightarrow> verifier_passes d j res w))"
proof -
  let ?h = "is_host d" let ?summary = "if r_summary res = [] then r_error res else r_summary res"
  obtain commits changed stat w3 where b: "branch_state ?h j (settled_world d j w) = ((commits, changed, stat), w3)"
    by (cases "branch_state ?h j (settled_world d j w)") auto
  then have commits: "commits = delivered_commits d j w"
    by (auto simp: branch_state_def delivered_commits_def Let_def split: prod.splits)
  obtain v w4 where v: "run_verification ?h j ?summary w3 = (v, w4)" by fastforce
  have r: "oc_outcome r = r_outcome res" "oc_commits r = commits"
    "oc_verification r = (if i_verify (jb_cfg j) \<and> r_outcome res \<in> set completed_outcomes \<and> commits \<noteq> [] then Some v else None)"
    using assms b v by (auto simp: loop_outcome_def Let_def settled_world_def split: prod.splits if_splits)
  moreover have "verifier_passes d j res w = as_bool (mget v ''passed'')" using run_verification_passes [of d j res w] b v by simp
  moreover have "set completed_outcomes = {out_completed, out_completed_with_debt}" by (auto simp: completed_outcomes_def)
  ultimately show ?thesis using commits by (auto simp: issue_success_def)
qed

lemma execute_issue_cases:
  assumes "execute_issue d j w = (Inr reply, w')"
  obtains (failed) e w1 r w2 where "run_coding_loop (job_params d j) w = (Inl e, w1)" "failed_outcome (is_host d) j e w1 = (r, w2)" "reply = issue_reply j r"
  | (finished) res w1 r w2 where "run_coding_loop (job_params d j) w = (Inr res, w1)" "loop_outcome (is_host d) j res w1 = (r, w2)" "reply = issue_reply j r"
proof -
  obtain loop w1 where l: "run_coding_loop (job_params d j) w = (loop, w1)" by fastforce
  show thesis
  proof (cases loop)
    case (Inl e)
    obtain r w2 where "failed_outcome (is_host d) j e w1 = (r, w2)" by fastforce
    with assms l Inl that(1) show ?thesis by (auto simp: execute_issue_def Let_def split: if_splits)
  next
    case (Inr res)
    obtain r w2 where "loop_outcome (is_host d) j res w1 = (r, w2)" by fastforce
    with assms l Inr that(2) show ?thesis by (auto simp: execute_issue_def Let_def split: if_splits)
  qed
qed

text \<open>What is fixed when the worktree is there.\<close>

definition job_for :: "implement_input \<Rightarrow> issue_job \<Rightarrow> bool" where
  "job_for i j \<longleftrightarrow> parse_spec (im_issue i) = Inr (jb_spec j) \<and> jb_name j = as_string (mget (to_planned_issue (jb_spec j) (im_context i)) ''name'') \<and>
     jb_branch j = i_branch_prefix (jb_cfg j) @ jb_build_id j @ ''-'' @ jb_name j \<and>
     jb_tree j = path_join [jb_repo j, ''.worktrees'', jb_build_id j @ ''-'' @ jb_name j]"

lemma and_then_InrE: "and_then m f = (Inr b, w') \<Longrightarrow> (\<And>a w1. m = (Inr a, w1) \<Longrightarrow> f a w1 = (Inr b, w') \<Longrightarrow> P) \<Longrightarrow> P"
  by (auto simp: and_then_Inr)

lemma implement_issue_job:
  assumes run: "implement_issue d input w = (Inr reply, w')"
  shows "\<exists>j w1. job_for (implement_input_of (fst (map_to_struct j_implement_input input))) j \<and>
    load_issue_build_config (env_var (is_host d)) (im_config (implement_input_of (fst (map_to_struct j_implement_input input)))) = Inr (jb_cfg j) \<and>
    execute_issue d j w1 = (Inr reply, w')"
proof -
  obtain m ok where m: "map_to_struct j_implement_input input = (m, ok)" by fastforce
  let ?i = "implement_input_of m"
  from run m obtain cfg spec where c: "load_issue_build_config (env_var (is_host d)) (im_config ?i) = Inr cfg" "parse_spec (im_issue ?i) = Inr spec"
    unfolding implement_issue_def Let_def m prod.case by (auto split: if_splits sum.splits)
  note step = run [unfolded implement_issue_def Let_def m prod.case c sum.case]
  let ?planned = "to_planned_issue spec (im_context ?i)" let ?repo = "abs_path (is_host d) (im_repo ?i)"
  let ?name = "as_string (mget ?planned ''name'')"
  from step obtain ex base sha build_id w1 where e: "execute_issue d
      \<lparr>jb_cfg = cfg, jb_exec = ex, jb_spec = spec,
       jb_planned = mset (mset ?planned ''worktree_path'' (GStr (path_join [?repo, ''.worktrees'', build_id @ ''-'' @ ?name])))
         ''branch_name'' (GStr (i_branch_prefix cfg @ build_id @ ''-'' @ ?name)),
       jb_name = ?name, jb_repo = ?repo, jb_tree = path_join [?repo, ''.worktrees'', build_id @ ''-'' @ ?name],
       jb_branch = i_branch_prefix cfg @ build_id @ ''-'' @ ?name, jb_base = base, jb_sha = sha,
       jb_artifacts = artifacts_for ?repo (im_artifacts ?i) build_id, jb_build_id = build_id\<rparr> w1 = (Inr reply, w')"
    by (auto elim!: and_then_InrE split: if_split_asm prod.split_asm option.split_asm sum.split_asm)
  show ?thesis unfolding m fst_conv
    by (rule exI, rule exI, rule conjI [OF _ conjI [OF _ e]]) (simp_all add: job_for_def c)
qed

text \<open>
  C30: An issue build reports success exactly for a deliverable. The configuration is the one the input
  loads to, the job the one it describes; when the coding loop of that job fails, the build does not succeed; when
  it returns, the build reports success exactly if the issue is completed, with or without debt, git then lists commits of the
  issue's branch beyond the base, and, when the configuration asks for verification, the verifier, called on the
  worktree in that state, was reached and passed: an unreachable verifier never counts as success. The
  reply lists those commits, and names the branch (the configured prefix, the build's id and the slug) only if
  there are any. A success reports no error.
\<close>

theorem issue_build_success:
  assumes run: "implement_issue d input w = (Inr reply, w')"
  shows "\<exists>j w1. job_for (implement_input_of (fst (map_to_struct j_implement_input input))) j \<and>
    load_issue_build_config (env_var (is_host d)) (im_config (implement_input_of (fst (map_to_struct j_implement_input input)))) = Inr (jb_cfg j) \<and>
    (case run_coding_loop (job_params d j) w1 of
       (Inl e, w2) \<Rightarrow> mget reply ''success'' = GBool False
     | (Inr res, w2) \<Rightarrow>
         mget reply ''success'' = GBool (r_outcome res \<in> {out_completed, out_completed_with_debt} \<and> delivered_commits d j w2 \<noteq> [] \<and>
           (i_verify (jb_cfg j) \<longrightarrow> verifier_passes d j res w2)) \<and>
         mget reply ''commits'' = GStrs (delivered_commits d j w2)) \<and>
    mget reply ''branch'' = GStr (if mget reply ''commits'' = GStrs [] then [] else jb_branch j) \<and>
    (mget reply ''success'' = GBool True \<longrightarrow> mget reply ''error_message'' = GStr [])"
proof -
  from implement_issue_job [OF run] obtain j w1 where
    j: "job_for (implement_input_of (fst (map_to_struct j_implement_input input))) j"
      "load_issue_build_config (env_var (is_host d)) (im_config (implement_input_of (fst (map_to_struct j_implement_input input)))) = Inr (jb_cfg j)"
    and e: "execute_issue d j w1 = (Inr reply, w')" by blast
  have reply: "mget (issue_reply j r) ''branch'' = GStr (if oc_commits r = [] then [] else jb_branch j)"
    "mget (issue_reply j r) ''success'' = GBool (issue_success r)"
    "mget (issue_reply j r) ''error_message'' = GStr (if issue_success r then [] else oc_error r)"
    "mget (issue_reply j r) ''commits'' = GStrs (oc_commits r)" for r
    by (simp_all add: issue_reply_def mget_def lookup_def_def)
  have none: "GStrs cs = GStrs [] \<longleftrightarrow> cs = []" for cs by simp
  show ?thesis
    using e
  proof (cases rule: execute_issue_cases)
    case (failed err w2 r w3)
    then have "\<not> issue_success r"
      by (auto simp: failed_outcome_def issue_success_def completed_outcomes_def split: prod.splits)
    with failed j show ?thesis by (intro exI [of _ j] exI [of _ w1]) (simp add: reply)
  next
    case (finished res w2 r w3)
    with loop_outcome_facts [OF finished(2)] j show ?thesis by (intro exI [of _ j] exI [of _ w1]) (simp add: reply)
  qed
qed

text \<open>A build in which every agent approves, and a git whose every command prints one line.\<close>

definition praise :: gmap where
  "praise = [(''approved'', GBool True), (''passed'', GBool True)]"

definition praising_deps :: "disk issue_deps" where
  "praising_deps =
     \<lparr>is_host = (demo_host (\<lambda>target args w. (Inr praise, w)) (\<lambda>args. (''c1'', [], 0)))\<lparr>is_directory := (\<lambda>p w. True)\<rparr>,
      is_env = \<lparr>in_time = (\<lambda>w l. True), writable = (\<lambda>w p. False), draw_id = (\<lambda>w. (''i1'', w))\<rparr>,
      is_append = (\<lambda>p s w. (None, w))\<rparr>"

lemma praise_call [simp]: "new_call_fn (app_call (is_host praising_deps)) target args w = (Inr praise, w)"
  by (simp add: new_call_fn_def unwrapped_def unwrap_call_result_def has_envelope_key_def envelope_keys_def praising_deps_def demo_host_def praise_def)

lemma praise_values [simp]: "reviewer_action praise = ''approve''" "texts_of (mget praise ''files_changed'') = []" "mget praise ''passed'' = GBool True"
  by code_simp+

lemma praise_git [simp]: "issue_git (is_host praising_deps) repo args w = ((''c1'', ''c1'', 0), w)"
proof -
  have "trim_space ''c1'' = ''c1''" "trim_space [] = []" by code_simp+
  then show ?thesis by (simp add: issue_git_def praising_deps_def demo_host_def Let_def)
qed

lemma praised_loop:
  assumes x: "x_env x = is_env praising_deps" "x_call x = new_call_fn (app_call (is_host praising_deps))" "\<not> needs_deeper_qa x" "\<not> x_learn x"
    and fresh: "\<And>p. files w p = None" "ctx_err w = None" and n: "c_max_iterations (x_cfg x) \<ge> 1"
  shows "\<exists>r. run_coding_loop x w = (Inr r, w) \<and> r_outcome r = ''completed''"
proof -
  have call: "role_call x role label args w = (Inr praise, w)" for role label args
    by (simp add: role_call_def call_with_timeout_def x) (simp add: praising_deps_def)
  have save: "save_artifact (x_env x) a b c d w = w" "save_iteration_state (x_env x) a b m e w = w" for a b c d e m
    by (simp_all add: save_artifact_def save_iteration_state_def write_json_def x Let_def) (simp_all add: praising_deps_def)
  have "draw_id (x_env x) w = (''i1'', w)" by (simp add: x praising_deps_def)
  then have it: "\<exists>r. run_iteration x i ls w = (Return (Inr r), w) \<and> r_outcome r = ''completed''" for i ls
    using fresh x call save
    by (simp add: run_iteration_def Let_def review_path_def run_default_path_def conclude_def write_memory_on_approve_def base_result_def)
  have start: "start_state x w = (1, \<lparr>v_feedback = [], v_history = [], v_files = [], v_review = []\<rparr>)"
    by (simp add: start_state_def load_iteration_state_def Let_def fresh)
  obtain k where "nat (c_max_iterations (x_cfg x) - 1 + 1) = Suc k" using n by (metis Suc_pred' zero_less_nat_eq diff_add_cancel less_le_trans zero_less_one)
  moreover obtain r where "run_iteration x 1 \<lparr>v_feedback = [], v_history = [], v_files = [], v_review = []\<rparr> w = (Return (Inr r), w)" "r_outcome r = ''completed''"
    using it by blast
  ultimately show ?thesis using start by (simp add: run_coding_loop_def)
qed

definition issue_request :: gmap where
  "issue_request = [(''issue'', GMap [(''title'', GStr ''Fix Login''), (''description'', GStr ''d'')]), (''repo_path'', GStr ''/r'')]"

lemma issue_request_read: "map_to_struct j_implement_input issue_request =
   (issue_request @ [(''base_branch'', GStr []), (''artifacts_dir'', GStr []), (''additional_context'', GStr []), (''config'', GNil)], True)"
proof -
  have fs: "j_implement_input = JObj [fld ''issue'' JDict, fld ''repo_path'' JString, fld ''base_branch'' JString, fld ''artifacts_dir'' JString,
      fld ''additional_context'' JString, fld ''config'' JDict]" (is "_ = JObj ?fs")
    by (simp add: j_implement_input_def)
  have plain: "plain_keys issue_request" "list_all (\<lambda>x. to_lower (fst x) = fst x) ?fs" by code_simp+
  show ?thesis unfolding fs map_to_struct_plain [OF plain] by (simp add: issue_request_def fld_def decode.simps json_trip.simps)
qed

lemma default_issue_loads: "load_issue_build_config no_env [] = Inr default_issue"
  by code_simp

lemma issue_request_spec: "parse_spec [(''title'', GStr ''Fix Login''), (''description'', GStr ''d'')] = Inr
   \<lparr>sp_title = ''Fix Login'', sp_description = ''d'', sp_name = [], sp_criteria = [], sp_create = [], sp_modify = [], sp_testing = [],
    sp_complexity = ''small'', sp_deeper_qa = False\<rparr>"
proof -
  let ?raw = "[(''title'', GStr ''Fix Login''), (''description'', GStr ''d'')]"
  have fs: "j_issue_spec = JObj [fld ''title'' JString, fld ''description'' JString, fld ''name'' JString, fld ''acceptance_criteria'' (JList JString),
      fld ''files_to_create'' (JList JString), fld ''files_to_modify'' (JList JString), fld ''testing_strategy'' JString,
      (''estimated_complexity'', JString, GStr ''small''), fld ''needs_deeper_qa'' JBool]" (is "_ = JObj ?fs")
    by (simp add: j_issue_spec_def)
  have lower: "lower_keys (map fst ?raw)" by (simp add: lower_keys_def to_lower_def)
  have lower': "\<forall>n \<in> set (map fst ?fs). to_lower n = n" by (simp add: fld_def to_lower_def)
  have ok: "fields_ok ?raw ?fs \<and> set (map fst ?raw) \<subseteq> set (map fst ?fs)" by (simp add: fields_ok_def fld_def codec)
  have over: "over_defaults ?raw ?fs = [(''title'', GStr ''Fix Login''), (''description'', GStr ''d''), (''name'', GStr []),
      (''acceptance_criteria'', GList []), (''files_to_create'', GList []), (''files_to_modify'', GList []), (''testing_strategy'', GStr []),
      (''estimated_complexity'', GStr ''small''), (''needs_deeper_qa'', GBool False)]" by (simp add: over_defaults_def fld_def codec)
  have "trim_space ''Fix Login'' \<noteq> []" "trim_space ''d'' \<noteq> []" by code_simp+
  moreover have "strict_decode j_issue_spec ?raw = Some (over_defaults ?raw ?fs)"
    unfolding fs strict_decode_fields [OF lower lower'] using ok by simp
  ultimately show ?thesis by (simp add: parse_spec_def over issue_spec_of_def mget_def lookup_def_def as_bool_def)
qed

lemma praising_job: "\<exists>reply w'. implement_issue praising_deps issue_request blank_world = (Inr reply, w') \<and>
   mget reply ''success'' = GBool True \<and> mget reply ''branch'' = GStr ''issue/0001-fix-login''"
proof -
  let ?i = "implement_input_of (issue_request @ [(''base_branch'', GStr []), (''artifacts_dir'', GStr []), (''additional_context'', GStr []), (''config'', GNil)])"
  have i: "im_issue ?i = [(''title'', GStr ''Fix Login''), (''description'', GStr ''d'')]" "im_repo ?i = ''/r''" "im_base ?i = []"
    "im_artifacts ?i = ''.artifacts''" "im_context ?i = []" "im_config ?i = []"
    by (simp_all add: implement_input_of_def issue_request_def mget_def lookup_def_def as_map_def)
  obtain ex where ex: "load_execution_config no_env (to_execution_raw default_issue) = Inr ex" "c_max_iterations ex = 3"
    using default_issue_executes by blast
  have env: "env_var (is_host praising_deps) = no_env" by (simp add: praising_deps_def demo_host_def no_env_def fun_eq_iff)
  have slug: "slugify ''Fix Login'' = ''fix-login''" by code_simp
  have steps: "ensure_ready_repo (is_host praising_deps) repo w = (Inr (), w)" "resolve_base (is_host praising_deps) repo [] w = (Inr (''c1'', ''c1''), w)"
    "ensure_local_excludes praising_deps repo ps w = (Inr (), w)" "is_dirty (is_host praising_deps) repo w = (True, w)"
    "issue_add_worktree (is_host praising_deps) repo tree b sha w = (Inr (), w)" "fresh_id (is_host praising_deps) w = (''0001'', w)"
    "make_dirs (is_host praising_deps) p w = (None, w)" for repo ps tree b sha p and w :: "disk world"
  proof -
    show "ensure_ready_repo (is_host praising_deps) repo w = (Inr (), w)"
      by (simp add: ensure_ready_repo_def) (simp add: praising_deps_def)
    show "resolve_base (is_host praising_deps) repo [] w = (Inr (''c1'', ''c1''), w)" by (simp add: resolve_base_def issue_current_branch_def)
    show md: "make_dirs (is_host praising_deps) p w = (None, w)" for p by (simp add: praising_deps_def demo_host_def)
    show "ensure_local_excludes praising_deps repo ps w = (Inr (), w)"
      by (simp add: ensure_local_excludes_def Let_def md) (simp add: praising_deps_def)
    show "is_dirty (is_host praising_deps) repo w = (True, w)" by (simp add: is_dirty_def)
    show "issue_add_worktree (is_host praising_deps) repo tree b sha w = (Inr (), w)"
      by (simp add: issue_add_worktree_def md eval_nat_numeral)
    show "fresh_id (is_host praising_deps) w = (''0001'', w)" by (simp add: praising_deps_def demo_host_def)
  qed
  let ?spec = "\<lparr>sp_title = ''Fix Login'', sp_description = ''d'', sp_name = [], sp_criteria = [], sp_create = [], sp_modify = [], sp_testing = [],
    sp_complexity = ''small'', sp_deeper_qa = False\<rparr>"
  have name: "as_string (mget (to_planned_issue ?spec []) ''name'') = ''fix-login''"
    by (simp add: to_planned_issue_def slug mget_def lookup_def_def)
  let ?planned = "to_planned_issue ?spec []" let ?repo = "abs_path (is_host praising_deps) ''/r''"
  define j where "j = \<lparr>jb_cfg = default_issue, jb_exec = ex, jb_spec = ?spec,
      jb_planned = mset (mset ?planned ''worktree_path'' (GStr (path_join [?repo, ''.worktrees'', ''0001'' @ ''-'' @ ''fix-login''])))
        ''branch_name'' (GStr (i_branch_prefix default_issue @ ''0001'' @ ''-'' @ ''fix-login'')), jb_name = ''fix-login'', jb_repo = ?repo,
      jb_tree = path_join [?repo, ''.worktrees'', ''0001'' @ ''-'' @ ''fix-login''],
      jb_branch = i_branch_prefix default_issue @ ''0001'' @ ''-'' @ ''fix-login'', jb_base = ''c1'', jb_sha = ''c1'',
      jb_artifacts = artifacts_for ?repo ''.artifacts'' ''0001'', jb_build_id = ''0001''\<rparr>"
  have e: "implement_issue praising_deps issue_request blank_world = execute_issue praising_deps j blank_world"
    unfolding implement_issue_def issue_request_read Let_def prod.case i env default_issue_loads issue_request_spec sum.case steps and_then_simps snd_conv
      option.case name ex(1) j_def
    by simp
  let ?x = "job_params praising_deps j"
  have guidance: "mget (jb_planned j) ''guidance'' = mget ?planned ''guidance''" by (simp add: j_def)
  have "\<not> needs_deeper_qa ?x"
    by (simp add: needs_deeper_qa_def job_params_def guidance) (simp add: to_planned_issue_def mget_def lookup_def_def as_map_def get_bool_def)
  then obtain r where r: "run_coding_loop ?x blank_world = (Inr r, blank_world)" "r_outcome r = ''completed''"
    using praised_loop [of ?x blank_world] ex(2) by (auto simp: job_params_def blank_world_def j_def)
  have fields: "text_fields [] ''c1'' = [''c1'']" by code_simp
  have git: "new_commits (is_host praising_deps) a b c w = ([''c1''], w)" "snd (scrub_tracked_junk (is_host praising_deps) a b w) = w"
    "snd (commit_all (is_host praising_deps) a b w) = w" "issue_remove_worktree (is_host praising_deps) a b w = w"
    "changed_files (is_host praising_deps) a b c w = (split_lines [] ''c1'', w)" "diff_stat (is_host praising_deps) a b c w = (''c1'', w)"
    for a b c and w :: "disk world"
    by (simp_all add: new_commits_def fields scrub_tracked_junk_def commit_all_def commit_index_def has_commit_identity_def issue_remove_worktree_def
      changed_files_def diff_stat_def steps(4))
  have cfg: "i_verify (jb_cfg j)" "\<not> i_enable_pr (jb_cfg j)" by (simp_all add: j_def default_issue_def)
  have verify: "run_verification (is_host praising_deps) j s w = (praise, w)" for s w by (simp add: run_verification_def)
  obtain o' where o: "loop_outcome (is_host praising_deps) j r blank_world = (o', blank_world)"
    and "oc_outcome o' = ''completed''" "oc_commits o' = [''c1'']" "oc_verification o' = Some praise"
    by (simp add: loop_outcome_def branch_state_def Let_def git verify r(2) completed_outcomes_def cfg)
  then have "issue_success o'" by (simp add: issue_success_def completed_outcomes_def as_bool_def)
  moreover have "execute_issue praising_deps j blank_world = (Inr (issue_reply j o'), blank_world)"
    using \<open>oc_commits o' = [''c1'']\<close> by (simp add: execute_issue_def r(1) o git Let_def)
  ultimately show ?thesis unfolding e using \<open>oc_commits o' = [''c1'']\<close>
    by (simp add: issue_reply_def mget_def lookup_def_def j_def default_issue_def)
qed

text \<open>Its configuration asks for verification, so the verifier was called on the worktree and passed.\<close>

theorem issue_build_success_witness:
  "\<exists>reply w' j res w2. implement_issue praising_deps issue_request blank_world = (Inr reply, w') \<and>
     mget reply ''success'' = GBool True \<and> i_verify (jb_cfg j) \<and> delivered_commits praising_deps j w2 \<noteq> [] \<and> verifier_passes praising_deps j res w2"
proof -
  from praising_job obtain reply w' where run: "implement_issue praising_deps issue_request blank_world = (Inr reply, w')"
    and ok: "mget reply ''success'' = GBool True" by blast
  have env: "env_var (is_host praising_deps) = no_env" by (simp add: praising_deps_def demo_host_def no_env_def fun_eq_iff)
  from issue_build_success [OF run] obtain j w1 where cfg: "load_issue_build_config (env_var (is_host praising_deps))
      (im_config (implement_input_of (fst (map_to_struct j_implement_input issue_request)))) = Inr (jb_cfg j)"
    and loop: "case run_coding_loop (job_params praising_deps j) w1 of
       (Inl e, w2) \<Rightarrow> mget reply ''success'' = GBool False
     | (Inr res, w2) \<Rightarrow>
         mget reply ''success'' = GBool (r_outcome res \<in> {out_completed, out_completed_with_debt} \<and> delivered_commits praising_deps j w2 \<noteq> [] \<and>
           (i_verify (jb_cfg j) \<longrightarrow> verifier_passes praising_deps j res w2)) \<and>
         mget reply ''commits'' = GStrs (delivered_commits praising_deps j w2)" by (elim exE conjE) (rule that)
  have "im_config (implement_input_of (issue_request @ [(''base_branch'', GStr []), (''artifacts_dir'', GStr []), (''additional_context'', GStr []),
      (''config'', GNil)])) = []"
    by (simp add: implement_input_of_def issue_request_def mget_def lookup_def_def as_map_def)
  with cfg have "jb_cfg j = default_issue" unfolding issue_request_read fst_conv env by (simp add: default_issue_loads)
  then have verify: "i_verify (jb_cfg j)" by (simp add: default_issue_def)
  with loop ok obtain res w2 where "delivered_commits praising_deps j w2 \<noteq> []" "verifier_passes praising_deps j res w2"
    by (auto split: prod.splits sum.splits)
  with run ok verify show ?thesis by blast
qed

end
