(* ===== verification/FastBuild.thy ===== *)
theory FastBuild
  imports Orch
begin

text \<open>
  The single-pass build of the node \<open>swe-fast\<close>, \<open>internal/fast\<close>: \<open>Build\<close> (\<open>build.go\<close>) prepares the repository,
  plans a flat list of tasks (\<open>planner.go\<close>), runs the coder once per task (\<open>executor.go\<close>), verifies once
  (\<open>verifier.go\<close>) and opens a pull request. Notes and the planner's system prompt, a constant, are left out.
\<close>

section \<open>Surroundings\<close>

record fast_task =
  ft_name :: string
  ft_title :: string
  ft_description :: string
  ft_criteria :: "string list"
  ft_create :: "string list"
  ft_modify :: "string list"
  ft_minutes :: int

record fast_plan =
  fp_tasks :: "fast_task list"
  fp_rationale :: string
  fp_fallback :: bool

record fast_options =
  fo_provider :: string
  fo_model :: string
  fo_max_turns :: int
  fo_permission :: string
  fo_cwd :: string

text \<open>
  Beside the host: the harness behind the planner with the plan it decodes; whether what ran under
  a deadline had ended when the deadline was due; and whether a directory has entries.
\<close>

record 'x fast_deps =
  fd_host :: "'x host"
  fd_harness :: "string \<Rightarrow> fast_options \<Rightarrow> 'x world \<Rightarrow> (go_error + harness_result option \<times> fast_plan) \<times> 'x world"
  fd_in_time :: "string \<Rightarrow> 'x world \<Rightarrow> bool"
  fd_non_empty :: "string \<Rightarrow> 'x world \<Rightarrow> bool"

definition fast_call :: "'x fast_deps \<Rightarrow> string \<Rightarrow> gmap \<Rightarrow> 'x world \<Rightarrow> (go_error + gmap) \<times> 'x world" where
  "fast_call d name =
     new_call_fn (app_call (fd_host d)) ((if node_id (fd_host d) = [] then ''swe-fast'' else node_id (fd_host d)) @ ''.'' @ name)"

text \<open>
  \<open>callWithTimeout\<close> and \<open>runWithBuildTimeout\<close>: when the deadline comes first, the error of the caller's own
  context wins; otherwise there is no value, which is the timeout.
\<close>

definition before_deadline :: "('x world \<Rightarrow> bool) \<Rightarrow> (go_error + 'a) \<times> 'x world \<Rightarrow> (go_error + 'a option) \<times> 'x world" where
  "before_deadline punctual run =
     (case run of (r, w) \<Rightarrow>
        if punctual w then (case r of Inl e \<Rightarrow> (Inl e, w) | Inr a \<Rightarrow> (Inr (Some a), w))
        else (case ctx_err w of Some e \<Rightarrow> (Inl e, w) | None \<Rightarrow> (Inr None, w)))"

definition fast_list :: "gmap \<Rightarrow> string \<Rightarrow> gval" where
  "fast_list m k = any0 (mget m k)"

definition list_len :: "gval \<Rightarrow> nat" where
  "list_len v = (case v of GList vs \<Rightarrow> length vs | GMaps ms \<Rightarrow> length ms | GStrs ss \<Rightarrow> length ss | _ \<Rightarrow> 0)"

definition fast_maps :: "gval \<Rightarrow> gmap list" where
  "fast_maps v = (case v of GList vs \<Rightarrow> only_maps vs | _ \<Rightarrow> [])"

section \<open>The repository\<close>

text \<open>\<open>repoNameRe\<close>: the text after the last slash, without a suffix \<open>.git\<close> unless that is all there is.\<close>

definition fast_repo_name :: "string \<Rightarrow> string" where
  "fast_repo_name url =
     (let s = trim_right CHR ''/'' url; name = after_last (\<lambda>c. c = CHR ''/'') s
      in if CHR ''/'' \<notin> set s then ''repo'' else if length name > 4 then strip_suffix ''.git'' name else name)"

definition fast_provider :: "string \<Rightarrow> string" where
  "fast_provider runtime =
     (if runtime = ''claude_code'' then ''claude'' else if runtime = ''codex'' then ''codex''
      else if runtime = ''aforge'' then ''aforge'' else ''opencode'')"

text \<open>
  \<open>credentialURLRe\<close>: a scheme, the user information up to the at sign, and the rest. No class of the
  pattern contains the character that must follow it, so there is one way to match at a place.
\<close>

definition alpha :: "char \<Rightarrow> bool" where
  "alpha c = (let n = (of_char c :: nat) in 65 \<le> n \<and> n \<le> 90 \<or> 97 \<le> n \<and> n \<le> 122)"

definition scheme_char :: "char \<Rightarrow> bool" where
  "scheme_char c = (alpha c \<or> (let n = (of_char c :: nat) in 48 \<le> n \<and> n \<le> 57) \<or> c \<in> set ''+.-'')"

definition info_char :: "char \<Rightarrow> bool" where
  "info_char c = (c \<notin> set ''/@ '' \<and> c \<notin> {CHR 0x09, CHR 0x0A, CHR 0x0C, CHR 0x0D})"

definition cred_here :: "string \<Rightarrow> (string \<times> string \<times> string) option" where
  "cred_here s =
     (let scheme = takeWhile scheme_char s; after = drop (length scheme) s; body = drop 3 after;
          info = takeWhile info_char body; rest = drop (length info) body
      in if s = [] \<or> \<not> alpha (hd s) \<or> \<not> has_prefix ''://'' after \<or> info = [] \<or> \<not> has_prefix ''@'' rest then None
         else Some (scheme @ ''://'', info, drop 1 rest))"

lemma cred_here_shorter:
  assumes "cred_here s = Some (p, info, rest)"
  shows "length rest < length s"
proof -
  from assms have "s \<noteq> []" "rest = drop 1 (drop (length info) (drop 3 (drop (length (takeWhile scheme_char s)) s)))"
    by (auto simp: cred_here_def Let_def split: if_splits)
  then show ?thesis by (simp add: diff_less_mono)
qed

function redact_urls :: "string \<Rightarrow> string" where
  "redact_urls s = (case s of [] \<Rightarrow> []
     | c # cs \<Rightarrow> (case cred_here s of None \<Rightarrow> c # redact_urls cs | Some (p, info, rest) \<Rightarrow> p @ ''***@'' @ redact_urls rest))"
  by pat_completeness auto
termination
  by (relation "measure length") (auto dest: cred_here_shorter)

declare redact_urls.simps [simp del]

fun first_cred :: "string \<Rightarrow> string option" where
  "first_cred [] = None"
| "first_cred (c # cs) = (case cred_here (c # cs) of Some (p, info, rest) \<Rightarrow> Some info | None \<Rightarrow> first_cred cs)"

text \<open>\<open>strings.ReplaceAll\<close> of a text that is not empty.\<close>

function replace_text :: "string \<Rightarrow> string \<Rightarrow> string \<Rightarrow> string" where
  "replace_text old new s =
     (if s = [] \<or> old = [] then s
      else if has_prefix old s then new @ replace_text old new (drop (length old) s)
      else hd s # replace_text old new (tl s))"
  by pat_completeness auto
termination
  by (relation "measure (\<lambda>(old, new, s). length s)") auto

declare replace_text.simps [simp del]

definition redact_credentials :: "string \<Rightarrow> string \<Rightarrow> string" where
  "redact_credentials text url =
     (let t1 = replace_text url (redact_urls url) text;
          password = (case first_cred url of None \<Rightarrow> [] | Some info \<Rightarrow> drop 1 (dropWhile (\<lambda>c. c \<noteq> CHR '':'') info))
      in redact_urls (replace_text password ''***'' t1))"

definition normalized_remote :: "string \<Rightarrow> string" where
  "normalized_remote remote = strip_suffix ''.git'' (trim_right CHR ''/'' remote)"

definition clone_repo :: "'x host \<Rightarrow> string \<Rightarrow> string \<Rightarrow> bool \<Rightarrow> 'x world \<Rightarrow> (go_error + unit) \<times> 'x world" where
  "clone_repo h url repo again w = (case make_dirs h (path_dir repo) w of
     (Some e, w1) \<Rightarrow> (Inl (Plain e), w1)
   | (None, w1) \<Rightarrow>
       let ((out, err, code), w2) = git h [] [''clone'', url, repo] w1; text = redact_credentials (trim_space err) url
       in (if code = 0 then Inr ()
           else Inl (Plain (if again then ''git re-clone failed: '' @ text
                            else ''git clone failed (exit '' @ show_int code @ ''): '' @ text)), w2))"

text \<open>Resetting the node's own clone to the remote's branch.\<close>

definition reset_clone :: "'x host \<Rightarrow> string \<Rightarrow> string \<Rightarrow> string \<Rightarrow> 'x world \<Rightarrow> (go_error + unit) \<times> 'x world" where
  "reset_clone h url repo branch w =
     (let trees = path_join [repo, ''.worktrees''];
          w1 = (if is_directory h trees w then remove_tree h trees w else w);
          w2 = git_each h repo [[''worktree'', ''prune''], [''fetch'', ''origin''], [''checkout'', ''-f'', branch]] w1;
          ((out, err, code), w3) = git h repo [''reset'', ''--hard'', ''origin/'' @ branch] w2
      in if code \<noteq> 0 then clone_repo h url repo True (remove_tree h repo w3) else (Inr (), w3))"

definition prepare_repo :: "'x fast_deps \<Rightarrow> string \<Rightarrow> string \<Rightarrow> string \<Rightarrow> bool \<Rightarrow> 'x world \<Rightarrow> (go_error + unit) \<times> 'x world" where
  "prepare_repo d url repo branch derived w =
     (let h = fd_host d
      in if url \<noteq> [] \<and> \<not> path_exists h (path_join [repo, ''.git'']) w
         then clone_repo h url repo False (if derived \<and> fd_non_empty d repo w then remove_tree h repo w else w)
         else if url \<noteq> [] then
           (if \<not> derived then (Inr (), w)
            else let ((out, err, code), w1) = git h repo [''remote'', ''get-url'', ''origin''] w
                 in if code \<noteq> 0 \<or> normalized_remote (trim_space out) \<noteq> normalized_remote url
                    then clone_repo h url repo True (remove_tree h repo w1)
                    else reset_clone h url repo branch w1)
         else (case make_dirs h repo w of (Some e, w1) \<Rightarrow> (Inl (Plain e), w1) | (None, w1) \<Rightarrow> (Inr (), w1)))"

section \<open>Planning\<close>

definition runtime_to_harness_adapter :: "string \<Rightarrow> string + string" where
  "runtime_to_harness_adapter runtime = (case normalize_runtime_provider runtime of
     Inl e \<Rightarrow> Inl e
   | Inr r \<Rightarrow> Inr (if r = ''claude_code'' then ''claude-code'' else if r = ''open_code'' then ''opencode''
                  else if r = ''aforge'' then ''aforge'' else ''codex''))"

definition j_planner_input :: jtype where
  "j_planner_input = JObj
     [fld ''goal'' JString, fld ''repo_path'' JString, (''max_tasks'', JInt, GInt 10), (''pm_model'', JString, GStr ''haiku''),
      fld ''permission_mode'' JString, (''ai_provider'', JString, GStr ''claude''), fld ''additional_context'' JString,
      fld ''artifacts_dir'' JString]"

definition fallback_plan :: "string \<Rightarrow> fast_plan" where
  "fallback_plan goal =
     \<lparr>fp_tasks = [\<lparr>ft_name = ''implement-goal'', ft_title = ''Implement goal'', ft_description = goal,
        ft_criteria = [''Goal is implemented successfully.''], ft_create = [], ft_modify = [], ft_minutes = 5\<rparr>],
      fp_rationale = ''Fallback plan: LLM did not return a parseable result.'', fp_fallback = True\<rparr>"

definition fast_planner_prompt :: "string \<Rightarrow> string \<Rightarrow> int \<Rightarrow> string \<Rightarrow> string" where
  "fast_planner_prompt goal repo max_tasks context =
     (let nl = [CHR 0x0A]
      in ''## Goal'' @ nl @ goal @ nl @ nl @ ''## Repository'' @ nl @ repo @ nl @
         (if context \<noteq> [] then nl @ ''## Additional Context'' @ nl @ context @ nl else []) @ nl @ ''## Constraints'' @ nl @ nl @
         ''- Produce at most '' @ show_int max_tasks @ '' tasks.'' @ nl @
         ''- Each task must be completable by a single autonomous coding agent.'' @ nl @
         ''- Tasks should be ordered so that later tasks can depend on earlier ones,'' @ nl @
         ''  but avoid unnecessary sequencing '' @ em_dash @ '' keep as much work independent as possible.'' @ nl @ nl @
         ''## Your Output'' @ nl @ nl @
         ''Decompose the goal into a flat task list. Return only valid JSON matching the'' @ nl @
         ''FastPlanResult schema. Do not include any text outside the JSON object.'' @ nl)"

text \<open>\<open>harnessx.Run\<close> of the planner: the plan, or nothing when the harness could not parse one.\<close>

definition run_fast_harness :: "'x fast_deps \<Rightarrow> string \<Rightarrow> fast_options \<Rightarrow> 'x world \<Rightarrow> (go_error + fast_plan option) \<times> 'x world" where
  "run_fast_harness d prompt opts w = (case fd_harness d prompt opts w of
     (Inl e, w1) \<Rightarrow> (Inl e, w1)
   | (Inr (res, plan), w1) \<Rightarrow> (case check_fatal_harness_error res of
       Some e \<Rightarrow> (Inl e, w1)
     | None \<Rightarrow> (Inr (case res of None \<Rightarrow> None | Some h \<Rightarrow> if h_parsed h then Some plan else None), w1)))"

text \<open>\<open>FastPlanTasks\<close>; no value is the panic of the slice when the plan is cut to fewer than no tasks.\<close>

definition fast_plan_tasks :: "'x fast_deps \<Rightarrow> gmap \<Rightarrow> 'x world \<Rightarrow> (go_error + fast_plan) option \<times> 'x world" where
  "fast_plan_tasks d input w =
     (let (m, ok) = map_to_struct j_planner_input input; str = (\<lambda>k. as_string (mget m k)); max_tasks = as_int (mget m ''max_tasks'')
      in if \<not> ok then (Some (Inl (Plain ''json'')), w)
         else case runtime_to_harness_adapter (str ''ai_provider'') of Inl e \<Rightarrow> (Some (Inl (Plain e)), w)
       | Inr adapter \<Rightarrow>
           (case run_fast_harness d
               (fast_planner_prompt (str ''goal'') (str ''repo_path'') max_tasks (str ''additional_context''))
               \<lparr>fo_provider = adapter, fo_model = str ''pm_model'', fo_max_turns = 3, fo_permission = str ''permission_mode'',
                fo_cwd = str ''repo_path''\<rparr> w of
             (Inl e, w1) \<Rightarrow> (Some (Inr (fallback_plan (str ''goal''))), w1)
           | (Inr None, w1) \<Rightarrow> (Some (Inr (fallback_plan (str ''goal''))), w1)
           | (Inr (Some plan), w1) \<Rightarrow>
               (if int (length (fp_tasks plan)) \<le> max_tasks then Some (Inr (plan\<lparr>fp_fallback := False\<rparr>))
                else if max_tasks < 0 then None
                else Some (Inr (plan\<lparr>fp_fallback := False, fp_tasks := take (nat max_tasks) (fp_tasks plan)\<rparr>)), w1)))"

section \<open>Executing\<close>

record fast_task_result =
  tr_name :: string
  tr_outcome :: string
  tr_files :: "string list"
  tr_summary :: string
  tr_error :: string

record fast_execution =
  xr_results :: "fast_task_result list"
  xr_completed :: int
  xr_failed :: int

record executor_input =
  xi_tasks :: "gmap list"
  xi_repo :: string
  xi_model :: string
  xi_permission :: string
  xi_provider :: string
  xi_timeout :: int
  xi_artifacts :: string

definition j_executor_input :: jtype where
  "j_executor_input = JObj
     [fld ''tasks'' (JList JDict), fld ''repo_path'' JString, (''coder_model'', JString, GStr ''haiku''), fld ''permission_mode'' JString,
      (''ai_provider'', JString, GStr ''claude''), (''task_timeout_seconds'', JInt, GInt 300), fld ''artifacts_dir'' JString,
      (''agent_max_turns'', JInt, GInt 50)]"

text \<open>A \<open>null\<close> among the tasks decodes to a nil map, the empty task.\<close>

definition executor_input_of :: "gmap \<Rightarrow> executor_input" where
  "executor_input_of m =
     (let str = (\<lambda>k. as_string (mget m k))
      in \<lparr>xi_tasks = map as_map (as_any_slice (mget m ''tasks'')), xi_repo = str ''repo_path'', xi_model = str ''coder_model'',
          xi_permission = str ''permission_mode'', xi_provider = str ''ai_provider'', xi_timeout = as_int (mget m ''task_timeout_seconds''),
          xi_artifacts = str ''artifacts_dir''\<rparr>)"

definition fast_task_name :: "gmap \<Rightarrow> string" where
  "fast_task_name task = map_str_or task ''name'' ''unknown''"

definition fast_coder_args :: "executor_input \<Rightarrow> gmap \<Rightarrow> gmap" where
  "fast_coder_args x task =
     (let name = fast_task_name task
      in [(''issue'', GMap [(''name'', GStr name), (''title'', GStr (map_str_or task ''title'' name)),
            (''description'', GStr (map_str_or task ''description'' [])), (''acceptance_criteria'', fast_list task ''acceptance_criteria''),
            (''files_to_create'', fast_list task ''files_to_create''), (''files_to_modify'', fast_list task ''files_to_modify''),
            (''testing_strategy'', GStr [])]),
          (''worktree_path'', GStr (xi_repo x)), (''iteration'', GInt 1), (''iteration_id'', GStr name),
          (''project_context'', GMap [(''artifacts_dir'', GStr (xi_artifacts x)), (''repo_path'', GStr (xi_repo x))]),
          (''model'', GStr (xi_model x)), (''permission_mode'', GStr (xi_permission x)), (''ai_provider'', GStr (xi_provider x))])"

definition run_fast_task :: "'x fast_deps \<Rightarrow> executor_input \<Rightarrow> gmap \<Rightarrow> 'x world \<Rightarrow> (go_error + fast_task_result) \<times> 'x world" where
  "run_fast_task d x task w =
     (let name = fast_task_name task;
          result = (\<lambda>outcome files summary err.
            \<lparr>tr_name = name, tr_outcome = outcome, tr_files = files, tr_summary = summary, tr_error = err\<rparr>);
          (r, w1) = before_deadline (fd_in_time d name) (fast_call d ''run_coder'' (fast_coder_args x task) w)
      in (case r of
            Inr None \<Rightarrow> Inr (result ''timeout'' [] [] (''Timed out after '' @ show_int (xi_timeout x) @ ''s''))
          | Inl e \<Rightarrow> if ctx_err w1 \<noteq> None then Inl e else Inr (result ''failed'' [] [] (err_text e))
          | Inr (Some m) \<Rightarrow> Inr (result (if as_bool (mget m ''complete'') then ''completed'' else ''failed'')
              (str_list (mget m ''files_changed'')) (map_str_or m ''summary'' []) []), w1))"

fun run_fast_tasks :: "'x fast_deps \<Rightarrow> executor_input \<Rightarrow> gmap list \<Rightarrow> 'x world \<Rightarrow> (go_error + fast_task_result list) \<times> 'x world" where
  "run_fast_tasks d x [] w = (Inr [], w)"
| "run_fast_tasks d x (task # tasks) w =
     and_then (run_fast_task d x task w) (\<lambda>r w1.
     and_then (run_fast_tasks d x tasks w1) (\<lambda>rs w2. (Inr (r # rs), w2)))"

definition fast_execute_tasks :: "'x fast_deps \<Rightarrow> gmap \<Rightarrow> 'x world \<Rightarrow> (go_error + fast_execution) \<times> 'x world" where
  "fast_execute_tasks d input w =
     (let (m, ok) = map_to_struct j_executor_input input; x = executor_input_of m
      in if \<not> ok then (Inl (Plain ''json''), w)
         else and_then (run_fast_tasks d x (xi_tasks x) w) (\<lambda>rs w1.
           let completed = length (filter (\<lambda>r. tr_outcome r = ''completed'') rs)
           in (Inr \<lparr>xr_results = rs, xr_completed = int completed, xr_failed = int (length rs - completed)\<rparr>, w1)))"

section \<open>Verifying\<close>

record fast_verification =
  fv_passed :: bool
  fv_summary :: string
  fv_criteria :: "gmap list"
  fv_fixes :: "string list"

definition j_verifier_input :: jtype where
  "j_verifier_input = JObj
     [fld ''prd'' JDict, fld ''repo_path'' JString, fld ''task_results'' (JList JDict), (''verifier_model'', JString, GStr ''sonnet''),
      fld ''permission_mode'' JString, (''ai_provider'', JString, GStr ''claude''), fld ''artifacts_dir'' JString]"

definition task_entry :: "gmap \<Rightarrow> gmap" where
  "task_entry tr = [(''issue_name'', GStr (map_str_or tr ''task_name'' [])), (''result_summary'', GStr (map_str_or tr ''summary'' []))]"

definition task_completed :: "gmap \<Rightarrow> bool" where
  "task_completed tr \<longleftrightarrow> map_str_or tr ''outcome'' [] = ''completed''"

definition fast_verify :: "'x fast_deps \<Rightarrow> gmap \<Rightarrow> 'x world \<Rightarrow> (go_error + fast_verification) \<times> 'x world" where
  "fast_verify d input w =
     (let (m, ok) = map_to_struct j_verifier_input input; str = (\<lambda>k. as_string (mget m k));
          trs = map as_map (as_any_slice (mget m ''task_results''))
      in if \<not> ok then (Inl (Plain ''json''), w)
         else case fast_call d ''run_verifier''
             [(''prd'', mget m ''prd''), (''repo_path'', GStr (str ''repo_path'')), (''artifacts_dir'', GStr (str ''artifacts_dir'')),
              (''completed_issues'', GMaps (map task_entry (filter task_completed trs))),
              (''failed_issues'', GMaps (map task_entry (filter (\<lambda>t. \<not> task_completed t) trs))), (''skipped_issues'', GList []),
              (''model'', GStr (str ''verifier_model'')), (''permission_mode'', GStr (str ''permission_mode'')),
              (''ai_provider'', GStr (str ''ai_provider''))] w of
           (Inl e, w1) \<Rightarrow> (Inr \<lparr>fv_passed = False, fv_summary = ''Verification agent failed: '' @ err_text e, fv_criteria = [], fv_fixes = []\<rparr>, w1)
         | (Inr r, w1) \<Rightarrow> (Inr \<lparr>fv_passed = as_bool (mget r ''passed''), fv_summary = map_str_or r ''summary'' [],
             fv_criteria = fast_maps (mget r ''criteria_results''), fv_fixes = str_list (mget r ''suggested_fixes'')\<rparr>, w1))"

section \<open>\<open>Build\<close>\<close>

record fast_job =
  fj_cfg :: fast_config
  fj_models :: "(string \<times> string) list"
  fj_goal :: string
  fj_context :: string
  fj_repo :: string
  fj_artifacts :: string

definition fast_model :: "fast_job \<Rightarrow> string \<Rightarrow> gval" where
  "fast_model j field = GStr (lookup_def [] (fj_models j) field)"

text \<open>The arguments every call of the build ends with.\<close>

definition fast_tail :: "fast_job \<Rightarrow> gmap" where
  "fast_tail j =
     [(''permission_mode'', GStr (k_permission_mode (fj_cfg j))), (''ai_provider'', GStr (fast_provider (k_runtime (fj_cfg j)))),
      (''artifacts_dir'', GStr (fj_artifacts j)), (''repo_path'', GStr (fj_repo j))]"

definition fast_git_init :: "'x fast_deps \<Rightarrow> fast_job \<Rightarrow> 'x world \<Rightarrow> gmap option \<times> 'x world" where
  "fast_git_init d j w = (case fast_call d ''run_git_init''
       ([(''goal'', GStr (fj_goal j)), (''model'', fast_model j ''git_model''), (''build_id'', GStr [])] @ fast_tail j) w of
     (Inl e, w1) \<Rightarrow> (None, w1)
   | (Inr g, w1) \<Rightarrow>
       (if as_bool (mget g ''success'')
        then Some ([(k, mget g k). k \<leftarrow> [''integration_branch'', ''original_branch'', ''initial_commit_sha'', ''mode'']] @
                   [(k, GStr (map_str_or g k [])). k \<leftarrow> [''remote_url'', ''remote_default_branch'']])
        else None, w1))"

definition fast_plan_execute :: "'x fast_deps \<Rightarrow> fast_job \<Rightarrow> 'x world \<Rightarrow> (go_error + gmap \<times> gmap) \<times> 'x world" where
  "fast_plan_execute d j w =
     and_then (fast_call d ''fast_plan_tasks''
         ([(''goal'', GStr (fj_goal j)), (''max_tasks'', GInt (k_max_tasks (fj_cfg j))), (''pm_model'', fast_model j ''pm_model''),
           (''additional_context'', GStr (fj_context j))] @ fast_tail j) w) (\<lambda>plan w1.
     and_then (fast_call d ''fast_execute_tasks''
         ([(''tasks'', any0 (mget plan ''tasks'')), (''coder_model'', fast_model j ''coder_model''),
           (''task_timeout_seconds'', GInt (k_task_timeout (fj_cfg j))), (''agent_max_turns'', GInt (k_agent_max_turns (fj_cfg j)))] @
          fast_tail j) w1) (\<lambda>execution w2. (Inr (plan, execution), w2)))"

definition fast_prd :: "fast_job \<Rightarrow> gmap \<Rightarrow> gmap" where
  "fast_prd j plan =
     (let prd = as_map (mget plan ''prd'')
      in if prd \<noteq> [] then prd
         else (''validated_description'', GStr (fj_goal j)) #
              [(k, GList []). k \<leftarrow> [''acceptance_criteria'', ''must_have'', ''nice_to_have'', ''out_of_scope'']])"

definition fast_verification_of :: "'x fast_deps \<Rightarrow> fast_job \<Rightarrow> gmap \<Rightarrow> gmap \<Rightarrow> 'x world \<Rightarrow> gmap \<times> 'x world" where
  "fast_verification_of d j plan execution w = (case fast_call d ''fast_verify''
       ([(''prd'', GMap (fast_prd j plan)), (''task_results'', any0 (mget execution ''task_results'')),
         (''verifier_model'', fast_model j ''verifier_model'')] @ fast_tail j) w of
     (Inl e, w1) \<Rightarrow> ([(''passed'', GBool False), (''summary'', GStr (''Verification failed: '' @ err_text e))], w1)
   | (Inr v, w1) \<Rightarrow> (v, w1))"

definition fast_finalize :: "'x fast_deps \<Rightarrow> fast_job \<Rightarrow> 'x world \<Rightarrow> 'x world" where
  "fast_finalize d j w = snd (fast_call d ''run_repo_finalize'' ((''model'', fast_model j ''git_model'') # fast_tail j) w)"

definition fast_passed :: "gmap \<Rightarrow> bool" where
  "fast_passed verification = as_bool (mget verification ''passed'')"

definition fast_counts :: "gmap \<Rightarrow> gmap \<Rightarrow> string" where
  "fast_counts execution verification =
     (if fast_passed verification then ''Success'' else ''Partial'') @ '': '' @ show_int (as_int (mget execution ''completed_count'')) @ ''/'' @
     show_nat (list_len (mget execution ''task_results'')) @ '' tasks completed''"

definition verification_note :: "gmap \<Rightarrow> string" where
  "verification_note verification = '', verification: '' @ map_str_or verification ''summary'' []"

text \<open>The pull request, when there is a remote and the configuration wants one.\<close>

definition fast_pr :: "'x fast_deps \<Rightarrow> fast_job \<Rightarrow> gmap option \<Rightarrow> gmap \<Rightarrow> gmap \<Rightarrow> 'x world \<Rightarrow> string \<times> 'x world" where
  "fast_pr d j git_config execution verification w = (case git_config of
     None \<Rightarrow> ([], w)
   | Some g \<Rightarrow>
       if map_str_or g ''remote_url'' [] = [] \<or> \<not> k_enable_pr (fj_cfg j) then ([], w)
       else let base = first_non_empty (first_non_empty (k_pr_base (fj_cfg j)) (map_str_or g ''remote_default_branch'' [])) ''main''
       in case fast_call d ''run_github_pr''
            ([(''integration_branch'', mget g ''integration_branch''), (''base_branch'', GStr base), (''goal'', GStr (fj_goal j)),
              (''build_summary'', GStr (fast_counts execution verification @ verification_note verification)),
              (''completed_issues'',
                GMaps (map task_entry (filter task_completed (fast_maps (any0 (mget execution ''task_results'')))))),
              (''accumulated_debt'', GList []), (''model'', fast_model j ''git_model'')] @ fast_tail j) w of
          (Inl e, w1) \<Rightarrow> ([], w1)
        | (Inr r, w1) \<Rightarrow> (map_str_or r ''pr_url'' [], w1))"

definition fast_reply :: "gmap \<Rightarrow> gmap \<Rightarrow> gmap \<Rightarrow> string \<Rightarrow> gmap" where
  "fast_reply plan execution verification url =
     [(''plan_result'', GMap plan), (''execution_result'', GMap execution), (''verification'', GMap verification),
      (''success'', GBool (fast_passed verification)),
      (''summary'', GStr (fast_counts execution verification @ (if verification \<noteq> [] then verification_note verification else []))),
      (''pr_url'', GStr url)]"

definition timed_out_reply :: "fast_job \<Rightarrow> gmap" where
  "timed_out_reply j =
     [(''plan_result'', GMap []),
      (''execution_result'', GMap [(''timed_out'', GBool True), (''task_results'', GList []), (''completed_count'', GInt 0), (''failed_count'', GInt 0)]),
      (''verification'', GNil), (''success'', GBool False),
      (''summary'', GStr (''Build timed out after '' @ show_int (k_build_timeout (fj_cfg j)) @ ''s'')), (''pr_url'', GStr [])]"

definition fast_pipeline :: "'x fast_deps \<Rightarrow> fast_job \<Rightarrow> 'x world \<Rightarrow> (go_error + gmap) \<times> 'x world" where
  "fast_pipeline d j w =
     (let (git_config, w1) = fast_git_init d j w
      in case before_deadline (fd_in_time d ''plan_execute'') (fast_plan_execute d j w1) of
           (Inl e, w2) \<Rightarrow> (Inl e, w2)
         | (Inr None, w2) \<Rightarrow> (Inr (timed_out_reply j), w2)
         | (Inr (Some (plan, execution)), w2) \<Rightarrow>
             let (verification, w3) = fast_verification_of d j plan execution w2;
                 (url, w4) = fast_pr d j git_config execution verification (fast_finalize d j w3)
             in (Inr (fast_reply plan execution verification url), w4))"

definition j_fast_input :: jtype where
  "j_fast_input = JObj
     [fld ''goal'' JString, fld ''repo_path'' JString, fld ''repo_url'' JString, (''artifacts_dir'', JString, GStr ''.artifacts''),
      fld ''additional_context'' JString, fld ''config'' JDict]"

text \<open>Where a build works: the path it was given, or one under the workspace root that is named after the repository.\<close>

definition fast_workspace :: "getenv \<Rightarrow> string \<Rightarrow> string \<Rightarrow> string" where
  "fast_workspace genv repo url =
     (if repo = [] \<and> url \<noteq> [] then path_join [workspace_root genv, fast_repo_name url] else repo)"

definition fast_job_of :: "'x host \<Rightarrow> gmap \<Rightarrow> fast_config \<Rightarrow> (string \<times> string) list \<Rightarrow> string \<Rightarrow> fast_job" where
  "fast_job_of h m cfg models repo =
     (let str = (\<lambda>k. as_string (mget m k))
      in \<lparr>fj_cfg = cfg, fj_models = models, fj_goal = str ''goal'', fj_context = str ''additional_context'', fj_repo = repo,
          fj_artifacts = path_join [abs_path h repo, str ''artifacts_dir'']\<rparr>)"

definition fast_build :: "'x fast_deps \<Rightarrow> gmap \<Rightarrow> 'x world \<Rightarrow> (go_error + gmap) \<times> 'x world" where
  "fast_build d input w =
     (let h = fd_host d; (m, ok) = map_to_struct j_fast_input input; str = (\<lambda>k. as_string (mget m k))
      in if \<not> ok then (Inl (Plain ''json''), w)
         else case load_fast_build_config (env_var h) (as_map (mget m ''config'')) of Inl e \<Rightarrow> (Inl (load_error_of e), w)
       | Inr cfg \<Rightarrow>
           let url = first_non_empty (str ''repo_url'') (k_repo_url cfg); repo = fast_workspace (env_var h) (str ''repo_path'') url
           in if repo = [] then (Inl (Plain ''Either repo_path or repo_url must be provided''), w)
              else and_then (prepare_repo d url repo (first_non_empty (k_pr_base cfg) ''main'') (str ''repo_path'' = []) w) (\<lambda>_ w1.
                case fast_resolve_models (env_var h) cfg of Inl e \<Rightarrow> (Inl (Plain e), w1)
              | Inr models \<Rightarrow> fast_pipeline d (fast_job_of h m cfg models repo) w1))"

end
