(* ===== verification/Paths.thy ===== *)
theory Paths
  imports Orch "HOL-Library.Sublist"
begin

text \<open>
  Paths as their cleaned components: how \<open>filepath.Join\<close>, \<open>filepath.Dir\<close> and \<open>filepath.Rel\<close> act on them, for the
  components that remove directories and must not remove those of others.
\<close>

section \<open>Components\<close>

definition path_parts :: "string \<Rightarrow> string list" where
  "path_parts s = clean_parts (is_abs s) [] (split_slash [] s)"

definition component :: "string \<Rightarrow> bool" where
  "component p \<longleftrightarrow> p \<noteq> [] \<and> p \<noteq> ''.'' \<and> CHR ''/'' \<notin> set p"

definition plain_component :: "string \<Rightarrow> bool" where
  "plain_component p \<longleftrightarrow> component p \<and> p \<noteq> ''..''"

lemma path_clean_parts:
  "path_clean s = (if is_abs s then ''/'' @ join ''/'' (path_parts s)
     else if path_parts s = [] then ''.'' else join ''/'' (path_parts s))"
  by (simp add: path_clean_def path_parts_def is_abs_def Let_def)

lemma split_slash_slash: "split_slash cur (s @ CHR ''/'' # t) = split_slash cur s @ split_slash [] t"
  by (induction cur s rule: split_slash.induct) auto

lemma split_slash_plain: "CHR ''/'' \<notin> set s \<Longrightarrow> split_slash cur s = [cur @ s]"
  by (induction cur s rule: split_slash.induct) auto

lemma set_split_slash: "CHR ''/'' \<notin> set cur \<Longrightarrow> p \<in> set (split_slash cur s) \<Longrightarrow> CHR ''/'' \<notin> set p"
  by (induction cur s rule: split_slash.induct) (auto split: if_splits)

lemma split_slash_join:
  "ps \<noteq> [] \<Longrightarrow> (\<And>p. p \<in> set ps \<Longrightarrow> CHR ''/'' \<notin> set p) \<Longrightarrow> split_slash [] (join ''/'' ps) = ps"
proof (induction ps)
  case (Cons p ps)
  then show ?case by (cases ps) (simp_all add: split_slash_slash split_slash_plain)
qed simp

lemma clean_parts_append: "clean_parts rooted acc (ps @ qs) = clean_parts rooted (clean_parts rooted acc ps) qs"
  by (induction rooted acc ps rule: clean_parts.induct) simp_all

lemma clean_parts_component:
  "(\<And>p. p \<in> set acc \<Longrightarrow> component p) \<Longrightarrow> (\<And>p. p \<in> set ps \<Longrightarrow> CHR ''/'' \<notin> set p) \<Longrightarrow>
   p \<in> set (clean_parts rooted acc ps) \<Longrightarrow> component p"
proof (induction rooted acc ps rule: clean_parts.induct)
  case (2 rooted acc q ps)
  from 2(2) have acc: "component r" if "r \<in> set acc" for r using that by blast
  from 2(3) have ps: "CHR ''/'' \<notin> set r" if "r \<in> set ps" for r using that by simp
  have q: "CHR ''/'' \<notin> set q" using 2(3) by simp
  have step: "component r" if "r \<in> set (if q = [] \<or> q = ''.'' then acc
        else if q = ''..'' then
          (if acc \<noteq> [] \<and> last acc \<noteq> ''..'' then butlast acc else if rooted then acc else acc @ [q])
        else acc @ [q])" for r
    using that acc q by (auto simp: component_def split: if_splits dest: in_set_butlastD)
  show ?case by (rule 2(1) [OF step ps]) (use 2(4) in simp_all)
qed auto

lemma clean_parts_rooted:
  "''..'' \<notin> set acc \<Longrightarrow> ''..'' \<notin> set (clean_parts True acc ps)"
proof (induction True acc ps rule: clean_parts.induct)
  case (2 acc p ps)
  from 2(2) have "''..'' \<notin> set (if p = [] \<or> p = ''.'' then acc
      else if p = ''..'' then (if acc \<noteq> [] \<and> last acc \<noteq> ''..'' then butlast acc else if True then acc else acc @ [p])
      else acc @ [p])"
    by (auto dest: in_set_butlastD)
  from 2(1) [OF this] show ?case by simp
qed simp

lemma parts_components: "p \<in> set (path_parts s) \<Longrightarrow> component p"
  unfolding path_parts_def by (erule clean_parts_component [rotated 2]) (auto dest: set_split_slash [rotated])

lemma abs_parts: "is_abs s \<Longrightarrow> p \<in> set (path_parts s) \<Longrightarrow> plain_component p"
  using parts_components [of p s] clean_parts_rooted [of "[]"] by (auto simp: plain_component_def path_parts_def)

lemma clean_plain:
  "(\<And>p. p \<in> set ps \<Longrightarrow> plain_component p) \<Longrightarrow> clean_parts rooted acc ps = acc @ ps"
  by (induction rooted acc ps rule: clean_parts.induct) (auto simp: plain_component_def component_def)

section \<open>Joining and leaving\<close>

lemma parts_below: "s \<noteq> [] \<Longrightarrow> plain_component c \<Longrightarrow> path_parts (s @ ''/'' @ c) = path_parts s @ [c]"
  by (cases s) (simp_all add: path_parts_def is_abs_def has_prefix_def split_slash_slash clean_parts_append split_slash_plain
      plain_component_def component_def)

lemma parts_above:
  assumes "is_abs s"
  shows "path_parts (s @ ''/..'') = butlast (path_parts s)"
proof (cases "path_parts s = []")
  case False
  with assms have "last (path_parts s) \<noteq> ''..''" using abs_parts [OF assms last_in_set] by (auto simp: plain_component_def)
  with assms False show ?thesis
    by (auto simp: path_parts_def is_abs_def split_slash_slash clean_parts_append split_slash_plain has_prefix_def)
qed (use assms in \<open>auto simp: path_parts_def is_abs_def split_slash_slash clean_parts_append split_slash_plain has_prefix_def\<close>)

lemma abs_rooted:
  assumes "\<And>p. p \<in> set ps \<Longrightarrow> plain_component p"
  shows "path_parts (''/'' @ join ''/'' ps) = ps"
proof (cases "ps = []")
  case False
  with assms have "split_slash [] (''/'' @ join ''/'' ps) = [] # ps"
    by (simp add: split_slash_join plain_component_def component_def)
  with assms show ?thesis by (simp add: path_parts_def is_abs_def has_prefix_def clean_plain)
qed (simp add: path_parts_def is_abs_def has_prefix_def)

lemma parts_clean: "is_abs s \<Longrightarrow> path_parts (path_clean s) = path_parts s"
  using abs_rooted [of "path_parts s"] abs_parts [of s] by (simp add: path_clean_parts)

section \<open>\<open>filepath.Rel\<close>\<close>

fun strip_common :: "string list \<Rightarrow> string list \<Rightarrow> string list \<times> string list" where
  "strip_common (b # bs) (t # ts) = (if b = t then strip_common bs ts else (b # bs, t # ts))"
| "strip_common bs ts = (bs, ts)"

text \<open>
  The way from one directory to a path, or nothing when there is none that text alone can tell. A target
  \<open>.\<close> is a component of its own, a base \<open>.\<close> is none.
\<close>

definition path_rel :: "string \<Rightarrow> string \<Rightarrow> string option" where
  "path_rel base target =
     (if path_clean target = path_clean base then Some ''.''
      else if is_abs base \<noteq> is_abs target then None
      else let ts = path_parts target;
               (b, t) = strip_common (path_parts base) (if ts = [] \<and> \<not> is_abs target then [''.''] else ts)
           in if b \<noteq> [] \<and> hd b = ''..'' \<and> t \<noteq> [] then None else Some (join ''/'' (replicate (length b) ''..'' @ t)))"

definition within :: "string \<Rightarrow> string \<Rightarrow> bool" where
  "within root path = (case path_rel root path of None \<Rightarrow> False | Some rel \<Rightarrow> rel \<noteq> ''..'' \<and> \<not> has_prefix ''../'' rel)"

lemma strip_common_prefix: "fst (strip_common bs ts) = [] \<longleftrightarrow> prefix bs ts"
  by (induction bs ts rule: strip_common.induct) auto

lemma strip_common_set: "set (snd (strip_common bs ts)) \<subseteq> set ts"
  by (induction bs ts rule: strip_common.induct) auto

lemma join_Cons: "join s (x # xs) = (if xs = [] then x else x @ s @ join s xs)"
  by (cases xs) simp_all

lemma clean_abs: "is_abs (path_clean s) = is_abs s"
proof (cases "is_abs s \<or> path_parts s = []")
  case False
  then obtain p ps where ps: "path_parts s = p # ps" by (cases "path_parts s") auto
  with parts_components [of p s] obtain c cs where "p = c # cs" "c \<noteq> CHR ''/''" by (cases p) (auto simp: component_def)
  with ps False show ?thesis by (auto simp: path_clean_parts is_abs_def has_prefix_def join_Cons)
qed (auto simp: path_clean_parts is_abs_def has_prefix_def)

lemma clean_eq_parts:
  "is_abs s \<Longrightarrow> path_clean t = path_clean s \<longleftrightarrow> is_abs t \<and> path_parts t = path_parts s"
  by (metis clean_abs parts_clean path_clean_parts)

text \<open>Lying below an absolute directory is lying below it component by component.\<close>

lemma within_prefix:
  assumes "is_abs root"
  shows "within root p \<longleftrightarrow> is_abs p \<and> prefix (path_parts root) (path_parts p)"
proof (cases "is_abs p \<and> path_parts p \<noteq> path_parts root")
  case True
  obtain b t where bt: "strip_common (path_parts root) (path_parts p) = (b, t)" by force
  have b: "b = [] \<longleftrightarrow> prefix (path_parts root) (path_parts p)" using strip_common_prefix [of "path_parts root" "path_parts p"] bt by simp
  have t: "plain_component q" if "q \<in> set t" for q
    using strip_common_set [of "path_parts root" "path_parts p"] bt abs_parts [of p] True that by auto
  have up: "has_prefix ''../'' (join ''/'' (''..'' # qs)) \<or> join ''/'' (''..'' # qs) = ''..''" for qs
    by (simp add: join_Cons has_prefix_def)
  have down: "\<not> has_prefix ''../'' (join ''/'' t) \<and> join ''/'' t \<noteq> ''..''"
  proof (cases t)
    case (Cons q qs)
    with t have q: "plain_component q" by simp
    have "takeWhile (\<lambda>c. c \<noteq> CHR ''/'') (join ''/'' t) = q"
      using q Cons by (cases qs) (auto simp: plain_component_def component_def takeWhile_append takeWhile_eq_all_conv)
    moreover have "takeWhile (\<lambda>c. c \<noteq> CHR ''/'') s = ''..''" if "has_prefix ''../'' s \<or> s = ''..''" for s
      using that by (auto simp: has_prefix_iff)
    ultimately show ?thesis using q by (auto simp: plain_component_def)
  qed (simp add: has_prefix_def)
  have rel: "path_rel root p = (if b \<noteq> [] \<and> hd b = ''..'' \<and> t \<noteq> [] then None else Some (join ''/'' (replicate (length b) ''..'' @ t)))"
    using True assms bt by (simp add: path_rel_def clean_eq_parts)
  show ?thesis
  proof (cases b)
    case Nil
    with rel b down True show ?thesis by (simp add: within_def)
  next
    case (Cons x xs)
    with rel b up [of "replicate (length xs) ''..'' @ t"] True show ?thesis by (auto simp: within_def split: if_splits)
  qed
next
  case False
  with assms show ?thesis
    by (auto simp: within_def path_rel_def clean_eq_parts has_prefix_def)
qed

lemma path_join_below:
  assumes "s \<noteq> []" "c \<noteq> []" shows "path_join [s, c] = path_clean (s @ ''/'' @ c)"
  using assms by (simp add: path_join_def)

lemma joined_parts:
  assumes "is_abs s" "plain_component c"
  shows "is_abs (path_join [s, c])" "path_parts (path_join [s, c]) = path_parts s @ [c]"
proof -
  from assms have *: "s \<noteq> []" "c \<noteq> []" "is_abs (s @ ''/'' @ c)"
    by (cases s; auto simp: is_abs_def has_prefix_def plain_component_def component_def)+
  with assms show "is_abs (path_join [s, c])" "path_parts (path_join [s, c]) = path_parts s @ [c]"
    by (simp_all add: path_join_below clean_abs parts_clean parts_below del: append_Cons append.simps)
qed

end
