(* ===== verification/FastCorrect.thy ===== *)
theory FastCorrect
  imports FastBuild Paths HostDemo PlainKeys
begin

text \<open>
  What the single-pass build guarantees: every task is settled exactly once, success comes from a passing
  verification alone, and preparing a repository removes nothing but the node's own workspace.
\<close>

section \<open>The executor\<close>

text \<open>The result a task has to have, given what the call of its coder brought.\<close>

definition task_settled :: "'x fast_deps \<Rightarrow> executor_input \<Rightarrow> gmap \<Rightarrow> fast_task_result \<Rightarrow> bool" where
  "task_settled d x task r \<longleftrightarrow>
     tr_name r = fast_task_name task \<and>
     (\<exists>w. case fast_call d ''run_coder'' (fast_coder_args x task) w of (res, w') \<Rightarrow>
        (if \<not> fd_in_time d (fast_task_name task) w' then tr_outcome r = ''timeout'' \<and> tr_files r = []
         else case res of
             Inl e \<Rightarrow> tr_outcome r = ''failed'' \<and> tr_error r = err_text e \<and> tr_files r = []
           | Inr m \<Rightarrow> tr_outcome r = (if as_bool (mget m ''complete'') then ''completed'' else ''failed'') \<and>
               tr_files r = str_list (mget m ''files_changed'')))"

lemma run_fast_task_settled:
  "run_fast_task d x task w = (Inr r, w') \<Longrightarrow> task_settled d x task r"
  unfolding task_settled_def
  by (intro conjI exI [of _ w]) (auto simp: run_fast_task_def before_deadline_def Let_def split: prod.splits if_splits option.splits sum.splits)

lemma run_fast_task_error:
  "run_fast_task d x task w = (Inl e, w') \<Longrightarrow> ctx_err w' \<noteq> None"
  by (auto simp: run_fast_task_def before_deadline_def Let_def split: prod.splits if_splits option.splits sum.splits)

lemma run_fast_tasks_settled:
  "run_fast_tasks d x tasks w = (Inr rs, w') \<Longrightarrow> list_all2 (task_settled d x) tasks rs"
proof (induction tasks arbitrary: w rs)
  case (Cons task tasks)
  then obtain r w1 rs' where "run_fast_task d x task w = (Inr r, w1)" "run_fast_tasks d x tasks w1 = (Inr rs', w')" "rs = r # rs'"
    by (auto simp: and_then_Inr)
  with Cons.IH show ?case by (auto dest: run_fast_task_settled)
qed simp

lemma run_fast_tasks_error:
  "run_fast_tasks d x tasks w = (Inl e, w') \<Longrightarrow> ctx_err w' \<noteq> None"
  by (induction tasks arbitrary: w) (auto simp: and_then_Inl dest: run_fast_task_error)

lemma settled_names: "list_all2 (task_settled d x) tasks rs \<Longrightarrow> map tr_name rs = map fast_task_name tasks"
  by (induction rule: list_all2_induct) (auto simp: task_settled_def)

text \<open>
  C17: The executor of a fast build gives every task exactly one result, in the order of the tasks and under
  the task's name: completed if the coder answered in time and reported the task complete, failed if it
  reported otherwise or its call failed, and timed out if its deadline came first. The counts add up to the
  number of tasks. A task that fails never ends the run: the executor returns an error only for an
  undecodable request or when its own context was cancelled.
\<close>

theorem fast_tasks_settled:
  "case fast_execute_tasks d input w of
     (Inl e, w') \<Rightarrow> \<not> snd (map_to_struct j_executor_input input) \<or> ctx_err w' \<noteq> None
   | (Inr r, w') \<Rightarrow>
       let x = executor_input_of (fst (map_to_struct j_executor_input input))
       in map tr_name (xr_results r) = map fast_task_name (xi_tasks x) \<and> list_all2 (task_settled d x) (xi_tasks x) (xr_results r) \<and>
          xr_completed r = int (length (filter (\<lambda>t. tr_outcome t = ''completed'') (xr_results r))) \<and>
          xr_completed r + xr_failed r = int (length (xi_tasks x))"
proof (cases "fast_execute_tasks d input w")
  case (Pair res w')
  obtain m ok where m: "map_to_struct j_executor_input input = (m, ok)" by force
  show ?thesis
  proof (cases res)
    case (Inl e)
    with Pair m show ?thesis
      by (auto simp: fast_execute_tasks_def Let_def and_then_Inl split: if_splits dest: run_fast_tasks_error)
  next
    case (Inr r)
    with Pair m obtain rs where rs: "run_fast_tasks d (executor_input_of m) (xi_tasks (executor_input_of m)) w = (Inr rs, w')"
      "r = \<lparr>xr_results = rs, xr_completed = int (length (filter (\<lambda>t. tr_outcome t = ''completed'') rs)),
            xr_failed = int (length rs - length (filter (\<lambda>t. tr_outcome t = ''completed'') rs))\<rparr>"
      by (auto simp: fast_execute_tasks_def Let_def and_then_Inr split: if_splits)
    from run_fast_tasks_settled [OF rs(1)] have all: "list_all2 (task_settled d (executor_input_of m)) (xi_tasks (executor_input_of m)) rs" .
    from list_all2_lengthD [OF this] settled_names [OF all] rs(2) all Pair Inr m show ?thesis
      by (simp add: Let_def of_nat_diff)
  qed
qed

section \<open>The build\<close>

definition fast_verify_args :: "fast_job \<Rightarrow> gmap \<Rightarrow> gmap \<Rightarrow> gmap" where
  "fast_verify_args j plan execution =
     [(''prd'', GMap (fast_prd j plan)), (''task_results'', any0 (mget execution ''task_results'')),
      (''verifier_model'', fast_model j ''verifier_model'')] @ fast_tail j"

lemma fast_verification_cases:
  assumes "fast_verification_of d j plan execution w = (v, w')"
  shows "fast_call d ''fast_verify'' (fast_verify_args j plan execution) w = (Inr v, w') \<or> \<not> fast_passed v"
  using assms by (auto simp: fast_verification_of_def fast_verify_args_def fast_passed_def mget_def lookup_def_def as_bool_def
      split: prod.splits sum.splits)

lemma fast_pipeline_success:
  assumes run: "fast_pipeline d j w = (Inr reply, w')" and ok: "mget reply ''success'' = GBool True"
  shows "\<exists>plan execution w1 w2 v w3. fast_plan_execute d j w1 = (Inr (plan, execution), w2) \<and> fd_in_time d ''plan_execute'' w2 \<and>
     fast_call d ''fast_verify'' (fast_verify_args j plan execution) w2 = (Inr v, w3) \<and> as_bool (mget v ''passed'') \<and>
     mget reply ''plan_result'' = GMap plan \<and> mget reply ''execution_result'' = GMap execution \<and> mget reply ''verification'' = GMap v"
proof -
  obtain g w1 where g: "fast_git_init d j w = (g, w1)" by force
  have "mget (timed_out_reply j) ''success'' = GBool False" by (simp add: timed_out_reply_def mget_def lookup_def_def)
  with run g ok obtain plan execution w2 where
    pe: "before_deadline (fd_in_time d ''plan_execute'') (fast_plan_execute d j w1) = (Inr (Some (plan, execution)), w2)"
    by (auto simp: fast_pipeline_def split: prod.splits sum.splits option.splits)
  obtain v w3 where v: "fast_verification_of d j plan execution w2 = (v, w3)" by force
  obtain url w4 where url: "fast_pr d j g execution v (fast_finalize d j w3) = (url, w4)" by force
  from run g pe v url have reply: "reply = fast_reply plan execution v url" by (simp add: fast_pipeline_def)
  with ok have passed: "fast_passed v" by (simp add: fast_reply_def mget_def lookup_def_def)
  from pe have "fast_plan_execute d j w1 = (Inr (plan, execution), w2)" "fd_in_time d ''plan_execute'' w2"
    by (auto simp: before_deadline_def split: prod.splits if_splits sum.splits option.splits)
  with reply passed fast_verification_cases [OF v] show ?thesis
    by (auto simp: fast_reply_def mget_def lookup_def_def fast_passed_def)
qed

text \<open>
  C15: A fast build reports success only when the verifier passed. Then planning and execution both
  returned in time, the verifying reasoner was called with exactly the results of that execution, it answered
  and passed, and its answer is the verification in the reply. A build that times out, or whose verifier
  cannot be reached, never counts as success.
\<close>

theorem fast_build_success:
  assumes run: "fast_build d input w = (Inr reply, w')" and ok: "mget reply ''success'' = GBool True"
  shows "\<exists>j plan execution w1 w2 v w3. fj_goal j = as_string (mget (fst (map_to_struct j_fast_input input)) ''goal'') \<and>
     fast_plan_execute d j w1 = (Inr (plan, execution), w2) \<and> fd_in_time d ''plan_execute'' w2 \<and>
     fast_call d ''fast_verify'' (fast_verify_args j plan execution) w2 = (Inr v, w3) \<and> as_bool (mget v ''passed'') \<and>
     mget reply ''plan_result'' = GMap plan \<and> mget reply ''execution_result'' = GMap execution \<and> mget reply ''verification'' = GMap v"
proof -
  obtain m dec where m: "map_to_struct j_fast_input input = (m, dec)" by force
  from run m obtain cfg where cfg: "load_fast_build_config (env_var (fd_host d)) (as_map (mget m ''config'')) = Inr cfg"
    by (auto simp: fast_build_def Let_def split: if_split_asm sum.split_asm)
  with run m obtain models where "fast_resolve_models (env_var (fd_host d)) cfg = Inr models"
    by (cases "fast_resolve_models (env_var (fd_host d)) cfg") (auto simp: fast_build_def Let_def and_then_Inr split: if_split_asm)
  with cfg run m obtain repo w1 where "fast_pipeline d (fast_job_of (fd_host d) m cfg models repo) w1 = (Inr reply, w')"
    by (auto simp: fast_build_def Let_def and_then_Inr split: if_split_asm)
  from fast_pipeline_success [OF this ok] m show ?thesis
    by (intro exI [of _ "fast_job_of (fd_host d) m cfg models repo"]) (simp add: fast_job_of_def Let_def)
qed

section \<open>What is removed\<close>

definition with_remover :: "'x fast_deps \<Rightarrow> (string \<Rightarrow> 'x world \<Rightarrow> 'x world) \<Rightarrow> 'x fast_deps" where
  "with_remover d g = d\<lparr>fd_host := (fd_host d)\<lparr>remove_tree := g\<rparr>\<rparr>"

definition strictly_below :: "string \<Rightarrow> string \<Rightarrow> bool" where
  "strictly_below root p \<longleftrightarrow> within root p \<and> path_clean p \<noteq> path_clean root"

lemma with_remover_fields:
  "app_call (fd_host (with_remover d g)) = app_call (fd_host d)" "node_id (fd_host (with_remover d g)) = node_id (fd_host d)"
  "env_var (fd_host (with_remover d g)) = env_var (fd_host d)" "work_dir (fd_host (with_remover d g)) = work_dir (fd_host d)"
  "run_cmd (fd_host (with_remover d g)) = run_cmd (fd_host d)" "make_dirs (fd_host (with_remover d g)) = make_dirs (fd_host d)"
  "path_exists (fd_host (with_remover d g)) = path_exists (fd_host d)" "is_directory (fd_host (with_remover d g)) = is_directory (fd_host d)"
  "remove_tree (fd_host (with_remover d g)) = g" "fd_in_time (with_remover d g) = fd_in_time d"
  "fd_non_empty (with_remover d g) = fd_non_empty d"
  by (simp_all add: with_remover_def)

lemma fast_call_remover: "fast_call (with_remover d g) = fast_call d"
  by (intro ext) (simp add: fast_call_def with_remover_fields)

lemma git_remover: "git (fd_host (with_remover d g)) = git (fd_host d)"
  by (intro ext) (simp add: git_def with_remover_fields)

lemma git_each_remover: "git_each (fd_host (with_remover d g)) dir cmds w = git_each (fd_host d) dir cmds w"
  by (induction cmds arbitrary: w) (simp_all add: git_remover)

lemma clone_repo_remover: "clone_repo (fd_host (with_remover d g)) = clone_repo (fd_host d)"
  by (intro ext) (unfold clone_repo_def git_remover with_remover_fields, rule refl)

lemma fast_job_remover: "fast_job_of (fd_host (with_remover d g)) = fast_job_of (fd_host d)"
  by (intro ext) (simp add: fast_job_of_def abs_path_def with_remover_fields)

lemma fast_pipeline_remover: "fast_pipeline (with_remover d g) = fast_pipeline d"
  by (intro ext) (unfold fast_pipeline_def fast_git_init_def fast_plan_execute_def fast_verification_of_def fast_pr_def
      fast_finalize_def fast_call_remover with_remover_fields, rule refl)

lemma prepare_given: "prepare_repo (with_remover d g) url repo branch False w = prepare_repo d url repo branch False w"
  unfolding prepare_repo_def clone_repo_remover with_remover_fields Let_def by simp

lemma prepare_derived:
  assumes "\<And>w. g repo w = remove_tree (fd_host d) repo w"
    and "\<And>w. g (path_join [repo, ''.worktrees'']) w = remove_tree (fd_host d) (path_join [repo, ''.worktrees'']) w"
  shows "prepare_repo (with_remover d g) url repo branch derived w = prepare_repo d url repo branch derived w"
  unfolding prepare_repo_def reset_clone_def clone_repo_remover git_remover git_each_remover with_remover_fields Let_def assms ..

lemma joined_below: "is_abs s \<Longrightarrow> plain_component c \<Longrightarrow> strictly_below s (path_join [s, c])"
  by (simp add: strictly_below_def within_prefix clean_eq_parts joined_parts)

lemma below_joined: "is_abs root \<Longrightarrow> strictly_below root p \<Longrightarrow> plain_component c \<Longrightarrow> strictly_below root (path_join [p, c])"
  by (auto simp: strictly_below_def within_prefix clean_eq_parts joined_parts prefix_def)

lemma after_last_slash:
  "s \<noteq> [] \<Longrightarrow> last s \<noteq> CHR ''/'' \<Longrightarrow> after_last (\<lambda>c. c = CHR ''/'') s \<noteq> []"
  "CHR ''/'' \<notin> set (after_last (\<lambda>c. c = CHR ''/'') s)"
  by (cases s rule: rev_cases; simp add: after_last_def) (auto simp: after_last_def dest: set_takeWhileD)

lemma trim_right_last: "trim_right c s \<noteq> [] \<Longrightarrow> last (trim_right c s) \<noteq> c"
  using hd_dropWhile [of "\<lambda>x. x = c" "rev s"] unfolding trim_right_def by (metis last_rev rev_is_Nil_conv)

text \<open>The name of a repository is one component of a path, if not one of the two that lead elsewhere.\<close>

lemma fast_repo_name_plain:
  assumes "fast_repo_name url \<notin> {''.'', ''..''}"
  shows "plain_component (fast_repo_name url)"
proof (cases "CHR ''/'' \<in> set (trim_right CHR ''/'' url)")
  case True
  let ?n = "after_last (\<lambda>c. c = CHR ''/'') (trim_right CHR ''/'' url)"
  from True have "trim_right CHR ''/'' url \<noteq> []" by auto
  with trim_right_last after_last_slash have "?n \<noteq> []" "CHR ''/'' \<notin> set ?n" by blast+
  moreover have "strip_suffix ''.git'' s \<noteq> [] \<and> set (strip_suffix ''.git'' s) \<subseteq> set s" if "length s > 4" for s
    using that by (auto simp: strip_suffix_def dest: in_set_takeD)
  ultimately have "fast_repo_name url \<noteq> [] \<and> CHR ''/'' \<notin> set (fast_repo_name url)"
    using True by (auto simp: fast_repo_name_def Let_def)
  with assms show ?thesis by (simp add: plain_component_def component_def)
qed (simp add: fast_repo_name_def plain_component_def component_def)

text \<open>The address a request resolves to, when its configuration loads.\<close>

definition request_url :: "getenv \<Rightarrow> gmap \<Rightarrow> string option" where
  "request_url genv m = (case load_fast_build_config genv (as_map (mget m ''config'')) of
     Inl e \<Rightarrow> None | Inr cfg \<Rightarrow> Some (first_non_empty (as_string (mget m ''repo_url'')) (k_repo_url cfg)))"

text \<open>
  The directories a request entitles the build to remove: none on a path the caller supplied, else the workspace
  named after the repository and the worktrees in it.
\<close>

definition fast_owned :: "getenv \<Rightarrow> gmap \<Rightarrow> string list" where
  "fast_owned genv m =
     (if as_string (mget m ''repo_path'') \<noteq> [] then []
      else case request_url genv m of
        None \<Rightarrow> []
      | Some url \<Rightarrow> [path_join [workspace_root genv, fast_repo_name url], path_join [path_join [workspace_root genv, fast_repo_name url], ''.worktrees'']])"

lemma fast_owned_below:
  assumes root: "is_abs (workspace_root genv)" and name: "\<And>url. request_url genv m = Some url \<Longrightarrow> fast_repo_name url \<notin> {''.'', ''..''}"
  shows "list_all (strictly_below (workspace_root genv)) (fast_owned genv m)"
proof (cases "request_url genv m")
  case (Some url)
  with name have plain: "plain_component (fast_repo_name url)" by (auto intro: fast_repo_name_plain)
  have "plain_component ''.worktrees''" by (simp add: plain_component_def component_def)
  with joined_below [OF root plain] root Some show ?thesis by (simp add: fast_owned_def below_joined)
qed (simp add: fast_owned_def)

text \<open>
  C16: A fast build itself removes no directory but its own. Let removing a directory do anything whatever,
  except on the workspace the build derives from the name of its repository and on the worktrees in it:
  the build takes the same course and leaves the same world. On a path the caller supplied there is no exception, so
  nothing is removed. The workspace and its worktrees lie strictly below the workspace root, unless the last component of the
  address is a dot or two dots: then the workspace is the root itself or its parent, and clearing it removes every other
  build's work.
\<close>

theorem fast_removes_own:
  assumes agree: "\<And>p w. p \<in> set (fast_owned (env_var (fd_host d)) (fst (map_to_struct j_fast_input input))) \<Longrightarrow>
      g p w = remove_tree (fd_host d) p w"
  shows "fast_build (with_remover d g) input w = fast_build d input w \<and>
    (is_abs (workspace_root (env_var (fd_host d))) \<and>
       (\<forall>url. request_url (env_var (fd_host d)) (fst (map_to_struct j_fast_input input)) = Some url \<longrightarrow> fast_repo_name url \<notin> {''.'', ''..''}) \<longrightarrow>
     list_all (strictly_below (workspace_root (env_var (fd_host d))))
       (fast_owned (env_var (fd_host d)) (fst (map_to_struct j_fast_input input))))"
proof (intro conjI impI)
  obtain m dec where m: "map_to_struct j_fast_input input = (m, dec)" by force
  let ?root = "workspace_root (env_var (fd_host d))" and ?path = "as_string (mget m ''repo_path'')"
  have same: "prepare_repo (with_remover d g) url (fast_workspace (env_var (fd_host d)) ?path url) branch (?path = []) w =
      prepare_repo d url (fast_workspace (env_var (fd_host d)) ?path url) branch (?path = []) w"
    if "request_url (env_var (fd_host d)) m = Some url" "fast_workspace (env_var (fd_host d)) ?path url \<noteq> []" for url branch
  proof (cases "?path = []")
    case True
    with agree m that show ?thesis by (auto simp: fast_workspace_def fast_owned_def intro!: prepare_derived)
  qed (simp add: prepare_given)
  show "fast_build (with_remover d g) input w = fast_build d input w"
  proof (cases "load_fast_build_config (env_var (fd_host d)) (as_map (mget m ''config''))")
    case (Inr cfg)
    then have url: "request_url (env_var (fd_host d)) m = Some (first_non_empty (as_string (mget m ''repo_url'')) (k_repo_url cfg))"
      by (simp add: request_url_def)
    show ?thesis
      unfolding fast_build_def Let_def m with_remover_fields fast_pipeline_remover fast_job_remover
      using same [OF url] Inr by simp
  qed (simp add: fast_build_def Let_def m with_remover_fields)
qed (use fast_owned_below in blast)

section \<open>On a small host\<close>

text \<open>Every reasoner answers that it is complete and passed, except the coder of the task \<open>b\<close>, which fails.\<close>

definition fast_demo :: "disk fast_deps" where
  "fast_demo =
     \<lparr>fd_host = demo_host (\<lambda>target args w. (if mget args ''iteration_id'' = GStr ''b'' then Inl (Plain ''e'')
        else Inr [(''complete'', GBool True), (''passed'', GBool True)], w)) (\<lambda>args. ([], [], 0)),
      fd_harness = (\<lambda>prompt opts w. (Inl (Plain ''e''), w)), fd_in_time = (\<lambda>label w. True), fd_non_empty = (\<lambda>p w. True)\<rparr>"

lemma fast_demo_call:
  "fast_call fast_demo name args w = (if mget args ''iteration_id'' = GStr ''b'' then Inl (Plain ''e'')
     else Inr [(''complete'', GBool True), (''passed'', GBool True)], w)"
  by (simp add: fast_call_def new_call_fn_def unwrapped_def unwrap_call_result_def has_envelope_key_def envelope_keys_def fast_demo_def demo_host_def)

definition two_tasks :: gmap where
  "two_tasks = [(''tasks'', GList [GMap [(''name'', GStr ''a'')], GMap [(''name'', GStr ''b'')]])]"

lemma two_tasks_read: "map_to_struct j_executor_input two_tasks =
   (two_tasks @ [(''repo_path'', GStr []), (''coder_model'', GStr ''haiku''), (''permission_mode'', GStr []), (''ai_provider'', GStr ''claude''),
      (''task_timeout_seconds'', GInt 300), (''artifacts_dir'', GStr []), (''agent_max_turns'', GInt 50)], True)"
proof -
  have fs: "j_executor_input = JObj (fields_of j_executor_input)" by (simp add: j_executor_input_def fields_of_def)
  have plain: "plain_keys two_tasks" "list_all (\<lambda>x. to_lower (fst x) = fst x) (fields_of j_executor_input)" by code_simp+
  show ?thesis by (subst fs, subst map_to_struct_plain [OF plain])
    (simp add: two_tasks_def fld_def decode.simps json_trip.simps j_executor_input_def fields_of_def)
qed

lemma demo_task:
  assumes "ctx_err w = None"
  shows "\<exists>r. run_fast_task fast_demo x [(''name'', GStr n)] w = (Inr r, w) \<and> tr_outcome r = (if n = ''b'' then ''failed'' else ''completed'')"
proof -
  have "fast_task_name [(''name'', GStr n)] = n" by (simp add: fast_task_name_def map_str_or_def mget_def lookup_def_def)
  moreover have "mget (fast_coder_args x t) ''iteration_id'' = GStr (fast_task_name t)" for t
    by (simp add: fast_coder_args_def mget_def lookup_def_def Let_def)
  moreover have "fd_in_time fast_demo n w" by (simp add: fast_demo_def)
  ultimately show ?thesis using assms
    by (simp add: run_fast_task_def before_deadline_def fast_demo_call Let_def) (simp add: mget_def lookup_def_def as_bool_def)
qed

theorem fast_tasks_settled_witness:
  "\<exists>r w'. fast_execute_tasks fast_demo two_tasks blank_world = (Inr r, w') \<and> map tr_name (xr_results r) = [''a'', ''b''] \<and>
     xr_completed r = 1 \<and> xr_failed r = 1"
proof -
  let ?x = "executor_input_of (fst (map_to_struct j_executor_input two_tasks))"
  have tasks: "xi_tasks ?x = [[(''name'', GStr ''a'')], [(''name'', GStr ''b'')]]"
    by (simp add: two_tasks_read) (simp add: executor_input_of_def two_tasks_def mget_def lookup_def_def as_any_slice_def as_map_def)
  have names: "fast_task_name [(''name'', GStr n)] = n" for n by (simp add: fast_task_name_def map_str_or_def mget_def lookup_def_def)
  have idle: "ctx_err blank_world = None" by (simp add: blank_world_def)
  from demo_task [OF idle, of ?x "''a''"] obtain ra where
    ra: "run_fast_task fast_demo ?x [(''name'', GStr ''a'')] blank_world = (Inr ra, blank_world)" "tr_outcome ra = ''completed''" by auto
  from demo_task [OF idle, of ?x "''b''"] obtain rb where
    rb: "run_fast_task fast_demo ?x [(''name'', GStr ''b'')] blank_world = (Inr rb, blank_world)" "tr_outcome rb = ''failed''" by auto
  from ra rb obtain r where r: "fast_execute_tasks fast_demo two_tasks blank_world = (Inr r, blank_world)" "xr_results r = [ra, rb]"
    using tasks by (simp add: fast_execute_tasks_def two_tasks_read Let_def)
  from fast_tasks_settled [where d = fast_demo and input = two_tasks and w = blank_world] r tasks names ra(2) rb(2) show ?thesis
    by (simp add: Let_def)
qed

definition fast_request :: gmap where
  "fast_request = [(''repo_url'', GStr ''https://h/x'')]"

lemma fast_request_read: "map_to_struct j_fast_input fast_request =
   ([(''goal'', GStr []), (''repo_path'', GStr []), (''repo_url'', GStr ''https://h/x''), (''artifacts_dir'', GStr ''.artifacts''),
     (''additional_context'', GStr []), (''config'', GNil)], True)"
proof -
  have fs: "j_fast_input = JObj (fields_of j_fast_input)" by (simp add: j_fast_input_def fields_of_def)
  have plain: "plain_keys fast_request" "list_all (\<lambda>x. to_lower (fst x) = fst x) (fields_of j_fast_input)" by code_simp+
  show ?thesis by (subst fs, subst map_to_struct_plain [OF plain])
    (simp add: fast_request_def fld_def decode.simps json_trip.simps j_fast_input_def fields_of_def)
qed

definition default_fast :: fast_config where
  "default_fast = \<lparr>k_runtime = ''claude_code'', k_models = None, k_max_tasks = 10, k_task_timeout = 300, k_build_timeout = 600, k_enable_pr = True,
     k_pr_base = [], k_permission_mode = [], k_repo_url = [], k_agent_max_turns = 50\<rparr>"

lemma default_fast_loads: "load_fast_build_config (\<lambda>k. []) [] = Inr default_fast"
  by code_simp

lemma default_fast_resolves: "\<exists>models. fast_resolve_models (\<lambda>k. []) default_fast = Inr models"
  by (simp add: fast_resolve_models_def default_fast_def Let_def)

lemma fast_demo_host: "env_var (fd_host fast_demo) = (\<lambda>k. [])" "make_dirs (fd_host fast_demo) p w = (None, w)"
  "git (fd_host fast_demo) dir args w = (([], [], 0), w)" "path_exists (fd_host fast_demo) p w = False" "remove_tree (fd_host fast_demo) p w = w"
  "fd_in_time fast_demo label w"
  by (simp_all add: fast_demo_def demo_host_def git_def)

lemma fast_demo_builds: "\<exists>reply. fast_build fast_demo fast_request blank_world = (Inr reply, blank_world) \<and> mget reply ''success'' = GBool True"
proof -
  obtain models where models: "fast_resolve_models (\<lambda>k. []) default_fast = Inr models" using default_fast_resolves by blast
  have ws: "fast_workspace (\<lambda>k. []) [] ''https://h/x'' = ''/workspaces/x''" by code_simp
  have prep: "prepare_repo fast_demo ''https://h/x'' repo branch True w = (Inr (), w)" for repo branch w
    by (simp add: prepare_repo_def clone_repo_def fast_demo_host)
  have pipe: "\<exists>reply. fast_pipeline fast_demo j w = (Inr reply, w) \<and> mget reply ''success'' = GBool True" for j w
    by (simp add: fast_pipeline_def fast_git_init_def fast_plan_execute_def fast_verification_of_def fast_finalize_def fast_pr_def before_deadline_def
        fast_demo_call fast_demo_host fast_tail_def fast_reply_def fast_passed_def mget_def lookup_def_def as_bool_def Let_def)
  have "fast_build fast_demo fast_request blank_world =
      fast_pipeline fast_demo (fast_job_of (fd_host fast_demo)
        [(''goal'', GStr []), (''repo_path'', GStr []), (''repo_url'', GStr ''https://h/x''), (''artifacts_dir'', GStr ''.artifacts''),
         (''additional_context'', GStr []), (''config'', GNil)] default_fast models ''/workspaces/x'') blank_world"
    by (simp add: fast_build_def fast_request_read mget_def lookup_def_def as_map_def fast_demo_host default_fast_loads models first_non_empty_def
        ws prep Let_def)
  with pipe show ?thesis by simp
qed

theorem fast_build_success_witness:
  "\<exists>reply w' j plan execution w2 v w3. fast_build fast_demo fast_request blank_world = (Inr reply, w') \<and>
     fast_call fast_demo ''fast_verify'' (fast_verify_args j plan execution) w2 = (Inr v, w3) \<and> as_bool (mget v ''passed'') \<and>
     mget reply ''verification'' = GMap v"
proof -
  from fast_demo_builds obtain reply where run: "fast_build fast_demo fast_request blank_world = (Inr reply, blank_world)"
    and ok: "mget reply ''success'' = GBool True" by blast
  from fast_build_success [OF this] run show ?thesis by blast
qed

theorem fast_removes_own_witness:
  "fast_build (with_remover fast_demo (\<lambda>p w. if p \<in> {''/workspaces/x'', ''/workspaces/x/.worktrees''} then w else w\<lparr>outside := (\<lambda>q. Some ''gone'')\<rparr>))
     fast_request blank_world = fast_build fast_demo fast_request blank_world \<and>
   list_all (strictly_below ''/workspaces'') [''/workspaces/x'', ''/workspaces/x/.worktrees''] \<and>
   fast_workspace (\<lambda>k. []) [] ''https://h/..'' = ''/''"
proof -
  let ?g = "\<lambda>p w. if p \<in> {''/workspaces/x'', ''/workspaces/x/.worktrees''} then w else w\<lparr>outside := (\<lambda>q. Some ''gone'')\<rparr> :: disk world"
  have root: "workspace_root (\<lambda>k. []) = ''/workspaces''" by (simp add: workspace_root_def)
  have paths: "fast_repo_name ''https://h/x'' = ''x''" "path_join [''/workspaces'', ''x''] = ''/workspaces/x''"
    "path_join [''/workspaces/x'', ''.worktrees''] = ''/workspaces/x/.worktrees''" "fast_workspace (\<lambda>k. []) [] ''https://h/..'' = ''/''"
    by code_simp+
  have url: "request_url (\<lambda>k. []) (fst (map_to_struct j_fast_input fast_request)) = Some ''https://h/x''"
    by (simp add: request_url_def fast_request_read mget_def lookup_def_def as_map_def default_fast_loads first_non_empty_def)
  have owned: "fast_owned (\<lambda>k. []) (fst (map_to_struct j_fast_input fast_request)) = [''/workspaces/x'', ''/workspaces/x/.worktrees'']"
    unfolding fast_owned_def url root by (simp add: fast_request_read mget_def lookup_def_def paths(1-3))
  have "?g p w = remove_tree (fd_host fast_demo) p w"
    if "p \<in> set (fast_owned (env_var (fd_host fast_demo)) (fst (map_to_struct j_fast_input fast_request)))" for p w
    using that unfolding fast_demo_host owned by simp
  from fast_removes_own [of fast_demo fast_request ?g blank_world, OF this] show ?thesis
    unfolding fast_demo_host root owned url by (simp add: paths is_abs_def has_prefix_def)
qed

end
