(* ===== verification/Furrow.thy ===== *)
theory Furrow
  imports Paths Failures ConfigLoad "HOL-Library.Word"
begin

text \<open>
  The workspace mirror, \<open>internal/furrow\<close>: the manager (\<open>manager.go\<close>) keeps a registry of the runs it mirrors, one
  directory per run under the remotes root, publishes snapshots and reclaims space; the binaries and the
  switches are in \<open>bin.go\<close>, the registry file in \<open>registry.go\<close>, the rows and handles in \<open>types.go\<close>.
  Log messages are left out.
\<close>

section \<open>Rows, handles and surroundings\<close>

record furrow_entry =
  fe_run :: string
  fe_build :: string
  fe_repo :: string
  fe_namespace :: string
  fe_key :: string
  fe_token :: string
  fe_store :: string
  fe_created :: int
  fe_updated :: int

type_synonym furrow_rows = "(string \<times> furrow_entry) list"

record furrow_handle =
  fh_version :: int
  fh_remote :: string
  fh_namespace :: string
  fh_key :: string
  fh_token :: string
  fh_repo :: string

text \<open>
  \<open>dirSize\<close>: the bytes of a directory, also when it vanished in part while it was walked, or an error.
\<close>

datatype dir_size = Bytes int | Vanished int | Unmeasurable string

text \<open>
  The furrow command and what it prints; the JSON parser; the registry file, written atomically and read
  back; removal with its error; sizes, free space, the clock, random tokens, the state of the public
  transport, and which files are executable or can be made so.
\<close>

record 'x furrow_env =
  fx_host :: "'x host"
  fx_exec :: "string \<Rightarrow> string list \<Rightarrow> string \<Rightarrow> 'x world \<Rightarrow> (string + string) \<times> 'x world"
  fx_parse :: "string \<Rightarrow> gval option"
  fx_replace :: "string \<Rightarrow> furrow_rows \<Rightarrow> 'x world \<Rightarrow> string option \<times> 'x world"
  fx_load :: "string \<Rightarrow> 'x world \<Rightarrow> furrow_rows option"
  fx_remove :: "string \<Rightarrow> 'x world \<Rightarrow> string option \<times> 'x world"
  fx_size :: "string \<Rightarrow> 'x world \<Rightarrow> dir_size"
  fx_free :: "string \<Rightarrow> 'x world \<Rightarrow> int option"
  fx_now :: "'x world \<Rightarrow> int \<times> 'x world"
  fx_token :: "'x world \<Rightarrow> (string + string) \<times> 'x world"
  fx_transport :: "'x world \<Rightarrow> bool"
  fx_runnable :: "string \<Rightarrow> 'x world \<Rightarrow> bool"
  fx_repair :: "string \<Rightarrow> 'x world \<Rightarrow> bool \<times> 'x world"
  fx_executable :: "string option"
  fx_platform :: string

text \<open>The manager without its registry, which every operation takes and returns.\<close>

record furrow =
  fw_enabled :: bool
  fw_bin :: string
  fw_store_root :: string
  fw_remotes_root :: string
  fw_public_addr :: string
  fw_max_bytes :: int
  fw_grace :: int

section \<open>Switches, binaries and the budget\<close>

definition env_truthy :: "getenv \<Rightarrow> string \<Rightarrow> bool" where
  "env_truthy genv key \<longleftrightarrow> to_lower (trim_space (genv key)) \<in> set [''1'', ''true'', ''yes'', ''on'']"

definition enabled_by_env :: "getenv \<Rightarrow> bool" where
  "enabled_by_env genv =
     (if trim_space (genv ''SWE_FURROW_ENABLED'') \<noteq> [] then env_truthy genv ''SWE_FURROW_ENABLED''
      else trim_space (genv ''FURROW_PUBLIC_ADDR'') \<noteq> [])"

text \<open>A binary shipped beside the node's own executable is made executable when it is not.\<close>

definition vendored_runnable :: "'x furrow_env \<Rightarrow> string \<Rightarrow> 'x world \<Rightarrow> bool \<times> 'x world" where
  "vendored_runnable env path w = (if fx_runnable env path w then (True, w) else fx_repair env path w)"

fun first_vendored :: "'x furrow_env \<Rightarrow> string list \<Rightarrow> 'x world \<Rightarrow> string option \<times> 'x world" where
  "first_vendored env [] w = (None, w)"
| "first_vendored env (path # paths) w =
     (let (ok, w1) = vendored_runnable env path w in if ok then (Some path, w1) else first_vendored env paths w1)"

definition resolve_named :: "'x furrow_env \<Rightarrow> string \<Rightarrow> string \<Rightarrow> string \<Rightarrow> 'x world \<Rightarrow> (string + string) \<times> 'x world" where
  "resolve_named env var name dflt w =
     (let path = env_var (fx_host env) var
      in if path \<noteq> [] then
           (if fx_runnable env path w then Inr path
            else Inl (name @ '' binary '' @ [CHR 0x22] @ path @ [CHR 0x22] @ '' is missing or not executable''), w)
         else if fx_runnable env dflt w then (Inr dflt, w)
         else let dir = (case fx_executable env of None \<Rightarrow> None | Some e \<Rightarrow> Some (path_dir e));
                  (found, w1) = (case dir of None \<Rightarrow> (None, w)
                    | Some p \<Rightarrow> first_vendored env [path_join [p, name @ ''-'' @ fx_platform env], path_join [p, name]] w)
              in (case found of Some p \<Rightarrow> Inr p | None \<Rightarrow> Inl (''no runnable '' @ name @ '' binary found''), w1))"

definition resolve_bin :: "'x furrow_env \<Rightarrow> 'x world \<Rightarrow> (string + string) \<times> 'x world" where
  "resolve_bin env = resolve_named env ''SWE_FURROW_BIN'' ''furrow'' ''/usr/local/bin/furrow''"

definition resolve_daemon_bin :: "'x furrow_env \<Rightarrow> 'x world \<Rightarrow> (string + string) \<times> 'x world" where
  "resolve_daemon_bin env = resolve_named env ''SWE_FURROWD_BIN'' ''furrowd'' ''/usr/local/bin/furrowd''"

text \<open>\<open>strconv.ParseInt(s, 10, 64)\<close>, and the multiplication by a gibibyte, which wraps at 64 bits.\<close>

definition digit_value :: "char \<Rightarrow> int option" where
  "digit_value c = (let n = of_char c :: int in if 48 \<le> n \<and> n \<le> 57 then Some (n - 48) else None)"

fun read_digits :: "int \<Rightarrow> string \<Rightarrow> int option" where
  "read_digits acc [] = Some acc"
| "read_digits acc (c # cs) = (case digit_value c of None \<Rightarrow> None | Some d \<Rightarrow> read_digits (10 * acc + d) cs)"

definition parse_int64 :: "string \<Rightarrow> int option" where
  "parse_int64 s =
     (let neg = has_prefix ''-'' s; ds = (if neg \<or> has_prefix ''+'' s then tl s else s)
      in if ds = [] then None
         else case read_digits 0 ds of None \<Rightarrow> None
       | Some n \<Rightarrow> let v = (if neg then - n else n) in if int64 v then Some v else None)"

definition times_int64 :: "int \<Rightarrow> int \<Rightarrow> int" where
  "times_int64 a b = sint (word_of_int a * word_of_int b :: 64 word)"

definition configured_max_bytes :: "getenv \<Rightarrow> int" where
  "configured_max_bytes genv =
     (let gb = (case parse_int64 (genv ''SWE_FURROW_MAX_GB'') of None \<Rightarrow> 20 | Some n \<Rightarrow> if n < 0 then 20 else n)
      in times_int64 (times_int64 (times_int64 gb 1024) 1024) 1024)"

section \<open>Helpers\<close>

definition namespace_char :: "string \<Rightarrow> char" where
  "namespace_char rune = (case rune of [c] \<Rightarrow>
     (let n = of_char c :: nat
      in if 48 \<le> n \<and> n \<le> 57 \<or> 65 \<le> n \<and> n \<le> 90 \<or> 97 \<le> n \<and> n \<le> 122 \<or> c \<in> set ''._-'' then c else CHR ''-'')
   | _ \<Rightarrow> CHR ''-'')"

definition sanitize_namespace :: "string \<Rightarrow> string" where
  "sanitize_namespace run =
     (let name = take 96 (map namespace_char (runes run)) in if name = [] \<or> name = ''.'' \<or> name = ''..'' then ''run'' else name)"

definition furrow_command :: "'x furrow_env \<Rightarrow> furrow \<Rightarrow> string \<Rightarrow> string list \<Rightarrow> 'x world \<Rightarrow> (string + string) \<times> 'x world" where
  "furrow_command env f repo args = fx_exec env (fw_bin f) ([''--repo'', repo, ''--json''] @ args) (fw_store_root f)"

definition handle_of :: "'x furrow_env \<Rightarrow> furrow \<Rightarrow> furrow_entry \<Rightarrow> 'x world \<Rightarrow> furrow_handle" where
  "handle_of env f e w =
     \<lparr>fh_version = 1,
      fh_remote = (if fw_public_addr f \<noteq> [] \<and> fx_transport env w then ''ssh://'' @ fw_public_addr f else ''dir:'' @ fe_store e),
      fh_namespace = fe_namespace e, fh_key = fe_key e, fh_token = fe_token e, fh_repo = fe_repo e\<rparr>"

definition registry_path :: "furrow \<Rightarrow> string" where
  "registry_path f = path_join [fw_remotes_root f, ''registry.json'']"

definition save_registry :: "'x furrow_env \<Rightarrow> furrow \<Rightarrow> furrow_rows \<Rightarrow> 'x world \<Rightarrow> string option \<times> 'x world" where
  "save_registry env f rows w = (case make_dirs (fx_host env) (fw_remotes_root f) w of
     (Some e, w1) \<Rightarrow> (Some e, w1) | (None, w1) \<Rightarrow> fx_replace env (registry_path f) rows w1)"

definition load_registry :: "'x furrow_env \<Rightarrow> furrow \<Rightarrow> 'x world \<Rightarrow> furrow_rows" where
  "load_registry env f w = (case fx_load env (registry_path f) w of None \<Rightarrow> [] | Some rows \<Rightarrow> rows)"

definition aggregate_size :: "'x furrow_env \<Rightarrow> furrow \<Rightarrow> 'x world \<Rightarrow> string + int" where
  "aggregate_size env f w = (case fx_size env (fw_store_root f) w of
     Unmeasurable e \<Rightarrow> Inl e
   | s \<Rightarrow> (case fx_size env (fw_remotes_root f) w of
       Unmeasurable e \<Rightarrow> Inl e
     | r \<Rightarrow>
         let bytes = (\<lambda>d. case d of Bytes n \<Rightarrow> n | Vanished n \<Rightarrow> n | Unmeasurable e \<Rightarrow> 0)
         in Inr (if within (fw_store_root f) (fw_remotes_root f) then bytes s
                 else if within (fw_remotes_root f) (fw_store_root f) then bytes r else bytes s + bytes r)))"

section \<open>Construction\<close>

record furrow_options =
  fo_bin :: string
  fo_store :: string
  fo_remotes :: string
  fo_public :: string
  fo_max_bytes :: int
  fo_grace :: int

definition align_store_budget :: "'x furrow_env \<Rightarrow> furrow \<Rightarrow> 'x world \<Rightarrow> 'x world" where
  "align_store_budget env f w =
     (if fw_max_bytes f \<le> 0 then w
      else case make_dirs (fx_host env) (fw_store_root f) w of
         (Some e, w1) \<Rightarrow> w1
       | (None, w1) \<Rightarrow> snd (furrow_command env f (fw_store_root f) [''budget'', ''--max'', show_int (fw_max_bytes f div 2)] w1))"

definition new_furrow :: "'x furrow_env \<Rightarrow> furrow_options \<Rightarrow> 'x world \<Rightarrow> (furrow \<times> furrow_rows) \<times> 'x world" where
  "new_furrow env opts w =
     (let genv = env_var (fx_host env);
          store = (if fo_store opts \<noteq> [] then fo_store opts else path_join [workspace_root genv, ''furrow'']);
          f = \<lparr>fw_enabled = False, fw_bin = [], fw_store_root = store,
               fw_remotes_root = (if fo_remotes opts \<noteq> [] then fo_remotes opts else path_join [store, ''remotes'']),
               fw_public_addr = trim_space (fo_public opts),
               fw_max_bytes = (if fo_max_bytes opts = 0 then configured_max_bytes genv else fo_max_bytes opts),
               fw_grace = (if fo_grace opts \<le> 0 then 3600000000000 else fo_grace opts)\<rparr>
      in if \<not> enabled_by_env genv then ((f, []), w)
         else let (bin, w1) = (if fo_bin opts = [] then resolve_bin env w
                else (if fx_runnable env (fo_bin opts) w then Inr (fo_bin opts) else Inl [], w))
              in case bin of
                   Inl e \<Rightarrow> ((f, []), w1)
                 | Inr b \<Rightarrow> let f' = f\<lparr>fw_bin := b, fw_enabled := True\<rparr>
                            in ((f', load_registry env f' w1), align_store_budget env f' w1))"

section \<open>Attaching and publishing\<close>

text \<open>
  The operations hold the lock of their run throughout, so those of one run never overlap; each is a
  function of the registry and the world.
\<close>

definition furrow_lookup :: "'x furrow_env \<Rightarrow> furrow \<Rightarrow> string \<Rightarrow> furrow_rows \<Rightarrow> 'x world \<Rightarrow> furrow_handle option" where
  "furrow_lookup env f run rows w =
     (if \<not> fw_enabled f then None else case map_of rows run of None \<Rightarrow> None | Some e \<Rightarrow> Some (handle_of env f e w))"

definition publish_locked :: "'x furrow_env \<Rightarrow> furrow \<Rightarrow> string \<Rightarrow> string \<Rightarrow> furrow_rows \<Rightarrow> 'x world \<Rightarrow> string option \<times> furrow_rows \<times> 'x world" where
  "publish_locked env f run label rows w = (case map_of rows run of
     None \<Rightarrow> (Some (''furrow publish: unknown run ID '' @ run), rows, w)
   | Some e \<Rightarrow> (case furrow_command env f (fe_repo e) [''snap'', ''-m'', label] w of
       (Inl x, w1) \<Rightarrow> (None, rows, w1)
     | (Inr out, w1) \<Rightarrow> (case furrow_command env f (fe_repo e) [''sync'', ''--push''] w1 of
         (Inl x, w2) \<Rightarrow> (None, rows, w2)
       | (Inr out', w2) \<Rightarrow>
           let (now, w3) = fx_now env w2; rows' = AList.update run (e\<lparr>fe_updated := now\<rparr>) rows
           in (None, rows', snd (save_registry env f rows' w3)))))"

definition furrow_publish :: "'x furrow_env \<Rightarrow> furrow \<Rightarrow> string \<Rightarrow> string \<Rightarrow> furrow_rows \<Rightarrow> 'x world \<Rightarrow> string option \<times> furrow_rows \<times> 'x world" where
  "furrow_publish env f run label rows w = (if \<not> fw_enabled f then (None, rows, w) else publish_locked env f run label rows w)"

definition furrow_detach :: "furrow \<Rightarrow> string \<Rightarrow> furrow_rows \<Rightarrow> string option" where
  "furrow_detach f run rows =
     (if fw_enabled f \<and> map_of rows run = None then Some (''furrow detach: unknown run ID '' @ run) else None)"

text \<open>The checks of the disk before a new mirror: the budget, then the free space, a gibibyte.\<close>

definition disk_refuses :: "'x furrow_env \<Rightarrow> furrow \<Rightarrow> 'x world \<Rightarrow> bool \<times> 'x world" where
  "disk_refuses env f w =
     (if fw_max_bytes f > 0 \<and> (case aggregate_size env f w of Inl e \<Rightarrow> True | Inr used \<Rightarrow> used > fw_max_bytes f) then (True, w)
      else let w1 = snd (make_dirs (fx_host env) (fw_remotes_root f) w)
           in (case fx_free env (fw_remotes_root f) w1 of None \<Rightarrow> False | Some n \<Rightarrow> n < 2 ^ 30, w1))"

definition hex_digit :: "char \<Rightarrow> bool" where
  "hex_digit c = (let n = of_char c :: nat in 48 \<le> n \<and> n \<le> 57 \<or> 65 \<le> n \<and> n \<le> 70 \<or> 97 \<le> n \<and> n \<le> 102)"

definition valid_key :: "string \<Rightarrow> bool" where
  "valid_key k \<longleftrightarrow> length k = 64 \<and> list_all hex_digit k"

definition policy_text :: string where
  "policy_text = ''exclude .obs'' @ [CHR 0x0A] @ ''exclude node_modules'' @ [CHR 0x0A]"

text \<open>Pairing the workspace with the run's directory: the recovery key that furrow reports, if all went well.\<close>

definition pair_remote :: "'x furrow_env \<Rightarrow> furrow \<Rightarrow> string \<Rightarrow> string \<Rightarrow> 'x world \<Rightarrow> string option \<times> 'x world" where
  "pair_remote env f run repo w =
     (let name = sanitize_namespace run; store = path_join [fw_remotes_root f, name]
      in case write_file (fx_host env) (path_join [repo, ''.furrowpolicy'']) policy_text w of
           (Some e, w1) \<Rightarrow> (None, w1)
         | (None, w1) \<Rightarrow> (case furrow_command env f repo [''watch'', ''--no-daemon''] w1 of
             (Inl e, w2) \<Rightarrow> (None, w2)
           | (Inr out, w2) \<Rightarrow> (case make_dirs (fx_host env) store w2 of
               (Some e, w3) \<Rightarrow> (None, w3)
             | (None, w3) \<Rightarrow> (case furrow_command env f repo [''remote'', ''add'', store, ''--name'', name] w3 of
                 (Inl e, w4) \<Rightarrow> (None, w4)
               | (Inr out', w4) \<Rightarrow>
                   (case fx_parse env out' of None \<Rightarrow> None
                    | Some v \<Rightarrow> (case decode (JObj [fld ''key_hex'' JString]) GNil v of
                        (d, ok) \<Rightarrow> let key = as_string (mget (as_map d) ''key_hex'') in if ok \<and> valid_key key then Some key else None), w4)))))"

text \<open>
  \<open>Attach\<close>: an error, or the handle, which is missing when mirroring is not available.
\<close>

definition furrow_attach :: "'x furrow_env \<Rightarrow> furrow \<Rightarrow> string \<Rightarrow> string \<Rightarrow> string \<Rightarrow> furrow_rows \<Rightarrow> 'x world
    \<Rightarrow> (string + furrow_handle option) \<times> furrow_rows \<times> 'x world" where
  "furrow_attach env f run build repo rows w =
     (if \<not> fw_enabled f \<or> run = [] \<or> \<not> is_directory (fx_host env) (path_join [repo, ''.git'']) w then (Inr None, rows, w)
      else case map_of rows run of Some e \<Rightarrow> (Inr (Some (handle_of env f e w)), rows, w)
    | None \<Rightarrow>
        let (refused, w1) = disk_refuses env f w
        in if refused then (Inl ''furrow attach: disk'', rows, w1)
           else (case pair_remote env f run repo w1 of
               (None, w2) \<Rightarrow> (Inr None, rows, w2)
             | (Some key, w2) \<Rightarrow> (case fx_token env w2 of
                 (Inl e, w3) \<Rightarrow> (Inl (''furrow attach: mint token: '' @ e), rows, w3)
               | (Inr token, w3) \<Rightarrow>
                   let (now, w4) = fx_now env w3; name = sanitize_namespace run;
                       e = \<lparr>fe_run = run, fe_build = build, fe_repo = repo, fe_namespace = name, fe_key = key, fe_token = token,
                            fe_store = path_join [fw_remotes_root f, name], fe_created = now, fe_updated = now\<rparr>;
                       rows' = AList.update run e rows
                   in (case save_registry env f rows' w4 of
                         (Some x, w5) \<Rightarrow> (Inl (''furrow attach: save registry: '' @ x), rows, w5)
                       | (None, w5) \<Rightarrow>
                           let (_, rows'', w6) = publish_locked env f run ''attached'' rows' w5
                           in (Inr (Some (handle_of env f e w6)), rows'', w6)))))"

section \<open>Sweeping\<close>

type_synonym 'x eligibility = "furrow_entry \<Rightarrow> 'x world \<Rightarrow> bool \<times> 'x world"

definition older_than :: "'x furrow_env \<Rightarrow> int \<Rightarrow> 'x eligibility" where
  "older_than env max_age e w =
     (if max_age > 0 then (case fx_now env w of (now, w1) \<Rightarrow> (now - fe_updated e > max_age, w1)) else (False, w))"

definition abandoned_since :: "'x furrow_env \<Rightarrow> furrow \<Rightarrow> int \<Rightarrow> 'x eligibility" where
  "abandoned_since env f observed e w =
     (if fe_updated e = observed then (case fx_now env w of (now, w1) \<Rightarrow> (now - fe_updated e \<ge> fw_grace f, w1)) else (False, w))"

text \<open>\<open>retire\<close>: whether the row was dropped, and the error.\<close>

definition retire :: "'x furrow_env \<Rightarrow> furrow \<Rightarrow> string \<Rightarrow> 'x eligibility \<Rightarrow> furrow_rows \<Rightarrow> 'x world
    \<Rightarrow> (bool \<times> string option) \<times> furrow_rows \<times> 'x world" where
  "retire env f run eligible rows w = (case map_of rows run of
     None \<Rightarrow> ((False, None), rows, w)
   | Some e \<Rightarrow>
       let (ok, w1) = eligible e w
       in if \<not> ok then ((False, None), rows, w1)
          else let foreign = (\<not> within (fw_remotes_root f) (fe_store e) \<or> path_clean (fe_store e) = path_clean (fw_remotes_root f))
          in (case (if foreign then (None, w1) else fx_remove env (fe_store e) w1) of
                (Some x, w2) \<Rightarrow> ((False, Some (''furrow sweep: '' @ x)), rows, w2)
              | (None, w2) \<Rightarrow>
                  let rows' = AList.delete run rows; (saved, w3) = save_registry env f rows' w2
                  in ((True, map_option (\<lambda>x. ''furrow sweep: save registry: '' @ x) saved), rows', w3)))"

fun sweep_stale :: "'x furrow_env \<Rightarrow> furrow \<Rightarrow> int \<Rightarrow> string list \<Rightarrow> nat \<Rightarrow> furrow_rows \<Rightarrow> 'x world
    \<Rightarrow> (nat \<times> string option) \<times> furrow_rows \<times> 'x world" where
  "sweep_stale env f max_age [] removed rows w = ((removed, None), rows, w)"
| "sweep_stale env f max_age (run # runs) removed rows w = (case retire env f run (older_than env max_age) rows w of
     ((dropped, Some e), rows1, w1) \<Rightarrow> ((removed, Some e), rows1, w1)
   | ((dropped, None), rows1, w1) \<Rightarrow> sweep_stale env f max_age runs (if dropped then removed + 1 else removed) rows1 w1)"

fun oldest_row :: "string \<times> furrow_entry \<Rightarrow> furrow_rows \<Rightarrow> string \<times> furrow_entry" where
  "oldest_row best [] = best"
| "oldest_row best ((run, e) # rows) =
     oldest_row (if fst best = [] \<or> fe_updated e < fe_updated (snd best) then (run, e) else best) rows"

lemma oldest_row_mem: "oldest_row best rows = best \<or> oldest_row best rows \<in> set rows"
  by (induction best rows rule: oldest_row.induct) (auto split: if_splits)

lemma retire_dropped:
  "retire env f run eligible rows w = ((True, x), rows', w') \<Longrightarrow>
   rows' = AList.delete run rows \<and> (\<exists>e w1. map_of rows run = Some e \<and> eligible e w = (True, w1))"
  by (auto simp: retire_def Let_def split: option.splits prod.splits if_splits)

lemma retire_shorter:
  assumes "((True, x), rows', w') = retire env f run eligible rows w"
  shows "length rows' < length rows"
proof -
  from retire_dropped [OF assms [symmetric]] obtain e where "rows' = AList.delete run rows" "(run, e) \<in> set rows"
    by (auto dest: map_of_SomeD)
  then show ?thesis by (auto simp: AList.delete_eq intro!: length_filter_less)
qed

text \<open>The pass over the budget; every round drops a row or is the last.\<close>

function sweep_budget :: "'x furrow_env \<Rightarrow> furrow \<Rightarrow> int \<Rightarrow> nat \<Rightarrow> furrow_rows \<Rightarrow> 'x world
    \<Rightarrow> (nat \<times> string option) \<times> furrow_rows \<times> 'x world" where
  "sweep_budget env f max_bytes removed rows w = (case aggregate_size env f w of
     Inl e \<Rightarrow> ((removed, Some (''furrow sweep size: '' @ e)), rows, w)
   | Inr used \<Rightarrow> (case rows of
       [] \<Rightarrow> ((removed, None), rows, w)
     | row # rest \<Rightarrow>
         if used \<le> max_bytes then ((removed, None), rows, w)
         else let (run, e) = oldest_row row rest
         in (case retire env f run (abandoned_since env f (fe_updated e)) rows w of
               ((dropped, Some x), rows1, w1) \<Rightarrow> ((removed, Some x), rows1, w1)
             | ((False, None), rows1, w1) \<Rightarrow> ((removed, None), rows1, w1)
             | ((True, None), rows1, w1) \<Rightarrow> sweep_budget env f max_bytes (removed + 1) rows1 w1)))"
  by pat_completeness auto
termination
  by (relation "measure (\<lambda>(env, f, max_bytes, removed, rows, w). length rows)") (auto dest: retire_shorter)

declare sweep_budget.simps [simp del]

definition stale_runs :: "int \<Rightarrow> int \<Rightarrow> furrow_rows \<Rightarrow> string list" where
  "stale_runs now max_age rows = map fst (filter (\<lambda>(run, e). max_age > 0 \<and> now - fe_updated e > max_age) rows)"

definition sweep :: "'x furrow_env \<Rightarrow> furrow \<Rightarrow> int \<Rightarrow> int \<Rightarrow> furrow_rows \<Rightarrow> 'x world
    \<Rightarrow> (nat \<times> string option) \<times> furrow_rows \<times> 'x world" where
  "sweep env f max_age max_bytes rows w =
     (if \<not> fw_enabled f then ((0, None), rows, w)
      else let (now, w1) = fx_now env w
      in case sweep_stale env f max_age (stale_runs now max_age rows) 0 rows w1 of
           ((removed, Some e), rows2, w2) \<Rightarrow> ((removed, Some e), rows2, w2)
         | ((removed, None), rows2, w2) \<Rightarrow>
             if max_bytes > 0 then sweep_budget env f max_bytes removed rows2 w2 else ((removed, None), rows2, w2))"

end
