(* ===== verification/FurrowCorrect.thy ===== *)
theory FurrowCorrect
  imports Furrow HostDemo
begin

text \<open>
  What the mirror guarantees: the registry holds only rows of the runs that were attached, each with a
  directory of its own namespace; sweeping removes nothing outside the remotes root, whatever the registry
  file says, and never a mirror that is still published to.
\<close>

section \<open>Sweeping stays below the remotes root\<close>

definition with_disposer :: "'x furrow_env \<Rightarrow> (string \<Rightarrow> 'x world \<Rightarrow> string option \<times> 'x world) \<Rightarrow> 'x furrow_env" where
  "with_disposer env g = env\<lparr>fx_remove := g\<rparr>"

definition agree_below :: "string \<Rightarrow> 'x furrow_env \<Rightarrow> (string \<Rightarrow> 'x world \<Rightarrow> string option \<times> 'x world) \<Rightarrow> bool" where
  "agree_below root env g \<longleftrightarrow>
     (\<forall>p w. is_abs p \<and> strict_prefix (path_parts root) (path_parts p) \<longrightarrow> g p w = fx_remove env p w)"

lemma with_disposer_fields:
  "fx_host (with_disposer env g) = fx_host env" "fx_replace (with_disposer env g) = fx_replace env" "fx_size (with_disposer env g) = fx_size env"
  "fx_now (with_disposer env g) = fx_now env" "fx_remove (with_disposer env g) = g"
  by (simp_all add: with_disposer_def)

lemma disposer_same:
  "save_registry (with_disposer env g) = save_registry env"
  "aggregate_size (with_disposer env g) = aggregate_size env"
  "older_than (with_disposer env g) = older_than env"
  "abandoned_since (with_disposer env g) = abandoned_since env"
proof -
  show "save_registry (with_disposer env g) = save_registry env"
    by (intro ext) (unfold save_registry_def with_disposer_fields, rule refl)
  show "aggregate_size (with_disposer env g) = aggregate_size env"
    by (intro ext) (unfold aggregate_size_def with_disposer_fields, rule refl)
  show "older_than (with_disposer env g) = older_than env"
    by (intro ext) (unfold older_than_def with_disposer_fields, rule refl)
  show "abandoned_since (with_disposer env g) = abandoned_since env"
    by (intro ext) (unfold abandoned_since_def with_disposer_fields, rule refl)
qed

lemma removed_below:
  assumes "is_abs root" "within root p" "path_clean p \<noteq> path_clean root"
  shows "is_abs p \<and> strict_prefix (path_parts root) (path_parts p)"
  using assms by (auto simp: within_prefix clean_eq_parts strict_prefix_def)

lemma retire_disposer:
  assumes "is_abs (fw_remotes_root f)" "agree_below (fw_remotes_root f) env g"
  shows "retire (with_disposer env g) f run eligible rows w = retire env f run eligible rows w"
proof (cases "map_of rows run")
  case (Some e)
  have "g (fe_store e) w1 = fx_remove env (fe_store e) w1"
    if "within (fw_remotes_root f) (fe_store e)" "path_clean (fe_store e) \<noteq> path_clean (fw_remotes_root f)" for w1
    using removed_below [OF assms(1) that] assms(2) by (simp add: agree_below_def)
  with Some show ?thesis
    by (cases "within (fw_remotes_root f) (fe_store e) \<and> path_clean (fe_store e) \<noteq> path_clean (fw_remotes_root f)")
      (auto simp: retire_def disposer_same with_disposer_fields Let_def split: prod.split option.split)
qed (simp add: retire_def)

lemma sweep_stale_disposer:
  assumes "is_abs (fw_remotes_root f)" "agree_below (fw_remotes_root f) env g"
  shows "sweep_stale (with_disposer env g) f max_age runs removed rows w = sweep_stale env f max_age runs removed rows w"
proof (induction runs arbitrary: removed rows w)
  case (Cons run runs)
  then show ?case by (simp add: retire_disposer [OF assms] disposer_same split: prod.split option.split)
qed simp

text \<open>One round of the pass over the budget.\<close>

lemma sweep_budget_round:
  obtains (stop) x where "sweep_budget env f max_bytes removed rows w = ((removed, x), rows, w)"
      "sweep_budget (with_disposer env g) f max_bytes removed rows w = ((removed, x), rows, w)"
    | (round) run and e :: furrow_entry and d x rows1 w1 where "retire env f run (abandoned_since env f (fe_updated e)) rows w = ((d, x), rows1, w1)"
      "sweep_budget env f max_bytes removed rows w =
         (if d \<and> x = None then sweep_budget env f max_bytes (removed + 1) rows1 w1 else ((removed, x), rows1, w1))"
      "retire (with_disposer env g) f run (abandoned_since env f (fe_updated e)) rows w = ((d, x), rows1, w1) \<Longrightarrow>
       sweep_budget (with_disposer env g) f max_bytes removed rows w =
         (if d \<and> x = None then sweep_budget (with_disposer env g) f max_bytes (removed + 1) rows1 w1 else ((removed, x), rows1, w1))"
proof (cases "\<exists>used row rest. aggregate_size env f w = Inr used \<and> rows = row # rest \<and> \<not> used \<le> max_bytes")
  case True
  then obtain used row rest where a: "aggregate_size env f w = Inr used" "rows = row # rest" "\<not> used \<le> max_bytes" by blast
  obtain run e where old: "oldest_row row rest = (run, e)" by force
  obtain d x rows1 w1 where r: "retire env f run (abandoned_since env f (fe_updated e)) rows w = ((d, x), rows1, w1)"
    by (metis prod.collapse)
  show thesis
  proof (rule round [OF r])
    show "sweep_budget env f max_bytes removed rows w =
         (if d \<and> x = None then sweep_budget env f max_bytes (removed + 1) rows1 w1 else ((removed, x), rows1, w1))"
      using a old r by (subst sweep_budget.simps) (auto split: bool.split option.split)
    show "sweep_budget (with_disposer env g) f max_bytes removed rows w =
         (if d \<and> x = None then sweep_budget (with_disposer env g) f max_bytes (removed + 1) rows1 w1 else ((removed, x), rows1, w1))"
      if "retire (with_disposer env g) f run (abandoned_since env f (fe_updated e)) rows w = ((d, x), rows1, w1)"
      using a old that by (subst sweep_budget.simps) (auto simp: disposer_same split: bool.split option.split)
  qed
next
  case False
  show thesis
  proof (cases "aggregate_size env f w")
    case (Inl e)
    show thesis
      by (rule stop [of "Some (''furrow sweep size: '' @ e)"]) (subst sweep_budget.simps, simp add: Inl disposer_same)+
  next
    case (Inr used)
    with False have "rows = [] \<or> used \<le> max_bytes" by (cases rows) auto
    then show thesis
      by (intro stop [of None]) (subst sweep_budget.simps, cases rows, simp_all add: Inr disposer_same)+
  qed
qed

lemma sweep_budget_disposer:
  assumes "is_abs (fw_remotes_root f)" "agree_below (fw_remotes_root f) env g"
  shows "sweep_budget (with_disposer env g) f max_bytes removed rows w = sweep_budget env f max_bytes removed rows w"
proof (induction "length rows" arbitrary: removed rows w rule: less_induct)
  case less
  show ?case
  proof (cases rule: sweep_budget_round [where env = env and f = f and max_bytes = max_bytes and removed = removed and rows = rows and w = w and g = g])
    case (round run e d x rows1 w1)
    then have "length rows1 < length rows" if "d \<and> x = None" using that retire_shorter by (metis (full_types))
    with less round show ?thesis by (auto simp: retire_disposer [OF assms])
  qed simp
qed

text \<open>
  C31: Sweeping removes directories strictly below the remotes root and nothing else, whatever the registry
  holds: rows with empty, relative or foreign directories, and rows that name the root itself, are dropped
  without touching a file. So what removal would do anywhere else has no influence on a sweep.
\<close>

theorem sweep_confined:
  assumes "is_abs (fw_remotes_root f)" and "agree_below (fw_remotes_root f) env g"
  shows "sweep (with_disposer env g) f max_age max_bytes rows w = sweep env f max_age max_bytes rows w"
  unfolding sweep_def with_disposer_fields sweep_stale_disposer [OF assms] sweep_budget_disposer [OF assms] ..

section \<open>Live mirrors stay\<close>

text \<open>A row no clock reading finds old enough for either rule.\<close>

definition live_row :: "'x furrow_env \<Rightarrow> furrow \<Rightarrow> int \<Rightarrow> furrow_entry \<Rightarrow> bool" where
  "live_row env f max_age e \<longleftrightarrow>
     (\<forall>w. fst (fx_now env w) - fe_updated e < fw_grace f \<and> (max_age > 0 \<longrightarrow> fst (fx_now env w) - fe_updated e \<le> max_age))"

lemma retire_keeps:
  assumes "retire env f run' eligible rows w = (r, rows', w')" and "map_of rows run = Some e" and "\<And>w. \<not> fst (eligible e w)"
  shows "map_of rows' run = Some e"
proof (cases "fst r")
  case True
  then obtain x where "r = (True, x)" by (cases r) auto
  with retire_dropped assms(1) obtain e' w1 where del: "rows' = AList.delete run' rows" "map_of rows run' = Some e'" "eligible e' w = (True, w1)"
    by blast
  with assms(2,3) have "run' \<noteq> run" by (metis fst_conv option.inject)
  with del assms(2) show ?thesis by (simp add: AList.delete_conv')
next
  case False
  with assms(1,2) show ?thesis by (auto simp: retire_def Let_def split: option.splits prod.splits if_splits)
qed

lemma sweep_stale_keeps:
  "sweep_stale env f max_age runs removed rows w = (r, rows', w') \<Longrightarrow> map_of rows run = Some e \<Longrightarrow> live_row env f max_age e \<Longrightarrow>
   map_of rows' run = Some e"
proof (induction runs arbitrary: removed rows w)
  case (Cons run' runs)
  have young: "\<not> fst (older_than env max_age e w)" for w
    using Cons.prems(3) by (auto simp: older_than_def live_row_def split: prod.split) (metis fst_conv not_less)
  obtain d x rows1 w1 where 1: "retire env f run' (older_than env max_age) rows w = ((d, x), rows1, w1)" by (metis prod.collapse)
  from retire_keeps [OF this Cons.prems(2) young] Cons 1 show ?case by (auto split: option.splits)
qed simp

lemma sweep_budget_keeps:
  assumes "live_row env f max_age e"
  shows "sweep_budget env f max_bytes removed rows w = (r, rows', w') \<Longrightarrow> map_of rows run = Some e \<Longrightarrow> map_of rows' run = Some e"
proof (induction "length rows" arbitrary: removed rows w rule: less_induct)
  case less
  have young: "\<not> fst (abandoned_since env f t e w)" for t w
    using assms by (auto simp: abandoned_since_def live_row_def split: prod.split) (metis fst_conv not_less)
  show ?case
  proof (cases rule: sweep_budget_round [where env = env and f = f and max_bytes = max_bytes and removed = removed and rows = rows and w = w
      and g = "fx_remove env"])
    case (round run' e' d x rows1 w1)
    from retire_keeps [OF round(1) less.prems(2) young] have "map_of rows1 run = Some e" .
    moreover have "length rows1 < length rows" if "d \<and> x = None" using that round(1) retire_shorter by (metis (full_types))
    ultimately show ?thesis using round(2) less.prems(1) less.hyps [of rows1] by (auto split: if_splits)
  qed (use less.prems in simp)
qed

text \<open>Removing a directory removes another one when it is that one or lies above it.\<close>

definition covers_path :: "string \<Rightarrow> string \<Rightarrow> bool" where
  "covers_path p q \<longleftrightarrow> prefix (path_parts p) (path_parts q)"

text \<open>A removal that may differ on the directories of live rows, but agrees on those of all others.\<close>

definition spares_live :: "'x furrow_env \<Rightarrow> furrow \<Rightarrow> int \<Rightarrow> (string \<Rightarrow> 'x world \<Rightarrow> string option \<times> 'x world) \<Rightarrow> furrow_rows \<Rightarrow> bool" where
  "spares_live env f max_age g rows \<longleftrightarrow>
     (\<forall>run e. map_of rows run = Some e \<longrightarrow> live_row env f max_age e \<or> (\<forall>w. g (fe_store e) w = fx_remove env (fe_store e) w))"

lemma retire_spares:
  assumes "spares_live env f max_age g rows" and young: "\<And>e w. live_row env f max_age e \<Longrightarrow> \<not> fst (eligible e w)"
  shows "retire (with_disposer env g) f run eligible rows w = retire env f run eligible rows w"
proof (cases "map_of rows run")
  case (Some e)
  show ?thesis
  proof (cases "live_row env f max_age e")
    case True
    with young [of e w] Some show ?thesis by (cases "eligible e w") (simp add: retire_def)
  next
    case False
    with assms(1) Some have "\<And>w. g (fe_store e) w = fx_remove env (fe_store e) w" by (auto simp: spares_live_def)
    with Some show ?thesis by (auto simp: retire_def disposer_same with_disposer_fields Let_def split: prod.split option.split)
  qed
qed (simp add: retire_def)

lemma spares_live_delete: "spares_live env f max_age g rows \<Longrightarrow> spares_live env f max_age g (AList.delete run rows)"
  unfolding spares_live_def by (simp add: AList.delete_conv')

lemma retire_spared:
  assumes "retire env f run eligible rows w = (r, rows', w')" and "spares_live env f max_age g rows"
  shows "spares_live env f max_age g rows'"
proof -
  have "rows' = rows \<or> rows' = AList.delete run rows"
    using assms(1) by (auto simp: retire_def Let_def split: option.splits prod.splits if_splits)
  with assms(2) spares_live_delete show ?thesis by blast
qed

lemma young_rows:
  assumes "live_row env f max_age e"
  shows "max_age > 0 \<Longrightarrow> \<not> fst (older_than env max_age e w)" and "\<not> fst (abandoned_since env f t e w)"
  using assms by (auto simp: older_than_def abandoned_since_def live_row_def split: prod.split) (metis fst_conv not_less)+

lemma sweep_stale_spares:
  "max_age > 0 \<or> runs = [] \<Longrightarrow> spares_live env f max_age g rows \<Longrightarrow>
   sweep_stale (with_disposer env g) f max_age runs removed rows w = sweep_stale env f max_age runs removed rows w \<and>
   (\<forall>r rows' w'. sweep_stale env f max_age runs removed rows w = (r, rows', w') \<longrightarrow> spares_live env f max_age g rows')"
proof (induction runs arbitrary: removed rows w)
  case (Cons run runs)
  then have pos: "max_age > 0" by simp
  obtain d x rows1 w1 where r: "retire env f run (older_than env max_age) rows w = ((d, x), rows1, w1)" by (metis prod.collapse)
  with retire_spares [OF Cons.prems(2) young_rows(1) [OF _ pos]]
  have r': "retire (with_disposer env g) f run (older_than (with_disposer env g) max_age) rows w = ((d, x), rows1, w1)"
    by (simp add: disposer_same)
  note keep = retire_spared [OF r Cons.prems(2)]
  with Cons.IH [OF _ keep, of "if d then removed + 1 else removed" w1] r r' pos show ?case by (cases x) simp_all
qed simp

lemma sweep_budget_spares:
  "spares_live env f max_age g rows \<Longrightarrow>
   sweep_budget (with_disposer env g) f max_bytes removed rows w = sweep_budget env f max_bytes removed rows w"
proof (induction "length rows" arbitrary: removed rows w rule: less_induct)
  case less
  show ?case
  proof (cases rule: sweep_budget_round [where env = env and f = f and max_bytes = max_bytes and removed = removed and rows = rows and w = w and g = g])
    case (round run e d x rows1 w1)
    have "length rows1 < length rows" if "d \<and> x = None" using that round(1) retire_shorter by (metis (full_types))
    moreover have "retire (with_disposer env g) f run (abandoned_since env f (fe_updated e)) rows w = ((d, x), rows1, w1)"
      using retire_spares [OF less.prems young_rows(2)] round(1) by simp
    ultimately show ?thesis using less.hyps [of rows1] retire_spared [OF round(1) less.prems] round(2,3) by auto
  qed simp
qed

lemma sweep_spares:
  assumes "spares_live env f max_age g rows"
  shows "sweep (with_disposer env g) f max_age max_bytes rows w = sweep env f max_age max_bytes rows w"
proof -
  obtain now w1 where now: "fx_now env w = (now, w1)" by force
  obtain n x rows2 w2 where s: "sweep_stale env f max_age (stale_runs now max_age rows) 0 rows w1 = ((n, x), rows2, w2)" by (metis prod.collapse)
  have "max_age > 0 \<or> stale_runs now max_age rows = []" by (auto simp: stale_runs_def filter_empty_conv)
  from sweep_stale_spares [OF this assms, of 0 w1] s now sweep_budget_spares [of env f max_age g rows2] show ?thesis
    by (simp add: sweep_def with_disposer_fields split: option.split)
qed

text \<open>
  C32: A sweep never takes the mirror of a run that is still going. A run whose last publish is within the
  grace period, and within the age limit where there is one, whenever the clock is read, keeps its row as it
  was, however far the store is over its budget. If moreover no other row has the same directory or one above it, then its
  directory stays: whatever removing that directory, or one above it, would do, the sweep takes the same course and leaves the same
  world. Runs that were attached and whose sanitised names differ have such directories; two runs whose names
  differ only in characters that sanitising replaces share one, and then the sweep of the one removes the other's mirror (finding).
\<close>

theorem sweep_keeps_live:
  assumes "sweep env f max_age max_bytes rows w = (r, rows', w')" and "map_of rows run = Some e" and "live_row env f max_age e"
  shows "map_of rows' run = Some e \<and>
    ((\<forall>run' e'. map_of rows run' = Some e' \<and> run' \<noteq> run \<longrightarrow> \<not> covers_path (fe_store e') (fe_store e)) \<and>
      (\<forall>p w. \<not> covers_path p (fe_store e) \<longrightarrow> g p w = fx_remove env p w) \<longrightarrow>
     sweep (with_disposer env g) f max_age max_bytes rows w = (r, rows', w'))"
proof (intro conjI impI)
  show "map_of rows' run = Some e"
  proof (cases "fw_enabled f")
    case True
    obtain now w1 where now: "fx_now env w = (now, w1)" by force
    obtain n x rows2 w2 where s: "sweep_stale env f max_age (stale_runs now max_age rows) 0 rows w1 = ((n, x), rows2, w2)" by (metis prod.collapse)
    from sweep_stale_keeps [OF s assms(2,3)] assms(1) True now s sweep_budget_keeps [OF assms(3)] show ?thesis
      by (auto simp: sweep_def split: option.splits if_splits)
  qed (use assms in \<open>simp add: sweep_def\<close>)
next
  assume apart: "(\<forall>run' e'. map_of rows run' = Some e' \<and> run' \<noteq> run \<longrightarrow> \<not> covers_path (fe_store e') (fe_store e)) \<and>
      (\<forall>p w. \<not> covers_path p (fe_store e) \<longrightarrow> g p w = fx_remove env p w)"
  have "spares_live env f max_age g rows"
    unfolding spares_live_def using apart assms(2,3) by (metis option.inject)
  from sweep_spares [OF this] assms(1) show "sweep (with_disposer env g) f max_age max_bytes rows w = (r, rows', w')" by simp
qed

section \<open>The registry\<close>

inductive furrow_reach :: "'x furrow_env \<Rightarrow> furrow \<Rightarrow> furrow_rows \<Rightarrow> 'x world \<Rightarrow> bool" for env f where
  fresh: "furrow_reach env f [] w"
| attach: "furrow_reach env f rows w \<Longrightarrow> furrow_attach env f run build repo rows w = (r, rows', w') \<Longrightarrow> furrow_reach env f rows' w'"
| publish: "furrow_reach env f rows w \<Longrightarrow> furrow_publish env f run label rows w = (r, rows', w') \<Longrightarrow> furrow_reach env f rows' w'"
| sweep: "furrow_reach env f rows w \<Longrightarrow> sweep env f max_age max_bytes rows w = (n, rows', w') \<Longrightarrow> furrow_reach env f rows' w'"
| outside: "furrow_reach env f rows w \<Longrightarrow> furrow_reach env f rows w'"

definition own_row :: "furrow \<Rightarrow> string \<Rightarrow> furrow_entry \<Rightarrow> bool" where
  "own_row f run e \<longleftrightarrow> run \<noteq> [] \<and> fe_run e = run \<and> fe_namespace e = sanitize_namespace run \<and>
     fe_store e = path_join [fw_remotes_root f, sanitize_namespace run] \<and> valid_key (fe_key e)"

definition rows_own :: "furrow \<Rightarrow> furrow_rows \<Rightarrow> bool" where
  "rows_own f rows \<longleftrightarrow> (\<forall>run e. map_of rows run = Some e \<longrightarrow> own_row f run e)"

lemma rows_own_update: "rows_own f rows \<Longrightarrow> own_row f run e \<Longrightarrow> rows_own f (AList.update run e rows)"
  by (simp add: rows_own_def AList.update_conv')

lemma publish_own: "publish_locked env f run label rows w = (r, rows', w') \<Longrightarrow> rows_own f rows \<Longrightarrow> rows_own f rows'"
  by (auto simp: publish_locked_def Let_def split: option.splits prod.splits sum.splits intro!: rows_own_update)
    (auto simp: rows_own_def own_row_def)

lemma publish_distinct:
  "publish_locked env f run label rows w = (r, rows', w') \<Longrightarrow> distinct (map fst rows) \<Longrightarrow> distinct (map fst rows')"
  by (auto simp: publish_locked_def Let_def AList.distinct_update split: option.splits prod.splits sum.splits)

lemma publish_row:
  "publish_locked env f run label rows w = (r, rows', w') \<Longrightarrow> map_of rows run = Some e \<Longrightarrow>
   \<exists>t. map_of rows' run = Some (e\<lparr>fe_updated := t\<rparr>)"
  by (auto simp: publish_locked_def Let_def AList.update_conv' split: prod.splits sum.splits intro: exI [of _ "fe_updated e"])

lemma pair_remote_key: "pair_remote env f run repo w = (Some key, w') \<Longrightarrow> valid_key key"
  by (auto simp: pair_remote_def Let_def split: option.splits prod.splits sum.splits if_splits)

lemma attach_cases:
  assumes "furrow_attach env f run build repo rows w = (r, rows', w')"
  obtains (same) "rows' = rows" "\<And>h. r = Inr (Some h) \<Longrightarrow> \<exists>e. map_of rows run = Some e \<and> h = handle_of env f e w"
    | (new) e q w5 where "own_row f run e" "publish_locked env f run ''attached'' (AList.update run e rows) w5 = (q, rows', w')"
      "r = Inr (Some (handle_of env f e w'))"
proof (cases "fw_enabled f \<and> run \<noteq> [] \<and> is_directory (fx_host env) (path_join [repo, ''.git'']) w \<and> map_of rows run = None \<and>
    \<not> fst (disk_refuses env f w) \<and> fst (pair_remote env f run repo (snd (disk_refuses env f w))) \<noteq> None")
  case True
  then obtain w1 key w2 where p: "disk_refuses env f w = (False, w1)" "pair_remote env f run repo w1 = (Some key, w2)"
    by (metis (full_types) not_None_eq prod.collapse snd_conv)
  show thesis
  proof (cases "fx_token env w2")
    case (Pair t w3)
    obtain now w4 where now: "fx_now env w3 = (now, w4)" by force
    let ?e = "\<lparr>fe_run = run, fe_build = build, fe_repo = repo, fe_namespace = sanitize_namespace run, fe_key = key, fe_token = projr t,
      fe_store = path_join [fw_remotes_root f, sanitize_namespace run], fe_created = now, fe_updated = now\<rparr>"
    have own: "own_row f run ?e" using True pair_remote_key [OF p(2)] by (simp add: own_row_def)
    obtain x w5 where save: "save_registry env f (AList.update run ?e rows) w4 = (x, w5)" by force
    obtain q rows'' w6 where pub: "publish_locked env f run ''attached'' (AList.update run ?e rows) w5 = (q, rows'', w6)" by (metis prod.collapse)
    show thesis
    proof (cases "\<exists>token. t = Inr token \<and> x = None")
      case True
      then obtain token where "t = Inr token" "x = None" by blast
      with assms \<open>fw_enabled f \<and> _\<close> p Pair now save pub have "rows' = rows''" "w' = w6" "r = Inr (Some (handle_of env f ?e w6))"
        by (auto simp: furrow_attach_def Let_def)
      with own pub show thesis by (auto intro: new)
    next
      case False
      with assms \<open>fw_enabled f \<and> _\<close> p Pair now save show thesis
        by (intro same) (auto simp: furrow_attach_def Let_def split: sum.splits option.splits)
    qed
  qed
next
  case False
  with assms show thesis
    by (intro same) (auto simp: furrow_attach_def Let_def split: if_splits option.splits prod.splits)
qed

text \<open>Sweeping only drops rows, so it keeps what dropping rows keeps.\<close>

definition drop_closed :: "(furrow_rows \<Rightarrow> bool) \<Rightarrow> bool" where
  "drop_closed P \<longleftrightarrow> (\<forall>rows run. P rows \<longrightarrow> P (AList.delete run rows))"

lemma retire_drops: "retire env f run eligible rows w = (r, rows', w') \<Longrightarrow> drop_closed P \<Longrightarrow> P rows \<Longrightarrow> P rows'"
  by (auto simp: retire_def Let_def drop_closed_def split: option.splits prod.splits if_splits)

lemma sweep_stale_drops:
  "sweep_stale env f max_age runs removed rows w = (r, rows', w') \<Longrightarrow> drop_closed P \<Longrightarrow> P rows \<Longrightarrow> P rows'"
proof (induction runs arbitrary: removed rows w)
  case (Cons run runs)
  obtain d x rows1 w1 where 1: "retire env f run (older_than env max_age) rows w = ((d, x), rows1, w1)" by (metis prod.collapse)
  from Cons retire_drops [OF 1] 1 show ?case by (auto split: option.splits)
qed simp

lemma sweep_budget_drops:
  assumes "drop_closed P"
  shows "sweep_budget env f max_bytes removed rows w = (r, rows', w') \<Longrightarrow> P rows \<Longrightarrow> P rows'"
proof (induction "length rows" arbitrary: removed rows w rule: less_induct)
  case less
  show ?case
  proof (cases rule: sweep_budget_round [where env = env and f = f and max_bytes = max_bytes and removed = removed and rows = rows and w = w
      and g = "fx_remove env"])
    case (round run' e' d x rows1 w1)
    moreover have "length rows1 < length rows" if "d \<and> x = None" using that round(1) retire_shorter by (metis (full_types))
    ultimately show ?thesis using less.prems less.hyps [of rows1] retire_drops [OF round(1) assms] by (auto split: if_splits)
  qed (use less.prems in simp)
qed

lemma sweep_drops:
  assumes "sweep env f max_age max_bytes rows w = (n, rows', w')" and "drop_closed P" and "P rows"
  shows "P rows'"
proof (cases "fw_enabled f")
  case True
  obtain now w1 where now: "fx_now env w = (now, w1)" by force
  obtain k x rows2 w2 where s: "sweep_stale env f max_age (stale_runs now max_age rows) 0 rows w1 = ((k, x), rows2, w2)" by (metis prod.collapse)
  from sweep_stale_drops [OF s assms(2,3)] assms(1) True now s show ?thesis
    by (auto simp: sweep_def split: option.splits if_splits dest!: sweep_budget_drops [OF assms(2)])
qed (use assms in \<open>simp add: sweep_def\<close>)

lemma rows_own_drops: "drop_closed (rows_own f)"
  by (auto simp: drop_closed_def rows_own_def AList.delete_conv' split: if_splits)

lemma reach_own: "furrow_reach env f rows w \<Longrightarrow> rows_own f rows"
proof (induction rule: furrow_reach.induct)
  case (attach rows w run build repo r rows' w')
  from attach.hyps(2) show ?case
    by (cases rule: attach_cases) (use attach.IH in \<open>auto intro: publish_own rows_own_update\<close>)
next
  case (publish rows w run label r rows' w')
  then show ?case by (auto simp: furrow_publish_def split: if_splits intro: publish_own)
qed (auto simp: rows_own_def [of f "[]"] intro: sweep_drops [OF _ rows_own_drops])

lemma reach_distinct: "furrow_reach env f rows w \<Longrightarrow> distinct (map fst rows)"
proof (induction rule: furrow_reach.induct)
  case (attach rows w run build repo r rows' w')
  from attach.hyps(2) show ?case
    by (cases rule: attach_cases) (use attach.IH in \<open>auto intro: publish_distinct AList.distinct_update\<close>)
next
  case (publish rows w run label r rows' w')
  then show ?case by (auto simp: furrow_publish_def split: if_splits intro: publish_distinct)
next
  case (sweep rows w max_age max_bytes n rows' w')
  moreover have "drop_closed (\<lambda>rows. distinct (map fst rows))" by (simp add: drop_closed_def AList.distinct_delete)
  ultimately show ?case using sweep_drops by blast
qed simp_all

lemma namespace_plain: "plain_component (sanitize_namespace run)"
proof -
  have "namespace_char rune \<noteq> CHR ''/''" for rune
    by (auto simp: namespace_char_def Let_def split: list.splits)
  then have "CHR ''/'' \<notin> set (take n (map namespace_char rs))" for n rs by (auto dest!: in_set_takeD) metis
  then show ?thesis by (auto simp: sanitize_namespace_def plain_component_def component_def Let_def)
qed

lemma own_store: "own_row f run e \<Longrightarrow> is_abs (fw_remotes_root f) \<Longrightarrow>
    path_parts (fe_store e) = path_parts (fw_remotes_root f) @ [sanitize_namespace run]"
  using joined_parts [OF _ namespace_plain] by (simp add: own_row_def)

text \<open>The directories of attached runs whose sanitised names differ are apart, as a live mirror needs.\<close>

lemma own_stores_apart:
  assumes "rows_own f rows" and "is_abs (fw_remotes_root f)" and "map_of rows run = Some e" and "map_of rows run' = Some e'"
    and "sanitize_namespace run' \<noteq> sanitize_namespace run"
  shows "\<not> covers_path (fe_store e') (fe_store e)"
proof -
  have "own_row f run e" "own_row f run' e'" using assms(1,3,4) by (auto simp: rows_own_def)
  with assms(2,5) show ?thesis by (simp add: covers_path_def own_store)
qed

text \<open>
  C33: A handle gives access to the mirror of its own run. In every state the manager reaches by attaching,
  publishing and sweeping, a successful attach returns the recovery key, token and namespace of a row that is
  registered under the run and was made for it, with a valid key and a directory directly below the remotes
  root that is named after the run. A run without an identifier gets no handle. Runs whose names agree in
  their first 96 letters once other characters are replaced by dashes share that directory.
\<close>

theorem attached_handle_own:
  assumes "furrow_reach env f rows w" and "furrow_attach env f run build repo rows w = (Inr (Some h), rows', w')"
  shows "run \<noteq> [] \<and> (\<exists>e. map_of rows' run = Some e \<and> own_row f run e \<and> fh_key h = fe_key e \<and> fh_token h = fe_token e \<and>
     fh_namespace h = fe_namespace e \<and> fh_repo h = fe_repo e \<and>
     (is_abs (fw_remotes_root f) \<longrightarrow> path_parts (fe_store e) = path_parts (fw_remotes_root f) @ [sanitize_namespace run]))"
proof -
  have store: "is_abs (fw_remotes_root f) \<longrightarrow> path_parts (fe_store e) = path_parts (fw_remotes_root f) @ [sanitize_namespace run]"
    if "own_row f run e" for e
    using own_store that by blast
  from assms(2) show ?thesis
  proof (cases rule: attach_cases)
    case same
    then obtain e where e: "map_of rows run = Some e" "h = handle_of env f e w" by blast
    with reach_own [OF assms(1)] have "own_row f run e" by (simp add: rows_own_def)
    with same(1) e store show ?thesis by (auto simp: own_row_def handle_of_def)
  next
    case (new e q w5)
    from publish_row [OF new(2), of e] obtain t where "map_of rows' run = Some (e\<lparr>fe_updated := t\<rparr>)" by (auto simp: AList.update_conv')
    with new(1,3) store [of "e\<lparr>fe_updated := t\<rparr>"] show ?thesis by (auto simp: own_row_def handle_of_def)
  qed
qed

section \<open>The disk budget\<close>

text \<open>
  The budget in bytes is the configured number of gibibytes only below eight billion of them: from there
  the product leaves the 64 bits of the integer. A setting that is not a number, or negative, gives the
  default of 20.
\<close>

theorem furrow_budget_bytes:
  "configured_max_bytes genv =
     (let gb = (case parse_int64 (genv ''SWE_FURROW_MAX_GB'') of None \<Rightarrow> 20 | Some n \<Rightarrow> if n < 0 then 20 else n)
      in if gb < 2 ^ 33 then gb * 2 ^ 30 else signed_take_bit 63 (gb * 2 ^ 30))"
proof -
  define gb :: int where "gb = (case parse_int64 (genv ''SWE_FURROW_MAX_GB'') of None \<Rightarrow> 20 | Some n \<Rightarrow> if n < 0 then 20 else n)"
  have pos: "0 \<le> gb" by (simp add: gb_def split: option.split)
  have "times_int64 (times_int64 (times_int64 gb 1024) 1024) 1024 = sint (word_of_int (gb * 2 ^ 30) :: 64 word)"
    by (simp add: times_int64_def mult.assoc)
  also have "\<dots> = signed_take_bit 63 (gb * 2 ^ 30)" by (subst sint_sbintrunc') simp
  finally have "configured_max_bytes genv = signed_take_bit 63 (gb * 2 ^ 30)" by (simp add: configured_max_bytes_def gb_def)
  moreover have "signed_take_bit 63 (gb * 2 ^ 30) = gb * 2 ^ 30" if "gb < 2 ^ 33"
    using that pos by (intro signed_take_bit_int_eq_self) auto
  ultimately show ?thesis by (simp add: gb_def Let_def)
qed

section \<open>On a small disk\<close>

definition demo_key :: string where
  "demo_key = replicate 64 CHR ''a''"

definition demo_furrow_env :: "disk furrow_env" where
  "demo_furrow_env =
     \<lparr>fx_host = (demo_host (\<lambda>target args w. (Inr [], w)) (\<lambda>args. ([], [], 0)))\<lparr>is_directory := (\<lambda>p w. True)\<rparr>,
      fx_exec = (\<lambda>bin args store w. (Inr ''out'', w)), fx_parse = (\<lambda>s. Some (GMap [(''key_hex'', GStr demo_key)])),
      fx_replace = (\<lambda>p rows w. (None, w)), fx_load = (\<lambda>p w. None), fx_remove = (\<lambda>p w. (None, w)), fx_size = (\<lambda>p w. Bytes 10),
      fx_free = (\<lambda>p w. None), fx_now = (\<lambda>w. (100, w)), fx_token = (\<lambda>w. (Inr ''t'', w)), fx_transport = (\<lambda>w. False),
      fx_runnable = (\<lambda>p w. True), fx_repair = (\<lambda>p w. (False, w)), fx_executable = None, fx_platform = ''linux-amd64''\<rparr>"

definition demo_furrow :: furrow where
  "demo_furrow = \<lparr>fw_enabled = True, fw_bin = ''furrow'', fw_store_root = ''/s'', fw_remotes_root = ''/r'', fw_public_addr = [],
     fw_max_bytes = 0, fw_grace = 50\<rparr>"

definition demo_row :: "string \<Rightarrow> string \<Rightarrow> int \<Rightarrow> string \<times> furrow_entry" where
  "demo_row run store updated = (run, \<lparr>fe_run = run, fe_build = [], fe_repo = ''/w'', fe_namespace = run, fe_key = demo_key, fe_token = ''t'',
     fe_store = store, fe_created = 0, fe_updated = updated\<rparr>)"

lemma demo_pair: "pair_remote demo_furrow_env demo_furrow run repo w =
   (Some demo_key, w\<lparr>outside := (outside w)(path_join [repo, ''.furrowpolicy''] \<mapsto> policy_text)\<rparr>)"
proof -
  have "decode (JObj [fld ''key_hex'' JString]) GNil (GMap [(''key_hex'', GStr demo_key)]) = (GMap [(''key_hex'', GStr demo_key)], True)"
    by code_simp
  moreover have "valid_key demo_key" by code_simp
  ultimately show ?thesis
    by (simp add: pair_remote_def demo_furrow_env_def demo_host_def furrow_command_def as_map_def mget_def lookup_def_def Let_def)
qed

lemma demo_attach:
  "\<exists>h w. furrow_attach demo_furrow_env demo_furrow ''a/b'' [] ''/w'' [] blank_world =
     (Inr (Some h), [(''a/b'', (snd (demo_row ''a/b'' ''/r/a-b'' 100))\<lparr>fe_namespace := ''a-b'', fe_created := 100\<rparr>)], w)"
proof -
  have "save_registry demo_furrow_env demo_furrow rows w = (None, w)" for rows w
    by (simp add: save_registry_def demo_furrow_env_def demo_host_def)
  moreover have "fx_token demo_furrow_env w = (Inr ''t'', w)" "fx_now demo_furrow_env w = (100, w)" "disk_refuses demo_furrow_env demo_furrow w = (False, w)"
    "is_directory (fx_host demo_furrow_env) p w" "fw_enabled demo_furrow" "furrow_command demo_furrow_env demo_furrow p args w = (Inr ''out'', w)" for p w args
    by (simp_all add: disk_refuses_def furrow_command_def demo_furrow_env_def demo_furrow_def demo_host_def)
  moreover have "sanitize_namespace ''a/b'' = ''a-b''" "path_join [fw_remotes_root demo_furrow, ''a-b''] = ''/r/a-b''" by code_simp+
  ultimately show ?thesis by (simp add: furrow_attach_def publish_locked_def demo_pair demo_row_def Let_def)
qed

theorem attached_handle_own_witness:
  "\<exists>h rows w. furrow_attach demo_furrow_env demo_furrow ''a/b'' [] ''/w'' [] blank_world = (Inr (Some h), rows, w) \<and>
     fh_namespace h = ''a-b'' \<and> (\<exists>e. map_of rows ''a/b'' = Some e \<and> path_parts (fe_store e) = [''r'', ''a-b'']) \<and>
     sanitize_namespace ''a-b'' = ''a-b''"
proof -
  have names: "sanitize_namespace ''a/b'' = ''a-b''" "sanitize_namespace ''a-b'' = ''a-b''" by code_simp+
  from demo_attach obtain h rows w where a: "furrow_attach demo_furrow_env demo_furrow ''a/b'' [] ''/w'' [] blank_world = (Inr (Some h), rows, w)" by blast
  have root: "is_abs (fw_remotes_root demo_furrow)" "path_parts (fw_remotes_root demo_furrow) = [''r'']" by code_simp+
  from attached_handle_own [OF furrow_reach.fresh a] root names a show ?thesis
    by (auto simp: own_row_def)
qed

theorem sweep_keeps_live_witness:
  "\<exists>r rows w. sweep demo_furrow_env demo_furrow 0 5 [demo_row ''a'' ''/r/a'' 90, demo_row ''b'' ''/r/b'' 10] blank_world = (r, rows, w) \<and>
     sweep (with_disposer demo_furrow_env (\<lambda>p w. if covers_path p ''/r/a'' then (Some ''denied'', w) else fx_remove demo_furrow_env p w))
       demo_furrow 0 5 [demo_row ''a'' ''/r/a'' 90, demo_row ''b'' ''/r/b'' 10] blank_world = (r, rows, w) \<and>
     map_of rows ''a'' = Some (snd (demo_row ''a'' ''/r/a'' 90)) \<and> map_of rows ''b'' = None"
proof -
  let ?rows = "[demo_row ''a'' ''/r/a'' 90, demo_row ''b'' ''/r/b'' 10]"
  let ?s = "sweep demo_furrow_env demo_furrow 0 5 ?rows blank_world"
  let ?g = "\<lambda>p w. if covers_path p ''/r/a'' then (Some ''denied'', w) else fx_remove demo_furrow_env p w"
  obtain r rows w where s: "?s = (r, rows, w)" by (metis prod.collapse)
  have live: "live_row demo_furrow_env demo_furrow 0 (snd (demo_row ''a'' ''/r/a'' 90))"
    by (simp add: live_row_def demo_furrow_env_def demo_furrow_def demo_row_def)
  have store: "fe_store (snd (demo_row n p t)) = p" for n p t by (simp add: demo_row_def)
  have row: "map_of ?rows ''a'' = Some (snd (demo_row ''a'' ''/r/a'' 90))" by (simp add: demo_row_def)
  have "\<not> covers_path ''/r/b'' ''/r/a''" by code_simp
  then have "map_of ?rows run' = Some e' \<and> run' \<noteq> ''a'' \<longrightarrow> \<not> covers_path (fe_store e') ''/r/a''" for run' e'
    by (auto simp: demo_row_def split: if_splits)
  with sweep_keeps_live [OF s row live, of ?g] have "map_of rows ''a'' = Some (snd (demo_row ''a'' ''/r/a'' 90))"
    "sweep (with_disposer demo_furrow_env ?g) demo_furrow 0 5 ?rows blank_world = (r, rows, w)"
    unfolding store by simp_all
  moreover have "map_of (fst (snd ?s)) ''b'' = None" by code_simp
  ultimately show ?thesis using s by auto
qed

theorem sweep_confined_witness:
  "sweep (with_disposer demo_furrow_env (\<lambda>p w. if is_abs p \<and> strict_prefix [''r''] (path_parts p) then (None, w) else (Some ''denied'', w)))
     demo_furrow 60 5 [demo_row ''a'' ''/r/../etc'' 0, demo_row ''b'' [] 0, demo_row ''c'' ''/r'' 0] blank_world =
   sweep demo_furrow_env demo_furrow 60 5 [demo_row ''a'' ''/r/../etc'' 0, demo_row ''b'' [] 0, demo_row ''c'' ''/r'' 0] blank_world \<and>
   fst (sweep demo_furrow_env demo_furrow 60 5 [demo_row ''a'' ''/r/../etc'' 0, demo_row ''b'' [] 0, demo_row ''c'' ''/r'' 0] blank_world) = (3, None)"
proof
  have root: "path_parts (fw_remotes_root demo_furrow) = [''r'']" "is_abs (fw_remotes_root demo_furrow)" by code_simp+
  then have "agree_below (fw_remotes_root demo_furrow) demo_furrow_env
      (\<lambda>p w. if is_abs p \<and> strict_prefix [''r''] (path_parts p) then (None, w) else (Some ''denied'', w))"
    by (simp add: agree_below_def) (simp add: demo_furrow_env_def)
  from sweep_confined [OF root(2) this] show "sweep (with_disposer demo_furrow_env
      (\<lambda>p w. if is_abs p \<and> strict_prefix [''r''] (path_parts p) then (None, w) else (Some ''denied'', w)))
     demo_furrow 60 5 [demo_row ''a'' ''/r/../etc'' 0, demo_row ''b'' [] 0, demo_row ''c'' ''/r'' 0] blank_world =
   sweep demo_furrow_env demo_furrow 60 5 [demo_row ''a'' ''/r/../etc'' 0, demo_row ''b'' [] 0, demo_row ''c'' ''/r'' 0] blank_world" .
  show "fst (sweep demo_furrow_env demo_furrow 60 5 [demo_row ''a'' ''/r/../etc'' 0, demo_row ''b'' [] 0, demo_row ''c'' ''/r'' 0] blank_world) = (3, None)"
    by code_simp
qed

theorem furrow_budget_bytes_witness:
  "configured_max_bytes (\<lambda>k. ''17179869184'') = 0"
proof -
  have "parse_int64 ''17179869184'' = Some (2 ^ 34)" by code_simp
  moreover have "signed_take_bit 63 ((2 ^ 34) * 2 ^ 30 :: int) = 0" by code_simp
  ultimately show ?thesis using furrow_budget_bytes [of "\<lambda>k. ''17179869184''"] by (simp add: Let_def)
qed

end
