(* ===== verification/FurrowNode.thy ===== *)
theory FurrowNode
  imports FurrowCorrect
begin

text \<open>
  Around the mirror's manager: the supervisor of the daemon that serves mirrors over the network and the writer
  that copies its output into the log (\<open>furrow/supervisor.go\<close>), how the orchestrators attach and publish
  (\<open>orch/common.go\<close>), and how the node sets the mirror up and answers for a run's handle
  (\<open>node/node.go\<close>, \<open>node/register.go\<close>).
\<close>

section \<open>The daemon's supervisor\<close>

definition seconds :: "int \<Rightarrow> int" where
  "seconds n = n * 1000000000"

datatype supervision = Gave_Up | Stopped | Supervising

text \<open>
  \<open>loop\<close>, over the runs of the daemon so far: how long each was up, and whether the node was shut down before it
  ended or during the wait after it. The result lists the waits.
\<close>

fun supervise :: "nat \<Rightarrow> int \<Rightarrow> (int \<times> bool \<times> bool) list \<Rightarrow> int list \<times> supervision" where
  "supervise failures backoff [] = ([], Supervising)"
| "supervise failures backoff ((uptime, down_before, down_after) # runs) =
     (let healthy = (uptime \<ge> seconds 60); n = (if healthy then 0 else failures + 1); wait = (if healthy then seconds 1 else backoff)
      in if down_before then ([], Stopped)
         else if \<not> healthy \<and> n \<ge> 5 then ([], Gave_Up)
         else if down_after then ([wait], Stopped)
         else (case supervise n (if wait * 2 > seconds 60 then seconds 60 else wait * 2) runs of (later, e) \<Rightarrow> (wait # later, e)))"

definition supervise_daemon :: "(int \<times> bool \<times> bool) list \<Rightarrow> int list \<times> supervision" where
  "supervise_daemon runs = supervise 0 (seconds 1) runs"

text \<open>\<open>Healthy\<close>: a probe of the listen address, whose answer counts for a quarter of a second.\<close>

record supervisor =
  su_bin :: string
  su_running :: bool
  su_checked :: int
  su_healthy :: bool

definition supervisor_healthy :: "int \<Rightarrow> bool \<Rightarrow> supervisor \<Rightarrow> bool \<times> supervisor" where
  "supervisor_healthy now answers s =
     (if su_bin s = [] \<or> \<not> su_running s then (False, s)
      else if now - su_checked s < 250000000 then (su_healthy s, s)
      else (answers, s\<lparr>su_checked := now, su_healthy := answers\<rparr>))"

section \<open>The daemon's output\<close>

definition max_prefix_line :: nat where
  "max_prefix_line = 65536"

text \<open>\<open>Write\<close>: the lines that are complete, and what stays in the buffer.\<close>

definition prefix_write :: "string \<Rightarrow> string \<Rightarrow> string list \<times> string" where
  "prefix_write buf p =
     (let parts = split_lines [] (buf @ p); rest = last parts
      in if length rest \<ge> max_prefix_line then (butlast parts @ [rest], []) else (butlast parts, rest))"

definition prefix_flush :: "string \<Rightarrow> string list" where
  "prefix_flush buf = (if buf \<noteq> [] then [buf] else [])"

definition emitted :: "string list \<Rightarrow> string list" where
  "emitted outs = filter (\<lambda>t. t \<noteq> []) (map (trim_right CHR 0x0D) outs)"

fun prefix_writes :: "string \<Rightarrow> string list \<Rightarrow> string list \<times> string" where
  "prefix_writes buf [] = ([], buf)"
| "prefix_writes buf (p # ps) =
     (let (outs, buf1) = prefix_write buf p; (more, buf2) = prefix_writes buf1 ps in (outs @ more, buf2))"

text \<open>What a run of the daemon leaves in the log: everything written, then the flush.\<close>

definition daemon_log :: "string list \<Rightarrow> string list" where
  "daemon_log chunks = (case prefix_writes [] chunks of (outs, buf) \<Rightarrow> emitted (outs @ prefix_flush buf))"

section \<open>The orchestrators and the node\<close>

text \<open>A node without mirroring has no manager.\<close>

definition deps_attach :: "'x furrow_env \<Rightarrow> furrow option \<Rightarrow> string \<Rightarrow> string \<Rightarrow> string \<Rightarrow> furrow_rows \<Rightarrow> 'x world
    \<Rightarrow> furrow_handle option \<times> furrow_rows \<times> 'x world" where
  "deps_attach env m run build repo rows w = (case m of
     None \<Rightarrow> (None, rows, w)
   | Some f \<Rightarrow> (case furrow_attach env f run build repo rows w of
       (Inl e, rows1, w1) \<Rightarrow> (None, rows1, w1) | (Inr h, rows1, w1) \<Rightarrow> (h, rows1, w1)))"

definition deps_publish :: "'x furrow_env \<Rightarrow> furrow option \<Rightarrow> string \<Rightarrow> string \<Rightarrow> furrow_rows \<Rightarrow> 'x world \<Rightarrow> furrow_rows \<times> 'x world" where
  "deps_publish env m run label rows w = (case m of None \<Rightarrow> (rows, w) | Some f \<Rightarrow> snd (furrow_publish env f run label rows w))"

definition env_or :: "getenv \<Rightarrow> string \<Rightarrow> string \<Rightarrow> string" where
  "env_or genv key dflt = (if genv key \<noteq> [] then genv key else dflt)"

definition env_int64 :: "getenv \<Rightarrow> string \<Rightarrow> int \<Rightarrow> int" where
  "env_int64 genv key dflt = (case parse_int64 (genv key) of None \<Rightarrow> dflt | Some n \<Rightarrow> if n < 0 then dflt else n)"

definition furrow_roots :: "getenv \<Rightarrow> string \<times> string" where
  "furrow_roots genv =
     (let home = genv ''AGENTFIELD_HOME'';
          store = (if home \<noteq> [] then path_join [home, ''furrow'', ''store''] else path_join [workspace_root genv, ''.furrow-store'']);
          remotes = (if home \<noteq> [] then path_join [home, ''furrow'', ''remotes''] else path_join [workspace_root genv, ''.furrow-remotes''])
      in (env_or genv ''SWE_FURROW_DATA_DIR'' store, env_or genv ''SWE_FURROW_REMOTES_ROOT'' remotes))"

text \<open>The manager of a node, and the limits its hourly sweep works with.\<close>

definition build_furrow_manager :: "'x furrow_env \<Rightarrow> 'x world \<Rightarrow> (furrow \<times> furrow_rows) option \<times> 'x world" where
  "build_furrow_manager env w = (case resolve_bin env w of
     (Inl e, w1) \<Rightarrow> (None, w1)
   | (Inr bin, w1) \<Rightarrow>
       let genv = env_var (fx_host env); (store, remotes) = furrow_roots genv;
           ((f, rows), w2) = new_furrow env \<lparr>fo_bin = bin, fo_store = store, fo_remotes = remotes, fo_public = genv ''FURROW_PUBLIC_ADDR'',
             fo_max_bytes = 0, fo_grace = 0\<rparr> w1
       in (if fw_enabled f then Some (f, rows) else None, w2))"

definition sweep_max_age :: "getenv \<Rightarrow> int" where
  "sweep_max_age genv = times_int64 (env_int64 genv ''SWE_FURROW_TTL_HOURS'' 72) (seconds 3600)"

definition sweep_max_bytes :: "getenv \<Rightarrow> int" where
  "sweep_max_bytes genv = times_int64 (times_int64 (times_int64 (env_int64 genv ''SWE_FURROW_MAX_GB'' 20) 1024) 1024) 1024"

definition sweep_tick :: "'x furrow_env \<Rightarrow> furrow \<Rightarrow> furrow_rows \<Rightarrow> 'x world \<Rightarrow> furrow_rows \<times> 'x world" where
  "sweep_tick env f rows w =
     snd (sweep env f (sweep_max_age (env_var (fx_host env))) (sweep_max_bytes (env_var (fx_host env))) rows w)"

text \<open>A handle as the caller sees it, after its trip through JSON; empty tokens and paths are omitted.\<close>

definition handle_json :: "furrow_handle \<Rightarrow> gmap" where
  "handle_json h =
     [(''v'', GFloat (fh_version h) 0), (''remote'', GStr (fh_remote h)), (''namespace'', GStr (fh_namespace h)), (''key'', GStr (fh_key h))] @
     (if fh_token h \<noteq> [] then [(''token'', GStr (fh_token h))] else []) @
     (if fh_repo h \<noteq> [] then [(''repo_path'', GStr (fh_repo h))] else [])"

definition workspace_handle_result :: "getenv \<Rightarrow> furrow_handle \<Rightarrow> gmap" where
  "workspace_handle_result genv h =
     (let expose = env_truthy genv ''SWE_FURROW_EXPOSE_SECRETS'';
          m = (if expose then handle_json h else filter (\<lambda>(k, v). k \<noteq> ''key'' \<and> k \<noteq> ''token'') (handle_json h))
      in mset m ''secrets_redacted'' (GBool (\<not> expose)))"

definition get_workspace_handle :: "'x furrow_env \<Rightarrow> furrow option \<Rightarrow> furrow_rows \<Rightarrow> gmap \<Rightarrow> 'x world \<Rightarrow> gmap" where
  "get_workspace_handle env m rows input w =
     (let run = as_string (mget input ''run_id'')
      in case m of None \<Rightarrow> [(''available'', GBool False)]
         | Some f \<Rightarrow> if run = [] then [(''available'', GBool False)]
             else (case furrow_lookup env f run rows w of
                 None \<Rightarrow> [(''available'', GBool False)]
               | Some h \<Rightarrow> workspace_handle_result (env_var (fx_host env)) h))"

section \<open>Lines\<close>

lemma split_lines_Cons: "\<exists>p ps. split_lines cur s = p # ps"
  by (induction cur s rule: split_lines.induct) auto

lemma split_lines_append:
  "split_lines cur (s @ t) = butlast (split_lines cur s) @ split_lines (last (split_lines cur s)) t"
proof (induction cur s rule: split_lines.induct)
  case (2 cur c cs)
  obtain p ps where "split_lines [] cs = p # ps" using split_lines_Cons by blast
  with 2 show ?case by auto
qed simp

lemma split_lines_start: "CHR 0x0A \<notin> set cur \<Longrightarrow> split_lines [] (cur @ s) = split_lines cur s"
proof (induction cur arbitrary: s rule: rev_induct)
  case (snoc c cur)
  have "split_lines d (cs @ s) = split_lines (d @ cs) s" if "CHR 0x0A \<notin> set cs" for d cs s
    using that by (induction cs arbitrary: d) auto
  from this [of "cur @ [c]" "[]" s] snoc.prems show ?case by simp
qed simp

lemma split_lines_last: "CHR 0x0A \<notin> set cur \<Longrightarrow> CHR 0x0A \<notin> set (last (split_lines cur s))"
proof (induction cur s rule: split_lines.induct)
  case (2 cur c cs)
  obtain p ps where "split_lines [] cs = p # ps" using split_lines_Cons by blast
  with 2 show ?case by auto
qed simp

text \<open>As long as no line reaches the limit, buffering loses and splits nothing.\<close>

lemma prefix_writes_lines:
  assumes "\<And>t. t \<in> set (split_lines buf (concat ps)) \<Longrightarrow> length t < max_prefix_line" and "CHR 0x0A \<notin> set buf"
  shows "(case prefix_writes buf ps of (outs, rest) \<Rightarrow> outs @ [rest]) = split_lines buf (concat ps)"
  using assms
proof (induction ps arbitrary: buf)
  case (Cons p ps)
  let ?parts = "split_lines [] (buf @ p)"
  have parts: "?parts = split_lines buf p" using split_lines_start [OF Cons.prems(2)] .
  have all: "split_lines buf (concat (p # ps)) = butlast ?parts @ split_lines (last ?parts) (concat ps)"
    unfolding parts using split_lines_append [of buf p "concat ps"] by simp
  have nl: "CHR 0x0A \<notin> set (last ?parts)" using split_lines_last [of "[]"] by simp
  have "\<exists>t \<in> set (split_lines d s). length d \<le> length t" for d s
    by (induction d s rule: split_lines.induct) (auto dest: Suc_leD)
  then obtain t where "t \<in> set (split_lines (last ?parts) (concat ps))" "length (last ?parts) \<le> length t" by blast
  with Cons.prems(1) all have short: "length (last ?parts) < max_prefix_line" by (metis UnCI le_less_trans set_append)
  from Cons.IH [OF _ nl] Cons.prems(1) all have
    ih: "(case prefix_writes (last ?parts) ps of (outs, rest) \<Rightarrow> outs @ [rest]) = split_lines (last ?parts) (concat ps)"
    by auto
  have "prefix_write buf p = (butlast ?parts, last ?parts)" using short by (simp add: prefix_write_def Let_def)
  with ih all show ?case by (simp split: prod.splits)
qed simp

text \<open>
  The log of the daemon does not depend on how its output arrives. Cut into chunks in any way, an output
  whose lines stay below the limit leaves its lines in the log, each once and in order, without the empty ones
  and without carriage returns at their ends; what follows the last newline comes with the flush.
\<close>

theorem daemon_log_lines:
  assumes "\<And>t. t \<in> set (split_lines [] (concat chunks)) \<Longrightarrow> length t < max_prefix_line"
  shows "daemon_log chunks = emitted (split_lines [] (concat chunks))"
proof -
  obtain outs buf where w: "prefix_writes [] chunks = (outs, buf)" by force
  with prefix_writes_lines [of "[]" chunks] assms have lines: "split_lines [] (concat chunks) = outs @ [buf]" by simp
  show ?thesis unfolding lines by (cases buf) (simp_all add: daemon_log_def w emitted_def prefix_flush_def trim_right_def)
qed

theorem daemon_log_lines_witness:
  "daemon_log [''ab'', [CHR 0x0D, CHR 0x0A, CHR 0x0A], ''c''] = [''ab'', ''c'']"
proof -
  have lines: "split_lines [] (concat [''ab'', [CHR 0x0D, CHR 0x0A, CHR 0x0A], ''c'']) = [''ab'' @ [CHR 0x0D], [], ''c'']" by code_simp
  have "daemon_log [''ab'', [CHR 0x0D, CHR 0x0A, CHR 0x0A], ''c''] = emitted [''ab'' @ [CHR 0x0D], [], ''c'']"
    unfolding lines [symmetric] by (rule daemon_log_lines, unfold lines) (auto simp: max_prefix_line_def)
  then show ?thesis by (simp add: emitted_def trim_right_def)
qed

section \<open>Giving up on the daemon\<close>

definition short_run :: "int \<times> bool \<times> bool \<Rightarrow> bool" where
  "short_run run \<longleftrightarrow> fst run < seconds 60"

lemma supervise_later:
  "failures \<le> 4 \<Longrightarrow> b = seconds (2 ^ failures) \<or> b = seconds (2 ^ (failures + 1)) \<Longrightarrow> supervise failures b runs = (ws, e) \<Longrightarrow>
   wait \<in> set ws \<Longrightarrow> wait \<le> seconds 16"
proof (induction runs arbitrary: failures b ws e)
  case (Cons run runs)
  obtain uptime before after where run: "run = (uptime, before, after)" by (cases run)
  have f: "failures = 0 \<or> failures = 1 \<or> failures = 2 \<or> failures = 3 \<or> failures = 4" using Cons.prems(1) by auto
  show ?case
  proof (cases "uptime \<ge> seconds 60")
    case True
    have two: "(if seconds 1 * 2 > seconds 60 then seconds 60 else seconds 1 * 2) = seconds (2 ^ (0 + 1))" by (simp add: seconds_def)
    obtain later e' where rec: "supervise 0 (seconds (2 ^ (0 + 1))) runs = (later, e')" by force
    have "wait \<in> set later \<Longrightarrow> wait \<le> seconds 16" using Cons.IH [OF _ _ rec] by simp
    with Cons.prems(3,4) run True rec two show ?thesis by (auto simp: Let_def seconds_def split: if_splits)
  next
    case False
    show ?thesis
    proof (cases "failures = 4")
      case True
      with Cons.prems(3,4) run False show ?thesis by (auto simp: Let_def split: if_splits)
    next
      case False
      let ?b = "if b * 2 > seconds 60 then seconds 60 else b * 2"
      have b: "?b = seconds (2 ^ (failures + 1)) \<or> ?b = seconds (2 ^ (failures + 1 + 1))" "b \<le> seconds 16"
        using f False Cons.prems(2) by (auto simp: seconds_def)
      obtain later e' where rec: "supervise (failures + 1) ?b runs = (later, e')" by force
      have "wait \<in> set later \<Longrightarrow> wait \<le> seconds 16" using Cons.IH [OF _ b(1) rec] Cons.prems(1) False by simp
      with Cons.prems(3,4) run \<open>\<not> uptime \<ge> seconds 60\<close> rec b(2) show ?thesis by (auto simp: Let_def split: if_splits)
    qed
  qed
qed simp

lemma supervise_gave_up:
  "failures \<le> 4 \<Longrightarrow> supervise failures b runs = (ws, Gave_Up) \<Longrightarrow>
   \<exists>pre xs post. runs = pre @ xs @ post \<and> list_all short_run xs \<and> (length xs = 5 \<or> pre = [] \<and> length xs = 5 - failures)"
proof (induction runs arbitrary: failures b ws)
  case (Cons run runs)
  obtain uptime before after where run: "run = (uptime, before, after)" by (cases run)
  show ?case
  proof (cases "uptime \<ge> seconds 60")
    case True
    with Cons.prems(2) run obtain b' later where "supervise 0 b' runs = (later, Gave_Up)"
      by (auto simp: Let_def split: if_splits prod.splits)
    from Cons.IH [OF _ this] obtain pre xs post where "runs = pre @ xs @ post" "list_all short_run xs" "length xs = 5" by auto
    then show ?thesis by (intro exI [of _ "run # pre"] exI [of _ xs] exI [of _ post]) simp
  next
    case False
    then have short: "short_run run" by (simp add: short_run_def run)
    show ?thesis
    proof (cases "failures = 4")
      case True
      with short show ?thesis by (intro exI [of _ "[]"] exI [of _ "[run]"] exI [of _ runs]) simp
    next
      case False
      with Cons.prems \<open>\<not> uptime \<ge> seconds 60\<close> run obtain b' later where "supervise (failures + 1) b' runs = (later, Gave_Up)"
        by (auto simp: Let_def split: if_splits prod.splits)
      from Cons.IH [OF _ this] Cons.prems(1) False obtain pre xs post where "runs = pre @ xs @ post" "list_all short_run xs"
        "length xs = 5 \<or> pre = [] \<and> length xs = 5 - (failures + 1)" by auto
      moreover have ?thesis if "length xs = 5"
        using that calculation by (intro exI [of _ "run # pre"] exI [of _ xs] exI [of _ post]) simp
      moreover have ?thesis if "pre = []" "length xs = 5 - (failures + 1)"
      proof -
        from that Cons.prems(1) False have "length (run # xs) = 5 - failures" by simp
        moreover have "run # runs = [] @ (run # xs) @ post" "list_all short_run (run # xs)"
          using that(1) \<open>runs = pre @ xs @ post\<close> \<open>list_all short_run xs\<close> short by simp_all
        ultimately show ?thesis by blast
      qed
      ultimately show ?thesis by blast
    qed
  qed
qed simp

text \<open>
  The supervisor gives up on the daemon only after five runs in a row that each ended within a minute of
  their start, and it never waits longer than sixteen seconds before the next run; the configured maximum of
  a minute is out of reach.
\<close>

theorem supervisor_gives_up:
  assumes "supervise_daemon runs = (ws, e)"
  shows "list_all (\<lambda>wait. wait \<le> seconds 16) ws \<and>
    (e = Gave_Up \<longrightarrow> (\<exists>pre xs post. runs = pre @ xs @ post \<and> list_all short_run xs \<and> length xs = 5))"
proof (intro conjI impI)
  show "list_all (\<lambda>wait. wait \<le> seconds 16) ws"
    using supervise_later [of 0 "seconds 1" runs ws e] assms by (auto simp: supervise_daemon_def list_all_iff)
  show "\<exists>pre xs post. runs = pre @ xs @ post \<and> list_all short_run xs \<and> length xs = 5" if "e = Gave_Up"
    using supervise_gave_up [of 0 "seconds 1" runs ws] assms that by (auto simp: supervise_daemon_def)
qed

theorem supervisor_gives_up_witness:
  "supervise_daemon (replicate 9 (seconds 3, False, False)) = ([seconds 1, seconds 2, seconds 4, seconds 8], Gave_Up) \<and>
   (\<exists>pre xs post. replicate 9 (seconds 3, False, False) = pre @ xs @ post \<and> list_all short_run xs \<and> length xs = 5)"
proof -
  have run: "supervise_daemon (replicate 9 (seconds 3, False, False)) = ([seconds 1, seconds 2, seconds 4, seconds 8], Gave_Up)" by code_simp
  from supervisor_gives_up [OF run] run show ?thesis by blast
qed

section \<open>What a caller learns about a mirror\<close>

text \<open>
  Unless the operator switched it on, nobody learns a mirror's secrets: the answer for a run has neither its
  recovery key nor its transport token, and says so. Only one of the spellings of yes switches it on.
\<close>

theorem handle_secrets_hidden:
  assumes "to_lower (trim_space (env_var (fx_host env) ''SWE_FURROW_EXPOSE_SECRETS'')) \<notin> set [''1'', ''true'', ''yes'', ''on'']"
  shows "map_of (get_workspace_handle env m rows input w) ''key'' = None \<and> map_of (get_workspace_handle env m rows input w) ''token'' = None \<and>
     (map_of (get_workspace_handle env m rows input w) ''available'' = Some (GBool False) \<or>
      map_of (get_workspace_handle env m rows input w) ''secrets_redacted'' = Some (GBool True))"
proof -
  from assms have off: "\<not> env_truthy (env_var (fx_host env)) ''SWE_FURROW_EXPOSE_SECRETS''" by (simp add: env_truthy_def)
  have "map_of (workspace_handle_result (env_var (fx_host env)) h) ''key'' = None \<and>
      map_of (workspace_handle_result (env_var (fx_host env)) h) ''token'' = None \<and>
      map_of (workspace_handle_result (env_var (fx_host env)) h) ''secrets_redacted'' = Some (GBool True)" for h
    by (simp add: workspace_handle_result_def off map_of_mset handle_json_def)
  then show ?thesis by (auto simp: get_workspace_handle_def Let_def split: option.split)
qed

theorem handle_secrets_hidden_witness:
  "map_of (get_workspace_handle demo_furrow_env (Some demo_furrow) [demo_row ''a'' ''/r/a'' 0] [(''run_id'', GStr ''a'')] blank_world) ''key'' = None \<and>
   map_of (get_workspace_handle demo_furrow_env (Some demo_furrow) [demo_row ''a'' ''/r/a'' 0] [(''run_id'', GStr ''a'')] blank_world) ''remote'' =
     Some (GStr ''dir:/r/a'')"
proof
  have "env_var (fx_host demo_furrow_env) k = []" for k by (simp add: demo_furrow_env_def demo_host_def)
  moreover have "to_lower (trim_space []) \<notin> set [''1'', ''true'', ''yes'', ''on'']" by code_simp
  ultimately show "map_of (get_workspace_handle demo_furrow_env (Some demo_furrow) [demo_row ''a'' ''/r/a'' 0] [(''run_id'', GStr ''a'')] blank_world) ''key'' = None"
    using handle_secrets_hidden [of demo_furrow_env "Some demo_furrow" "[demo_row ''a'' ''/r/a'' 0]" "[(''run_id'', GStr ''a'')]" blank_world] by simp
  show "map_of (get_workspace_handle demo_furrow_env (Some demo_furrow) [demo_row ''a'' ''/r/a'' 0] [(''run_id'', GStr ''a'')] blank_world) ''remote'' =
     Some (GStr ''dir:/r/a'')" by code_simp
qed

end
