(* ===== verification/FurrowDaemon.thy ===== *)
theory FurrowDaemon
  imports FurrowNode
begin

text \<open>
  The network side of the workspace mirror: the daemon \<open>cmd/furrowd\<close>, which authenticates a connection by the
  token of a run and hands it to furrow, and the client's shim \<open>cmd/furrow-dial\<close>. The registry file is the one
  the manager writes (\<open>Furrow\<close>). TLS, certificates, sockets and processes are left out; the parser of addresses
  is a parameter.
\<close>

section \<open>Configuration\<close>

record daemon_config =
  dc_addr :: string
  dc_root :: string
  dc_cert :: string
  dc_key :: string
  dc_bin :: string
  dc_max :: int

fun first_runnable :: "(string \<Rightarrow> bool) \<Rightarrow> string list \<Rightarrow> string \<Rightarrow> string \<times> bool" where
  "first_runnable runnable [] dflt = (dflt, False)"
| "first_runnable runnable (path # paths) dflt = (if runnable path then (path, True) else first_runnable runnable paths dflt)"

definition resolve_furrow_bin :: "getenv \<Rightarrow> (string \<Rightarrow> bool) \<Rightarrow> string option \<Rightarrow> string \<Rightarrow> string \<times> bool" where
  "resolve_furrow_bin genv runnable exe platform =
     (let path = genv ''SWE_FURROW_BIN''; dflt = ''/usr/local/bin/furrow''
      in if path \<noteq> [] then (path, runnable path)
         else if runnable dflt then (dflt, True)
         else case exe of None \<Rightarrow> (dflt, False)
       | Some e \<Rightarrow> first_runnable runnable [path_join [path_dir e, ''furrow-'' @ platform], path_join [path_dir e, ''furrow'']] dflt)"

definition daemon_config_from_env :: "getenv \<Rightarrow> (string \<Rightarrow> bool) \<Rightarrow> string option \<Rightarrow> string \<Rightarrow> string + daemon_config" where
  "daemon_config_from_env genv runnable exe platform =
     (let root = env_or genv ''FURROWD_REMOTES_ROOT'' ''/var/lib/swe-af/furrow/remotes'';
          cert = genv ''FURROWD_TLS_CERT''; key = genv ''FURROWD_TLS_KEY''; limit = genv ''FURROWD_MAX_CONNECTIONS'';
          most = (if limit = [] then Some 32 else case parse_int64 limit of None \<Rightarrow> None | Some n \<Rightarrow> if n < 1 then None else Some n);
          (bin, ok) = resolve_furrow_bin genv runnable exe platform
      in if (cert = []) \<noteq> (key = []) then Inl ''FURROWD_TLS_CERT and FURROWD_TLS_KEY must be set together''
         else case most of None \<Rightarrow> Inl (''invalid FURROWD_MAX_CONNECTIONS '' @ quoted limit)
       | Some n \<Rightarrow>
           if \<not> ok then Inl (''no runnable furrow binary at '' @ bin)
           else Inr \<lparr>dc_addr = env_or genv ''FURROWD_ADDR'' '':8802'', dc_root = root,
                      dc_cert = (if cert = [] then path_join [root, ''furrowd.crt''] else cert),
                      dc_key = (if cert = [] then path_join [root, ''furrowd.key''] else key), dc_bin = bin, dc_max = n\<rparr>)"

section \<open>Authentication\<close>

definition valid_namespace :: "string \<Rightarrow> bool" where
  "valid_namespace ns \<longleftrightarrow> ns \<noteq> [] \<and> length ns \<le> 96 \<and> ns \<noteq> ''.'' \<and> ns \<noteq> ''..'' \<and> hd ns \<noteq> CHR ''-'' \<and>
     list_all (\<lambda>c. let n = of_char c :: nat in 97 \<le> n \<and> n \<le> 122 \<or> 65 \<le> n \<and> n \<le> 90 \<or> 48 \<le> n \<and> n \<le> 57 \<or> c \<in> set ''._-'') ns"

text \<open>The part of a registry row the daemon reads.\<close>

record registry_row =
  rr_namespace :: string
  rr_token :: string
  rr_store :: string

definition narrow :: "furrow_entry \<Rightarrow> registry_row" where
  "narrow e = \<lparr>rr_namespace = fe_namespace e, rr_token = fe_token e, rr_store = fe_store e\<rparr>"

text \<open>
  The registry, if it can be read and parsed, and the row with the token; the last of several in the order in which
  the map is walked.
\<close>

definition lookup_entry :: "(string \<times> registry_row) list option \<Rightarrow> string \<Rightarrow> registry_row option" where
  "lookup_entry registry token = (case registry of
     None \<Rightarrow> None
   | Some rows \<Rightarrow> foldl (\<lambda>found (run, row). if rr_token row = token then Some row else found) None rows)"

fun split_space :: "string \<Rightarrow> string \<Rightarrow> string list" where
  "split_space cur [] = [cur]"
| "split_space cur (c # cs) = (if c = CHR '' '' then cur # split_space [] cs else split_space (cur @ [c]) cs)"

definition first_line :: "string \<Rightarrow> string" where
  "first_line input = takeWhile (\<lambda>c. c \<noteq> CHR 0x0A) input"

text \<open>The request a connection opens with, a line of at most 512 bytes with its newline: token and namespace.\<close>

definition read_auth :: "string \<Rightarrow> (string \<times> string) option" where
  "read_auth input =
     (let line = first_line input
      in if length line = length input \<or> length line + 1 > 512 then None
         else (case split_space [] line of
             [verb, token, ns] \<Rightarrow> if verb = ''AUTH'' \<and> token \<noteq> [] \<and> ns \<noteq> [] then Some (token, ns) else None
           | _ \<Rightarrow> None))"

text \<open>The furrow process a connection is handed to, with the directory it serves and what it reads.\<close>

record remote_child =
  rc_bin :: string
  rc_args :: "string list"
  rc_data_dir :: string
  rc_input :: string

definition run_child :: "daemon_config \<Rightarrow> registry_row \<Rightarrow> string \<Rightarrow> string \<Rightarrow> remote_child" where
  "run_child cfg row ns input =
     \<lparr>rc_bin = dc_bin cfg, rc_args = [''__remote'', ns],
      rc_data_dir = (if rr_store row = [] then path_join [dc_root cfg, rr_namespace row] else rr_store row), rc_input = input\<rparr>"

definition serve :: "daemon_config \<Rightarrow> (string \<times> registry_row) list option \<Rightarrow> string \<Rightarrow> remote_child option" where
  "serve cfg registry input = (case read_auth input of
     None \<Rightarrow> None
   | Some (token, ns) \<Rightarrow> (case lookup_entry registry token of
       None \<Rightarrow> None
     | Some row \<Rightarrow> if valid_namespace ns then Some (run_child cfg row ns (drop (length (first_line input) + 1) input)) else None))"

section \<open>Dialling\<close>

record dialled =
  dl_addr :: string
  dl_insecure :: bool
  dl_request :: string

fun after_dashes :: "string list \<Rightarrow> string" where
  "after_dashes (arg # next_arg # args) = (if arg = ''--'' then next_arg else after_dashes (next_arg # args))"
| "after_dashes args = []"

definition clean_word :: "string \<Rightarrow> bool" where
  "clean_word s \<longleftrightarrow> list_all (\<lambda>c. c \<notin> set [CHR '' '', CHR 0x0D, CHR 0x0A]) s"

definition dial :: "getenv \<Rightarrow> (string \<Rightarrow> bool) \<Rightarrow> string list \<Rightarrow> string + dialled" where
  "dial genv splits args =
     (if args = [] then Inl ''missing namespace''
      else let ns = last args; addr = (if genv ''FURROW_DIAL_ADDR'' = [] then after_dashes args else genv ''FURROW_DIAL_ADDR'');
               token = genv ''FURROW_DIAL_TOKEN''
      in if addr = [] then Inl ''FURROW_DIAL_ADDR is unset and argv has no host''
         else if token = [] \<or> \<not> clean_word token \<or> \<not> clean_word ns then Inl ''missing or invalid authentication parameters''
         else if \<not> splits addr then Inl ''invalid address''
         else Inr \<lparr>dl_addr = addr, dl_insecure = (genv ''FURROW_DIAL_INSECURE'' = ''1''),
                   dl_request = ''AUTH '' @ token @ '' '' @ ns @ [CHR 0x0A]\<rparr>)"

section \<open>Connections\<close>

text \<open>
  A connection's handler is started, then registered as live, then serves, unregisters, closes the connection and
  frees its place; a shutdown closes the live ones. Every goroutine's step is one step of the daemon.
\<close>

datatype phase = Unseen | Started | Serving | Leaving | Closing | Gone

record connections =
  cn_phase :: "nat \<Rightarrow> phase"
  cn_closed :: "nat set"
  cn_down :: bool

definition busy :: "connections \<Rightarrow> nat set" where
  "busy s = {c. cn_phase s c \<in> {Started, Serving, Leaving, Closing}}"

definition to_phase :: "nat \<Rightarrow> phase \<Rightarrow> connections \<Rightarrow> connections" where
  "to_phase c p s = s\<lparr>cn_phase := (cn_phase s)(c := p)\<rparr>"

inductive daemon_step :: "nat \<Rightarrow> connections \<Rightarrow> connections \<Rightarrow> bool" for most where
  accept: "cn_phase s c = Unseen \<Longrightarrow> card (busy s) < most \<Longrightarrow> daemon_step most s (to_phase c Started s)"
| reject: "cn_phase s c = Unseen \<Longrightarrow> \<not> card (busy s) < most \<Longrightarrow> daemon_step most s (to_phase c Gone (s\<lparr>cn_closed := insert c (cn_closed s)\<rparr>))"
| track: "cn_phase s c = Started \<Longrightarrow> \<not> cn_down s \<Longrightarrow> daemon_step most s (to_phase c Serving s)"
| late: "cn_phase s c = Started \<Longrightarrow> cn_down s \<Longrightarrow> daemon_step most s (to_phase c Leaving s)"
| untrack: "cn_phase s c = Serving \<Longrightarrow> daemon_step most s (to_phase c Leaving s)"
| close: "cn_phase s c = Leaving \<Longrightarrow> daemon_step most s (to_phase c Closing (s\<lparr>cn_closed := insert c (cn_closed s)\<rparr>))"
| release: "cn_phase s c = Closing \<Longrightarrow> daemon_step most s (to_phase c Gone s)"
| shutdown: "daemon_step most s (s\<lparr>cn_down := True, cn_closed := cn_closed s \<union> {c. cn_phase s c = Serving}\<rparr>)"

inductive daemon_reach :: "nat \<Rightarrow> connections \<Rightarrow> bool" for most where
  start: "daemon_reach most \<lparr>cn_phase = (\<lambda>c. Unseen), cn_closed = {}, cn_down = False\<rparr>"
| step: "daemon_reach most s \<Longrightarrow> daemon_step most s s' \<Longrightarrow> daemon_reach most s'"

definition connections_ok :: "nat \<Rightarrow> connections \<Rightarrow> bool" where
  "connections_ok most s \<longleftrightarrow> finite (busy s) \<and> card (busy s) \<le> most \<and>
     (\<forall>c. cn_phase s c \<in> {Closing, Gone} \<longrightarrow> c \<in> cn_closed s) \<and> (cn_down s \<longrightarrow> (\<forall>c. cn_phase s c = Serving \<longrightarrow> c \<in> cn_closed s))"

lemma busy_to_phase:
  "busy (to_phase c p s) = (if p \<in> {Started, Serving, Leaving, Closing} then insert c (busy s) else busy s - {c})"
  by (auto simp: busy_def to_phase_def)

lemma busy_fields [simp]: "busy (s\<lparr>cn_closed := C\<rparr>) = busy s" "busy (s\<lparr>cn_down := d\<rparr>) = busy s"
  by (simp_all add: busy_def)

lemma busy_same: "cn_phase s c \<in> {Started, Serving, Leaving, Closing} \<Longrightarrow> insert c (busy s) = busy s"
  by (auto simp: busy_def)

lemma to_phase_fields [simp]:
  "cn_phase (to_phase c p s) = (cn_phase s)(c := p)" "cn_closed (to_phase c p s) = cn_closed s" "cn_down (to_phase c p s) = cn_down s"
  by (simp_all add: to_phase_def)

lemma busy_not: "cn_phase s c \<in> {Unseen, Gone} \<Longrightarrow> c \<notin> busy s"
  by (auto simp: busy_def)

lemma connections_step: "daemon_step most s s' \<Longrightarrow> connections_ok most s \<Longrightarrow> connections_ok most s'"
proof (induction rule: daemon_step.induct)
  case (accept s c)
  then show ?case using busy_not [of s c] by (auto simp: connections_ok_def busy_to_phase)
next
  case (release s c)
  have "card (busy s - {c}) \<le> card (busy s)" by (simp add: card_Diff1_le)
  with release show ?case by (auto simp: connections_ok_def busy_to_phase)
next
  case (reject s c)
  then have "busy s - {c} = busy s" using busy_not [of s c] by auto
  with reject show ?case by (auto simp: connections_ok_def busy_to_phase)
qed (auto simp: connections_ok_def busy_to_phase busy_same)

text \<open>
  C36: The daemon never serves more connections at once than it is configured for, and leaks none: a handler that
  ended has closed its connection, and once the daemon is shutting down every connection that is being served is
  closed, also one that was accepted while the shutdown began, so that its handler can return. In every state all
  connections seen are closed or have a handler that will close them.
\<close>

theorem daemon_connections:
  assumes "daemon_reach most s"
  shows "finite (busy s) \<and> card (busy s) \<le> most \<and> {c. cn_phase s c \<noteq> Unseen} \<subseteq> busy s \<union> cn_closed s \<and>
    (if cn_down s then {c. cn_phase s c = Serving} \<subseteq> cn_closed s else True) \<and> {c. cn_phase s c = Gone} \<subseteq> cn_closed s"
proof -
  have "connections_ok most s"
    using assms
  proof induction
    case start
    show ?case by (simp add: connections_ok_def busy_def)
  next
    case (step s s')
    show ?case by (rule connections_step [OF step.hyps(2) step.IH])
  qed
  moreover have "cn_phase s c = Unseen \<or> c \<in> busy s \<or> cn_phase s c = Gone" for c
    by (cases "cn_phase s c") (simp_all add: busy_def)
  ultimately show ?thesis by (auto simp: connections_ok_def)
qed

theorem daemon_connections_witness:
  "\<exists>s. daemon_reach 1 s \<and> cn_phase s 0 = Leaving \<and> cn_phase s 1 = Gone \<and> cn_down s \<and> finite (busy s) \<and> card (busy s) \<le> 1 \<and>
    1 \<in> cn_closed s"
proof -
  let ?a = "\<lparr>cn_phase = (\<lambda>c. Unseen), cn_closed = {}, cn_down = False\<rparr>" and ?b = "to_phase 0 Started"
  let ?s1 = "?b ?a"
  let ?s2 = "to_phase 1 Gone (?s1\<lparr>cn_closed := insert 1 (cn_closed ?s1)\<rparr>)"
  let ?s3 = "?s2\<lparr>cn_down := True, cn_closed := cn_closed ?s2 \<union> {c. cn_phase ?s2 c = Serving}\<rparr>"
  let ?s4 = "to_phase 0 Leaving ?s3"
  have none: "busy ?a = {}" by (simp add: busy_def)
  have one: "busy ?s1 = {0}" by (simp add: busy_to_phase none)
  have "daemon_reach 1 ?s1" by (rule daemon_reach.step [OF daemon_reach.start daemon_step.accept]) (simp_all add: none)
  then have "daemon_reach 1 ?s2" by (rule daemon_reach.step, intro daemon_step.reject) (simp_all add: one)
  then have "daemon_reach 1 ?s3" by (rule daemon_reach.step [OF _ daemon_step.shutdown])
  then have reach: "daemon_reach 1 ?s4" by (rule daemon_reach.step, intro daemon_step.late) simp_all
  moreover have "cn_phase ?s4 0 = Leaving \<and> cn_phase ?s4 1 = Gone \<and> cn_down ?s4" by simp
  ultimately show ?thesis using daemon_connections [OF reach] by (intro exI [of _ ?s4]) auto
qed

end
