(* ===== verification/FurrowAccess.thy ===== *)
theory FurrowAccess
  imports FurrowDaemon
begin

text \<open>
  Who may reach a mirror over the network: what a client dials is what the daemon reads, and a token opens the
  directory of a run that the manager has registered with it, and nothing else.
\<close>

section \<open>Requests\<close>

lemma first_line_append: "CHR 0x0A \<notin> set s \<Longrightarrow> first_line (s @ CHR 0x0A # rest) = s"
  by (induction s) (auto simp: first_line_def)

lemma split_space_word: "CHR '' '' \<notin> set s \<Longrightarrow> split_space cur (s @ CHR '' '' # t) = (cur @ s) # split_space [] t"
  by (induction s arbitrary: cur) auto

lemma split_space_last: "CHR '' '' \<notin> set s \<Longrightarrow> split_space cur s = [cur @ s]"
  by (induction s arbitrary: cur) auto

lemma clean_word_set: "clean_word s \<Longrightarrow> CHR '' '' \<notin> set s \<and> CHR 0x0A \<notin> set s"
  by (auto simp: clean_word_def list_all_iff)

lemma dial_request:
  assumes "dial genv splits args = Inr d"
  shows "dl_request d = ''AUTH '' @ genv ''FURROW_DIAL_TOKEN'' @ '' '' @ last args @ [CHR 0x0A]" "clean_word (genv ''FURROW_DIAL_TOKEN'')"
    "clean_word (last args)" "genv ''FURROW_DIAL_TOKEN'' \<noteq> []"
  using assms by (auto simp: dial_def Let_def split: if_splits)

text \<open>
  C35: What the shim dials is what the daemon reads. The daemon takes from a dialled connection exactly the token of
  the environment and the namespace that furrow gave, and the rest of the stream is furrow's; it refuses only an
  empty namespace, which the shim lets pass, and requests of more than 512 bytes.
\<close>

theorem dial_roundtrip:
  assumes "dial genv splits args = Inr d"
  shows "read_auth (dl_request d @ rest) =
      (if last args = [] then None else if length (dl_request d) > 512 then None else Some (genv ''FURROW_DIAL_TOKEN'', last args)) \<and>
    drop (length (first_line (dl_request d @ rest)) + 1) (dl_request d @ rest) = rest"
proof -
  let ?t = "genv ''FURROW_DIAL_TOKEN''" and ?n = "last args"
  let ?line = "''AUTH '' @ ?t @ '' '' @ ?n"
  note d = dial_request [OF assms] and t = clean_word_set [OF dial_request(2) [OF assms]] and n = clean_word_set [OF dial_request(3) [OF assms]]
  have req: "dl_request d @ rest = ?line @ CHR 0x0A # rest" by (simp add: d(1))
  have line: "first_line (dl_request d @ rest) = ?line" unfolding req by (rule first_line_append) (use t n in auto)
  have parts: "split_space [] ?line = [''AUTH'', ?t, ?n]"
    using split_space_word [of "''AUTH''" "[]" "?t @ '' '' @ ?n"] split_space_word [of ?t "[]" ?n] split_space_last [of ?n "[]"] t n by simp
  have len: "length (dl_request d) = length ?line + 1" by (simp add: d(1))
  have "read_auth (dl_request d @ rest) = (if length ?line + 1 > 512 then None else if ?n \<noteq> [] then Some (?t, ?n) else None)"
    unfolding read_auth_def Let_def line parts using d(4) by (simp add: d(1))
  moreover have "drop (length ?line + 1) (dl_request d @ rest) = rest" unfolding req by simp
  ultimately show ?thesis using line len by auto
qed

definition demo_dial_env :: getenv where
  "demo_dial_env k = (if k = ''FURROW_DIAL_TOKEN'' then ''t1'' else if k = ''FURROW_DIAL_ADDR'' then ''h:1'' else [])"

theorem dial_roundtrip_witness:
  "\<exists>d. dial demo_dial_env (\<lambda>a. True) [''x'', ''ns''] = Inr d \<and> read_auth (dl_request d @ ''push'') = Some (''t1'', ''ns'')"
proof -
  have "\<exists>d. dial demo_dial_env (\<lambda>a. True) [''x'', ''ns''] = Inr d \<and> dl_request d = ''AUTH t1 ns'' @ [CHR 0x0A]"
    by (simp add: dial_def demo_dial_env_def clean_word_def)
  then obtain d where d: "dial demo_dial_env (\<lambda>a. True) [''x'', ''ns''] = Inr d" "dl_request d = ''AUTH t1 ns'' @ [CHR 0x0A]" by blast
  from dial_roundtrip [OF d(1), of "''push''"] d(2) have "read_auth (dl_request d @ ''push'') = Some (demo_dial_env ''FURROW_DIAL_TOKEN'', ''ns'')"
    by simp
  with d(1) show ?thesis by (intro exI [of _ d]) (simp add: demo_dial_env_def)
qed

section \<open>Access\<close>

lemma lookup_entry_mem:
  assumes "lookup_entry (Some rows) token = Some row"
  shows "\<exists>run. (run, row) \<in> set rows \<and> rr_token row = token"
proof -
  have "foldl (\<lambda>found (run, row). if rr_token row = token then Some row else found) acc rows = Some row \<Longrightarrow>
      acc = Some row \<or> (\<exists>run. (run, row) \<in> set rows \<and> rr_token row = token)" for acc
    by (induction rows arbitrary: acc) (auto split: if_splits, fastforce+)
  from this [of None] assms show ?thesis by (simp add: lookup_entry_def)
qed

lemma namespace_component: "valid_namespace ns \<Longrightarrow> plain_component ns"
  by (auto simp: valid_namespace_def plain_component_def component_def list_all_iff Let_def)

text \<open>
  C34: A token opens its own run. Whenever the daemon hands a connection to furrow, given the registry as the
  manager keeps it, the token the connection opened with is that of a run that is registered now, and furrow
  serves the directory of that run, directly below the remotes root; the namespace it is told is one path
  component that is no option. So neither a stranger nor the owner of a run that was swept gets anything, unless
  the same token was drawn twice.
\<close>

theorem daemon_serves_own:
  assumes "furrow_reach env f rows w" and "is_abs (fw_remotes_root f)"
    and "serve cfg (Some (map (\<lambda>(run, e). (run, narrow e)) rows)) input = Some child"
  shows "\<exists>run e token ns. read_auth input = Some (token, ns) \<and> map_of rows run = Some e \<and> fe_token e = token \<and> token \<noteq> [] \<and>
    path_parts (rc_data_dir child) = path_parts (fw_remotes_root f) @ [sanitize_namespace run] \<and>
    rc_args child = [''__remote'', ns] \<and> plain_component ns \<and> hd ns \<noteq> CHR ''-''"
proof -
  from assms(3) obtain token ns row where a: "read_auth input = Some (token, ns)" and l: "lookup_entry (Some (map (\<lambda>(run, e). (run, narrow e)) rows)) token = Some row"
    and n: "valid_namespace ns" and c: "child = run_child cfg row ns (drop (length (first_line input) + 1) input)"
    by (auto simp: serve_def split: option.splits if_splits)
  from lookup_entry_mem [OF l] obtain run e where e: "(run, e) \<in> set rows" "row = narrow e" "rr_token row = token" by auto
  with reach_distinct [OF assms(1)] have m: "map_of rows run = Some e" by simp
  with reach_own [OF assms(1)] have own: "own_row f run e" by (simp add: rows_own_def)
  have parts: "path_parts (fe_store e) = path_parts (fw_remotes_root f) @ [sanitize_namespace run]"
    using own joined_parts [OF assms(2) namespace_plain] by (simp add: own_row_def)
  moreover have "path_parts [] = []" by code_simp
  ultimately have "fe_store e \<noteq> []" by auto
  with c e(2) have "rc_data_dir child = fe_store e" "rc_args child = [''__remote'', ns]" by (simp_all add: run_child_def narrow_def)
  moreover have "token \<noteq> []" using a by (auto simp: read_auth_def Let_def split: if_splits list.splits)
  moreover have "fe_token e = token" using e(2,3) by (simp add: narrow_def)
  moreover have "hd ns \<noteq> CHR ''-''" using n by (simp add: valid_namespace_def)
  ultimately show ?thesis using a m parts namespace_component [OF n] by metis
qed

text \<open>The run that was attached on the small disk is served; a wrong token is refused.\<close>

definition demo_daemon :: daemon_config where
  "demo_daemon = \<lparr>dc_addr = '':8802'', dc_root = ''/r'', dc_cert = [], dc_key = [], dc_bin = ''furrow'', dc_max = 1\<rparr>"

theorem daemon_serves_own_witness:
  "\<exists>rows w child. furrow_reach demo_furrow_env demo_furrow rows w \<and>
     serve demo_daemon (Some (map (\<lambda>(run, e). (run, narrow e)) rows)) (''AUTH t ns'' @ [CHR 0x0A]) = Some child \<and>
     path_parts (rc_data_dir child) = [''r'', ''a-b''] \<and>
     serve demo_daemon (Some (map (\<lambda>(run, e). (run, narrow e)) rows)) (''AUTH u ns'' @ [CHR 0x0A]) = None"
proof -
  let ?rows = "[(''a/b'', (snd (demo_row ''a/b'' ''/r/a-b'' 100))\<lparr>fe_namespace := ''a-b'', fe_created := 100\<rparr>)]"
  let ?file = "Some (map (\<lambda>(run, e). (run, narrow e)) ?rows)"
  from demo_attach obtain w where reach: "furrow_reach demo_furrow_env demo_furrow ?rows w"
    using furrow_reach.attach [OF furrow_reach.fresh] by blast
  have "serve demo_daemon ?file (''AUTH t ns'' @ [CHR 0x0A]) \<noteq> None" by code_simp
  then obtain child where c: "serve demo_daemon ?file (''AUTH t ns'' @ [CHR 0x0A]) = Some child" by blast
  have root: "is_abs (fw_remotes_root demo_furrow)" "path_parts (fw_remotes_root demo_furrow) = [''r'']" by code_simp+
  have name: "sanitize_namespace ''a/b'' = ''a-b''" by code_simp
  have "serve demo_daemon ?file (''AUTH u ns'' @ [CHR 0x0A]) = None" by code_simp
  moreover from daemon_serves_own [OF reach root(1) c] root(2) name have "path_parts (rc_data_dir child) = [''r'', ''a-b'']"
    by (auto split: if_splits)
  ultimately show ?thesis using reach c by blast
qed

end
