(* ===== verification/Pro.thy ===== *)
theory Pro
  imports IssueBuild Paths
begin

text \<open>
  The pro engine, \<open>internal/pro\<close>: a prebuilt coding engine that runs as a node of its own. \<open>pro.go\<close> finds,
  configures and supervises its binary, \<open>adapter.go\<close> lets it code one issue of a build as an external coder.
  Files, the environment, number parsing and the calls to the engine are parameters; notes and log messages are
  left out.
\<close>

section \<open>The surroundings\<close>

text \<open>
  Whether a file can be started, the path of the running executable, the parent's environment, the names of
  operating system and architecture, \<open>strconv.ParseFloat\<close>, and \<open>%.2f\<close>.
\<close>

record 'x pro_env =
  px_host :: "'x host"
  px_runnable :: "string \<Rightarrow> 'x world \<Rightarrow> bool"
  px_executable :: "string option"
  px_environ :: "string list"
  px_os :: string
  px_arch :: string
  px_number :: "string \<Rightarrow> gval option"
  px_cents :: "gval \<Rightarrow> string"

definition pro_or :: "getenv \<Rightarrow> string \<Rightarrow> string \<Rightarrow> string" where
  "pro_or genv key dflt = (if genv key \<noteq> [] then genv key else dflt)"

section \<open>Switch, binary and environment\<close>

definition pro_enabled :: "getenv \<Rightarrow> bool" where
  "pro_enabled genv \<longleftrightarrow> to_lower (genv ''SWE_PRO_ENGINE'') \<in> set [''1'', ''true'', ''yes'', ''on'']"

definition pro_default_bin :: string where
  "pro_default_bin = ''/usr/local/bin/swe-pro''"

definition sibling_names_for :: "string \<Rightarrow> string \<Rightarrow> string list" where
  "sibling_names_for os arch =
     (let platform = ''swe-pro-'' @ os @ ''-'' @ arch
      in if os = ''windows'' then [platform @ ''.exe'', ''swe-pro.exe'', platform, ''swe-pro''] else [platform, ''swe-pro''])"

text \<open>The candidates beside the executable; an unusable one that is there is named when none can be used.\<close>

fun pro_sibling :: "'x pro_env \<Rightarrow> string \<Rightarrow> string \<Rightarrow> string list \<Rightarrow> 'x world \<Rightarrow> string \<times> bool" where
  "pro_sibling env dir unusable [] w = (if unusable \<noteq> [] then (unusable, False) else (pro_default_bin, False))"
| "pro_sibling env dir unusable (name # names) w =
     (let sibling = path_join [dir, name]
      in if px_runnable env sibling w then (sibling, True)
         else pro_sibling env dir (if unusable = [] \<and> path_exists (px_host env) sibling w then sibling else unusable) names w)"

definition resolve_pro_bin :: "'x pro_env \<Rightarrow> 'x world \<Rightarrow> string \<times> bool" where
  "resolve_pro_bin env w =
     (let path = env_var (px_host env) ''SWE_PRO_BIN''
      in if path \<noteq> [] then (path, px_runnable env path w)
         else if px_runnable env pro_default_bin w then (pro_default_bin, True)
         else case px_executable env of None \<Rightarrow> (pro_default_bin, False)
       | Some exe \<Rightarrow> pro_sibling env (path_dir exe) [] (sibling_names_for (px_os env) (px_arch env)) w)"

definition pro_available :: "'x pro_env \<Rightarrow> 'x world \<Rightarrow> bool" where
  "pro_available env w \<longleftrightarrow> pro_enabled (env_var (px_host env)) \<and> snd (resolve_pro_bin env w)"

definition pro_node_id :: "getenv \<Rightarrow> string" where
  "pro_node_id genv = pro_or genv ''SWE_PRO_NODE_ID'' ''swe-pro''"

definition pro_port :: "getenv \<Rightarrow> string" where
  "pro_port genv = pro_or genv ''SWE_PRO_PORT'' ''8801''"

text \<open>The environment of the engine; of two entries of a name the last one counts.\<close>

definition child_env :: "getenv \<Rightarrow> string list \<Rightarrow> string \<Rightarrow> string \<Rightarrow> string list" where
  "child_env genv base server token =
     base @ [''AGENTFIELD_URL='' @ server, ''AGENT_NODE_ID='' @ pro_node_id genv, ''AGENT_LISTEN_ADDR=:'' @ pro_port genv] @
     (if token \<noteq> [] then [''AGENTFIELD_TOKEN='' @ token] else []) @
     (if genv ''SWE_PRO_PUBLIC_URL'' \<noteq> [] then [''AGENT_PUBLIC_URL='' @ genv ''SWE_PRO_PUBLIC_URL''] else [])"

text \<open>\<open>Start\<close>: the binary that is supervised, if any; an explicit one has no alternative.\<close>

definition pro_start :: "'x pro_env \<Rightarrow> string \<Rightarrow> 'x world \<Rightarrow> string option" where
  "pro_start env bin w =
     (if bin = [] then (case resolve_pro_bin env w of (path, ok) \<Rightarrow> if ok then Some path else None)
      else if px_runnable env bin w then Some bin else None)"

text \<open>
  The loop, over the runs of the engine: how long each was up, and whether the node was shut down before it ended
  or during the wait after it. The result lists the waits, in nanoseconds, and tells whether it gave up.
\<close>

fun pro_supervise :: "nat \<Rightarrow> int \<Rightarrow> (int \<times> bool \<times> bool) list \<Rightarrow> int list \<times> bool" where
  "pro_supervise crashes backoff [] = ([], False)"
| "pro_supervise crashes backoff ((uptime, down_before, down_after) # runs) =
     (let healthy = (uptime \<ge> 60000000000); n = (if healthy then 0 else crashes + 1); wait = (if healthy then 1000000000 else backoff)
      in if down_before then ([], False)
         else if \<not> healthy \<and> n \<ge> 10 then ([], True)
         else if down_after then ([wait], False)
         else (case pro_supervise n (if wait * 2 > 30000000000 then 30000000000 else wait * 2) runs of
             (later, gave_up) \<Rightarrow> (wait # later, gave_up)))"

text \<open>
  \<open>pipeLines\<close>: the engine's output, line by line, each without a carriage return at its end; a line of a
  mebibyte or more ends the copying.
\<close>

definition drop_cr :: "string \<Rightarrow> string" where
  "drop_cr s = (if s \<noteq> [] \<and> last s = CHR 0x0D then butlast s else s)"

definition pipe_lines :: "string \<Rightarrow> string list" where
  "pipe_lines text =
     (let parts = split_lines [] text; scanned = (if last parts = [] then butlast parts else parts)
      in map (\<lambda>l. ''[pro-engine] '' @ drop_cr l) (takeWhile (\<lambda>l. length l < 1048576) scanned))"

section \<open>The adapter\<close>

definition pro_strings :: "gval \<Rightarrow> string list" where
  "pro_strings v = (case v of
     GStrs ss \<Rightarrow> ss
   | GList vs \<Rightarrow> filter (\<lambda>s. s \<noteq> []) (map as_string vs)
   | _ \<Rightarrow> [])"

definition goal_bullet :: "string \<Rightarrow> string" where
  "goal_bullet s = ''- '' @ s @ [CHR 0x0A]"

definition compose_goal :: "gmap \<Rightarrow> string" where
  "compose_goal issue =
     (let nl = [CHR 0x0A];
          title = (if as_string (mget issue ''title'') \<noteq> [] then as_string (mget issue ''title'') else as_string (mget issue ''name''));
          d = as_string (mget issue ''description''); ac = pro_strings (mget issue ''acceptance_criteria'');
          fc = pro_strings (mget issue ''files_to_create''); fm = pro_strings (mget issue ''files_to_modify'');
          ts = as_string (mget issue ''testing_strategy'')
      in trim_right CHR 0x0A
           ((if title \<noteq> [] then title @ nl @ nl else []) @
            (if d \<noteq> [] then d @ nl else []) @
            (if ac \<noteq> [] then nl @ ''Acceptance criteria:'' @ nl @ concat (map goal_bullet ac) else []) @
            (if fc \<noteq> [] then nl @ ''Files to create: '' @ join '', '' fc @ nl else []) @
            (if fm \<noteq> [] then ''Files to modify: '' @ join '', '' fm @ nl else []) @
            (if ts \<noteq> [] then nl @ ''Testing strategy: '' @ ts @ nl else [])))"

definition engine_outcome :: "string \<Rightarrow> string" where
  "engine_outcome status =
     (if status = ''pass'' then out_completed else if status = ''budget-exhausted'' then out_failed_unrecoverable else ''failed_retryable'')"

definition engine_summary :: "'x pro_env \<Rightarrow> gmap \<Rightarrow> string" where
  "engine_summary env res =
     ''pro engine: status='' @ as_string (mget res ''status'') @
     (if as_string (mget res ''run_id'') \<noteq> [] then '' run='' @ as_string (mget res ''run_id'') else []) @
     (case mget res ''cost_usd'' of GFloat m e \<Rightarrow> '' cost=$'' @ px_cents env (GFloat m e) | _ \<Rightarrow> [])"

definition map_engine_result :: "'x pro_env \<Rightarrow> gmap \<Rightarrow> gmap" where
  "map_engine_result env res =
     (let status = as_string (mget res ''status''); reason = as_string (mget res ''reason''); outcome = engine_outcome status;
          summary = engine_summary env res
      in [(''outcome'', GStr outcome), (''result_summary'', GStr summary)] @
         (if outcome \<noteq> out_completed
          then [(''error_message'', GStr (''pro engine reported status '' @ status @ (if reason \<noteq> [] then '': '' @ reason else []))),
                (''error_context'', GStr summary)]
          else []))"

definition j_pro_input :: jtype where
  "j_pro_input = JObj [fld ''issue'' JDict, fld ''repo_path'' JString]"

definition pro_overrides :: "getenv \<Rightarrow> gmap" where
  "pro_overrides genv =
     concat (map (\<lambda>(var, kw). if genv var \<noteq> [] then [(kw, GStr (genv var))] else [])
       [(''SWE_PRO_MODELS_HIGH'', ''high''), (''SWE_PRO_MODELS_LOW'', ''low''), (''SWE_PRO_VARIANT'', ''variant'')])"

definition pro_cost :: "'x pro_env \<Rightarrow> string + gmap" where
  "pro_cost env =
     (let v = env_var (px_host env) ''SWE_PRO_MAX_COST''
      in if v = [] then Inr []
         else case px_number env v of
             None \<Rightarrow> Inl (''pro_execute: SWE_PRO_MAX_COST='' @ quoted v @ '' is not a number'')
           | Some cost \<Rightarrow> Inr [(''max_cost'', cost)])"

definition pro_execute :: "'x pro_env \<Rightarrow> gmap \<Rightarrow> 'x world \<Rightarrow> (go_error + gmap) \<times> 'x world" where
  "pro_execute env input w =
     (let (m, ok) = map_to_struct j_pro_input input; issue = as_map (mget m ''issue''); repo = as_string (mget m ''repo_path'');
          genv = env_var (px_host env)
      in if \<not> ok then (Inl (Plain ''afx.Bind: json''), w)
         else if issue = [] then (Inl (Plain ''pro_execute: issue is required''), w)
         else if repo = [] then (Inl (Plain ''pro_execute: repo_path is required''), w)
         else case pro_cost env of Inl e \<Rightarrow> (Inl (Plain e), w)
       | Inr cost \<Rightarrow>
           (case new_call_fn (app_call (px_host env)) (pro_node_id genv @ ''.code_task'')
                   ([(''goal'', GStr (compose_goal issue)), (''dir'', GStr repo)] @ pro_overrides genv @ cost) w of
              (Inl e, w1) \<Rightarrow> (Inl e, w1) | (Inr res, w1) \<Rightarrow> (Inr (map_engine_result env res), w1)))"

text \<open>
  The engine as the external coder of a build: \<open>execute\<close> hands over the issue and the repository of the whole
  run, as it does with every coder.
\<close>

definition pro_coder :: "'x pro_env \<Rightarrow> 'x execute_fn" where
  "pro_coder env issue s w =
     (case pro_execute env [(''issue'', GMap issue), (''repo_path'', GStr (d_repo_path s))] w of
        (Inl e, w1) \<Rightarrow> (Inl e, w1) | (Inr m, w1) \<Rightarrow> (Inr (Some m), w1))"

end
