(* ===== verification/ProCorrect.thy ===== *)
theory ProCorrect
  imports Pro IssueCorrect WorktreeCorrect HostDemo PlainKeys
begin

text \<open>
  What becomes of issues that the pro engine codes: an external coder whose replies name neither a branch nor
  files leaves nothing for the merge gate.
\<close>

section \<open>External coders that name no branch\<close>

text \<open>
  The contract of such a coder. \<open>passed\<close> is what holds of the summary of every reply that calls an issue of a
  run in the given state completed.
\<close>

definition unmarked :: "(string \<Rightarrow> bool) \<Rightarrow> issue_result \<Rightarrow> bool" where
  "unmarked passed r \<longleftrightarrow> r_branch r = [] \<and> r_files r = [] \<and> (r_outcome r = out_completed \<longrightarrow> passed (r_summary r))"

locale branchless_coder =
  fixes exec :: "'x execute_fn" and passed :: "dag_state \<Rightarrow> string \<Rightarrow> bool"
  assumes replies: "exec issue s w = (Inr res, w') \<Longrightarrow>
    \<exists>m. res = Some m \<and> get_str m ''branch_name'' [] = [] \<and> strs_of (mget m ''files_changed'') = [] \<and>
      (get_str m ''outcome'' ''completed'' = out_completed \<longrightarrow> passed s (get_str m ''result_summary'' []))"
begin

lemma executed_unmarked: "exec issue s w = (Inr res, w') \<Longrightarrow> unmarked (passed s) (executed_result name attempt res)"
  by (drule replies) (auto simp: unmarked_def executed_result_def)

lemma attempts_unmarked: "execute_attempts eng exec s name issue n attempt cur err w = (Inr r, w') \<Longrightarrow> unmarked (passed s) r"
proof (induction n arbitrary: attempt cur err w)
  case 0
  then show ?case by (auto simp: unmarked_def zero_result_def)
next
  case (Suc n)
  then show ?case
    using executed_unmarked
    by (auto simp: unmarked_def zero_result_def split: prod.splits sum.splits if_splits)
qed

lemma attempt_unmarked:
  "e_execute eng = Some exec \<Longrightarrow> attempt_issue eng s name issue w = (Inr r, w') \<Longrightarrow> unmarked (passed s) r"
  by (auto simp: attempt_issue_def run_execute_fn_def dest: attempts_unmarked)

lemma advice_unmarked: "follow_advice name k d res st = Finished (Inr r) \<Longrightarrow> unmarked (passed s) res \<Longrightarrow> unmarked (passed s) r"
  by (auto simp: follow_advice_def Let_def accept_with_debt_def split_issue_def escalate_issue_def unmarked_def split: if_splits)

lemma round_unmarked:
  assumes "e_execute eng = Some exec" and "advisor_round eng s original k st w = (Finished (Inr r), w')"
  shows "unmarked (passed s) r"
proof -
  obtain ar w1 where a: "attempt_issue eng s (issue_name original) (w_issue st) w = (ar, w1)" by force
  from assms(2) a obtain res where res: "ar = Inr res" by (cases ar) (auto simp: advisor_round_def Let_def)
  from attempt_unmarked [OF assms(1)] a res have "unmarked (passed s) res" by blast
  with assms(2) a res show ?thesis
    by (auto simp: advisor_round_def Let_def unmarked_def [of _ "res\<lparr>r_adaptations := _, r_debt := _, r_final := _\<rparr>"] dest: advice_unmarked
        split: option.splits if_splits prod.splits sum.splits)
      (auto simp: unmarked_def)
qed

lemma rounds_unmarked:
  "e_execute eng = Some exec \<Longrightarrow> advisor_rounds eng s original n k st prev w = (Inr r, w') \<Longrightarrow>
   (\<And>p. prev = Some p \<Longrightarrow> unmarked (passed s) p) \<Longrightarrow> unmarked (passed s) r"
proof (induction n arbitrary: k st prev w)
  case 0
  then show ?case by (cases prev) (auto simp: give_up_def unmarked_def zero_result_def)
next
  case (Suc n)
  obtain e w1 where e: "advisor_round eng s original k st w = (e, w1)" by force
  show ?case
  proof (cases e)
    case (Finished fr)
    with e Suc.prems show ?thesis by (auto dest: round_unmarked)
  next
    case (Gave_up res)
    with round_gave_up [OF e [unfolded Gave_up]] attempt_unmarked [OF Suc.prems(1)] Suc.prems e show ?thesis
      by (auto simp: give_up_def unmarked_def)
  next
    case (Again res st')
    with round_again [OF e [unfolded Again]] attempt_unmarked [OF Suc.prems(1)] have "unmarked (passed s) res" by blast
    with Suc e Again show ?thesis by auto
  qed
qed

lemma settled_unmarked:
  assumes "e_execute eng = Some exec" and "run_issues eng s issues w = (ocs, w')" and "oc \<in> set ocs"
  shows "unmarked (passed s) (settle oc)"
proof -
  obtain issue r where oc: "oc = (issue, r)" by force
  show ?thesis
  proof (cases r)
    case (Inr res)
    with run_issues_from [OF assms(2)] assms(3) oc obtain w1 w2 where "execute_single_issue eng s issue w1 = (Inr res, w2)" by blast
    then have "unmarked (passed s) res" unfolding execute_single_issue_def by (rule rounds_unmarked [OF assms(1)]) simp
    with oc Inr show ?thesis by (simp add: settle_def unmarked_def)
  qed (simp add: oc settle_def unmarked_def zero_result_def)
qed

lemma level_unmarked:
  assumes "e_execute eng = Some exec" and "execute_level eng s active level w = (l, w')"
  shows "list_all (unmarked (passed s)) (l_completed l)"
proof -
  obtain ocs w1 where r: "run_issues eng s active w = (ocs, w1)" by force
  with assms(2) have l: "l = foldl file_result \<lparr>l_index = level, l_completed = [], l_failed = [], l_skipped = []\<rparr> (map settle ocs)"
    by (simp add: execute_level_def)
  have "list_all (unmarked (passed s)) (l_completed (foldl file_result l rs))" if "list_all (unmarked (passed s)) (l_completed l)"
    "list_all (unmarked (passed s)) rs" for l :: level_result and rs
    using that by (induction rs arbitrary: l) (auto simp: file_result_def)
  moreover have "list_all (unmarked (passed s)) (map settle ocs)" using settled_unmarked [OF assms(1) r] by (auto simp: list_all_iff)
  ultimately show ?thesis unfolding l by simp
qed

text \<open>Nothing of such a level is merged.\<close>

lemma level_unmerged:
  assumes "e_execute eng = Some exec" and "execute_level eng s active level w = (l, w')" and "d_manifest t = None"
  shows "merge_level_branches eng call t l by_name conflicts w1 = (Inr None, t, w1)"
proof -
  have "filter (\<lambda>r. r_branch r \<noteq> []) (l_completed l) = []"
    using level_unmarked [OF assms(1,2)] by (auto simp: list_all_iff unmarked_def filter_empty_conv)
  with assms(3) show ?thesis by (simp add: merge_level_branches_def)
qed

end

section \<open>The engine as coder\<close>

text \<open>The engine was asked to code some issue in the repository of the run, and its reply, which has the given summary, says that it passed.\<close>

definition engine_passed :: "'x pro_env \<Rightarrow> dag_state \<Rightarrow> string \<Rightarrow> bool" where
  "engine_passed env s summary \<longleftrightarrow> (\<exists>issue cost w1 reply w2.
     new_call_fn (app_call (px_host env)) (pro_node_id (env_var (px_host env)) @ ''.code_task'')
       ([(''goal'', GStr (compose_goal (json_map issue))), (''dir'', GStr (d_repo_path s))] @ pro_overrides (env_var (px_host env)) @ cost) w1
       = (Inr reply, w2) \<and>
     mget reply ''status'' = GStr ''pass'' \<and> summary = engine_summary env reply)"

lemma pro_input_bound: "map_to_struct j_pro_input [(''issue'', GMap issue), (''repo_path'', GStr repo)] =
    ([(''issue'', GMap (json_map issue)), (''repo_path'', GStr repo)], True)"
proof -
  have plain: "plain_keys [(''issue'', GMap issue), (''repo_path'', GStr repo)]"
    "list_all (\<lambda>x. to_lower (fst x) = fst x) [fld ''issue'' JDict, fld ''repo_path'' JString]"
    by (simp_all add: plain_keys_def to_lower_def fld_def)
  show ?thesis unfolding j_pro_input_def map_to_struct_plain [OF plain] by (simp add: fld_def decode.simps json_map_def)
qed

lemma coder_replies:
  assumes "pro_coder env issue s w = (Inr res, w')"
  obtains cost reply where "res = Some (map_engine_result env reply)"
    "new_call_fn (app_call (px_host env)) (pro_node_id (env_var (px_host env)) @ ''.code_task'')
       ([(''goal'', GStr (compose_goal (json_map issue))), (''dir'', GStr (d_repo_path s))] @ pro_overrides (env_var (px_host env)) @ cost) w
       = (Inr reply, w')"
  using assms
  by (auto simp: pro_coder_def pro_execute_def pro_input_bound mget_def lookup_def_def as_map_def as_string_def Let_def
      split: prod.splits sum.splits if_splits)

interpretation engine: branchless_coder "pro_coder env" "engine_passed env" for env :: "'x pro_env"
proof
  fix issue s and w w' :: "'x world" and res
  assume "pro_coder env issue s w = (Inr res, w')"
  then obtain cost reply where res: "res = Some (map_engine_result env reply)"
    and call: "new_call_fn (app_call (px_host env)) (pro_node_id (env_var (px_host env)) @ ''.code_task'')
       ([(''goal'', GStr (compose_goal (json_map issue))), (''dir'', GStr (d_repo_path s))] @ pro_overrides (env_var (px_host env)) @ cost) w
       = (Inr reply, w')" by (rule coder_replies)
  let ?m = "map_engine_result env reply"
  have "get_str ?m ''branch_name'' [] = []" "strs_of (mget ?m ''files_changed'') = []" "get_str ?m ''result_summary'' [] = engine_summary env reply"
    by (simp_all add: map_engine_result_def Let_def get_str_def mget_def lookup_def_def strs_of_def as_string_slice_def)
  moreover have "get_str ?m ''outcome'' ''completed'' = out_completed \<longrightarrow> mget reply ''status'' = GStr ''pass''"
    by (cases "mget reply ''status''")
      (auto simp: map_engine_result_def Let_def get_str_def mget_def lookup_def_def engine_outcome_def as_string_def split: if_splits)
  ultimately show "\<exists>m. res = Some m \<and> get_str m ''branch_name'' [] = [] \<and> strs_of (mget m ''files_changed'') = [] \<and>
      (get_str m ''outcome'' ''completed'' = out_completed \<longrightarrow> engine_passed env s (get_str m ''result_summary'' []))"
    using res call unfolding engine_passed_def by metis
qed

text \<open>
  C38: Issues coded by the pro engine are never merged. Whatever the engine and the issue advisor answer, every
  completed issue of a level has neither a branch nor changed files, so the merge gate of a run in one repository
  does nothing, although each issue was given a worktree and a branch of its own. An issue counts as completed
  without debt only when the engine, asked to code an issue in the repository of the run, replied that it passed, and the
  summary is of that reply; one that the advisor accepts with debt counts as completed too, without any such reply.
\<close>

theorem engine_level_unmerged:
  assumes "e_execute eng = Some (pro_coder env)" and "execute_level eng s active level w = (l, w')"
  shows "list_all (\<lambda>r. r_branch r = [] \<and> r_files r = [] \<and>
       (r_outcome r = out_completed \<longrightarrow> engine_passed env s (r_summary r))) (l_completed l) \<and>
     (d_manifest t = None \<longrightarrow> merge_level_branches eng call t l by_name conflicts w1 = (Inr None, t, w1))"
  using engine.level_unmarked [OF assms] engine.level_unmerged [OF assms] by (simp add: unmarked_def [abs_def])

section \<open>An engine that passes\<close>

definition demo_pro_env :: "unit pro_env" where
  "demo_pro_env =
     \<lparr>px_host = idle_host (\<lambda>target args w. (Inr [(''status'', GStr ''pass''), (''cost_usd'', GFloat 5 (-1))], w)),
      px_runnable = (\<lambda>p w. True), px_executable = None, px_environ = [], px_os = ''linux'', px_arch = ''amd64'',
      px_number = (\<lambda>s. None), px_cents = (\<lambda>v. ''0.50'')\<rparr>"

theorem engine_level_unmerged_witness:
  "\<exists>l w'. execute_level ((demo_engine stubborn_call)\<lparr>e_execute := Some (pro_coder demo_pro_env)\<rparr>) (zero_state\<lparr>d_repo_path := ''/r''\<rparr>) [login] 0 demo_world
      = (l, w') \<and>
    map r_summary (l_completed l) = [''pro engine: status=pass cost=$0.50''] \<and>
    engine_passed demo_pro_env (zero_state\<lparr>d_repo_path := ''/r''\<rparr>) ''pro engine: status=pass cost=$0.50'' \<and>
    merge_level_branches ((demo_engine stubborn_call)\<lparr>e_execute := Some (pro_coder demo_pro_env)\<rparr>) stubborn_call zero_state l [] [] w' = (Inr None, zero_state, w')"
proof -
  let ?eng = "(demo_engine stubborn_call)\<lparr>e_execute := Some (pro_coder demo_pro_env)\<rparr>"
  let ?run = "execute_level ?eng (zero_state\<lparr>d_repo_path := ''/r''\<rparr>) [login] 0 demo_world"
  have summary: "map (\<lambda>r. (r_outcome r, r_summary r)) (l_completed (fst ?run)) = [(out_completed, ''pro engine: status=pass cost=$0.50'')]" by code_simp
  obtain l w' where l: "?run = (l, w')" by force
  have e: "e_execute ?eng = Some (pro_coder demo_pro_env)" by simp
  have "d_manifest zero_state = None" by (simp add: zero_state_def)
  with engine_level_unmerged [OF e l] have "merge_level_branches ?eng stubborn_call zero_state l [] [] w' = (Inr None, zero_state, w')"
    and "list_all (\<lambda>r. r_outcome r = out_completed \<longrightarrow> engine_passed demo_pro_env (zero_state\<lparr>d_repo_path := ''/r''\<rparr>) (r_summary r)) (l_completed l)"
    by (auto simp: list_all_iff)
  with summary l show ?thesis by auto
qed

end
