(* ===== verification/Roles.thy ===== *)
theory Roles
  imports FastBuild HumanInput DagRun
begin

text \<open>
  The role reasoners that the coding loop and the gates call: \<open>internal/roles/coding\<close> (coder, QA, code reviewer, QA
  synthesizer) and \<open>internal/roles/advisor\<close> (retry advisor, issue advisor, replanner, verifier, fix generator, issue
  writer). Each binds its input, runs an agent and returns what the agent produced, or a fixed result of its own
  when it produced nothing. The agent is a parameter: a function of the role, of the input its prompt is built from
  and of the options, so the text of the prompts is not modelled. Notes and raw logs are left out.
\<close>

section \<open>Running an agent\<close>

record role_request =
  rq_role :: string
  rq_input :: gmap
  rq_provider :: string
  rq_model :: string
  rq_turns :: int
  rq_tools :: "string list"
  rq_permission :: string
  rq_cwd :: string

text \<open>
  The host; the harness with the value it decodes for the role; the language model behind the synthesizer, called with a model
  and the input, whose answer is no value when there is none or it is no JSON; whether that client talks to
  OpenRouter; how a value that is neither text nor a truth value prints; and what the ask-user loop needs.
\<close>

record 'x role_env =
  re_host :: "'x host"
  re_harness :: "role_request \<Rightarrow> 'x world \<Rightarrow> (go_error + harness_result option \<times> gmap) \<times> 'x world"
  re_ai :: "string \<Rightarrow> gmap \<Rightarrow> 'x world \<Rightarrow> (go_error + gval option) \<times> 'x world"
  re_openrouter :: bool
  re_text :: "gval \<Rightarrow> string"
  re_hitl :: "'x hitl_env"
  re_client :: "hax_client option"
  re_execution :: string
  re_server :: string

text \<open>\<open>harnessx.Run\<close>: the value, if the agent produced one that could be parsed, and the agent's result.\<close>

definition run_harness :: "'x role_env \<Rightarrow> role_request \<Rightarrow> 'x world \<Rightarrow> (go_error + gmap option \<times> harness_result option) \<times> 'x world" where
  "run_harness env rq w = (case re_harness env rq w of
     (Inl e, w1) \<Rightarrow> (Inl e, w1)
   | (Inr (res, v), w1) \<Rightarrow> (case check_fatal_harness_error res of
       Some e \<Rightarrow> (Inl e, w1)
     | None \<Rightarrow> (Inr (case res of None \<Rightarrow> None | Some h \<Rightarrow> if h_parsed h then Some v else None, res), w1)))"

definition agent_max_turns :: int where
  "agent_max_turns = 150"

definition role_request_of :: "string \<Rightarrow> gmap \<Rightarrow> string \<Rightarrow> string \<Rightarrow> string list \<Rightarrow> string \<Rightarrow> role_request" where
  "role_request_of role m provider model tools cwd =
     \<lparr>rq_role = role, rq_input = m, rq_provider = provider, rq_model = model, rq_turns = agent_max_turns, rq_tools = tools,
      rq_permission = as_string (mget m ''permission_mode''), rq_cwd = cwd\<rparr>"

section \<open>Coding roles\<close>

definition coding_tools :: "string list" where
  "coding_tools = [''Read'', ''Write'', ''Edit'', ''Bash'', ''Glob'', ''Grep'']"

definition reviewer_tools :: "string list" where
  "reviewer_tools = [''Read'', ''Write'', ''Glob'', ''Grep'', ''Bash'']"

definition role_fields :: "(string \<times> jtype \<times> gval) list" where
  "role_fields = [fld ''model'' JString, fld ''permission_mode'' JString, fld ''ai_provider'' JString, fld ''workspace_manifest'' JDict]"

definition j_coder_input :: jtype where
  "j_coder_input = JObj
     ([fld ''issue'' JDict, fld ''worktree_path'' JString, fld ''feedback'' JString, (''iteration'', JInt, GInt 1),
       fld ''iteration_id'' JString, fld ''project_context'' JDict, fld ''memory_context'' JDict, fld ''target_repo'' JString] @ role_fields)"

definition j_qa_input :: jtype where
  "j_qa_input = JObj
     ([fld ''worktree_path'' JString, fld ''coder_result'' JDict, fld ''issue'' JDict, fld ''iteration_id'' JString,
       fld ''project_context'' JDict, fld ''target_repo'' JString] @ role_fields)"

definition j_reviewer_input :: jtype where
  "j_reviewer_input = JObj
     ([fld ''worktree_path'' JString, fld ''coder_result'' JDict, fld ''issue'' JDict, fld ''iteration_id'' JString,
       fld ''project_context'' JDict, fld ''qa_ran'' JBool, fld ''memory_context'' JDict, fld ''target_repo'' JString] @ role_fields)"

definition j_synth_input :: jtype where
  "j_synth_input = JObj
     ([fld ''qa_result'' JDict, fld ''review_result'' JDict, fld ''iteration_history'' (JList JDict), fld ''iteration_id'' JString,
       fld ''worktree_path'' JString, fld ''issue_summary'' JDict, fld ''artifacts_dir'' JString, fld ''target_repo'' JString] @ role_fields)"

text \<open>\<open>bindInput\<close>, with the runtime and the model of the configuration where the caller names none.\<close>

definition resolve_role_defaults :: "getenv \<Rightarrow> string \<Rightarrow> gmap \<Rightarrow> string + gmap" where
  "resolve_role_defaults genv role m =
     (let provider = (if as_string (mget m ''ai_provider'') = [] then default_runtime genv else as_string (mget m ''ai_provider''));
          m1 = mset m ''ai_provider'' (GStr provider)
      in if as_string (mget m ''model'') \<noteq> [] then Inr m1
         else case default_role_model genv role provider of Inl e \<Rightarrow> Inl e | Inr model \<Rightarrow> Inr (mset m1 ''model'' (GStr model)))"

definition coding_manifest :: "gval \<Rightarrow> gval" where
  "coding_manifest v = (case v of GMap m \<Rightarrow> if manifest_from_map m = None then GNil else GMap m | _ \<Rightarrow> GNil)"

definition bind_role :: "getenv \<Rightarrow> jtype \<Rightarrow> string \<Rightarrow> gmap \<Rightarrow> go_error + gmap" where
  "bind_role genv t role input =
     (let (m, ok) = map_to_struct t input
      in if \<not> ok then Inl (Plain ''json'')
         else case resolve_role_defaults genv role m of Inl e \<Rightarrow> Inl (Plain e)
       | Inr m1 \<Rightarrow> Inr (mset m1 ''workspace_manifest'' (coding_manifest (mget m1 ''workspace_manifest''))))"

definition role_issue_name :: "gmap \<Rightarrow> string" where
  "role_issue_name m = (case mget (as_map (mget m ''issue'')) ''name'' of GStr s \<Rightarrow> s | _ \<Rightarrow> ''?'')"

definition coding_fatal :: "go_error \<Rightarrow> bool" where
  "coding_fatal e = (case e of Fatal s \<Rightarrow> True | _ \<Rightarrow> is_fatal_error (err_text e))"

definition with_iteration :: "gmap \<Rightarrow> gmap \<Rightarrow> gmap" where
  "with_iteration m v = mset v ''iteration_id'' (mget m ''iteration_id'')"

text \<open>
  What coder, QA and reviewer share. \<open>failed\<close> is the result of the role's own, given the bound input and what is
  known of the failure.
\<close>

definition run_coding_role :: "'x role_env \<Rightarrow> string \<Rightarrow> string \<Rightarrow> jtype \<Rightarrow> string list \<Rightarrow> (gmap \<Rightarrow> string \<Rightarrow> gmap) \<Rightarrow> gmap \<Rightarrow> 'x world
    \<Rightarrow> (go_error + gmap) \<times> 'x world" where
  "run_coding_role env name role t tools failed input w = (case bind_role (env_var (re_host env)) t role input of
     Inl e \<Rightarrow> (Inl e, w)
   | Inr m \<Rightarrow> (case runtime_to_harness_adapter (as_string (mget m ''ai_provider'')) of
       Inl e \<Rightarrow> (Inl (Plain e), w)
     | Inr adapter \<Rightarrow>
         (case run_harness env
             (role_request_of name m adapter (as_string (mget m ''model'')) tools (as_string (mget m ''worktree_path''))) w of
            (Inl e, w1) \<Rightarrow> if coding_fatal e then (Inl e, w1) else (Inr (failed m (err_text e)), w1)
          | (Inr (Some v, res), w1) \<Rightarrow> (Inr (with_iteration m v), w1)
          | (Inr (None, res), w1) \<Rightarrow>
              let msg = (case res of None \<Rightarrow> [] | Some h \<Rightarrow> h_error h)
              in (Inr (failed m (if msg = [] then ''no structured output returned'' else msg)), w1))))"

definition coder_failed :: "gmap \<Rightarrow> string \<Rightarrow> gmap" where
  "coder_failed m why =
     [(''files_changed'', GList []),
      (''summary'', GStr (''Coder agent failed for '' @ role_issue_name m @ (if why \<noteq> [] then '': '' @ why else []))),
      (''complete'', GBool False), (''iteration_id'', mget m ''iteration_id''), (''tests_passed'', GNil), (''test_summary'', GStr []),
      (''codebase_learnings'', GList []), (''agent_retro'', GMap []), (''repo_name'', GStr [])]"

definition run_coder :: "'x role_env \<Rightarrow> gmap \<Rightarrow> 'x world \<Rightarrow> (go_error + gmap) \<times> 'x world" where
  "run_coder env = run_coding_role env ''run_coder'' ''coder'' j_coder_input coding_tools coder_failed"

definition qa_failed :: "gmap \<Rightarrow> string \<Rightarrow> gmap" where
  "qa_failed m why =
     [(''passed'', GBool False), (''summary'', GStr (''QA agent failed for '' @ role_issue_name m)), (''test_failures'', GList []),
      (''coverage_gaps'', GList []), (''iteration_id'', mget m ''iteration_id'')]"

definition run_qa :: "'x role_env \<Rightarrow> gmap \<Rightarrow> 'x world \<Rightarrow> (go_error + gmap) \<times> 'x world" where
  "run_qa env = run_coding_role env ''run_qa'' ''qa'' j_qa_input coding_tools qa_failed"

definition review_failed :: "gmap \<Rightarrow> string \<Rightarrow> gmap" where
  "review_failed m why =
     [(''approved'', GBool True),
      (''summary'', GStr (''Code reviewer agent failed for '' @ role_issue_name m @ '' '' @ em_dash @ '' not blocking'')),
      (''blocking'', GBool False), (''debt_items'', GList []), (''iteration_id'', mget m ''iteration_id'')]"

definition run_code_reviewer :: "'x role_env \<Rightarrow> gmap \<Rightarrow> 'x world \<Rightarrow> (go_error + gmap) \<times> 'x world" where
  "run_code_reviewer env = run_coding_role env ''run_code_reviewer'' ''code_reviewer'' j_reviewer_input reviewer_tools review_failed"

section \<open>The synthesizer\<close>

definition map_synth_model :: "bool \<Rightarrow> string \<Rightarrow> string" where
  "map_synth_model openrouter model =
     (if \<not> openrouter then model
      else if has_prefix ''openrouter/'' model then drop 11 model
      else if CHR ''/'' \<in> set model then model
      else if model = ''haiku'' then ''anthropic/claude-haiku-4.5''
      else if model = ''sonnet'' then ''anthropic/claude-sonnet-4.5''
      else if model = ''opus'' then ''anthropic/claude-opus-4.1'' else model)"

definition j_synthesis :: jtype where
  "j_synthesis = JObj [fld ''action'' JString, fld ''summary'' JString, fld ''stuck'' JBool, fld ''iteration_id'' JString]"

definition parse_synthesis :: "gval option \<Rightarrow> gmap option" where
  "parse_synthesis resp = (case resp of
     None \<Rightarrow> None
   | Some v \<Rightarrow> (case decode j_synthesis (zero_of j_synthesis) v of
       (d, ok) \<Rightarrow>
         let m = as_map d; action = to_lower (trim_space (as_string (mget m ''action'')))
         in if ok \<and> action \<in> set [''fix'', ''approve'', ''block''] then Some (mset m ''action'' (GStr action)) else None))"

definition as_fatal_error :: "go_error \<Rightarrow> go_error" where
  "as_fatal_error e = (case e of Fatal s \<Rightarrow> e | _ \<Rightarrow> fatal_error (err_text e))"

definition py_bool :: "bool \<Rightarrow> string" where
  "py_bool b = (if b then ''True'' else ''False'')"

definition synth_failed :: "gmap \<Rightarrow> gmap" where
  "synth_failed m =
     (let qa = as_map (mget m ''qa_result''); review = as_map (mget m ''review_result'');
          passed = as_bool (mget qa ''passed''); approved = as_bool (mget review ''approved''); blocking = as_bool (mget review ''blocking'');
          (action, summary) =
            (if passed \<and> approved \<and> \<not> blocking
             then (''approve'', ''Synthesizer failed but QA passed and review approved '' @ em_dash @ '' approving.'')
             else if blocking then (''block'', ''Synthesizer failed and review has blocking issues '' @ em_dash @ '' blocking.'')
             else (''fix'', ''Synthesizer failed '' @ em_dash @ '' defaulting to FIX. QA passed='' @ py_bool passed @ '', review approved='' @
                     py_bool approved @ ''.''))
      in [(''action'', GStr action), (''summary'', GStr summary), (''stuck'', GBool False), (''iteration_id'', mget m ''iteration_id'')])"

definition run_qa_synthesizer :: "'x role_env \<Rightarrow> gmap \<Rightarrow> 'x world \<Rightarrow> (go_error + gmap) \<times> 'x world" where
  "run_qa_synthesizer env input w = (case bind_role (env_var (re_host env)) j_synth_input ''qa_synthesizer'' input of
     Inl e \<Rightarrow> (Inl e, w)
   | Inr m \<Rightarrow> (case re_ai env (map_synth_model (re_openrouter env) (as_string (mget m ''model''))) m w of
       (Inl e, w1) \<Rightarrow> if coding_fatal e then (Inl (as_fatal_error e), w1) else (Inr (synth_failed m), w1)
     | (Inr resp, w1) \<Rightarrow> (case parse_synthesis resp of
         Some v \<Rightarrow> (Inr (with_iteration m v), w1) | None \<Rightarrow> (Inr (synth_failed m), w1))))"

end
