(* ===== verification/AdvisorRoles.thy ===== *)
theory AdvisorRoles
  imports Roles
begin

text \<open>
  The advisor family, \<open>internal/roles/advisor\<close> (\<open>advisor.go\<close>, \<open>verify.go\<close>, \<open>deps.go\<close>): retry advisor, issue advisor,
  replanner, verifier, fix generator and issue writer. Issue advisor and replanner may ask the user.
\<close>

section \<open>Shared helpers\<close>

definition advisor_tools :: "string list" where
  "advisor_tools = [''Read'', ''Write'', ''Glob'', ''Grep'', ''Bash'']"

definition advisor_fatal :: "go_error \<Rightarrow> bool" where
  "advisor_fatal e = (case e of Fatal s \<Rightarrow> True | _ \<Rightarrow> False)"

definition advisor_fields :: "(string \<times> jtype \<times> gval) list" where
  "advisor_fields = [(''model'', JString, GStr ''sonnet''), fld ''permission_mode'' JString, (''ai_provider'', JString, GStr ''claude''),
     fld ''workspace_manifest'' JDict]"

definition role_text :: "'x role_env \<Rightarrow> gval \<Rightarrow> string" where
  "role_text env v = (case v of GNil \<Rightarrow> ''None'' | GStr s \<Rightarrow> s | GBool b \<Rightarrow> py_bool b | _ \<Rightarrow> re_text env v)"

definition role_str :: "'x role_env \<Rightarrow> gmap \<Rightarrow> string \<Rightarrow> string \<Rightarrow> string" where
  "role_str env m key dflt = (case map_of m key of None \<Rightarrow> dflt | Some v \<Rightarrow> role_text env v)"

text \<open>\<open>decodeInput\<close> and \<open>maybeWorkspaceManifest\<close>, whose errors end the role, and the adapter of its runtime.\<close>

definition bind_advisor :: "jtype \<Rightarrow> gmap \<Rightarrow> go_error + gmap \<times> string" where
  "bind_advisor t input =
     (let (m, ok) = map_to_struct t input
      in if \<not> ok then Inl (Plain ''json'')
         else if (case mget m ''workspace_manifest'' of GMap x \<Rightarrow> manifest_from_map x = None | _ \<Rightarrow> False) then Inl (Plain ''json'')
         else case runtime_to_harness_adapter (as_string (mget m ''ai_provider'')) of Inl e \<Rightarrow> Inl (Plain e) | Inr adapter \<Rightarrow> Inr (m, adapter))"

text \<open>
  A role that runs its agent once; \<open>finish\<close> is applied to what it produced, \<open>failed\<close> is the result of the role's own.
\<close>

definition run_advisor_role :: "'x role_env \<Rightarrow> string \<Rightarrow> jtype \<Rightarrow> string list \<Rightarrow> (gmap \<Rightarrow> string) \<Rightarrow> (gmap \<Rightarrow> gmap) \<Rightarrow> (gmap \<Rightarrow> gmap) \<Rightarrow> gmap \<Rightarrow> 'x world
    \<Rightarrow> (go_error + gmap) \<times> 'x world" where
  "run_advisor_role env name t tools cwd finish failed input w = (case bind_advisor t input of
     Inl e \<Rightarrow> (Inl e, w)
   | Inr (m, adapter) \<Rightarrow>
       (case run_harness env (role_request_of name m adapter (as_string (mget m ''model'')) tools (cwd m)) w of
          (Inl e, w1) \<Rightarrow> if advisor_fatal e then (Inl e, w1) else (Inr (failed m), w1)
        | (Inr (Some v, res), w1) \<Rightarrow> (Inr (finish v), w1)
        | (Inr (None, res), w1) \<Rightarrow> (Inr (failed m), w1)))"

section \<open>Retry advisor, verifier, fix generator, issue writer\<close>

definition j_retry_input :: jtype where
  "j_retry_input = JObj
     ([fld ''issue'' JDict, fld ''error_message'' JString, fld ''error_context'' JString, fld ''attempt_number'' JInt,
       fld ''repo_path'' JString, fld ''prd_summary'' JString, fld ''architecture_summary'' JString, fld ''prd_path'' JString,
       fld ''architecture_path'' JString, fld ''artifacts_dir'' JString] @ advisor_fields)"

definition repo_cwd :: "gmap \<Rightarrow> string" where
  "repo_cwd m = as_string (mget m ''repo_path'')"

definition retry_failed :: "gmap \<Rightarrow> gmap" where
  "retry_failed m =
     [(''should_retry'', GBool False), (''diagnosis'', GStr ''Retry advisor agent failed to produce a valid analysis.''),
      (''strategy'', GStr (''Cannot advise '' @ em_dash @ '' advisor failure.'')), (''modified_context'', GStr []), (''confidence'', GFloat 0 0)]"

definition run_retry_advisor :: "'x role_env \<Rightarrow> gmap \<Rightarrow> 'x world \<Rightarrow> (go_error + gmap) \<times> 'x world" where
  "run_retry_advisor env = run_advisor_role env ''run_retry_advisor'' j_retry_input advisor_tools repo_cwd (\<lambda>v. v) retry_failed"

definition j_verify_input :: jtype where
  "j_verify_input = JObj
     ([fld ''prd'' JDict, fld ''repo_path'' JString, fld ''artifacts_dir'' JString, fld ''completed_issues'' (JList JDict),
       fld ''failed_issues'' (JList JDict), fld ''skipped_issues'' (JList JString)] @ advisor_fields)"

definition verifier_failed :: "gmap \<Rightarrow> gmap" where
  "verifier_failed m =
     [(''passed'', GBool False), (''criteria_results'', GList []), (''summary'', GStr ''Verifier agent failed to produce a valid result.''),
      (''suggested_fixes'', GList [GStr ''Re-run verification manually.''])]"

definition run_verifier :: "'x role_env \<Rightarrow> gmap \<Rightarrow> 'x world \<Rightarrow> (go_error + gmap) \<times> 'x world" where
  "run_verifier env = run_advisor_role env ''run_verifier'' j_verify_input advisor_tools repo_cwd (\<lambda>v. v) verifier_failed"

definition j_fix_input :: jtype where
  "j_fix_input = JObj
     ([fld ''failed_criteria'' (JList JDict), fld ''dag_state'' JDict, fld ''prd'' JDict, fld ''artifacts_dir'' JString] @ advisor_fields)"

definition fix_failed :: "'x role_env \<Rightarrow> gmap \<Rightarrow> gmap" where
  "fix_failed env m =
     [(''fix_issues'', GList []),
      (''debt_items'', GMaps (map (\<lambda>c. [(''criterion'', GStr (role_str env c ''criterion'' [])),
         (''reason'', GStr ''Fix generator failed to analyze''), (''severity'', GStr ''high'')]) (maps_of (mget m ''failed_criteria'')))),
      (''summary'', GStr (''Fix generator failed '' @ em_dash @ '' all criteria recorded as debt''))]"

definition normalize_fixes :: "gmap \<Rightarrow> gmap" where
  "normalize_fixes v = mset v ''fix_issues'' (GMaps (map normalize_issue_dict (maps_of (mget v ''fix_issues''))))"

definition generate_fix_issues :: "'x role_env \<Rightarrow> gmap \<Rightarrow> 'x world \<Rightarrow> (go_error + gmap) \<times> 'x world" where
  "generate_fix_issues env = run_advisor_role env ''generate_fix_issues'' j_fix_input advisor_tools
     (\<lambda>m. role_str env (as_map (mget m ''dag_state'')) ''repo_path'' ''.'') normalize_fixes (fix_failed env)"

definition j_writer_input :: jtype where
  "j_writer_input = JObj
     ([fld ''issue'' JDict, fld ''prd_summary'' JString, fld ''architecture_summary'' JString, fld ''issues_dir'' JString,
       fld ''repo_path'' JString, fld ''prd_path'' JString, fld ''architecture_path'' JString, fld ''sibling_issues'' (JList JDict)]
      @ advisor_fields)"

definition writer_failed :: "'x role_env \<Rightarrow> gmap \<Rightarrow> gmap" where
  "writer_failed env m =
     [(''issue_name'', GStr (role_str env (as_map (mget m ''issue'')) ''name'' ''unknown'')), (''issue_file_path'', GStr []),
      (''success'', GBool False)]"

definition run_issue_writer :: "'x role_env \<Rightarrow> gmap \<Rightarrow> 'x world \<Rightarrow> (go_error + gmap) \<times> 'x world" where
  "run_issue_writer env = run_advisor_role env ''run_issue_writer'' j_writer_input [''Read'', ''Write'', ''Glob'', ''Grep''] repo_cwd
     (\<lambda>v. v) (writer_failed env)"

section \<open>Asking the user\<close>

definition role_ask :: "'x role_env \<Rightarrow> ask_params" where
  "role_ask env = \<lparr>ak_client = re_client env, ak_budget = Some 2, ak_max = 0, ak_hours = (0, 0), ak_execution = re_execution env,
     ak_user = [], ak_webhook = approval_webhook_url (re_server env), ak_metadata = None\<rparr>"

text \<open>\<open>priorResponses\<close>: the answers as the prompt gets them, after a trip through JSON.\<close>

fun prior_json :: "prior_entry \<Rightarrow> gmap" where
  "prior_json (Given m) = json_map m"
| "prior_json (Answered question status vs feedback) =
     json_map [(''question'', GStr question), (''status'', GStr status), (''values'', GMap vs),
       (''feedback'', case feedback of None \<Rightarrow> GNil | Some s \<Rightarrow> GStr s)]"

definition with_prior :: "gmap \<Rightarrow> prior_entry list \<Rightarrow> gmap" where
  "with_prior m prior = mset m ''prior_user_responses'' (GMaps (map prior_json prior))"

text \<open>The end of both roles: the decision, or the role's own when the loop failed or came to none.\<close>

definition asked_result :: "gmap \<Rightarrow> (go_error + gmap option) \<times> int \<times> 'x world \<Rightarrow> (go_error + gmap) \<times> 'x world" where
  "asked_result failed out = (case out of
     (Inl e, budget, w) \<Rightarrow> if advisor_fatal e then (Inl e, w) else (Inr failed, w)
   | (Inr None, budget, w) \<Rightarrow> (Inr failed, w)
   | (Inr (Some v), budget, w) \<Rightarrow> (Inr v, w))"

definition j_advisor_input :: jtype where
  "j_advisor_input = JObj
     ([fld ''issue'' JDict, fld ''original_issue'' JDict, fld ''failure_result'' JDict, fld ''iteration_history'' (JList JDict),
       fld ''dag_state_summary'' JDict, (''advisor_invocation'', JInt, GInt 1), (''max_advisor_invocations'', JInt, GInt 2),
       fld ''previous_adaptations'' (JList JDict), fld ''worktree_path'' JString, fld ''prior_user_responses'' (JList JDict)] @ advisor_fields)"

definition advisor_failed :: "string \<Rightarrow> gmap" where
  "advisor_failed name =
     [(''action'', GStr ''accept_with_debt''), (''failure_diagnosis'', GStr ''Issue Advisor agent failed to produce a valid analysis.''),
      (''failure_category'', GStr ''environment''),
      (''rationale'', GStr (''Advisor failure '' @ em_dash @ '' accepting with debt to avoid pipeline stall.'')), (''confidence'', GFloat 1 (-1)),
      (''modified_acceptance_criteria'', GNil), (''dropped_criteria'', GNil), (''modification_justification'', GStr []),
      (''new_approach'', GStr []), (''approach_changes'', GNil), (''sub_issues'', GNil), (''split_rationale'', GStr []),
      (''missing_functionality'', GList [GStr (''Full implementation of '' @ name)]), (''debt_severity'', GStr ''high''),
      (''escalation_reason'', GStr []), (''dag_impact'', GStr []), (''suggested_restructuring'', GStr []), (''downstream_impact'', GStr []),
      (''summary'', GStr (''Issue advisor failed '' @ em_dash @ '' accepting '' @ name @ '' with debt'')), (''ask_user_form'', GNil)]"

definition advise :: "'x role_env \<Rightarrow> gmap \<Rightarrow> string \<Rightarrow> 'x reasoner" where
  "advise env m adapter prior w =
     (let cwd = (if as_string (mget m ''worktree_path'') \<noteq> [] then as_string (mget m ''worktree_path'')
                 else role_str env (as_map (mget m ''dag_state_summary'')) ''repo_path'' ''.'')
      in case run_harness env
           (role_request_of ''run_issue_advisor'' (with_prior m prior) adapter (as_string (mget m ''model'')) advisor_tools cwd) w of
           (Inl e, w1) \<Rightarrow> (Inl e, w1)
         | (Inr (v, res), w1) \<Rightarrow> (Inr (map_option json_map v), w1))"

definition given_prior :: "gmap \<Rightarrow> prior_entry list" where
  "given_prior m = map Given (maps_of (mget m ''prior_user_responses''))"

definition run_issue_advisor :: "'x role_env \<Rightarrow> gmap \<Rightarrow> 'x world \<Rightarrow> (go_error + gmap) \<times> 'x world" where
  "run_issue_advisor env input w = (case bind_advisor j_advisor_input input of
     Inl e \<Rightarrow> (Inl e, w)
   | Inr (m, adapter) \<Rightarrow>
       asked_result (advisor_failed (role_str env (as_map (mget m ''issue'')) ''name'' ''?''))
         (run_with_ask_user (re_hitl env) (role_ask env) (advise env m adapter) (given_prior m) w))"

section \<open>The replanner\<close>

definition j_replanner_input :: jtype where
  "j_replanner_input = JObj
     [fld ''dag_state'' JDict, fld ''failed_issues'' (JList JDict), (''replan_model'', JString, GStr ''sonnet''),
      fld ''permission_mode'' JString, (''ai_provider'', JString, GStr ''claude''), fld ''escalation_notes'' (JList JDict),
      fld ''prior_user_responses'' (JList JDict)]"

definition build_issue_results :: "gmap list \<Rightarrow> issue_result list option" where
  "build_issue_results raw =
     (let ds = map (map_to_struct j_issue_result) raw
      in if list_all snd ds then Some (map (\<lambda>d. issue_result_of (fst d)) ds) else None)"

text \<open>\<open>pyRepr\<close> and \<open>pyStrList\<close>.\<close>

definition role_repr :: "string \<Rightarrow> string" where
  "role_repr s =
     (if CHR 0x27 \<in> set s \<and> CHR 0x22 \<notin> set s then [CHR 0x22] @ s @ [CHR 0x22]
      else [CHR 0x27] @ concat (map (\<lambda>c. if c = CHR 0x27 then [CHR 0x5C, CHR 0x27] else [c]) s) @ [CHR 0x27])"

definition role_list :: "string list \<Rightarrow> string" where
  "role_list items = ''['' @ join '', '' (map role_repr items) @ '']''"

definition replanner_failed :: "string list \<Rightarrow> gmap" where
  "replanner_failed names =
     [(''action'', GStr ''continue''),
      (''rationale'', GStr (''Replanner agent failed to produce a valid decision. Falling back to CONTINUE '' @ em_dash @
         '' downstream of failed issues will be notified of the gap but the pipeline will proceed.'')),
      (''updated_issues'', GNil), (''removed_issue_names'', GNil), (''skipped_issue_names'', GList []), (''new_issues'', GNil),
      (''summary'', GStr (''Replanner failure '' @ em_dash @ '' continuing with gap notification for: '' @ role_list names)),
      (''ask_user_form'', GNil)]"

definition raw_log_text :: "harness_result option \<Rightarrow> string" where
  "raw_log_text res = (case res of None \<Rightarrow> ''(empty)'' | Some h \<Rightarrow> if h_result h = [] then ''(empty)'' else h_result h)"

definition write_raw_log :: "'x role_env \<Rightarrow> dag_state \<Rightarrow> int \<Rightarrow> harness_result option \<Rightarrow> 'x world \<Rightarrow> 'x world" where
  "write_raw_log env s attempt res w =
     (let dir = path_join [d_artifacts_dir s, ''logs'']
      in if d_artifacts_dir s = [] then w
         else case make_dirs (re_host env) dir w of
            (Some e, w1) \<Rightarrow> w1
          | (None, w1) \<Rightarrow> snd (write_file (re_host env)
              (path_join [dir, ''replanner_'' @ show_int (d_replans s) @ ''_raw_'' @ show_int attempt @ ''.txt'']) (raw_log_text res) w1))"

text \<open>
  Two attempts at a decision; the prompt of the second one says that the first answer could not be parsed.
\<close>

fun replan_attempts :: "'x role_env \<Rightarrow> gmap \<Rightarrow> string \<Rightarrow> dag_state \<Rightarrow> nat \<Rightarrow> int \<Rightarrow> gmap \<Rightarrow> 'x world \<Rightarrow> (go_error + gmap option) \<times> 'x world" where
  "replan_attempts env m adapter s 0 attempt prompt w = (Inr None, w)"
| "replan_attempts env m adapter s (Suc n) attempt prompt w =
     (case run_harness env
         (role_request_of ''run_replanner'' prompt adapter (as_string (mget m ''replan_model'')) advisor_tools
            (if d_repo_path s = [] then ''.'' else d_repo_path s)) w of
        (Inl e, w1) \<Rightarrow> (Inl e, w1)
      | (Inr (v, res), w1) \<Rightarrow>
          let w2 = write_raw_log env s attempt res w1
          in (case v of
                Some d \<Rightarrow> (Inr (Some (json_map d)), w2)
              | None \<Rightarrow> replan_attempts env m adapter s n (attempt + 1) (mset prompt ''previous_unparsed'' (GBool True)) w2))"

definition run_replanner :: "'x role_env \<Rightarrow> gmap \<Rightarrow> 'x world \<Rightarrow> (go_error + gmap) \<times> 'x world" where
  "run_replanner env input w =
     (let (m, ok) = map_to_struct j_replanner_input input;
          (s, state_ok) = map_to_state (as_map (mget m ''dag_state''))
      in if \<not> ok \<or> \<not> state_ok then (Inl (Plain ''json''), w)
         else case build_issue_results (maps_of (mget m ''failed_issues'')) of None \<Rightarrow> (Inl (Plain ''json''), w)
       | Some failures \<Rightarrow> (case runtime_to_harness_adapter (as_string (mget m ''ai_provider'')) of
           Inl e \<Rightarrow> (Inl (Plain e), w)
         | Inr adapter \<Rightarrow>
             asked_result (replanner_failed (map r_name failures))
               (run_with_ask_user (re_hitl env) (role_ask env)
                  (\<lambda>prior w. replan_attempts env m adapter s 2 0 (with_prior m prior) w) (given_prior m) w)))"

end
