(* ===== verification/RolesCorrect.thy ===== *)
theory RolesCorrect
  imports AdvisorRoles PlainKeys IssueCorrect HostDemo
begin

text \<open>
  What becomes of issues when the agents behind the roles are down: the synthesizer decides as the coding loop would
  without it, and the issue advisor accepts what failed.
\<close>

section \<open>The synthesizer\<close>

lemma mget_trip: "mget (json_map m) k = json_trip (mget m k)"
  by (simp add: mget_def lookup_def_def map_of_json_map split: option.split)

lemma as_bool_trip: "as_bool (json_trip v) = as_bool v"
  by (cases v) (auto simp: as_bool_def split: prod.splits)

lemma bool_arg: "as_bool (mget (json_map m) k) = get_bool m k False"
  unfolding mget_trip as_bool_trip
  by (simp add: get_bool_def as_bool_def mget_def lookup_def_def split: option.split)

lemma mget_Cons: "mget ((k, v) # m) k' = (if k' = k then v else mget m k')"
  by (simp add: mget_def lookup_def_def)

lemma synth_args_plain: "plain_keys (synth_args x qa review history iid)"
  by (simp add: plain_keys_def synth_args_def common_args_def to_lower_def)

lemma bind_role_fields:
  assumes "bind_role genv (JObj fs) role input = Inr m" and "plain_keys input" and "list_all (\<lambda>x. to_lower (fst x) = fst x) fs"
    and "k \<notin> {''ai_provider'', ''model'', ''workspace_manifest''}"
  shows "mget m k = mget (fst (decode_with (\<lambda>n. map_option json_trip (map_of input n)) fs)) k"
  using assms map_to_struct_plain [OF assms(2,3)]
  by (auto simp: bind_role_def resolve_role_defaults_def Let_def mget_mset split: prod.splits sum.splits if_splits)

lemma synth_bound:
  assumes "bind_role genv j_synth_input role (synth_args x qa review history iid) = Inr m"
  shows "mget m ''qa_result'' = GMap (json_map qa)" "mget m ''review_result'' = GMap (json_map review)" "mget m ''iteration_id'' = GStr iid"
proof -
  note fields = bind_role_fields [OF assms [unfolded j_synth_input_def] synth_args_plain]
  have low: "list_all (\<lambda>x. to_lower (fst x) = fst x)
     ([fld ''qa_result'' JDict, fld ''review_result'' JDict, fld ''iteration_history'' (JList JDict), fld ''iteration_id'' JString,
       fld ''worktree_path'' JString, fld ''issue_summary'' JDict, fld ''artifacts_dir'' JString, fld ''target_repo'' JString] @ role_fields)"
    by code_simp
  note compute = fld_def synth_args_def decode.simps mget_def lookup_def_def Let_def split_beta json_map_def
  show "mget m ''qa_result'' = GMap (json_map qa)" by (subst fields [OF low], simp, simp add: compute)
  show "mget m ''review_result'' = GMap (json_map review)" by (subst fields [OF low], simp, simp add: compute)
  show "mget m ''iteration_id'' = GStr iid" by (subst fields [OF low], simp, simp add: compute)
qed

text \<open>
  C37: It does not matter where the synthesizer fails. When its language model gives no usable answer, the role decides
  what the coding loop would have decided had the call to the role itself failed: approve only when QA passed and the
  review approved without blocking, block when the review blocks, fix otherwise.
\<close>

theorem synthesizer_fallbacks_agree:
  assumes "\<And>model m w. case fst (re_ai env model m w) of Inl e \<Rightarrow> True | Inr resp \<Rightarrow> parse_synthesis resp = None"
    and "run_qa_synthesizer env (synth_args x qa review history iid) w = (Inr r, w')"
  shows "mget r ''action'' = mget (synth_fallback qa review) ''action'' \<and> mget r ''iteration_id'' = GStr iid"
proof -
  from assms(2) obtain m where m: "bind_role (env_var (re_host env)) j_synth_input ''qa_synthesizer'' (synth_args x qa review history iid) = Inr m"
    by (auto simp: run_qa_synthesizer_def split: sum.splits)
  let ?model = "map_synth_model (re_openrouter env) (as_string (mget m ''model''))"
  have "r = synth_failed m"
    using assms(2) assms(1) [of ?model m w] m by (auto simp: run_qa_synthesizer_def split: prod.splits sum.splits if_splits option.splits)
  moreover have "as_map (GMap y) = y" for y by (simp add: as_map_def)
  ultimately show ?thesis
    by (cases "get_bool qa ''passed'' False"; cases "get_bool review ''approved'' False"; cases "get_bool review ''blocking'' False")
      (simp_all add: synth_failed_def synth_bound [OF m] bool_arg synth_fallback_def mget_Cons Let_def)
qed

section \<open>The issue advisor\<close>

text \<open>The agent fails, or produces nothing that can be parsed, without a fatal error.\<close>

definition agent_down :: "'x role_env \<Rightarrow> role_request \<Rightarrow> 'x world \<Rightarrow> bool" where
  "agent_down env rq w = (case fst (run_harness env rq w) of Inl e \<Rightarrow> \<not> advisor_fatal e | Inr (v, res) \<Rightarrow> v = None)"

lemma asked_down:
  assumes "\<And>prior w. case fst (invoke prior w) of Inl e \<Rightarrow> \<not> advisor_fatal e | Inr v \<Rightarrow> v = None"
  shows "fst (asked_result failed (run_with_ask_user h (role_ask env) invoke prior w)) = Inr failed"
proof -
  have limit: "nat (ask_limit (role_ask env) + 1) = Suc 3" by (simp add: ask_limit_def role_ask_def)
  obtain a w1 where a: "invoke prior w = (a, w1)" by force
  show ?thesis
    using assms [of prior w] a unfolding run_with_ask_user_def limit ask_rounds.simps(2)
    by (cases a) (auto simp: asked_result_def extract_form_def)
qed

lemma advisor_down:
  assumes "bind_advisor j_advisor_input input = Inr (m, adapter)" and "\<And>rq w. agent_down env rq w"
  shows "fst (run_issue_advisor env input w) = Inr (advisor_failed (role_str env (as_map (mget m ''issue'')) ''name'' ''?''))"
proof -
  have "case fst (advise env m adapter prior w) of Inl e \<Rightarrow> \<not> advisor_fatal e | Inr v \<Rightarrow> v = None" for prior w
  proof -
    define rq where "rq = role_request_of ''run_issue_advisor'' (with_prior m prior) adapter (as_string (mget m ''model'')) advisor_tools
      (if as_string (mget m ''worktree_path'') \<noteq> [] then as_string (mget m ''worktree_path'')
       else role_str env (as_map (mget m ''dag_state_summary'')) ''repo_path'' ''.'')"
    obtain a w1 where a: "run_harness env rq w = (a, w1)" by force
    have adv: "advise env m adapter prior w = (case run_harness env rq w of
        (Inl e, w1) \<Rightarrow> (Inl e, w1) | (Inr (v, res), w1) \<Rightarrow> (Inr (map_option json_map v), w1))"
      unfolding advise_def Let_def rq_def ..
    from assms(2) [of rq w] show ?thesis unfolding adv agent_down_def a by (cases a) auto
  qed
  then show ?thesis by (simp add: run_issue_advisor_def assms(1) asked_down)
qed

lemma advisor_args_plain: "plain_keys (advisor_args eng s original k st res)"
  by (simp add: plain_keys_def advisor_args_def to_lower_def)

lemma advisor_input_lower: "list_all (\<lambda>x. to_lower (fst x) = fst x) (fields_of j_advisor_input)"
  by code_simp

lemma dicts_trip: "json_trip (GMaps ms) = GList (map (\<lambda>m. GMap (json_map m)) ms)"
  by (simp add: json_map_def)

lemma decode_dict_list: "decode (JList JDict) d (GList (map (\<lambda>m. GMap (json_map m)) ms)) = (GList (map (\<lambda>m. GMap (json_map m)) ms), True)"
  by (induction ms) (simp_all add: decode.simps)

text \<open>The manifest of a build over several repositories is one that decodes.\<close>

definition manifest_decodes :: "gmap option \<Rightarrow> bool" where
  "manifest_decodes man = (case man of None \<Rightarrow> True | Some m \<Rightarrow> manifest_from_map (json_map m) \<noteq> None)"

lemma advisor_args_bound:
  assumes "manifest_decodes (d_manifest s)" and "runtime_to_harness_adapter (ai_provider (e_cfg eng)) = Inr adapter"
    and "int64 (k + 1)" and "int64 (max_advisor (e_cfg eng))"
  shows "\<exists>m. bind_advisor j_advisor_input (advisor_args eng s original k st res) = Inr (m, adapter) \<and>
    mget m ''issue'' = GMap (json_map (w_issue st))"
proof -
  let ?look = "\<lambda>n. map_option json_trip (map_of (advisor_args eng s original k st res) n)"
  note bound = map_to_struct_plain [OF advisor_args_plain advisor_input_lower [unfolded j_advisor_input_def fields_of_def jtype.case]]
  have ints: "decode JInt (GInt 1) (json_trip (GInt (k + 1))) = (GInt (k + 1), True)"
    "decode JInt (GInt 2) (json_trip (GInt (max_advisor (e_cfg eng)))) = (GInt (max_advisor (e_cfg eng)), True)"
    using assms(3,4) by (simp_all only: decode_int)
  show ?thesis
  proof (cases "d_manifest s")
    case None
    then show ?thesis
      unfolding bind_advisor_def j_advisor_input_def bound
      by (simp add: advisor_fields_def fld_def advisor_args_def manifest_arg_def assms dicts_trip ints json_trip_GMap
          decode_dict_list mget_def lookup_def_def as_string_def comp_def del: json_trip.simps(1,4,5) decode.simps(3))
  next
    case (Some man)
    with assms(1) show ?thesis
      unfolding bind_advisor_def j_advisor_input_def bound
      by (simp add: advisor_fields_def fld_def advisor_args_def manifest_arg_def manifest_decodes_def assms(2) dicts_trip ints json_trip_GMap
          decode_dict_list mget_def lookup_def_def as_string_def comp_def del: json_trip.simps(1,4,5) decode.simps(3))
  qed
qed

lemma failed_advice:
  "follow_advice name k (advisor_failed nm) res st = Finished (Inr (accept_with_debt name k (advisor_failed nm) res st))"
  by (simp add: follow_advice_def advisor_failed_def get_str_def Let_def)

text \<open>
  C39: When the agent behind the issue advisor is down, failed work is accepted, if the role reports it in time. An issue
  whose attempt failed, for which the advisor is asked and cannot analyse anything, ends in that round as completed with
  debt: it keeps its branch and its files, so what was coded is merged, and one item of debt, of high severity, says
  that the whole implementation is missing. If instead the agent hangs until the call of the advisor times out, the round
  gives up, and the failed result of the attempt is what the issue gets. The build may be over one repository or over
  several, as long as the manifest of the latter decodes.
\<close>

theorem advisor_down_accepts:
  assumes "attempt_issue eng s (issue_name original) (w_issue st) w = (Inr res, w1)" and "\<not> is_success res"
    and "k < max_advisor (e_cfg eng)" and "e_call eng = Some call"
    and "call (e_node eng @ ''.run_issue_advisor'') (advisor_args eng s original k st res) w1 =
      run_issue_advisor env (advisor_args eng s original k st res) w1"
    and "run_issue_advisor env (advisor_args eng s original k st res) w1 = (a, w2)"
    and "manifest_decodes (d_manifest s)" and "runtime_to_harness_adapter (ai_provider (e_cfg eng)) = Inr adapter"
    and "int64 (k + 1)" and "int64 (max_advisor (e_cfg eng))"
    and "\<And>rq w. agent_down env rq w"
  shows "if in_time (e_env eng) w2 (''issue_advisor:'' @ issue_name original @ '':'' @ show_int (k + 1))
    then \<exists>r. advisor_round eng s original k st w = (Finished (Inr r), w2) \<and> is_success r \<and> r_branch r = r_branch res \<and>
      r_files r = r_files res \<and>
      r_debt r = w_debt st @ [[(''type'', GStr ''missing_functionality''),
        (''description'', GStr (''Full implementation of '' @ role_str env (json_map (w_issue st)) ''name'' ''?'')),
        (''issue_name'', GStr (issue_name original)), (''severity'', GStr ''high'')]]
    else ctx_err w2 = None \<longrightarrow> advisor_round eng s original k st w = (Gave_up res, w2)"
proof -
  let ?label = "''issue_advisor:'' @ issue_name original @ '':'' @ show_int (k + 1)"
  let ?a = "advisor_failed (role_str env (json_map (w_issue st)) ''name'' ''?'')"
  let ?r = "accept_with_debt (issue_name original) k ?a res st"
  obtain m where
    m: "bind_advisor j_advisor_input (advisor_args eng s original k st res) = Inr (m, adapter)" "mget m ''issue'' = GMap (json_map (w_issue st))"
    using advisor_args_bound [where res = res, OF assms(7-10)] by blast
  have a: "run_issue_advisor env (advisor_args eng s original k st res) w1 = (Inr ?a, w2)"
    using advisor_down [OF m(1) assms(11), of w1] assms(6) by (simp add: m(2) as_map_def)
  show ?thesis
  proof (cases "in_time (e_env eng) w2 ?label")
    case True
    then have "advisor_round eng s original k st w = (Finished (Inr ?r), w2)"
      using assms(1-5) a failed_advice by (simp add: advisor_round_def call_with_timeout_def Let_def)
    moreover have "is_success ?r" by (simp add: accept_with_debt_def is_success_def Let_def)
    moreover have "strs_of (mget ?a ''missing_functionality'') = [''Full implementation of '' @ role_str env (json_map (w_issue st)) ''name'' ''?'']"
      "get_str ?a ''debt_severity'' ''medium'' = ''high''"
      by (simp_all add: advisor_failed_def mget_Cons strs_of_def as_string_slice_def get_str_def)
    ultimately show ?thesis using True by (simp add: accept_with_debt_def Let_def)
  next
    case False
    then have "advisor_round eng s original k st w = (Gave_up res, w2)" if "ctx_err w2 = None"
      using assms(1-5) a that by (simp add: advisor_round_def call_with_timeout_def Let_def)
    with False show ?thesis by simp
  qed
qed

section \<open>With agents that are down\<close>

definition idle_roles :: "unit role_env" where
  "idle_roles = \<lparr>re_host = idle_host (\<lambda>target args w. (Inr [], w)), re_harness = (\<lambda>rq w. (Inr (None, []), w)),
     re_ai = (\<lambda>model input w. (Inl (Plain ''503''), w)), re_openrouter = False, re_text = (\<lambda>v. []),
     re_hitl = \<lparr>hl_post = (\<lambda>path key body w. (Response 500 [], w)), hl_pause = (\<lambda>p w. (Inl (Plain ''offline''), w)),
       hl_parse = (\<lambda>s. Inl ''json'')\<rparr>,
     re_client = None, re_execution = [], re_server = []\<rparr>"

lemma bind_role_decodes:
  assumes "decodes t [] input" and "resolve_role_defaults genv role (decoded t input) = Inr m1"
  shows "\<exists>m. bind_role genv t role input = Inr m"
proof -
  from assms(1) have "t = JObj (fields_of t)" by (cases t) (simp_all add: decodes_def is_object_def fields_of_def)
  with assms(1) map_to_struct_plain [of input "fields_of t"] have "map_to_struct t input = (decoded t input, True)"
    by (simp add: decodes_def decoded_def prod_eq_iff)
  with assms(2) show ?thesis by (simp add: bind_role_def)
qed

theorem synthesizer_fallbacks_agree_witness:
  "\<exists>r w'. run_qa_synthesizer idle_roles
      (synth_args (demo_params stubborn_call 5) [(''passed'', GBool True)] [(''approved'', GBool True)] [] ''0a'') demo_world = (Inr r, w') \<and>
    mget r ''action'' = GStr ''approve'' \<and> mget r ''iteration_id'' = GStr ''0a''"
proof -
  let ?args = "synth_args (demo_params stubborn_call 5) [(''passed'', GBool True)] [(''approved'', GBool True)] [] ''0a''"
  have ok: "decodes j_synth_input [] ?args" by code_simp
  have "case resolve_role_defaults (\<lambda>k. []) ''qa_synthesizer'' (decoded j_synth_input ?args) of Inr m1 \<Rightarrow> True | Inl e \<Rightarrow> False" by code_simp
  moreover have "env_var (re_host idle_roles) = (\<lambda>k. [])" by (simp add: idle_roles_def idle_host_def)
  ultimately obtain m where "bind_role (env_var (re_host idle_roles)) j_synth_input ''qa_synthesizer'' ?args = Inr m"
    using bind_role_decodes [OF ok] by (metis (no_types, lifting) sum.case(1) sum.exhaust)
  moreover have "re_ai idle_roles model input w = (Inl (Plain ''503''), w)" for model input w by (simp add: idle_roles_def)
  moreover have "\<not> coding_fatal (Plain ''503'')" by code_simp
  ultimately have run: "run_qa_synthesizer idle_roles ?args demo_world = (Inr (synth_failed m), demo_world)" by (simp add: run_qa_synthesizer_def)
  have "mget (synth_fallback [(''passed'', GBool True)] [(''approved'', GBool True)]) ''action'' = GStr ''approve''" by code_simp
  with synthesizer_fallbacks_agree [OF _ run] run show ?thesis by (auto simp: idle_roles_def)
qed

definition idle_call :: "unit call" where
  "idle_call target kwargs w = (if target = ''n.run_issue_advisor'' then run_issue_advisor idle_roles kwargs w else stubborn_call target kwargs w)"

definition failing_engine :: "unit engine" where
  "failing_engine = (demo_engine idle_call)\<lparr>e_execute := Some (\<lambda>issue s w. (Inr (Some [(''outcome'', GStr ''failed_retryable'')]), w))\<rparr>"

theorem advisor_down_accepts_witness:
  "\<exists>r w'. advisor_round failing_engine zero_state login 0 \<lparr>w_issue = login, w_adaptations = [], w_debt = []\<rparr> demo_world = (Finished (Inr r), w') \<and>
    is_success r \<and> map (\<lambda>d. mget d ''description'') (r_debt r) = [GStr ''Full implementation of login'']"
proof -
  let ?eng = failing_engine and ?st = "\<lparr>w_issue = login, w_adaptations = [], w_debt = []\<rparr>"
  let ?run = "attempt_issue ?eng zero_state (issue_name login) login demo_world"
  have down: "agent_down idle_roles rq w" for rq w
    by (simp add: agent_down_def run_harness_def idle_roles_def check_fatal_harness_error_def)
  have prompt: "in_time (e_env ?eng) w label" for w label by (simp add: failing_engine_def demo_engine_def demo_env_def)
  have "case fst ?run of Inl e \<Rightarrow> False | Inr res \<Rightarrow> \<not> is_success res" by code_simp
  then obtain res where res: "fst ?run = Inr res" "\<not> is_success res" by (auto split: sum.splits)
  have "runtime_to_harness_adapter (ai_provider (e_cfg ?eng)) = Inr ''claude-code''" by code_simp
  moreover have "int64 (0 + 1)" "int64 (max_advisor (e_cfg ?eng))" "manifest_decodes (d_manifest zero_state)" by (code_simp+)
  moreover have "role_str idle_roles (json_map (w_issue ?st)) ''name'' ''?'' = ''login''" by code_simp
  moreover have "0 < max_advisor (e_cfg ?eng)" by code_simp
  moreover have "e_call ?eng = Some idle_call" "e_node ?eng = ''n''" by (simp_all add: failing_engine_def demo_engine_def)
  moreover have "issue_name login = ''login''" by code_simp
  moreover obtain a w2 where "run_issue_advisor idle_roles (advisor_args ?eng zero_state login 0 ?st res) (snd ?run) = (a, w2)" by force
  ultimately show ?thesis
    using advisor_down_accepts [of ?eng zero_state login ?st demo_world res "snd ?run" 0 idle_call idle_roles a w2 "''claude-code''"]
      fst_pair [OF res(1)] res(2) down prompt
    by (auto simp: idle_call_def mget_Cons)
qed

end
