(* ===== verification/RetryLog.thy ===== *)
theory RetryLog
  imports Credentials Roles IssueBuild
begin

text \<open>
  The retry log of the planning roles (\<open>roles/planning/planning.go\<close>): a planning agent whose answer does not parse is
  asked again with the error, and every failed answer is kept in a file of the run, from which the scoped credentials
  of the build are taken out first. Strings are bytes, so the spellings of a secret are computed rune by rune.
\<close>

section \<open>Runes\<close>

definition byte_at :: "string \<Rightarrow> nat \<Rightarrow> nat" where
  "byte_at s i = (if i < length s then of_char (s ! i) else 0)"

definition byte_in :: "string \<Rightarrow> nat \<Rightarrow> nat \<Rightarrow> nat \<Rightarrow> bool" where
  "byte_in s i lo hi \<longleftrightarrow> lo \<le> byte_at s i \<and> byte_at s i \<le> hi"

text \<open>The rune at the start of a string and its width; a byte that starts none is \<open>U+FFFD\<close> of width 1.\<close>

definition rune_at :: "string \<Rightarrow> nat \<times> nat" where
  "rune_at s =
     (let b = byte_at s; cont = (\<lambda>i. b i - 0x80)
      in if b 0 < 0x80 then (b 0, 1)
         else if byte_in s 0 0xC2 0xDF \<and> byte_in s 1 0x80 0xBF then ((b 0 - 0xC0) * 64 + cont 1, 2)
         else if byte_in s 0 0xE0 0xEF \<and> byte_in s 1 (if b 0 = 0xE0 then 0xA0 else 0x80) (if b 0 = 0xED then 0x9F else 0xBF) \<and>
                 byte_in s 2 0x80 0xBF
         then ((b 0 - 0xE0) * 4096 + cont 1 * 64 + cont 2, 3)
         else if byte_in s 0 0xF0 0xF4 \<and> byte_in s 1 (if b 0 = 0xF0 then 0x90 else 0x80) (if b 0 = 0xF4 then 0x8F else 0xBF) \<and>
                 byte_in s 2 0x80 0xBF \<and> byte_in s 3 0x80 0xBF
         then ((b 0 - 0xF0) * 262144 + cont 1 * 4096 + cont 2 * 64 + cont 3, 4)
         else (0xFFFD, 1))"

lemma rune_width: "0 < snd (rune_at s)"
  by (simp add: rune_at_def Let_def)

function runes :: "string \<Rightarrow> (nat \<times> nat) list" where
  "runes s = (if s = [] then [] else rune_at s # runes (drop (snd (rune_at s)) s))"
  by pat_completeness auto
termination
proof (relation "measure length")
  fix s :: string
  assume "s \<noteq> []"
  with rune_width [of s] show "(drop (snd (rune_at s)) s, s) \<in> measure length" by (simp add: diff_less)
qed simp

declare runes.simps [simp del]

definition rune_bytes :: "nat \<Rightarrow> string" where
  "rune_bytes r = map char_of
     (if r < 0x80 then [r] else if r < 0x800 then [0xC0 + r div 64, 0x80 + r mod 64]
      else if r < 0x10000 then [0xE0 + r div 4096, 0x80 + r div 64 mod 64, 0x80 + r mod 64]
      else [0xF0 + r div 262144, 0x80 + r div 4096 mod 64, 0x80 + r div 64 mod 64, 0x80 + r mod 64])"

definition nibble_char :: "bool \<Rightarrow> nat \<Rightarrow> char" where
  "nibble_char upper n = char_of (if n < 10 then 48 + n else (if upper then 55 else 87) + n)"

text \<open>The format \<open>\u%04x\<close> of a number below \<open>2 ^ 16\<close>.\<close>

definition u_escape :: "nat \<Rightarrow> string" where
  "u_escape r = [CHR 0x5C, CHR ''u''] @ map (\<lambda>k. nibble_char False (r div k mod 16)) [4096, 256, 16, 1]"

definition short_escape :: "nat \<Rightarrow> string option" where
  "short_escape r = map_option (\<lambda>c. [CHR 0x5C, c]) (map_of [(0x22, CHR 0x22), (0x5C, CHR 0x5C), (8, CHR ''b''), (12, CHR ''f''),
     (10, CHR ''n''), (13, CHR ''r''), (9, CHR ''t'')] r)"

section \<open>The spellings of a secret\<close>

definition json_escaped_body :: "string \<Rightarrow> string" where
  "json_escaped_body v = concat (map (\<lambda>(r, k). case short_escape r of
     Some e \<Rightarrow> e | None \<Rightarrow> if r < 0x20 then u_escape r else rune_bytes r) (runes v))"

definition json_ascii_body :: "string \<Rightarrow> string" where
  "json_ascii_body v = concat (map (\<lambda>(r, k).
     if r > 0xFFFF then u_escape (0xD800 + (r - 0x10000) div 1024) @ u_escape (0xDC00 + (r - 0x10000) mod 1024)
     else if r \<ge> 0x7F then u_escape r else rune_bytes r) (runes (json_escaped_body v)))"

text \<open>The body of \<open>json.Marshal\<close>, which escapes HTML characters, separators and invalid bytes as well.\<close>

definition json_marshal_body :: "string \<Rightarrow> string" where
  "json_marshal_body v = concat (map (\<lambda>(r, k). case short_escape r of
     Some e \<Rightarrow> e
   | None \<Rightarrow> if r < 0x20 \<or> r \<in> {0x3C, 0x3E, 0x26, 0x2028, 0x2029} \<or> r = 0xFFFD \<and> k = 1 then u_escape r else rune_bytes r) (runes v))"

definition unreserved :: "char \<Rightarrow> bool" where
  "unreserved c = (let n = (of_char c :: nat)
     in 97 \<le> n \<and> n \<le> 122 \<or> 65 \<le> n \<and> n \<le> 90 \<or> 48 \<le> n \<and> n \<le> 57 \<or> c \<in> {CHR ''-'', CHR ''_'', CHR ''.'', CHR 0x7E})"

definition percent_encode :: "string \<Rightarrow> bool \<Rightarrow> string" where
  "percent_encode v sp = concat (map (\<lambda>c.
     if unreserved c then [c] else if c = CHR '' '' \<and> sp then ''+''
     else let n = (of_char c :: nat) in [CHR ''%'', nibble_char True (n div 16), nibble_char True (n mod 16)]) v)"

definition credential_forms :: "string \<Rightarrow> string list" where
  "credential_forms v = fold (\<lambda>form forms. if form \<noteq> v \<and> form \<notin> set forms then forms @ [form] else forms)
     [json_escaped_body v, json_ascii_body v, json_marshal_body v, percent_encode v False, percent_encode v True] [v]"

section \<open>Redaction\<close>

definition is_hex :: "char \<Rightarrow> bool" where
  "is_hex c = (let n = (of_char (lower_char c) :: nat) in 48 \<le> n \<and> n \<le> 57 \<or> 97 \<le> n \<and> n \<le> 102)"

text \<open>Where a spelling is matched up to case: in the digits of its percent escapes.\<close>

fun case_free :: "string \<Rightarrow> bool list" where
  "case_free [] = []"
| "case_free (c # a # b # f) = (if c = CHR ''%'' \<and> is_hex a \<and> is_hex b then False # True # True # case_free f else False # case_free (a # b # f))"
| "case_free (c # f) = False # case_free f"

definition form_at :: "string \<Rightarrow> string \<Rightarrow> bool" where
  "form_at f t \<longleftrightarrow> length f \<le> length t \<and>
     list_all (\<lambda>((c, free), d). c = d \<or> free \<and> lower_char c = lower_char d) (zip (zip f (case_free f)) t)"

text \<open>\<open>ReplaceAllStringFunc\<close>: the matches from left to right. A spelling is never empty.\<close>

function replace_form :: "string \<Rightarrow> string \<Rightarrow> string \<Rightarrow> string" where
  "replace_form f marker t =
     (if f = [] \<or> t = [] then t
      else if form_at f t then marker @ replace_form f marker (drop (length f) t)
      else hd t # replace_form f marker (tl t))"
  by pat_completeness auto
termination
  by (relation "measure (\<lambda>(f, marker, t). length t)") (auto simp: diff_less)

declare replace_form.simps [simp del]

definition redaction_marker :: "string \<Rightarrow> string" where
  "redaction_marker name = ''[REDACTED:'' @ name @ '']''"

definition spellings :: "creds \<Rightarrow> (string \<times> string) list" where
  "spellings cs = concat (map (\<lambda>(name, v). if v = [] then [] else map (\<lambda>f. (f, name)) (credential_forms v)) cs)"

definition redact_all :: "(string \<times> string) list \<Rightarrow> string \<Rightarrow> string" where
  "redact_all ss t = fold (\<lambda>(f, name). replace_form f (redaction_marker name)) ss t"

text \<open>
  \<open>redactScopedCredentials\<close> on the row of the scope. The order of the row stands for the order in which Go ranges
  over the map and in which its sort leaves spellings of one length.
\<close>

definition redact :: "creds \<Rightarrow> string \<Rightarrow> string" where
  "redact cs t = (if t = [] then t else redact_all (sort_key (\<lambda>(f, name). - int (length f)) (spellings cs)) t)"

definition flatten_reason :: "string \<Rightarrow> string" where
  "flatten_reason t = join '' '' (text_fields [] t)"

definition max_raw :: int where
  "max_raw = 200000"

definition truncate_raw :: "string \<Rightarrow> string" where
  "truncate_raw raw =
     (let n = int (length raw); half = nat (max_raw div 2)
      in if n \<le> max_raw then raw
         else take half raw @ [CHR 0x0A, CHR 0x0A] @ ''# ... '' @ show_int (n - max_raw) @ '' characters omitted (full response was '' @
                show_int n @ '' chars) ...'' @ [CHR 0x0A, CHR 0x0A] @ drop (length raw - half) raw)"

section \<open>The log\<close>

text \<open>
  What the planning roles use: the roles' environment; the scope of the build and the credentials it holds, which do
  not change while a role runs; the rest of a section's header (time and number); the error of decoding a raw answer;
  appending to a file; how a pointer prints (the feedback of an answer in a prompt); and indented JSON text.
\<close>

record 'x planning_env =
  pe_role :: "'x role_env"
  pe_scope :: string
  pe_creds :: creds
  pe_started :: "'x world \<Rightarrow> string"
  pe_decode_error :: "string \<Rightarrow> string \<Rightarrow> string option"
  pe_append :: "string \<Rightarrow> string \<Rightarrow> 'x world \<Rightarrow> string option \<times> 'x world"
  pe_address :: "nat \<Rightarrow> string"
  pe_json :: "gmap \<Rightarrow> string"

definition log_line :: "string \<Rightarrow> string" where
  "log_line t = (if has_suffix [CHR 0x0A] t then t else t @ [CHR 0x0A])"

definition append_artifact :: "'x planning_env \<Rightarrow> string \<Rightarrow> string \<Rightarrow> 'x world \<Rightarrow> string option \<times> 'x world" where
  "append_artifact env path t w = (case make_dirs (re_host (pe_role env)) (path_dir path) w of
     (Some e, w1) \<Rightarrow> (Some e, w1)
   | (None, w1) \<Rightarrow> pe_append env path (log_line t) w1)"

definition banner :: "string \<Rightarrow> string" where
  "banner t = ''===== '' @ t @ '' =====''"

definition attempt_text :: "int \<Rightarrow> int \<Rightarrow> string" where
  "attempt_text k n = show_int k @ ''/'' @ show_int n"

definition raw_text :: "harness_result option \<Rightarrow> string" where
  "raw_text res = (case res of None \<Rightarrow> [] | Some h \<Rightarrow> h_result h)"

definition raw_response :: "creds \<Rightarrow> harness_result option \<Rightarrow> int \<Rightarrow> int \<Rightarrow> string \<Rightarrow> string" where
  "raw_response cs res k n failure =
     (let redacted = redact cs (raw_text res);
          body = (if trim_space redacted \<noteq> [] then truncate_raw redacted else ''(the harness returned no raw completion text)'');
          header = flatten_reason (redact cs (banner (''attempt '' @ attempt_text k n @ '' failed: '' @ failure)))
      in redact cs (header @ [CHR 0x0A] @ ''# raw completion text follows'' @ [CHR 0x0A] @ body))"

definition outcome_line :: "creds \<Rightarrow> string \<Rightarrow> string" where
  "outcome_line cs outcome = flatten_reason (redact cs (banner (''outcome: '' @ outcome)))"

definition run_header :: "'x planning_env \<Rightarrow> string \<Rightarrow> 'x world \<Rightarrow> string" where
  "run_header env stage w =
     banner (''run '' @ (if pe_scope env = [] then ''unknown-run'' else pe_scope env) @ '' | '' @ stage @ '' | started '' @ pe_started env w)"

section \<open>The attempts of a planning role\<close>

definition is_empty_completion :: "harness_result option \<Rightarrow> bool" where
  "is_empty_completion res = (case res of
     None \<Rightarrow> True | Some h \<Rightarrow> \<not> h_parsed h \<and> trim_space (h_result h) = [] \<and> h_failure h \<noteq> Schema_Failure)"

definition describe_failure :: "'x planning_env \<Rightarrow> string \<Rightarrow> harness_result option \<Rightarrow> string" where
  "describe_failure env role res =
     (let raw = raw_text res; detail = (case res of None \<Rightarrow> [] | Some h \<Rightarrow> trim_space (h_error h))
      in if trim_space raw = []
         then (if detail \<noteq> [] then detail else ''the harness returned no parsed result and no error detail'')
         else let failure = (case pe_decode_error env role raw of
                None \<Rightarrow> ''the harness returned no parsed result'' | Some e \<Rightarrow> ''raw response failed schema validation ('' @ e @ '')'')
              in if detail \<noteq> [] then failure @ ''; harness reported: '' @ detail else failure)"

definition schema_retry_context :: "string \<Rightarrow> string" where
  "schema_retry_context failure =
     (let nl = [CHR 0x0A]
      in ''## Retry Context'' @ nl @
         ''Your previous response could not be parsed into the required structured output. The validation error was:'' @ nl @ nl @
         failure @ nl @ nl @ ''Produce the complete structured output again, correcting that error. Include every required field.'')"

record schema_call =
  sc_request :: role_request
  sc_path :: string
  sc_stage :: string
  sc_label :: string
  sc_attempts :: int

definition asked_again :: "role_request \<Rightarrow> string \<Rightarrow> role_request" where
  "asked_again rq failure = (if failure = [] then rq
     else rq\<lparr>rq_input := mset (rq_input rq) ''retry_context'' (GStr (schema_retry_context failure))\<rparr>)"

definition provider_model :: "role_request \<Rightarrow> string" where
  "provider_model rq = ''provider='' @ rq_provider rq @ '', model='' @ rq_model rq"

definition empty_completion :: "schema_call \<Rightarrow> go_error" where
  "empty_completion c = Plain (sc_stage c @ '' harness returned an empty completion ('' @ provider_model (sc_request c) @ '') '' @ em_dash @
     '' check provider auth/model compatibility'')"

definition schema_failed :: "creds \<Rightarrow> schema_call \<Rightarrow> string \<Rightarrow> string option \<Rightarrow> go_error" where
  "schema_failed cs c failure unwritten =
     Plain (sc_label c @ '' after '' @ show_int (sc_attempts c) @ '' attempt(s) ('' @ provider_model (sc_request c) @ ''; raw response: '' @
       sc_path c @ '') '' @ em_dash @ '' '' @ redact cs failure @
       (case unwritten of None \<Rightarrow> [] | Some e \<Rightarrow> if e = [] then [] else ''; raw response could not be written: '' @ e))"

text \<open>
  The attempts left, the number of the current one, the last failure and the last error of writing. With the result
  come the lines handed to the log, whether or not they could be written.
\<close>

fun schema_attempts :: "'x planning_env \<Rightarrow> schema_call \<Rightarrow> nat \<Rightarrow> int \<Rightarrow> string \<Rightarrow> string option \<Rightarrow> 'x world
    \<Rightarrow> (go_error + gmap) \<times> string list \<times> 'x world" where
  "schema_attempts env c 0 k failure unwritten w =
     (let line = outcome_line (pe_creds env) (''FAILED after '' @ show_int (sc_attempts c) @ '' attempt(s): '' @ failure)
      in (Inl (schema_failed (pe_creds env) c failure unwritten), [line], snd (append_artifact env (sc_path c) line w)))"
| "schema_attempts env c (Suc n) k failure unwritten w =
     (let settle = (\<lambda>r outcome w. let line = outcome_line (pe_creds env) outcome in (r, [line], snd (append_artifact env (sc_path c) line w)));
          at = attempt_text k (sc_attempts c)
      in case run_harness (pe_role env) (asked_again (sc_request c) failure) w of
           (Inl e, w1) \<Rightarrow> settle (Inl e) (''FAILED after attempt '' @ at @ '': '' @ err_text e) w1
         | (Inr (Some v, res), w1) \<Rightarrow> settle (Inr v) (''succeeded on attempt '' @ at) w1
         | (Inr (None, res), w1) \<Rightarrow>
             if is_empty_completion res
             then settle (Inl (empty_completion c))
                    (''FAILED after attempt '' @ at @ '': empty completion ('' @ provider_model (sc_request c) @ '')'') w1
             else let failure' = describe_failure env (rq_role (sc_request c)) res;
                      line = raw_response (pe_creds env) res k (sc_attempts c) failure';
                      (err, w2) = append_artifact env (sc_path c) line w1;
                      (r, lines, w3) = schema_attempts env c n (k + 1) failure' (case err of None \<Rightarrow> unwritten | Some e \<Rightarrow> Some e) w2
                  in (r, line # lines, w3))"

definition run_schema_bound :: "'x planning_env \<Rightarrow> role_request \<Rightarrow> string \<Rightarrow> string \<Rightarrow> string \<Rightarrow> int \<Rightarrow> 'x world
    \<Rightarrow> (go_error + gmap) \<times> string list \<times> 'x world" where
  "run_schema_bound env rq path stage label retries w =
     (let n = max 1 (retries + 1);
          header = run_header env stage w;
          w1 = snd (append_artifact env path header w);
          (r, lines, w2) = schema_attempts env
            \<lparr>sc_request = rq, sc_path = path, sc_stage = stage, sc_label = label, sc_attempts = n\<rparr> (nat n) 1 [] None w1
      in (r, header # lines, w2))"

end
