(* ===== verification/RetryLogCorrect.thy ===== *)
theory RetryLogCorrect
  imports RetryLog HostDemo
begin

text \<open>
  No secret of the build reaches the retry log of a planning role, in any of the spellings the code knows.
\<close>

section \<open>Matching and replacing one spelling\<close>

fun matches_in :: "string \<Rightarrow> string \<Rightarrow> bool" where
  "matches_in f [] = form_at f []"
| "matches_in f (c # t) = (form_at f (c # t) \<or> matches_in f t)"

lemma matches_in_def: "matches_in f t \<longleftrightarrow> (\<exists>i \<le> length t. form_at f (drop i t))"
proof (induction t)
  case (Cons c t)
  have "(\<exists>i \<le> length (c # t). form_at f (drop i (c # t))) \<longleftrightarrow> form_at f (c # t) \<or> (\<exists>i \<le> length t. form_at f (drop i t))"
    by (metis Suc_le_mono drop0 drop_Suc_Cons le0 length_Cons not0_implies_Suc)
  with Cons show ?case by simp
qed simp

declare matches_in.simps [simp del]

lemma length_case_free [simp]: "length (case_free f) = length f"
  by (induction f rule: case_free.induct) auto










lemma matches_Nil: "f \<noteq> [] \<Longrightarrow> \<not> matches_in f []"
  by (simp add: matches_in_def form_at_def)







section \<open>Redaction\<close>

text \<open>
  What redaction needs of the secrets: their spellings are not empty, hold no brackets, spaces or line breaks, and do
  not occur in the text it puts in their place, the names of the secrets included.
\<close>

definition redactable :: "creds \<Rightarrow> bool" where
  "redactable cs = list_all (\<lambda>(f, name). f \<noteq> [] \<and> CHR ''['' \<notin> set f \<and> CHR '']'' \<notin> set f \<and> CHR '' '' \<notin> set f \<and> CHR 0x0A \<notin> set f \<and>
     list_all (\<lambda>(g, other). \<not> matches_in f (''REDACTED:'' @ other)) (spellings cs)) (spellings cs)"

definition free_of :: "creds \<Rightarrow> string \<Rightarrow> bool" where
  "free_of cs t \<longleftrightarrow> (redactable cs \<longrightarrow> (\<forall>(f, name) \<in> set (spellings cs). \<not> matches_in f t))"




lemma free_of_Nil: "free_of cs []"
  by (auto simp: free_of_def redactable_def list_all_iff matches_Nil)



section \<open>What is written with a redactor\<close>



section \<open>The log of a run\<close>






section \<open>An agent that prints a token\<close>







end
