(* ===== verification/PlanningRoles.thy ===== *)
theory PlanningRoles
  imports RetryLog AdvisorRoles PlanRun
begin

text \<open>
  The planning roles (\<open>roles/planning/planning.go\<close>): product manager, environment scout, architect, tech lead and
  sprint planner. All but the scout ask again when the answer does not parse; product manager and scout may ask the
  user. Of a prompt the model has the values it is built from.
\<close>

section \<open>The input\<close>

fun make_all :: "'x host \<Rightarrow> string list \<Rightarrow> 'x world \<Rightarrow> string option \<times> 'x world" where
  "make_all h [] w = (None, w)"
| "make_all h (d # ds) w = (case make_dirs h d w of (Some e, w1) \<Rightarrow> (Some e, w1) | (None, w1) \<Rightarrow> make_all h ds w1)"

definition ensure_paths :: "'x host \<Rightarrow> gmap \<Rightarrow> 'x world \<Rightarrow> (go_error + string) \<times> 'x world" where
  "ensure_paths h input w =
     (let base = path_join [abs_path h (get_str input ''repo_path'' []), get_str input ''artifacts_dir'' ''.artifacts'']
      in case make_all h (map (\<lambda>d. path_join (base # d)) [[''logs''], [''plan''], [''plan'', ''issues'']]) w of
           (Some e, w1) \<Rightarrow> (Inl (Plain e), w1) | (None, w1) \<Rightarrow> (Inr base, w1))"

definition role_int :: "gmap \<Rightarrow> string \<Rightarrow> int \<Rightarrow> int" where
  "role_int m k dflt = (case map_of m k of Some (GInt n) \<Rightarrow> n | Some (GFloat a e) \<Rightarrow> trunc_dec a e | _ \<Rightarrow> dflt)"

text \<open>\<open>prdFrom\<close> and \<open>architectureFrom\<close>; \<open>workspaceManifestFrom\<close>.\<close>

definition typed_arg :: "jtype \<Rightarrow> gval \<Rightarrow> go_error + gmap" where
  "typed_arg t v = (case v of
     GMap m \<Rightarrow> (let (d, ok) = map_to_struct t m in if ok then Inr d else Inl (Plain ''json''))
   | _ \<Rightarrow> Inr (as_map (zero_of t)))"

definition planning_manifest :: "gmap \<Rightarrow> go_error + gval" where
  "planning_manifest input =
     (let m = as_map (mget input ''workspace_manifest'')
      in if m = [] then Inr GNil else if manifest_from_map m = None then Inl (Plain ''json'') else Inr (GMap m))"

text \<open>The options of the agent, with the runtime and the model of the configuration where the caller names none.\<close>

definition planning_request :: "getenv \<Rightarrow> string \<Rightarrow> string list \<Rightarrow> gmap \<Rightarrow> gmap \<Rightarrow> go_error + role_request" where
  "planning_request genv name tools input prompt =
     (let runtime = first_non_empty (get_str input ''ai_provider'' []) (default_runtime genv);
          model = first_non_empty (get_str input ''model'' []) (default_planning_model genv runtime)
      in case runtime_to_harness_adapter runtime of
           Inl e \<Rightarrow> Inl (Plain e)
         | Inr adapter \<Rightarrow> Inr \<lparr>rq_role = name, rq_input = prompt, rq_provider = adapter, rq_model = model,
             rq_turns = role_int input ''max_turns'' agent_max_turns, rq_tools = tools,
             rq_permission = get_str input ''permission_mode'' [], rq_cwd = get_str input ''repo_path'' []\<rparr>)"

definition planning_retries :: int where
  "planning_retries = 1"

definition sprint_retries :: int where
  "sprint_retries = 2"

definition plan_file :: "string \<Rightarrow> string \<Rightarrow> string" where
  "plan_file base name = path_join [base, ''plan'', name]"

text \<open>A role without questions: its agent, and what is made of the answer.\<close>

definition bound_role :: "'x planning_env \<Rightarrow> (go_error + role_request) \<Rightarrow> string \<Rightarrow> string \<Rightarrow> string \<Rightarrow> int
    \<Rightarrow> 'x world \<Rightarrow> (go_error + gmap) \<times> 'x world" where
  "bound_role env rq path stage label retries w = (case rq of
     Inl e \<Rightarrow> (Inl e, w)
   | Inr request \<Rightarrow> (case run_schema_bound env request path stage label retries w of (r, lines, w1) \<Rightarrow> (r, w1)))"

section \<open>Architect, tech lead, sprint planner\<close>

definition run_architect :: "'x planning_env \<Rightarrow> gmap \<Rightarrow> 'x world \<Rightarrow> (go_error + gmap) \<times> 'x world" where
  "run_architect env input w =
     (let h = re_host (pe_role env)
      in and_then (ensure_paths h input w) (\<lambda>base w1.
         and_then (typed_arg j_prd (mget input ''prd''), w1) (\<lambda>prd w1.
         and_then (planning_manifest input, w1) (\<lambda>manifest w1.
         and_then
           (bound_role env
              (planning_request (env_var h) ''run_architect'' [''Read'', ''Write'', ''Glob'', ''Grep'', ''Bash''] input
                 [(''prd'', GMap prd), (''repo_path'', GStr (get_str input ''repo_path'' [])), (''prd_path'', GStr (plan_file base ''prd.md'')),
                  (''architecture_path'', GStr (plan_file base ''architecture.md'')), (''feedback'', GStr (get_str input ''feedback'' [])),
                  (''workspace_manifest'', manifest)])
              (plan_file base ''architect_raw_response.txt'') ''Architect'' ''Architect failed to produce a valid architecture''
              planning_retries w1)
           (\<lambda>v w2. (Inr (json_map v), w2))))))"

definition run_tech_lead :: "'x planning_env \<Rightarrow> gmap \<Rightarrow> 'x world \<Rightarrow> (go_error + gmap) \<times> 'x world" where
  "run_tech_lead env input w =
     (let h = re_host (pe_role env)
      in and_then (ensure_paths h input w) (\<lambda>base w1.
         and_then (planning_manifest input, w1) (\<lambda>manifest w1.
         and_then
           (bound_role env
              (planning_request (env_var h) ''run_tech_lead'' [''Read'', ''Write'', ''Glob'', ''Grep''] input
                 [(''prd_path'', GStr (plan_file base ''prd.md'')), (''architecture_path'', GStr (plan_file base ''architecture.md'')),
                  (''revision_number'', GInt (role_int input ''revision_number'' 0)), (''workspace_manifest'', manifest)])
              (plan_file base ''tech_lead_raw_response.txt'') ''Tech lead'' ''Tech lead failed to produce a valid review''
              planning_retries w1)
           (\<lambda>v w2. case write_file h (plan_file base ''review.json'') (pe_json env (json_map v)) w2 of
              (Some e, w3) \<Rightarrow> (Inl (Plain e), w3) | (None, w3) \<Rightarrow> (Inr (json_map v), w3)))))"

definition sprint_plan :: "gmap \<Rightarrow> gmap" where
  "sprint_plan v = [(''issues'', GList (map (\<lambda>m. GMap (json_map m)) (maps_of (mget v ''issues'')))),
     (''rationale'', GStr (as_string (mget v ''rationale'')))]"

definition run_sprint_planner :: "'x planning_env \<Rightarrow> gmap \<Rightarrow> 'x world \<Rightarrow> (go_error + gmap) \<times> 'x world" where
  "run_sprint_planner env input w =
     (let h = re_host (pe_role env)
      in and_then (ensure_paths h input w) (\<lambda>base w1.
         and_then (typed_arg j_prd (mget input ''prd''), w1) (\<lambda>prd w1.
         and_then (typed_arg j_architecture (mget input ''architecture''), w1) (\<lambda>arch w1.
         and_then (planning_manifest input, w1) (\<lambda>manifest w1.
         and_then
           (bound_role env
              (planning_request (env_var h) ''run_sprint_planner'' [''Read'', ''Write'', ''Glob'', ''Grep''] input
                 [(''goal'', mget prd ''validated_description''), (''prd'', GMap (json_map prd)), (''architecture'', GMap (json_map arch)),
                  (''workspace_manifest'', manifest), (''repo_path'', GStr (get_str input ''repo_path'' [])),
                  (''prd_path'', GStr (plan_file base ''prd.md'')), (''architecture_path'', GStr (plan_file base ''architecture.md''))])
              (plan_file base ''sprint_planner_raw_response.txt'') ''Sprint planner'' ''Sprint planner failed to produce valid issues''
              sprint_retries w1)
           (\<lambda>v w2. (Inr (sprint_plan v), w2)))))))"

section \<open>Product manager and scout\<close>

definition prior_prompt :: "'x planning_env \<Rightarrow> prior_entry list \<Rightarrow> gval" where
  "prior_prompt env prior = GStr (format_prior_responses (pe_address env) prior)"

definition manager_invoke :: "'x planning_env \<Rightarrow> gmap \<Rightarrow> string \<Rightarrow> gval \<Rightarrow> 'x reasoner" where
  "manager_invoke env input base manifest prior w =
     and_then
       (bound_role env
          (planning_request (env_var (re_host (pe_role env))) ''run_product_manager'' [''Read'', ''Write'', ''Glob'', ''Grep'', ''Bash''] input
             [(''goal'', GStr (get_str input ''goal'' [])), (''repo_path'', GStr (get_str input ''repo_path'' [])),
              (''prd_path'', GStr (plan_file base ''prd.md'')), (''additional_context'', GStr (get_str input ''additional_context'' [])),
              (''workspace_manifest'', manifest), (''initial_responses'', prior_prompt env (given_prior input)),
              (''prior_user_responses'', prior_prompt env prior)])
          (plan_file base ''product_manager_raw_response.txt'') ''PM'' ''Product manager failed to produce a valid PRD'' planning_retries w)
       (\<lambda>v w1. (Inr (Some (json_map v)), w1))"

text \<open>An unknown runtime ends the role before the agent is asked.\<close>

definition run_product_manager :: "'x planning_env \<Rightarrow> gmap \<Rightarrow> 'x world \<Rightarrow> (go_error + gmap) \<times> 'x world" where
  "run_product_manager env input w =
     (let h = re_host (pe_role env)
      in and_then (ensure_paths h input w) (\<lambda>base w1.
         and_then (planning_manifest input, w1) (\<lambda>manifest w1.
         case planning_request (env_var h) ''run_product_manager'' [] input [] of
           Inl e \<Rightarrow> (Inl e, w1)
         | Inr rq \<Rightarrow> (case run_with_ask_user (re_hitl (pe_role env)) (role_ask (pe_role env)) (manager_invoke env input base manifest)
                 (given_prior input) w1 of
               (Inl e, budget, w2) \<Rightarrow> (Inl e, w2)
             | (Inr None, budget, w2) \<Rightarrow> (Inl (Plain ''Product manager failed to produce a valid PRD''), w2)
             | (Inr (Some v), budget, w2) \<Rightarrow> (Inr v, w2)))))"

definition scout_invoke :: "'x planning_env \<Rightarrow> gmap \<Rightarrow> gval \<Rightarrow> role_request \<Rightarrow> 'x reasoner" where
  "scout_invoke env input manifest rq prior w =
     (case run_harness (pe_role env)
         (rq\<lparr>rq_input := [(''prd'', case mget input ''prd'' of GMap m \<Rightarrow> GMap m | _ \<Rightarrow> GNil), (''repo_path'', GStr (get_str input ''repo_path'' [])),
            (''workspace_manifest'', manifest), (''prior_user_responses'', prior_prompt env prior)]\<rparr>) w of
        (Inl e, w1) \<Rightarrow> (Inl e, w1)
      | (Inr (v, res), w1) \<Rightarrow> (Inr (map_option json_map v), w1))"

text \<open>The run and the root workflow name the scope in which the credentials are kept.\<close>

definition run_environment_scout :: "'x planning_env \<Rightarrow> string \<Rightarrow> string \<Rightarrow> gmap \<Rightarrow> cred_store \<Rightarrow> 'x world
    \<Rightarrow> (go_error + gmap) \<times> cred_store \<times> 'x world" where
  "run_environment_scout env run root_workflow input st w =
     (let h = re_host (pe_role env)
      in case ensure_paths h input w of
           (Inl e, w1) \<Rightarrow> (Inl e, st, w1)
         | (Inr base, w1) \<Rightarrow> (case planning_manifest input of
             Inl e \<Rightarrow> (Inl e, st, w1)
           | Inr manifest \<Rightarrow> (case planning_request (env_var h) ''run_environment_scout'' [''Read'', ''Glob'', ''Grep'', ''Bash''] input [] of
               Inl e \<Rightarrow> (Inl e, st, w1)
             | Inr rq \<Rightarrow> (case run_with_ask_user (re_hitl (pe_role env)) (role_ask (pe_role env)) (scout_invoke env input manifest rq)
                   (given_prior input) w1 of
                 (Inl e, budget, w2) \<Rightarrow> (Inl e, st, w2)
               | (Inr result, budget, w2) \<Rightarrow> (case settle_scout run root_workflow result st of (reply, st1) \<Rightarrow> (Inr reply, st1, w2))))))"

end
