(* ===== verification/GitRoles.thy ===== *)
theory GitRoles
  imports AdvisorRoles CiWatch ResolveRun
begin

text \<open>
  The git roles (\<open>roles/gitops\<close>: repository, worktrees, merges, integration tests, clean-up, pull request) and the CI
  roles (\<open>roles/ci\<close>: watcher, fixer, pull request resolver).
\<close>

section \<open>Git roles\<close>

definition repo_fields :: "(string \<times> jtype \<times> gval) list" where
  "repo_fields = [fld ''model'' JString, fld ''permission_mode'' JString, fld ''ai_provider'' JString]"

text \<open>
  \<open>Bind\<close>, \<open>resolveProvider\<close> and \<open>resolveModel\<close>, which is given the adapter and not the runtime, \<open>runRole\<close>, and the result
  of the role's own when the agent produced none. \<open>seen\<close> is what the prompt makes of the input.
\<close>

definition git_role_model :: "getenv \<Rightarrow> string \<Rightarrow> string \<Rightarrow> string \<Rightarrow> go_error + string" where
  "git_role_model genv model role adapter =
     (if model \<noteq> [] then Inr model else case default_role_model genv role adapter of Inl e \<Rightarrow> Inl (Plain e) | Inr m \<Rightarrow> Inr m)"

definition run_git_role :: "'x role_env \<Rightarrow> string \<Rightarrow> string \<Rightarrow> jtype \<Rightarrow> string list \<Rightarrow> (gmap \<Rightarrow> gmap) \<Rightarrow> (gmap \<Rightarrow> gmap) \<Rightarrow> gmap \<Rightarrow> 'x world
    \<Rightarrow> (go_error + gmap) \<times> 'x world" where
  "run_git_role env name role t tools seen failed input w =
     (let (m, ok) = map_to_struct t input; genv = env_var (re_host env)
      in if \<not> ok then (Inl (Plain ''json''), w)
         else case runtime_to_harness_adapter (first_non_empty (as_string (mget m ''ai_provider'')) (default_runtime genv)) of
           Inl e \<Rightarrow> (Inl (Plain e), w)
         | Inr adapter \<Rightarrow> (case git_role_model genv (as_string (mget m ''model'')) role adapter of
             Inl e \<Rightarrow> (Inl e, w)
           | Inr model \<Rightarrow>
               (case run_harness env (role_request_of name (seen m) adapter model tools (as_string (mget m ''repo_path''))) w of
                  (Inl e, w1) \<Rightarrow> if advisor_fatal e then (Inl e, w1) else (Inr (failed m), w1)
                | (Inr (Some v, res), w1) \<Rightarrow> (Inr v, w1)
                | (Inr (None, res), w1) \<Rightarrow> (Inr (failed m), w1))))"

definition writing_tools :: "string list" where
  "writing_tools = [''Bash'', ''Write'']"

definition merging_tools :: "string list" where
  "merging_tools = [''Bash'', ''Read'', ''Write'', ''Glob'', ''Grep'']"

definition j_git_init_input :: jtype where
  "j_git_init_input = JObj
     ([fld ''repo_path'' JString, fld ''goal'' JString, fld ''artifacts_dir'' JString] @ repo_fields @
      [fld ''previous_error'' JString, fld ''build_id'' JString])"

definition git_init_failed :: "gmap \<Rightarrow> gmap" where
  "git_init_failed m =
     [(''mode'', GStr ''unknown''), (''original_branch'', GStr []), (''integration_branch'', GStr []), (''initial_commit_sha'', GStr []),
      (''success'', GBool False), (''error_message'', GStr ''Git init agent failed to produce a valid result.''),
      (''remote_url'', GStr []), (''remote_default_branch'', GStr []), (''repo_name'', GStr [])]"

definition run_git_init :: "'x role_env \<Rightarrow> gmap \<Rightarrow> 'x world \<Rightarrow> (go_error + gmap) \<times> 'x world" where
  "run_git_init env = run_git_role env ''run_git_init'' ''git'' j_git_init_input writing_tools (\<lambda>m. m) git_init_failed"

definition j_setup_input :: jtype where
  "j_setup_input = JObj
     ([fld ''repo_path'' JString, fld ''integration_branch'' JString, fld ''issues'' (JList JDict), fld ''worktrees_dir'' JString,
       fld ''artifacts_dir'' JString, fld ''level'' JInt] @ repo_fields @ [fld ''build_id'' JString])"

definition setup_failed :: "gmap \<Rightarrow> gmap" where
  "setup_failed m = [(''workspaces'', GList []), (''success'', GBool False)]"

definition run_workspace_setup :: "'x role_env \<Rightarrow> gmap \<Rightarrow> 'x world \<Rightarrow> (go_error + gmap) \<times> 'x world" where
  "run_workspace_setup env = run_git_role env ''run_workspace_setup'' ''git'' j_setup_input writing_tools (\<lambda>m. m) setup_failed"

definition j_cleanup_input :: jtype where
  "j_cleanup_input = JObj
     ([fld ''repo_path'' JString, fld ''worktrees_dir'' JString, fld ''branches_to_clean'' (JList JString), fld ''artifacts_dir'' JString,
       fld ''level'' JInt] @ repo_fields)"

definition cleanup_failed :: "gmap \<Rightarrow> gmap" where
  "cleanup_failed m = [(''success'', GBool False), (''cleaned'', GList [])]"

definition run_workspace_cleanup :: "'x role_env \<Rightarrow> gmap \<Rightarrow> 'x world \<Rightarrow> (go_error + gmap) \<times> 'x world" where
  "run_workspace_cleanup env = run_git_role env ''run_workspace_cleanup'' ''git'' j_cleanup_input writing_tools (\<lambda>m. m) cleanup_failed"

definition j_merger_input :: jtype where
  "j_merger_input = JObj
     ([fld ''repo_path'' JString, fld ''integration_branch'' JString, fld ''branches_to_merge'' (JList JDict),
       fld ''file_conflicts'' (JList JDict), fld ''prd_summary'' JString, fld ''architecture_summary'' JString,
       fld ''artifacts_dir'' JString, fld ''level'' JInt] @ repo_fields)"

definition git_map_str :: "gmap \<Rightarrow> string \<Rightarrow> string \<Rightarrow> string" where
  "git_map_str m k dflt = (case map_of m k of Some (GStr s) \<Rightarrow> s | _ \<Rightarrow> dflt)"

definition merger_failed :: "gmap \<Rightarrow> gmap" where
  "merger_failed m =
     [(''success'', GBool False), (''merged_branches'', GList []),
      (''failed_branches'', GStrs (map (\<lambda>b. git_map_str b ''branch_name'' ''?'') (maps_of (mget m ''branches_to_merge'')))),
      (''conflict_resolutions'', GNil), (''merge_commit_sha'', GStr []), (''pre_merge_sha'', GStr []),
      (''needs_integration_test'', GBool False), (''integration_test_rationale'', GStr []),
      (''summary'', GStr ''Merger agent failed to produce a valid result.''), (''repo_name'', GStr [])]"

definition run_merger :: "'x role_env \<Rightarrow> gmap \<Rightarrow> 'x world \<Rightarrow> (go_error + gmap) \<times> 'x world" where
  "run_merger env = run_git_role env ''run_merger'' ''merger'' j_merger_input merging_tools (\<lambda>m. m) merger_failed"

definition j_tester_input :: jtype where
  "j_tester_input = JObj
     ([fld ''repo_path'' JString, fld ''integration_branch'' JString, fld ''merged_branches'' (JList JDict), fld ''prd_summary'' JString,
       fld ''architecture_summary'' JString, fld ''conflict_resolutions'' (JList JDict), fld ''artifacts_dir'' JString, fld ''level'' JInt]
      @ repo_fields @ [fld ''workspace_manifest'' JDict])"

definition tester_failed :: "gmap \<Rightarrow> gmap" where
  "tester_failed m =
     [(''passed'', GBool False), (''tests_written'', GNil), (''tests_run'', GInt 0), (''tests_passed'', GInt 0), (''tests_failed'', GInt 0),
      (''failure_details'', GNil), (''summary'', GStr ''Integration tester agent failed to produce a valid result.'')]"

text \<open>A manifest that does not decode is left out of the prompt.\<close>

definition tester_prompt :: "gmap \<Rightarrow> gmap" where
  "tester_prompt m = mset m ''workspace_manifest'' (coding_manifest (mget m ''workspace_manifest''))"

definition run_integration_tester :: "'x role_env \<Rightarrow> gmap \<Rightarrow> 'x world \<Rightarrow> (go_error + gmap) \<times> 'x world" where
  "run_integration_tester env =
     run_git_role env ''run_integration_tester'' ''integration_tester'' j_tester_input merging_tools tester_prompt tester_failed"

definition j_finalize_input :: jtype where
  "j_finalize_input = JObj ([fld ''repo_path'' JString, fld ''artifacts_dir'' JString] @ repo_fields)"

definition finalize_failed :: "gmap \<Rightarrow> gmap" where
  "finalize_failed m =
     [(''success'', GBool False), (''files_removed'', GNil), (''gitignore_updated'', GBool False),
      (''summary'', GStr ''Repo finalize agent failed to produce a valid result.'')]"

definition run_repo_finalize :: "'x role_env \<Rightarrow> gmap \<Rightarrow> 'x world \<Rightarrow> (go_error + gmap) \<times> 'x world" where
  "run_repo_finalize env = run_git_role env ''run_repo_finalize'' ''git'' j_finalize_input merging_tools (\<lambda>m. m) finalize_failed"

definition j_pr_input :: jtype where
  "j_pr_input = JObj
     ([fld ''repo_path'' JString, fld ''integration_branch'' JString, fld ''base_branch'' JString, fld ''goal'' JString,
       fld ''build_summary'' JString, fld ''completed_issues'' (JList JDict), fld ''accumulated_debt'' (JList JDict),
       fld ''artifacts_dir'' JString] @ repo_fields)"

definition pr_failed :: "gmap \<Rightarrow> gmap" where
  "pr_failed m =
     [(''success'', GBool False), (''pr_url'', GStr []), (''pr_number'', GInt 0),
      (''error_message'', GStr ''GitHub PR agent failed to produce a valid result.'')]"

definition run_github_pr :: "'x role_env \<Rightarrow> gmap \<Rightarrow> 'x world \<Rightarrow> (go_error + gmap) \<times> 'x world" where
  "run_github_pr env = run_git_role env ''run_github_pr'' ''git'' j_pr_input writing_tools (\<lambda>m. m) pr_failed"

section \<open>CI roles\<close>

definition j_watcher_input :: jtype where
  "j_watcher_input = JObj
     [fld ''repo_path'' JString, fld ''pr_number'' JInt, (''wait_seconds'', JInt, GInt 1500), (''poll_seconds'', JInt, GInt 30),
      fld ''head_sha'' JString]"

definition failed_check_json :: "failed_check \<Rightarrow> gmap" where
  "failed_check_json c =
     [(''name'', GStr (f_name c)), (''workflow'', GStr (f_workflow c)), (''conclusion'', GStr (f_conclusion c)),
      (''details_url'', GStr (f_details c)), (''logs_excerpt'', GStr (f_logs c))]"

definition watch_result_json :: "watch_result \<Rightarrow> gmap" where
  "watch_result_json r =
     [(''status'', GStr (t_status r)), (''pr_number'', GInt (t_pr r)), (''elapsed_seconds'', GInt (t_elapsed r)),
      (''failed_checks'', GMaps (map failed_check_json (t_failed r))), (''summary'', GStr (t_summary r))]"

text \<open>No value where the watcher never comes to a verdict.\<close>

definition run_ci_watcher :: "'x watch_env \<Rightarrow> gmap \<Rightarrow> 'x world \<Rightarrow> ((go_error + gmap) \<times> 'x world) option" where
  "run_ci_watcher env input w =
     (let (m, ok) = map_to_struct j_watcher_input input
      in if \<not> ok then Some (Inl (Plain ''json''), w)
         else map_option (\<lambda>(r, w1). (Inr (watch_result_json r), w1))
                (watch_pr_checks env (as_string (mget m ''repo_path'')) (as_int (mget m ''pr_number'')) (as_int (mget m ''wait_seconds''))
                  (as_int (mget m ''poll_seconds'')) (as_string (mget m ''head_sha'')) w))"

definition resolve_tools :: "string list" where
  "resolve_tools = [''Bash'', ''Read'', ''Edit'', ''Write'', ''Glob'', ''Grep'']"

text \<open>\<open>toCIFailedChecks\<close> and \<open>toReviewComments\<close>: entries that do not decode stay as they are.\<close>

definition typed_entries :: "jtype \<Rightarrow> gval \<Rightarrow> gval" where
  "typed_entries t v = GMaps (map (\<lambda>m. case map_to_struct t m of (d, ok) \<Rightarrow> if ok then d else m) (maps_of v))"

definition j_failed_check :: jtype where
  "j_failed_check = JObj [fld ''name'' JString, fld ''workflow'' JString, fld ''conclusion'' JString, fld ''details_url'' JString,
     fld ''logs_excerpt'' JString]"

definition j_comment :: jtype where
  "j_comment = JObj [fld ''comment_id'' JInt, fld ''thread_id'' JString, fld ''path'' JString, fld ''line'' JInt, fld ''author'' JString,
     fld ''body'' JString, fld ''url'' JString]"

definition run_ci_role :: "'x role_env \<Rightarrow> string \<Rightarrow> jtype \<Rightarrow> (gmap \<Rightarrow> gmap) \<Rightarrow> gmap \<Rightarrow> gmap \<Rightarrow> 'x world \<Rightarrow> (go_error + gmap) \<times> 'x world" where
  "run_ci_role env name t seen failed input w =
     (let (m, ok) = map_to_struct t input
      in if \<not> ok then (Inl (Plain ''json''), w)
         else case runtime_to_harness_adapter (as_string (mget m ''ai_provider'')) of
           Inl e \<Rightarrow> (Inl (Plain e), w)
         | Inr adapter \<Rightarrow>
             (case run_harness env (role_request_of name (seen m) adapter (as_string (mget m ''model'')) resolve_tools
                 (as_string (mget m ''repo_path''))) w of
                (Inl e, w1) \<Rightarrow> if coding_fatal e then (Inl e, w1) else (Inr failed, w1)
              | (Inr (Some v, res), w1) \<Rightarrow> (Inr v, w1)
              | (Inr (None, res), w1) \<Rightarrow> (Inr failed, w1)))"

definition j_fixer_input :: jtype where
  "j_fixer_input = JObj
     [fld ''repo_path'' JString, fld ''pr_number'' JInt, fld ''pr_url'' JString, fld ''integration_branch'' JString,
      fld ''base_branch'' JString, fld ''failed_checks'' (JList JDict), (''iteration'', JInt, GInt 1), (''max_iterations'', JInt, GInt 2),
      fld ''goal'' JString, fld ''completed_issues'' (JList JDict), fld ''previous_attempts'' (JList JDict),
      (''model'', JString, GStr ''sonnet''), fld ''permission_mode'' JString, (''ai_provider'', JString, GStr ''claude'')]"

definition invalid_fixer_report :: string where
  "invalid_fixer_report = ''CI fixer agent failed to produce a valid result.''"

definition fixer_failed :: gmap where
  "fixer_failed =
     [(''fixed'', GBool False), (''files_changed'', GList []), (''commit_sha'', GStr []), (''pushed'', GBool False),
      (''summary'', GStr invalid_fixer_report), (''rejected_workarounds'', GList []), (''error_message'', GStr invalid_fixer_report)]"

definition checks_seen :: "gmap \<Rightarrow> gmap" where
  "checks_seen m = mset m ''failed_checks'' (typed_entries j_failed_check (mget m ''failed_checks''))"

definition run_ci_fixer :: "'x role_env \<Rightarrow> gmap \<Rightarrow> 'x world \<Rightarrow> (go_error + gmap) \<times> 'x world" where
  "run_ci_fixer env = run_ci_role env ''run_ci_fixer'' j_fixer_input checks_seen fixer_failed"

definition j_resolver_input :: jtype where
  "j_resolver_input = JObj
     [fld ''repo_path'' JString, fld ''pr_number'' JInt, fld ''pr_url'' JString, fld ''head_branch'' JString, fld ''base_branch'' JString,
      (''merge_state'', JString, GStr ''skipped''), fld ''conflicted_files'' (JList JString), fld ''failed_checks'' (JList JDict),
      fld ''review_comments'' (JList JDict), fld ''goal'' JString, fld ''additional_context'' JString,
      (''model'', JString, GStr ''sonnet''), fld ''permission_mode'' JString, (''ai_provider'', JString, GStr ''claude'')]"

definition resolver_failed :: gmap where
  "resolver_failed =
     [(''fixed'', GBool False), (''merge_resolved'', GBool False), (''files_changed'', GList []), (''commit_shas'', GList []),
      (''pushed'', GBool False), (''addressed_comments'', GList []), (''summary'', GStr invalid_report),
      (''rejected_workarounds'', GList []), (''error_message'', GStr invalid_report)]"

definition run_pr_resolver :: "'x role_env \<Rightarrow> gmap \<Rightarrow> 'x world \<Rightarrow> (go_error + gmap) \<times> 'x world" where
  "run_pr_resolver env = run_ci_role env ''run_pr_resolver'' j_resolver_input
     (\<lambda>m. mset (checks_seen m) ''review_comments'' (typed_entries j_comment (mget m ''review_comments''))) resolver_failed"

end
