(* ===== verification/GitRolesCorrect.thy ===== *)
theory GitRolesCorrect
  imports GitRoles RolesCorrect
begin

text \<open>When the agent behind the merger is down, no branch of a level is lost: each is recorded as merged or as unmerged.\<close>

section \<open>The merger that is down\<close>

lemma merge_args_plain: "plain_keys (merge_args eng s repo integration bs conflicts level)"
  by (simp add: plain_keys_def merge_args_def to_lower_def)

lemma merger_input_lower: "list_all (\<lambda>x. to_lower (fst x) = fst x) (fields_of j_merger_input)"
  by code_simp

text \<open>The arguments of the second call, for the branches that conflicted.\<close>

lemma retry_args:
  defines "retry \<equiv> \<lambda>eng s repo integration bs bs' conflicts level.
    mset (mset_all [] (merge_args eng s repo integration bs conflicts level)) ''branches_to_merge'' (GMaps bs')"
  shows "plain_keys (retry eng s repo integration bs bs' conflicts level)"
    and "map_of (retry eng s repo integration bs bs' conflicts level) n = map_of (merge_args eng s repo integration bs' conflicts level) n"
  by (simp_all add: retry_def merge_args_def mset_def plain_keys_def to_lower_def)

lemma empty_runtime: "case runtime_to_harness_adapter [] of Inl e \<Rightarrow> True | Inr adapter \<Rightarrow> False"
  by code_simp

lemma merger_bound:
  assumes "int64 level" and plain: "plain_keys args" and args: "\<And>n. map_of args n = map_of (merge_args eng s repo integration bs conflicts level) n"
  shows "\<exists>m. map_to_struct j_merger_input args = (m, True) \<and> mget m ''ai_provider'' = GStr (ai_provider (e_cfg eng)) \<and>
    mget m ''model'' = GStr (model_for (e_cfg eng) ''merger_model'') \<and>
    mget m ''branches_to_merge'' = GList (map (\<lambda>b. GMap (json_map b)) bs)"
proof -
  have level: "decode JInt (GInt 0) (json_trip (GInt level)) = (GInt level, True)" using assms(1) by (simp only: decode_int)
  note bound = map_to_struct_plain [OF plain merger_input_lower [unfolded j_merger_input_def fields_of_def jtype.case], unfolded args]
  show ?thesis
    unfolding j_merger_input_def bound
    by (simp add: repo_fields_def fld_def merge_args_def dicts_trip level decode_dict_list mget_def lookup_def_def comp_def
        del: json_trip.simps(1,4,5) decode.simps(3))
qed

lemma branch_names: "map (\<lambda>b. git_map_str b ''branch_name'' ''?'') (maps_of (GList (map (\<lambda>b. GMap (json_map b)) (map (branch_entry by_name) rs)))) = map r_branch rs"
proof -
  have "maps_of (GList (map (\<lambda>b. GMap (json_map b)) bs)) = map json_map bs" for bs
    by (induction bs) (simp_all add: maps_of_def as_map_slice_def)
  from this [of "map (branch_entry by_name) rs"] show ?thesis
    by (simp only: map_map comp_def) (simp add: git_map_str_def branch_entry_def json_map_def)
qed

text \<open>What a role of the git group does when its agent is down.\<close>

lemma git_role_down:
  assumes "map_to_struct t args = (m, True)" and "mget m ''ai_provider'' = GStr provider" "mget m ''model'' = GStr model"
    and "runtime_to_harness_adapter provider = Inr adapter" and "model \<noteq> []" and "\<And>rq w. agent_down env rq w"
  shows "\<exists>w'. run_git_role env name role t tools seen failed args w = (Inr (failed m), w')"
proof -
  define rq where "rq = role_request_of name (seen m) adapter model tools (as_string (mget m ''repo_path''))"
  obtain a w1 where a: "run_harness env rq w = (a, w1)" by force
  have "provider \<noteq> []" using assms(4) empty_runtime by auto
  then have "run_git_role env name role t tools seen failed args w = (case run_harness env rq w of
        (Inl e, w1) \<Rightarrow> if advisor_fatal e then (Inl e, w1) else (Inr (failed m), w1)
      | (Inr (Some v, res), w1) \<Rightarrow> (Inr v, w1) | (Inr (None, res), w1) \<Rightarrow> (Inr (failed m), w1))"
    using assms(4,5) by (simp add: run_git_role_def assms(1-3) first_non_empty_def git_role_model_def as_string_def rq_def)
  with assms(6) [of rq w] show ?thesis unfolding a agent_down_def by (cases a) auto
qed

text \<open>What the merger reports then: every branch has failed.\<close>

lemma merger_down:
  assumes "runtime_to_harness_adapter (ai_provider (e_cfg eng)) = Inr adapter"
    and "model_for (e_cfg eng) ''merger_model'' \<noteq> []" and "int64 level" and down: "\<And>rq w. agent_down env rq w"
    and plain: "plain_keys args" and args: "\<And>n. map_of args n = map_of (merge_args eng s repo integration (map (branch_entry by_name) rs) conflicts level) n"
  shows "\<exists>res w'. run_merger env args w = (Inr res, w') \<and>
    \<not> as_bool (mget res ''success'') \<and> strs_of (mget res ''merged_branches'') = [] \<and> strs_of (mget res ''failed_branches'') = map r_branch rs"
proof -
  obtain m where m: "map_to_struct j_merger_input args = (m, True)" "mget m ''ai_provider'' = GStr (ai_provider (e_cfg eng))"
    "mget m ''model'' = GStr (model_for (e_cfg eng) ''merger_model'')"
    "mget m ''branches_to_merge'' = GList (map (\<lambda>b. GMap (json_map b)) (map (branch_entry by_name) rs))"
    using merger_bound [OF assms(3) plain args] by blast
  from git_role_down [OF m(1-3) assms(1,2) down] obtain w' where "run_merger env args w = (Inr (merger_failed m), w')"
    unfolding run_merger_def by blast
  moreover have "strs_of (GStrs ss) = ss" for ss by (induction ss) (simp_all add: strs_of_def as_string_slice_def)
  ultimately show ?thesis
    using branch_names [of by_name rs] by (simp add: merger_failed_def mget_Cons as_bool_def m(4) strs_of_def as_string_slice_def del: map_map)
qed

text \<open>The merge by the agent alone, with its one retry.\<close>

lemma agent_merge_down:
  assumes call: "\<And>args w. call (e_node eng @ ''.run_merger'') args w = run_merger env args w"
    and ok: "runtime_to_harness_adapter (ai_provider (e_cfg eng)) = Inr adapter" "model_for (e_cfg eng) ''merger_model'' \<noteq> []" "int64 level"
    and down: "\<And>rq w. agent_down env rq w"
  shows "\<exists>res w'. agent_merge eng call (merge_args eng s repo integration (map (branch_entry by_name) rs) conflicts level) w = (Inr res, w') \<and>
    strs_of (mget res ''merged_branches'') = [] \<and> strs_of (mget res ''failed_branches'') = map r_branch rs"
proof -
  let ?args = "merge_args eng s repo integration (map (branch_entry by_name) rs) conflicts level"
  note reply = merger_down [OF ok down merge_args_plain refl]
  obtain res w1 where 1: "run_merger env ?args w = (Inr res, w1)" "strs_of (mget res ''merged_branches'') = []"
    "strs_of (mget res ''failed_branches'') = map r_branch rs" using reply [of s repo integration by_name rs conflicts w] by blast
  obtain res' w2 where 2: "run_merger env ?args w1 = (Inr res', w2)" "strs_of (mget res' ''merged_branches'') = []"
    "strs_of (mget res' ''failed_branches'') = map r_branch rs" using reply [of s repo integration by_name rs conflicts w1] by blast
  have "agent_merge eng call ?args w = (if \<not> as_bool (mget res ''success'') \<and> strs_of (mget res ''failed_branches'') \<noteq> [] then (Inr res', w2) else (Inr res, w1))"
    by (simp only: agent_merge_def call 1(1) 2(1) prod.case sum.case)
  then show ?thesis using 1(2,3) 2(2,3) by (cases "\<not> as_bool (mget res ''success'') \<and> strs_of (mget res ''failed_branches'') \<noteq> []") auto
qed

text \<open>The second call, for the branches that git could not merge.\<close>

lemma retry_down:
  assumes ok: "runtime_to_harness_adapter (ai_provider (e_cfg eng)) = Inr adapter" "model_for (e_cfg eng) ''merger_model'' \<noteq> []" "int64 level"
    and down: "\<And>rq w. agent_down env rq w"
  shows "\<exists>res w'. run_merger env (mset (mset_all [] (merge_args eng s repo integration bs conflicts level)) ''branches_to_merge''
      (GMaps (map (branch_entry by_name) rs))) w = (Inr res, w') \<and>
    strs_of (mget res ''merged_branches'') = [] \<and> strs_of (mget res ''failed_branches'') = map r_branch rs"
  using merger_down [OF ok down retry_args(1) retry_args(2)] by blast

lemma conflicted_entries:
  "filter (\<lambda>b. get_str b ''branch_name'' [] \<in> S) (map (branch_entry by_name) rs) = map (branch_entry by_name) (filter (\<lambda>r. r_branch r \<in> S) rs)"
  by (simp add: filter_map comp_def branch_entry_def get_str_def)

lemma dispatch_down:
  assumes call: "\<And>args w. call (e_node eng @ ''.run_merger'') args w = run_merger env args w"
    and ok: "runtime_to_harness_adapter (ai_provider (e_cfg eng)) = Inr adapter" "model_for (e_cfg eng) ''merger_model'' \<noteq> []" "int64 level"
    and down: "\<And>rq w. agent_down env rq w" and bs_def: "bs = map (branch_entry by_name) rs"
  shows "\<exists>res w'. dispatch_merge eng call repo integration bs (merge_args eng s repo integration bs conflicts level) level w = (Inr res, w') \<and>
    set (map r_branch rs) \<subseteq> set (strs_of (mget res ''merged_branches'')) \<union> set (strs_of (mget res ''failed_branches'')) \<and>
    (\<not> c_deterministic_git (e_cfg eng) \<longrightarrow> strs_of (mget res ''merged_branches'') = [])"
proof -
  let ?args = "merge_args eng s repo integration bs conflicts level"
  have agent: "\<exists>res w'. agent_merge eng call ?args w = (Inr res, w') \<and>
    strs_of (mget res ''merged_branches'') = [] \<and> strs_of (mget res ''failed_branches'') = map r_branch rs" for w
    unfolding bs_def by (rule agent_merge_down [OF _ ok down]) (rule call)
  show ?thesis
  proof (cases "c_deterministic_git (e_cfg eng)")
    case False
    then have "dispatch_merge eng call repo integration bs ?args level w = agent_merge eng call ?args w" by (simp add: dispatch_merge_def)
    with agent [of w] False show ?thesis by auto
  next
    case True
    let ?names = "map (\<lambda>b. as_string (mget b ''branch_name'')) bs"
    have names: "?names = map r_branch rs" by (simp add: bs_def branch_entry_def mget_Cons as_string_def)
    obtain a w1 where fast: "fast_merge_branches (e_git eng) repo integration ?names level w = (a, w1)" by force
    show ?thesis
    proof (cases a)
      case (Inl e)
      with True fast have "dispatch_merge eng call repo integration bs ?args level w = agent_merge eng call ?args w1"
        by (simp add: dispatch_merge_def)
      with agent [of w1] True show ?thesis by auto
    next
      case (Inr res)
      let ?merged = "strs_of (mget res ''merged_branches'')" and ?failed = "strs_of (mget res ''failed_branches'')"
      from fast Inr have "fast_merge_branches (e_git eng) repo integration ?names level w = (Inr res, w1)" by simp
      from fast_merge_accounts [OF this] have count: "\<forall>b. count_list ?merged b + count_list ?failed b = count_list (map r_branch rs) b"
        unfolding names by auto
      have cover: "set (map r_branch rs) \<subseteq> set ?merged \<union> set ?failed"
      proof
        fix b assume "b \<in> set (map r_branch rs)"
        then have "count_list (map r_branch rs) b \<noteq> 0" by (simp only: count_list_0_iff not_not)
        with count have "count_list ?merged b \<noteq> 0 \<or> count_list ?failed b \<noteq> 0" by (metis add_0)
        then show "b \<in> set ?merged \<union> set ?failed" by (auto simp only: count_list_0_iff not_not Un_iff)
      qed
      show ?thesis
      proof (cases "?failed = []")
        case clean: True
        with True fast Inr have "dispatch_merge eng call repo integration bs ?args level w = (Inr res, w1)" by (simp add: dispatch_merge_def)
        with cover True clean show ?thesis by auto
      next
        case False
        let ?conflicted = "filter (\<lambda>b. get_str b ''branch_name'' [] \<in> set ?failed) bs"
        let ?again = "mset (mset_all [] ?args) ''branches_to_merge'' (GMaps ?conflicted)"
        obtain agent w2 where again: "run_merger env ?again w1 = (Inr agent, w2)" "strs_of (mget agent ''merged_branches'') = []"
          "strs_of (mget agent ''failed_branches'') = map r_branch (filter (\<lambda>r. r_branch r \<in> set ?failed) rs)"
          using retry_down [OF ok down, of s repo integration bs conflicts by_name "filter (\<lambda>r. r_branch r \<in> set ?failed) rs" w1]
          unfolding conflicted_entries [symmetric] bs_def by blast
        have "dispatch_merge eng call repo integration bs ?args level w = (Inr (combine_merge_results res agent), w2)"
          using True fast Inr False again(1) by (simp add: dispatch_merge_def Let_def call del: mset_all.simps)
        moreover have "set (map r_branch rs) \<subseteq> set (strs_of (mget (combine_merge_results res agent) ''merged_branches'')) \<union>
            set (strs_of (mget (combine_merge_results res agent) ''failed_branches''))"
          using cover again(2,3) combined_merge_success [of res agent] by auto
        ultimately show ?thesis using True by blast
      qed
    qed
  qed
qed

text \<open>
  When the agent behind the merger is down, no branch of a level is lost. In a build over one repository, with a
  provider and a model set, the merge of a level that has completed a branch comes to an end, and every branch of a completed
  issue is then recorded as merged or as unmerged in the state; without deterministic git, which merges by itself what
  it can and calls the agent for the rest, none is recorded as merged.
\<close>

theorem merger_down_accounts:
  assumes "\<And>args w. call (e_node eng @ ''.run_merger'') args w = run_merger env args w" and "\<And>rq w. agent_down env rq w"
    and "runtime_to_harness_adapter (ai_provider (e_cfg eng)) = Inr adapter" and "model_for (e_cfg eng) ''merger_model'' \<noteq> []"
    and "int64 (l_index l)" and "d_manifest s = None" and "r \<in> set (l_completed l)" and "r_branch r \<noteq> []"
  shows "\<exists>res s' w'. merge_level_branches eng call s l by_name conflicts w = (Inr (Some res), s', w') \<and>
    (\<forall>r \<in> set (l_completed l). r_branch r \<noteq> [] \<longrightarrow> r_branch r \<in> set (d_merged s') \<union> set (d_unmerged s')) \<and>
    (\<not> c_deterministic_git (e_cfg eng) \<longrightarrow> d_merged s' = d_merged s)"
proof -
  let ?rs = "filter (\<lambda>r. r_branch r \<noteq> []) (l_completed l)"
  let ?bs = "map (branch_entry by_name) ?rs"
  have "\<exists>res w'. dispatch_merge eng call (d_repo_path s) (d_integration_branch s) ?bs
      (merge_args eng s (d_repo_path s) (d_integration_branch s) ?bs conflicts (l_index l)) (l_index l) w = (Inr res, w') \<and>
      set (map r_branch ?rs) \<subseteq> set (strs_of (mget res ''merged_branches'')) \<union> set (strs_of (mget res ''failed_branches'')) \<and>
      (\<not> c_deterministic_git (e_cfg eng) \<longrightarrow> strs_of (mget res ''merged_branches'') = [])"
    by (rule dispatch_down [where rs = ?rs and by_name = by_name, OF _ assms(3,4,5)]) (use assms(1,2) in auto)
  then obtain res w' where d: "dispatch_merge eng call (d_repo_path s) (d_integration_branch s) ?bs
      (merge_args eng s (d_repo_path s) (d_integration_branch s) ?bs conflicts (l_index l)) (l_index l) w = (Inr res, w')"
    and cover: "set (map r_branch ?rs) \<subseteq> set (strs_of (mget res ''merged_branches'')) \<union> set (strs_of (mget res ''failed_branches''))"
    and none: "\<not> c_deterministic_git (e_cfg eng) \<longrightarrow> strs_of (mget res ''merged_branches'') = []"
    by blast
  have "?rs \<noteq> []" using assms(7,8) by (auto simp: filter_empty_conv)
  then have "merge_level_branches eng call s l by_name conflicts w = (Inr (Some res), record_merge res res s, w')"
    using assms(6) d by (simp add: merge_level_branches_def Let_def)
  moreover have "\<forall>r \<in> set (l_completed l). r_branch r \<noteq> [] \<longrightarrow> r_branch r \<in> set (d_merged (record_merge res res s)) \<union> set (d_unmerged (record_merge res res s))"
    using cover by (auto simp: record_merge_def)
  ultimately show ?thesis using none by (auto simp: record_merge_def)
qed

section \<open>On a small engine\<close>

text \<open>The merger's agent is down, and one issue has a branch.\<close>

definition merging_call :: "unit call" where
  "merging_call target args w = (if target = ''n.run_merger'' then run_merger idle_roles args w else (Inr [], w))"

definition merging_engine :: "unit engine" where
  "merging_engine = (demo_engine merging_call)\<lparr>e_cfg := (default_execution_config (\<lambda>k. []))
     \<lparr>c_models := [(''merger_model'', ''m'')], c_deterministic_git := False\<rparr>\<rparr>"

definition branch_level :: level_result where
  "branch_level = \<lparr>l_index = 0, l_completed = [zero_result\<lparr>r_name := ''a'', r_branch := ''issue/01-a''\<rparr>], l_failed = [], l_skipped = []\<rparr>"

theorem merger_down_accounts_witness:
  "\<exists>res s' w'. merge_level_branches merging_engine merging_call zero_state branch_level [] [] demo_world = (Inr (Some res), s', w') \<and>
    ''issue/01-a'' \<in> set (d_unmerged s')"
proof -
  have down: "agent_down idle_roles rq w" for rq w
    by (simp add: agent_down_def run_harness_def idle_roles_def check_fatal_harness_error_def)
  have cfg: "case runtime_to_harness_adapter (ai_provider (e_cfg merging_engine)) of Inr a \<Rightarrow> True | Inl e \<Rightarrow> False"
    "model_for (e_cfg merging_engine) ''merger_model'' \<noteq> []" "int64 (l_index branch_level)" "d_manifest zero_state = None"
    "\<not> c_deterministic_git (e_cfg merging_engine)" "d_merged zero_state = []" "e_node merging_engine = ''n''"
    by code_simp+
  then obtain adapter where adapter: "runtime_to_harness_adapter (ai_provider (e_cfg merging_engine)) = Inr adapter" by (auto split: sum.splits)
  have "merging_call (e_node merging_engine @ ''.run_merger'') args w = run_merger idle_roles args w" for args w
    unfolding cfg(7) by (simp add: merging_call_def)
  from merger_down_accounts [of merging_call merging_engine idle_roles adapter branch_level zero_state
      "zero_result\<lparr>r_name := ''a'', r_branch := ''issue/01-a''\<rparr>" "[]" "[]" demo_world, OF this down adapter cfg(2-4)]
  obtain res s' w' where "merge_level_branches merging_engine merging_call zero_state branch_level [] [] demo_world = (Inr (Some res), s', w')"
    "\<forall>r \<in> set (l_completed branch_level). r_branch r \<noteq> [] \<longrightarrow> r_branch r \<in> set (d_merged s') \<union> set (d_unmerged s')" "d_merged s' = []"
    using cfg(5,6) by (auto simp: branch_level_def)
  then show ?thesis by (auto simp: branch_level_def)
qed

end
