(* ===== verification/NodeSurface.thy ===== *)
theory NodeSurface
  imports Pro FurrowNode
begin

text \<open>
  Which reasoners a node offers, \<open>node/register.go\<close>: the names it registers, in order, with the tags a caller
  discovers. The order within one group of handlers is that of a Go map, so any order is as good as the one of
  the lists here. Descriptions and input schemas are left out.
\<close>

section \<open>Groups of reasoners\<close>

type_synonym surface = "(string \<times> string list) list"

definition planning_roles :: "string list" where
  "planning_roles = [''run_product_manager'', ''run_environment_scout'', ''run_architect'', ''run_tech_lead'', ''run_sprint_planner'']"

definition coding_roles :: "string list" where
  "coding_roles = [''run_coder'', ''run_qa'', ''run_code_reviewer'', ''run_qa_synthesizer'']"

definition gitops_roles :: "string list" where
  "gitops_roles = [''run_git_init'', ''run_workspace_setup'', ''run_workspace_cleanup'', ''run_merger'', ''run_integration_tester'',
     ''run_repo_finalize'', ''run_github_pr'']"

definition advisor_roles :: "string list" where
  "advisor_roles = [''run_retry_advisor'', ''run_issue_advisor'', ''run_replanner'', ''run_issue_writer'', ''run_verifier'', ''generate_fix_issues'']"

definition ci_roles :: "string list" where
  "ci_roles = [''run_ci_watcher'', ''run_ci_fixer'', ''run_pr_resolver'']"

definition register_roles :: surface where
  "register_roles = map (\<lambda>name. (name, [''swe-planner'', ''internal'']))
     (planning_roles @ coding_roles @ gitops_roles @ advisor_roles @ ci_roles)"

definition orchestrator_entrypoints :: "string list" where
  "orchestrator_entrypoints = [''build'', ''plan'', ''resolve'', ''resume_build'']"

text \<open>The orchestrators, with the external coder that calls without a target are to use.\<close>

definition register_orchestrators :: "'x pro_env \<Rightarrow> string \<Rightarrow> 'x world \<Rightarrow> surface \<times> string" where
  "register_orchestrators env node w =
     (map (\<lambda>name. (name, if name \<in> set orchestrator_entrypoints then [''entrypoint''] else []))
        [''build'', ''plan'', ''execute'', ''resolve'', ''resume_build''],
      if pro_available env w then node @ ''.pro_execute'' else [])"

definition register_pro :: surface where
  "register_pro = [(''pro_execute'', [''swe-planner'', ''internal''])]"

definition register_workspace_handle :: surface where
  "register_workspace_handle = [(''get_workspace_handle'', [''entrypoint''])]"

definition register_issue :: surface where
  "register_issue = [(''implement_issue'', [''swe-issue-go'', ''entrypoint''])]"

definition register_fast_reasoners :: surface where
  "register_fast_reasoners = map (\<lambda>name. (name, if name = ''build'' then [''entrypoint''] else [''swe-fast'']))
     [''build'', ''fast_plan_tasks'', ''fast_execute_tasks'', ''fast_verify'']"

definition furrow_enabled :: "furrow option \<Rightarrow> bool" where
  "furrow_enabled m = (case m of None \<Rightarrow> False | Some f \<Rightarrow> fw_enabled f)"

section \<open>The nodes\<close>

text \<open>The planner's surface and the default coder of its orchestrators, where it has any.\<close>

definition register_planner :: "'x pro_env \<Rightarrow> string \<Rightarrow> furrow option \<Rightarrow> 'x world \<Rightarrow> surface \<times> string option" where
  "register_planner env node m w =
     (if pro_available env w then (register_roles @ register_pro, None)
      else let (orchestrators, coder) = register_orchestrators env node w
      in (register_roles @ orchestrators @ (if furrow_enabled m then register_workspace_handle else []) @ register_issue, Some coder))"

definition register_fast :: surface where
  "register_fast = register_roles @ register_fast_reasoners @ register_issue"

definition entry_points :: "surface \<Rightarrow> string list" where
  "entry_points s = map fst (filter (\<lambda>(name, tags). ''entrypoint'' \<in> set tags) s)"

text \<open>
  A planner node offers every reasoner under one name, all the roles, and either the pro executor and nothing
  to start a run from, or the entry points and no pro executor. So the default coder of its orchestrators is
  always empty, and no build is ever routed to the pro engine of its own node. The fast node offers the roles,
  its own build and the issue-level entry.
\<close>

theorem planner_surface:
  "distinct (map fst (fst (register_planner env node m w))) \<and>
   map fst register_roles = take 25 (map fst (fst (register_planner env node m w))) \<and>
   (if pro_available env w
    then map fst (drop 25 (fst (register_planner env node m w))) = [''pro_execute''] \<and>
      entry_points (fst (register_planner env node m w)) = [] \<and> snd (register_planner env node m w) = None
    else ''pro_execute'' \<notin> fst ` set (fst (register_planner env node m w)) \<and>
      set (entry_points (fst (register_planner env node m w))) =
        {''build'', ''plan'', ''resolve'', ''resume_build'', ''implement_issue''} \<union> (if furrow_enabled m then {''get_workspace_handle''} else {}) \<and>
      snd (register_planner env node m w) = Some []) \<and>
   distinct (map fst register_fast) \<and> set (entry_points register_fast) = {''build'', ''implement_issue''}"
  by (cases "pro_available env w"; cases "furrow_enabled m")
    (simp_all add: register_planner_def register_orchestrators_def register_pro_def register_workspace_handle_def register_issue_def
      register_fast_def register_fast_reasoners_def register_roles_def planning_roles_def coding_roles_def gitops_roles_def
      advisor_roles_def ci_roles_def entry_points_def orchestrator_entrypoints_def insert_commute)

end
