(* ===== verification/Spec2Isabelle.thy ===== *)
theory Spec2Isabelle
  imports RunGates BuildCorrect ExecuteCorrect ResolveCorrect ApprovalCorrect IssueBuildCorrect FastCorrect FurrowAccess ProCorrect RolesCorrect RetryLogCorrect PlanningRoles GitRolesCorrect NodeSurface
begin

text \<open>
  A verification development for the SWE-AF engine (the Go port under \<open>src/go/internal\<close>): the
  autonomous build loop that turns a plan of issues into merged branches.

  \<^bold>\<open>The program.\<close> A plan is a list of issues (JSON dictionaries) in levels: the issues of a level
  run concurrently, the levels one after the other. \<open>RunDAG\<close> (\<open>dag/executor.go\<close>) is the outer loop:
  it sets up a git worktree per issue, executes a level, merges the branches, books the debt of
  issues accepted with debt, splits issues the advisor wants split, and asks a replanner when issues
  failed for good. \<open>executeSingleIssue\<close> (\<open>dag/gates.go\<close>) is the middle loop: it runs the coding loop and
  asks the issue advisor what to do with a failure. \<open>RunCodingLoop\<close> (\<open>coding/loop.go\<close>) is the inner
  loop: coder, then reviewer (or QA, reviewer and synthesizer), until the code is approved, blocked,
  stuck or the iterations are used up. All loops checkpoint to JSON files and can resume.

  \<^bold>\<open>The theories\<close>, in the order they build on each other (paths under \<open>src/go/internal\<close>):

  \<^item> \<open>Prelude\<close>, \<open>GoValue\<close>: lists, strings and JSON-like values (\<open>map[string]any\<close> is an association list
    \<open>gmap\<close> of \<open>gval\<close>s) with the coercions of \<open>dagutil\<close>, \<open>coding/helpers.go\<close>, \<open>dag/helpers.go\<close>.
  \<^item> \<open>Levels\<close>, \<open>LevelsCorrect\<close>, \<open>Downstream\<close>, \<open>PlanChecks\<close>, \<open>Replan\<close>: \<open>dagutil/dagutil.go\<close>. Kahn's algorithm and
    its two users behind one locale, the breadth-first search for dependents, file conflicts,
    sequence numbers, and \<open>ApplyReplan\<close>.
  \<^item> \<open>World\<close>, \<open>Memory\<close>: what a step can observe and change (files, shared memory, cancellation and an
    abstract rest), calls with their error classes, and the shared memory of \<open>coding/memory.go\<close>.
  \<^item> \<open>Schemas\<close>, \<open>Codec\<close>: the structs of \<open>schemas/execution.go\<close> and their JSON encoding and decoding.
  \<^item> \<open>Config\<close>: runtimes and model resolution of \<open>config/resolve.go\<close> and \<open>runtimex/providers.go\<close>.
  \<^item> \<open>ConfigLoad\<close>, \<open>ConfigCorrect\<close>: the configurations of builds, executions, fast builds and single issues,
    loaded from raw maps (\<open>config/legacy.go\<close>, \<open>buildconfig.go\<close>, \<open>executionconfig.go\<close>, \<open>fastconfig.go\<close>,
    \<open>issueconfig.go\<close>), and how they are handed on to the engine.
  \<^item> \<open>CodingLoop\<close>, \<open>CodingCorrect\<close>: \<open>coding/loop.go\<close> and \<open>coding/artifacts.go\<close>.
  \<^item> \<open>GitFast\<close>, \<open>Worktree\<close>, \<open>WorktreeCorrect\<close>: \<open>dag/gitfast.go\<close> and \<open>dag/worktree.go\<close>.
  \<^item> \<open>IssueRun\<close>, \<open>IssueCorrect\<close>: \<open>dag/gates.go\<close>.
  \<^item> \<open>DagRun\<close>, \<open>DagCorrect\<close>, \<open>RunInvariant\<close>, \<open>RunCorrect\<close>, \<open>RunLedger\<close>, \<open>RunAccounts\<close>, \<open>RunGates\<close>: \<open>dag/executor.go\<close>
    and \<open>dag/checkpoint.go\<close>, and the properties of whole runs; \<open>RunLedger\<close> is their abstract specification.
  \<^item> \<open>Failures\<close>, \<open>CiWatch\<close>, \<open>CiGate\<close>: fatal errors and timeouts (\<open>fatal/fatal.go\<close>), the envelopes of the control
    plane (\<open>envelope/envelope.go\<close>, \<open>orch/common.go\<close>), the CI watcher (\<open>cigate/watch.go\<close>) and the gate
    that lets a fixer work on failing checks (\<open>orch/cigate_loop.go\<close>).
  \<^item> \<open>Orch\<close>, \<open>HostDemo\<close>: what the orchestrators share (\<open>orch/common.go\<close>, \<open>clone_repos.go\<close>, \<open>repohygiene.go\<close>), and a
    concrete host for the witnesses.
  \<^item> \<open>PlanRun\<close>, \<open>PlanCorrect\<close> (\<open>orch/plan.go\<close>); \<open>BuildRun\<close>, \<open>BuildCorrect\<close> (\<open>orch/build.go\<close>); \<open>Execute\<close>, \<open>ExecuteCorrect\<close>
    (\<open>orch/execute.go\<close>, \<open>resume.go\<close>); \<open>ResolveRun\<close>, \<open>ResolveCorrect\<close> (\<open>orch/resolve.go\<close>); \<open>ApprovalGate\<close>, \<open>ApprovalCorrect\<close>
    (\<open>orch/approval_gate.go\<close>): the entry points of the planner node, which call the engine and the roles by name.
  \<^item> \<open>Credentials\<close>, \<open>HumanInput\<close>, \<open>HumanCorrect\<close>: \<open>internal/hitl\<close>, forms, questions, pauses and scoped secrets.
  \<^item> \<open>IssueBuild\<close>, \<open>IssueBuildCorrect\<close> (\<open>internal/issue\<close>): one issue on a branch of its own. \<open>Paths\<close>, \<open>FastBuild\<close>,
    \<open>FastCorrect\<close> (\<open>internal/fast\<close>): the single-pass build.
  \<^item> \<open>Furrow\<close>, \<open>FurrowNode\<close>, \<open>FurrowDaemon\<close>, \<open>FurrowCorrect\<close>, \<open>FurrowAccess\<close>: the workspace mirror (\<open>internal/furrow\<close>,
    \<open>cmd/furrowd\<close>, \<open>cmd/furrow-dial\<close>, \<open>node/node.go\<close>).
  \<^item> \<open>Pro\<close>, \<open>ProCorrect\<close> (\<open>internal/pro\<close>): the external coding engine and its adapter. \<open>NodeSurface\<close> (\<open>node/register.go\<close>):
    which reasoners a node registers. \<open>PlainKeys\<close>: decoding of maps with plain keys, which these proofs share.
  \<^item> \<open>Roles\<close>, \<open>AdvisorRoles\<close>, \<open>RolesCorrect\<close> (\<open>roles/coding\<close>, \<open>roles/advisor\<close>); \<open>RetryLog\<close>, \<open>PlanningRoles\<close>, \<open>RetryLogCorrect\<close>
    (\<open>roles/planning\<close>); \<open>GitRoles\<close>, \<open>GitRolesCorrect\<close> (\<open>roles/gitops\<close>, \<open>roles/ci\<close>): the reasoners behind the calls of the
    engine: how a request is bound, which agent is asked with what, and what is answered when the agent fails.

  \<^bold>\<open>Parameters.\<close> The agents are behind one function \<open>call\<close> from a target, its arguments and the world
  to an answer or an error and the world; git is a function from arguments to output and exit code;
  clock and ids are in \<open>env\<close>; \<open>gh\<close>, the parser of JSON text and the watcher's clock are in \<open>watch_env\<close>;
  environment variables are a function \<open>getenv\<close>. The orchestrators get a \<open>host\<close> (calls, commands, files, directories),
  the human side \<open>hitl_env\<close> and \<open>approval_env\<close> (HTTP, the pause), the other builds \<open>issue_deps\<close> and \<open>fast_deps\<close>, the mirror
  \<open>furrow_env\<close> (the furrow command, files, sizes, the clock), the pro engine \<open>pro_env\<close>, the roles \<open>role_env\<close> and
  \<open>planning_env\<close> (the harness and the language model). Nothing is assumed about any of them unless a theorem says so: they may
  change the whole world. So the theorems hold for every behaviour of the agents, of git and of the services.

  \<^bold>\<open>What is shown.\<close> Kahn: the levels are a topological partition, and the error cases are exactly the
  cycles and repeated names. Replans: settled issues are kept, a cycle rejects the plan. Coding loop:
  results agree with the history, the only errors are fatal ones, iterations are bounded. Advisor
  loop: bounded invocations. A level: no issue lost or invented. Merges and worktrees: every branch
  accounted for, distinct issues isolated. Whole runs: no issue has two results, no result is lost (refinement of the
  ledger), runs without splits end within their replan budget and settle every scheduled issue. Builds, fast builds, issue
  builds and resolutions: success is reported only on the evidence their texts name. Configuration: it
  reaches the engine, a resume continues from the checkpoint, an accepted plan runs without panic. Humans: no plan goes on
  unapproved where approval is required, questions are bounded, secrets stay in their scope and out of the retry log. Mirror:
  sweeps stay below the root and spare live runs, a token opens the directory of its own run, connections are bounded.
  Roles: what the engine is told when an agent is down. Some theorems prove what is wrong with the code: their text says so.

  \<^bold>\<open>Loops and bounds.\<close> Kahn's loop terminates by the sum of the pending in-degrees; the coding loop and
  the advisor loop count the iterations left, which the code bounds as well; \<open>run_levels\<close> is a partial
  function, as agents can split issues forever, and \<open>run_without_splits_returns\<close> shows where it ends.
  \<open>run_upto\<close> unrolls it to evaluate the witnesses. The CI watcher polls as long as its clock stands still,
  so \<open>watch_loop\<close> is partial too, and \<open>watch_returns\<close> shows that it ends when time passes; the CI gate, the rounds of review,
  approval, verification and questions, and the schema retries count down what their configuration allows.

  \<^bold>\<open>Concurrency.\<close> The issues of a level are executed one after the other: they share only the world and
  the memory, and a call may change both, so what the others do meanwhile is part of its behaviour.
  The theorems do not depend on an order. A background cleanup runs where it is started. The connections of the mirror's
  daemon are a transition system with every interleaving; closing the listener and the open connections at shutdown is
  one step of it, accepting stays possible afterwards, and the final wait for the workers is not modelled.

  \<^bold>\<open>Approximations.\<close> Where the model is coarser than the code:
  \<^item> After an error in a nested value with a decoder of its own, \<open>decode\<close> goes on with the later fields, as after other
    errors; \<open>encoding/json\<close> stops there. Either way the error is reported.
  \<^item> A file that cannot be written keeps its contents; \<open>os.WriteFile\<close> may leave it truncated.
  \<^item> Strings pass through JSON unchanged; Go replaces bytes that are no UTF-8.
  \<^item> The failure threshold compares rationals, the code their quotient as a float. Floats are decimals; integer
    arithmetic on iteration counters and sequence numbers is unbounded, since these stay far below the 64-bit range.
  \<^item> The shared memory is not emptied between runs: a run may find any memory.
  \<^item> The states of the mirror's registry are those reached from an empty one, not from a file read at start;
    the theorems on sweeps hold for every registry.
  \<^item> The credentials of a build do not change while one planning role runs.

  \<^bold>\<open>Not modelled:\<close> the texts of the prompts (\<open>prompts\<close>), of notes, log messages and progress events; the harness behind
  \<open>harnessx.Run\<close>; the configuration of the agents, the descriptions and schemas of registered reasoners; process start,
  pipes, TLS, certificates and sockets; the command line and the HTTP server of the nodes.
\<close>

end
